(* ===== verification/Prelude.thy ===== *)
theory Prelude
  imports Main "HOL-Library.Word"
begin

text \<open>
  What every component of the development shares: Rust's fallible results and the control
  flow of a handler (\<open>require!\<close>, \<open>ok_or(..)?\<close>, \<open>?\<close>), Rust's checked and saturating
  integer operations on words of a fixed width, \<open>i64\<close> arithmetic on \<open>int\<close> with the range
  written out, and sums of a measure over the accounts of a finite map.

  A lemma in \<open>rust_arith\<close> reads a word operation as arithmetic on \<open>int\<close>; a lemma in
  \<open>result_iff\<close> says when a fallible computation returns a given value.
\<close>

named_theorems rust_arith "word operations read as integer arithmetic"
named_theorems result_iff "when a fallible computation succeeds"

section \<open>Machine integers\<close>

type_synonym u8 = "8 word"
type_synonym u16 = "16 word"
type_synonym u32 = "32 word"
type_synonym u64 = "64 word"
type_synonym u128 = "128 word"
type_synonym i64 = int
type_synonym pubkey = "256 word"

text \<open>Rust's \<open>checked_*\<close>: \<open>None\<close> where the mathematical result does not fit.\<close>

definition checked_add :: "'a::len word \<Rightarrow> 'a word \<Rightarrow> 'a word option" where
  "checked_add a b = (if uint a + uint b < 2 ^ LENGTH('a) then Some (a + b) else None)"

definition checked_sub :: "'a::len word \<Rightarrow> 'a word \<Rightarrow> 'a word option" where
  "checked_sub a b = (if b \<le> a then Some (a - b) else None)"

definition checked_mul :: "'a::len word \<Rightarrow> 'a word \<Rightarrow> 'a word option" where
  "checked_mul a b = (if uint a * uint b < 2 ^ LENGTH('a) then Some (a * b) else None)"

definition checked_div :: "'a::len word \<Rightarrow> 'a word \<Rightarrow> 'a word option" where
  "checked_div a b = (if b = 0 then None else Some (a div b))"

text \<open>Rust's \<open>saturating_*\<close>: the nearest representable value.\<close>

definition saturating_add :: "'a::len word \<Rightarrow> 'a word \<Rightarrow> 'a word" where
  "saturating_add a b = (if uint a + uint b < 2 ^ LENGTH('a) then a + b else - 1)"

definition saturating_sub :: "'a::len word \<Rightarrow> 'a word \<Rightarrow> 'a word" where
  "saturating_sub a b = (if b \<le> a then a - b else 0)"

definition saturating_mul :: "'a::len word \<Rightarrow> 'a word \<Rightarrow> 'a word" where
  "saturating_mul a b = (if uint a * uint b < 2 ^ LENGTH('a) then a * b else - 1)"

text \<open>\<open>u64::try_from(x).unwrap_or(u64::MAX)\<close> on a \<open>u128\<close>.\<close>

definition u64_try_from_or_max :: "u128 \<Rightarrow> u64" where
  "u64_try_from_or_max x = (if uint x < 2 ^ 64 then ucast x else - 1)"

text \<open>An \<open>as\<close> cast between unsigned widths is \<open>ucast\<close>: it keeps the low bits.\<close>

abbreviation as_u64 :: "'a::len word \<Rightarrow> u64" where "as_u64 x \<equiv> ucast x"
abbreviation as_u128 :: "'a::len word \<Rightarrow> u128" where "as_u128 x \<equiv> ucast x"

lemma uint_add_exact:
  fixes a b :: "'a::len word"
  assumes "uint a + uint b < 2 ^ LENGTH('a)"
  shows "uint (a + b) = uint a + uint b"
  using assms by (simp add: uint_plus_if_size word_size)

lemma uint_mult_exact:
  fixes a b :: "'a::len word"
  assumes "uint a * uint b < 2 ^ LENGTH('a)"
  shows "uint (a * b) = uint a * uint b"
  using assms by (simp add: uint_word_ariths)

lemma uint_sub_exact:
  fixes a b :: "'a::len word"
  assumes "b \<le> a"
  shows "uint (a - b) = uint a - uint b"
  using assms by (simp add: uint_minus_simple_alt)

lemma checked_add_iff [result_iff]:
  fixes a b :: "'a::len word"
  shows "checked_add a b = Some c \<longleftrightarrow> uint a + uint b < 2 ^ LENGTH('a) \<and> c = a + b"
  by (auto simp: checked_add_def)

lemma checked_sub_iff [result_iff]:
  "checked_sub a b = Some c \<longleftrightarrow> b \<le> a \<and> c = a - b"
  by (auto simp: checked_sub_def)

lemma checked_mul_iff [result_iff]:
  fixes a b :: "'a::len word"
  shows "checked_mul a b = Some c \<longleftrightarrow> uint a * uint b < 2 ^ LENGTH('a) \<and> c = a * b"
  by (auto simp: checked_mul_def)

lemma checked_div_iff [result_iff]:
  "checked_div a b = Some c \<longleftrightarrow> b \<noteq> 0 \<and> c = a div b"
  by (auto simp: checked_div_def)

lemma checked_addD: "checked_add a b = Some c \<Longrightarrow> uint c = uint a + uint b"
  by (auto simp: checked_add_iff uint_add_exact)

lemma checked_subD: "checked_sub a b = Some c \<Longrightarrow> uint c = uint a - uint b \<and> uint b \<le> uint a"
  by (auto simp: checked_sub_iff uint_sub_exact word_le_def)

lemma checked_mulD: "checked_mul a b = Some c \<Longrightarrow> uint c = uint a * uint b"
  by (auto simp: checked_mul_iff uint_mult_exact)

lemma uint_saturating_add [rust_arith]:
  fixes a b :: "'a::len word"
  shows "uint (saturating_add a b) = min (2 ^ LENGTH('a) - 1) (uint a + uint b)"
  by (auto simp: saturating_add_def uint_add_exact unsigned_minus_1_eq_mask mask_eq_exp_minus_1)

lemma uint_saturating_sub [rust_arith]:
  "uint (saturating_sub a b) = max 0 (uint a - uint b)"
  by (auto simp: saturating_sub_def uint_sub_exact word_le_def)

lemma uint_saturating_mul [rust_arith]:
  fixes a b :: "'a::len word"
  shows "uint (saturating_mul a b) = min (2 ^ LENGTH('a) - 1) (uint a * uint b)"
  by (auto simp: saturating_mul_def uint_mult_exact unsigned_minus_1_eq_mask mask_eq_exp_minus_1)

lemma uint_bounds64: "0 \<le> uint (x :: u64)" "uint (x :: u64) < 2 ^ 64"
  using uint_lt2p [of x] by simp_all

lemma uint_bounds128: "0 \<le> uint (x :: u128)" "uint (x :: u128) < 2 ^ 128"
  using uint_lt2p [of x] by simp_all

lemma uint_as_u128 [simp]: "uint (ucast (x :: u64) :: u128) = uint x"
  using uint_lt2p [of x] by (simp add: unsigned_ucast_eq take_bit_int_eq_self)

lemma uint_u64_try_from_or_max [rust_arith]:
  "uint (u64_try_from_or_max x) = min (2 ^ 64 - 1) (uint x)"
  by (auto simp: u64_try_from_or_max_def unsigned_ucast_eq take_bit_int_eq_self
      unsigned_minus_1_eq_mask mask_eq_exp_minus_1 min_def)

lemma uint_word_less: "a < b \<longleftrightarrow> uint a < uint b" for a b :: "'a::len word"
  by (simp add: word_less_def)

lemma uint_word_le: "a \<le> b \<longleftrightarrow> uint a \<le> uint b" for a b :: "'a::len word"
  by (simp add: word_le_def)

lemma uint_min_word: "uint (min a b) = min (uint a) (uint b)" for a b :: "'a::len word"
  by (auto simp: min_def word_le_def)

lemma uint_max_word: "uint (max a b) = max (uint a) (uint b)" for a b :: "'a::len word"
  by (auto simp: max_def word_le_def)

lemma word_pos_iff: "0 < a \<longleftrightarrow> 0 < uint a" for a :: "'a::len word"
  by (simp add: word_less_def)

text \<open>Splitting a stake into the part up to a bound and the rest loses nothing.\<close>

lemma min_plus_saturating_sub:
  "uint (min a b) + uint (saturating_sub a b) = uint a" for a b :: "'a::len word"
  by (auto simp: uint_min_word uint_saturating_sub)

subsection \<open>Signed 64-bit time stamps\<close>

definition i64_ok :: "int \<Rightarrow> bool" where
  "i64_ok x \<longleftrightarrow> - (2 ^ 63) \<le> x \<and> x < 2 ^ 63"

definition checked_add_i64 :: "i64 \<Rightarrow> i64 \<Rightarrow> i64 option" where
  "checked_add_i64 a b = (if i64_ok (a + b) then Some (a + b) else None)"

definition checked_sub_i64 :: "i64 \<Rightarrow> i64 \<Rightarrow> i64 option" where
  "checked_sub_i64 a b = (if i64_ok (a - b) then Some (a - b) else None)"

definition checked_mul_i64 :: "i64 \<Rightarrow> i64 \<Rightarrow> i64 option" where
  "checked_mul_i64 a b = (if i64_ok (a * b) then Some (a * b) else None)"

definition clamp_i64 :: "int \<Rightarrow> i64" where
  "clamp_i64 x = max (- (2 ^ 63)) (min (2 ^ 63 - 1) x)"

abbreviation saturating_add_i64 :: "i64 \<Rightarrow> i64 \<Rightarrow> i64" where
  "saturating_add_i64 a b \<equiv> clamp_i64 (a + b)"

abbreviation saturating_sub_i64 :: "i64 \<Rightarrow> i64 \<Rightarrow> i64" where
  "saturating_sub_i64 a b \<equiv> clamp_i64 (a - b)"

abbreviation saturating_mul_i64 :: "i64 \<Rightarrow> i64 \<Rightarrow> i64" where
  "saturating_mul_i64 a b \<equiv> clamp_i64 (a * b)"

lemma checked_add_i64_iff [result_iff]:
  "checked_add_i64 a b = Some c \<longleftrightarrow> i64_ok (a + b) \<and> c = a + b"
  by (auto simp: checked_add_i64_def)

section \<open>Results and the control flow of a handler\<close>

text \<open>
  A handler returns \<open>Inl\<close> an error or \<open>Inr\<close> a value. The three combinators take the rest of
  the handler as their last argument, so that a handler reads statement by statement:
  \<open>require!(c, e)\<close>, \<open>let v = m.ok_or(e)?\<close> and \<open>let v = m?\<close>.
\<close>

type_synonym ('e, 'a) result = "'e + 'a"

definition require :: "bool \<Rightarrow> 'e \<Rightarrow> ('e, 'a) result \<Rightarrow> ('e, 'a) result" where
  "require c e k = (if c then k else Inl e)"

definition ok_or :: "'v option \<Rightarrow> 'e \<Rightarrow> ('v \<Rightarrow> ('e, 'a) result) \<Rightarrow> ('e, 'a) result" where
  "ok_or m e k = (case m of None \<Rightarrow> Inl e | Some v \<Rightarrow> k v)"

definition and_then :: "('e, 'v) result \<Rightarrow> ('v \<Rightarrow> ('e, 'a) result) \<Rightarrow> ('e, 'a) result" where
  "and_then m k = (case m of Inl e \<Rightarrow> Inl e | Inr v \<Rightarrow> k v)"

lemma require_simps [simp]:
  "require True e k = k" "require False e k = Inl e"
  by (simp_all add: require_def)

lemma ok_or_simps [simp]:
  "ok_or None e f = Inl e" "ok_or (Some v) e f = f v"
  by (simp_all add: ok_or_def)

lemma and_then_simps [simp]:
  "and_then (Inl d) f = Inl d" "and_then (Inr v) f = f v"
  by (simp_all add: and_then_def)

text \<open>The rest of a handler is only looked at once its guard is known.\<close>

lemma require_cong [cong]: "c = c' \<Longrightarrow> require c e k = require c' e k"
  by simp

lemma ok_or_cong [cong]: "m = m' \<Longrightarrow> ok_or m e k = ok_or m' e k"
  by simp

lemma and_then_cong [cong]: "m = m' \<Longrightarrow> and_then m k = and_then m' k"
  by simp

lemma require_iff [result_iff]: "require c e k = Inr x \<longleftrightarrow> c \<and> k = Inr x"
  by (simp add: require_def)

lemma ok_or_iff [result_iff]: "ok_or m e k = Inr x \<longleftrightarrow> (\<exists>v. m = Some v \<and> k v = Inr x)"
  by (cases m) simp_all

lemma and_then_iff [result_iff]: "and_then m k = Inr x \<longleftrightarrow> (\<exists>v. m = Inr v \<and> k v = Inr x)"
  by (cases m) simp_all

lemma if_Inr_iff: "(if c then a else b) = Inr x \<longleftrightarrow> (c \<and> a = Inr x) \<or> (\<not> c \<and> b = Inr x)"
  by simp

text \<open>The error side: which statement a failing handler stopped at.\<close>

lemma require_Inl_iff: "require c e k = Inl d \<longleftrightarrow> (\<not> c \<and> d = e) \<or> (c \<and> k = Inl d)"
  by (auto simp: require_def)

lemma ok_or_Inl_iff:
  "ok_or m e k = Inl d \<longleftrightarrow> (m = None \<and> d = e) \<or> (\<exists>v. m = Some v \<and> k v = Inl d)"
  by (cases m) auto

lemma and_then_Inl_iff:
  "and_then m k = Inl d \<longleftrightarrow> m = Inl d \<or> (\<exists>v. m = Inr v \<and> k v = Inl d)"
  by (cases m) auto

section \<open>Sums over the accounts of a map\<close>

definition msum :: "('k \<Rightarrow> 'v \<Rightarrow> int) \<Rightarrow> ('k \<rightharpoonup> 'v) \<Rightarrow> int" where
  "msum f m = (\<Sum>k \<in> dom m. f k (the (m k)))"

definition mval :: "('k \<Rightarrow> 'v \<Rightarrow> int) \<Rightarrow> ('k \<rightharpoonup> 'v) \<Rightarrow> 'k \<Rightarrow> int" where
  "mval f m k = (case m k of None \<Rightarrow> 0 | Some v \<Rightarrow> f k v)"

lemma mval_Some [simp]: "m k = Some v \<Longrightarrow> mval f m k = f k v"
  by (simp add: mval_def)

lemma mval_None [simp]: "m k = None \<Longrightarrow> mval f m k = 0"
  by (simp add: mval_def)

lemma msum_empty [simp]: "msum f Map.empty = 0"
  by (simp add: msum_def)

lemma msum_split:
  assumes "finite (dom m)"
  shows "msum f m = mval f m k + (\<Sum>j \<in> dom m - {k}. f j (the (m j)))"
proof (cases "m k")
  case None
  then have "dom m - {k} = dom m" by auto
  with None show ?thesis by (simp add: msum_def)
next
  case (Some v)
  then have "k \<in> dom m" by auto
  with assms have "msum f m = f k (the (m k)) + (\<Sum>j \<in> dom m - {k}. f j (the (m j)))"
    by (simp add: msum_def sum.remove)
  with Some show ?thesis by simp
qed

lemma msum_upd:
  assumes "finite (dom m)"
  shows "msum f (m(k \<mapsto> v)) = msum f m - mval f m k + f k v"
proof -
  have "(\<Sum>j \<in> dom m - {k}. f j (the ((m(k \<mapsto> v)) j))) = (\<Sum>j \<in> dom m - {k}. f j (the (m j)))"
    by (rule sum.cong) auto
  then show ?thesis
    using msum_split [of "m(k \<mapsto> v)" f k] msum_split [OF assms, of f k] assms by simp
qed

lemma msum_del:
  assumes "finite (dom m)"
  shows "msum f (m(k := None)) = msum f m - mval f m k"
proof -
  have "(\<Sum>j \<in> dom m - {k}. f j (the ((m(k := None)) j))) = (\<Sum>j \<in> dom m - {k}. f j (the (m j)))"
    by (rule sum.cong) auto
  then show ?thesis
    using msum_split [OF assms, of f k] by (simp add: msum_def)
qed

lemma msum_cong:
  "(\<And>k v. m k = Some v \<Longrightarrow> f k v = g k v) \<Longrightarrow> msum f m = msum g m"
  by (auto simp: msum_def intro!: sum.cong)

lemma msum_nonneg:
  "(\<And>k v. m k = Some v \<Longrightarrow> 0 \<le> f k v) \<Longrightarrow> 0 \<le> msum f m"
  by (auto simp: msum_def intro!: sum_nonneg)

lemma mval_nonneg: "(\<And>v. m k = Some v \<Longrightarrow> 0 \<le> f k v) \<Longrightarrow> 0 \<le> mval f m k"
  by (cases "m k") auto

lemma mval_le_msum:
  assumes "finite (dom m)" and "\<And>k v. m k = Some v \<Longrightarrow> 0 \<le> f k v"
  shows "mval f m k \<le> msum f m"
proof -
  have "0 \<le> (\<Sum>j \<in> dom m - {k}. f j (the (m j)))"
    by (rule sum_nonneg) (use assms(2) in auto)
  then show ?thesis using msum_split [OF assms(1), of f k] by simp
qed

text \<open>The fact a conservation proof takes from a map it looked a key up in.\<close>

lemma lookup_le_msum:
  assumes "finite (dom m)" and "\<And>k v. m k = Some v \<Longrightarrow> 0 \<le> f k v" and "m k = Some v"
  shows "f k v \<le> msum f m"
  using mval_le_msum [where m = m and f = f and k = k] assms by simp

lemma msum_add: "finite (dom m) \<Longrightarrow> msum (\<lambda>k v. f k v + g k v) m = msum f m + msum g m"
  by (simp add: msum_def sum.distrib)

lemma msum_mono:
  "(\<And>k v. m k = Some v \<Longrightarrow> f k v \<le> g k v) \<Longrightarrow> msum f m \<le> msum g m"
  unfolding msum_def by (rule sum_mono) auto

end
