(* ===== verification/Runtime.thy ===== *)
theory Runtime
  imports Prelude
begin

text \<open>
  What the programs use of the Solana runtime, of Anchor and of the SPL Token program. These
  are not code of the repository, so they enter as parameters: an \<open>env\<close> holds the clock, the
  bump that address derivation returns, the token accounts the transaction was given, and the
  Token program's answer to a transfer request (\<open>spl_accepts\<close>, given the transfers that went
  before it). A handler that asks for a transfer appends it to the \<open>cpi_log\<close> of the state;
  a refused transfer makes the handler fail, which aborts the transaction and leaves the old
  state. The theorems about balances read the log with \<open>token_flow\<close>.
\<close>

section \<open>Schema versions\<close>

datatype schema_version = SchemaVersion (sv_major: u8) (sv_minor: u8) (sv_patch: u8)

text \<open>The derived \<open>Ord\<close>: lexicographic over \<open>(major, minor, patch)\<close>.\<close>

instantiation schema_version :: linorder
begin

definition less_schema_version :: "schema_version \<Rightarrow> schema_version \<Rightarrow> bool" where
  "less_schema_version v w \<longleftrightarrow>
     sv_major v < sv_major w
     \<or> sv_major v = sv_major w \<and> sv_minor v < sv_minor w
     \<or> sv_major v = sv_major w \<and> sv_minor v = sv_minor w \<and> sv_patch v < sv_patch w"

definition less_eq_schema_version :: "schema_version \<Rightarrow> schema_version \<Rightarrow> bool" where
  "less_eq_schema_version v w \<longleftrightarrow> v < w \<or> v = w"

instance
proof
  fix u v w :: schema_version
  show "u < v \<longleftrightarrow> u \<le> v \<and> \<not> v \<le> u"
    by (auto simp: less_schema_version_def less_eq_schema_version_def)
  show "u \<le> u"
    by (simp add: less_eq_schema_version_def)
  show "u \<le> v \<Longrightarrow> v \<le> w \<Longrightarrow> u \<le> w"
    by (auto simp: less_schema_version_def less_eq_schema_version_def)
  show "u \<le> v \<Longrightarrow> v \<le> u \<Longrightarrow> u = v"
    by (auto simp: less_schema_version_def less_eq_schema_version_def)
  show "u \<le> v \<or> v \<le> u"
    by (cases u; cases v) (auto simp: less_schema_version_def less_eq_schema_version_def)
qed

end

section \<open>Token accounts and transfers\<close>

text \<open>The fields of an SPL token account that the programs' account constraints read.\<close>

record token_account =
  ta_owner :: pubkey
  ta_mint :: pubkey
  ta_amount :: u64

record spl_transfer =
  tr_from :: pubkey
  tr_to :: pubkey
  tr_authority :: pubkey
  tr_amount :: u64

record 'pda env =
  now :: i64
  pda_bump :: "'pda \<Rightarrow> u8"
  pda_key :: "'pda \<Rightarrow> pubkey"
  token_accounts :: "pubkey \<rightharpoonup> token_account"
  spl_accepts :: "spl_transfer list \<Rightarrow> spl_transfer \<Rightarrow> bool"

text \<open>What a log of transfers adds to the balance of the token account \<open>k\<close>.\<close>

definition transfer_flow :: "pubkey \<Rightarrow> spl_transfer \<Rightarrow> int" where
  "transfer_flow k t = (if tr_to t = k then uint (tr_amount t) else 0)
                     - (if tr_from t = k then uint (tr_amount t) else 0)"

definition token_flow :: "pubkey \<Rightarrow> spl_transfer list \<Rightarrow> int" where
  "token_flow k ts = sum_list (map (transfer_flow k) ts)"

lemma token_flow_simps [simp]:
  "token_flow k [] = 0"
  "token_flow k (ts @ [t]) = token_flow k ts + transfer_flow k t"
  by (simp_all add: token_flow_def)

text \<open>
  The documented behaviour of the Token program that the stake-pool theorems rely on: a token
  account never holds a negative balance nor more than \<open>bal_max\<close> (the mint's supply, which
  fits a \<open>u64\<close>), so a transfer that would break this is refused. \<open>bal\<close> is the balance of the
  account \<open>k\<close> before the first logged transfer.
\<close>

definition spl_conforms :: "('pda, 'm) env_scheme \<Rightarrow> pubkey \<Rightarrow> int \<Rightarrow> int \<Rightarrow> bool" where
  "spl_conforms env k bal bal_max \<longleftrightarrow>
     (\<forall>ts t. spl_accepts env ts t \<longrightarrow>
        0 \<le> bal + token_flow k (ts @ [t]) \<and> bal + token_flow k (ts @ [t]) \<le> bal_max)"

end
