(* ===== verification/Gar_State.thy ===== *)
theory Gar_State
  imports Runtime
begin

text \<open>
  The accounts of the gateway registry program (\<open>programs/ario-gar/src/state/mod.rs\<close>), its
  errors, and the pure functions on them: authority of the operations address, the composite
  weight, settlement of delegate rewards, redelegation fees and the reward-rate decay. Every
  account is a record with the fields of the struct; the accounts of one kind are a map keyed
  by the seeds of their program-derived address.
\<close>

section \<open>Constants and errors\<close>

definition REWARD_PRECISION :: u128 where "REWARD_PRECISION = 1000000000000000000"
definition RATE_SCALE :: u64 where "RATE_SCALE = 1000000"
definition GATEWAY_LEAVE_PERIOD :: i64 where "GATEWAY_LEAVE_PERIOD = 90 * 86400"
definition MAX_DELEGATE_REWARD_SHARE :: u16 where "MAX_DELEGATE_REWARD_SHARE = 9500"
definition MAX_GATEWAYS :: nat where "MAX_GATEWAYS = 3000"
definition MAX_FUNDING_SOURCES :: nat where "MAX_FUNDING_SOURCES = 5"
definition MAX_DELEGATION_SOURCES :: nat where "MAX_DELEGATION_SOURCES = 3"

lemmas gar_constants =
  REWARD_PRECISION_def RATE_SCALE_def GATEWAY_LEAVE_PERIOD_def MAX_DELEGATE_REWARD_SHARE_def
  MAX_GATEWAYS_def MAX_FUNDING_SOURCES_def MAX_DELEGATION_SOURCES_def

text \<open>
  Anchor numbers the variants of \<open>GarError\<close> from 6000 in declaration order (the order is
  frozen, ADR-0035). The other constructors are the failures of the runtime: Anchor's account
  checks, a refused \<open>init\<close> or transfer, and the panic of an arithmetic overflow.
\<close>

datatype (plugins only: code) gar_error =
    GarError nat
  | AccountNotInitialized
  | AccountAlreadyInUse
  | ConstraintViolated
  | TokenTransferFailed
  | Panic

abbreviation GatewayAlreadyRegistered :: gar_error where "GatewayAlreadyRegistered \<equiv> GarError 6000"
abbreviation GatewayNotFound :: gar_error where "GatewayNotFound \<equiv> GarError 6001"
abbreviation GatewayNotJoined :: gar_error where "GatewayNotJoined \<equiv> GarError 6002"
abbreviation GatewayLeaving :: gar_error where "GatewayLeaving \<equiv> GarError 6003"
abbreviation RegistryFull :: gar_error where "RegistryFull \<equiv> GarError 6004"
abbreviation GatewayRegistryAlreadyExists :: gar_error where "GatewayRegistryAlreadyExists \<equiv> GarError 6005"
abbreviation InvalidFqdn :: gar_error where "InvalidFqdn \<equiv> GarError 6006"
abbreviation InvalidLabel :: gar_error where "InvalidLabel \<equiv> GarError 6007"
abbreviation InvalidRewardShare :: gar_error where "InvalidRewardShare \<equiv> GarError 6008"
abbreviation InsufficientStake :: gar_error where "InsufficientStake \<equiv> GarError 6009"
abbreviation StakeBelowMinimum :: gar_error where "StakeBelowMinimum \<equiv> GarError 6010"
abbreviation MustLeaveFirst :: gar_error where "MustLeaveFirst \<equiv> GarError 6011"
abbreviation InvalidAmount :: gar_error where "InvalidAmount \<equiv> GarError 6012"
abbreviation DelegationNotAllowed :: gar_error where "DelegationNotAllowed \<equiv> GarError 6013"
abbreviation DelegationBelowMinimum :: gar_error where "DelegationBelowMinimum \<equiv> GarError 6014"
abbreviation DelegateNotAllowed :: gar_error where "DelegateNotAllowed \<equiv> GarError 6015"
abbreviation DelegationNotFound :: gar_error where "DelegationNotFound \<equiv> GarError 6016"
abbreviation InvalidDelegateStatus :: gar_error where "InvalidDelegateStatus \<equiv> GarError 6017"
abbreviation RedelegateSameGateway :: gar_error where "RedelegateSameGateway \<equiv> GarError 6018"
abbreviation CannotDelegateToSelf :: gar_error where "CannotDelegateToSelf \<equiv> GarError 6019"
abbreviation WithdrawalNotReady :: gar_error where "WithdrawalNotReady \<equiv> GarError 6020"
abbreviation WithdrawalNotFound :: gar_error where "WithdrawalNotFound \<equiv> GarError 6021"
abbreviation InvalidWithdrawalAmount :: gar_error where "InvalidWithdrawalAmount \<equiv> GarError 6022"
abbreviation ExitVaultCannotBeExpedited :: gar_error where "ExitVaultCannotBeExpedited \<equiv> GarError 6023"
abbreviation NotOperator :: gar_error where "NotOperator \<equiv> GarError 6024"
abbreviation NotDelegator :: gar_error where "NotDelegator \<equiv> GarError 6025"
abbreviation InvalidOwner :: gar_error where "InvalidOwner \<equiv> GarError 6026"
abbreviation Unauthorized :: gar_error where "Unauthorized \<equiv> GarError 6027"
abbreviation ArithmeticOverflow :: gar_error where "ArithmeticOverflow \<equiv> GarError 6028"
abbreviation ArithmeticUnderflow :: gar_error where "ArithmeticUnderflow \<equiv> GarError 6029"
abbreviation InvalidParameter :: gar_error where "InvalidParameter \<equiv> GarError 6030"
abbreviation EpochsNotEnabled :: gar_error where "EpochsNotEnabled \<equiv> GarError 6031"
abbreviation EpochsAlreadyEnabled :: gar_error where "EpochsAlreadyEnabled \<equiv> GarError 6032"
abbreviation EpochCounterAlreadyAdvanced :: gar_error where "EpochCounterAlreadyAdvanced \<equiv> GarError 6033"
abbreviation EpochNotStarted :: gar_error where "EpochNotStarted \<equiv> GarError 6034"
abbreviation EpochEnded :: gar_error where "EpochEnded \<equiv> GarError 6035"
abbreviation EpochInProgress :: gar_error where "EpochInProgress \<equiv> GarError 6036"
abbreviation NotPrescribedObserver :: gar_error where "NotPrescribedObserver \<equiv> GarError 6037"
abbreviation AlreadyObserved :: gar_error where "AlreadyObserved \<equiv> GarError 6038"
abbreviation RewardsAlreadyDistributed :: gar_error where "RewardsAlreadyDistributed \<equiv> GarError 6039"
abbreviation DistributionIncomplete :: gar_error where "DistributionIncomplete \<equiv> GarError 6040"
abbreviation InvalidObservation :: gar_error where "InvalidObservation \<equiv> GarError 6041"
abbreviation GatewayNotEligible :: gar_error where "GatewayNotEligible \<equiv> GarError 6042"
abbreviation EpochAlreadyExists :: gar_error where "EpochAlreadyExists \<equiv> GarError 6043"
abbreviation NoObserversAvailable :: gar_error where "NoObserversAvailable \<equiv> GarError 6044"
abbreviation NoNamesAvailable :: gar_error where "NoNamesAvailable \<equiv> GarError 6045"
abbreviation InvalidEpochIndex :: gar_error where "InvalidEpochIndex \<equiv> GarError 6046"
abbreviation WeightsAlreadyTallied :: gar_error where "WeightsAlreadyTallied \<equiv> GarError 6047"
abbreviation WeightsNotTallied :: gar_error where "WeightsNotTallied \<equiv> GarError 6048"
abbreviation InvalidGatewayAccount :: gar_error where "InvalidGatewayAccount \<equiv> GarError 6049"
abbreviation PrescriptionsNotDone :: gar_error where "PrescriptionsNotDone \<equiv> GarError 6050"
abbreviation PrescriptionsAlreadyDone :: gar_error where "PrescriptionsAlreadyDone \<equiv> GarError 6051"
abbreviation InvalidNameRegistry :: gar_error where "InvalidNameRegistry \<equiv> GarError 6052"
abbreviation EpochNotCloseable :: gar_error where "EpochNotCloseable \<equiv> GarError 6053"
abbreviation MigrationInactive :: gar_error where "MigrationInactive \<equiv> GarError 6054"
abbreviation MigrationAlreadyFinalized :: gar_error where "MigrationAlreadyFinalized \<equiv> GarError 6055"
abbreviation InvalidAccountData :: gar_error where "InvalidAccountData \<equiv> GarError 6056"
abbreviation InvalidPda :: gar_error where "InvalidPda \<equiv> GarError 6057"
abbreviation ObserverAddressTaken :: gar_error where "ObserverAddressTaken \<equiv> GarError 6058"
abbreviation MigrationExpired :: gar_error where "MigrationExpired \<equiv> GarError 6059"
abbreviation InsufficientDelegationForPayment :: gar_error where "InsufficientDelegationForPayment \<equiv> GarError 6060"
abbreviation InsufficientOperatorStakeForPayment :: gar_error where "InsufficientOperatorStakeForPayment \<equiv> GarError 6061"
abbreviation InsufficientWithdrawalForPayment :: gar_error where "InsufficientWithdrawalForPayment \<equiv> GarError 6062"
abbreviation WithdrawalNotDrained :: gar_error where "WithdrawalNotDrained \<equiv> GarError 6063"
abbreviation EmptyFundingPlan :: gar_error where "EmptyFundingPlan \<equiv> GarError 6064"
abbreviation TooManyFundingSources :: gar_error where "TooManyFundingSources \<equiv> GarError 6065"
abbreviation FundingPlanAmountMismatch :: gar_error where "FundingPlanAmountMismatch \<equiv> GarError 6066"
abbreviation ZeroFundingSourceAmount :: gar_error where "ZeroFundingSourceAmount \<equiv> GarError 6067"
abbreviation MissingGatewayForFundingSource :: gar_error where "MissingGatewayForFundingSource \<equiv> GarError 6068"
abbreviation MissingPayerTokenAccountForFundingSource :: gar_error where "MissingPayerTokenAccountForFundingSource \<equiv> GarError 6069"
abbreviation MissingFundingSourceAccount :: gar_error where "MissingFundingSourceAccount \<equiv> GarError 6070"
abbreviation ExtraneousFundingSourceAccount :: gar_error where "ExtraneousFundingSourceAccount \<equiv> GarError 6071"
abbreviation OnlyOneDelegationSource :: gar_error where "OnlyOneDelegationSource \<equiv> GarError 6072"
abbreviation OnlyOneOperatorStakeSource :: gar_error where "OnlyOneOperatorStakeSource \<equiv> GarError 6073"
abbreviation TooManyDelegationSources :: gar_error where "TooManyDelegationSources \<equiv> GarError 6074"
abbreviation DuplicateGatewayInSources :: gar_error where "DuplicateGatewayInSources \<equiv> GarError 6075"
abbreviation MismatchedResidueVaultCount :: gar_error where "MismatchedResidueVaultCount \<equiv> GarError 6076"
abbreviation MissingResidueVault :: gar_error where "MissingResidueVault \<equiv> GarError 6077"
abbreviation GatewayNotLeaving :: gar_error where "GatewayNotLeaving \<equiv> GarError 6078"
abbreviation LeaveWindowNotExpired :: gar_error where "LeaveWindowNotExpired \<equiv> GarError 6079"
abbreviation DelegationsOutstanding :: gar_error where "DelegationsOutstanding \<equiv> GarError 6080"
abbreviation EpochObservationsNotClosed :: gar_error where "EpochObservationsNotClosed \<equiv> GarError 6081"
abbreviation ProtectedVault :: gar_error where "ProtectedVault \<equiv> GarError 6082"
abbreviation MissingExcessWithdrawal :: gar_error where "MissingExcessWithdrawal \<equiv> GarError 6083"
abbreviation InvalidExcessWithdrawalPda :: gar_error where "InvalidExcessWithdrawalPda \<equiv> GarError 6084"
abbreviation RegistryAlreadyShrunk :: gar_error where "RegistryAlreadyShrunk \<equiv> GarError 6085"
abbreviation ShrinkWouldLoseData :: gar_error where "ShrinkWouldLoseData \<equiv> GarError 6086"
abbreviation AlreadyLatestVersion :: gar_error where "AlreadyLatestVersion \<equiv> GarError 6087"
abbreviation UnknownSchemaVersion :: gar_error where "UnknownSchemaVersion \<equiv> GarError 6088"
abbreviation DelegatesStillActive :: gar_error where "DelegatesStillActive \<equiv> GarError 6089"
abbreviation DelegationCooldownActive :: gar_error where "DelegationCooldownActive \<equiv> GarError 6090"
abbreviation DelegationNotDisabled :: gar_error where "DelegationNotDisabled \<equiv> GarError 6091"
abbreviation WrongObserverAccount :: gar_error where "WrongObserverAccount \<equiv> GarError 6092"
abbreviation MissingEpochRentReceipt :: gar_error where "MissingEpochRentReceipt \<equiv> GarError 6093"
abbreviation InvalidEpochRentReceipt :: gar_error where "InvalidEpochRentReceipt \<equiv> GarError 6094"
abbreviation WrongEpochCreator :: gar_error where "WrongEpochCreator \<equiv> GarError 6095"
abbreviation EpochStillExists :: gar_error where "EpochStillExists \<equiv> GarError 6096"
abbreviation EpochWeightsClobbered :: gar_error where "EpochWeightsClobbered \<equiv> GarError 6097"
abbreviation EpochNoLongerLive :: gar_error where "EpochNoLongerLive \<equiv> GarError 6098"
abbreviation PreV110GatewayLayout :: gar_error where "PreV110GatewayLayout \<equiv> GarError 6099"
abbreviation NotGatewayAuthority :: gar_error where "NotGatewayAuthority \<equiv> GarError 6100"
abbreviation GatewayNotMigrated :: gar_error where "GatewayNotMigrated \<equiv> GarError 6101"
abbreviation LatestEpochUnfinished :: gar_error where "LatestEpochUnfinished \<equiv> GarError 6102"
abbreviation MissingLatestEpochAccount :: gar_error where "MissingLatestEpochAccount \<equiv> GarError 6103"
abbreviation StaleDelegatedStakeCounter :: gar_error where "StaleDelegatedStakeCounter \<equiv> GarError 6104"
abbreviation DelegationReconcileMismatch :: gar_error where "DelegationReconcileMismatch \<equiv> GarError 6105"
abbreviation DuplicateDelegationAccount :: gar_error where "DuplicateDelegationAccount \<equiv> GarError 6106"
abbreviation InvalidDelegationAccount :: gar_error where "InvalidDelegationAccount \<equiv> GarError 6107"
abbreviation StaleSupplyCounters :: gar_error where "StaleSupplyCounters \<equiv> GarError 6108"

section \<open>Account versions\<close>

definition GATEWAY_VERSION :: schema_version where "GATEWAY_VERSION = SchemaVersion 1 2 0"
definition OPERATIONS_ADDRESS_SINCE :: schema_version where
  "OPERATIONS_ADDRESS_SINCE = SchemaVersion 1 2 0"

text \<open>Every other account of the program is at version 1.0.0.\<close>

definition V1_0_0 :: schema_version where "V1_0_0 = SchemaVersion 1 0 0"

definition operations_address_is_set :: "schema_version \<Rightarrow> bool" where
  "operations_address_is_set version \<longleftrightarrow> OPERATIONS_ADDRESS_SINCE \<le> version"

definition is_gateway_authority :: "pubkey \<Rightarrow> pubkey \<Rightarrow> pubkey \<Rightarrow> schema_version \<Rightarrow> bool" where
  "is_gateway_authority signer operator operations_address version \<longleftrightarrow>
     signer = operator
     \<or> operations_address_is_set version \<and> operations_address \<noteq> 0 \<and> signer = operations_address"

section \<open>Accounts\<close>

record gateway_settings =
  gs_authority :: pubkey
  gs_mint :: pubkey
  gs_min_operator_stake :: u64
  gs_min_delegate_stake :: u64
  gs_withdrawal_period :: i64
  gs_max_expedited_withdrawal_penalty :: u64
  gs_min_expedited_withdrawal_penalty :: u64
  gs_min_expedited_withdrawal_amount :: u64
  gs_max_delegates_per_gateway :: u32
  gs_migration_active :: bool
  gs_migration_authority :: pubkey
  gs_stake_token_account :: pubkey
  gs_protocol_token_account :: pubkey
  gs_arns_program_id :: pubkey
  gs_total_staked :: u64
  gs_total_delegated :: u64
  gs_total_withdrawn :: u64

text \<open>\<open>GatewaySlot::STATUS_*\<close>: the raw byte a slot carries.\<close>

definition STATUS_JOINED :: u8 where "STATUS_JOINED = 0"
definition STATUS_LEAVING :: u8 where "STATUS_LEAVING = 1"
definition STATUS_GONE :: u8 where "STATUS_GONE = 2"

record gateway_slot =
  slot_address :: pubkey
  slot_composite_weight :: u64
  slot_start_timestamp :: i64
  slot_status :: u8
  slot_delegated_at_tally :: u8

text \<open>
  The registry's array of 3000 slots is a function on indices; every access of the code is
  behind a check of the index against \<open>MAX_GATEWAYS\<close> or \<open>count\<close>.
\<close>

record gateway_registry =
  reg_count :: u32
  reg_gateways :: "nat \<Rightarrow> gateway_slot"

definition empty_slot :: gateway_slot where
  "empty_slot = \<lparr>slot_address = 0, slot_composite_weight = 0, slot_start_timestamp = 0,
     slot_status = STATUS_JOINED, slot_delegated_at_tally = 0\<rparr>"

datatype protocol = Http | Https
datatype gateway_status = Joined | Leaving | Gone

record gateway_stats =
  st_passed_epochs :: u32
  st_failed_epochs :: u32
  st_total_epochs :: u32
  st_prescribed_epochs :: u32
  st_observed_epochs :: u32
  st_failed_consecutive :: u8
  st_passed_consecutive :: u8

definition default_stats :: gateway_stats where
  "default_stats = \<lparr>st_passed_epochs = 0, st_failed_epochs = 0, st_total_epochs = 0,
     st_prescribed_epochs = 0, st_observed_epochs = 0, st_failed_consecutive = 0,
     st_passed_consecutive = 0\<rparr>"

record gateway_settings2 =
  g2_allow_delegated_staking :: bool
  g2_delegate_reward_share_ratio :: u16
  g2_min_delegation_amount :: u64
  g2_allowlist_enabled :: bool
  g2_pending_delegate_reward_share_ratio :: "u16 option"
  g2_delegation_disabled_at :: "i64 option"

record gateway_weights =
  wt_stake_weight :: u64
  wt_tenure_weight :: u64
  wt_gateway_performance_ratio :: u64
  wt_observer_performance_ratio :: u64
  wt_composite_weight :: u64
  wt_normalized_composite_weight :: u64
  wt_weights_epoch :: u64

definition default_weights :: gateway_weights where
  "default_weights = \<lparr>wt_stake_weight = 0, wt_tenure_weight = 0,
     wt_gateway_performance_ratio = 0, wt_observer_performance_ratio = 0,
     wt_composite_weight = 0, wt_normalized_composite_weight = 0, wt_weights_epoch = 0\<rparr>"

record gateway =
  gw_operator :: pubkey
  gw_label :: string
  gw_fqdn :: string
  gw_port :: u16
  gw_protocol :: protocol
  gw_properties :: string
  gw_note :: string
  gw_operator_stake :: u64
  gw_total_delegated_stake :: u64
  gw_status :: gateway_status
  gw_start_timestamp :: i64
  gw_leave_timestamp :: "i64 option"
  gw_leave_epoch_duration :: i64
  gw_stats :: gateway_stats
  gw_weights :: gateway_weights
  gw_settings :: gateway_settings2
  gw_registry_index :: u32
  gw_observer_address :: pubkey
  gw_cumulative_reward_per_token :: u128
  gw_bump :: u8
  gw_version :: schema_version
  gw_operations_address :: pubkey

definition total_stake :: "gateway \<Rightarrow> u64" where
  "total_stake g = saturating_add (gw_operator_stake g) (gw_total_delegated_stake g)"

definition authorises :: "gateway \<Rightarrow> pubkey \<Rightarrow> bool" where
  "authorises g signer =
     is_gateway_authority signer (gw_operator g) (gw_operations_address g) (gw_version g)"

record delegation =
  del_gateway :: pubkey
  del_delegator :: pubkey
  del_amount :: u64
  del_start_timestamp :: i64
  del_reward_debt :: u128
  del_bump :: u8
  del_version :: schema_version

record withdrawal_counter =
  wc_owner :: pubkey
  wc_next_id :: u64
  wc_bump :: u8
  wc_version :: schema_version

record withdrawal =
  wd_owner :: pubkey
  wd_withdrawal_id :: u64
  wd_gateway :: pubkey
  wd_amount :: u64
  wd_created_at :: i64
  wd_available_at :: i64
  wd_is_delegate :: bool
  wd_is_exit_vault :: bool
  wd_is_protected :: bool
  wd_bump :: u8
  wd_version :: schema_version

record allowlist_entry =
  al_gateway :: pubkey
  al_delegate :: pubkey
  al_added_at :: i64
  al_bump :: u8
  al_version :: schema_version

record observer_lookup =
  ol_gateway :: pubkey
  ol_bump :: u8
  ol_version :: schema_version

record redelegation_record =
  rr_delegator :: pubkey
  rr_redelegation_count :: u32
  rr_last_redelegation_at :: i64
  rr_fee_reset_at :: i64
  rr_bump :: u8
  rr_version :: schema_version

record epoch_settings =
  es_authority :: pubkey
  es_epoch_duration :: i64
  es_prescribed_observer_count :: u8
  es_prescribed_name_count :: u8
  es_min_observer_stake :: u64
  es_slash_rate :: u16
  es_enabled :: bool
  es_current_epoch_index :: u64
  es_genesis_timestamp :: i64
  es_tenure_weight_duration :: i64
  es_max_tenure_weight :: u64
  es_gateway_reward_ratio :: u64
  es_observer_reward_ratio :: u64
  es_missed_observation_penalty_rate :: u64
  es_max_reward_rate :: u64
  es_min_reward_rate :: u64
  es_reward_decay_start_epoch :: u64
  es_reward_decay_last_epoch :: u64
  es_max_consecutive_failures :: u8
  es_failed_gateway_slash_rate :: u64
  es_disable_at :: i64

record epoch =
  ep_epoch_index :: u64
  ep_start_timestamp :: i64
  ep_end_timestamp :: i64
  ep_total_eligible_rewards :: u64
  ep_per_gateway_reward :: u64
  ep_per_observer_reward :: u64
  ep_reward_rate :: u64
  ep_total_composite_weight_lo :: u64
  ep_total_composite_weight_hi :: u64
  ep_hashchain :: "u8 list"
  ep_active_gateway_count :: u32
  ep_distribution_index :: u32
  ep_tally_index :: u32
  ep_observer_count :: u8
  ep_name_count :: u8
  ep_observations_submitted :: u8
  ep_rewards_distributed :: u8
  ep_weights_tallied :: u8
  ep_prescriptions_done :: u8
  ep_observations_closed :: u8
  ep_failure_counts :: "nat \<Rightarrow> u16"
  ep_prescribed_observers :: "nat \<Rightarrow> pubkey"
  ep_prescribed_observer_gateways :: "nat \<Rightarrow> pubkey"
  ep_prescribed_names :: "nat \<Rightarrow> u8 list"
  ep_has_observed :: "nat \<Rightarrow> u8"
  ep_has_rent_receipt :: u8

text \<open>\<open>gateway_results\<close> are the 375 bytes of the pass/fail bitmap.\<close>

record observation =
  ob_epoch_index :: u64
  ob_observer :: pubkey
  ob_gateway_results :: "nat \<Rightarrow> u8"
  ob_gateway_count :: u16
  ob_report_tx_id :: "u8 list"
  ob_submitted_at :: i64
  ob_bump :: u8
  ob_version :: schema_version

record epoch_rent_receipt =
  er_creator :: pubkey
  er_bump :: u8
  er_version :: schema_version

section \<open>Addresses and the state of the program\<close>

text \<open>Program-derived addresses by their seeds.\<close>

datatype gar_pda =
    SettingsPda
  | RegistryPda
  | EpochSettingsPda
  | GatewayPda pubkey
  | DelegationPda pubkey pubkey
  | WithdrawalPda pubkey u64
  | WithdrawalCounterPda pubkey
  | AllowlistPda pubkey pubkey
  | ObserverLookupPda pubkey
  | RedelegationPda pubkey
  | EpochPda u64
  | EpochRentReceiptPda u64
  | ObservationPda u64 pubkey

type_synonym gar_env = "gar_pda env"

text \<open>An entry of \<open>remaining_accounts\<close>: its address and whether it was passed as writable.\<close>

record account_info =
  ai_key :: gar_pda
  ai_is_writable :: bool

record gar_state =
  settings :: gateway_settings
  epoch_settings_acc :: epoch_settings
  registry :: gateway_registry
  gateways :: "pubkey \<rightharpoonup> gateway"
  delegations :: "pubkey \<times> pubkey \<rightharpoonup> delegation" \<comment> \<open>keyed by operator and delegator\<close>
  withdrawals :: "pubkey \<times> u64 \<rightharpoonup> withdrawal" \<comment> \<open>keyed by owner and id\<close>
  withdrawal_counters :: "pubkey \<rightharpoonup> withdrawal_counter"
  allowlist :: "pubkey \<times> pubkey \<rightharpoonup> allowlist_entry"
  observer_lookups :: "pubkey \<rightharpoonup> observer_lookup"
  redelegation_records :: "pubkey \<rightharpoonup> redelegation_record"
  epochs :: "u64 \<rightharpoonup> epoch"
  observations :: "u64 \<times> pubkey \<rightharpoonup> observation"
  epoch_rent_receipts :: "u64 \<rightharpoonup> epoch_rent_receipt"
  rent_log :: "(gar_pda \<times> pubkey) list" \<comment> \<open>closed accounts of the epoch lifecycle, and who got the rent\<close>
  cpi_log :: "spl_transfer list"

type_synonym 'a gar_result = "(gar_error, 'a) result"

text \<open>\<open>token::transfer(..)?\<close>: a cross-program call into the SPL Token program.\<close>

definition token_transfer ::
  "gar_env \<Rightarrow> pubkey \<Rightarrow> pubkey \<Rightarrow> pubkey \<Rightarrow> u64 \<Rightarrow> gar_state \<Rightarrow> gar_state gar_result" where
  "token_transfer env src dst auth amount s =
     (let t = \<lparr>tr_from = src, tr_to = dst, tr_authority = auth, tr_amount = amount\<rparr> in
      require (spl_accepts env (cpi_log s) t) TokenTransferFailed
        (Inr (s\<lparr>cpi_log := cpi_log s @ [t]\<rparr>)))"

section \<open>Gateway weights\<close>

definition gateway_weights_compute ::
  "u64 \<Rightarrow> u64 \<Rightarrow> i64 \<Rightarrow> i64 \<Rightarrow> i64 \<Rightarrow> u64 \<Rightarrow> gateway_stats \<Rightarrow> u64 \<Rightarrow> gateway_weights gar_result" where
  "gateway_weights_compute stake min_operator_stake start_timestamp current_timestamp
       tenure_weight_duration max_tenure_weight stats rate_scale =
     (let scale = as_u128 rate_scale;
          stake_weight = (if min_operator_stake > 0
                          then as_u64 (as_u128 stake * scale div as_u128 min_operator_stake)
                          else as_u64 scale)
      in ok_or (if current_timestamp \<ge> start_timestamp
                then map_option (max 0) (checked_sub_i64 current_timestamp start_timestamp)
                else Some 0) Panic (\<lambda>time_running.
      let tenure_weight =
            (if tenure_weight_duration > 0 \<and> time_running > 0 then
               let tw = word_of_int time_running * scale div word_of_int tenure_weight_duration;
                   max_tw = as_u128 max_tenure_weight * scale
               in as_u64 (min tw max_tw)
             else if time_running = 0 \<and> tenure_weight_duration > 0 then
               as_u64 (scale div word_of_int tenure_weight_duration)
             else 0);
          gateway_performance_ratio =
            as_u64 ((1 + as_u128 (st_passed_epochs stats)) * scale
                    div (1 + as_u128 (st_total_epochs stats)));
          observer_performance_ratio =
            as_u64 ((1 + as_u128 (st_observed_epochs stats)) * scale
                    div (1 + as_u128 (st_prescribed_epochs stats)));
          unwrap_or_0 = (\<lambda>m. case m of None \<Rightarrow> 0 | Some v \<Rightarrow> v);
          p1 = unwrap_or_0 (checked_mul (as_u128 stake_weight) (as_u128 tenure_weight));
          p2 = unwrap_or_0 (checked_mul p1 (as_u128 gateway_performance_ratio));
          product = unwrap_or_0 (checked_mul p2 (as_u128 observer_performance_ratio));
          scale_cubed = saturating_mul (saturating_mul scale scale) scale;
          w = unwrap_or_0 (checked_div product scale_cubed)
      in Inr \<lparr>wt_stake_weight = stake_weight, wt_tenure_weight = tenure_weight,
           wt_gateway_performance_ratio = gateway_performance_ratio,
           wt_observer_performance_ratio = observer_performance_ratio,
           wt_composite_weight = u64_try_from_or_max w,
           wt_normalized_composite_weight = 0, wt_weights_epoch = 0\<rparr>))"

section \<open>Settlement of delegate rewards\<close>

text \<open>The reward a delegation of \<open>amount\<close> earned while the accumulator rose by \<open>delta\<close>.\<close>

definition settle_pending :: "u64 \<Rightarrow> u128 \<Rightarrow> u64" where
  "settle_pending amount delta =
     u64_try_from_or_max
       (case checked_mul (as_u128 amount) delta of
          Some v \<Rightarrow> v div REWARD_PRECISION
        | None \<Rightarrow>
            (let quot = delta div REWARD_PRECISION;
                 rem = delta mod REWARD_PRECISION;
                 from_quot = saturating_mul (as_u128 amount) quot;
                 from_rem = saturating_mul (as_u128 amount) rem div REWARD_PRECISION
             in saturating_add from_quot from_rem))"

definition settle_delegate_rewards :: "gateway \<Rightarrow> delegation \<Rightarrow> gateway \<times> delegation \<times> u64" where
  "settle_delegate_rewards g d =
     (let (g1, d1, settled) =
        (if del_amount d > 0 \<and> gw_cumulative_reward_per_token g > del_reward_debt d then
           let delta = gw_cumulative_reward_per_token g - del_reward_debt d;
               pending_u64 = settle_pending (del_amount d) delta
           in if pending_u64 > 0 then
                (g\<lparr>gw_total_delegated_stake := saturating_add (gw_total_delegated_stake g) pending_u64\<rparr>,
                 d\<lparr>del_amount := saturating_add (del_amount d) pending_u64\<rparr>, pending_u64)
              else (g, d, 0)
         else (g, d, 0))
      in (g1, d1\<lparr>del_reward_debt := gw_cumulative_reward_per_token g1\<rparr>, settled))"

section \<open>Redelegation fees and reward rates\<close>

definition FEE_RESET_INTERVAL :: i64 where "FEE_RESET_INTERVAL = 7 * 86400"

definition get_fee_rate :: "redelegation_record \<Rightarrow> i64 \<Rightarrow> u64 \<Rightarrow> u64 gar_result" where
  "get_fee_rate r current_timestamp rate_scale =
     (let count = (if current_timestamp \<ge> rr_fee_reset_at r then 0 else rr_redelegation_count r)
      in ok_or (checked_mul 10 count) Panic (\<lambda>c.
         let pct = as_u64 (min c 60)
         in ok_or (checked_mul pct rate_scale) Panic (\<lambda>v. Inr (v div 100))))"

definition compute_reward_rate :: "u64 \<Rightarrow> u64 \<Rightarrow> u64 \<Rightarrow> u64 \<Rightarrow> u64 \<Rightarrow> u64" where
  "compute_reward_rate epoch_index max_rate min_rate decay_start decay_last =
     (if epoch_index < decay_start then max_rate
      else if epoch_index > decay_last then min_rate
      else
        let total_decay_period = decay_last - decay_start;
            epochs_decayed = epoch_index - decay_start;
            rate_range = saturating_sub max_rate min_rate;
            numer = (case checked_mul (as_u128 rate_range) (as_u128 epochs_decayed) of
                       None \<Rightarrow> 0 | Some v \<Rightarrow> v);
            decay = (case checked_div numer (as_u128 total_decay_period) of
                       None \<Rightarrow> 0 | Some v \<Rightarrow> v)
        in saturating_sub max_rate (as_u64 decay))"

end
