(* ===== verification/Gar_Stake.thy ===== *)
theory Gar_Stake
  imports Gar_State
begin

text \<open>
  Operator stake and withdrawals: \<open>instructions/operator_stake.rs\<close> and
  \<open>instructions/withdrawal.rs\<close>. A function with the name of an \<open>Accounts\<close> struct loads the
  accounts of the instruction, checks the struct's constraints and hands the loaded accounts
  to the rest of the handler. Rent lamports and events are not part of the state.
\<close>

named_theorems accounts_defs "account contexts, unfolded"
named_theorems handler_defs "instruction handlers, unfolded"

section \<open>Token accounts of an instruction\<close>

text \<open>A user's token account: owned by the signer and of the right mint.\<close>

definition user_token_account ::
  "gar_env \<Rightarrow> gar_state \<Rightarrow> pubkey \<Rightarrow> pubkey \<Rightarrow> 'a gar_result \<Rightarrow> 'a gar_result" where
  [accounts_defs]: "user_token_account env s key owner k =
     ok_or (token_accounts env key) AccountNotInitialized (\<lambda>ta.
     require (ta_owner ta = owner) ConstraintViolated (
     require (ta_mint ta = gs_mint (settings s)) ConstraintViolated k))"

text \<open>The stake pool and the protocol treasury, pinned by the settings.\<close>

definition pinned_token_account ::
  "gar_env \<Rightarrow> gar_state \<Rightarrow> pubkey \<Rightarrow> pubkey \<Rightarrow> 'a gar_result \<Rightarrow> 'a gar_result" where
  [accounts_defs]: "pinned_token_account env s expected key k =
     ok_or (token_accounts env key) AccountNotInitialized (\<lambda>ta.
     require (ta_mint ta = gs_mint (settings s)) ConstraintViolated (
     require (key = expected) InvalidParameter k))"

section \<open>Opening a withdrawal vault\<close>

definition zero_counter :: withdrawal_counter where
  "zero_counter = \<lparr>wc_owner = 0, wc_next_id = 0, wc_bump = 0, wc_version = SchemaVersion 0 0 0\<rparr>"

text \<open>The counter account of \<open>owner\<close> after \<open>init_if_needed\<close> and the handler's first write.\<close>

definition load_counter :: "gar_env \<Rightarrow> gar_state \<Rightarrow> pubkey \<Rightarrow> withdrawal_counter" where
  "load_counter env s owner =
     (let c = (case withdrawal_counters s owner of None \<Rightarrow> zero_counter | Some c \<Rightarrow> c)
      in if wc_bump c = 0
         then c\<lparr>wc_owner := owner, wc_bump := pda_bump env (WithdrawalCounterPda owner),
                wc_version := V1_0_0\<rparr>
         else c)"

text \<open>
  The block every withdrawing handler repeats: \<open>init\<close> the vault at the counter's next id, fill
  it, and advance the counter.
\<close>

definition open_withdrawal ::
  "gar_env \<Rightarrow> pubkey \<Rightarrow> pubkey \<Rightarrow> u64 \<Rightarrow> i64 \<Rightarrow> bool \<Rightarrow> bool \<Rightarrow> bool \<Rightarrow> gar_state
     \<Rightarrow> gar_state gar_result" where
  "open_withdrawal env owner gw amount available_at is_delegate is_exit_vault is_protected s =
     (let counter = load_counter env s owner;
          i = wc_next_id counter
      in require (withdrawals s (owner, i) = None) AccountAlreadyInUse (
         ok_or (checked_add i 1) ArithmeticOverflow (\<lambda>next_id.
         Inr (s\<lparr>withdrawals := (withdrawals s)((owner, i) \<mapsto>
                  \<lparr>wd_owner = owner, wd_withdrawal_id = i, wd_gateway = gw, wd_amount = amount,
                   wd_created_at = now env, wd_available_at = available_at,
                   wd_is_delegate = is_delegate, wd_is_exit_vault = is_exit_vault,
                   wd_is_protected = is_protected,
                   wd_bump = pda_bump env (WithdrawalPda owner i), wd_version = V1_0_0\<rparr>),
                withdrawal_counters :=
                  (withdrawal_counters s)(owner \<mapsto> counter\<lparr>wc_next_id := next_id\<rparr>)\<rparr>))))"

section \<open>operator_stake.rs\<close>

definition IncreaseOperatorStake ::
  "gar_env \<Rightarrow> pubkey \<Rightarrow> pubkey \<Rightarrow> pubkey \<Rightarrow> gar_state \<Rightarrow> (gateway \<Rightarrow> 'a gar_result) \<Rightarrow> 'a gar_result" where
  [accounts_defs]: "IncreaseOperatorStake env operator operator_ata stake_ta s k =
     ok_or (gateways s operator) AccountNotInitialized (\<lambda>g.
     require (gw_operator g = operator) NotOperator (
     user_token_account env s operator_ata operator (
     pinned_token_account env s (gs_stake_token_account (settings s)) stake_ta (k g))))"

definition increase_operator_stake ::
  "gar_env \<Rightarrow> pubkey \<Rightarrow> pubkey \<Rightarrow> pubkey \<Rightarrow> u64 \<Rightarrow> gar_state \<Rightarrow> gar_state gar_result" where
  [handler_defs]: "increase_operator_stake env operator operator_ata stake_ta amount s =
     IncreaseOperatorStake env operator operator_ata stake_ta s (\<lambda>g.
     require (amount > 0) InvalidAmount (
     require (gw_status g = Joined) GatewayLeaving (
     and_then (token_transfer env operator_ata stake_ta operator amount s) (\<lambda>s1.
     ok_or (checked_add (gw_operator_stake g) amount) ArithmeticOverflow (\<lambda>stake.
     ok_or (checked_add (gs_total_staked (settings s1)) amount) ArithmeticOverflow (\<lambda>staked.
     Inr (s1\<lparr>gateways := (gateways s1)(operator \<mapsto> g\<lparr>gw_operator_stake := stake\<rparr>),
             settings := (settings s1)\<lparr>gs_total_staked := staked\<rparr>\<rparr>)))))))"

definition DecreaseOperatorStake ::
  "pubkey \<Rightarrow> gar_state \<Rightarrow> (gateway \<Rightarrow> 'a gar_result) \<Rightarrow> 'a gar_result" where
  [accounts_defs]: "DecreaseOperatorStake operator s k =
     ok_or (gateways s operator) AccountNotInitialized (\<lambda>g.
     require (gw_operator g = operator) NotOperator (k g))"

definition decrease_operator_stake ::
  "gar_env \<Rightarrow> pubkey \<Rightarrow> u64 \<Rightarrow> gar_state \<Rightarrow> gar_state gar_result" where
  [handler_defs]: "decrease_operator_stake env operator amount s =
     DecreaseOperatorStake operator s (\<lambda>g.
     require (amount > 0) InvalidAmount (
     ok_or (checked_sub (gw_operator_stake g) amount) InsufficientStake (\<lambda>remaining.
     require (remaining \<ge> gs_min_operator_stake (settings s) \<or> remaining = 0) StakeBelowMinimum (
     require (remaining = 0 \<longrightarrow> gw_status g = Leaving) MustLeaveFirst (
     ok_or (checked_add_i64 (now env) (gs_withdrawal_period (settings s))) ArithmeticOverflow (\<lambda>avail.
     and_then (open_withdrawal env operator (gw_operator g) amount avail False False False s) (\<lambda>s1.
     ok_or (checked_add (gs_total_withdrawn (settings s1)) amount) ArithmeticOverflow (\<lambda>withdrawn.
     Inr (s1\<lparr>gateways := (gateways s1)(operator \<mapsto> g\<lparr>gw_operator_stake := remaining\<rparr>),
             settings := (settings s1)\<lparr>
               gs_total_staked := saturating_sub (gs_total_staked (settings s1)) amount,
               gs_total_withdrawn := withdrawn\<rparr>\<rparr>)))))))))"

section \<open>withdrawal.rs\<close>

definition ClaimWithdrawal ::
  "gar_env \<Rightarrow> pubkey \<Rightarrow> u64 \<Rightarrow> pubkey \<Rightarrow> pubkey \<Rightarrow> gar_state \<Rightarrow> (withdrawal \<Rightarrow> 'a gar_result) \<Rightarrow> 'a gar_result" where
  [accounts_defs]: "ClaimWithdrawal env owner wid stake_ta owner_ata s k =
     ok_or (withdrawals s (owner, wid)) AccountNotInitialized (\<lambda>w.
     require (wd_owner w = owner) InvalidOwner (
     pinned_token_account env s (gs_stake_token_account (settings s)) stake_ta (
     user_token_account env s owner_ata owner (k w))))"

text \<open>\<open>close = owner\<close> on the vault: the account is gone after the instruction.\<close>

definition claim_withdrawal ::
  "gar_env \<Rightarrow> pubkey \<Rightarrow> u64 \<Rightarrow> pubkey \<Rightarrow> pubkey \<Rightarrow> gar_state \<Rightarrow> gar_state gar_result" where
  [handler_defs]: "claim_withdrawal env owner wid stake_ta owner_ata s =
     ClaimWithdrawal env owner wid stake_ta owner_ata s (\<lambda>w.
     require (now env \<ge> wd_available_at w) WithdrawalNotReady (
     and_then (token_transfer env stake_ta owner_ata (pda_key env SettingsPda) (wd_amount w) s) (\<lambda>s1.
     Inr (s1\<lparr>withdrawals := (withdrawals s1)((owner, wid) := None),
             settings := (settings s1)\<lparr>
               gs_total_withdrawn := saturating_sub (gs_total_withdrawn (settings s1)) (wd_amount w)\<rparr>\<rparr>))))"

definition InstantWithdrawal ::
  "gar_env \<Rightarrow> pubkey \<Rightarrow> u64 \<Rightarrow> pubkey \<Rightarrow> pubkey \<Rightarrow> pubkey \<Rightarrow> gar_state \<Rightarrow> (withdrawal \<Rightarrow> 'a gar_result) \<Rightarrow> 'a gar_result" where
  [accounts_defs]: "InstantWithdrawal env owner wid stake_ta owner_ata protocol_ta s k =
     ok_or (withdrawals s (owner, wid)) AccountNotInitialized (\<lambda>w.
     require (wd_owner w = owner) InvalidOwner (
     pinned_token_account env s (gs_stake_token_account (settings s)) stake_ta (
     user_token_account env s owner_ata owner (
     pinned_token_account env s (gs_protocol_token_account (settings s)) protocol_ta (k w)))))"

text \<open>The penalty of an expedited withdrawal, decaying linearly over the withdrawal period.\<close>

definition instant_penalty_rate :: "gateway_settings \<Rightarrow> i64 \<Rightarrow> i64 \<Rightarrow> u64 gar_result" where
  "instant_penalty_rate gs created_at clock =
     (let max_penalty = gs_max_expedited_withdrawal_penalty gs;
          min_penalty = gs_min_expedited_withdrawal_penalty gs;
          total_period = gs_withdrawal_period gs;
          elapsed = max (saturating_sub_i64 clock created_at) 0
      in if total_period = 0 \<or> elapsed \<ge> total_period then Inr min_penalty
         else
           ok_or (checked_mul (as_u128 (saturating_sub max_penalty min_penalty)) (word_of_int elapsed))
             ArithmeticOverflow (\<lambda>v.
           ok_or (checked_div v (word_of_int total_period)) ArithmeticOverflow (\<lambda>q.
           let decay = as_u64 q;
               rate_after_decay = saturating_sub max_penalty decay
           in Inr (min (max rate_after_decay min_penalty) max_penalty))))"

definition instant_fee :: "u64 \<Rightarrow> u64 \<Rightarrow> u64 gar_result" where
  "instant_fee amount rate =
     ok_or (checked_mul (as_u128 amount) (as_u128 rate)) ArithmeticOverflow (\<lambda>v.
     ok_or (checked_div v (as_u128 RATE_SCALE)) ArithmeticOverflow (\<lambda>q. Inr (as_u64 q)))"

definition instant_withdrawal ::
  "gar_env \<Rightarrow> pubkey \<Rightarrow> u64 \<Rightarrow> pubkey \<Rightarrow> pubkey \<Rightarrow> pubkey \<Rightarrow> gar_state \<Rightarrow> gar_state gar_result" where
  [handler_defs]: "instant_withdrawal env owner wid stake_ta owner_ata protocol_ta s =
     InstantWithdrawal env owner wid stake_ta owner_ata protocol_ta s (\<lambda>w.
     require (\<not> wd_is_protected w) ProtectedVault (
     require (wd_amount w \<ge> gs_min_expedited_withdrawal_amount (settings s)) InvalidWithdrawalAmount (
     and_then (instant_penalty_rate (settings s) (wd_created_at w) (now env)) (\<lambda>rate.
     and_then (instant_fee (wd_amount w) rate) (\<lambda>fee.
     let payout = saturating_sub (wd_amount w) fee in
     and_then (token_transfer env stake_ta owner_ata (pda_key env SettingsPda) payout s) (\<lambda>s1.
     and_then (token_transfer env stake_ta protocol_ta (pda_key env SettingsPda) fee s1) (\<lambda>s2.
     Inr (s2\<lparr>withdrawals := (withdrawals s2)((owner, wid) := None),
             settings := (settings s2)\<lparr>
               gs_total_withdrawn := saturating_sub (gs_total_withdrawn (settings s2)) (wd_amount w)\<rparr>\<rparr>))))))))"

definition close_drained_withdrawal :: "pubkey \<Rightarrow> u64 \<Rightarrow> gar_state \<Rightarrow> gar_state gar_result" where
  [handler_defs]: "close_drained_withdrawal owner wid s =
     ok_or (withdrawals s (owner, wid)) AccountNotInitialized (\<lambda>w.
     require (wd_amount w = 0) WithdrawalNotDrained (
     Inr (s\<lparr>withdrawals := (withdrawals s)((owner, wid) := None)\<rparr>)))"

text \<open>The gateway is the account passed; the optional delegation is passed or not.\<close>

definition CancelWithdrawal ::
  "pubkey \<Rightarrow> u64 \<Rightarrow> pubkey \<Rightarrow> bool \<Rightarrow> gar_state
     \<Rightarrow> (gateway \<Rightarrow> withdrawal \<Rightarrow> delegation option \<Rightarrow> 'a gar_result) \<Rightarrow> 'a gar_result" where
  [accounts_defs]: "CancelWithdrawal owner wid gw delegation_passed s k =
     ok_or (gateways s gw) AccountNotInitialized (\<lambda>g.
     ok_or (withdrawals s (owner, wid)) AccountNotInitialized (\<lambda>w.
     require (wd_owner w = owner) InvalidOwner (
     require (wd_gateway w = gw_operator g) InvalidParameter (
     require (delegation_passed \<longrightarrow> delegations s (gw, owner) \<noteq> None) AccountNotInitialized (
     k g w (if delegation_passed then delegations s (gw, owner) else None))))))"

definition cancel_withdrawal ::
  "pubkey \<Rightarrow> u64 \<Rightarrow> pubkey \<Rightarrow> bool \<Rightarrow> gar_state \<Rightarrow> gar_state gar_result" where
  [handler_defs]: "cancel_withdrawal owner wid gw delegation_passed s =
     CancelWithdrawal owner wid gw delegation_passed s (\<lambda>g w dopt.
     require (gw_status g = Joined) GatewayLeaving (
     let amount = wd_amount w;
         withdrawn = saturating_sub (gs_total_withdrawn (settings s)) amount
     in if wd_is_delegate w then
          ok_or dopt DelegationNotFound (\<lambda>d.
          require (g2_allow_delegated_staking (gw_settings g)) DelegationNotAllowed (
          let (g1, d1, settled) = settle_delegate_rewards g d in
          ok_or (checked_add (del_amount d1) amount) ArithmeticOverflow (\<lambda>damount.
          ok_or (checked_add (gw_total_delegated_stake g1) amount) ArithmeticOverflow (\<lambda>tds.
          ok_or (checked_add (gs_total_delegated (settings s)) amount) ArithmeticOverflow (\<lambda>t1.
          ok_or (checked_add t1 settled) ArithmeticOverflow (\<lambda>t2.
          Inr (s\<lparr>gateways := (gateways s)(gw \<mapsto> g1\<lparr>gw_total_delegated_stake := tds\<rparr>),
                 delegations := (delegations s)((gw, owner) \<mapsto>
                   d1\<lparr>del_amount := damount, del_reward_debt := gw_cumulative_reward_per_token g1\<rparr>),
                 withdrawals := (withdrawals s)((owner, wid) := None),
                 settings := (settings s)\<lparr>gs_total_withdrawn := withdrawn,
                                          gs_total_delegated := t2\<rparr>\<rparr>)))))))
        else
          ok_or (checked_add (gw_operator_stake g) amount) ArithmeticOverflow (\<lambda>stake.
          ok_or (checked_add (gs_total_staked (settings s)) amount) ArithmeticOverflow (\<lambda>staked.
          Inr (s\<lparr>gateways := (gateways s)(gw \<mapsto> g\<lparr>gw_operator_stake := stake\<rparr>),
                 withdrawals := (withdrawals s)((owner, wid) := None),
                 settings := (settings s)\<lparr>gs_total_withdrawn := withdrawn,
                                          gs_total_staked := staked\<rparr>\<rparr>)))))"

end
