(* ===== verification/Bytes.thy ===== *)
theory Bytes
  imports Prelude
begin

text \<open>
  Byte strings: little-endian integers (\<open>to_le_bytes\<close>, \<open>from_le_bytes\<close>) as the programs use them
  for hash inputs, random draws and the raw layout of another program's account.
\<close>

section \<open>Little-endian integers\<close>

fun le_nat :: "u8 list \<Rightarrow> nat" where
  "le_nat [] = 0"
| "le_nat (b # bs) = unat b + 256 * le_nat bs"

fun le_bytes :: "nat \<Rightarrow> nat \<Rightarrow> u8 list" where
  "le_bytes 0 n = []"
| "le_bytes (Suc k) n = of_nat (n mod 256) # le_bytes k (n div 256)"

text \<open>\<open>to_le_bytes\<close> of a \<open>u64\<close>, and of an \<open>i64\<close> in two's complement.\<close>

definition le_bytes64 :: "u64 \<Rightarrow> u8 list" where
  "le_bytes64 w = le_bytes 8 (unat w)"

definition le_bytes_i64 :: "i64 \<Rightarrow> u8 list" where
  "le_bytes_i64 t = le_bytes64 (word_of_int t)"

lemma length_le_bytes [simp]: "length (le_bytes k n) = k"
  by (induction k arbitrary: n) simp_all

lemma length_le_bytes64 [simp]: "length (le_bytes64 w) = 8"
  by (simp add: le_bytes64_def)

lemma length_le_bytes_i64 [simp]: "length (le_bytes_i64 t) = 8"
  by (simp add: le_bytes_i64_def)

lemma unat_of_nat_byte: "n < 256 \<Longrightarrow> unat (of_nat n :: u8) = n"
  by (simp add: unsigned_of_nat take_bit_nat_eq_self)

lemma le_nat_le_bytes: "n < 256 ^ k \<Longrightarrow> le_nat (le_bytes k n) = n"
proof (induction k arbitrary: n)
  case (Suc k)
  then have "n div 256 < 256 ^ k" by (simp add: less_mult_imp_div_less mult.commute)
  then show ?case using Suc.IH [of "n div 256"] by (simp add: unat_of_nat_byte)
qed simp

lemma le_nat_le_bytes64 [simp]: "le_nat (le_bytes64 w) = unat w"
  unfolding le_bytes64_def by (rule le_nat_le_bytes) (use unsigned_less [of w] in simp)

lemma le_bytes64_inject [simp]: "le_bytes64 v = le_bytes64 w \<longleftrightarrow> v = w"
  by (metis le_nat_le_bytes64 word_unat_eq_iff)

lemma le_bytes_i64_inject:
  assumes "i64_ok s" "i64_ok t"
  shows "le_bytes_i64 s = le_bytes_i64 t \<longleftrightarrow> s = t"
proof -
  have "sint (word_of_int s :: u64) = s" "sint (word_of_int t :: u64) = t"
    using assms by (simp_all add: i64_ok_def sint_sbintrunc' signed_take_bit_int_eq_self)
  then show ?thesis unfolding le_bytes_i64_def by (metis le_bytes64_inject)
qed

lemma le_nat_less: "le_nat bs < 256 ^ length bs"
proof (induction bs)
  case (Cons b bs)
  have "unat b < 256" using unsigned_less [of b] by simp
  with Cons show ?case by simp
qed simp

lemma le_bytes_le_nat: "le_bytes (length bs) (le_nat bs) = bs"
proof (induction bs)
  case (Cons b bs)
  have "unat b < 256" using unsigned_less [of b] by simp
  with Cons show ?case by simp
qed simp

text \<open>The integer at an offset of an account's data.\<close>

definition le_nat_at :: "u8 list \<Rightarrow> nat \<Rightarrow> nat \<Rightarrow> nat" where
  "le_nat_at data offset k = le_nat (take k (drop offset data))"

text \<open>An \<open>as i64\<close> cast of a \<open>u64\<close> reads it in two's complement.\<close>

abbreviation as_i64 :: "u64 \<Rightarrow> i64" where "as_i64 w \<equiv> sint w"

text \<open>\<open>u8::is_ascii_uppercase\<close> and \<open>u8::is_ascii_alphanumeric\<close>.\<close>

definition is_ascii_uppercase :: "char \<Rightarrow> bool" where
  "is_ascii_uppercase c \<longleftrightarrow> (let n = of_char c :: nat in 65 \<le> n \<and> n \<le> 90)"

definition is_ascii_alphanumeric :: "char \<Rightarrow> bool" where
  "is_ascii_alphanumeric c \<longleftrightarrow>
     (let n = of_char c :: nat
      in 48 \<le> n \<and> n \<le> 57 \<or> 65 \<le> n \<and> n \<le> 90 \<or> 97 \<le> n \<and> n \<le> 122)"

end
