(* ===== verification/Gar_Gateway.thy ===== *)
theory Gar_Gateway
  imports Gar_Stake Bytes
begin

text \<open>
  The life of a gateway: \<open>instructions/gateway.rs\<close>. Joining, updating settings, metadata and
  the two delegated addresses, leaving, pruning after too many failures, and the final garbage
  collection that closes the account and swap-removes its registry slot.
\<close>

section \<open>Instruction parameters and validation (lib.rs)\<close>

record join_network_params =
  jp_operator_stake :: u64
  jp_label :: string
  jp_fqdn :: string
  jp_port :: u16
  jp_protocol :: protocol
  jp_properties :: "string option"
  jp_note :: "string option"
  jp_allow_delegated_staking :: bool
  jp_delegate_reward_share_ratio :: u8
  jp_min_delegate_stake :: "u64 option"
  jp_observer_address :: pubkey

record update_gateway_metadata_params =
  up_label :: "string option"
  up_fqdn :: "string option"
  up_port :: "u16 option"
  up_protocol :: "protocol option"
  up_properties :: "string option"
  up_note :: "string option"

record update_gateway_params = update_gateway_metadata_params +
  up_allow_delegated_staking :: "bool option"
  up_delegate_reward_share_ratio :: "u8 option"
  up_min_delegate_stake :: "u64 option"

text \<open>Strings are their UTF-8 bytes, so \<open>length\<close> is Rust's \<open>len()\<close>.\<close>

definition is_valid_arweave_id :: "string \<Rightarrow> bool" where
  "is_valid_arweave_id s =
     (if s = [] then True
      else if length s \<noteq> 43 then False
      else list_all (\<lambda>b. is_ascii_alphanumeric b \<or> b = CHR ''-'' \<or> b = CHR ''_'') s)"

section \<open>join_network\<close>

definition JoinNetwork ::
  "gar_env \<Rightarrow> pubkey \<Rightarrow> pubkey \<Rightarrow> pubkey \<Rightarrow> pubkey \<Rightarrow> gar_state \<Rightarrow> 'a gar_result \<Rightarrow> 'a gar_result" where
  [accounts_defs]: "JoinNetwork env operator operator_ata stake_ta observer s k =
     require (gateways s operator = None) AccountAlreadyInUse (
     user_token_account env s operator_ata operator (
     pinned_token_account env s (gs_stake_token_account (settings s)) stake_ta (
     require (observer_lookups s observer = None) AccountAlreadyInUse k)))"

definition join_network ::
  "gar_env \<Rightarrow> pubkey \<Rightarrow> pubkey \<Rightarrow> pubkey \<Rightarrow> join_network_params \<Rightarrow> gar_state \<Rightarrow> gar_state gar_result" where
  [handler_defs]: "join_network env operator operator_ata stake_ta p s =
     JoinNetwork env operator operator_ata stake_ta (jp_observer_address p) s (
     require (jp_operator_stake p \<ge> gs_min_operator_stake (settings s)) InsufficientStake (
     require (jp_label p \<noteq> [] \<and> length (jp_label p) \<le> 64) InvalidLabel (
     require (jp_fqdn p \<noteq> [] \<and> length (jp_fqdn p) \<le> 128) InvalidFqdn (
     require (ucast (jp_delegate_reward_share_ratio p) * 100 \<le> MAX_DELEGATE_REWARD_SHARE) InvalidRewardShare (
     and_then (token_transfer env operator_ata stake_ta operator (jp_operator_stake p) s) (\<lambda>s1.
     let properties = (case jp_properties p of None \<Rightarrow> [] | Some x \<Rightarrow> x) in
     require (is_valid_arweave_id properties) InvalidParameter (
     let note = (case jp_note p of None \<Rightarrow> [] | Some n \<Rightarrow> n) in
     require (length note \<le> 256) InvalidParameter (
     let min_delegation = (case jp_min_delegate_stake p of None \<Rightarrow> gs_min_delegate_stake (settings s1)
                           | Some m \<Rightarrow> m) in
     require (min_delegation \<ge> gs_min_delegate_stake (settings s1)) DelegationBelowMinimum (
     let reg = registry s1 in
     require (unat (reg_count reg) < MAX_GATEWAYS) RegistryFull (
     ok_or (checked_add (reg_count reg) 1) ArithmeticOverflow (\<lambda>count.
     let g = \<lparr>gw_operator = operator, gw_label = jp_label p, gw_fqdn = jp_fqdn p,
               gw_port = jp_port p, gw_protocol = jp_protocol p, gw_properties = properties,
               gw_note = note, gw_operator_stake = jp_operator_stake p,
               gw_total_delegated_stake = 0, gw_status = Joined, gw_start_timestamp = now env,
               gw_leave_timestamp = None, gw_leave_epoch_duration = 0,
               gw_stats = default_stats, gw_weights = default_weights,
               gw_settings = \<lparr>g2_allow_delegated_staking = jp_allow_delegated_staking p,
                 g2_delegate_reward_share_ratio = ucast (jp_delegate_reward_share_ratio p) * 100,
                 g2_min_delegation_amount = min_delegation, g2_allowlist_enabled = False,
                 g2_pending_delegate_reward_share_ratio = None, g2_delegation_disabled_at = None\<rparr>,
               gw_registry_index = reg_count reg, gw_observer_address = jp_observer_address p,
               gw_cumulative_reward_per_token = 0, gw_bump = pda_bump env (GatewayPda operator),
               gw_version = GATEWAY_VERSION, gw_operations_address = operator\<rparr>;
         slot = \<lparr>slot_address = operator, slot_composite_weight = 0,
                 slot_start_timestamp = now env, slot_status = STATUS_JOINED,
                 slot_delegated_at_tally = 0\<rparr>;
         lookup = \<lparr>ol_gateway = operator,
                   ol_bump = pda_bump env (ObserverLookupPda (jp_observer_address p)),
                   ol_version = V1_0_0\<rparr>
     in
     ok_or (checked_add (gs_total_staked (settings s1)) (jp_operator_stake p)) ArithmeticOverflow (\<lambda>staked.
     Inr (s1\<lparr>gateways := (gateways s1)(operator \<mapsto> g),
             observer_lookups := (observer_lookups s1)(jp_observer_address p \<mapsto> lookup),
             registry := reg\<lparr>reg_gateways := (reg_gateways reg)(unat (reg_count reg) := slot),
                             reg_count := count\<rparr>,
             settings := (settings s1)\<lparr>gs_total_staked := staked\<rparr>\<rparr>)))))))))))))"

section \<open>leave_network and prune_gateway\<close>

text \<open>
  The protected exit vault (the part up to the minimum stake) and, for the part above it, the
  excess vault at the next id, whose account the caller must have passed.
\<close>

definition open_exit_vaults ::
  "gar_env \<Rightarrow> pubkey \<Rightarrow> u64 \<Rightarrow> u64 \<Rightarrow> bool \<Rightarrow> i64 \<Rightarrow> i64 \<Rightarrow> gar_pda option \<Rightarrow> gar_state
     \<Rightarrow> gar_state gar_result" where
  "open_exit_vaults env operator protected_amount excess_amount exit_flag
       protected_available_at excess_available_at excess_withdrawal s =
     and_then (open_withdrawal env operator operator protected_amount
                 (if protected_amount > 0 then protected_available_at else now env)
                 False exit_flag (protected_amount > 0) s) (\<lambda>s1.
     if excess_amount > 0 then
       ok_or excess_withdrawal MissingExcessWithdrawal (\<lambda>excess_acc.
       let excess_id = wc_next_id (load_counter env s1 operator) in
       require (excess_acc = WithdrawalPda operator excess_id) InvalidExcessWithdrawalPda (
       require (withdrawals s1 (operator, excess_id) = None) InvalidParameter (
       open_withdrawal env operator operator excess_amount excess_available_at
         False True False s1)))
     else Inr s1)"

text \<open>The gateway's registry slot is marked in place, so positions stay stable in an epoch.\<close>

definition mark_slot_leaving :: "gateway \<Rightarrow> gar_state \<Rightarrow> gar_state gar_result" where
  "mark_slot_leaving g s =
     (let reg = registry s; index = unat (gw_registry_index g) in
      require (index < MAX_GATEWAYS) InvalidParameter (
      require (gw_registry_index g < reg_count reg) InvalidParameter (
      let slot = reg_gateways reg index in
      require (slot_address slot = gw_operator g) InvalidParameter (
      Inr (s\<lparr>registry := reg\<lparr>reg_gateways := (reg_gateways reg)(index :=
              slot\<lparr>slot_composite_weight := 0, slot_status := STATUS_LEAVING\<rparr>)\<rparr>\<rparr>)))))"

text \<open>The last remaining account, if it is the observer lookup and writable, is closed.\<close>

definition close_observer_lookup :: "gateway \<Rightarrow> account_info list \<Rightarrow> gar_state \<Rightarrow> gar_state" where
  "close_observer_lookup g remaining s =
     (if remaining \<noteq> [] \<and> ai_key (last remaining) = ObserverLookupPda (gw_observer_address g)
         \<and> ai_is_writable (last remaining)
      then s\<lparr>observer_lookups := (observer_lookups s)(gw_observer_address g := None)\<rparr>
      else s)"

definition leave_network ::
  "gar_env \<Rightarrow> account_info list \<Rightarrow> pubkey \<Rightarrow> gar_pda option \<Rightarrow> gar_state \<Rightarrow> gar_state gar_result" where
  [handler_defs]: "leave_network env remaining operator excess_withdrawal s =
     ok_or (gateways s operator) AccountNotInitialized (\<lambda>g.
     require (gw_operator g = operator) NotOperator (
     ok_or (checked_add_i64 (now env) GATEWAY_LEAVE_PERIOD) ArithmeticOverflow (\<lambda>protected_available_at.
     ok_or (checked_add_i64 (now env) (gs_withdrawal_period (settings s))) ArithmeticOverflow (\<lambda>excess_available_at.
     require (gw_status g = Joined) GatewayNotJoined (
     let pre_stake = gw_operator_stake g;
         min_stake = gs_min_operator_stake (settings s);
         protected_amount = min pre_stake min_stake;
         excess_amount = saturating_sub pre_stake min_stake
     in
     and_then (open_exit_vaults env operator protected_amount excess_amount True
                 protected_available_at excess_available_at excess_withdrawal s) (\<lambda>s1.
     let g1 = g\<lparr>gw_status := Leaving, gw_leave_timestamp := Some (now env),
                gw_leave_epoch_duration := es_epoch_duration (epoch_settings_acc s),
                gw_operator_stake := 0\<rparr>
     in
     and_then (mark_slot_leaving g1 s1) (\<lambda>s2.
     let s3 = close_observer_lookup g1 remaining s2 in
     ok_or (checked_add (gs_total_withdrawn (settings s3)) pre_stake) ArithmeticOverflow (\<lambda>withdrawn.
     Inr (s3\<lparr>gateways := (gateways s3)(operator \<mapsto> g1),
             settings := (settings s3)\<lparr>
               gs_total_staked := saturating_sub (gs_total_staked (settings s3)) pre_stake,
               gs_total_withdrawn := withdrawn\<rparr>\<rparr>)))))))))"

definition PruneGateway ::
  "gar_env \<Rightarrow> pubkey \<Rightarrow> pubkey \<Rightarrow> pubkey \<Rightarrow> gar_state \<Rightarrow> (gateway \<Rightarrow> 'a gar_result) \<Rightarrow> 'a gar_result" where
  [accounts_defs]: "PruneGateway env gw stake_ta protocol_ta s k =
     ok_or (gateways s gw) AccountNotInitialized (\<lambda>g.
     pinned_token_account env s (gs_stake_token_account (settings s)) stake_ta (
     pinned_token_account env s (gs_protocol_token_account (settings s)) protocol_ta (k g)))"

definition prune_gateway ::
  "gar_env \<Rightarrow> account_info list \<Rightarrow> pubkey \<Rightarrow> pubkey \<Rightarrow> pubkey \<Rightarrow> gar_pda option \<Rightarrow> gar_state
     \<Rightarrow> gar_state gar_result" where
  [handler_defs]: "prune_gateway env remaining gw stake_ta protocol_ta excess_withdrawal s =
     PruneGateway env gw stake_ta protocol_ta s (\<lambda>g.
     require (gw_status g = Joined) GatewayNotJoined (
     require (st_failed_consecutive (gw_stats g)
                \<ge> es_max_consecutive_failures (epoch_settings_acc s)) GatewayNotEligible (
     let min_stake = gs_min_operator_stake (settings s);
         slash_amount = min min_stake (gw_operator_stake g);
         post_slash = saturating_sub (gw_operator_stake g) slash_amount
     in
     ok_or (checked_add_i64 (now env) GATEWAY_LEAVE_PERIOD) ArithmeticOverflow (\<lambda>available_at.
     ok_or (checked_add_i64 (now env) (gs_withdrawal_period (settings s))) ArithmeticOverflow (\<lambda>excess_available_at.
     let protected_amount = min post_slash min_stake;
         excess_amount = saturating_sub post_slash min_stake
     in
     and_then (open_exit_vaults env (gw_operator g) protected_amount excess_amount (protected_amount > 0)
                 available_at excess_available_at excess_withdrawal s) (\<lambda>s1.
     and_then (if slash_amount > 0
               then token_transfer env stake_ta protocol_ta (pda_key env SettingsPda) slash_amount s1
               else Inr s1) (\<lambda>s2.
     let g1 = g\<lparr>gw_operator_stake := 0, gw_status := Leaving,
                gw_leave_timestamp := Some (now env),
                gw_leave_epoch_duration := es_epoch_duration (epoch_settings_acc s)\<rparr>
     in
     and_then (mark_slot_leaving g1 s2) (\<lambda>s3.
     let s4 = close_observer_lookup g1 remaining s3;
         prune_stake = saturating_add slash_amount post_slash
     in
     ok_or (checked_add (gs_total_withdrawn (settings s4)) post_slash) ArithmeticOverflow (\<lambda>withdrawn.
     Inr (s4\<lparr>gateways := (gateways s4)(gw \<mapsto> g1),
             settings := (settings s4)\<lparr>
               gs_total_staked := saturating_sub (gs_total_staked (settings s4)) prune_stake,
               gs_total_withdrawn := withdrawn\<rparr>\<rparr>))))))))))"

section \<open>Updating a gateway\<close>

text \<open>\<open>if let Some(x) = field { require!(..); write }\<close>.\<close>

definition update_field ::
  "'v option \<Rightarrow> ('v \<Rightarrow> bool) \<Rightarrow> gar_error \<Rightarrow> ('v \<Rightarrow> gateway \<Rightarrow> gateway) \<Rightarrow> gateway \<Rightarrow> gateway gar_result" where
  "update_field field valid e write g =
     (case field of None \<Rightarrow> Inr g | Some v \<Rightarrow> require (valid v) e (Inr (write v g)))"

text \<open>The fields both update instructions write, with the same validation.\<close>

definition apply_metadata ::
  "'m update_gateway_metadata_params_scheme \<Rightarrow> gateway \<Rightarrow> gateway gar_result" where
  "apply_metadata p g =
     and_then (update_field (up_label p) (\<lambda>l. l \<noteq> [] \<and> length l \<le> 64) InvalidLabel
                 (\<lambda>l g. g\<lparr>gw_label := l\<rparr>) g) (\<lambda>g.
     and_then (update_field (up_fqdn p) (\<lambda>f. f \<noteq> [] \<and> length f \<le> 128) InvalidFqdn
                 (\<lambda>f g. g\<lparr>gw_fqdn := f\<rparr>) g) (\<lambda>g.
     and_then (update_field (up_port p) (\<lambda>_. True) InvalidParameter (\<lambda>x g. g\<lparr>gw_port := x\<rparr>) g) (\<lambda>g.
     and_then (update_field (up_protocol p) (\<lambda>_. True) InvalidParameter
                 (\<lambda>x g. g\<lparr>gw_protocol := x\<rparr>) g) (\<lambda>g.
     and_then (update_field (up_properties p) is_valid_arweave_id InvalidParameter
                 (\<lambda>x g. g\<lparr>gw_properties := x\<rparr>) g) (\<lambda>g.
     update_field (up_note p) (\<lambda>n. length n \<le> 256) InvalidParameter (\<lambda>n g. g\<lparr>gw_note := n\<rparr>) g)))))"

text \<open>The switch of \<open>allow_delegated_staking\<close> (WP 6.3): cooldown on re-enabling.\<close>

definition set_allow_delegated_staking ::
  "gar_env \<Rightarrow> gateway_settings \<Rightarrow> bool \<Rightarrow> gateway \<Rightarrow> gateway gar_result" where
  "set_allow_delegated_staking env gs allow g =
     (let g2 = gw_settings g; was_enabled = g2_allow_delegated_staking g2 in
      if \<not> allow \<and> was_enabled then
        Inr (g\<lparr>gw_settings := g2\<lparr>g2_delegation_disabled_at := Some (now env),
                                  g2_allow_delegated_staking := allow\<rparr>\<rparr>)
      else if allow \<and> \<not> was_enabled then
        require (gw_total_delegated_stake g = 0) DelegatesStillActive (
        and_then (case g2_delegation_disabled_at g2 of
                    None \<Rightarrow> Inr ()
                  | Some disabled_at \<Rightarrow>
                      ok_or (checked_add_i64 disabled_at (gs_withdrawal_period gs)) ArithmeticOverflow (\<lambda>t.
                      require (now env \<ge> t) DelegationCooldownActive (Inr ()))) (\<lambda>_.
        Inr (g\<lparr>gw_settings := g2\<lparr>g2_delegation_disabled_at := None,
                                  g2_allow_delegated_staking := allow\<rparr>\<rparr>)))
      else Inr (g\<lparr>gw_settings := g2\<lparr>g2_allow_delegated_staking := allow\<rparr>\<rparr>))"

definition apply_gateway_settings ::
  "gar_env \<Rightarrow> gateway_settings \<Rightarrow> update_gateway_params \<Rightarrow> gateway \<Rightarrow> gateway gar_result" where
  "apply_gateway_settings env gs p g =
     require (gw_status g = Joined) GatewayLeaving (
     and_then (apply_metadata p g) (\<lambda>g.
     and_then (case up_allow_delegated_staking p of None \<Rightarrow> Inr g
               | Some allow \<Rightarrow> set_allow_delegated_staking env gs allow g) (\<lambda>g.
     and_then (update_field (up_delegate_reward_share_ratio p)
                 (\<lambda>r. ucast r * 100 \<le> MAX_DELEGATE_REWARD_SHARE) InvalidRewardShare
                 (\<lambda>r g. g\<lparr>gw_settings := (gw_settings g)\<lparr>
                    g2_pending_delegate_reward_share_ratio := Some (ucast r * 100)\<rparr>\<rparr>) g) (\<lambda>g.
     update_field (up_min_delegate_stake p) (\<lambda>m. m \<ge> gs_min_delegate_stake gs) DelegationBelowMinimum
       (\<lambda>m g. g\<lparr>gw_settings := (gw_settings g)\<lparr>g2_min_delegation_amount := m\<rparr>\<rparr>) g))))"

definition update_gateway_settings ::
  "gar_env \<Rightarrow> pubkey \<Rightarrow> update_gateway_params \<Rightarrow> gar_state \<Rightarrow> gar_state gar_result" where
  [handler_defs]: "update_gateway_settings env operator p s =
     ok_or (gateways s operator) AccountNotInitialized (\<lambda>g.
     require (gw_operator g = operator) NotOperator (
     and_then (apply_gateway_settings env (settings s) p g) (\<lambda>g1.
     Inr (s\<lparr>gateways := (gateways s)(operator \<mapsto> g1)\<rparr>))))"

definition update_gateway_metadata ::
  "pubkey \<Rightarrow> pubkey \<Rightarrow> update_gateway_metadata_params \<Rightarrow> gar_state \<Rightarrow> gar_state gar_result" where
  [handler_defs]: "update_gateway_metadata operator signer p s =
     ok_or (gateways s operator) AccountNotInitialized (\<lambda>g.
     require (gw_operator g = operator) NotOperator (
     require (gw_status g = Joined) GatewayLeaving (
     require (authorises g signer) NotGatewayAuthority (
     and_then (apply_metadata p g) (\<lambda>g1.
     Inr (s\<lparr>gateways := (gateways s)(operator \<mapsto> g1)\<rparr>))))))"

definition update_operations_address ::
  "pubkey \<Rightarrow> pubkey \<Rightarrow> gar_state \<Rightarrow> gar_state gar_result" where
  [handler_defs]: "update_operations_address operator new_operations_address s =
     ok_or (gateways s operator) AccountNotInitialized (\<lambda>g.
     require (gw_operator g = operator) NotOperator (
     require (gw_status g = Joined) GatewayLeaving (
     require (operations_address_is_set (gw_version g)) GatewayNotMigrated (
     require (new_operations_address \<noteq> 0) InvalidParameter (
     require (new_operations_address \<noteq> gw_operations_address g) InvalidParameter (
     Inr (s\<lparr>gateways := (gateways s)(operator \<mapsto>
            g\<lparr>gw_operations_address := new_operations_address\<rparr>)\<rparr>)))))))"

definition update_observer_address ::
  "gar_env \<Rightarrow> pubkey \<Rightarrow> pubkey \<Rightarrow> gar_state \<Rightarrow> gar_state gar_result" where
  [handler_defs]: "update_observer_address env operator new_observer s =
     ok_or (gateways s operator) AccountNotInitialized (\<lambda>g.
     require (gw_operator g = operator) NotOperator (
     ok_or (observer_lookups s (gw_observer_address g)) AccountNotInitialized (\<lambda>old_lookup.
     require (observer_lookups s new_observer = None) AccountAlreadyInUse (
     require (gw_status g = Joined) GatewayLeaving (
     require (new_observer \<noteq> gw_observer_address g) InvalidParameter (
     Inr (s\<lparr>gateways := (gateways s)(operator \<mapsto> g\<lparr>gw_observer_address := new_observer\<rparr>),
            observer_lookups := (observer_lookups s)(gw_observer_address g := None,
              new_observer \<mapsto> \<lparr>ol_gateway = operator,
                ol_bump = pda_bump env (ObserverLookupPda new_observer), ol_version = V1_0_0\<rparr>)\<rparr>)))))))"

section \<open>finalize_gone\<close>

text \<open>
  \<open>require_latest_epoch_finished\<close> of \<open>instructions/epoch.rs\<close>: the latest epoch's account must
  be among the remaining accounts; if the program owns it, its rewards must be distributed.
\<close>

definition require_latest_epoch_finished :: "gar_state \<Rightarrow> account_info list \<Rightarrow> unit gar_result" where
  "require_latest_epoch_finished s remaining =
     (case checked_sub (es_current_epoch_index (epoch_settings_acc s)) 1 of
        None \<Rightarrow> Inr ()
      | Some latest_index \<Rightarrow>
          require (EpochPda latest_index \<in> set (map ai_key remaining)) MissingLatestEpochAccount (
          case epochs s latest_index of
            None \<Rightarrow> Inr ()
          | Some latest \<Rightarrow> require (ep_rewards_distributed latest = 1) LatestEpochUnfinished (Inr ())))"

definition finalize_gone_expiry :: "gateway \<Rightarrow> i64 \<Rightarrow> i64 gar_result" where
  "finalize_gone_expiry g current_epoch_duration =
     ok_or (gw_leave_timestamp g) GatewayNotLeaving (\<lambda>leave_ts.
     let effective_duration = max (max (gw_leave_epoch_duration g) current_epoch_duration) 0;
         epoch_window = saturating_mul_i64 effective_duration 7;
         total = saturating_add_i64 GATEWAY_LEAVE_PERIOD epoch_window
     in Inr (saturating_add_i64 leave_ts total))"

text \<open>
  Swap-remove of the registry slot: the last slot moves into the vacated one and the moved
  gateway's stored index is rewritten, then the tail is zeroed and the count drops.
\<close>

definition swap_remove_slot :: "gateway \<Rightarrow> account_info list \<Rightarrow> gar_state \<Rightarrow> gar_state gar_result" where
  "swap_remove_slot g remaining s =
     (let reg = registry s; index = unat (gw_registry_index g) in
      require (reg_count reg > 0) InvalidParameter (
      require (index < MAX_GATEWAYS) InvalidParameter (
      require (gw_registry_index g < reg_count reg) InvalidParameter (
      require (slot_address (reg_gateways reg index) = gw_operator g) InvalidParameter (
      let last_index = unat (reg_count reg - 1);
          swapped_slot = reg_gateways reg last_index;
          swapped = slot_address swapped_slot
      in and_then
        (if index \<noteq> last_index then
           ok_or (find (\<lambda>ai. ai_key ai = GatewayPda swapped) remaining) InvalidParameter (\<lambda>info.
           require (ai_is_writable info) InvalidParameter (
           ok_or (gateways s swapped) InvalidParameter (\<lambda>swapped_gw.
           Inr (s\<lparr>gateways := (gateways s)(swapped \<mapsto> swapped_gw\<lparr>gw_registry_index := of_nat index\<rparr>),
                  registry := reg\<lparr>reg_gateways := (reg_gateways reg)(index := swapped_slot)\<rparr>\<rparr>))))
         else Inr s) (\<lambda>s1.
      Inr (s1\<lparr>registry := (registry s1)\<lparr>
             reg_gateways := (reg_gateways (registry s1))(last_index := empty_slot),
             reg_count := saturating_sub (reg_count reg) 1\<rparr>\<rparr>)))))))"

definition finalize_gone ::
  "gar_env \<Rightarrow> account_info list \<Rightarrow> pubkey \<Rightarrow> gar_state \<Rightarrow> gar_state gar_result" where
  [handler_defs]: "finalize_gone env remaining gw s =
     ok_or (gateways s gw) AccountNotInitialized (\<lambda>g.
     require (gw_status g = Leaving) GatewayNotLeaving (
     and_then (finalize_gone_expiry g (es_epoch_duration (epoch_settings_acc s))) (\<lambda>expiry.
     require (now env \<ge> expiry) LeaveWindowNotExpired (
     require (gw_total_delegated_stake g = 0) DelegationsOutstanding (
     and_then (require_latest_epoch_finished s remaining) (\<lambda>_.
     and_then (swap_remove_slot g remaining s) (\<lambda>s1.
     Inr (s1\<lparr>gateways := (gateways s1)(gw := None)\<rparr>))))))))"

end
