(* ===== verification/Gar_Distribution.thy ===== *)
theory Gar_Distribution
  imports Gar_Gateway
begin

text \<open>
  The distribution of an epoch's rewards: \<open>instructions/distribution.rs\<close>, with the release from
  the treasury that \<open>ario-core\<close> performs for it (\<open>instructions/release_treasury.rs\<close>). Pass 1
  classifies the gateways of the batch and computes their full rewards, pass 2 scales them to
  what the treasury holds and writes the gateways back.
\<close>

section \<open>Epoch bitmaps\<close>

text \<open>\<open>Epoch::is_observed\<close> and \<open>Epoch::set_observed\<close> on the seven bytes of \<open>has_observed\<close>.\<close>

definition is_observed :: "epoch \<Rightarrow> nat \<Rightarrow> bool" where
  "is_observed e idx =
     (if idx < 50 then and (drop_bit (idx mod 8) (ep_has_observed e (idx div 8))) 1 = 1 else False)"

definition set_observed :: "epoch \<Rightarrow> nat \<Rightarrow> epoch" where
  "set_observed e idx =
     (if idx < 50
      then e\<lparr>ep_has_observed := (ep_has_observed e)
             (idx div 8 := or (ep_has_observed e (idx div 8)) (push_bit (idx mod 8) 1))\<rparr>
      else e)"

section \<open>The reward of one gateway\<close>

definition split_scaled_reward :: "u64 \<Rightarrow> u16 \<Rightarrow> bool \<Rightarrow> u64 \<times> u64" where
  "split_scaled_reward scaled_reward delegate_reward_share_ratio had_delegation_at_tally =
     (let delegate_pool =
            (if delegate_reward_share_ratio > 0 \<and> had_delegation_at_tally
             then as_u64 (as_u128 scaled_reward * as_u128 delegate_reward_share_ratio div 10000)
             else 0)
      in (saturating_sub scaled_reward delegate_pool, delegate_pool))"

record pending_distribution =
  pd_account :: pubkey \<comment> \<open>the operator whose gateway account it is\<close>
  pd_gateway :: gateway
  pd_full_reward :: u64
  pd_is_leaving :: bool
  pd_is_prescribed :: bool
  pd_is_observed :: bool
  pd_failed :: bool
  pd_had_delegation_at_tally :: bool
  pd_eligible :: bool

text \<open>The six scenarios of the reward table.\<close>

definition scenario_reward ::
  "u64 \<Rightarrow> u64 \<Rightarrow> u64 \<Rightarrow> bool \<Rightarrow> bool \<Rightarrow> bool \<Rightarrow> u64" where
  "scenario_reward per_gateway per_observer penalty_rate failed is_prescribed observed =
     (if \<not> failed then
        if is_prescribed then
          if observed then saturating_add per_gateway per_observer
          else as_u64 (saturating_mul (as_u128 per_gateway)
                         (saturating_sub (as_u128 RATE_SCALE) (as_u128 penalty_rate))
                       div as_u128 RATE_SCALE)
        else per_gateway
      else if is_prescribed \<and> observed then per_observer
      else 0)"

text \<open>\<open>prescribed_observer_gateways[..observer_count].iter().position(|p| *p == operator)\<close>.\<close>

definition prescribed_position :: "epoch \<Rightarrow> pubkey \<Rightarrow> nat option" where
  "prescribed_position e operator =
     find (\<lambda>i. ep_prescribed_observer_gateways e i = operator) [0 ..< unat (ep_observer_count e)]"

text \<open>
  Pass 1 on the gateway at position \<open>i\<close>. The slice of the prescribed gateways panics when the
  count exceeds the array's 50 entries.
\<close>

definition classify_gateway ::
  "epoch_settings \<Rightarrow> epoch \<Rightarrow> gateway_registry \<Rightarrow> nat \<Rightarrow> pubkey \<Rightarrow> gateway
     \<Rightarrow> pending_distribution gar_result" where
  "classify_gateway es e reg i account g =
     (let slot = reg_gateways reg i;
          is_leaving = (gw_status g = Leaving);
          weights_stale = (wt_weights_epoch (gw_weights g) \<noteq> ep_epoch_index e);
          outside_earning_set = (gw_start_timestamp g > ep_start_timestamp e)
      in require (is_leaving \<or> \<not> weights_stale \<or> outside_earning_set) EpochWeightsClobbered (
      require (unat (ep_observer_count e) \<le> 50) Panic (
      let submitted = ep_observations_submitted e;
          failed = (submitted > 0 \<and> ep_failure_counts e i > (ucast submitted :: u16) div 2);
          pos = prescribed_position e (gw_operator g);
          is_prescribed = (pos \<noteq> None);
          is_obs = (case pos of None \<Rightarrow> False | Some p \<Rightarrow> is_observed e p);
          is_eligible = (slot_composite_weight slot > 0 \<and> \<not> weights_stale);
          full = (if is_leaving \<or> \<not> is_eligible then 0
                  else scenario_reward (ep_per_gateway_reward e) (ep_per_observer_reward e)
                         (es_missed_observation_penalty_rate es) failed is_prescribed is_obs)
      in Inr \<lparr>pd_account = account, pd_gateway = g, pd_full_reward = full,
            pd_is_leaving = is_leaving, pd_is_prescribed = is_prescribed, pd_is_observed = is_obs,
            pd_failed = failed,
            pd_had_delegation_at_tally = (slot_delegated_at_tally slot \<noteq> 0),
            pd_eligible = is_eligible\<rparr>)))"

text \<open>
  Pass 1 over the remaining accounts: the cursor, the batch's total and the buffered gateways.
  An account stands for a gateway of the program exactly if it is the address of one.
\<close>

fun collect_pending ::
  "gar_state \<Rightarrow> epoch \<Rightarrow> account_info list \<Rightarrow> nat \<Rightarrow> u64 \<Rightarrow> pending_distribution list
     \<Rightarrow> (nat \<times> u64 \<times> pending_distribution list) gar_result" where
  "collect_pending s e [] dist_idx batch_total pending = Inr (dist_idx, batch_total, pending)"
| "collect_pending s e (info # infos) dist_idx batch_total pending =
     (if dist_idx \<ge> unat (ep_active_gateway_count e) then Inr (dist_idx, batch_total, pending)
      else require (dist_idx < MAX_GATEWAYS) Panic (
      if slot_address (reg_gateways (registry s) dist_idx) = 0
      then collect_pending s e infos (dist_idx + 1) batch_total pending
      else
        case ai_key info of
          GatewayPda gw \<Rightarrow>
            ok_or (gateways s gw) InvalidGatewayAccount (\<lambda>g.
            require (ai_is_writable info) InvalidGatewayAccount (
            require (gw_operator g = gw) InvalidGatewayAccount (
            require (slot_address (reg_gateways (registry s) dist_idx) = gw_operator g) InvalidGatewayAccount (
            and_then (classify_gateway (epoch_settings_acc s) e (registry s) dist_idx gw g) (\<lambda>p.
            ok_or (if pd_full_reward p > 0 then checked_add batch_total (pd_full_reward p)
                   else Some batch_total) ArithmeticOverflow (\<lambda>total.
            collect_pending s e infos (dist_idx + 1) total (pending @ [p])))))))
        | _ \<Rightarrow> Inl InvalidGatewayAccount))"

section \<open>Pass 2\<close>

definition update_stats :: "pending_distribution \<Rightarrow> gateway_stats \<Rightarrow> gateway_stats" where
  "update_stats p st =
     (if \<not> pd_is_leaving p \<and> pd_eligible p then
        let st1 = st\<lparr>st_total_epochs := saturating_add (st_total_epochs st) 1\<rparr>;
            st2 = (if \<not> pd_failed p
                   then st1\<lparr>st_passed_epochs := saturating_add (st_passed_epochs st1) 1,
                           st_passed_consecutive := saturating_add (st_passed_consecutive st1) 1,
                           st_failed_consecutive := 0\<rparr>
                   else st1\<lparr>st_failed_epochs := saturating_add (st_failed_epochs st1) 1,
                           st_failed_consecutive := saturating_add (st_failed_consecutive st1) 1,
                           st_passed_consecutive := 0\<rparr>);
            st3 = (if pd_is_prescribed p
                   then st2\<lparr>st_prescribed_epochs := saturating_add (st_prescribed_epochs st2) 1\<rparr>
                   else st2)
        in if pd_is_prescribed p \<and> pd_is_observed p
           then st3\<lparr>st_observed_epochs := saturating_add (st_observed_epochs st3) 1\<rparr>
           else st3
      else st)"

definition scaled_reward :: "u64 \<Rightarrow> u64 \<Rightarrow> pending_distribution \<Rightarrow> u64" where
  "scaled_reward batch_total transfer_amount p =
     (if batch_total > 0 \<and> pd_full_reward p > 0
      then as_u64 (saturating_mul (as_u128 (pd_full_reward p)) (as_u128 transfer_amount)
                   div as_u128 batch_total)
      else 0)"

text \<open>
  Crediting one gateway: the gateway after the credit, the operator's part that compounded and
  the delegates' part that found no live delegation.
\<close>

definition credit_gateway ::
  "u64 \<Rightarrow> u64 \<Rightarrow> pending_distribution \<Rightarrow> (gateway \<times> u64 \<times> u64) gar_result" where
  "credit_gateway batch_total transfer_amount p =
     (let g = pd_gateway p; scaled = scaled_reward batch_total transfer_amount p in
      if scaled > 0 then
        let (operator_reward, delegate_pool) =
              split_scaled_reward scaled (g2_delegate_reward_share_ratio (gw_settings g))
                (pd_had_delegation_at_tally p);
            pays = (operator_reward > 0 \<and> gw_status g = Joined);
            g1 = (if pays
                  then g\<lparr>gw_operator_stake := saturating_add (gw_operator_stake g) operator_reward\<rparr>
                  else g);
            paid = (if pays then operator_reward else 0)
        in if delegate_pool > 0 then
             if gw_total_delegated_stake g1 > 0 then
               ok_or (checked_mul (as_u128 delegate_pool) REWARD_PRECISION) ArithmeticOverflow (\<lambda>v.
               ok_or (checked_div v (as_u128 (gw_total_delegated_stake g1))) ArithmeticOverflow (\<lambda>increment.
               Inr (g1\<lparr>gw_cumulative_reward_per_token :=
                         saturating_add (gw_cumulative_reward_per_token g1) increment\<rparr>, paid, 0)))
             else Inr (g1, paid, delegate_pool)
           else Inr (g1, paid, 0)
      else Inr (g, 0, 0))"

text \<open>Pass 2 over the buffer, with the gateways written back and the two running totals.\<close>

fun apply_pending ::
  "u64 \<Rightarrow> u64 \<Rightarrow> pending_distribution list \<Rightarrow> (pubkey \<rightharpoonup> gateway) \<Rightarrow> u64 \<Rightarrow> u64
     \<Rightarrow> ((pubkey \<rightharpoonup> gateway) \<times> u64 \<times> u64) gar_result" where
  "apply_pending batch_total transfer_amount [] G total_operator orphaned =
     Inr (G, total_operator, orphaned)"
| "apply_pending batch_total transfer_amount (p # ps) G total_operator orphaned =
     and_then (credit_gateway batch_total transfer_amount p) (\<lambda>(g, paid, orphan).
     apply_pending batch_total transfer_amount ps
       (G(pd_account p \<mapsto> g\<lparr>gw_stats := update_stats p (gw_stats g)\<rparr>))
       (saturating_add total_operator paid) (saturating_add orphaned orphan))"

section \<open>The treasury and the instruction\<close>

text \<open>The fields of \<open>ArioConfig\<close> (ario-core) that the release reads, and its address.\<close>

record treasury_config =
  tc_key :: pubkey
  tc_treasury :: pubkey

text \<open>
  \<open>ario_core::release_treasury_to_recipient\<close>: the source must be the treasury of the config, the
  destination the stake pool of the GAR settings that sign the call.
\<close>

definition release_treasury_to_recipient ::
  "gar_env \<Rightarrow> treasury_config \<Rightarrow> pubkey \<Rightarrow> pubkey \<Rightarrow> u64 \<Rightarrow> gar_state \<Rightarrow> gar_state gar_result" where
  "release_treasury_to_recipient env cfg src dst amount s =
     require (src = tc_treasury cfg) ConstraintViolated (
     require (dst = gs_stake_token_account (settings s)) ConstraintViolated (
     token_transfer env src dst (tc_key cfg) amount s))"

text \<open>
  The part of \<open>distribute_epoch\<close> after its guards: both passes, the transfer, the cursor and the
  supply counter.
\<close>

definition distribute_batch ::
  "gar_env \<Rightarrow> treasury_config \<Rightarrow> account_info list \<Rightarrow> u64 \<Rightarrow> epoch \<Rightarrow> pubkey \<Rightarrow> pubkey \<Rightarrow> gar_state
     \<Rightarrow> gar_state gar_result" where
  "distribute_batch env cfg remaining epoch_index e protocol_ta stake_ta s =
     and_then (collect_pending s e remaining (unat (ep_distribution_index e)) 0 [])
       (\<lambda>(dist_idx, batch_total, pending).
     ok_or (token_accounts env protocol_ta) AccountNotInitialized (\<lambda>protocol.
     let transfer_amount = min batch_total (ta_amount protocol) in
     and_then (apply_pending batch_total transfer_amount pending (gateways s) 0 0)
       (\<lambda>(G, total_operator_rewards, orphaned).
     let transfer = saturating_sub transfer_amount orphaned;
         s1 = s\<lparr>gateways := G\<rparr>
     in
     and_then (if transfer > 0
               then release_treasury_to_recipient env cfg protocol_ta stake_ta transfer s1
               else Inr s1) (\<lambda>s2.
     let e1 = e\<lparr>ep_distribution_index := of_nat dist_idx\<rparr>;
         e2 = (if dist_idx \<ge> unat (ep_active_gateway_count e)
               then e1\<lparr>ep_rewards_distributed := 1\<rparr> else e1)
     in
     ok_or (if total_operator_rewards > 0
            then checked_add (gs_total_staked (settings s2)) total_operator_rewards
            else Some (gs_total_staked (settings s2))) ArithmeticOverflow (\<lambda>staked.
     Inr (s2\<lparr>epochs := (epochs s2)(epoch_index \<mapsto> e2),
             settings := (settings s2)\<lparr>gs_total_staked := staked\<rparr>\<rparr>))))))"

definition distribute_epoch ::
  "gar_env \<Rightarrow> treasury_config \<Rightarrow> account_info list \<Rightarrow> u64 \<Rightarrow> pubkey \<Rightarrow> pubkey \<Rightarrow> gar_state
     \<Rightarrow> gar_state gar_result" where
  [handler_defs]: "distribute_epoch env cfg remaining epoch_index protocol_ta stake_ta s =
     ok_or (epochs s epoch_index) AccountNotInitialized (\<lambda>e.
     pinned_token_account env s (gs_protocol_token_account (settings s)) protocol_ta (
     pinned_token_account env s (gs_stake_token_account (settings s)) stake_ta (
     require (ep_prescriptions_done e \<noteq> 0) PrescriptionsNotDone (
     require (now env \<ge> ep_end_timestamp e) EpochInProgress (
     require (ep_rewards_distributed e = 0) RewardsAlreadyDistributed (
     if ep_observations_submitted e = 0 \<and> ep_distribution_index e = 0 then
       Inr (s\<lparr>epochs := (epochs s)(epoch_index \<mapsto>
              e\<lparr>ep_distribution_index := ep_active_gateway_count e, ep_rewards_distributed := 1\<rparr>)\<rparr>)
     else distribute_batch env cfg remaining epoch_index e protocol_ta stake_ta s))))))"

end
