(* ===== verification/Gar_Admin.thy ===== *)
theory Gar_Admin
  imports Gar_Gateway
begin

text \<open>
  Administration: the initial settings and the admin levers (\<open>instructions/initialize.rs\<close>), the
  epoch settings (\<open>instructions/epoch.rs\<close>, first part) and the delegate allowlist
  (\<open>instructions/allowlist.rs\<close>). Each instruction is gated by the authority recorded in the
  account it changes.
\<close>

section \<open>Constants (lib.rs, state/mod.rs)\<close>

definition MIN_OPERATOR_STAKE :: u64 where "MIN_OPERATOR_STAKE = 20000000000"
definition WITHDRAWAL_LOCK_PERIOD :: i64 where "WITHDRAWAL_LOCK_PERIOD = 30 * 86400"
definition MAX_EXPEDITED_WITHDRAWAL_PENALTY :: u64 where "MAX_EXPEDITED_WITHDRAWAL_PENALTY = 500000"
definition MIN_EXPEDITED_WITHDRAWAL_PENALTY :: u64 where "MIN_EXPEDITED_WITHDRAWAL_PENALTY = 100000"
definition MIN_EXPEDITED_WITHDRAWAL_AMOUNT :: u64 where "MIN_EXPEDITED_WITHDRAWAL_AMOUNT = 1000000"
definition GATEWAY_OPERATOR_REWARD_RATE :: u64 where "GATEWAY_OPERATOR_REWARD_RATE = 900000"
definition OBSERVER_REWARD_RATE :: u64 where "OBSERVER_REWARD_RATE = 100000"
definition MAX_REWARD_RATE :: u64 where "MAX_REWARD_RATE = 1000"
definition MIN_REWARD_RATE :: u64 where "MIN_REWARD_RATE = 500"
definition REWARD_DECAY_START_EPOCH :: u64 where "REWARD_DECAY_START_EPOCH = 365"
definition REWARD_DECAY_LAST_EPOCH :: u64 where "REWARD_DECAY_LAST_EPOCH = 547"
definition MISSED_OBSERVATION_PENALTY :: u64 where "MISSED_OBSERVATION_PENALTY = 250000"
definition MIN_REWARD_RATIO :: u64 where "MIN_REWARD_RATIO = 100000"
definition MAX_REWARD_RATIO :: u64 where "MAX_REWARD_RATIO = 900000"
definition EPOCH_DISABLE_DELAY :: i64 where "EPOCH_DISABLE_DELAY = 7 * 86400"

lemmas admin_constants =
  MIN_OPERATOR_STAKE_def WITHDRAWAL_LOCK_PERIOD_def MAX_EXPEDITED_WITHDRAWAL_PENALTY_def
  MIN_EXPEDITED_WITHDRAWAL_PENALTY_def MIN_EXPEDITED_WITHDRAWAL_AMOUNT_def
  GATEWAY_OPERATOR_REWARD_RATE_def OBSERVER_REWARD_RATE_def MAX_REWARD_RATE_def
  MIN_REWARD_RATE_def REWARD_DECAY_START_EPOCH_def REWARD_DECAY_LAST_EPOCH_def
  MISSED_OBSERVATION_PENALTY_def MIN_REWARD_RATIO_def MAX_REWARD_RATIO_def EPOCH_DISABLE_DELAY_def

section \<open>The accounts created at genesis\<close>

record initialize_params =
  ip_authority :: pubkey
  ip_migration_authority :: pubkey
  ip_stake_token_account :: pubkey
  ip_protocol_token_account :: pubkey
  ip_arns_program_id :: pubkey

definition initialize :: "pubkey \<Rightarrow> initialize_params \<Rightarrow> gateway_settings" where
  "initialize mint p =
     \<lparr>gs_authority = ip_authority p, gs_mint = mint,
      gs_min_operator_stake = MIN_OPERATOR_STAKE, gs_min_delegate_stake = 10000000,
      gs_withdrawal_period = WITHDRAWAL_LOCK_PERIOD,
      gs_max_expedited_withdrawal_penalty = MAX_EXPEDITED_WITHDRAWAL_PENALTY,
      gs_min_expedited_withdrawal_penalty = MIN_EXPEDITED_WITHDRAWAL_PENALTY,
      gs_min_expedited_withdrawal_amount = MIN_EXPEDITED_WITHDRAWAL_AMOUNT,
      gs_max_delegates_per_gateway = 10000, gs_migration_active = True,
      gs_migration_authority = ip_migration_authority p,
      gs_stake_token_account = ip_stake_token_account p,
      gs_protocol_token_account = ip_protocol_token_account p,
      gs_arns_program_id = ip_arns_program_id p,
      gs_total_staked = 0, gs_total_delegated = 0, gs_total_withdrawn = 0\<rparr>"

record initialize_epoch_params =
  iep_authority :: pubkey
  iep_epoch_duration :: i64
  iep_observer_count :: u8
  iep_name_count :: u8
  iep_min_observer_stake :: u64
  iep_slash_rate :: u16
  iep_tenure_weight_duration :: i64
  iep_max_tenure_weight :: u64

definition initialize_epochs :: "gar_env \<Rightarrow> initialize_epoch_params \<Rightarrow> epoch_settings gar_result" where
  "initialize_epochs env p =
     require (iep_tenure_weight_duration p > 0) InvalidParameter (
     require (iep_max_tenure_weight p > 0) InvalidParameter (
     Inr \<lparr>es_authority = iep_authority p, es_epoch_duration = iep_epoch_duration p,
       es_prescribed_observer_count = iep_observer_count p,
       es_prescribed_name_count = iep_name_count p,
       es_min_observer_stake = iep_min_observer_stake p, es_slash_rate = iep_slash_rate p,
       es_enabled = False, es_current_epoch_index = 0, es_genesis_timestamp = now env,
       es_tenure_weight_duration = iep_tenure_weight_duration p,
       es_max_tenure_weight = iep_max_tenure_weight p,
       es_gateway_reward_ratio = GATEWAY_OPERATOR_REWARD_RATE,
       es_observer_reward_ratio = OBSERVER_REWARD_RATE,
       es_missed_observation_penalty_rate = MISSED_OBSERVATION_PENALTY,
       es_max_reward_rate = MAX_REWARD_RATE, es_min_reward_rate = MIN_REWARD_RATE,
       es_reward_decay_start_epoch = REWARD_DECAY_START_EPOCH,
       es_reward_decay_last_epoch = REWARD_DECAY_LAST_EPOCH,
       es_max_consecutive_failures = 30, es_failed_gateway_slash_rate = 1000000,
       es_disable_at = 0\<rparr>))"

section \<open>Administration of the gateway settings\<close>

definition admin_repair_settings ::
  "pubkey \<Rightarrow> pubkey \<Rightarrow> pubkey \<Rightarrow> pubkey \<Rightarrow> gar_state \<Rightarrow> gar_state gar_result" where
  "admin_repair_settings authority new_mint new_stake_ta new_protocol_ta s =
     require (gs_authority (settings s) = authority) Unauthorized (
     require (gs_migration_active (settings s)) MigrationInactive (
     Inr (s\<lparr>settings := (settings s)\<lparr>gs_mint := new_mint,
            gs_stake_token_account := new_stake_ta,
            gs_protocol_token_account := new_protocol_ta\<rparr>\<rparr>)))"

definition admin_set_withdrawal_period :: "pubkey \<Rightarrow> i64 \<Rightarrow> gar_state \<Rightarrow> gar_state gar_result" where
  "admin_set_withdrawal_period authority new_period_seconds s =
     require (gs_authority (settings s) = authority) Unauthorized (
     require (new_period_seconds \<ge> 60) InvalidParameter (
     Inr (s\<lparr>settings := (settings s)\<lparr>gs_withdrawal_period := new_period_seconds\<rparr>\<rparr>)))"

definition transfer_authority :: "pubkey \<Rightarrow> pubkey \<Rightarrow> gar_state \<Rightarrow> gar_state gar_result" where
  "transfer_authority authority new_authority s =
     require (gs_authority (settings s) = authority) Unauthorized (
     require (new_authority \<noteq> 0) InvalidParameter (
     Inr (s\<lparr>settings := (settings s)\<lparr>gs_authority := new_authority\<rparr>\<rparr>)))"

definition transfer_epoch_settings_authority ::
  "pubkey \<Rightarrow> pubkey \<Rightarrow> gar_state \<Rightarrow> gar_state gar_result" where
  "transfer_epoch_settings_authority authority new_authority s =
     require (es_authority (epoch_settings_acc s) = authority) Unauthorized (
     require (new_authority \<noteq> 0) InvalidParameter (
     Inr (s\<lparr>epoch_settings_acc := (epoch_settings_acc s)\<lparr>es_authority := new_authority\<rparr>\<rparr>)))"

section \<open>Administration of the epoch settings\<close>

text \<open>The account context \<open>UpdateEpochSettings\<close>: the signer must be the recorded authority.\<close>

definition UpdateEpochSettings ::
  "pubkey \<Rightarrow> gar_state \<Rightarrow> (epoch_settings \<Rightarrow> epoch_settings gar_result) \<Rightarrow> gar_state gar_result" where
  "UpdateEpochSettings authority s k =
     require (es_authority (epoch_settings_acc s) = authority) Unauthorized (
     and_then (k (epoch_settings_acc s)) (\<lambda>es. Inr (s\<lparr>epoch_settings_acc := es\<rparr>)))"

definition set_epochs_enabled ::
  "gar_env \<Rightarrow> pubkey \<Rightarrow> bool \<Rightarrow> gar_state \<Rightarrow> gar_state gar_result" where
  "set_epochs_enabled env authority enabled s =
     UpdateEpochSettings authority s (\<lambda>es.
     if enabled then Inr (es\<lparr>es_enabled := True, es_disable_at := 0\<rparr>)
     else ok_or (checked_add_i64 (now env) EPOCH_DISABLE_DELAY) ArithmeticOverflow (\<lambda>disable_at.
          Inr (es\<lparr>es_disable_at := disable_at\<rparr>)))"

text \<open>\<open>now - index * duration\<close>, the genesis that makes epoch \<open>index\<close> start now.\<close>

definition genesis_for :: "i64 \<Rightarrow> i64 \<Rightarrow> i64 \<Rightarrow> i64 gar_result" where
  "genesis_for t index duration =
     ok_or (checked_mul_i64 index duration) ArithmeticOverflow (\<lambda>elapsed.
     ok_or (checked_sub_i64 t elapsed) ArithmeticOverflow Inr)"

definition admin_set_epoch_duration ::
  "gar_env \<Rightarrow> pubkey \<Rightarrow> i64 \<Rightarrow> gar_state \<Rightarrow> gar_state gar_result" where
  "admin_set_epoch_duration env authority new_duration s =
     UpdateEpochSettings authority s (\<lambda>es.
     require (new_duration \<ge> 60) InvalidParameter (
     and_then (genesis_for (now env) (sint (es_current_epoch_index es)) new_duration) (\<lambda>new_genesis.
     Inr (es\<lparr>es_epoch_duration := new_duration, es_genesis_timestamp := new_genesis\<rparr>))))"

definition admin_set_tenure_weight ::
  "pubkey \<Rightarrow> i64 \<Rightarrow> u64 \<Rightarrow> gar_state \<Rightarrow> gar_state gar_result" where
  "admin_set_tenure_weight authority tenure_weight_duration max_tenure_weight s =
     UpdateEpochSettings authority s (\<lambda>es.
     require (tenure_weight_duration > 0) InvalidParameter (
     require (max_tenure_weight > 0) InvalidParameter (
     Inr (es\<lparr>es_tenure_weight_duration := tenure_weight_duration,
             es_max_tenure_weight := max_tenure_weight\<rparr>))))"

definition admin_set_reward_ratios ::
  "pubkey \<Rightarrow> u64 \<Rightarrow> u64 \<Rightarrow> gar_state \<Rightarrow> gar_state gar_result" where
  "admin_set_reward_ratios authority gateway_ratio observer_ratio s =
     UpdateEpochSettings authority s (\<lambda>es.
     require (gateway_ratio \<le> RATE_SCALE) InvalidParameter (
     require (observer_ratio \<le> RATE_SCALE) InvalidParameter (
     require (gateway_ratio \<ge> MIN_REWARD_RATIO \<and> gateway_ratio \<le> MAX_REWARD_RATIO) InvalidParameter (
     require (observer_ratio \<ge> MIN_REWARD_RATIO \<and> observer_ratio \<le> MAX_REWARD_RATIO) InvalidParameter (
     ok_or (checked_add gateway_ratio observer_ratio) ArithmeticOverflow (\<lambda>total_ratio.
     require (total_ratio = RATE_SCALE) InvalidParameter (
     Inr (es\<lparr>es_gateway_reward_ratio := gateway_ratio,
             es_observer_reward_ratio := observer_ratio\<rparr>))))))))"

definition admin_set_current_epoch_index ::
  "gar_env \<Rightarrow> pubkey \<Rightarrow> u64 \<Rightarrow> gar_state \<Rightarrow> gar_state gar_result" where
  "admin_set_current_epoch_index env authority new_index s =
     UpdateEpochSettings authority s (\<lambda>es.
     require (new_index > 0) InvalidParameter (
     require (new_index \<le> 100000) InvalidParameter (
     require (\<not> es_enabled es) EpochsAlreadyEnabled (
     require (es_current_epoch_index es = 0) EpochCounterAlreadyAdvanced (
     and_then (genesis_for (now env) (sint new_index) (es_epoch_duration es)) (\<lambda>new_genesis.
     Inr (es\<lparr>es_current_epoch_index := new_index, es_genesis_timestamp := new_genesis\<rparr>)))))))"

section \<open>The delegate allowlist\<close>

definition allow_delegate ::
  "gar_env \<Rightarrow> pubkey \<Rightarrow> pubkey \<Rightarrow> gar_state \<Rightarrow> gar_state gar_result" where
  "allow_delegate env operator delegate s =
     ok_or (gateways s operator) AccountNotInitialized (\<lambda>g.
     require (gw_operator g = operator) NotOperator (
     require (allowlist s (operator, delegate) = None) AccountAlreadyInUse (
     Inr (s\<lparr>allowlist := (allowlist s)((operator, delegate) \<mapsto>
       \<lparr>al_gateway = gw_operator g, al_delegate = delegate, al_added_at = now env,
        al_bump = pda_bump env (AllowlistPda operator delegate), al_version = V1_0_0\<rparr>)\<rparr>))))"

definition disallow_delegate :: "pubkey \<Rightarrow> pubkey \<Rightarrow> gar_state \<Rightarrow> gar_state gar_result" where
  "disallow_delegate operator delegate s =
     ok_or (gateways s operator) AccountNotInitialized (\<lambda>g.
     require (gw_operator g = operator) NotOperator (
     ok_or (allowlist s (operator, delegate)) AccountNotInitialized (\<lambda>_.
     Inr (s\<lparr>allowlist := (allowlist s)((operator, delegate) := None)\<rparr>))))"

definition set_allowlist_enabled :: "pubkey \<Rightarrow> bool \<Rightarrow> gar_state \<Rightarrow> gar_state gar_result" where
  "set_allowlist_enabled operator enabled s =
     ok_or (gateways s operator) AccountNotInitialized (\<lambda>g.
     require (gw_operator g = operator) NotOperator (
     Inr (s\<lparr>gateways := (gateways s)(operator \<mapsto>
            g\<lparr>gw_settings := (gw_settings g)\<lparr>g2_allowlist_enabled := enabled\<rparr>\<rparr>)\<rparr>)))"

section \<open>What the levers keep\<close>

text \<open>What the code relies on of the epoch settings: the ratios share out exactly the whole.\<close>

definition ratios_exact :: "epoch_settings \<Rightarrow> bool" where
  "ratios_exact es \<longleftrightarrow>
     uint (es_gateway_reward_ratio es) + uint (es_observer_reward_ratio es) = uint RATE_SCALE"

definition epoch_settings_ok :: "epoch_settings \<Rightarrow> bool" where
  "epoch_settings_ok es \<longleftrightarrow>
     ratios_exact es \<and> es_tenure_weight_duration es > 0 \<and> es_max_tenure_weight es > 0"

lemma UpdateEpochSettings_iff:
  "UpdateEpochSettings authority s k = Inr s' \<longleftrightarrow>
     es_authority (epoch_settings_acc s) = authority
     \<and> (\<exists>es. k (epoch_settings_acc s) = Inr es \<and> s' = s\<lparr>epoch_settings_acc := es\<rparr>)"
  by (auto simp: UpdateEpochSettings_def result_iff)

lemma genesis_for_iff:
  "genesis_for t index duration = Inr g \<longleftrightarrow>
     i64_ok (index * duration) \<and> i64_ok (t - index * duration) \<and> g = t - index * duration"
  by (auto simp: genesis_for_def result_iff checked_mul_i64_def checked_sub_i64_def ok_or_def)

lemmas epoch_levers =
  set_epochs_enabled_def admin_set_epoch_duration_def admin_set_tenure_weight_def
  admin_set_reward_ratios_def admin_set_current_epoch_index_def

end
