(* ===== verification/Gar_Epoch.thy ===== *)
theory Gar_Epoch
  imports Gar_Distribution Gar_Admin Bytes
begin

text \<open>
  The life of an epoch: \<open>instructions/epoch.rs\<close> and \<open>instructions/observation.rs\<close>. An epoch is
  created, its gateways' weights are tallied in batches, observers and names are prescribed by
  a weighted roulette over the epoch's hashchain, observers report, the rewards are distributed
  (\<open>Gar_Distribution\<close>), observations and epoch are closed and their rent returned.

  The hash function (\<open>solana_program::hash::hash\<close>, SHA-256) is code of the runtime: it is the
  parameter \<open>sha\<close> of the definitions that use it, of which nothing is assumed.
\<close>

type_synonym hasher = "u8 list \<Rightarrow> u8 list"

section \<open>The total composite weight (state/mod.rs)\<close>

definition total_composite_weight :: "epoch \<Rightarrow> u128" where
  "total_composite_weight e =
     or (push_bit 64 (as_u128 (ep_total_composite_weight_hi e))) (as_u128 (ep_total_composite_weight_lo e))"

definition set_total_composite_weight :: "u128 \<Rightarrow> epoch \<Rightarrow> epoch" where
  "set_total_composite_weight v e =
     e\<lparr>ep_total_composite_weight_lo := ucast v, ep_total_composite_weight_hi := ucast (drop_bit 64 v)\<rparr>"

definition add_composite_weight :: "u64 \<Rightarrow> epoch \<Rightarrow> epoch" where
  "add_composite_weight v e =
     set_total_composite_weight (saturating_add (total_composite_weight e) (as_u128 v)) e"

section \<open>create_epoch\<close>

definition empty_epoch :: epoch where
  "empty_epoch = \<lparr>ep_epoch_index = 0, ep_start_timestamp = 0, ep_end_timestamp = 0,
     ep_total_eligible_rewards = 0, ep_per_gateway_reward = 0, ep_per_observer_reward = 0,
     ep_reward_rate = 0, ep_total_composite_weight_lo = 0, ep_total_composite_weight_hi = 0,
     ep_hashchain = replicate 32 0, ep_active_gateway_count = 0, ep_distribution_index = 0,
     ep_tally_index = 0, ep_observer_count = 0, ep_name_count = 0, ep_observations_submitted = 0,
     ep_rewards_distributed = 0, ep_weights_tallied = 0, ep_prescriptions_done = 0,
     ep_observations_closed = 0, ep_failure_counts = (\<lambda>_. 0), ep_prescribed_observers = (\<lambda>_. 0),
     ep_prescribed_observer_gateways = (\<lambda>_. 0), ep_prescribed_names = (\<lambda>_. replicate 32 0),
     ep_has_observed = (\<lambda>_. 0), ep_has_rent_receipt = 0\<rparr>"

text \<open>The fields \<open>create_epoch\<close> writes into the fresh account.\<close>

definition new_epoch ::
  "u64 \<Rightarrow> i64 \<Rightarrow> i64 \<Rightarrow> u64 \<Rightarrow> u64 \<Rightarrow> u32 \<Rightarrow> u8 list \<Rightarrow> bool \<Rightarrow> epoch" where
  "new_epoch index epoch_start epoch_end total_eligible reward_rate active_gateways hashchain receipted =
     empty_epoch\<lparr>ep_epoch_index := index, ep_start_timestamp := epoch_start,
       ep_end_timestamp := epoch_end, ep_total_eligible_rewards := total_eligible,
       ep_reward_rate := reward_rate, ep_active_gateway_count := active_gateways,
       ep_hashchain := hashchain, ep_has_rent_receipt := (if receipted then 1 else 0)\<rparr>"

text \<open>The receipt that records who paid for the epoch's account (ADR-0029).\<close>

definition init_epoch_rent_receipt ::
  "gar_env \<Rightarrow> account_info \<Rightarrow> pubkey \<Rightarrow> u64 \<Rightarrow> gar_state \<Rightarrow> gar_state gar_result" where
  "init_epoch_rent_receipt env receipt payer epoch_index s =
     require (ai_key receipt = EpochRentReceiptPda epoch_index) InvalidEpochRentReceipt (
     require (epoch_rent_receipts s epoch_index = None) InvalidEpochRentReceipt (
     require (ai_is_writable receipt) ConstraintViolated (
     Inr (s\<lparr>epoch_rent_receipts := (epoch_rent_receipts s)(epoch_index \<mapsto>
       \<lparr>er_creator = payer, er_bump = pda_bump env (EpochRentReceiptPda epoch_index),
        er_version = V1_0_0\<rparr>)\<rparr>))))"

text \<open>
  When the disable timelock has elapsed the handler clears \<open>enabled\<close> and then returns the error
  \<open>EpochsNotEnabled\<close>; a failed instruction writes nothing, so only the error is left.
\<close>

definition eligible_rewards :: "u64 \<Rightarrow> u64 \<Rightarrow> u64" where
  "eligible_rewards protocol_balance reward_rate =
     as_u64 ((case checked_mul (as_u128 protocol_balance) (as_u128 reward_rate) of
                None \<Rightarrow> 0 | Some v \<Rightarrow> v) div as_u128 RATE_SCALE)"

definition create_epoch ::
  "gar_env \<Rightarrow> hasher \<Rightarrow> u64 \<Rightarrow> account_info list \<Rightarrow> pubkey \<Rightarrow> pubkey \<Rightarrow> gar_state \<Rightarrow> gar_state gar_result" where
  "create_epoch env sha slot remaining protocol_ta payer s =
     (let es = epoch_settings_acc s; index = es_current_epoch_index es in
      require (epochs s index = None) AccountAlreadyInUse (
      pinned_token_account env s (gs_protocol_token_account (settings s)) protocol_ta (
      require (es_enabled es) EpochsNotEnabled (
      require (\<not> (es_disable_at es > 0 \<and> now env \<ge> es_disable_at es)) EpochsNotEnabled (
      ok_or (checked_mul_i64 (as_i64 index) (es_epoch_duration es)) ArithmeticOverflow (\<lambda>elapsed.
      ok_or (checked_add_i64 (es_genesis_timestamp es) elapsed) ArithmeticOverflow (\<lambda>epoch_start.
      require (now env \<ge> epoch_start) EpochNotStarted (
      and_then (require_latest_epoch_finished s remaining) (\<lambda>_.
      ok_or (token_accounts env protocol_ta) AccountNotInitialized (\<lambda>protocol.
      let reward_rate = compute_reward_rate index (es_max_reward_rate es) (es_min_reward_rate es)
            (es_reward_decay_start_epoch es) (es_reward_decay_last_epoch es);
          hashchain = sha (le_bytes64 slot @ le_bytes64 index @ le_bytes_i64 (now env));
          total_eligible = eligible_rewards (ta_amount protocol) reward_rate;
          receipt = find (\<lambda>ai. ai_key ai = EpochRentReceiptPda index) remaining
      in
      ok_or (checked_add_i64 epoch_start (es_epoch_duration es)) ArithmeticOverflow (\<lambda>epoch_end.
      let e = new_epoch index epoch_start epoch_end total_eligible reward_rate
                (reg_count (registry s)) hashchain (receipt \<noteq> None);
          s1 = s\<lparr>epochs := (epochs s)(index \<mapsto> e)\<rparr>
      in
      and_then (case receipt of None \<Rightarrow> Inr s1
                | Some r \<Rightarrow> init_epoch_rent_receipt env r payer index s1) (\<lambda>s2.
      ok_or (checked_add index 1) ArithmeticOverflow (\<lambda>next.
      Inr (s2\<lparr>epoch_settings_acc := es\<lparr>es_current_epoch_index := next\<rparr>\<rparr>))))))))))))))"

section \<open>tally_weights\<close>

text \<open>
  The weight of one gateway: computed at the epoch's start, zero for a gateway that joined
  later, written to the slot and to the gateway, with the pending reward share applied.
\<close>

definition apply_pending_share :: "gateway \<Rightarrow> gateway" where
  "apply_pending_share g =
     (case g2_pending_delegate_reward_share_ratio (gw_settings g) of
        None \<Rightarrow> g
      | Some pending \<Rightarrow> g\<lparr>gw_settings := (gw_settings g)\<lparr>
          g2_delegate_reward_share_ratio := pending,
          g2_pending_delegate_reward_share_ratio := None\<rparr>\<rparr>)"

definition tally_gateway ::
  "gateway_settings \<Rightarrow> epoch_settings \<Rightarrow> epoch \<Rightarrow> gateway \<Rightarrow> (u64 \<times> gateway) gar_result" where
  "tally_gateway gs es e g =
     and_then (gateway_weights_compute (total_stake g) (gs_min_operator_stake gs)
                 (gw_start_timestamp g) (ep_start_timestamp e) (es_tenure_weight_duration es)
                 (es_max_tenure_weight es) (gw_stats g) RATE_SCALE) (\<lambda>weights.
     Inr (if gw_start_timestamp g > ep_start_timestamp e then 0 else wt_composite_weight weights,
          apply_pending_share (g\<lparr>gw_weights := weights\<lparr>wt_weights_epoch := ep_epoch_index e\<rparr>\<rparr>)))"

definition cache_weight :: "nat \<Rightarrow> u64 \<Rightarrow> u8 \<Rightarrow> gateway_registry \<Rightarrow> gateway_registry" where
  "cache_weight idx w delegated reg =
     reg\<lparr>reg_gateways := (reg_gateways reg)(idx := (reg_gateways reg idx)\<lparr>
       slot_composite_weight := w, slot_delegated_at_tally := delegated\<rparr>)\<rparr>"

definition advance_tally :: "epoch \<Rightarrow> epoch" where
  "advance_tally e = e\<lparr>ep_tally_index := ep_tally_index e + 1\<rparr>"

fun tally_loop :: "account_info list \<Rightarrow> gar_state \<Rightarrow> epoch \<Rightarrow> (gar_state \<times> epoch) gar_result" where
  "tally_loop [] s e = Inr (s, e)"
| "tally_loop (info # infos) s e =
     (let idx = unat (ep_tally_index e) in
      if idx \<ge> unat (ep_active_gateway_count e) then Inr (s, e)
      else require (idx < MAX_GATEWAYS) Panic (
      if slot_address (reg_gateways (registry s) idx) = 0
      then tally_loop infos (s\<lparr>registry := cache_weight idx 0 0 (registry s)\<rparr>) (advance_tally e)
      else
        case ai_key info of
          GatewayPda gw \<Rightarrow>
            ok_or (gateways s gw) InvalidGatewayAccount (\<lambda>g.
            require (gw_operator g = gw) InvalidGatewayAccount (
            require (slot_address (reg_gateways (registry s) idx) = gw_operator g) InvalidGatewayAccount (
            if gw_status g \<noteq> Joined
            then tally_loop infos (s\<lparr>registry := cache_weight idx 0 0 (registry s)\<rparr>) (advance_tally e)
            else
              and_then (tally_gateway (settings s) (epoch_settings_acc s) e g) (\<lambda>(w, g1).
              require (ai_is_writable info) ConstraintViolated (
              tally_loop infos
                (s\<lparr>registry := cache_weight idx w (if gw_total_delegated_stake g > 0 then 1 else 0)
                                (registry s),
                   gateways := (gateways s)(gw \<mapsto> g1)\<rparr>)
                (advance_tally (add_composite_weight w e)))))))
        | _ \<Rightarrow> Inl InvalidGatewayAccount))"

definition tally_weights :: "account_info list \<Rightarrow> u64 \<Rightarrow> gar_state \<Rightarrow> gar_state gar_result" where
  "tally_weights remaining epoch_index s =
     ok_or (epochs s epoch_index) AccountNotInitialized (\<lambda>e.
     require (ep_weights_tallied e = 0) WeightsAlreadyTallied (
     ok_or (checked_sub (es_current_epoch_index (epoch_settings_acc s)) 1) InvalidParameter (\<lambda>live_epoch_index.
     require (ep_epoch_index e = live_epoch_index) EpochNoLongerLive (
     and_then (tally_loop remaining s e) (\<lambda>(s1, e1).
     let e2 = (if ep_tally_index e1 \<ge> ep_active_gateway_count e1
               then e1\<lparr>ep_weights_tallied := 1\<rparr> else e1)
     in Inr (s1\<lparr>epochs := (epochs s1)(epoch_index \<mapsto> e2)\<rparr>))))))"

section \<open>The roulette\<close>

text \<open>
  \<open>prefix.partition_point(|p| p <= r)\<close>: the first index whose prefix sum exceeds \<open>r\<close>, as the
  prefix sums are ascending.
\<close>

definition partition_point :: "('a \<Rightarrow> bool) \<Rightarrow> 'a list \<Rightarrow> nat" where
  "partition_point p xs = length (takeWhile p xs)"

definition draw_index :: "u64 list \<Rightarrow> u8 list \<Rightarrow> nat" where
  "draw_index prefix hash_bytes =
     partition_point (\<lambda>p. unat p \<le> le_nat (take 16 hash_bytes) mod unat (last prefix)) prefix"

text \<open>
  The rounds of the roulette. The array \<open>chosen\<close> of the code says which indices are among the
  selected ones; an index outside the array panics.
\<close>

fun roulette_rounds ::
  "hasher \<Rightarrow> u64 list \<Rightarrow> nat \<Rightarrow> nat \<Rightarrow> u8 list \<Rightarrow> nat list \<Rightarrow> nat list gar_result" where
  "roulette_rounds sha prefix cap 0 hash_bytes selected = Inr selected"
| "roulette_rounds sha prefix cap (Suc rounds) hash_bytes selected =
     (if length selected \<ge> cap then Inr selected
      else
        let idx = draw_index prefix hash_bytes in
        require (idx < length prefix) Panic (
        roulette_rounds sha prefix cap rounds (sha hash_bytes)
          (if idx \<in> set selected then selected else selected @ [idx])))"

definition roulette_select_indices ::
  "hasher \<Rightarrow> u8 list \<Rightarrow> u64 list \<Rightarrow> nat \<Rightarrow> nat list gar_result" where
  "roulette_select_indices sha hashchain prefix max_observers =
     (let active_count = length prefix;
          total_weight = (if prefix = [] then 0 else last prefix);
          cap = min max_observers active_count
      in if total_weight = 0 \<or> cap = 0 then Inr []
         else roulette_rounds sha prefix cap (cap * 10) (sha hashchain) [])"

section \<open>prescribe_epoch\<close>

text \<open>
  An entry of the remaining accounts: an address of this program, or another program's account
  with its owner, the program whose name-registry address it is (if any) and its data.
\<close>

datatype prescribe_account =
    OwnAccount gar_pda
  | ForeignAccount pubkey "pubkey option" "u8 list"

fun prefix_sums :: "u64 \<Rightarrow> u64 list \<Rightarrow> u64 list gar_result" where
  "prefix_sums running [] = Inr []"
| "prefix_sums running (w # ws) =
     ok_or (checked_add running w) ArithmeticOverflow (\<lambda>r.
     and_then (prefix_sums r ws) (\<lambda>rs. Inr (r # rs)))"

definition slot_weights :: "gateway_registry \<Rightarrow> nat \<Rightarrow> u64 list" where
  "slot_weights reg n = map (\<lambda>i. slot_composite_weight (reg_gateways reg i)) [0 ..< n]"

text \<open>The observer address of every selected gateway, read from the account the caller passed.\<close>

fun resolve_observers ::
  "gar_state \<Rightarrow> prescribe_account list \<Rightarrow> pubkey list \<Rightarrow> pubkey list gar_result" where
  "resolve_observers s remaining [] = Inr []"
| "resolve_observers s remaining (observer_gateway # rest) =
     require (OwnAccount (GatewayPda observer_gateway) \<in> set remaining) InvalidGatewayAccount (
     ok_or (gateways s observer_gateway) InvalidGatewayAccount (\<lambda>g.
     require (gw_operator g = observer_gateway) InvalidGatewayAccount (
     and_then (resolve_observers s remaining rest) (\<lambda>os. Inr (gw_observer_address g # os)))))"

text \<open>The raw layout of ario-arns' \<open>NameRegistry\<close>: 48 bytes of header, entries of 40 bytes.\<close>

definition read_name_registry_header :: "u8 list \<Rightarrow> (nat \<times> nat) option" where
  "read_name_registry_header data =
     (if length data < 48 then None else Some (le_nat_at data 40 4, 48))"

definition read_name_entry :: "u8 list \<Rightarrow> nat \<Rightarrow> nat \<Rightarrow> u8 list option" where
  "read_name_entry data names_offset index =
     (let offset = names_offset + index * 40 in
      if offset + 32 > length data then None
      else let hash = take 32 (drop offset data) in
           if hash = replicate 32 0 then None else Some hash)"

definition probe_name :: "u8 list \<Rightarrow> nat \<Rightarrow> nat \<Rightarrow> nat \<Rightarrow> u8 list list \<Rightarrow> u8 list option" where
  "probe_name data names_offset active_names random_idx taken =
     (let fresh = (\<lambda>probe. case read_name_entry data names_offset ((random_idx + probe) mod active_names) of
                      None \<Rightarrow> False | Some h \<Rightarrow> h \<notin> set taken)
      in case find fresh [0 ..< active_names] of
           None \<Rightarrow> None
         | Some probe \<Rightarrow> read_name_entry data names_offset ((random_idx + probe) mod active_names))"

fun select_names ::
  "hasher \<Rightarrow> u8 list \<Rightarrow> nat \<Rightarrow> nat \<Rightarrow> nat \<Rightarrow> nat \<Rightarrow> u8 list \<Rightarrow> u8 list list \<Rightarrow> u8 list list" where
  "select_names sha data names_offset active_names prescribed_count 0 name_hash taken = taken"
| "select_names sha data names_offset active_names prescribed_count (Suc rounds) name_hash taken =
     (if length taken \<ge> prescribed_count then taken
      else
        let random_idx = le_nat (take 8 name_hash) mod active_names in
        select_names sha data names_offset active_names prescribed_count rounds (sha name_hash)
          (case probe_name data names_offset active_names random_idx taken of
             None \<Rightarrow> taken | Some h \<Rightarrow> taken @ [h]))"

text \<open>Writing a list to the front of one of the epoch's arrays.\<close>

definition write_prefix :: "'a list \<Rightarrow> (nat \<Rightarrow> 'a) \<Rightarrow> nat \<Rightarrow> 'a" where
  "write_prefix xs f i = (if i < length xs then xs ! i else f i)"

definition prescribe_names ::
  "hasher \<Rightarrow> gateway_settings \<Rightarrow> epoch_settings \<Rightarrow> prescribe_account list \<Rightarrow> nat \<Rightarrow> epoch \<Rightarrow> epoch gar_result" where
  "prescribe_names sha gs es remaining selected_count e =
     (if remaining = [] \<or> length remaining \<le> selected_count then Inr e
      else
        case last remaining of
          OwnAccount _ \<Rightarrow> Inl InvalidNameRegistry
        | ForeignAccount owner registry_of data \<Rightarrow>
            require (owner = gs_arns_program_id gs) InvalidNameRegistry (
            require (registry_of = Some (gs_arns_program_id gs)) InvalidNameRegistry (
            case read_name_registry_header data of
              None \<Rightarrow> Inr e
            | Some (active_names, names_offset) \<Rightarrow>
                let prescribed_count = min (unat (es_prescribed_name_count es)) (min active_names 2) in
                if active_names > 0 \<and> prescribed_count > 0 then
                  let names = select_names sha data names_offset active_names prescribed_count
                        (prescribed_count * 3) (sha (ep_hashchain e)) []
                  in Inr (e\<lparr>ep_prescribed_names := write_prefix names (ep_prescribed_names e),
                            ep_name_count := of_nat (length names)\<rparr>)
                else Inr e)))"

text \<open>\<open>total * ratio / RATE_SCALE / count\<close>, the reward of one gateway or observer.\<close>

definition per_unit_reward :: "u64 \<Rightarrow> u64 \<Rightarrow> u64 \<Rightarrow> u64" where
  "per_unit_reward total_rewards ratio count =
     as_u64 ((case checked_mul (as_u128 total_rewards) (as_u128 ratio) of None \<Rightarrow> 0 | Some v \<Rightarrow> v)
             div as_u128 RATE_SCALE) div count"

definition joined_count :: "gateway_registry \<Rightarrow> nat \<Rightarrow> u64" where
  "joined_count reg n = of_nat (length (filter (\<lambda>w. w > 0) (slot_weights reg n)))"

definition set_unit_rewards :: "epoch_settings \<Rightarrow> u64 \<Rightarrow> nat \<Rightarrow> epoch \<Rightarrow> epoch" where
  "set_unit_rewards es joined selected_count e =
     (if joined > 0 then
        let e1 = e\<lparr>ep_per_gateway_reward :=
                    per_unit_reward (ep_total_eligible_rewards e) (es_gateway_reward_ratio es) joined\<rparr>
        in if selected_count > 0
           then e1\<lparr>ep_per_observer_reward :=
                    per_unit_reward (ep_total_eligible_rewards e) (es_observer_reward_ratio es)
                      (of_nat selected_count)\<rparr>
           else e1
      else e)"

definition prescribe_epoch ::
  "hasher \<Rightarrow> prescribe_account list \<Rightarrow> u64 \<Rightarrow> gar_state \<Rightarrow> gar_state gar_result" where
  "prescribe_epoch sha remaining epoch_index s =
     ok_or (epochs s epoch_index) AccountNotInitialized (\<lambda>e.
     require (ep_weights_tallied e \<noteq> 0) WeightsNotTallied (
     require (ep_prescriptions_done e = 0) PrescriptionsAlreadyDone (
     let es = epoch_settings_acc s; reg = registry s;
         active_count = unat (ep_active_gateway_count e)
     in
     and_then (prefix_sums 0 (slot_weights reg (min active_count MAX_GATEWAYS))) (\<lambda>prefix.
     require (active_count \<le> MAX_GATEWAYS) Panic (
     and_then (roulette_select_indices sha (ep_hashchain e) prefix
                 (min (unat (es_prescribed_observer_count es)) active_count)) (\<lambda>selected.
     require (length selected \<le> 50) Panic (
     let addresses = map (\<lambda>i. slot_address (reg_gateways reg i)) selected in
     and_then (resolve_observers s remaining addresses) (\<lambda>observers.
     let e1 = e\<lparr>ep_prescribed_observer_gateways := write_prefix addresses (ep_prescribed_observer_gateways e),
               ep_prescribed_observers := write_prefix observers (ep_prescribed_observers e),
               ep_observer_count := of_nat (length selected)\<rparr>
     in
     and_then (prescribe_names sha (settings s) es remaining (length selected) e1) (\<lambda>e2.
     let e3 = set_unit_rewards es (joined_count reg active_count) (length selected) e2
     in Inr (s\<lparr>epochs := (epochs s)(epoch_index \<mapsto> e3\<lparr>ep_prescriptions_done := 1\<rparr>)\<rparr>))))))))))"

end
