(* ===== verification/Gar_Delegate.thy ===== *)
theory Gar_Delegate
  imports Gar_Stake
begin

text \<open>
  Delegated stake: \<open>instructions/delegate.rs\<close>. Every handler that touches a delegation settles
  its pending rewards first and moves the supply counter with the settled amount (ADR-0037).
\<close>

definition zero_delegation :: delegation where
  "zero_delegation = \<lparr>del_gateway = 0, del_delegator = 0, del_amount = 0, del_start_timestamp = 0,
     del_reward_debt = 0, del_bump = 0, del_version = SchemaVersion 0 0 0\<rparr>"

text \<open>A delegation account after \<open>init_if_needed\<close>.\<close>

definition load_delegation :: "gar_state \<Rightarrow> pubkey \<Rightarrow> pubkey \<Rightarrow> delegation" where
  "load_delegation s gw delegator =
     (case delegations s (gw, delegator) of None \<Rightarrow> zero_delegation | Some d \<Rightarrow> d)"

text \<open>The allowlist entry must be the first remaining account, at its canonical address.\<close>

definition has_allowlist_entry :: "gar_state \<Rightarrow> pubkey \<Rightarrow> pubkey \<Rightarrow> account_info list \<Rightarrow> bool" where
  "has_allowlist_entry s operator delegator remaining =
     (case remaining of [] \<Rightarrow> False
      | ai # _ \<Rightarrow> ai_key ai = AllowlistPda operator delegator
                  \<and> allowlist s (operator, delegator) \<noteq> None)"

section \<open>delegate_stake and decrease_delegate_stake\<close>

definition DelegateStake ::
  "gar_env \<Rightarrow> pubkey \<Rightarrow> pubkey \<Rightarrow> pubkey \<Rightarrow> pubkey \<Rightarrow> gar_state
     \<Rightarrow> (gateway \<Rightarrow> delegation \<Rightarrow> 'a gar_result) \<Rightarrow> 'a gar_result" where
  [accounts_defs]: "DelegateStake env gw delegator delegator_ata stake_ta s k =
     ok_or (gateways s gw) AccountNotInitialized (\<lambda>g.
     user_token_account env s delegator_ata delegator (
     pinned_token_account env s (gs_stake_token_account (settings s)) stake_ta (
     k g (load_delegation s gw delegator))))"

definition delegate_stake ::
  "gar_env \<Rightarrow> account_info list \<Rightarrow> pubkey \<Rightarrow> pubkey \<Rightarrow> pubkey \<Rightarrow> pubkey \<Rightarrow> u64 \<Rightarrow> gar_state
     \<Rightarrow> gar_state gar_result" where
  [handler_defs]: "delegate_stake env remaining gw delegator delegator_ata stake_ta amount s =
     DelegateStake env gw delegator delegator_ata stake_ta s (\<lambda>g d.
     require (amount > 0) InvalidAmount (
     require (g2_allow_delegated_staking (gw_settings g)) DelegationNotAllowed (
     require (del_amount d = 0 \<longrightarrow> amount \<ge> g2_min_delegation_amount (gw_settings g)) DelegationBelowMinimum (
     require (gw_status g = Joined) GatewayNotJoined (
     require (delegator \<noteq> gw_operator g) CannotDelegateToSelf (
     require (g2_allowlist_enabled (gw_settings g) \<and> \<not> del_amount d > 0 \<longrightarrow>
                has_allowlist_entry s (gw_operator g) delegator remaining) DelegateNotAllowed (
     let (g1, d1, settled) = (if del_amount d > 0 then settle_delegate_rewards g d else (g, d, 0));
         is_new = (del_amount d1 = 0)
     in and_then (token_transfer env delegator_ata stake_ta delegator amount s) (\<lambda>s1.
     ok_or (checked_add (del_amount d1) amount) ArithmeticOverflow (\<lambda>damount.
     let d2 = d1\<lparr>del_gateway := gw_operator g1, del_delegator := delegator, del_amount := damount\<rparr>;
         d3 = (if is_new
               then d2\<lparr>del_start_timestamp := now env,
                       del_reward_debt := gw_cumulative_reward_per_token g1,
                       del_bump := pda_bump env (DelegationPda (gw_operator g1) delegator),
                       del_version := V1_0_0\<rparr>
               else d2)
     in ok_or (checked_add (gw_total_delegated_stake g1) amount) ArithmeticOverflow (\<lambda>tds.
     ok_or (checked_add (gs_total_delegated (settings s1)) amount) ArithmeticOverflow (\<lambda>t1.
     ok_or (checked_add t1 settled) ArithmeticOverflow (\<lambda>t2.
     Inr (s1\<lparr>gateways := (gateways s1)(gw \<mapsto> g1\<lparr>gw_total_delegated_stake := tds\<rparr>),
             delegations := (delegations s1)((gw, delegator) \<mapsto> d3),
             settings := (settings s1)\<lparr>gs_total_delegated := t2\<rparr>\<rparr>)))))))))))))"

definition DecreaseDelegateStake ::
  "pubkey \<Rightarrow> pubkey \<Rightarrow> gar_state \<Rightarrow> (gateway \<Rightarrow> delegation \<Rightarrow> 'a gar_result) \<Rightarrow> 'a gar_result" where
  [accounts_defs]: "DecreaseDelegateStake gw delegator s k =
     ok_or (gateways s gw) AccountNotInitialized (\<lambda>g.
     ok_or (delegations s (gw, delegator)) AccountNotInitialized (\<lambda>d.
     require (del_delegator d = delegator) NotDelegator (k g d)))"

definition decrease_delegate_stake ::
  "gar_env \<Rightarrow> pubkey \<Rightarrow> pubkey \<Rightarrow> u64 \<Rightarrow> gar_state \<Rightarrow> gar_state gar_result" where
  [handler_defs]: "decrease_delegate_stake env gw delegator amount s =
     DecreaseDelegateStake gw delegator s (\<lambda>g d.
     require (amount > 0) InvalidAmount (
     let (g1, d1, settled) = settle_delegate_rewards g d in
     require (del_amount d1 \<ge> amount) InsufficientStake (
     let remaining = saturating_sub (del_amount d1) amount in
     require (remaining = 0 \<or> remaining \<ge> g2_min_delegation_amount (gw_settings g1)) DelegationBelowMinimum (
     ok_or (checked_add_i64 (now env) (gs_withdrawal_period (settings s))) ArithmeticOverflow (\<lambda>avail.
     and_then (open_withdrawal env delegator (gw_operator g1) amount avail True False False s) (\<lambda>s1.
     ok_or (checked_add (gs_total_withdrawn (settings s1)) amount) ArithmeticOverflow (\<lambda>withdrawn.
     Inr (s1\<lparr>gateways := (gateways s1)(gw \<mapsto>
               g1\<lparr>gw_total_delegated_stake := saturating_sub (gw_total_delegated_stake g1) amount\<rparr>),
             delegations := (delegations s1)((gw, delegator) \<mapsto> d1\<lparr>del_amount := remaining\<rparr>),
             settings := (settings s1)\<lparr>
               gs_total_delegated :=
                 saturating_sub (saturating_add (gs_total_delegated (settings s1)) settled) amount,
               gs_total_withdrawn := withdrawn\<rparr>\<rparr>))))))))"

section \<open>Closing and claiming\<close>

definition close_empty_delegation :: "pubkey \<Rightarrow> pubkey \<Rightarrow> gar_state \<Rightarrow> gar_state gar_result" where
  [handler_defs]: "close_empty_delegation gw delegator s =
     ok_or (gateways s gw) AccountNotInitialized (\<lambda>g.
     ok_or (delegations s (gw, delegator)) AccountNotInitialized (\<lambda>d.
     require (del_amount d = 0) InvalidAmount (
     require (delegator = del_delegator d) NotDelegator (
     let (g1, d1, settled) = settle_delegate_rewards g d in
     require (settled = 0) InvalidParameter (
     Inr (s\<lparr>gateways := (gateways s)(gw \<mapsto> g1),
            delegations := (delegations s)((gw, delegator) := None)\<rparr>))))))"

text \<open>
  The body the two permissionless claims share: settle, move the whole delegation into the
  delegate's own vault.
\<close>

definition claim_delegate_body ::
  "gar_env \<Rightarrow> pubkey \<Rightarrow> pubkey \<Rightarrow> gateway \<Rightarrow> delegation \<Rightarrow> gar_state \<Rightarrow> gar_state gar_result" where
  [handler_defs]: "claim_delegate_body env gw delegator g d s =
     (let (g1, d1, settled) = settle_delegate_rewards g d;
          amount = del_amount d1
      in require (amount > 0) InvalidAmount (
      ok_or (checked_add_i64 (now env) (gs_withdrawal_period (settings s))) ArithmeticOverflow (\<lambda>avail.
      and_then (open_withdrawal env delegator (gw_operator g1) amount avail True False False s) (\<lambda>s1.
      ok_or (checked_add (gs_total_withdrawn (settings s1)) amount) ArithmeticOverflow (\<lambda>withdrawn.
      Inr (s1\<lparr>gateways := (gateways s1)(gw \<mapsto>
                g1\<lparr>gw_total_delegated_stake := saturating_sub (gw_total_delegated_stake g1) amount\<rparr>),
              delegations := (delegations s1)((gw, delegator) \<mapsto> d1\<lparr>del_amount := 0\<rparr>),
              settings := (settings s1)\<lparr>
                gs_total_delegated :=
                  saturating_sub (saturating_add (gs_total_delegated (settings s1)) settled) amount,
                gs_total_withdrawn := withdrawn\<rparr>\<rparr>))))))"

definition ClaimDelegateFromLeavingGateway ::
  "pubkey \<Rightarrow> pubkey \<Rightarrow> gar_state \<Rightarrow> (gateway \<Rightarrow> delegation \<Rightarrow> 'a gar_result) \<Rightarrow> 'a gar_result" where
  [accounts_defs]: "ClaimDelegateFromLeavingGateway gw delegator s k =
     ok_or (gateways s gw) AccountNotInitialized (\<lambda>g.
     require (gw_status g = Leaving) GatewayNotJoined (
     ok_or (delegations s (gw, delegator)) AccountNotInitialized (\<lambda>d.
     require (del_delegator d = delegator) NotDelegator (
     require (del_amount d > 0) InvalidAmount (k g d)))))"

definition claim_delegate_from_leaving_gateway ::
  "gar_env \<Rightarrow> pubkey \<Rightarrow> pubkey \<Rightarrow> gar_state \<Rightarrow> gar_state gar_result" where
  [handler_defs]: "claim_delegate_from_leaving_gateway env gw delegator s =
     ClaimDelegateFromLeavingGateway gw delegator s (\<lambda>g d.
     require (gw_status g = Leaving) GatewayNotJoined (
     claim_delegate_body env gw delegator g d s))"

definition ClaimDelegateFromDisabledGateway ::
  "pubkey \<Rightarrow> pubkey \<Rightarrow> gar_state \<Rightarrow> (gateway \<Rightarrow> delegation \<Rightarrow> 'a gar_result) \<Rightarrow> 'a gar_result" where
  [accounts_defs]: "ClaimDelegateFromDisabledGateway gw delegator s k =
     ok_or (gateways s gw) AccountNotInitialized (\<lambda>g.
     require (\<not> g2_allow_delegated_staking (gw_settings g)) DelegationNotDisabled (
     ok_or (delegations s (gw, delegator)) AccountNotInitialized (\<lambda>d.
     require (del_delegator d = delegator) NotDelegator (
     require (del_amount d > 0) InvalidAmount (k g d)))))"

definition claim_delegate_from_disabled_gateway ::
  "gar_env \<Rightarrow> pubkey \<Rightarrow> pubkey \<Rightarrow> gar_state \<Rightarrow> gar_state gar_result" where
  [handler_defs]: "claim_delegate_from_disabled_gateway env gw delegator s =
     ClaimDelegateFromDisabledGateway gw delegator s (\<lambda>g d.
     require (\<not> g2_allow_delegated_staking (gw_settings g)) DelegationNotDisabled (
     claim_delegate_body env gw delegator g d s))"

section \<open>redelegate_stake\<close>

definition zero_redelegation_record :: redelegation_record where
  "zero_redelegation_record = \<lparr>rr_delegator = 0, rr_redelegation_count = 0,
     rr_last_redelegation_at = 0, rr_fee_reset_at = 0, rr_bump = 0, rr_version = SchemaVersion 0 0 0\<rparr>"

definition RedelegateStake ::
  "pubkey \<Rightarrow> pubkey \<Rightarrow> pubkey \<Rightarrow> gar_state
     \<Rightarrow> (gateway \<Rightarrow> gateway \<Rightarrow> delegation \<Rightarrow> delegation \<Rightarrow> redelegation_record \<Rightarrow> 'a gar_result)
     \<Rightarrow> 'a gar_result" where
  [accounts_defs]: "RedelegateStake src tgt delegator s k =
     ok_or (gateways s src) AccountNotInitialized (\<lambda>sg.
     ok_or (gateways s tgt) AccountNotInitialized (\<lambda>tg.
     ok_or (delegations s (src, delegator)) AccountNotInitialized (\<lambda>sd.
     require (del_delegator sd = delegator) NotDelegator (
     k sg tg sd (load_delegation s tgt delegator)
       (case redelegation_records s delegator of None \<Rightarrow> zero_redelegation_record | Some r \<Rightarrow> r)))))"

text \<open>The redelegation record after this redelegation.\<close>

definition bump_redelegation ::
  "gar_env \<Rightarrow> pubkey \<Rightarrow> redelegation_record \<Rightarrow> redelegation_record gar_result" where
  "bump_redelegation env delegator r =
     (let r1 = (if rr_bump r = 0
                then r\<lparr>rr_bump := pda_bump env (RedelegationPda delegator), rr_version := V1_0_0\<rparr>
                else r)
      in ok_or (if now env \<ge> rr_fee_reset_at r1 then Some 1
                else checked_add (rr_redelegation_count r1) 1) ArithmeticOverflow (\<lambda>count.
         ok_or (checked_add_i64 (now env) FEE_RESET_INTERVAL) ArithmeticOverflow (\<lambda>reset.
         Inr (r1\<lparr>rr_redelegation_count := count, rr_delegator := delegator,
                 rr_last_redelegation_at := now env, rr_fee_reset_at := reset\<rparr>))))"

definition redelegate_stake ::
  "gar_env \<Rightarrow> account_info list \<Rightarrow> pubkey \<Rightarrow> pubkey \<Rightarrow> pubkey \<Rightarrow> pubkey \<Rightarrow> pubkey \<Rightarrow> pubkey \<Rightarrow> u64
     \<Rightarrow> gar_state \<Rightarrow> gar_state gar_result" where
  [handler_defs]: "redelegate_stake env remaining src tgt delegator delegator_ata stake_ta protocol_ta amount s =
     RedelegateStake src tgt delegator s (\<lambda>sg tg sd td rr.
     ok_or (token_accounts env delegator_ata) ConstraintViolated (\<lambda>ta.
     require (ta_owner ta = delegator) InvalidParameter (
     require (ta_mint ta = gs_mint (settings s)) InvalidParameter (
     ok_or (token_accounts env stake_ta) ConstraintViolated (\<lambda>sta.
     require (ta_mint sta = gs_mint (settings s)) InvalidParameter (
     require (stake_ta = gs_stake_token_account (settings s)) InvalidParameter (
     ok_or (token_accounts env protocol_ta) ConstraintViolated (\<lambda>pta.
     require (ta_mint pta = gs_mint (settings s)) InvalidParameter (
     require (protocol_ta = gs_protocol_token_account (settings s)) InvalidParameter (
     require (amount > 0) InvalidAmount (
     require (gw_operator sg \<noteq> gw_operator tg) RedelegateSameGateway (
     require (gw_status tg = Joined) GatewayNotJoined (
     require (g2_allow_delegated_staking (gw_settings tg)) DelegationNotAllowed (
     require (delegator \<noteq> gw_operator tg) CannotDelegateToSelf (
     require (g2_allowlist_enabled (gw_settings tg) \<and> \<not> del_amount td > 0 \<longrightarrow>
                has_allowlist_entry s (gw_operator tg) delegator remaining) DelegateNotAllowed (
     let (sg1, sd1, settled_source) = settle_delegate_rewards sg sd;
         (tg1, td1, settled_target) = settle_delegate_rewards tg td;
         settled = saturating_add settled_source settled_target
     in
     require (del_amount sd1 \<ge> amount) InsufficientStake (
     let source_remaining = saturating_sub (del_amount sd1) amount in
     require (source_remaining = 0
              \<or> source_remaining \<ge> g2_min_delegation_amount (gw_settings sg1)) DelegationBelowMinimum (
     and_then (get_fee_rate rr (now env) RATE_SCALE) (\<lambda>fee_rate.
     and_then (instant_fee amount fee_rate) (\<lambda>fee.
     let net_amount = saturating_sub amount fee in
     require (net_amount > 0) InvalidAmount (
     require (del_amount td1 = 0 \<longrightarrow> net_amount \<ge> g2_min_delegation_amount (gw_settings tg1)) DelegationBelowMinimum (
     let sd2 = sd1\<lparr>del_amount := saturating_sub (del_amount sd1) amount\<rparr>;
         sg2 = sg1\<lparr>gw_total_delegated_stake := saturating_sub (gw_total_delegated_stake sg1) amount\<rparr>
     in
     ok_or (checked_add (del_amount td1) net_amount) ArithmeticOverflow (\<lambda>tamount.
     let td2 = td1\<lparr>del_gateway := gw_operator tg1, del_delegator := delegator, del_amount := tamount\<rparr>;
         td3 = (if del_start_timestamp td2 = 0
                then td2\<lparr>del_start_timestamp := now env,
                         del_reward_debt := gw_cumulative_reward_per_token tg1,
                         del_bump := pda_bump env (DelegationPda (gw_operator tg1) delegator),
                         del_version := V1_0_0\<rparr>
                else td2)
     in
     ok_or (checked_add (gw_total_delegated_stake tg1) net_amount) ArithmeticOverflow (\<lambda>ttds.
     and_then (if fee > 0
               then token_transfer env stake_ta protocol_ta (pda_key env SettingsPda) fee s
               else Inr s) (\<lambda>s1.
     and_then (bump_redelegation env delegator rr) (\<lambda>rr1.
     let total_delegated =
           (if settled > 0 \<or> fee > 0
            then saturating_sub (saturating_add (gs_total_delegated (settings s1)) settled) fee
            else gs_total_delegated (settings s1))
     in
     Inr (s1\<lparr>gateways := (gateways s1)(src \<mapsto> sg2, tgt \<mapsto> tg1\<lparr>gw_total_delegated_stake := ttds\<rparr>),
             delegations := (delegations s1)((src, delegator) \<mapsto> sd2, (tgt, delegator) \<mapsto> td3),
             redelegation_records := (redelegation_records s1)(delegator \<mapsto> rr1),
             settings := (settings s1)\<lparr>gs_total_delegated := total_delegated\<rparr>\<rparr>)))))))))))))))))))))))))))"

section \<open>Compounding and the administrative repairs\<close>

definition CompoundDelegationRewards ::
  "pubkey \<Rightarrow> pubkey \<Rightarrow> gar_state \<Rightarrow> (gateway \<Rightarrow> delegation \<Rightarrow> 'a gar_result) \<Rightarrow> 'a gar_result" where
  [accounts_defs]: "CompoundDelegationRewards gw delegator s k =
     ok_or (gateways s gw) AccountNotInitialized (\<lambda>g.
     ok_or (delegations s (gw, delegator)) AccountNotInitialized (\<lambda>d.
     require (del_delegator d = delegator) NotDelegator (k g d)))"

definition compound_delegation_rewards :: "pubkey \<Rightarrow> pubkey \<Rightarrow> gar_state \<Rightarrow> gar_state gar_result" where
  [handler_defs]: "compound_delegation_rewards gw delegator s =
     CompoundDelegationRewards gw delegator s (\<lambda>g d.
     let (g1, d1, settled) = settle_delegate_rewards g d in
     ok_or (if settled > 0 then checked_add (gs_total_delegated (settings s)) settled
            else Some (gs_total_delegated (settings s))) ArithmeticOverflow (\<lambda>total.
     Inr (s\<lparr>gateways := (gateways s)(gw \<mapsto> g1),
            delegations := (delegations s)((gw, delegator) \<mapsto> d1),
            settings := (settings s)\<lparr>gs_total_delegated := total\<rparr>\<rparr>)))"

text \<open>
  The loop of \<open>admin_reconcile_delegated_stake\<close> over the accounts it was shown: no account
  twice, each a delegation of this gateway at its canonical address; the sum of their amounts.
\<close>

fun reconcile_sum ::
  "gar_state \<Rightarrow> pubkey \<Rightarrow> gar_pda list \<Rightarrow> gar_pda list \<Rightarrow> u64 \<Rightarrow> u64 gar_result" where
  "reconcile_sum s operator seen [] acc = Inr acc"
| "reconcile_sum s operator seen (info # infos) acc =
     require (info \<notin> set seen) DuplicateDelegationAccount (
     case info of
       DelegationPda gw delegator \<Rightarrow>
         ok_or (delegations s (gw, delegator)) InvalidDelegationAccount (\<lambda>d.
         require (del_gateway d = operator) InvalidDelegationAccount (
         require (info = DelegationPda operator (del_delegator d)) InvalidDelegationAccount (
         ok_or (checked_add acc (del_amount d)) ArithmeticOverflow (\<lambda>acc'.
         reconcile_sum s operator (seen @ [info]) infos acc'))))
     | _ \<Rightarrow> Inl InvalidDelegationAccount)"

definition admin_reconcile_delegated_stake ::
  "pubkey \<Rightarrow> gar_pda list \<Rightarrow> pubkey \<Rightarrow> u64 \<Rightarrow> u64 \<Rightarrow> gar_state \<Rightarrow> gar_state gar_result" where
  [handler_defs]: "admin_reconcile_delegated_stake authority remaining gw expected_counter expected_removed s =
     require (gs_authority (settings s) = authority) Unauthorized (
     ok_or (gateways s gw) AccountNotInitialized (\<lambda>g.
     require (gw_total_delegated_stake g = expected_counter) StaleDelegatedStakeCounter (
     and_then (reconcile_sum s (gw_operator g) [] remaining 0) (\<lambda>total.
     require (expected_removed > 0) DelegationReconcileMismatch (
     ok_or (checked_sub expected_counter total) DelegationReconcileMismatch (\<lambda>computed_removed.
     require (computed_removed = expected_removed) DelegationReconcileMismatch (
     ok_or (checked_sub (gs_total_delegated (settings s)) expected_removed) ArithmeticUnderflow (\<lambda>td.
     Inr (s\<lparr>gateways := (gateways s)(gw \<mapsto> g\<lparr>gw_total_delegated_stake := total\<rparr>),
            settings := (settings s)\<lparr>gs_total_delegated := td\<rparr>\<rparr>)))))))))"

definition admin_resync_supply_counters ::
  "pubkey \<Rightarrow> u64 \<Rightarrow> u64 \<Rightarrow> u64 \<Rightarrow> u64 \<Rightarrow> gar_state \<Rightarrow> gar_state gar_result" where
  [handler_defs]: "admin_resync_supply_counters authority expected_staked new_staked expected_delegated new_delegated s =
     require (gs_authority (settings s) = authority) Unauthorized (
     require (gs_total_staked (settings s) = expected_staked
              \<and> gs_total_delegated (settings s) = expected_delegated) StaleSupplyCounters (
     Inr (s\<lparr>settings := (settings s)\<lparr>gs_total_staked := new_staked,
                                     gs_total_delegated := new_delegated\<rparr>\<rparr>)))"

end
