(* ===== verification/Gar_Rewards.thy ===== *)
theory Gar_Rewards
  imports Gar_State
begin

text \<open>
  Lemmas on the pure functions of \<open>Gar_State\<close>: settlement is exact and idempotent, the reward
  rate stays between its bounds and only falls, and the interface \<open>settlement\<close> that the
  staking instructions use of \<open>settle_delegate_rewards\<close>.
\<close>

section \<open>Settlement\<close>

lemma uint_REWARD_PRECISION [simp]: "uint REWARD_PRECISION = 1000000000000000000"
  by (simp add: REWARD_PRECISION_def)

text \<open>Splitting the accumulator's rise into quotient and remainder does not change the floor.\<close>

lemma quot_rem_floor:
  fixes a d p :: int
  assumes "0 < p"
  shows "a * (d div p) + a * (d mod p) div p = a * d div p"
proof -
  have "a * d = a * (d div p) * p + a * (d mod p)"
    by (metis (no_types, lifting) div_mult_mod_eq distrib_left mult.assoc)
  then show ?thesis
    using assms by (simp add: div_mult_self3)
qed

text \<open>A cap applied to a summand and to the sum is invisible below a smaller cap.\<close>

lemma min_saturated_sum:
  fixes m n q r :: int
  assumes "0 \<le> q" "0 \<le> r" "m \<le> n"
  shows "min m (min n (min n q + r)) = min m (q + r)"
  using assms by (simp add: min_def)

lemma settle_pending_fallback:
  fixes a :: u64 and d :: u128
  assumes big: "\<not> uint a * uint d < 2 ^ 128"
  shows "min (2 ^ 64 - 1) (uint (saturating_add
           (saturating_mul (as_u128 a) (d div REWARD_PRECISION))
           (saturating_mul (as_u128 a) (d mod REWARD_PRECISION) div REWARD_PRECISION)))
         = min (2 ^ 64 - 1) (uint a * uint d div 1000000000000000000)"
proof -
  let ?P = "1000000000000000000 :: int"
  have a: "0 \<le> uint a" "uint a < 2 ^ 64" by (rule uint_bounds64)+
  have r: "0 \<le> uint d mod ?P" "uint d mod ?P < ?P" by simp_all
  have ar: "uint a * (uint d mod ?P) \<le> 2 ^ 64 * ?P"
    using a r by (intro mult_mono) simp_all
  then have rem: "uint (saturating_mul (as_u128 a) (d mod REWARD_PRECISION))
                  = uint a * (uint d mod ?P)"
    by (simp add: uint_saturating_mul uint_mod)
  have quot: "uint (saturating_mul (as_u128 a) (d div REWARD_PRECISION))
              = min (2 ^ 128 - 1) (uint a * (uint d div ?P))"
    by (simp add: uint_saturating_mul uint_div)
  have q0: "0 \<le> uint a * (uint d div ?P)" and r0: "0 \<le> uint a * (uint d mod ?P) div ?P"
    using a r by (simp_all add: pos_imp_zdiv_nonneg_iff)
  have "uint a * uint d div ?P
        = uint a * (uint d div ?P) + uint a * (uint d mod ?P) div ?P"
    using quot_rem_floor [of ?P "uint a" "uint d"] by simp
  moreover have "uint (saturating_mul (as_u128 a) (d mod REWARD_PRECISION) div REWARD_PRECISION)
                 = uint a * (uint d mod ?P) div ?P"
    by (simp add: uint_div rem)
  ultimately show ?thesis
    using q0 r0 by (simp add: uint_saturating_add quot min_saturated_sum)
qed

lemma uint_settle_pending:
  "uint (settle_pending a d) = min (2 ^ 64 - 1) (uint a * uint d div 1000000000000000000)"
proof (cases "uint a * uint d < 2 ^ 128")
  case True
  then have "checked_mul (as_u128 a) d = Some (as_u128 a * d)"
    by (simp add: checked_mul_def)
  moreover have "uint (as_u128 a * d) = uint a * uint d"
    using True by (simp add: uint_mult_exact)
  ultimately show ?thesis
    by (simp add: settle_pending_def uint_u64_try_from_or_max uint_div)
next
  case False
  then have "checked_mul (as_u128 a) d = None"
    by (simp add: checked_mul_def)
  with settle_pending_fallback [OF False] show ?thesis
    by (simp add: settle_pending_def Let_def uint_u64_try_from_or_max)
qed

text \<open>What a settlement would credit now.\<close>

definition accrued :: "gateway \<Rightarrow> delegation \<Rightarrow> u64" where
  "accrued g d =
     (if del_amount d > 0 \<and> gw_cumulative_reward_per_token g > del_reward_debt d
      then settle_pending (del_amount d) (gw_cumulative_reward_per_token g - del_reward_debt d)
      else 0)"

lemma saturating_add_0 [simp]: "saturating_add a 0 = a" for a :: "'a::len word"
  using uint_lt2p [of a] by (simp add: saturating_add_def)

text \<open>Settlement in one equation: both counters rise by what accrued, the debt is brought up.\<close>

lemma settle_delegate_rewards_eq:
  "settle_delegate_rewards g d =
     (g\<lparr>gw_total_delegated_stake := saturating_add (gw_total_delegated_stake g) (accrued g d)\<rparr>,
      d\<lparr>del_amount := saturating_add (del_amount d) (accrued g d),
        del_reward_debt := gw_cumulative_reward_per_token g\<rparr>,
      accrued g d)"
  by (auto simp: settle_delegate_rewards_def accrued_def Let_def word_gt_0)

lemma accrued_settled [simp]:
  "del_reward_debt d = gw_cumulative_reward_per_token g \<Longrightarrow> accrued g d = 0"
  by (simp add: accrued_def)

lemma accrued_zero_amount [simp]: "del_amount d = 0 \<Longrightarrow> accrued g d = 0"
  by (simp add: accrued_def)

lemma accrued_cong:
  "gw_cumulative_reward_per_token g = gw_cumulative_reward_per_token g' \<Longrightarrow>
   del_amount d = del_amount d' \<Longrightarrow> del_reward_debt d = del_reward_debt d' \<Longrightarrow>
   accrued g d = accrued g' d'"
  by (simp add: accrued_def)

text \<open>
  The interface the staking instructions use of a settlement: it pays exactly what is owed,
  raises the principal and the gateway's counter by that amount as long as the counter has
  room, and leaves nothing owed.
\<close>

locale settlement =
  fixes settle :: "'g \<Rightarrow> 'd \<Rightarrow> 'g \<times> 'd \<times> u64"
    and counter :: "'g \<Rightarrow> int"
    and principal :: "'d \<Rightarrow> int"
    and owed :: "'g \<Rightarrow> 'd \<Rightarrow> int"
  assumes pays: "settle g d = (g', d', p) \<Longrightarrow> uint p = owed g d"
    and clears: "settle g d = (g', d', p) \<Longrightarrow> owed g' d' = 0"
    and raises_counter:
      "settle g d = (g', d', p) \<Longrightarrow> counter g + owed g d < 2 ^ 64 \<Longrightarrow> counter g' = counter g + uint p"
    and raises_principal:
      "settle g d = (g', d', p) \<Longrightarrow> principal d + owed g d < 2 ^ 64 \<Longrightarrow>
       principal d' = principal d + uint p"
begin

lemma claim_conserved:
  assumes "settle g d = (g', d', p)" and "principal d + owed g d < 2 ^ 64"
  shows "principal d' + owed g' d' = principal d + owed g d"
  using assms pays clears raises_principal by fastforce

lemma drift_conserved:
  assumes "settle g d = (g', d', p)" and "principal d \<le> counter g"
    and "counter g + owed g d < 2 ^ 64"
  shows "counter g' - principal d' = counter g - principal d"
proof -
  from assms(2,3) have "principal d + owed g d < 2 ^ 64" by simp
  then show ?thesis
    using raises_counter [OF assms(1,3)] raises_principal [OF assms(1)] by simp
qed

lemma second_settlement_pays_nothing:
  assumes "settle g d = (g', d', p)" and "settle g' d' = (g'', d'', q)"
  shows "q = 0"
proof -
  have "uint q = 0"
    using pays [OF assms(2)] clears [OF assms(1)] by simp
  then show ?thesis
    by (simp add: word_uint_eq_iff)
qed

end

interpretation delegate_rewards: settlement settle_delegate_rewards
  "\<lambda>g. uint (gw_total_delegated_stake g)" "\<lambda>d. uint (del_amount d)"
  "\<lambda>g d. uint (accrued g d)"
  by unfold_locales
    (auto simp: settle_delegate_rewards_eq uint_saturating_add accrued_def)

section \<open>Reward rate\<close>

lemma decay_le_range:
  fixes e t r :: int
  assumes "0 \<le> e" "e \<le> t" "0 \<le> r"
  shows "r * e div t \<le> r"
proof (cases "t = 0")
  case True
  with assms show ?thesis by simp
next
  case False
  with assms have "0 < t" by linarith
  have "r * e \<le> r * t" using assms by (simp add: mult_left_mono)
  then have "r * e div t \<le> r * t div t"
    using \<open>0 < t\<close> by (rule zdiv_mono1)
  with \<open>0 < t\<close> show ?thesis by simp
qed

lemma uint_compute_reward_rate_decay:
  assumes "decay_start \<le> e" "e \<le> decay_last"
  shows "uint (compute_reward_rate e max_rate min_rate decay_start decay_last) =
     uint max_rate - max 0 (uint max_rate - uint min_rate) * (uint e - uint decay_start)
                     div (uint decay_last - uint decay_start)"
proof -
  let ?r = "max 0 (uint max_rate - uint min_rate)"
  let ?e = "uint e - uint decay_start"
  let ?t = "uint decay_last - uint decay_start"
  have b: "0 \<le> ?e" "?e \<le> ?t" "?t < 2 ^ 64" "0 \<le> ?r" "?r \<le> uint max_rate" "?r < 2 ^ 64"
    using assms uint_bounds64 [of e] uint_bounds64 [of decay_start] uint_bounds64 [of decay_last]
      uint_bounds64 [of max_rate] uint_bounds64 [of min_rate]
    by (auto simp only: word_le_def)
  have ue: "uint (e - decay_start) = ?e" "uint (decay_last - decay_start) = ?t"
    using assms by (simp_all add: uint_sub_exact)
  have "?r * ?e \<le> 2 ^ 64 * 2 ^ 64"
    using b by (intro mult_mono) auto
  moreover have "?r * ?e \<noteq> 2 ^ 64 * 2 ^ 64"
    using b mult_strict_mono [of ?r "2 ^ 64" ?e "2 ^ 64"] by auto
  ultimately have fit: "?r * ?e < 2 ^ 128" by simp
  let ?num = "as_u128 (saturating_sub max_rate min_rate) * as_u128 (e - decay_start)"
  have cm: "checked_mul (as_u128 (saturating_sub max_rate min_rate)) (as_u128 (e - decay_start))
            = Some ?num"
    using fit by (simp add: checked_mul_def uint_saturating_sub ue)
  have num: "uint ?num = ?r * ?e"
    using fit by (simp add: uint_mult_exact uint_saturating_sub ue)
  have dle: "?r * ?e div ?t \<le> ?r" by (rule decay_le_range) (use b in auto)
  have dge: "0 \<le> ?r * ?e div ?t" using b by (simp add: pos_imp_zdiv_nonneg_iff div_int_pos_iff)
  have t0: "as_u128 (decay_last - decay_start) = 0 \<longleftrightarrow> ?t = 0"
    using ue(2) by (metis uint_as_u128 unsigned_0 word_uint_eq_iff)
  define decay where "decay = (case checked_div ?num (as_u128 (decay_last - decay_start)) of
      None \<Rightarrow> 0 | Some v \<Rightarrow> v)"
  have dec: "uint decay = ?r * ?e div ?t"
    by (simp add: decay_def checked_div_def t0 uint_div num ue(2))
  have "uint (as_u64 decay) = ?r * ?e div ?t"
    using dec dle dge b(6) by (simp add: unsigned_ucast_eq take_bit_int_eq_self)
  moreover have "compute_reward_rate e max_rate min_rate decay_start decay_last
      = saturating_sub max_rate (as_u64 decay)"
    using assms by (simp add: compute_reward_rate_def Let_def cm decay_def not_less [symmetric] leD)
  ultimately show ?thesis
    using order_trans [OF dle b(5)] by (simp add: uint_saturating_sub)
qed

text \<open>The whole schedule: flat, then linear between the two epochs, then flat.\<close>

definition rate_decay :: "int \<Rightarrow> int \<Rightarrow> int \<Rightarrow> int" where
  "rate_decay r e t = r * e div t"

lemma rate_decay_bounds:
  assumes "0 \<le> e" "e \<le> t" "0 \<le> r"
  shows "0 \<le> rate_decay r e t" "rate_decay r e t \<le> r"
  using decay_le_range [OF assms] assms
  by (simp_all add: rate_decay_def div_int_pos_iff)

lemma rate_decay_mono:
  assumes "e \<le> e'" "0 \<le> t" "0 \<le> r"
  shows "rate_decay r e t \<le> rate_decay r e' t"
proof (cases "t = 0")
  case False
  then show ?thesis
    using assms unfolding rate_decay_def
    by (intro zdiv_mono1 mult_left_mono) auto
qed (simp add: rate_decay_def)

lemma uint_compute_reward_rate:
  assumes "min_rate \<le> max_rate"
  shows "uint (compute_reward_rate e max_rate min_rate decay_start decay_last) =
     (if e < decay_start then uint max_rate
      else if e > decay_last then uint min_rate
      else uint max_rate - rate_decay (uint max_rate - uint min_rate)
             (uint e - uint decay_start) (uint decay_last - uint decay_start))"
proof -
  consider "e < decay_start" | "\<not> e < decay_start" "e > decay_last"
    | "\<not> e < decay_start" "\<not> e > decay_last"
    by blast
  then show ?thesis
  proof cases
    case 3
    then show ?thesis
      using assms uint_compute_reward_rate_decay [of decay_start e decay_last max_rate min_rate]
      by (simp add: rate_decay_def not_less uint_word_le uint_word_less max_absorb2)
  qed (simp_all add: compute_reward_rate_def)
qed

lemma reward_rate_between:
  assumes "min_rate \<le> max_rate"
  shows "min_rate \<le> compute_reward_rate e max_rate min_rate decay_start decay_last"
    and "compute_reward_rate e max_rate min_rate decay_start decay_last \<le> max_rate"
  using assms rate_decay_bounds [of "uint e - uint decay_start"
      "uint decay_last - uint decay_start" "uint max_rate - uint min_rate"]
  by (auto simp: uint_word_le uint_word_less uint_compute_reward_rate [OF assms] not_less)

lemma reward_rate_antitone:
  assumes "min_rate \<le> max_rate" and "decay_start \<le> decay_last" and "e \<le> e'"
  shows "compute_reward_rate e' max_rate min_rate decay_start decay_last
         \<le> compute_reward_rate e max_rate min_rate decay_start decay_last"
proof -
  consider "e < decay_start" | "e' > decay_last" | "decay_start \<le> e" "e' \<le> decay_last"
    by (meson not_less)
  then show ?thesis
  proof cases
    case 1
    then have "compute_reward_rate e max_rate min_rate decay_start decay_last = max_rate"
      by (simp add: compute_reward_rate_def)
    with reward_rate_between [OF assms(1)] show ?thesis by metis
  next
    case 2
    with assms(2) have "compute_reward_rate e' max_rate min_rate decay_start decay_last = min_rate"
      by (auto simp: compute_reward_rate_def)
    with reward_rate_between [OF assms(1)] show ?thesis by metis
  next
    case 3
    then have "\<not> e < decay_start" "\<not> e' < decay_start" "\<not> e > decay_last" "\<not> e' > decay_last"
      using assms(3) by auto
    moreover have "rate_decay (uint max_rate - uint min_rate) (uint e - uint decay_start)
            (uint decay_last - uint decay_start)
          \<le> rate_decay (uint max_rate - uint min_rate) (uint e' - uint decay_start)
            (uint decay_last - uint decay_start)"
      using assms by (intro rate_decay_mono) (auto simp: uint_word_le)
    ultimately show ?thesis
      by (simp add: uint_word_le uint_compute_reward_rate [OF assms(1)])
  qed
qed

section \<open>Properties\<close>

text \<open>
  C39: settling a delegation pays exactly the floor of amount times the accumulator's rise over
  10^18 (capped at the largest u64), on the fast path and on the overflow path alike; it brings
  the debt up to the accumulator, raises the principal and the gateway's counter by that same
  amount (saturating), and touches no other field.
\<close>

theorem settlement_is_exact:
  "settle_delegate_rewards g d =
     (let p = (word_of_int (min (2 ^ 64 - 1)
                 (uint (del_amount d)
                  * max 0 (uint (gw_cumulative_reward_per_token g) - uint (del_reward_debt d))
                  div 10 ^ 18)) :: u64)
      in (g\<lparr>gw_total_delegated_stake := saturating_add (gw_total_delegated_stake g) p\<rparr>,
          d\<lparr>del_amount := saturating_add (del_amount d) p,
            del_reward_debt := gw_cumulative_reward_per_token g\<rparr>, p))"
proof -
  have "uint (accrued g d) = min (2 ^ 64 - 1) (uint (del_amount d)
          * max 0 (uint (gw_cumulative_reward_per_token g) - uint (del_reward_debt d)) div 10 ^ 18)"
    by (auto simp: accrued_def uint_settle_pending uint_sub_exact uint_word_less uint_word_le
        not_less max_def)
  then have "accrued g d = word_of_int (min (2 ^ 64 - 1) (uint (del_amount d)
          * max 0 (uint (gw_cumulative_reward_per_token g) - uint (del_reward_debt d)) div 10 ^ 18))"
    by (metis word_of_int_uint)
  then show ?thesis
    by (simp add: settle_delegate_rewards_eq Let_def)
qed

text \<open>
  Settling twice in a row pays nothing the second time and changes nothing.
\<close>

theorem settlement_idempotent:
  "case settle_delegate_rewards g d of (g', d', p) \<Rightarrow>
     settle_delegate_rewards g' d' = (g', d', 0)"
  by (auto simp: settle_delegate_rewards_eq)

text \<open>
  As long as the configured rates are ordered, the reward rate of every epoch stays between
  them and never rises from one epoch to a later one.
\<close>

theorem reward_rate_decays_within_bounds:
  assumes "min_rate \<le> max_rate" and "decay_start \<le> decay_last" and "e \<le> e'"
  shows "min_rate \<le> compute_reward_rate e' max_rate min_rate decay_start decay_last
    \<and> compute_reward_rate e' max_rate min_rate decay_start decay_last
      \<le> compute_reward_rate e max_rate min_rate decay_start decay_last
    \<and> compute_reward_rate e max_rate min_rate decay_start decay_last \<le> max_rate"
  using reward_rate_between [OF assms(1)] reward_rate_antitone [OF assms] by blast

theorem reward_rate_decays_within_bounds_witness:
  "(500 :: u64) \<le> compute_reward_rate 500 1000 500 365 547
   \<and> compute_reward_rate 500 1000 500 365 547 \<le> compute_reward_rate 400 1000 500 365 547
   \<and> compute_reward_rate 400 1000 500 365 547 \<le> 1000"
  by (rule reward_rate_decays_within_bounds) simp_all

text \<open>
  The operations address of a gateway authorises only a signer that is the operator, or the
  non-zero operations address of a gateway at schema version 1.2.0 or later; the zero key and a
  stale account never give a stranger access.
\<close>

theorem stranger_is_never_authorised:
  "authorises g signer \<longleftrightarrow>
     signer = gw_operator g
     \<or> SchemaVersion 1 2 0 \<le> gw_version g \<and> signer = gw_operations_address g \<and> signer \<noteq> 0"
  by (auto simp: authorises_def is_gateway_authority_def operations_address_is_set_def
      OPERATIONS_ADDRESS_SINCE_def)

end
