(* ===== verification/Gar_Fees.thy ===== *)
theory Gar_Fees
  imports Gar_Delegate Gar_Rewards
begin

text \<open>
  The fees of the gateway registry: the decaying penalty of an expedited withdrawal, the fee
  taken at a rate, the redelegation fee, and the composite weight of a gateway. Each lemma
  reads the word arithmetic of the code as exact arithmetic on \<open>int\<close> and shows that no branch
  of it can overflow under the bounds the program keeps.
\<close>

section \<open>The fee at a rate\<close>

lemma uint_as_u64_small: "uint (x :: u128) < 2 ^ 64 \<Longrightarrow> uint (as_u64 x) = uint x"
  by (simp add: unsigned_ucast_eq take_bit_int_eq_self)

lemma uint_RATE_SCALE [simp]: "uint RATE_SCALE = 1000000"
  by (simp add: RATE_SCALE_def)

lemma mult_u64_fits:
  fixes a b :: int
  assumes "0 \<le> a" "a < 2 ^ 64" "0 \<le> b" "b < 2 ^ 64"
  shows "a * b < 2 ^ 128"
proof -
  have "a * b \<le> (2 ^ 64 - 1) * (2 ^ 64 - 1)"
    using assms by (intro mult_mono) auto
  then show ?thesis by simp
qed

lemma fee_le_amount:
  fixes a r s :: int
  assumes "0 \<le> a" "0 \<le> r" "r \<le> s" "0 < s"
  shows "0 \<le> a * r div s" "a * r div s \<le> a"
proof -
  show "0 \<le> a * r div s" using assms by (simp add: pos_imp_zdiv_nonneg_iff)
  have "a * r div s \<le> a * s div s"
    using assms by (intro zdiv_mono1 mult_left_mono) auto
  then show "a * r div s \<le> a" using assms by simp
qed

lemma instant_fee_at_rate:
  assumes "rate \<le> RATE_SCALE"
  obtains fee where "instant_fee amount rate = Inr fee"
    and "uint fee = uint amount * uint rate div 1000000" and "fee \<le> amount"
proof -
  let ?v = "as_u128 amount * as_u128 rate"
  have fit: "uint amount * uint rate < 2 ^ 128"
    by (rule mult_u64_fits) (use uint_bounds64 in auto)
  have v: "uint ?v = uint amount * uint rate"
    using fit by (simp add: uint_mult_exact)
  have r: "uint rate \<le> 1000000" using assms by (simp add: uint_word_le)
  have le: "uint amount * uint rate div 1000000 \<le> uint amount"
    by (rule fee_le_amount) (use r in auto)
  let ?fee = "as_u64 (?v div as_u128 RATE_SCALE)"
  have "instant_fee amount rate = Inr ?fee"
    using fit by (simp add: instant_fee_def checked_mul_def checked_div_def word_uint_eq_iff)
  moreover have u: "uint ?fee = uint amount * uint rate div 1000000"
    by (subst uint_as_u64_small)
      (use le uint_bounds64 [of amount] in \<open>auto simp: uint_div v\<close>)
  moreover have "?fee \<le> amount"
    using le u by (simp add: uint_word_le)
  ultimately show ?thesis by (rule that)
qed

section \<open>The expedited-withdrawal penalty\<close>

definition penalty_at :: "gateway_settings \<Rightarrow> int \<Rightarrow> int" where
  "penalty_at gs elapsed =
     (let hi = uint (gs_max_expedited_withdrawal_penalty gs);
          lo = uint (gs_min_expedited_withdrawal_penalty gs);
          period = gs_withdrawal_period gs
      in if elapsed \<ge> period then lo else hi - (hi - lo) * elapsed div period)"

lemma penalty_at_bounds:
  assumes "0 \<le> elapsed"
    and "gs_min_expedited_withdrawal_penalty gs \<le> gs_max_expedited_withdrawal_penalty gs"
  shows "uint (gs_min_expedited_withdrawal_penalty gs) \<le> penalty_at gs elapsed"
    and "penalty_at gs elapsed \<le> uint (gs_max_expedited_withdrawal_penalty gs)"
  using assms fee_le_amount [of
      "uint (gs_max_expedited_withdrawal_penalty gs) - uint (gs_min_expedited_withdrawal_penalty gs)"
      elapsed "gs_withdrawal_period gs"]
  by (auto simp: penalty_at_def Let_def uint_word_le)

lemma penalty_at_antitone:
  assumes "0 \<le> t" "t \<le> t'"
    and "gs_min_expedited_withdrawal_penalty gs \<le> gs_max_expedited_withdrawal_penalty gs"
  shows "penalty_at gs t' \<le> penalty_at gs t"
proof (cases "t' \<ge> gs_withdrawal_period gs")
  case True
  then have "penalty_at gs t' = uint (gs_min_expedited_withdrawal_penalty gs)"
    by (simp add: penalty_at_def Let_def)
  with penalty_at_bounds(1) [OF assms(1,3)] show ?thesis by simp
next
  case False
  let ?r = "uint (gs_max_expedited_withdrawal_penalty gs) - uint (gs_min_expedited_withdrawal_penalty gs)"
  have "?r * t div gs_withdrawal_period gs \<le> ?r * t' div gs_withdrawal_period gs"
    using False assms by (intro zdiv_mono1 mult_left_mono) (auto simp: uint_word_le)
  with False assms(2) show ?thesis by (simp add: penalty_at_def Let_def)
qed

lemma elapsed_nonneg: "created \<le> clock \<Longrightarrow> i64_ok (clock - created) \<Longrightarrow>
    max (saturating_sub_i64 clock created) 0 = clock - created"
  by (auto simp: clamp_i64_def i64_ok_def)

lemma uint_of_int_u128: "0 \<le> x \<Longrightarrow> x < 2 ^ 64 \<Longrightarrow> uint (word_of_int x :: u128) = x"
  by (simp add: uint_word_of_int)

text \<open>The code's rate is the linear schedule, and its overflow errors never happen.\<close>

lemma instant_penalty_rate_is_schedule:
  fixes gs created clock
  defines "elapsed \<equiv> max (saturating_sub_i64 clock created) 0"
  assumes ordered: "gs_min_expedited_withdrawal_penalty gs \<le> gs_max_expedited_withdrawal_penalty gs"
    and i64: "i64_ok (gs_withdrawal_period gs)"
  obtains rate where "instant_penalty_rate gs created clock = Inr rate"
    and "uint rate = penalty_at gs elapsed"
proof (cases "gs_withdrawal_period gs = 0 \<or> elapsed \<ge> gs_withdrawal_period gs")
  case True
  have "0 \<le> elapsed" by (simp add: elapsed_def)
  with True have "gs_withdrawal_period gs \<le> elapsed" by auto
  with True show ?thesis
    by (intro that [of "gs_min_expedited_withdrawal_penalty gs"])
      (simp_all add: instant_penalty_rate_def Let_def elapsed_def penalty_at_def)
next
  case False
  let ?hi = "gs_max_expedited_withdrawal_penalty gs"
  let ?lo = "gs_min_expedited_withdrawal_penalty gs"
  let ?T = "gs_withdrawal_period gs"
  have e: "0 \<le> elapsed" "elapsed < ?T" "elapsed < 2 ^ 63"
    using False by (auto simp: elapsed_def clamp_i64_def)
  have lo_hi: "uint ?lo \<le> uint ?hi" using ordered by (simp add: uint_word_le)
  let ?r = "uint ?hi - uint ?lo"
  have r: "0 \<le> ?r" "?r < 2 ^ 64" "?r \<le> uint ?hi"
    using lo_hi uint_bounds64(2) [of ?hi] uint_bounds64(1) [of ?lo] by linarith+
  have ue: "uint (word_of_int elapsed :: u128) = elapsed"
    and uT: "uint (word_of_int ?T :: u128) = ?T"
    using e i64 by (auto intro!: uint_of_int_u128 simp: i64_ok_def)
  have sub: "uint (saturating_sub ?hi ?lo) = ?r"
    using lo_hi by (simp add: uint_saturating_sub)
  have fit: "?r * elapsed < 2 ^ 128"
    by (rule mult_u64_fits) (use r e in auto)
  let ?v = "as_u128 (saturating_sub ?hi ?lo) * word_of_int elapsed :: u128"
  have v: "uint ?v = ?r * elapsed"
    using fit by (simp add: uint_mult_exact sub ue)
  have T0: "(word_of_int ?T :: u128) \<noteq> 0"
    using uT e by (metis linorder_not_less unsigned_0)
  have decay: "0 \<le> ?r * elapsed div ?T" "?r * elapsed div ?T \<le> ?r"
    using fee_le_amount [of ?r elapsed ?T] r e by auto
  let ?d = "as_u64 (?v div word_of_int ?T)"
  have d: "uint ?d = ?r * elapsed div ?T"
    by (subst uint_as_u64_small) (use decay r in \<open>auto simp: uint_div v uT\<close>)
  let ?rate = "min (max (saturating_sub ?hi ?d) ?lo) ?hi"
  have "instant_penalty_rate gs created clock = Inr ?rate"
    using False fit T0
    by (simp add: instant_penalty_rate_def Let_def elapsed_def [symmetric] checked_mul_def
        checked_div_def sub ue)
  moreover have "uint (saturating_sub ?hi ?d) = uint ?hi - ?r * elapsed div ?T"
    unfolding uint_saturating_sub d using order_trans [OF decay(2) r(3)] by linarith
  then have "uint ?rate = penalty_at gs elapsed"
    using decay e lo_hi by (simp add: uint_min_word uint_max_word penalty_at_def Let_def)
  ultimately show ?thesis by (rule that)
qed

section \<open>The redelegation fee\<close>

definition redelegation_fee_percent :: "nat \<Rightarrow> int" where
  "redelegation_fee_percent n = min (10 * int n) 60"

lemma get_fee_rate_eq:
  fixes r t
  defines "n \<equiv> if t \<ge> rr_fee_reset_at r then 0 else unat (rr_redelegation_count r)"
  shows "get_fee_rate r t RATE_SCALE =
     (if 10 * int n < 2 ^ 32 then Inr (word_of_int (redelegation_fee_percent n * 10000)) else Inl Panic)"
proof -
  let ?c = "if t \<ge> rr_fee_reset_at r then 0 else rr_redelegation_count r"
  have n: "uint ?c = int n" by (simp add: n_def)
  show ?thesis
  proof (cases "10 * int n < 2 ^ 32")
    case True
    then have c: "checked_mul 10 ?c = Some (10 * ?c)" and u: "uint (10 * ?c) = 10 * int n"
      using n by (auto simp: checked_mul_def uint_mult_exact)
    have "uint (min (10 * ?c) 60) = redelegation_fee_percent n"
      by (simp only: uint_min_word u redelegation_fee_percent_def) simp
    then have pct: "uint (as_u64 (min (10 * ?c) 60)) = redelegation_fee_percent n"
      by (simp add: unsigned_ucast_eq take_bit_int_eq_self redelegation_fee_percent_def)
    have small: "0 \<le> redelegation_fee_percent n" "redelegation_fee_percent n \<le> 60"
      by (simp_all add: redelegation_fee_percent_def)
    let ?v = "as_u64 (min (10 * ?c) 60) * RATE_SCALE"
    have m: "checked_mul (as_u64 (min (10 * ?c) 60)) RATE_SCALE = Some ?v"
      and v: "uint ?v = redelegation_fee_percent n * 1000000"
      using small pct by (auto simp: checked_mul_def uint_mult_exact)
    have "uint (?v div 100) = redelegation_fee_percent n * 10000"
      by (simp add: uint_div v)
    then have "?v div 100 = word_of_int (redelegation_fee_percent n * 10000)"
      by (metis word_of_int_uint)
    with True c m show ?thesis
      by (simp add: get_fee_rate_def Let_def)
  next
    case False
    then have "checked_mul 10 ?c = None"
      using n by (auto simp: checked_mul_def)
    with False show ?thesis by (simp add: get_fee_rate_def Let_def)
  qed
qed

lemma get_fee_rate_le:
  assumes "get_fee_rate r t RATE_SCALE = Inr rate"
  obtains n where "uint rate = redelegation_fee_percent n * 10000" and "uint rate \<le> 600000"
proof -
  obtain n where rate: "rate = word_of_int (redelegation_fee_percent n * 10000)"
    using assms unfolding get_fee_rate_eq by (metis Inr_not_Inl sum.inject(2))
  have "0 \<le> redelegation_fee_percent n" "redelegation_fee_percent n \<le> 60"
    by (simp_all add: redelegation_fee_percent_def)
  then have "uint rate = redelegation_fee_percent n * 10000" "uint rate \<le> 600000"
    unfolding rate uint_word_of_int by simp_all
  then show ?thesis by (rule that)
qed

lemma redelegation_fee_le:
  assumes "get_fee_rate r t RATE_SCALE = Inr rate" and "instant_fee amount rate = Inr fee"
  shows "uint fee \<le> uint amount"
proof -
  have "uint rate \<le> 600000" using get_fee_rate_le [OF assms(1)] by metis
  then have "rate \<le> RATE_SCALE" by (simp add: uint_word_le)
  from instant_fee_at_rate [OF this, of amount] assms(2) show ?thesis
    by (metis sum.inject(2) uint_word_le)
qed

end
