(* ===== verification/Gar_Payment.thy ===== *)
theory Gar_Payment
  imports Gar_Delegate
begin

text \<open>
  Payments out of stake into the protocol treasury: \<open>instructions/payment.rs\<close>. Three
  single-source deductions and the multi-source funding plan, whose loop over the sources is a
  fold over an accumulator that holds the handler's local variables.
\<close>

text \<open>A token account pinned by address only (these contexts do not check the mint again).\<close>

definition pinned_by_key ::
  "gar_env \<Rightarrow> pubkey \<Rightarrow> pubkey \<Rightarrow> 'a gar_result \<Rightarrow> 'a gar_result" where
  [accounts_defs]: "pinned_by_key env expected key k =
     ok_or (token_accounts env key) AccountNotInitialized (\<lambda>ta.
     require (key = expected) InvalidParameter k)"

section \<open>Single-source deductions\<close>

definition DeductDelegationForPayment ::
  "gar_env \<Rightarrow> pubkey \<Rightarrow> pubkey \<Rightarrow> pubkey \<Rightarrow> pubkey \<Rightarrow> gar_state
     \<Rightarrow> (gateway \<Rightarrow> delegation \<Rightarrow> 'a gar_result) \<Rightarrow> 'a gar_result" where
  [accounts_defs]: "DeductDelegationForPayment env gw delegator stake_ta protocol_ta s k =
     ok_or (gateways s gw) AccountNotInitialized (\<lambda>g.
     ok_or (delegations s (gw, delegator)) AccountNotInitialized (\<lambda>d.
     require (del_delegator d = delegator) NotDelegator (
     pinned_by_key env (gs_stake_token_account (settings s)) stake_ta (
     pinned_by_key env (gs_protocol_token_account (settings s)) protocol_ta (k g d)))))"

definition deduct_delegation_for_payment ::
  "gar_env \<Rightarrow> pubkey \<Rightarrow> pubkey \<Rightarrow> pubkey \<Rightarrow> pubkey \<Rightarrow> u64 \<Rightarrow> gar_state \<Rightarrow> gar_state gar_result" where
  [handler_defs]: "deduct_delegation_for_payment env gw delegator stake_ta protocol_ta amount s =
     DeductDelegationForPayment env gw delegator stake_ta protocol_ta s (\<lambda>g d.
     require (amount > 0) InvalidAmount (
     require (gw_status g = Joined) GatewayNotJoined (
     let (g1, d1, settled) = settle_delegate_rewards g d in
     require (del_amount d1 \<ge> amount) InsufficientDelegationForPayment (
     ok_or (checked_sub (del_amount d1) amount) ArithmeticUnderflow (\<lambda>remaining.
     require (remaining = 0 \<or> remaining \<ge> g2_min_delegation_amount (gw_settings g1)) DelegationBelowMinimum (
     ok_or (checked_sub (gw_total_delegated_stake g1) amount) ArithmeticUnderflow (\<lambda>tds.
     and_then (token_transfer env stake_ta protocol_ta (pda_key env SettingsPda) amount s) (\<lambda>s1.
     Inr (s1\<lparr>gateways := (gateways s1)(gw \<mapsto> g1\<lparr>gw_total_delegated_stake := tds\<rparr>),
             delegations := (delegations s1)((gw, delegator) \<mapsto> d1\<lparr>del_amount := remaining\<rparr>),
             settings := (settings s1)\<lparr>gs_total_delegated :=
               saturating_sub (saturating_add (gs_total_delegated (settings s1)) settled) amount\<rparr>\<rparr>)))))))))"

definition DeductOperatorStakeForPayment ::
  "gar_env \<Rightarrow> pubkey \<Rightarrow> pubkey \<Rightarrow> pubkey \<Rightarrow> gar_state \<Rightarrow> (gateway \<Rightarrow> 'a gar_result) \<Rightarrow> 'a gar_result" where
  [accounts_defs]: "DeductOperatorStakeForPayment env operator stake_ta protocol_ta s k =
     ok_or (gateways s operator) AccountNotInitialized (\<lambda>g.
     require (gw_operator g = operator) NotOperator (
     pinned_by_key env (gs_stake_token_account (settings s)) stake_ta (
     pinned_by_key env (gs_protocol_token_account (settings s)) protocol_ta (k g))))"

definition deduct_operator_stake_for_payment ::
  "gar_env \<Rightarrow> pubkey \<Rightarrow> pubkey \<Rightarrow> pubkey \<Rightarrow> u64 \<Rightarrow> gar_state \<Rightarrow> gar_state gar_result" where
  [handler_defs]: "deduct_operator_stake_for_payment env operator stake_ta protocol_ta amount s =
     DeductOperatorStakeForPayment env operator stake_ta protocol_ta s (\<lambda>g.
     require (amount > 0) InvalidAmount (
     require (gw_status g = Joined) GatewayNotJoined (
     require (gw_operator_stake g \<ge> amount) InsufficientOperatorStakeForPayment (
     ok_or (checked_sub (gw_operator_stake g) amount) ArithmeticUnderflow (\<lambda>remaining.
     require (remaining \<ge> gs_min_operator_stake (settings s)) StakeBelowMinimum (
     and_then (token_transfer env stake_ta protocol_ta (pda_key env SettingsPda) amount s) (\<lambda>s1.
     Inr (s1\<lparr>gateways := (gateways s1)(operator \<mapsto> g\<lparr>gw_operator_stake := remaining\<rparr>),
             settings := (settings s1)\<lparr>gs_total_staked :=
               saturating_sub (gs_total_staked (settings s1)) amount\<rparr>\<rparr>))))))))"

definition DeductWithdrawalForPayment ::
  "gar_env \<Rightarrow> pubkey \<Rightarrow> u64 \<Rightarrow> pubkey \<Rightarrow> pubkey \<Rightarrow> gar_state \<Rightarrow> (withdrawal \<Rightarrow> 'a gar_result) \<Rightarrow> 'a gar_result" where
  [accounts_defs]: "DeductWithdrawalForPayment env owner wid stake_ta protocol_ta s k =
     ok_or (withdrawals s (owner, wid)) AccountNotInitialized (\<lambda>w.
     require (wd_owner w = owner) InvalidOwner (
     pinned_by_key env (gs_stake_token_account (settings s)) stake_ta (
     pinned_by_key env (gs_protocol_token_account (settings s)) protocol_ta (k w))))"

definition deduct_withdrawal_for_payment ::
  "gar_env \<Rightarrow> pubkey \<Rightarrow> u64 \<Rightarrow> pubkey \<Rightarrow> pubkey \<Rightarrow> u64 \<Rightarrow> gar_state \<Rightarrow> gar_state gar_result" where
  [handler_defs]: "deduct_withdrawal_for_payment env owner wid stake_ta protocol_ta amount s =
     DeductWithdrawalForPayment env owner wid stake_ta protocol_ta s (\<lambda>w.
     require (amount > 0) InvalidAmount (
     require (\<not> wd_is_protected w) ProtectedVault (
     require (wd_amount w \<ge> amount) InsufficientWithdrawalForPayment (
     ok_or (checked_sub (wd_amount w) amount) ArithmeticUnderflow (\<lambda>remaining.
     and_then (token_transfer env stake_ta protocol_ta (pda_key env SettingsPda) amount s) (\<lambda>s1.
     Inr (s1\<lparr>withdrawals := (withdrawals s1)((owner, wid) \<mapsto> w\<lparr>wd_amount := remaining\<rparr>),
             settings := (settings s1)\<lparr>gs_total_withdrawn :=
               saturating_sub (gs_total_withdrawn (settings s1)) amount\<rparr>\<rparr>)))))))"

section \<open>pay_from_funding_plan\<close>

datatype funding_source_kind = FsBalance | FsDelegation | FsOperatorStake | FsWithdrawal

record funding_source_spec =
  fs_kind :: funding_source_kind
  fs_amount :: u64

text \<open>The local variables of the handler's loop over the sources.\<close>

record plan_acc =
  pa_state :: gar_state
  pa_remaining :: "gar_pda list" \<comment> \<open>what is left of \<open>remaining_iter\<close>\<close>
  pa_balance_drain :: u64
  pa_stake_pool_drain :: u64
  pa_delegated_sub :: u64
  pa_delegated_add :: u64
  pa_delegated_residue_sub :: u64
  pa_staked_sub :: u64
  pa_withdrawn_sub :: u64
  pa_residue_targets :: "(pubkey \<times> u64) list"
  pa_gateways_seen :: "pubkey list"

definition init_acc :: "gar_pda list \<Rightarrow> gar_state \<Rightarrow> plan_acc" where
  "init_acc remaining s = \<lparr>pa_state = s, pa_remaining = remaining, pa_balance_drain = 0,
     pa_stake_pool_drain = 0, pa_delegated_sub = 0, pa_delegated_add = 0,
     pa_delegated_residue_sub = 0, pa_staked_sub = 0, pa_withdrawn_sub = 0,
     pa_residue_targets = [], pa_gateways_seen = []\<rparr>"

text \<open>\<open>remaining_iter.next().ok_or(MissingFundingSourceAccount)?\<close>.\<close>

definition next_account ::
  "plan_acc \<Rightarrow> gar_error \<Rightarrow> (gar_pda \<Rightarrow> plan_acc \<Rightarrow> 'a gar_result) \<Rightarrow> 'a gar_result" where
  "next_account a e k =
     (case pa_remaining a of [] \<Rightarrow> Inl e | p # ps \<Rightarrow> k p (a\<lparr>pa_remaining := ps\<rparr>))"

text \<open>A gateway among the remaining accounts: owned by the program, at its own address, not seen yet.\<close>

definition plan_gateway ::
  "gar_pda \<Rightarrow> plan_acc \<Rightarrow> (pubkey \<Rightarrow> gateway \<Rightarrow> plan_acc \<Rightarrow> 'a gar_result) \<Rightarrow> 'a gar_result" where
  "plan_gateway info a k =
     (case info of
        GatewayPda gw \<Rightarrow>
          ok_or (gateways (pa_state a) gw) AccountNotInitialized (\<lambda>g.
          require (gw_operator g = gw) InvalidGatewayAccount (
          require (gw_operator g \<notin> set (pa_gateways_seen a)) DuplicateGatewayInSources (
          require (gw_status g = Joined) GatewayNotJoined (
          k gw g (a\<lparr>pa_gateways_seen := pa_gateways_seen a @ [gw_operator g]\<rparr>)))))
      | _ \<Rightarrow> Inl ConstraintViolated)"

text \<open>
  Paying \<open>amount\<close> out of a settled delegation that keeps \<open>post\<close>: a rest below the gateway's
  minimum is drained too, into a vault to be opened after the loop.
\<close>

definition drain_delegation ::
  "u64 \<Rightarrow> u64 \<Rightarrow> gateway \<Rightarrow> delegation \<Rightarrow> plan_acc \<Rightarrow> (gateway \<times> delegation \<times> plan_acc) gar_result" where
  "drain_delegation amount post g d a =
     (if post = 0 \<or> post \<ge> g2_min_delegation_amount (gw_settings g) then
        ok_or (checked_sub (gw_total_delegated_stake g) amount) ArithmeticUnderflow (\<lambda>tds.
        Inr (g\<lparr>gw_total_delegated_stake := tds\<rparr>, d\<lparr>del_amount := post\<rparr>, a))
      else
        ok_or (checked_add amount post) ArithmeticOverflow (\<lambda>combined.
        ok_or (checked_sub (gw_total_delegated_stake g) combined) ArithmeticUnderflow (\<lambda>tds.
        Inr (g\<lparr>gw_total_delegated_stake := tds\<rparr>, d\<lparr>del_amount := 0\<rparr>,
             a\<lparr>pa_residue_targets := pa_residue_targets a @ [(gw_operator g, post)],
                pa_delegated_residue_sub := saturating_add (pa_delegated_residue_sub a) post\<rparr>))))"

definition apply_delegation_source ::
  "pubkey \<Rightarrow> u64 \<Rightarrow> plan_acc \<Rightarrow> plan_acc gar_result" where
  "apply_delegation_source payer amount a =
     next_account a MissingFundingSourceAccount (\<lambda>gateway_info a.
     next_account a MissingFundingSourceAccount (\<lambda>delegation_info a.
     plan_gateway gateway_info a (\<lambda>gw g a.
     require (delegation_info = DelegationPda (gw_operator g) payer) InvalidParameter (
     ok_or (delegations (pa_state a) (gw, payer)) AccountNotInitialized (\<lambda>d.
     require (del_delegator d = payer) NotDelegator (
     let (g1, d1, settled) = settle_delegate_rewards g d;
         a1 = a\<lparr>pa_delegated_add := saturating_add (pa_delegated_add a) settled\<rparr>
     in
     require (del_amount d1 \<ge> amount) InsufficientDelegationForPayment (
     ok_or (checked_sub (del_amount d1) amount) ArithmeticUnderflow (\<lambda>post.
     and_then (drain_delegation amount post g1 d1 a1) (\<lambda>(g2, d2, a2).
     ok_or (checked_add (pa_stake_pool_drain a2) amount) ArithmeticOverflow (\<lambda>drain.
     Inr (a2\<lparr>pa_state := (pa_state a2)\<lparr>
               gateways := (gateways (pa_state a2))(gw \<mapsto> g2),
               delegations := (delegations (pa_state a2))((gw, payer) \<mapsto> d2)\<rparr>,
             pa_stake_pool_drain := drain,
             pa_delegated_sub := saturating_add (pa_delegated_sub a2) amount\<rparr>)))))))))))"

definition apply_operator_source ::
  "pubkey \<Rightarrow> u64 \<Rightarrow> plan_acc \<Rightarrow> plan_acc gar_result" where
  "apply_operator_source payer amount a =
     next_account a MissingFundingSourceAccount (\<lambda>gateway_info a.
     plan_gateway gateway_info a (\<lambda>gw g a.
     require (gw_operator g = payer) NotOperator (
     require (gw_operator_stake g \<ge> amount) InsufficientOperatorStakeForPayment (
     ok_or (checked_sub (gw_operator_stake g) amount) ArithmeticUnderflow (\<lambda>post.
     require (post \<ge> gs_min_operator_stake (settings (pa_state a))) StakeBelowMinimum (
     ok_or (checked_add (pa_stake_pool_drain a) amount) ArithmeticOverflow (\<lambda>drain.
     Inr (a\<lparr>pa_state := (pa_state a)\<lparr>
              gateways := (gateways (pa_state a))(gw \<mapsto> g\<lparr>gw_operator_stake := post\<rparr>)\<rparr>,
            pa_stake_pool_drain := drain,
            pa_staked_sub := saturating_add (pa_staked_sub a) amount\<rparr>))))))))"

definition apply_withdrawal_source ::
  "pubkey \<Rightarrow> u64 \<Rightarrow> plan_acc \<Rightarrow> plan_acc gar_result" where
  "apply_withdrawal_source payer amount a =
     next_account a MissingFundingSourceAccount (\<lambda>info a.
     case info of
       WithdrawalPda o' wid \<Rightarrow>
         ok_or (withdrawals (pa_state a) (o', wid)) InvalidParameter (\<lambda>w.
         require (wd_owner w = payer) InvalidOwner (
         require (info = WithdrawalPda (wd_owner w) (wd_withdrawal_id w)) InvalidParameter (
         require (wd_amount w \<ge> amount) InsufficientWithdrawalForPayment (
         ok_or (checked_sub (wd_amount w) amount) ArithmeticUnderflow (\<lambda>post.
         ok_or (checked_add (pa_stake_pool_drain a) amount) ArithmeticOverflow (\<lambda>drain.
         Inr (a\<lparr>pa_state := (pa_state a)\<lparr>
                  withdrawals := (withdrawals (pa_state a))((o', wid) \<mapsto> w\<lparr>wd_amount := post\<rparr>)\<rparr>,
                pa_stake_pool_drain := drain,
                pa_withdrawn_sub := saturating_add (pa_withdrawn_sub a) amount\<rparr>)))))))
     | _ \<Rightarrow> Inl InvalidParameter)"

definition apply_balance_source :: "bool \<Rightarrow> u64 \<Rightarrow> plan_acc \<Rightarrow> plan_acc gar_result" where
  "apply_balance_source has_payer_ata amount a =
     require has_payer_ata MissingPayerTokenAccountForFundingSource (
     ok_or (checked_add (pa_balance_drain a) amount) ArithmeticOverflow (\<lambda>drain.
     Inr (a\<lparr>pa_balance_drain := drain\<rparr>)))"

definition apply_source ::
  "pubkey \<Rightarrow> bool \<Rightarrow> funding_source_spec \<Rightarrow> plan_acc \<Rightarrow> plan_acc gar_result" where
  "apply_source payer has_payer_ata src a =
     (case fs_kind src of
        FsBalance \<Rightarrow> apply_balance_source has_payer_ata (fs_amount src) a
      | FsDelegation \<Rightarrow> apply_delegation_source payer (fs_amount src) a
      | FsOperatorStake \<Rightarrow> apply_operator_source payer (fs_amount src) a
      | FsWithdrawal \<Rightarrow> apply_withdrawal_source payer (fs_amount src) a)"

fun apply_sources ::
  "pubkey \<Rightarrow> bool \<Rightarrow> funding_source_spec list \<Rightarrow> plan_acc \<Rightarrow> plan_acc gar_result" where
  "apply_sources payer has_payer_ata [] a = Inr a"
| "apply_sources payer has_payer_ata (src # srcs) a =
     and_then (apply_source payer has_payer_ata src a) (apply_sources payer has_payer_ata srcs)"

text \<open>The sum of the sources' amounts; a zero amount or an overflow fails.\<close>

fun sum_sources :: "funding_source_spec list \<Rightarrow> u64 \<Rightarrow> u64 gar_result" where
  "sum_sources [] acc = Inr acc"
| "sum_sources (src # srcs) acc =
     require (fs_amount src > 0) ZeroFundingSourceAmount (
     ok_or (checked_add acc (fs_amount src)) ArithmeticOverflow (sum_sources srcs))"

text \<open>The residue vaults, one per delegation drained below the gateway's minimum.\<close>

fun open_residue_vaults ::
  "gar_env \<Rightarrow> pubkey \<Rightarrow> (pubkey \<times> u64) list \<Rightarrow> gar_pda list \<Rightarrow> gar_state
     \<Rightarrow> (gar_pda list \<times> gar_state) gar_result" where
  "open_residue_vaults env payer [] remaining s = Inr (remaining, s)"
| "open_residue_vaults env payer ((gateway_operator, residue) # targets) remaining s =
     (case remaining of [] \<Rightarrow> Inl MissingResidueVault
      | new_vault # rest \<Rightarrow>
          let wid = wc_next_id (load_counter env s payer) in
          ok_or (checked_add wid 1) ArithmeticOverflow (\<lambda>_.
          require (new_vault = WithdrawalPda payer wid) InvalidParameter (
          require (withdrawals s (payer, wid) = None) InvalidParameter (
          ok_or (checked_add_i64 (now env) (gs_withdrawal_period (settings s))) ArithmeticOverflow (\<lambda>available_at.
          and_then (open_withdrawal env payer gateway_operator residue available_at True False False s)
            (open_residue_vaults env payer targets rest))))))"

definition count_kind :: "funding_source_kind \<Rightarrow> funding_source_spec list \<Rightarrow> nat" where
  "count_kind kind sources = length (filter (\<lambda>src. fs_kind src = kind) sources)"

definition pay_from_funding_plan ::
  "gar_env \<Rightarrow> gar_pda list \<Rightarrow> pubkey \<Rightarrow> pubkey \<Rightarrow> pubkey option \<Rightarrow> pubkey
     \<Rightarrow> funding_source_spec list \<Rightarrow> u64 \<Rightarrow> u8 \<Rightarrow> gar_state \<Rightarrow> gar_state gar_result" where
  [handler_defs]: "pay_from_funding_plan env remaining stake_ta protocol_ta payer_ata payer
       sources expected_total residue_vault_count s =
     pinned_by_key env (gs_stake_token_account (settings s)) stake_ta (
     pinned_by_key env (gs_protocol_token_account (settings s)) protocol_ta (
     require (sources \<noteq> []) EmptyFundingPlan (
     require (length sources \<le> MAX_FUNDING_SOURCES) TooManyFundingSources (
     require (count_kind FsDelegation sources \<le> MAX_DELEGATION_SOURCES) TooManyDelegationSources (
     require (count_kind FsOperatorStake sources \<le> 1) OnlyOneOperatorStakeSource (
     and_then (sum_sources sources 0) (\<lambda>computed_total.
     require (computed_total = expected_total) FundingPlanAmountMismatch (
     and_then (apply_sources payer (payer_ata \<noteq> None) sources (init_acc remaining s)) (\<lambda>a.
     require (length (pa_residue_targets a) = unat residue_vault_count) MismatchedResidueVaultCount (
     and_then (if pa_stake_pool_drain a > 0
               then token_transfer env stake_ta protocol_ta (pda_key env SettingsPda)
                      (pa_stake_pool_drain a) (pa_state a)
               else Inr (pa_state a)) (\<lambda>s1.
     and_then (if pa_balance_drain a > 0
               then ok_or payer_ata Panic (\<lambda>ata.
                    token_transfer env ata protocol_ta payer (pa_balance_drain a) s1)
               else Inr s1) (\<lambda>s2.
     let s3 = s2\<lparr>withdrawal_counters := (withdrawal_counters s2)(payer \<mapsto> load_counter env s2 payer)\<rparr>
     in
     and_then (open_residue_vaults env payer (pa_residue_targets a) (pa_remaining a) s3) (\<lambda>(rest, s4).
     require (rest = []) ExtraneousFundingSourceAccount (
     let withdrawn_add = foldl saturating_add 0 (map snd (pa_residue_targets a));
         gs = settings s4
     in
     ok_or (checked_add (saturating_sub (gs_total_withdrawn gs) (pa_withdrawn_sub a)) withdrawn_add)
       ArithmeticOverflow (\<lambda>withdrawn.
     Inr (s4\<lparr>settings := gs\<lparr>
            gs_total_delegated :=
              saturating_sub (saturating_sub
                (saturating_add (gs_total_delegated gs) (pa_delegated_add a))
                (pa_delegated_sub a)) (pa_delegated_residue_sub a),
            gs_total_staked := saturating_sub (gs_total_staked gs) (pa_staked_sub a),
            gs_total_withdrawn := withdrawn\<rparr>\<rparr>))))))))))))))))"

end
