(* ===== verification/Gar_Ledger.thy ===== *)
theory Gar_Ledger
  imports Gar_Fees Gar_Gateway Gar_Payment
begin

text \<open>
  The stake ledger of the gateway registry (\<open>INVARIANTS.md\<close>): an abstract double-entry book
  with one bucket per kind of claim on the stake pool, the abstraction of a program state to
  it, and the invariant that ties the book, the supply counters and the pool's token balance
  together. The theories \<open>Gar_Conserve_*\<close> show that each instruction posts the entries its
  row of \<open>INVARIANTS.md\<close> promises.
\<close>

section \<open>The abstract book\<close>

datatype bucket = Staked | Delegated | Pending | Vaults | Outside

type_synonym book = "bucket \<Rightarrow> int"

record entry =
  en_from :: bucket
  en_to :: bucket
  en_amount :: int

definition entry :: "bucket \<Rightarrow> bucket \<Rightarrow> int \<Rightarrow> entry" where
  "entry x y a = \<lparr>en_from = x, en_to = y, en_amount = a\<rparr>"

definition post_entry :: "entry \<Rightarrow> book \<Rightarrow> book" where
  "post_entry e b = (\<lambda>x. b x - (if x = en_from e then en_amount e else 0)
                          + (if x = en_to e then en_amount e else 0))"

definition post :: "entry list \<Rightarrow> book \<Rightarrow> book" where
  "post es b = foldl (\<lambda>b e. post_entry e b) b es"

definition book_total :: "book \<Rightarrow> int" where
  "book_total b = b Staked + b Delegated + b Pending + b Vaults + b Outside"

lemma post_simps [simp]:
  "post [] b = b" "post (e # es) b = post es (post_entry e b)"
  by (simp_all add: post_def)

lemma post_entry_at [simp]:
  "post_entry (entry x y a) b z = b z - (if z = x then a else 0) + (if z = y then a else 0)"
  by (simp add: post_entry_def entry_def)

text \<open>Double entry: whatever is posted, the buckets still sum to the same total.\<close>

lemma book_total_post_entry: "book_total (post_entry e b) = book_total b"
  by (cases "en_from e"; cases "en_to e") (simp_all add: book_total_def post_entry_def)

lemma book_total_post [simp]: "book_total (post es b) = book_total b"
  by (induction es arbitrary: b) (simp_all add: book_total_post_entry)

lemma post_append: "post (es @ fs) b = post fs (post es b)"
  by (simp add: post_def)

section \<open>Sums over the accounts\<close>

type_synonym gateway_map = "pubkey \<rightharpoonup> gateway"
type_synonym delegation_map = "pubkey \<times> pubkey \<rightharpoonup> delegation"
type_synonym withdrawal_map = "pubkey \<times> u64 \<rightharpoonup> withdrawal"

definition stake_total :: "gateway_map \<Rightarrow> int" where
  "stake_total G = msum (\<lambda>_ g. uint (gw_operator_stake g)) G"

definition counter_total :: "gateway_map \<Rightarrow> int" where
  "counter_total G = msum (\<lambda>_ g. uint (gw_total_delegated_stake g)) G"

definition counter_of :: "gateway_map \<Rightarrow> pubkey \<Rightarrow> int" where
  "counter_of G k = (case G k of None \<Rightarrow> 0 | Some g \<Rightarrow> uint (gw_total_delegated_stake g))"

definition pending_in :: "gateway_map \<Rightarrow> pubkey \<Rightarrow> delegation \<Rightarrow> int" where
  "pending_in G k d = (case G k of None \<Rightarrow> 0 | Some g \<Rightarrow> uint (accrued g d))"

definition pending_total :: "gateway_map \<Rightarrow> delegation_map \<Rightarrow> int" where
  "pending_total G D = msum (\<lambda>k d. pending_in G (fst k) d) D"

text \<open>
  The fraction of a token, in units of 10^-18, that flooring a reward leaves behind. It stays in
  the pool, and a later epoch may lift the reward over the next whole token, so it has to be
  kept in reserve.
\<close>

definition dust_in :: "gateway_map \<Rightarrow> pubkey \<Rightarrow> delegation \<Rightarrow> int" where
  "dust_in G k d = (case G k of None \<Rightarrow> 0
     | Some g \<Rightarrow> uint (del_amount d)
         * max 0 (uint (gw_cumulative_reward_per_token g) - uint (del_reward_debt d)) mod 10 ^ 18)"

definition dust_total :: "gateway_map \<Rightarrow> delegation_map \<Rightarrow> int" where
  "dust_total G D = msum (\<lambda>k d. dust_in G (fst k) d) D"

definition vault_total :: "withdrawal_map \<Rightarrow> int" where
  "vault_total W = msum (\<lambda>_ w. uint (wd_amount w)) W"

text \<open>What the delegations to one gateway add up to.\<close>

definition delegated_to :: "delegation_map \<Rightarrow> pubkey \<Rightarrow> int" where
  "delegated_to D k = msum (\<lambda>j d. if fst j = k then uint (del_amount d) else 0) D"

text \<open>Stake a gateway's counter holds that no delegation claims (ADR-0037).\<close>

definition drift :: "gateway_map \<Rightarrow> delegation_map \<Rightarrow> pubkey \<Rightarrow> int" where
  "drift G D k = counter_of G k - delegated_to D k"

lemma counter_of_upd [simp]:
  "counter_of (G(k \<mapsto> g)) j = (if j = k then uint (gw_total_delegated_stake g) else counter_of G j)"
  by (simp add: counter_of_def)

lemma counter_of_lookup: "G k = Some g \<Longrightarrow> counter_of G k = uint (gw_total_delegated_stake g)"
  by (simp add: counter_of_def)

lemma pending_in_nonneg [simp]: "0 \<le> pending_in G k d"
  by (simp add: pending_in_def split: option.split)

lemma pending_in_lookup: "G k = Some g \<Longrightarrow> pending_in G k d = uint (accrued g d)"
  by (simp add: pending_in_def)

lemma pending_in_zero [simp]: "del_amount d = 0 \<Longrightarrow> pending_in G k d = 0"
  by (simp add: pending_in_def split: option.split)

lemma dust_in_nonneg [simp]: "0 \<le> dust_in G k d"
  by (simp add: dust_in_def split: option.split)

lemma dust_in_zero [simp]: "del_amount d = 0 \<Longrightarrow> dust_in G k d = 0"
  by (simp add: dust_in_def split: option.split)

lemma dust_in_settled:
  "G k = Some g \<Longrightarrow> del_reward_debt d = gw_cumulative_reward_per_token g \<Longrightarrow> dust_in G k d = 0"
  by (simp add: dust_in_def)

lemma dust_total_nonneg [simp]: "0 \<le> dust_total G D"
  by (simp add: dust_total_def msum_nonneg)

lemma totals_nonneg [simp]:
  "0 \<le> stake_total G" "0 \<le> counter_total G" "0 \<le> pending_total G D" "0 \<le> vault_total W"
  "0 \<le> delegated_to D k" "0 \<le> counter_of G k"
  by (auto simp: stake_total_def counter_total_def pending_total_def vault_total_def
      delegated_to_def counter_of_def intro!: msum_nonneg split: option.split)

subsection \<open>Changing one account\<close>

lemma gateway_totals_upd:
  assumes "finite (dom G)" and "G k = Some g"
  shows "stake_total (G(k \<mapsto> g')) =
           stake_total G - uint (gw_operator_stake g) + uint (gw_operator_stake g')"
    and "counter_total (G(k \<mapsto> g')) =
           counter_total G - uint (gw_total_delegated_stake g) + uint (gw_total_delegated_stake g')"
  using assms by (simp_all add: stake_total_def counter_total_def msum_upd)

lemma gateway_totals_new:
  assumes "finite (dom G)" and "G k = None"
  shows "stake_total (G(k \<mapsto> g')) = stake_total G + uint (gw_operator_stake g')"
    and "counter_total (G(k \<mapsto> g')) = counter_total G + uint (gw_total_delegated_stake g')"
  using assms by (simp_all add: stake_total_def counter_total_def msum_upd)

lemma gateway_totals_del:
  assumes "finite (dom G)" and "G k = Some g"
  shows "stake_total (G(k := None)) = stake_total G - uint (gw_operator_stake g)"
    and "counter_total (G(k := None)) = counter_total G - uint (gw_total_delegated_stake g)"
  using assms by (simp_all add: stake_total_def counter_total_def msum_del)

text \<open>A gateway update that leaves the accumulator alone leaves every pending reward alone.\<close>

lemma pending_total_gw_upd:
  assumes "G k = Some g"
    and "gw_cumulative_reward_per_token g' = gw_cumulative_reward_per_token g"
  shows "pending_total (G(k \<mapsto> g')) D = pending_total G D"
  unfolding pending_total_def
  by (rule msum_cong) (use assms in \<open>auto simp: pending_in_def accrued_def split: option.split\<close>)

lemma dust_total_gw_upd:
  assumes "G k = Some g"
    and "gw_cumulative_reward_per_token g' = gw_cumulative_reward_per_token g"
  shows "dust_total (G(k \<mapsto> g')) D = dust_total G D"
  unfolding dust_total_def
  by (rule msum_cong) (use assms in \<open>auto simp: dust_in_def split: option.split\<close>)

lemma delegation_totals_upd:
  assumes "finite (dom D)" and "D (k, u) = Some d"
  shows "pending_total G (D((k, u) \<mapsto> d')) = pending_total G D - pending_in G k d + pending_in G k d'"
    and "delegated_to (D((k, u) \<mapsto> d')) j =
           delegated_to D j - (if j = k then uint (del_amount d) - uint (del_amount d') else 0)"
    and "dust_total G (D((k, u) \<mapsto> d')) = dust_total G D - dust_in G k d + dust_in G k d'"
  using assms by (simp_all add: pending_total_def dust_total_def delegated_to_def msum_upd)

lemma delegation_totals_new:
  assumes "finite (dom D)" and "D (k, u) = None"
  shows "pending_total G (D((k, u) \<mapsto> d')) = pending_total G D + pending_in G k d'"
    and "delegated_to (D((k, u) \<mapsto> d')) j =
           delegated_to D j + (if j = k then uint (del_amount d') else 0)"
    and "dust_total G (D((k, u) \<mapsto> d')) = dust_total G D + dust_in G k d'"
  using assms by (simp_all add: pending_total_def dust_total_def delegated_to_def msum_upd)

lemma delegation_totals_del:
  assumes "finite (dom D)" and "D (k, u) = Some d"
  shows "pending_total G (D((k, u) := None)) = pending_total G D - pending_in G k d"
    and "delegated_to (D((k, u) := None)) j =
           delegated_to D j - (if j = k then uint (del_amount d) else 0)"
    and "dust_total G (D((k, u) := None)) = dust_total G D - dust_in G k d"
  using assms by (simp_all add: pending_total_def dust_total_def delegated_to_def msum_del)

lemma vault_total_upd:
  "finite (dom W) \<Longrightarrow> W k = Some w \<Longrightarrow>
   vault_total (W(k \<mapsto> w')) = vault_total W - uint (wd_amount w) + uint (wd_amount w')"
  "finite (dom W) \<Longrightarrow> W k = None \<Longrightarrow> vault_total (W(k \<mapsto> w')) = vault_total W + uint (wd_amount w')"
  "finite (dom W) \<Longrightarrow> W k = Some w \<Longrightarrow> vault_total (W(k := None)) = vault_total W - uint (wd_amount w)"
  by (simp_all add: vault_total_def msum_upd msum_del)

lemmas totals_upd = gateway_totals_upd gateway_totals_del delegation_totals_upd
  delegation_totals_del vault_total_upd

subsection \<open>One account against the sums\<close>

lemma lookup_le_totals:
  assumes "finite (dom G)" and "G k = Some g"
  shows "uint (gw_operator_stake g) \<le> stake_total G"
    and "uint (gw_total_delegated_stake g) \<le> counter_total G"
  using assms
    lookup_le_msum [where m = G and f = "\<lambda>_ g. uint (gw_operator_stake g)" and k = k and v = g]
    lookup_le_msum [where m = G and f = "\<lambda>_ g. uint (gw_total_delegated_stake g)" and k = k and v = g]
  by (simp_all add: stake_total_def counter_total_def)

lemma delegation_le_totals:
  assumes "finite (dom D)" and "D (k, u) = Some d"
  shows "uint (del_amount d) \<le> delegated_to D k" and "pending_in G k d \<le> pending_total G D"
proof -
  show "uint (del_amount d) \<le> delegated_to D k"
    using assms lookup_le_msum [where m = D and k = "(k, u)" and v = d
        and f = "\<lambda>j d. if fst j = k then uint (del_amount d) else 0"]
    by (simp add: delegated_to_def)
  show "pending_in G k d \<le> pending_total G D"
    using assms lookup_le_msum [where m = D and k = "(k, u)" and v = d
        and f = "\<lambda>j d. pending_in G (fst j) d"]
    by (simp add: pending_total_def)
qed

lemma vault_le_total: "finite (dom W) \<Longrightarrow> W k = Some w \<Longrightarrow> uint (wd_amount w) \<le> vault_total W"
  using lookup_le_msum [where m = W and f = "\<lambda>_ w. uint (wd_amount w)" and k = k and v = w]
  by (simp add: vault_total_def)

lemma accrued_gw_upd [simp]:
  "accrued (g\<lparr>gw_total_delegated_stake := x\<rparr>) d = accrued g d"
  "accrued (g\<lparr>gw_operator_stake := y\<rparr>) d = accrued g d"
  by (simp_all add: accrued_def)

section \<open>The abstraction and the invariant\<close>

definition pool_flow :: "gar_state \<Rightarrow> int" where
  "pool_flow s = token_flow (gs_stake_token_account (settings s)) (cpi_log s)"

text \<open>The pool is the other side of the book: what left \<open>Outside\<close> is in the pool.\<close>

definition book_of :: "gar_state \<Rightarrow> book" where
  "book_of s = (\<lambda>b. case b of
       Staked \<Rightarrow> stake_total (gateways s)
     | Delegated \<Rightarrow> counter_total (gateways s)
     | Pending \<Rightarrow> pending_total (gateways s) (delegations s)
     | Vaults \<Rightarrow> vault_total (withdrawals s)
     | Outside \<Rightarrow> - pool_flow s)"

definition obligations :: "gar_state \<Rightarrow> int" where
  "obligations s = stake_total (gateways s) + counter_total (gateways s)
     + pending_total (gateways s) (delegations s) + vault_total (withdrawals s)"

text \<open>
  Every account sits at the address its fields say, only a joined gateway has operator stake,
  and the two pinned accounts differ.
\<close>

definition gateway_ok :: "pubkey \<Rightarrow> gateway \<Rightarrow> bool" where
  "gateway_ok k g \<longleftrightarrow> gw_operator g = k \<and> (gw_status g \<noteq> Joined \<longrightarrow> gw_operator_stake g = 0)"

definition well_formed :: "gar_state \<Rightarrow> bool" where
  "well_formed s \<longleftrightarrow>
     finite (dom (gateways s)) \<and> finite (dom (delegations s)) \<and> finite (dom (withdrawals s))
     \<and> (\<forall>k g. gateways s k = Some g \<longrightarrow> gateway_ok k g)
     \<and> (\<forall>k w. withdrawals s k = Some w \<longrightarrow> (wd_owner w, wd_withdrawal_id w) = k)
     \<and> gs_stake_token_account (settings s) \<noteq> gs_protocol_token_account (settings s)"

lemma gateway_ok_simps [simp]:
  "gateway_ok k (g\<lparr>gw_total_delegated_stake := x\<rparr>) = gateway_ok k g"
  "gateway_ok k (g\<lparr>gw_operator_stake := y\<rparr>) \<longleftrightarrow>
     gw_operator g = k \<and> (gw_status g \<noteq> Joined \<longrightarrow> y = 0)"
  by (simp_all add: gateway_ok_def)

text \<open>Invariant 2: the supply counters are the sums.\<close>

definition supply_consistent :: "gar_state \<Rightarrow> bool" where
  "supply_consistent s \<longleftrightarrow>
     uint (gs_total_staked (settings s)) = stake_total (gateways s)
     \<and> uint (gs_total_delegated (settings s)) = counter_total (gateways s)
     \<and> uint (gs_total_withdrawn (settings s)) = vault_total (withdrawals s)"

text \<open>Invariant 4: no gateway's counter is below what its delegations claim.\<close>

definition counters_cover :: "gar_state \<Rightarrow> bool" where
  "counters_cover s \<longleftrightarrow> (\<forall>k. 0 \<le> drift (gateways s) (delegations s) k)"

text \<open>
  The whole invariant, for a stake pool that held \<open>bal\<close> before the first logged transfer: every
  claim is backed by a token in the pool.
\<close>

definition gar_inv :: "int \<Rightarrow> gar_state \<Rightarrow> bool" where
  "gar_inv bal s \<longleftrightarrow> well_formed s \<and> supply_consistent s \<and> counters_cover s
     \<and> 10 ^ 18 * obligations s + dust_total (gateways s) (delegations s)
         \<le> 10 ^ 18 * (bal + pool_flow s)
     \<and> bal + pool_flow s < 2 ^ 64"

text \<open>
  The signer does not own the stake pool's token account: it is owned by the settings PDA, and
  a program-derived address cannot sign a transaction.
\<close>

definition pool_not_owned_by :: "gar_env \<Rightarrow> gar_state \<Rightarrow> pubkey \<Rightarrow> bool" where
  "pool_not_owned_by env s signer \<longleftrightarrow>
     (case token_accounts env (gs_stake_token_account (settings s)) of
        None \<Rightarrow> True | Some ta \<Rightarrow> ta_owner ta \<noteq> signer)"

lemma obligations_book: "obligations s - pool_flow s = book_total (book_of s)"
  by (simp add: obligations_def book_total_def book_of_def)

text \<open>
  What every instruction but the two administrative repairs must do: post a list of entries
  in the book, keep the counters and the addresses right, and leave every gateway's drift as
  it was.
\<close>

definition posts :: "entry list \<Rightarrow> gar_state \<Rightarrow> gar_state \<Rightarrow> bool" where
  "posts es s s' \<longleftrightarrow> book_of s' = post es (book_of s)
     \<and> well_formed s' \<and> supply_consistent s'
     \<and> (\<forall>k. drift (gateways s') (delegations s') k = drift (gateways s) (delegations s) k)
     \<and> dust_total (gateways s') (delegations s') \<le> dust_total (gateways s) (delegations s)
     \<and> gs_stake_token_account (settings s') = gs_stake_token_account (settings s)
     \<and> gs_protocol_token_account (settings s') = gs_protocol_token_account (settings s)"

lemma postsI:
  assumes "stake_total (gateways s') = post es (book_of s) Staked"
    and "counter_total (gateways s') = post es (book_of s) Delegated"
    and "pending_total (gateways s') (delegations s') = post es (book_of s) Pending"
    and "vault_total (withdrawals s') = post es (book_of s) Vaults"
    and "- pool_flow s' = post es (book_of s) Outside"
    and "well_formed s'" and "supply_consistent s'"
    and "\<And>k. drift (gateways s') (delegations s') k = drift (gateways s) (delegations s) k"
    and "dust_total (gateways s') (delegations s') \<le> dust_total (gateways s) (delegations s)"
    and "gs_stake_token_account (settings s') = gs_stake_token_account (settings s)"
    and "gs_protocol_token_account (settings s') = gs_protocol_token_account (settings s)"
  shows "posts es s s'"
  using assms by (auto simp: posts_def book_of_def fun_eq_iff split: bucket.split)

lemma posts_conserves: "posts es s s' \<Longrightarrow> obligations s' - pool_flow s' = obligations s - pool_flow s"
  by (simp add: posts_def obligations_book)

text \<open>An instruction that moves no pool tokens keeps the invariant if it posts at all.\<close>

lemma quiet_posts_keep_gar_inv:
  assumes "gar_inv bal s" and "posts es s s'" and "pool_flow s' = pool_flow s"
  shows "gar_inv bal s'"
  using assms posts_conserves [OF assms(2)]
  by (auto simp: gar_inv_def posts_def counters_cover_def)

lemma posts_keeps_gar_inv:
  assumes "gar_inv bal s" and "posts es s s'" and "bal + pool_flow s' < 2 ^ 64"
  shows "gar_inv bal s'"
  using assms posts_conserves [OF assms(2)]
  by (auto simp: gar_inv_def posts_def counters_cover_def)

section \<open>Transfers\<close>

text \<open>
  The Token program on the stake pool \<open>k\<close>: it never holds less than nothing nor more than a
  \<open>u64\<close>, counted from \<open>bal\<close>, and only its owner can move tokens out of it.
\<close>

definition pool_conforms :: "gar_env \<Rightarrow> int \<Rightarrow> gar_state \<Rightarrow> bool" where
  "pool_conforms env bal s \<longleftrightarrow>
     spl_conforms env (gs_stake_token_account (settings s)) bal (2 ^ 64 - 1)"

lemma token_transferD:
  assumes "token_transfer env src dst auth amount s = Inr s1"
  shows "s1 = s\<lparr>cpi_log := cpi_log s @
           [\<lparr>tr_from = src, tr_to = dst, tr_authority = auth, tr_amount = amount\<rparr>]\<rparr>"
  using assms by (auto simp: token_transfer_def Let_def result_iff)

text \<open>How the pool's flow reads the log after a transfer.\<close>

lemma pool_flow_log:
  "pool_flow (s\<lparr>cpi_log := l\<rparr>) = token_flow (gs_stake_token_account (settings s)) l"
  by (simp add: pool_flow_def)

lemma token_transfer_bounded:
  assumes "token_transfer env src dst auth amount s = Inr s1" and "pool_conforms env bal s"
  shows "bal + pool_flow s1 < 2 ^ 64"
proof -
  let ?k = "gs_stake_token_account (settings s)"
  let ?t = "\<lparr>tr_from = src, tr_to = dst, tr_authority = auth, tr_amount = amount\<rparr>"
  have acc: "spl_accepts env (cpi_log s) ?t"
    using assms(1) by (simp add: token_transfer_def Let_def require_iff)
  have "bal + token_flow ?k (cpi_log s @ [?t]) \<le> 2 ^ 64 - 1"
    using assms(2) acc unfolding pool_conforms_def spl_conforms_def by blast
  then show ?thesis
    unfolding token_transferD [OF assms(1)] pool_flow_log by simp
qed

lemma token_flow_append [simp]:
  "token_flow k (ts @ us) = token_flow k ts + token_flow k us"
  "token_flow k (t # us) = transfer_flow k t + token_flow k us"
  by (simp_all add: token_flow_def)

lemma transfer_flow_simps:
  "transfer_flow k \<lparr>tr_from = src, tr_to = dst, tr_authority = auth, tr_amount = a\<rparr> =
     (if dst = k then uint a else 0) - (if src = k then uint a else 0)"
  by (simp add: transfer_flow_def)

lemma prod3_iff [result_iff]:
  "(case m of (a, b, c) \<Rightarrow> f a b c) = Inr x \<longleftrightarrow> (\<exists>a b c. m = (a, b, c) \<and> f a b c = Inr x)"
  by (cases m) auto

lemma user_token_account_iff [result_iff]:
  "user_token_account env s key owner k = Inr x \<longleftrightarrow>
     (\<exists>ta. token_accounts env key = Some ta \<and> ta_owner ta = owner
           \<and> ta_mint ta = gs_mint (settings s)) \<and> k = Inr x"
  by (auto simp: user_token_account_def result_iff)

lemma pinned_token_account_iff [result_iff]:
  "pinned_token_account env s expected key k = Inr x \<longleftrightarrow>
     (\<exists>ta. token_accounts env key = Some ta \<and> ta_mint ta = gs_mint (settings s))
     \<and> key = expected \<and> k = Inr x"
  by (auto simp: pinned_token_account_def result_iff)

lemma pinned_by_key_iff [result_iff]:
  "pinned_by_key env expected key k = Inr x \<longleftrightarrow>
     token_accounts env key \<noteq> None \<and> key = expected \<and> k = Inr x"
  by (auto simp: pinned_by_key_def result_iff)

lemmas run_iff = require_iff ok_or_iff and_then_iff prod3_iff user_token_account_iff
  pinned_token_account_iff pinned_by_key_iff

text \<open>A user's token account is not the stake pool.\<close>

lemma user_account_not_pool:
  "pool_not_owned_by env s owner \<Longrightarrow> token_accounts env key = Some ta \<Longrightarrow> ta_owner ta = owner \<Longrightarrow>
   key \<noteq> gs_stake_token_account (settings s)"
  by (auto simp: pool_not_owned_by_def)

section \<open>What the invariant gives an instruction\<close>

lemma gar_invD:
  assumes "gar_inv bal s"
  shows "finite (dom (gateways s))" "finite (dom (delegations s))" "finite (dom (withdrawals s))"
    and "gateways s k = Some g \<Longrightarrow> gw_operator g = k"
    and "gs_stake_token_account (settings s) \<noteq> gs_protocol_token_account (settings s)"
    and "uint (gs_total_staked (settings s)) = stake_total (gateways s)"
    and "uint (gs_total_delegated (settings s)) = counter_total (gateways s)"
    and "uint (gs_total_withdrawn (settings s)) = vault_total (withdrawals s)"
    and "obligations s \<le> bal + pool_flow s" "bal + pool_flow s < 2 ^ 64"
  using assms dust_total_nonneg [of "gateways s" "delegations s"]
  by (auto simp: gar_inv_def well_formed_def supply_consistent_def gateway_ok_def
      simp del: dust_total_nonneg)

lemma staked_is_joined:
  "gar_inv bal s \<Longrightarrow> gateways s k = Some g \<Longrightarrow> gw_operator_stake g \<noteq> 0 \<Longrightarrow> gw_status g = Joined"
  by (auto simp: gar_inv_def well_formed_def gateway_ok_def)

lemma withdrawal_at_key:
  "gar_inv bal s \<Longrightarrow> withdrawals s (owner, wid) = Some w \<Longrightarrow> wd_owner w = owner \<and> wd_withdrawal_id w = wid"
  by (fastforce simp: gar_inv_def well_formed_def)

text \<open>
  A delegation's principal is inside its gateway's counter, and its reward inside the pool. The
  lemmas speak of \<open>load_delegation\<close>, the account after \<open>init_if_needed\<close>: a fresh one claims nothing.
\<close>

lemma load_delegation_Some [simp]: "delegations s (k, u) = Some d \<Longrightarrow> load_delegation s k u = d"
  by (simp add: load_delegation_def)

lemma load_delegation_None [simp]: "delegations s (k, u) = None \<Longrightarrow> load_delegation s k u = zero_delegation"
  by (simp add: load_delegation_def)

lemma zero_delegation_amount [simp]: "del_amount zero_delegation = 0"
  by (simp add: zero_delegation_def)

lemma delegation_totals_load:
  assumes "finite (dom (delegations s))" and "load_delegation s k u = d"
  shows "pending_total G ((delegations s)((k, u) \<mapsto> d')) =
           pending_total G (delegations s) - pending_in G k d + pending_in G k d'"
    and "delegated_to ((delegations s)((k, u) \<mapsto> d')) j =
           delegated_to (delegations s) j - (if j = k then uint (del_amount d) - uint (del_amount d') else 0)"
    and "dust_total G ((delegations s)((k, u) \<mapsto> d')) =
           dust_total G (delegations s) - dust_in G k d + dust_in G k d'"
  using assms
  by (cases "delegations s (k, u)"; simp add: delegation_totals_upd delegation_totals_new)+

lemma load_le_totals:
  assumes "finite (dom (delegations s))"
  shows "uint (del_amount (load_delegation s k u)) \<le> delegated_to (delegations s) k"
    and "pending_in G k (load_delegation s k u) \<le> pending_total G (delegations s)"
  using delegation_le_totals [OF assms] by (cases "delegations s (k, u)"; simp)+

text \<open>The part of the invariant a settlement relies on; it also holds between two steps of a plan.\<close>

definition delegations_sound :: "gar_state \<Rightarrow> bool" where
  "delegations_sound s \<longleftrightarrow> well_formed s \<and> counters_cover s
     \<and> counter_total (gateways s) + pending_total (gateways s) (delegations s) < 2 ^ 64"

lemma gar_inv_sound:
  assumes "gar_inv bal s" shows "delegations_sound s"
  using gar_invD(9,10) [OF assms] totals_nonneg(1) [of "gateways s"] totals_nonneg(4) [of "withdrawals s"]
    assms
  unfolding obligations_def gar_inv_def delegations_sound_def by linarith

lemma delegation_bounds:
  assumes "delegations_sound s" and "gateways s k = Some g" and "load_delegation s k u = d"
  shows "uint (del_amount d) \<le> uint (gw_total_delegated_stake g)"
    and "uint (accrued g d) \<le> pending_total (gateways s) (delegations s)"
    and "uint (gw_total_delegated_stake g) \<le> counter_total (gateways s)"
    and "counter_total (gateways s) + pending_total (gateways s) (delegations s) < 2 ^ 64"
proof -
  have fin: "finite (dom (gateways s))" "finite (dom (delegations s))"
    using assms(1) by (simp_all add: delegations_sound_def well_formed_def)
  have "0 \<le> drift (gateways s) (delegations s) k"
    using assms(1) by (simp add: delegations_sound_def counters_cover_def)
  then show "uint (del_amount d) \<le> uint (gw_total_delegated_stake g)"
    using load_le_totals(1) [OF fin(2), of k u] assms(2,3)
    by (simp add: drift_def counter_of_lookup)
  show "uint (accrued g d) \<le> pending_total (gateways s) (delegations s)"
    using load_le_totals(2) [OF fin(2), of "gateways s" k u] assms(2,3)
    by (simp add: pending_in_lookup)
  show "uint (gw_total_delegated_stake g) \<le> counter_total (gateways s)"
    using lookup_le_totals(2) [OF fin(1) assms(2)] .
  show "counter_total (gateways s) + pending_total (gateways s) (delegations s) < 2 ^ 64"
    using assms(1) by (simp add: delegations_sound_def)
qed

text \<open>Under the invariant a settlement never saturates.\<close>

lemma settle_exact:
  assumes "delegations_sound s" and "gateways s k = Some g" and "load_delegation s k u = d"
    and "settle_delegate_rewards g d = (g1, d1, p)"
  shows "p = accrued g d"
    and "uint (gw_total_delegated_stake g1) = uint (gw_total_delegated_stake g) + uint p"
    and "uint (del_amount d1) = uint (del_amount d) + uint p"
    and "del_reward_debt d1 = gw_cumulative_reward_per_token g1"
    and "gw_cumulative_reward_per_token g1 = gw_cumulative_reward_per_token g"
    and "gw_operator_stake g1 = gw_operator_stake g" and "gw_operator g1 = gw_operator g"
    and "accrued g1 d' = accrued g d'" and "gateway_ok k' g1 = gateway_ok k' g"
proof -
  note b = delegation_bounds [OF assms(1-3)]
  have sum: "uint (gw_total_delegated_stake g) + uint (accrued g d) < 2 ^ 64"
    using b(2-4) by linarith
  then have amt: "uint (del_amount d) + uint (accrued g d) < 2 ^ 64"
    using b(1) by linarith
  show "p = accrued g d"
    "uint (gw_total_delegated_stake g1) = uint (gw_total_delegated_stake g) + uint p"
    "uint (del_amount d1) = uint (del_amount d) + uint p"
    "del_reward_debt d1 = gw_cumulative_reward_per_token g1"
    "gw_cumulative_reward_per_token g1 = gw_cumulative_reward_per_token g"
    "gw_operator_stake g1 = gw_operator_stake g" "gw_operator g1 = gw_operator g"
    "accrued g1 d' = accrued g d'" "gateway_ok k' g1 = gateway_ok k' g"
    using assms(4) sum amt by (auto simp: settle_delegate_rewards_eq uint_saturating_add)
qed

text \<open>A payout from the stake pool to the treasury that is skipped when it is zero.\<close>

lemma optional_payout:
  assumes "(if a > 0 then token_transfer env (gs_stake_token_account (settings s))
              (gs_protocol_token_account (settings s)) auth a s else Inr s) = Inr s1"
    and "gs_stake_token_account (settings s) \<noteq> gs_protocol_token_account (settings s)"
  obtains l where "s1 = s\<lparr>cpi_log := l\<rparr>"
    and "token_flow (gs_stake_token_account (settings s)) l = pool_flow s - uint a"
proof (cases "a > 0")
  case True
  with assms(1) have "token_transfer env (gs_stake_token_account (settings s))
      (gs_protocol_token_account (settings s)) auth a s = Inr s1" by simp
  from token_transferD [OF this] show ?thesis
    by (rule that) (use assms(2) in \<open>auto simp: pool_flow_def transfer_flow_simps\<close>)
next
  case False
  with assms(1) show ?thesis
    by (intro that [of "cpi_log s"]) (simp_all add: pool_flow_def word_gt_0)
qed

text \<open>The facts that turn \<open>postsI\<close> into arithmetic.\<close>

lemmas posting_simps = book_of_def totals_upd pending_total_gw_upd dust_total_gw_upd dust_in_settled pool_flow_def
  transfer_flow_simps well_formed_def supply_consistent_def drift_def counter_of_lookup

lemma gar_inv_well_formed: "gar_inv bal s \<Longrightarrow> well_formed s"
  by (simp add: gar_inv_def)

end
