(* ===== verification/Gar_Conserve_Stake.thy ===== *)
theory Gar_Conserve_Stake
  imports Gar_Ledger
begin

text \<open>
  Operator stake and withdrawals post exactly the entries of their rows in \<open>INVARIANTS.md\<close>.
\<close>

section \<open>Opening a vault\<close>

lemma open_withdrawalD:
  assumes "open_withdrawal env owner gw amount avail is_del is_exit is_prot s = Inr s'"
    and "well_formed s"
  shows "well_formed s'"
    and "vault_total (withdrawals s') = vault_total (withdrawals s) + uint amount"
    and "gateways s' = gateways s" "delegations s' = delegations s" "settings s' = settings s"
    and "cpi_log s' = cpi_log s" "registry s' = registry s" "observer_lookups s' = observer_lookups s"
    and "epoch_settings_acc s' = epoch_settings_acc s"
  using assms
  by (auto simp: open_withdrawal_def Let_def result_iff well_formed_def vault_total_upd
      split: if_splits)

section \<open>operator_stake.rs\<close>

lemma increase_operator_stake_posts:
  assumes inv: "gar_inv bal s" and spl: "pool_conforms env bal s"
    and own: "pool_not_owned_by env s operator"
    and run: "increase_operator_stake env operator operator_ata stake_ta amount s = Inr s'"
  shows "posts [entry Outside Staked (uint amount)] s s' \<and> bal + pool_flow s' < 2 ^ 64"
proof -
  obtain g ta s1 stake staked where
    g: "gateways s operator = Some g" "gw_status g = Joined" and
    ata: "token_accounts env operator_ata = Some ta" "ta_owner ta = operator" and
    pool: "stake_ta = gs_stake_token_account (settings s)" and
    tr: "token_transfer env operator_ata stake_ta operator amount s = Inr s1" and
    st: "checked_add (gw_operator_stake g) amount = Some stake" and
    sd: "checked_add (gs_total_staked (settings s1)) amount = Some staked" and
    s': "s' = s1\<lparr>gateways := (gateways s1)(operator \<mapsto> g\<lparr>gw_operator_stake := stake\<rparr>),
             settings := (settings s1)\<lparr>gs_total_staked := staked\<rparr>\<rparr>"
    using run unfolding increase_operator_stake_def IncreaseOperatorStake_def result_iff by blast
  note inv' = gar_invD [OF inv]
  note s1 = token_transferD [OF tr]
  have "operator_ata \<noteq> gs_stake_token_account (settings s)"
    using user_account_not_pool [OF own ata] .
  then have "posts [entry Outside Staked (uint amount)] s s'"
    using inv inv' g pool checked_addD [OF st] checked_addD [OF sd]
    unfolding s' s1
    by (intro postsI) (auto simp: posting_simps gar_inv_def)
  moreover have "pool_flow s' = pool_flow s1"
    by (simp add: s' pool_flow_def)
  ultimately show ?thesis
    using token_transfer_bounded [OF tr spl] by simp
qed

lemma decrease_operator_stake_posts:
  assumes inv: "gar_inv bal s"
    and run: "decrease_operator_stake env operator amount s = Inr s'"
  shows "posts [entry Staked Vaults (uint amount)] s s' \<and> pool_flow s' = pool_flow s"
proof -
  obtain g remaining avail s1 withdrawn where
    g: "gateways s operator = Some g" and amount: "amount > 0" and
    rem: "checked_sub (gw_operator_stake g) amount = Some remaining" and
    op: "open_withdrawal env operator (gw_operator g) amount avail False False False s = Inr s1" and
    wd: "checked_add (gs_total_withdrawn (settings s1)) amount = Some withdrawn" and
    s': "s' = s1\<lparr>gateways := (gateways s1)(operator \<mapsto> g\<lparr>gw_operator_stake := remaining\<rparr>),
             settings := (settings s1)\<lparr>
               gs_total_staked := saturating_sub (gs_total_staked (settings s1)) amount,
               gs_total_withdrawn := withdrawn\<rparr>\<rparr>"
    using run unfolding decrease_operator_stake_def DecreaseOperatorStake_def result_iff by blast
  note inv' = gar_invD [OF inv]
  note op' = open_withdrawalD [OF op gar_inv_well_formed [OF inv]]
  have "gw_status g = Joined"
    using staked_is_joined [OF inv g] checked_subD [OF rem] amount
    by (cases "gw_operator_stake g = 0") (auto simp: word_pos_iff)
  then have "posts [entry Staked Vaults (uint amount)] s s'"
    using inv inv' g op' checked_subD [OF rem] checked_addD [OF wd]
      lookup_le_totals(1) [OF inv'(1) g]
    unfolding s'
    by (intro postsI) (auto simp: posting_simps gar_inv_def uint_saturating_sub)
  moreover have "pool_flow s' = pool_flow s"
    using op' by (simp add: s' pool_flow_def)
  ultimately show ?thesis by simp
qed

section \<open>withdrawal.rs\<close>

lemma claim_withdrawal_posts:
  assumes inv: "gar_inv bal s" and spl: "pool_conforms env bal s"
    and own: "pool_not_owned_by env s owner"
    and run: "claim_withdrawal env owner wid stake_ta owner_ata s = Inr s'"
  shows "\<exists>w. withdrawals s (owner, wid) = Some w
           \<and> posts [entry Vaults Outside (uint (wd_amount w))] s s' \<and> bal + pool_flow s' < 2 ^ 64"
proof -
  obtain w ta s1 where
    w: "withdrawals s (owner, wid) = Some w" and
    ata: "token_accounts env owner_ata = Some ta" "ta_owner ta = owner" and
    pool: "stake_ta = gs_stake_token_account (settings s)" and
    tr: "token_transfer env stake_ta owner_ata (pda_key env SettingsPda) (wd_amount w) s = Inr s1" and
    s': "s' = s1\<lparr>withdrawals := (withdrawals s1)((owner, wid) := None),
             settings := (settings s1)\<lparr>
               gs_total_withdrawn := saturating_sub (gs_total_withdrawn (settings s1)) (wd_amount w)\<rparr>\<rparr>"
    using run unfolding claim_withdrawal_def ClaimWithdrawal_def result_iff by blast
  note inv' = gar_invD [OF inv]
  note s1 = token_transferD [OF tr]
  have "owner_ata \<noteq> gs_stake_token_account (settings s)"
    using user_account_not_pool [OF own ata] .
  then have "posts [entry Vaults Outside (uint (wd_amount w))] s s'"
    using inv inv' w pool vault_le_total [OF inv'(3) w]
    unfolding s' s1
    by (intro postsI) (auto simp: posting_simps gar_inv_def uint_saturating_sub)
  moreover have "pool_flow s' = pool_flow s1"
    by (simp add: s' pool_flow_def)
  ultimately show ?thesis
    using w token_transfer_bounded [OF tr spl] by simp
qed

text \<open>The two transfers of an expedited withdrawal together pay out the whole vault.\<close>

lemma instant_withdrawal_run:
  assumes "instant_withdrawal env owner wid stake_ta owner_ata protocol_ta s = Inr s'"
  obtains w ta rate fee s1 s2 where
    "withdrawals s (owner, wid) = Some w" "\<not> wd_is_protected w"
    "token_accounts env owner_ata = Some ta" "ta_owner ta = owner"
    "stake_ta = gs_stake_token_account (settings s)"
    "protocol_ta = gs_protocol_token_account (settings s)"
    "instant_penalty_rate (settings s) (wd_created_at w) (now env) = Inr rate"
    "instant_fee (wd_amount w) rate = Inr fee"
    "token_transfer env stake_ta owner_ata (pda_key env SettingsPda)
       (saturating_sub (wd_amount w) fee) s = Inr s1"
    "token_transfer env stake_ta protocol_ta (pda_key env SettingsPda) fee s1 = Inr s2"
    "s' = s2\<lparr>withdrawals := (withdrawals s2)((owner, wid) := None),
             settings := (settings s2)\<lparr>
               gs_total_withdrawn := saturating_sub (gs_total_withdrawn (settings s2)) (wd_amount w)\<rparr>\<rparr>"
  using assms unfolding instant_withdrawal_def InstantWithdrawal_def Let_def result_iff by blast

lemma instant_withdrawal_posts:
  assumes inv: "gar_inv bal s" and spl: "pool_conforms env bal s"
    and own: "pool_not_owned_by env s owner"
    and rates: "gs_min_expedited_withdrawal_penalty (settings s)
                  \<le> gs_max_expedited_withdrawal_penalty (settings s)"
      "gs_max_expedited_withdrawal_penalty (settings s) \<le> RATE_SCALE"
      "i64_ok (gs_withdrawal_period (settings s))"
    and run: "instant_withdrawal env owner wid stake_ta owner_ata protocol_ta s = Inr s'"
  shows "\<exists>w. withdrawals s (owner, wid) = Some w
           \<and> posts [entry Vaults Outside (uint (wd_amount w))] s s' \<and> bal + pool_flow s' < 2 ^ 64"
proof -
  obtain w ta rate fee s1 s2 where
    w: "withdrawals s (owner, wid) = Some w" and
    ata: "token_accounts env owner_ata = Some ta" "ta_owner ta = owner" and
    pool: "stake_ta = gs_stake_token_account (settings s)"
      "protocol_ta = gs_protocol_token_account (settings s)" and
    rate: "instant_penalty_rate (settings s) (wd_created_at w) (now env) = Inr rate" and
    fee: "instant_fee (wd_amount w) rate = Inr fee" and
    tr: "token_transfer env stake_ta owner_ata (pda_key env SettingsPda)
           (saturating_sub (wd_amount w) fee) s = Inr s1"
      "token_transfer env stake_ta protocol_ta (pda_key env SettingsPda) fee s1 = Inr s2" and
    s': "s' = s2\<lparr>withdrawals := (withdrawals s2)((owner, wid) := None),
             settings := (settings s2)\<lparr>
               gs_total_withdrawn := saturating_sub (gs_total_withdrawn (settings s2)) (wd_amount w)\<rparr>\<rparr>"
    using instant_withdrawal_run [OF run] by metis
  note inv' = gar_invD [OF inv]
  note s1 = token_transferD [OF tr(1)] and s2 = token_transferD [OF tr(2)]
  have "rate \<le> RATE_SCALE"
    using instant_penalty_rate_is_schedule [OF rates(1,3)] rate rates penalty_at_bounds(2)
    by (smt (verit) sum.inject(2) uint_word_le)
  then have le: "uint fee \<le> uint (wd_amount w)"
    using instant_fee_at_rate fee by (metis sum.inject(2) uint_word_le)
  have "owner_ata \<noteq> gs_stake_token_account (settings s)"
    using user_account_not_pool [OF own ata] .
  then have "posts [entry Vaults Outside (uint (wd_amount w))] s s'"
    using inv inv' w pool le vault_le_total [OF inv'(3) w]
    unfolding s' s2 s1
    by (intro postsI) (auto simp: posting_simps gar_inv_def uint_saturating_sub)
  moreover have "pool_flow s' = pool_flow s2"
    by (simp add: s' pool_flow_def)
  moreover have "pool_conforms env bal s1"
    using spl by (simp add: s1 pool_conforms_def)
  ultimately show ?thesis
    using w token_transfer_bounded [OF tr(2)] by simp
qed

lemma close_drained_withdrawal_posts:
  assumes inv: "gar_inv bal s" and run: "close_drained_withdrawal owner wid s = Inr s'"
  shows "posts [] s s' \<and> pool_flow s' = pool_flow s"
proof -
  obtain w where w: "withdrawals s (owner, wid) = Some w" "wd_amount w = 0"
    and s': "s' = s\<lparr>withdrawals := (withdrawals s)((owner, wid) := None)\<rparr>"
    using run unfolding close_drained_withdrawal_def result_iff by blast
  note inv' = gar_invD [OF inv]
  have "posts [] s s'"
    using inv inv' w unfolding s'
    by (intro postsI) (auto simp: posting_simps gar_inv_def)
  then show ?thesis by (simp add: s' pool_flow_def)
qed

text \<open>Cancelling puts the vault's amount back where it came from.\<close>

lemma cancel_operator_vault_posts:
  assumes inv: "gar_inv bal s" and w: "withdrawals s (owner, wid) = Some w" "\<not> wd_is_delegate w"
    and run: "cancel_withdrawal owner wid gw dp s = Inr s'"
  shows "posts [entry Vaults Staked (uint (wd_amount w))] s s' \<and> pool_flow s' = pool_flow s"
proof -
  obtain g stake staked where
    g: "gateways s gw = Some g" "gw_status g = Joined" and
    st: "checked_add (gw_operator_stake g) (wd_amount w) = Some stake" and
    sd: "checked_add (gs_total_staked (settings s)) (wd_amount w) = Some staked" and
    s': "s' = s\<lparr>gateways := (gateways s)(gw \<mapsto> g\<lparr>gw_operator_stake := stake\<rparr>),
            withdrawals := (withdrawals s)((owner, wid) := None),
            settings := (settings s)\<lparr>
              gs_total_withdrawn := saturating_sub (gs_total_withdrawn (settings s)) (wd_amount w),
              gs_total_staked := staked\<rparr>\<rparr>"
    using run w
    by (auto simp: cancel_withdrawal_def CancelWithdrawal_def Let_def result_iff split: if_splits)
  note inv' = gar_invD [OF inv]
  have "posts [entry Vaults Staked (uint (wd_amount w))] s s'"
    using inv inv' g w checked_addD [OF st] checked_addD [OF sd] vault_le_total [OF inv'(3) w(1)]
    unfolding s'
    by (intro postsI) (auto simp: posting_simps gar_inv_def uint_saturating_sub)
  then show ?thesis by (simp add: s' pool_flow_def)
qed

lemma cancel_delegate_vault_posts:
  assumes inv: "gar_inv bal s" and w: "withdrawals s (owner, wid) = Some w" "wd_is_delegate w"
    and run: "cancel_withdrawal owner wid gw dp s = Inr s'"
  shows "\<exists>p. posts [entry Pending Delegated p, entry Vaults Delegated (uint (wd_amount w))] s s'
             \<and> pool_flow s' = pool_flow s"
proof -
  obtain g d g1 d1 settled damount ctr t1 t2 where
    g: "gateways s gw = Some g" and d: "delegations s (gw, owner) = Some d" and
    se: "settle_delegate_rewards g d = (g1, d1, settled)" and
    da: "checked_add (del_amount d1) (wd_amount w) = Some damount" and
    ct: "checked_add (gw_total_delegated_stake g1) (wd_amount w) = Some ctr" and
    t1: "checked_add (gs_total_delegated (settings s)) (wd_amount w) = Some t1" and
    t2: "checked_add t1 settled = Some t2" and
    s': "s' = s\<lparr>gateways := (gateways s)(gw \<mapsto> g1\<lparr>gw_total_delegated_stake := ctr\<rparr>),
            delegations := (delegations s)((gw, owner) \<mapsto>
              d1\<lparr>del_amount := damount, del_reward_debt := gw_cumulative_reward_per_token g1\<rparr>),
            withdrawals := (withdrawals s)((owner, wid) := None),
            settings := (settings s)\<lparr>
              gs_total_withdrawn := saturating_sub (gs_total_withdrawn (settings s)) (wd_amount w),
              gs_total_delegated := t2\<rparr>\<rparr>"
    using run w unfolding cancel_withdrawal_def CancelWithdrawal_def Let_def
    by (auto simp: run_iff split: if_splits)
  note inv' = gar_invD [OF inv]
  note e = settle_exact [OF gar_inv_sound [OF inv] g load_delegation_Some [OF d] se]
  have "posts [entry Pending Delegated (uint settled), entry Vaults Delegated (uint (wd_amount w))] s s'"
    using inv inv' g d w checked_addD [OF da] checked_addD [OF ct] checked_addD [OF t1]
      checked_addD [OF t2] vault_le_total [OF inv'(3) w(1)] e
    unfolding s'
    by (intro postsI) (auto simp: posting_simps gar_inv_def uint_saturating_sub pending_in_lookup)
  then show ?thesis by (auto simp: s' pool_flow_def)
qed

end
