(* ===== verification/Gar_Conserve_Delegate.thy ===== *)
theory Gar_Conserve_Delegate
  imports Gar_Conserve_Stake
begin

text \<open>
  Delegated stake: every instruction of \<open>delegate.rs\<close> but the two administrative repairs posts
  balanced entries and leaves every gateway's drift alone (ADR-0037).
\<close>

lemma decrease_delegate_stake_posts:
  assumes inv: "gar_inv bal s"
    and run: "decrease_delegate_stake env gw delegator amount s = Inr s'"
  shows "\<exists>p. posts [entry Pending Delegated p, entry Delegated Vaults (uint amount)] s s'
             \<and> pool_flow s' = pool_flow s"
proof -
  obtain g d g1 d1 settled avail s1 withdrawn where
    g: "gateways s gw = Some g" and d: "delegations s (gw, delegator) = Some d" and
    se: "settle_delegate_rewards g d = (g1, d1, settled)" and
    le: "amount \<le> del_amount d1" and
    op: "open_withdrawal env delegator (gw_operator g1) amount avail True False False s = Inr s1" and
    wd: "checked_add (gs_total_withdrawn (settings s1)) amount = Some withdrawn" and
    s': "s' = s1\<lparr>gateways := (gateways s1)(gw \<mapsto>
               g1\<lparr>gw_total_delegated_stake := saturating_sub (gw_total_delegated_stake g1) amount\<rparr>),
             delegations := (delegations s1)((gw, delegator) \<mapsto>
               d1\<lparr>del_amount := saturating_sub (del_amount d1) amount\<rparr>),
             settings := (settings s1)\<lparr>
               gs_total_delegated :=
                 saturating_sub (saturating_add (gs_total_delegated (settings s1)) settled) amount,
               gs_total_withdrawn := withdrawn\<rparr>\<rparr>"
    using run unfolding decrease_delegate_stake_def DecreaseDelegateStake_def Let_def run_iff by blast
  note inv' = gar_invD [OF inv]
  note op' = open_withdrawalD [OF op gar_inv_well_formed [OF inv]]
  note ld = load_delegation_Some [OF d]
  note e = settle_exact [OF gar_inv_sound [OF inv] g ld se]
  have "posts [entry Pending Delegated (uint settled), entry Delegated Vaults (uint amount)] s s'"
    using inv inv' g d op' checked_addD [OF wd] delegation_bounds [OF gar_inv_sound [OF inv] g ld] e le
    unfolding s'
    by (intro postsI) (auto simp: posting_simps gar_inv_def uint_saturating_sub uint_saturating_add
        pending_in_lookup uint_word_le)
  moreover have "pool_flow s' = pool_flow s"
    using op' by (simp add: s' pool_flow_def)
  ultimately show ?thesis by blast
qed

lemma claim_delegate_body_posts:
  assumes inv: "gar_inv bal s"
    and g: "gateways s gw = Some g" and d: "delegations s (gw, delegator) = Some d"
    and run: "claim_delegate_body env gw delegator g d s = Inr s'"
  shows "\<exists>p. posts [entry Pending Delegated p, entry Delegated Vaults (uint (del_amount d) + p)] s s'
             \<and> pool_flow s' = pool_flow s"
proof -
  obtain g1 d1 settled avail s1 withdrawn where
    se: "settle_delegate_rewards g d = (g1, d1, settled)" and
    op: "open_withdrawal env delegator (gw_operator g1) (del_amount d1) avail True False False s = Inr s1" and
    wd: "checked_add (gs_total_withdrawn (settings s1)) (del_amount d1) = Some withdrawn" and
    s': "s' = s1\<lparr>gateways := (gateways s1)(gw \<mapsto>
               g1\<lparr>gw_total_delegated_stake :=
                     saturating_sub (gw_total_delegated_stake g1) (del_amount d1)\<rparr>),
             delegations := (delegations s1)((gw, delegator) \<mapsto> d1\<lparr>del_amount := 0\<rparr>),
             settings := (settings s1)\<lparr>
               gs_total_delegated :=
                 saturating_sub (saturating_add (gs_total_delegated (settings s1)) settled)
                   (del_amount d1),
               gs_total_withdrawn := withdrawn\<rparr>\<rparr>"
    using run unfolding claim_delegate_body_def Let_def run_iff by blast
  note inv' = gar_invD [OF inv]
  note op' = open_withdrawalD [OF op gar_inv_well_formed [OF inv]]
  note ld = load_delegation_Some [OF d]
  note e = settle_exact [OF gar_inv_sound [OF inv] g ld se]
  have "posts [entry Pending Delegated (uint settled),
               entry Delegated Vaults (uint (del_amount d) + uint settled)] s s'"
    using inv inv' g d op' checked_addD [OF wd] delegation_bounds [OF gar_inv_sound [OF inv] g ld] e
    unfolding s'
    by (intro postsI) (auto simp: posting_simps gar_inv_def uint_saturating_sub uint_saturating_add
        pending_in_lookup)
  moreover have "pool_flow s' = pool_flow s"
    using op' by (simp add: s' pool_flow_def)
  ultimately show ?thesis by blast
qed

lemma claim_delegate_from_leaving_gateway_posts:
  assumes "gar_inv bal s" and "claim_delegate_from_leaving_gateway env gw delegator s = Inr s'"
  shows "\<exists>p d. delegations s (gw, delegator) = Some d
      \<and> posts [entry Pending Delegated p, entry Delegated Vaults (uint (del_amount d) + p)] s s'
      \<and> pool_flow s' = pool_flow s"
proof -
  obtain g d where "gateways s gw = Some g" "delegations s (gw, delegator) = Some d"
    "claim_delegate_body env gw delegator g d s = Inr s'"
    using assms(2) unfolding claim_delegate_from_leaving_gateway_def
      ClaimDelegateFromLeavingGateway_def run_iff by blast
  then show ?thesis using claim_delegate_body_posts [OF assms(1)] by blast
qed

lemma claim_delegate_from_disabled_gateway_posts:
  assumes "gar_inv bal s" and "claim_delegate_from_disabled_gateway env gw delegator s = Inr s'"
  shows "\<exists>p d. delegations s (gw, delegator) = Some d
      \<and> posts [entry Pending Delegated p, entry Delegated Vaults (uint (del_amount d) + p)] s s'
      \<and> pool_flow s' = pool_flow s"
proof -
  obtain g d where "gateways s gw = Some g" "delegations s (gw, delegator) = Some d"
    "claim_delegate_body env gw delegator g d s = Inr s'"
    using assms(2) unfolding claim_delegate_from_disabled_gateway_def
      ClaimDelegateFromDisabledGateway_def run_iff by blast
  then show ?thesis using claim_delegate_body_posts [OF assms(1)] by blast
qed

text \<open>An emptied delegation owes nothing, so closing it posts nothing.\<close>

lemma close_empty_delegation_posts:
  assumes inv: "gar_inv bal s" and run: "close_empty_delegation gw delegator s = Inr s'"
  shows "posts [] s s' \<and> pool_flow s' = pool_flow s"
proof -
  obtain g d g1 d1 settled where
    g: "gateways s gw = Some g" and d: "delegations s (gw, delegator) = Some d" and
    zero: "del_amount d = 0" and
    se: "settle_delegate_rewards g d = (g1, d1, settled)" and
    s': "s' = s\<lparr>gateways := (gateways s)(gw \<mapsto> g1),
            delegations := (delegations s)((gw, delegator) := None)\<rparr>"
    using run unfolding close_empty_delegation_def Let_def run_iff by blast
  note inv' = gar_invD [OF inv]
  have "g1 = g" using se zero by (simp add: settle_delegate_rewards_eq)
  then have "posts [] s s'"
    using inv inv' g d zero unfolding s'
    by (intro postsI) (auto simp: posting_simps gar_inv_def)
  then show ?thesis by (simp add: s' pool_flow_def)
qed

lemma compound_delegation_rewards_posts:
  assumes inv: "gar_inv bal s" and run: "compound_delegation_rewards gw delegator s = Inr s'"
  shows "\<exists>p. posts [entry Pending Delegated p] s s' \<and> pool_flow s' = pool_flow s"
proof -
  obtain g d g1 d1 settled total where
    g: "gateways s gw = Some g" and d: "delegations s (gw, delegator) = Some d" and
    se: "settle_delegate_rewards g d = (g1, d1, settled)" and
    tot: "(if settled > 0 then checked_add (gs_total_delegated (settings s)) settled
           else Some (gs_total_delegated (settings s))) = Some total" and
    s': "s' = s\<lparr>gateways := (gateways s)(gw \<mapsto> g1),
            delegations := (delegations s)((gw, delegator) \<mapsto> d1),
            settings := (settings s)\<lparr>gs_total_delegated := total\<rparr>\<rparr>"
    using run unfolding compound_delegation_rewards_def CompoundDelegationRewards_def Let_def
      run_iff by blast
  note inv' = gar_invD [OF inv]
  note ld = load_delegation_Some [OF d]
  note e = settle_exact [OF gar_inv_sound [OF inv] g ld se]
  have tot': "uint total = uint (gs_total_delegated (settings s)) + uint settled"
    using tot checked_addD by (auto simp: word_gt_0 split: if_splits)
  have "posts [entry Pending Delegated (uint settled)] s s'"
    using inv inv' g d e tot' unfolding s'
    by (intro postsI) (auto simp: posting_simps gar_inv_def pending_in_lookup)
  then show ?thesis by (auto simp: s' pool_flow_def)
qed

section \<open>delegate_stake\<close>

text \<open>\<open>delegate_stake\<close> settles only a delegation that holds something.\<close>

lemma settle_if_funded:
  assumes "gar_inv bal s" and "gateways s k = Some g" and "load_delegation s k u = d"
    and "(if del_amount d > 0 then settle_delegate_rewards g d else (g, d, 0)) = (g1, d1, p)"
  shows "p = accrued g d
    \<and> uint (gw_total_delegated_stake g1) = uint (gw_total_delegated_stake g) + uint p
    \<and> uint (del_amount d1) = uint (del_amount d) + uint p
    \<and> (del_amount d1 = 0 \<or> del_reward_debt d1 = gw_cumulative_reward_per_token g1)
    \<and> gw_cumulative_reward_per_token g1 = gw_cumulative_reward_per_token g
    \<and> gw_operator_stake g1 = gw_operator_stake g \<and> gw_operator g1 = gw_operator g
    \<and> (\<forall>d'. accrued g1 d' = accrued g d') \<and> (\<forall>k'. gateway_ok k' g1 = gateway_ok k' g)"
proof (cases "del_amount d > 0")
  case True
  with assms(4) have "settle_delegate_rewards g d = (g1, d1, p)" by simp
  from settle_exact [OF gar_inv_sound [OF assms(1)] assms(2,3) this] show ?thesis by blast
qed (use assms(4) in \<open>auto simp: word_gt_0\<close>)

lemma delegate_stake_posts:
  assumes inv: "gar_inv bal s" and spl: "pool_conforms env bal s"
    and own: "pool_not_owned_by env s delegator"
    and run: "delegate_stake env remaining gw delegator delegator_ata stake_ta amount s = Inr s'"
  shows "\<exists>p. posts [entry Pending Delegated p, entry Outside Delegated (uint amount)] s s'
             \<and> bal + pool_flow s' < 2 ^ 64"
proof -
  let ?d = "load_delegation s gw delegator"
  obtain g ta g1 d1 settled s1 damount ctr t1 t2 d3 where
    g: "gateways s gw = Some g" and
    ata: "token_accounts env delegator_ata = Some ta" "ta_owner ta = delegator" and
    pool: "stake_ta = gs_stake_token_account (settings s)" and
    se: "(if del_amount ?d > 0 then settle_delegate_rewards g ?d else (g, ?d, 0)) = (g1, d1, settled)" and
    tr: "token_transfer env delegator_ata stake_ta delegator amount s = Inr s1" and
    da: "checked_add (del_amount d1) amount = Some damount" and
    ct: "checked_add (gw_total_delegated_stake g1) amount = Some ctr" and
    t1: "checked_add (gs_total_delegated (settings s1)) amount = Some t1" and
    t2: "checked_add t1 settled = Some t2" and
    d3: "d3 = (if del_amount d1 = 0
       then d1\<lparr>del_gateway := gw_operator g1, del_delegator := delegator, del_amount := damount,
               del_start_timestamp := now env,
               del_reward_debt := gw_cumulative_reward_per_token g1,
               del_bump := pda_bump env (DelegationPda (gw_operator g1) delegator),
               del_version := V1_0_0\<rparr>
       else d1\<lparr>del_gateway := gw_operator g1, del_delegator := delegator, del_amount := damount\<rparr>)" and
    s': "s' = s1\<lparr>gateways := (gateways s1)(gw \<mapsto> g1\<lparr>gw_total_delegated_stake := ctr\<rparr>),
             delegations := (delegations s1)((gw, delegator) \<mapsto> d3),
             settings := (settings s1)\<lparr>gs_total_delegated := t2\<rparr>\<rparr>"
    using run unfolding delegate_stake_def DelegateStake_def Let_def run_iff by blast
  note inv' = gar_invD [OF inv]
  note s1 = token_transferD [OF tr]
  note e = settle_if_funded [OF inv g refl se]
  have debt: "del_reward_debt d3 = gw_cumulative_reward_per_token g"
    and amt: "del_amount d3 = damount"
    using e by (auto simp: d3)
  have "delegator_ata \<noteq> gs_stake_token_account (settings s)"
    using user_account_not_pool [OF own ata] .
  then have "posts [entry Pending Delegated (uint settled), entry Outside Delegated (uint amount)] s s'"
    using inv inv' g pool checked_addD [OF da] checked_addD [OF ct] checked_addD [OF t1]
      checked_addD [OF t2] e debt amt
    unfolding s' s1
    by (intro postsI) (auto simp: posting_simps gar_inv_def pending_in_lookup
        delegation_totals_load [OF inv'(2) refl])
  moreover have "pool_flow s' = pool_flow s1"
    by (simp add: s' pool_flow_def)
  ultimately show ?thesis
    using token_transfer_bounded [OF tr spl] by auto
qed

section \<open>redelegate_stake\<close>

lemma redelegate_stake_run:
  assumes "redelegate_stake env remaining src tgt delegator delegator_ata stake_ta protocol_ta amount s = Inr s'"
  obtains sg tg sd rr sg1 sd1 ps tg1 td1 pt fee_rate fee tamount td3 ttds s1 rr1 total where
    "gateways s src = Some sg" "gateways s tgt = Some tg"
    "delegations s (src, delegator) = Some sd"
    "stake_ta = gs_stake_token_account (settings s)"
    "protocol_ta = gs_protocol_token_account (settings s)"
    "gw_operator sg \<noteq> gw_operator tg"
    "settle_delegate_rewards sg sd = (sg1, sd1, ps)"
    "settle_delegate_rewards tg (load_delegation s tgt delegator) = (tg1, td1, pt)"
    "amount \<le> del_amount sd1"
    "get_fee_rate rr (now env) RATE_SCALE = Inr fee_rate"
    "instant_fee amount fee_rate = Inr fee"
    "checked_add (del_amount td1) (saturating_sub amount fee) = Some tamount"
    "checked_add (gw_total_delegated_stake tg1) (saturating_sub amount fee) = Some ttds"
    "del_amount td3 = tamount"
    "del_reward_debt td3 = del_reward_debt td1 \<or> del_reward_debt td3 = gw_cumulative_reward_per_token tg1"
    "(if fee > 0 then token_transfer env stake_ta protocol_ta (pda_key env SettingsPda) fee s
      else Inr s) = Inr s1"
    "total = (if saturating_add ps pt > 0 \<or> fee > 0
       then saturating_sub (saturating_add (gs_total_delegated (settings s1)) (saturating_add ps pt)) fee
       else gs_total_delegated (settings s1))"
    "s' = s1\<lparr>gateways := (gateways s1)
               (src \<mapsto> sg1\<lparr>gw_total_delegated_stake := saturating_sub (gw_total_delegated_stake sg1) amount\<rparr>,
                tgt \<mapsto> tg1\<lparr>gw_total_delegated_stake := ttds\<rparr>),
             delegations := (delegations s1)
               ((src, delegator) \<mapsto> sd1\<lparr>del_amount := saturating_sub (del_amount sd1) amount\<rparr>,
                (tgt, delegator) \<mapsto> td3),
             redelegation_records := (redelegation_records s1)(delegator \<mapsto> rr1),
             settings := (settings s1)\<lparr>gs_total_delegated := total\<rparr>\<rparr>"
  using assms unfolding redelegate_stake_def RedelegateStake_def Let_def run_iff
  apply (elim exE conjE)
  apply (simp only: sum.inject)
  apply (rule that)
                   prefer 18
                   apply (erule sym)
                  apply (assumption | rule refl)+
  by (simp_all only: split: if_split, simp_all)

lemma two_pending_le_total:
  assumes inv: "gar_inv bal s" and ne: "k \<noteq> j" and d: "delegations s (k, u) = Some d"
  shows "pending_in G k d + pending_in G j (load_delegation s j v) \<le> pending_total G (delegations s)"
proof -
  note inv' = gar_invD [OF inv]
  let ?s = "s\<lparr>delegations := (delegations s)((k, u) \<mapsto> zero_delegation)\<rparr>"
  have "load_delegation ?s j v = load_delegation s j v"
    using ne by (simp add: load_delegation_def)
  then have "pending_in G j (load_delegation s j v) \<le> pending_total G (delegations ?s)"
    using load_le_totals(2) [of ?s G j v] inv'(2) by simp
  then show ?thesis
    using delegation_totals_upd(1) [OF inv'(2) d, of G zero_delegation] by simp
qed

text \<open>The books after two settled delegations to different gateways have been rewritten.\<close>

lemma two_gateways_rewritten:
  assumes inv: "gar_inv bal s"
    and g: "gateways s src = Some sg" "gateways s tgt = Some tg" "src \<noteq> tgt"
    and sd: "delegations s (src, u) = Some sd"
    and same: "gw_operator_stake sg' = gw_operator_stake sg" "gw_operator_stake tg' = gw_operator_stake tg"
      "gw_cumulative_reward_per_token sg' = gw_cumulative_reward_per_token sg"
      "gw_cumulative_reward_per_token tg' = gw_cumulative_reward_per_token tg"
    and debt: "del_reward_debt sd' = gw_cumulative_reward_per_token sg"
      "del_reward_debt td' = gw_cumulative_reward_per_token tg"
  defines "G \<equiv> (gateways s)(src \<mapsto> sg', tgt \<mapsto> tg')"
    and "D \<equiv> (delegations s)((src, u) \<mapsto> sd', (tgt, u) \<mapsto> td')"
    and "td \<equiv> load_delegation s tgt u"
  shows "stake_total G = stake_total (gateways s)"
    and "counter_total G = counter_total (gateways s)
           - uint (gw_total_delegated_stake sg) + uint (gw_total_delegated_stake sg')
           - uint (gw_total_delegated_stake tg) + uint (gw_total_delegated_stake tg')"
    and "pending_total G D
         = pending_total (gateways s) (delegations s) - uint (accrued sg sd) - uint (accrued tg td)"
    and "dust_total G D \<le> dust_total (gateways s) (delegations s)"
    and "drift G D k = drift (gateways s) (delegations s) k
           + (if k = src then (uint (gw_total_delegated_stake sg') - uint (del_amount sd'))
                              - (uint (gw_total_delegated_stake sg) - uint (del_amount sd)) else 0)
           + (if k = tgt then (uint (gw_total_delegated_stake tg') - uint (del_amount td'))
                              - (uint (gw_total_delegated_stake tg) - uint (del_amount td)) else 0)"
proof -
  note fin = gar_invD(1,2) [OF inv]
  let ?s = "s\<lparr>delegations := (delegations s)((src, u) \<mapsto> sd')\<rparr>"
  have td: "load_delegation ?s tgt u = td"
    using g(3) by (simp add: load_delegation_def td_def)
  have fin': "finite (dom (delegations ?s))" using fin by simp
  note s1 = delegation_totals_upd [OF fin(2) sd]
    and s2 = delegation_totals_load [OF fin' td, simplified]
  show "stake_total G = stake_total (gateways s)"
    "counter_total G = counter_total (gateways s)
           - uint (gw_total_delegated_stake sg) + uint (gw_total_delegated_stake sg')
           - uint (gw_total_delegated_stake tg) + uint (gw_total_delegated_stake tg')"
    using g same fin by (simp_all add: G_def gateway_totals_upd)
  have "pending_total G D = pending_total (gateways s) D" "dust_total G D = dust_total (gateways s) D"
    using g same by (simp_all add: G_def pending_total_gw_upd dust_total_gw_upd)
  then show "pending_total G D
         = pending_total (gateways s) (delegations s) - uint (accrued sg sd) - uint (accrued tg td)"
    "dust_total G D \<le> dust_total (gateways s) (delegations s)"
    using s1(1,3) [of "gateways s" sd'] s2(1,3) [of "gateways s" td'] g debt
      add_nonneg_nonneg [OF dust_in_nonneg dust_in_nonneg, of "gateways s" src sd "gateways s" tgt td]
    by (simp_all add: D_def pending_in_lookup dust_in_settled del: dust_in_nonneg)
  show "drift G D k = drift (gateways s) (delegations s) k
           + (if k = src then (uint (gw_total_delegated_stake sg') - uint (del_amount sd'))
                              - (uint (gw_total_delegated_stake sg) - uint (del_amount sd)) else 0)
           + (if k = tgt then (uint (gw_total_delegated_stake tg') - uint (del_amount td'))
                              - (uint (gw_total_delegated_stake tg) - uint (del_amount td)) else 0)"
    using g s1(2) [of sd' k] s2(2) [of td' k] by (simp add: drift_def G_def D_def counter_of_lookup)
qed

lemma redelegate_stake_posts:
  assumes inv: "gar_inv bal s" and spl: "pool_conforms env bal s"
    and run: "redelegate_stake env remaining src tgt delegator delegator_ata stake_ta protocol_ta amount s = Inr s'"
  shows "\<exists>p fee. posts [entry Pending Delegated p, entry Delegated Outside fee] s s'
             \<and> bal + pool_flow s' < 2 ^ 64"
proof (rule redelegate_stake_run [OF run])
  fix sg tg sd rr sg1 sd1 ps tg1 td1 pt fee_rate fee tamount td3 ttds s1 rr1 total
  assume sg: "gateways s src = Some sg" and tg: "gateways s tgt = Some tg"
    and sd: "delegations s (src, delegator) = Some sd"
    and pools: "stake_ta = gs_stake_token_account (settings s)"
      "protocol_ta = gs_protocol_token_account (settings s)"
    and ne: "gw_operator sg \<noteq> gw_operator tg"
    and ss: "settle_delegate_rewards sg sd = (sg1, sd1, ps)"
    and st: "settle_delegate_rewards tg (load_delegation s tgt delegator) = (tg1, td1, pt)"
    and le: "amount \<le> del_amount sd1"
    and fee: "get_fee_rate rr (now env) RATE_SCALE = Inr fee_rate" "instant_fee amount fee_rate = Inr fee"
    and ta: "checked_add (del_amount td1) (saturating_sub amount fee) = Some tamount"
    and tt: "checked_add (gw_total_delegated_stake tg1) (saturating_sub amount fee) = Some ttds"
    and td3: "del_amount td3 = tamount"
      "del_reward_debt td3 = del_reward_debt td1 \<or> del_reward_debt td3 = gw_cumulative_reward_per_token tg1"
    and tr: "(if fee > 0 then token_transfer env stake_ta protocol_ta (pda_key env SettingsPda) fee s
              else Inr s) = Inr s1"
    and total: "total = (if saturating_add ps pt > 0 \<or> fee > 0
       then saturating_sub (saturating_add (gs_total_delegated (settings s1)) (saturating_add ps pt)) fee
       else gs_total_delegated (settings s1))"
    and s': "s' = s1\<lparr>gateways := (gateways s1)
               (src \<mapsto> sg1\<lparr>gw_total_delegated_stake := saturating_sub (gw_total_delegated_stake sg1) amount\<rparr>,
                tgt \<mapsto> tg1\<lparr>gw_total_delegated_stake := ttds\<rparr>),
             delegations := (delegations s1)
               ((src, delegator) \<mapsto> sd1\<lparr>del_amount := saturating_sub (del_amount sd1) amount\<rparr>,
                (tgt, delegator) \<mapsto> td3),
             redelegation_records := (redelegation_records s1)(delegator \<mapsto> rr1),
             settings := (settings s1)\<lparr>gs_total_delegated := total\<rparr>\<rparr>"
  note inv' = gar_invD [OF inv]
  note ls = load_delegation_Some [OF sd]
  note es = settle_exact [OF gar_inv_sound [OF inv] sg ls ss] and et = settle_exact [OF gar_inv_sound [OF inv] tg refl st]
  note bs = delegation_bounds [OF gar_inv_sound [OF inv] sg ls]
  have src_tgt: "src \<noteq> tgt" using ne inv'(4) sg tg by metis
  have two: "uint ps + uint pt \<le> pending_total (gateways s) (delegations s)"
    using two_pending_le_total [OF inv src_tgt sd, of "gateways s" delegator] es(1) et(1) sg tg
    by (simp add: pending_in_lookup)
  note fee_le = redelegation_fee_le [OF fee]
  obtain l where s1: "s1 = s\<lparr>cpi_log := l\<rparr>"
    and flow: "token_flow (gs_stake_token_account (settings s)) l = pool_flow s - uint fee"
    using optional_payout [OF tr [unfolded pools] inv'(5)] .
  have td3': "del_reward_debt td3 = gw_cumulative_reward_per_token tg"
    using td3(2) et by auto
  have tot: "uint total = counter_total (gateways s) + uint ps + uint pt - uint fee"
  proof -
    have "uint ps + uint pt < 2 ^ 64"
      using two bs(4) totals_nonneg(2) [of "gateways s"] by linarith
    then have "uint (saturating_add ps pt) = uint ps + uint pt"
      by (simp add: uint_saturating_add)
    moreover have "gs_total_delegated (settings s1) = gs_total_delegated (settings s)"
      by (simp add: s1)
    moreover have "uint amount \<le> uint (del_amount sd1)" using le by (simp add: uint_word_le)
    then have "uint fee \<le> counter_total (gateways s) + (uint ps + uint pt)"
      using bs(1,3) es(1,3) fee_le uint_bounds64(1) [of pt] by linarith
    moreover have "uint ps = 0 \<and> uint pt = 0 \<and> uint fee = 0"
      if "\<not> (0 < uint ps + uint pt \<or> 0 < uint fee)"
      using that uint_bounds64(1) [of ps] uint_bounds64(1) [of pt] uint_bounds64(1) [of fee]
      by linarith
    ultimately show ?thesis
      using total two bs(4) inv'(7)
      by (cases "0 < uint ps + uint pt \<or> 0 < uint fee")
        (auto simp: word_pos_iff uint_saturating_sub uint_saturating_add)
  qed
  have "posts [entry Pending Delegated (uint ps + uint pt), entry Delegated Outside (uint fee)] s s'"
  proof -
    let ?G = "(gateways s)
       (src \<mapsto> sg1\<lparr>gw_total_delegated_stake := saturating_sub (gw_total_delegated_stake sg1) amount\<rparr>,
        tgt \<mapsto> tg1\<lparr>gw_total_delegated_stake := ttds\<rparr>)"
    let ?sd = "sd1\<lparr>del_amount := saturating_sub (del_amount sd1) amount\<rparr>"
    let ?D = "(delegations s)((src, delegator) \<mapsto> ?sd, (tgt, delegator) \<mapsto> td3)"
    have am: "uint amount \<le> uint (del_amount sd1)" using le by (simp add: uint_word_le)
    have net: "uint (saturating_sub amount fee) = uint amount - uint fee"
      using fee_le by (simp add: uint_saturating_sub)
    have rest: "uint (saturating_sub (del_amount sd1) amount) = uint (del_amount sd1) - uint amount"
      using am by (simp add: uint_saturating_sub)
    have ctr: "uint (saturating_sub (gw_total_delegated_stake sg1) amount)
               = uint (gw_total_delegated_stake sg1) - uint amount"
      using am es(2,3) bs(1) by (simp add: uint_saturating_sub)
    note tt' = checked_addD [OF tt, unfolded net] and ta' = checked_addD [OF ta, unfolded net]
    note two' = two_gateways_rewritten [OF inv sg tg src_tgt sd,
        of "sg1\<lparr>gw_total_delegated_stake := saturating_sub (gw_total_delegated_stake sg1) amount\<rparr>"
           "tg1\<lparr>gw_total_delegated_stake := ttds\<rparr>" ?sd td3]
    have G: "stake_total ?G = stake_total (gateways s)"
      "counter_total ?G = counter_total (gateways s) + uint ps + uint pt - uint fee"
      "pending_total ?G ?D = pending_total (gateways s) (delegations s) - uint ps - uint pt"
      "dust_total ?G ?D \<le> dust_total (gateways s) (delegations s)"
      "\<And>k. drift ?G ?D k = drift (gateways s) (delegations s) k"
      using two' es et td3' ctr rest tt' ta' td3(1) by simp_all
    have wf: "well_formed s'"
      using gar_inv_well_formed [OF inv] sg tg es(9) et(9) unfolding s' s1
      by (auto simp: well_formed_def)
    show ?thesis
      using G wf flow inv'(5,6,8) tot unfolding s' s1
      by (intro postsI) (simp_all add: book_of_def pool_flow_def supply_consistent_def)
  qed
  moreover have "pool_flow s' = pool_flow s - uint fee"
    using flow by (simp add: s' s1 pool_flow_def)
  then have "bal + pool_flow s' < 2 ^ 64"
    using inv'(10) uint_bounds64(1) [of fee] by linarith
  ultimately show ?thesis by blast
qed

end
