(* ===== verification/Gar_Conserve_Gateway.thy ===== *)
theory Gar_Conserve_Gateway
  imports Gar_Conserve_Stake
begin

text \<open>
  The life of a gateway in the ledger: joining deposits stake, leaving and pruning move all of
  it into exit vaults (less the slash), settings never touch it, and the final garbage
  collection removes an account that owes nothing.
\<close>

section \<open>Parts of the state the ledger does not read\<close>

text \<open>Two gateways that count the same in the ledger.\<close>

definition same_in_ledger :: "gateway \<Rightarrow> gateway \<Rightarrow> bool" where
  "same_in_ledger g g' \<longleftrightarrow> gw_operator g' = gw_operator g \<and> gw_status g' = gw_status g
     \<and> gw_operator_stake g' = gw_operator_stake g
     \<and> gw_total_delegated_stake g' = gw_total_delegated_stake g
     \<and> gw_cumulative_reward_per_token g' = gw_cumulative_reward_per_token g"

lemma same_in_ledger_refl [simp]: "same_in_ledger g g"
  by (simp add: same_in_ledger_def)

lemma same_in_ledger_trans: "same_in_ledger g h \<Longrightarrow> same_in_ledger h k \<Longrightarrow> same_in_ledger g k"
  by (simp add: same_in_ledger_def)

lemma gateway_touch_posts:
  assumes inv: "gar_inv bal s" and g: "gateways s k = Some g" and same: "same_in_ledger g g'"
    and s': "gateways s' = (gateways s)(k \<mapsto> g')"
      "delegations s' = delegations s" "withdrawals s' = withdrawals s" "settings s' = settings s"
      "cpi_log s' = cpi_log s"
  shows "posts [] s s' \<and> pool_flow s' = pool_flow s"
proof -
  note inv' = gar_invD [OF inv]
  have "gateway_ok k g'"
    using inv g same by (auto simp: gar_inv_def well_formed_def gateway_ok_def same_in_ledger_def)
  then have "posts [] s s'"
    using inv inv' g same s'
    by (intro postsI) (auto simp: posting_simps gar_inv_def same_in_ledger_def)
  then show ?thesis using s' by (simp add: pool_flow_def)
qed

section \<open>Updates\<close>

lemma update_field_same:
  assumes "update_field field valid e write g = Inr g'" and "\<And>v. same_in_ledger g (write v g)"
  shows "same_in_ledger g g'"
  using assms by (auto simp: update_field_def result_iff split: option.splits)

lemma apply_metadata_same: "apply_metadata p g = Inr g' \<Longrightarrow> same_in_ledger g g'"
  unfolding apply_metadata_def and_then_iff
  by (elim exE conjE)
    (assumption | erule update_field_same [THEN same_in_ledger_trans] update_field_same
      | simp add: same_in_ledger_def)+

lemma set_allow_delegated_staking_same:
  "set_allow_delegated_staking env gs allow g = Inr g' \<Longrightarrow> same_in_ledger g g'"
  by (auto simp: set_allow_delegated_staking_def Let_def result_iff same_in_ledger_def
      split: if_splits option.splits)

lemma apply_gateway_settings_same:
  assumes "apply_gateway_settings env gs p g = Inr g'"
  shows "same_in_ledger g g'"
proof -
  obtain g1 g2 g3 where
    1: "apply_metadata p g = Inr g1" and
    2: "(case up_allow_delegated_staking p of None \<Rightarrow> Inr g1
         | Some allow \<Rightarrow> set_allow_delegated_staking env gs allow g1) = Inr g2" and
    3: "update_field (up_delegate_reward_share_ratio p)
          (\<lambda>r. ucast r * 100 \<le> MAX_DELEGATE_REWARD_SHARE) InvalidRewardShare
          (\<lambda>r g. g\<lparr>gw_settings := (gw_settings g)\<lparr>
             g2_pending_delegate_reward_share_ratio := Some (ucast r * 100)\<rparr>\<rparr>) g2 = Inr g3" and
    4: "update_field (up_min_delegate_stake p) (\<lambda>m. m \<ge> gs_min_delegate_stake gs) DelegationBelowMinimum
          (\<lambda>m g. g\<lparr>gw_settings := (gw_settings g)\<lparr>g2_min_delegation_amount := m\<rparr>\<rparr>) g3 = Inr g'"
    using assms unfolding apply_gateway_settings_def run_iff by blast
  have "same_in_ledger g1 g2"
    using 2 set_allow_delegated_staking_same by (auto split: option.splits)
  moreover have "same_in_ledger g2 g3"
    by (rule update_field_same [OF 3]) (simp add: same_in_ledger_def)
  moreover have "same_in_ledger g3 g'"
    by (rule update_field_same [OF 4]) (simp add: same_in_ledger_def)
  ultimately show ?thesis
    using apply_metadata_same [OF 1] same_in_ledger_trans by blast
qed

lemma update_gateway_settings_posts:
  assumes inv: "gar_inv bal s" and run: "update_gateway_settings env operator p s = Inr s'"
  shows "posts [] s s' \<and> pool_flow s' = pool_flow s"
proof -
  obtain g g1 where g: "gateways s operator = Some g"
    and ap: "apply_gateway_settings env (settings s) p g = Inr g1"
    and s': "s' = s\<lparr>gateways := (gateways s)(operator \<mapsto> g1)\<rparr>"
    using run unfolding update_gateway_settings_def run_iff by blast
  show ?thesis
    by (rule gateway_touch_posts [OF inv g apply_gateway_settings_same [OF ap]]) (simp_all add: s')
qed

lemma update_gateway_metadata_posts:
  assumes inv: "gar_inv bal s" and run: "update_gateway_metadata operator signer p s = Inr s'"
  shows "posts [] s s' \<and> pool_flow s' = pool_flow s"
proof -
  obtain g g1 where g: "gateways s operator = Some g" and ap: "apply_metadata p g = Inr g1"
    and s': "s' = s\<lparr>gateways := (gateways s)(operator \<mapsto> g1)\<rparr>"
    using run unfolding update_gateway_metadata_def run_iff by blast
  show ?thesis
    by (rule gateway_touch_posts [OF inv g apply_metadata_same [OF ap]]) (simp_all add: s')
qed

lemma update_operations_address_posts:
  assumes inv: "gar_inv bal s" and run: "update_operations_address operator new s = Inr s'"
  shows "posts [] s s' \<and> pool_flow s' = pool_flow s"
proof -
  obtain g where g: "gateways s operator = Some g"
    and s': "s' = s\<lparr>gateways := (gateways s)(operator \<mapsto> g\<lparr>gw_operations_address := new\<rparr>)\<rparr>"
    using run unfolding update_operations_address_def run_iff by blast
  show ?thesis
    by (rule gateway_touch_posts [OF inv g, of "g\<lparr>gw_operations_address := new\<rparr>"])
      (simp_all add: s' same_in_ledger_def)
qed

lemma update_observer_address_posts:
  assumes inv: "gar_inv bal s" and run: "update_observer_address env operator new s = Inr s'"
  shows "posts [] s s' \<and> pool_flow s' = pool_flow s"
proof -
  obtain g where g: "gateways s operator = Some g" and
    s': "s' = s\<lparr>gateways := (gateways s)(operator \<mapsto> g\<lparr>gw_observer_address := new\<rparr>),
            observer_lookups := (observer_lookups s)(gw_observer_address g := None,
              new \<mapsto> \<lparr>ol_gateway = operator,
                ol_bump = pda_bump env (ObserverLookupPda new), ol_version = V1_0_0\<rparr>)\<rparr>"
    using run unfolding update_observer_address_def run_iff by blast
  show ?thesis
    by (rule gateway_touch_posts [OF inv g, of "g\<lparr>gw_observer_address := new\<rparr>"])
      (simp_all add: s' same_in_ledger_def)
qed

section \<open>Joining\<close>

text \<open>A key with no gateway has no delegated stake, so a gateway can appear or vanish there.\<close>

lemma delegated_to_zero:
  assumes "finite (dom D)" and "delegated_to D k = 0" and "D (k, u) = Some d"
  shows "del_amount d = 0"
  using delegation_le_totals(1) [OF assms(1,3)] assms(2) uint_bounds64(1) [of "del_amount d"]
  by (simp add: word_uint_eq_iff)

lemma pending_total_gw_free:
  assumes "finite (dom D)" and "delegated_to D k = 0"
  shows "pending_total (G(k := x)) D = pending_total G D"
    and "dust_total (G(k := x)) D = dust_total G D"
proof -
  have "pending_in (G(k := x)) (fst j) d = pending_in G (fst j) d
        \<and> dust_in (G(k := x)) (fst j) d = dust_in G (fst j) d" if j: "D j = Some d" for j d
  proof (cases "fst j = k")
    case True
    then have "del_amount d = 0"
      using delegated_to_zero [OF assms, of "snd j" d] j by (metis prod.collapse)
    then show ?thesis by simp
  next
    case False
    then show ?thesis by (simp add: pending_in_def dust_in_def)
  qed
  then show "pending_total (G(k := x)) D = pending_total G D"
    "dust_total (G(k := x)) D = dust_total G D"
    by (auto simp: pending_total_def dust_total_def intro!: msum_cong)
qed

lemma no_counter_no_delegations:
  assumes "gar_inv bal s" and "counter_of (gateways s) k = 0"
  shows "delegated_to (delegations s) k = 0"
proof -
  have "0 \<le> drift (gateways s) (delegations s) k"
    using assms(1) by (simp add: gar_inv_def counters_cover_def)
  then show ?thesis
    using assms(2) totals_nonneg(5) [of "delegations s" k] by (simp add: drift_def)
qed

lemma join_network_run:
  assumes "join_network env operator operator_ata stake_ta p s = Inr s'"
  obtains ta s1 g slot lookup count staked where
    "s' = s1\<lparr>gateways := (gateways s1)(operator \<mapsto> g),
             observer_lookups := (observer_lookups s1)(jp_observer_address p \<mapsto> lookup),
             registry := (registry s1)\<lparr>
               reg_gateways := (reg_gateways (registry s1))(unat (reg_count (registry s1)) := slot),
               reg_count := count\<rparr>,
             settings := (settings s1)\<lparr>gs_total_staked := staked\<rparr>\<rparr>"
    "gateways s operator = None"
    "token_accounts env operator_ata = Some ta" "ta_owner ta = operator"
    "stake_ta = gs_stake_token_account (settings s)"
    "observer_lookups s (jp_observer_address p) = None"
    "token_transfer env operator_ata stake_ta operator (jp_operator_stake p) s = Inr s1"
    "unat (reg_count (registry s1)) < MAX_GATEWAYS"
    "checked_add (reg_count (registry s1)) 1 = Some count"
    "gw_operator g = operator" "gw_status g = Joined" "gw_operator_stake g = jp_operator_stake p"
    "gw_total_delegated_stake g = 0" "gw_registry_index g = reg_count (registry s1)"
    "gw_observer_address g = jp_observer_address p" "ol_gateway lookup = operator"
    "slot_address slot = operator" "slot_status slot = STATUS_JOINED"
    "checked_add (gs_total_staked (settings s1)) (jp_operator_stake p) = Some staked"
    "g2_delegate_reward_share_ratio (gw_settings g) \<le> MAX_DELEGATE_REWARD_SHARE"
    "g2_pending_delegate_reward_share_ratio (gw_settings g) = None"
  using assms unfolding join_network_def JoinNetwork_def Let_def run_iff
  by (elim exE conjE) (simp only: sum.inject, rule that, erule sym, assumption+, simp_all)

lemma join_network_posts:
  assumes inv: "gar_inv bal s" and spl: "pool_conforms env bal s"
    and own: "pool_not_owned_by env s operator"
    and run: "join_network env operator operator_ata stake_ta p s = Inr s'"
  shows "posts [entry Outside Staked (uint (jp_operator_stake p))] s s' \<and> bal + pool_flow s' < 2 ^ 64"
proof (rule join_network_run [OF run])
  fix ta s1 g slot lookup count staked
  assume new: "gateways s operator = None"
    and ata: "token_accounts env operator_ata = Some ta" "ta_owner ta = operator"
    and pool: "stake_ta = gs_stake_token_account (settings s)"
    and tr: "token_transfer env operator_ata stake_ta operator (jp_operator_stake p) s = Inr s1"
    and g: "gw_operator g = operator" "gw_status g = Joined" "gw_operator_stake g = jp_operator_stake p"
      "gw_total_delegated_stake g = 0"
    and sd: "checked_add (gs_total_staked (settings s1)) (jp_operator_stake p) = Some staked"
    and s': "s' = s1\<lparr>gateways := (gateways s1)(operator \<mapsto> g),
             observer_lookups := (observer_lookups s1)(jp_observer_address p \<mapsto> lookup),
             registry := (registry s1)\<lparr>
               reg_gateways := (reg_gateways (registry s1))(unat (reg_count (registry s1)) := slot),
               reg_count := count\<rparr>,
             settings := (settings s1)\<lparr>gs_total_staked := staked\<rparr>\<rparr>"
  note inv' = gar_invD [OF inv]
  note s1 = token_transferD [OF tr]
  have ctr: "counter_of (gateways s) operator = 0" using new by (simp add: counter_of_def)
  note free = pending_total_gw_free [OF inv'(2) no_counter_no_delegations [OF inv ctr]]
  have "operator_ata \<noteq> gs_stake_token_account (settings s)"
    using user_account_not_pool [OF own ata] .
  then have "posts [entry Outside Staked (uint (jp_operator_stake p))] s s'"
    using inv inv' new pool g ctr checked_addD [OF sd]
    unfolding s' s1
    by (intro postsI) (auto simp: posting_simps gar_inv_def gateway_totals_new free gateway_ok_def)
  moreover have "pool_flow s' = pool_flow s1"
    by (simp add: s' pool_flow_def)
  ultimately show ?thesis
    using token_transfer_bounded [OF tr spl] by simp
qed

section \<open>Leaving and pruning\<close>

text \<open>What an instruction that only opens vaults and marks slots leaves alone.\<close>

definition same_stakes :: "gar_state \<Rightarrow> gar_state \<Rightarrow> bool" where
  "same_stakes s s' \<longleftrightarrow> gateways s' = gateways s \<and> delegations s' = delegations s
     \<and> settings s' = settings s \<and> cpi_log s' = cpi_log s
     \<and> epoch_settings_acc s' = epoch_settings_acc s"

lemma open_exit_vaultsD:
  assumes "open_exit_vaults env operator prot excess flag avail1 avail2 acc s = Inr s'"
    and "well_formed s"
  shows "well_formed s' \<and> same_stakes s s'
    \<and> vault_total (withdrawals s') = vault_total (withdrawals s) + uint prot + uint excess"
proof -
  obtain s1 where
    1: "open_withdrawal env operator operator prot (if prot > 0 then avail1 else now env)
          False flag (prot > 0) s = Inr s1"
    and 2: "(if excess > 0 then
         ok_or acc MissingExcessWithdrawal (\<lambda>excess_acc.
         require (excess_acc = WithdrawalPda operator (wc_next_id (load_counter env s1 operator)))
           InvalidExcessWithdrawalPda (
         require (withdrawals s1 (operator, wc_next_id (load_counter env s1 operator)) = None)
           InvalidParameter (
         open_withdrawal env operator operator excess avail2 False True False s1)))
       else Inr s1) = Inr s'"
    using assms(1) unfolding open_exit_vaults_def Let_def run_iff by blast
  note d1 = open_withdrawalD [OF 1 assms(2)]
  show ?thesis
  proof (cases "excess > 0")
    case True
    with 2 have "open_withdrawal env operator operator excess avail2 False True False s1 = Inr s'"
      by (auto simp: run_iff)
    from open_withdrawalD [OF this d1(1)] d1 show ?thesis by (simp add: same_stakes_def)
  next
    case False
    then have "excess = 0" by (simp add: word_gt_0)
    with False 2 d1 show ?thesis by (simp add: same_stakes_def)
  qed
qed

lemma mark_slot_leavingD:
  "mark_slot_leaving g s = Inr s' \<Longrightarrow>
   same_stakes s s' \<and> withdrawals s' = withdrawals s \<and> observer_lookups s' = observer_lookups s"
  by (auto simp: mark_slot_leaving_def Let_def run_iff same_stakes_def)

lemma close_observer_lookupD:
  "same_stakes s (close_observer_lookup g remaining s)
   \<and> withdrawals (close_observer_lookup g remaining s) = withdrawals s
   \<and> registry (close_observer_lookup g remaining s) = registry s"
  by (simp add: close_observer_lookup_def same_stakes_def)

lemma leave_network_posts:
  assumes inv: "gar_inv bal s" and run: "leave_network env remaining operator acc s = Inr s'"
  shows "\<exists>g. gateways s operator = Some g
           \<and> posts [entry Staked Vaults (uint (gw_operator_stake g))] s s' \<and> pool_flow s' = pool_flow s"
proof -
  let ?min = "gs_min_operator_stake (settings s)"
  obtain g avail1 avail2 s1 g1 s2 withdrawn where
    g: "gateways s operator = Some g" and
    op: "open_exit_vaults env operator (min (gw_operator_stake g) ?min)
           (saturating_sub (gw_operator_stake g) ?min) True avail1 avail2 acc s = Inr s1" and
    g1: "g1 = g\<lparr>gw_status := Leaving, gw_leave_timestamp := Some (now env),
                gw_leave_epoch_duration := es_epoch_duration (epoch_settings_acc s),
                gw_operator_stake := 0\<rparr>" and
    ms: "mark_slot_leaving g1 s1 = Inr s2" and
    wd: "checked_add (gs_total_withdrawn (settings (close_observer_lookup g1 remaining s2)))
           (gw_operator_stake g) = Some withdrawn" and
    s': "s' = (close_observer_lookup g1 remaining s2)\<lparr>
           gateways := (gateways (close_observer_lookup g1 remaining s2))(operator \<mapsto> g1),
           settings := (settings (close_observer_lookup g1 remaining s2))\<lparr>
             gs_total_staked := saturating_sub
               (gs_total_staked (settings (close_observer_lookup g1 remaining s2))) (gw_operator_stake g),
             gs_total_withdrawn := withdrawn\<rparr>\<rparr>"
    using run unfolding leave_network_def Let_def run_iff by blast
  note inv' = gar_invD [OF inv]
  define s3 where "s3 = close_observer_lookup g1 remaining s2"
  have s3: "same_stakes s s3" "withdrawals s3 = withdrawals s1" and wf: "well_formed s1"
    and vt: "vault_total (withdrawals s1) = vault_total (withdrawals s) + uint (gw_operator_stake g)"
    using open_exit_vaultsD [OF op gar_inv_well_formed [OF inv]] mark_slot_leavingD [OF ms]
      close_observer_lookupD [of s2 g1 remaining]
      min_plus_saturating_sub [of "gw_operator_stake g" ?min]
    by (simp_all add: s3_def same_stakes_def)
  have ok: "gateway_ok operator g1" "gw_total_delegated_stake g1 = gw_total_delegated_stake g"
    "gw_cumulative_reward_per_token g1 = gw_cumulative_reward_per_token g" "gw_operator_stake g1 = 0"
    using inv g by (auto simp: g1 gateway_ok_def gar_inv_def well_formed_def)
  have "posts [entry Staked Vaults (uint (gw_operator_stake g))] s s'"
    using inv inv' g ok s3 wf vt checked_addD [OF wd] lookup_le_totals(1) [OF inv'(1) g]
    unfolding s' s3_def [symmetric]
    by (intro postsI) (auto simp: posting_simps gar_inv_def uint_saturating_sub same_stakes_def)
  moreover have "pool_flow s' = pool_flow s"
    using s3 by (simp add: s' s3_def pool_flow_def same_stakes_def)
  ultimately show ?thesis using g by blast
qed

text \<open>Pruning takes the slash out of the pool and vaults everything that is left.\<close>

definition slash_of :: "gar_state \<Rightarrow> gateway \<Rightarrow> u64" where
  "slash_of s g = min (gs_min_operator_stake (settings s)) (gw_operator_stake g)"

lemma prune_gateway_run:
  assumes "prune_gateway env remaining gw stake_ta protocol_ta acc s = Inr s'"
  obtains g avail1 avail2 s1 s2 g1 s3 withdrawn where
    "s' = (close_observer_lookup g1 remaining s3)\<lparr>
       gateways := (gateways (close_observer_lookup g1 remaining s3))(gw \<mapsto> g1),
       settings := (settings (close_observer_lookup g1 remaining s3))\<lparr>
         gs_total_staked := saturating_sub
           (gs_total_staked (settings (close_observer_lookup g1 remaining s3)))
           (saturating_add (slash_of s g) (saturating_sub (gw_operator_stake g) (slash_of s g))),
         gs_total_withdrawn := withdrawn\<rparr>\<rparr>"
    "gateways s gw = Some g" "gw_status g = Joined"
    "st_failed_consecutive (gw_stats g) \<ge> es_max_consecutive_failures (epoch_settings_acc s)"
    "stake_ta = gs_stake_token_account (settings s)"
    "protocol_ta = gs_protocol_token_account (settings s)"
    "open_exit_vaults env (gw_operator g)
       (min (saturating_sub (gw_operator_stake g) (slash_of s g)) (gs_min_operator_stake (settings s)))
       (saturating_sub (saturating_sub (gw_operator_stake g) (slash_of s g))
          (gs_min_operator_stake (settings s)))
       (min (saturating_sub (gw_operator_stake g) (slash_of s g)) (gs_min_operator_stake (settings s)) > 0)
       avail1 avail2 acc s = Inr s1"
    "(if slash_of s g > 0
      then token_transfer env stake_ta protocol_ta (pda_key env SettingsPda) (slash_of s g) s1
      else Inr s1) = Inr s2"
    "g1 = g\<lparr>gw_operator_stake := 0, gw_status := Leaving, gw_leave_timestamp := Some (now env),
            gw_leave_epoch_duration := es_epoch_duration (epoch_settings_acc s)\<rparr>"
    "mark_slot_leaving g1 s2 = Inr s3"
    "checked_add (gs_total_withdrawn (settings (close_observer_lookup g1 remaining s3)))
       (saturating_sub (gw_operator_stake g) (slash_of s g)) = Some withdrawn"
  using assms unfolding prune_gateway_def PruneGateway_def Let_def run_iff slash_of_def by blast

lemma prune_gateway_posts:
  assumes inv: "gar_inv bal s"
    and run: "prune_gateway env remaining gw stake_ta protocol_ta acc s = Inr s'"
  shows "\<exists>g. gateways s gw = Some g
           \<and> posts [entry Staked Outside (uint (slash_of s g)),
                   entry Staked Vaults (uint (gw_operator_stake g) - uint (slash_of s g))] s s'
           \<and> pool_flow s' = pool_flow s - uint (slash_of s g)"
proof (rule prune_gateway_run [OF run])
  fix g avail1 avail2 s1 s2 g1 s3 withdrawn
  let ?slash = "slash_of s g" and ?post = "saturating_sub (gw_operator_stake g) (slash_of s g)"
  let ?min = "gs_min_operator_stake (settings s)"
  assume s': "s' = (close_observer_lookup g1 remaining s3)\<lparr>
       gateways := (gateways (close_observer_lookup g1 remaining s3))(gw \<mapsto> g1),
       settings := (settings (close_observer_lookup g1 remaining s3))\<lparr>
         gs_total_staked := saturating_sub
           (gs_total_staked (settings (close_observer_lookup g1 remaining s3)))
           (saturating_add ?slash ?post),
         gs_total_withdrawn := withdrawn\<rparr>\<rparr>"
    and g: "gateways s gw = Some g"
    and pools: "stake_ta = gs_stake_token_account (settings s)"
      "protocol_ta = gs_protocol_token_account (settings s)"
    and op: "open_exit_vaults env (gw_operator g) (min ?post ?min) (saturating_sub ?post ?min)
       (min ?post ?min > 0) avail1 avail2 acc s = Inr s1"
    and tr: "(if ?slash > 0
      then token_transfer env stake_ta protocol_ta (pda_key env SettingsPda) ?slash s1
      else Inr s1) = Inr s2"
    and g1: "g1 = g\<lparr>gw_operator_stake := 0, gw_status := Leaving, gw_leave_timestamp := Some (now env),
            gw_leave_epoch_duration := es_epoch_duration (epoch_settings_acc s)\<rparr>"
    and ms: "mark_slot_leaving g1 s2 = Inr s3"
    and wd: "checked_add (gs_total_withdrawn (settings (close_observer_lookup g1 remaining s3))) ?post
             = Some withdrawn"
  note inv' = gar_invD [OF inv]
  have d1: "well_formed s1" "same_stakes s s1"
    "vault_total (withdrawals s1) = vault_total (withdrawals s) + uint ?post"
    using open_exit_vaultsD [OF op gar_inv_well_formed [OF inv]] min_plus_saturating_sub [of ?post ?min]
    by simp_all
  obtain l where s2: "s2 = s1\<lparr>cpi_log := l\<rparr>"
    and flow: "token_flow (gs_stake_token_account (settings s)) l = pool_flow s - uint ?slash"
  proof -
    have st: "settings s1 = settings s" "pool_flow s1 = pool_flow s"
      using d1(2) by (simp_all add: same_stakes_def pool_flow_def)
    from optional_payout [OF tr [unfolded pools, folded st(1)]] inv'(5) st
    show thesis by (metis that)
  qed
  define s4 where "s4 = close_observer_lookup g1 remaining s3"
  have s4: "gateways s4 = gateways s" "delegations s4 = delegations s" "settings s4 = settings s"
    "cpi_log s4 = l" "withdrawals s4 = withdrawals s1"
    using d1(2) mark_slot_leavingD [OF ms] close_observer_lookupD [of s3 g1 remaining]
    by (simp_all add: s4_def s2 same_stakes_def)
  have ok: "gateway_ok gw g1" "gw_total_delegated_stake g1 = gw_total_delegated_stake g"
    "gw_cumulative_reward_per_token g1 = gw_cumulative_reward_per_token g" "gw_operator_stake g1 = 0"
    using inv g by (auto simp: g1 gateway_ok_def gar_inv_def well_formed_def)
  have sl: "uint ?slash \<le> uint (gw_operator_stake g)"
    by (simp add: slash_of_def uint_min_word)
  then have post: "uint ?post = uint (gw_operator_stake g) - uint ?slash"
    and sum: "uint (saturating_add ?slash ?post) = uint (gw_operator_stake g)"
    using uint_bounds64(2) [of "gw_operator_stake g"]
    by (simp_all add: uint_saturating_sub uint_saturating_add)
  have "posts [entry Staked Outside (uint ?slash),
               entry Staked Vaults (uint (gw_operator_stake g) - uint ?slash)] s s'"
    using inv inv' g ok s4 d1(1,3) flow post sum checked_addD [OF wd] lookup_le_totals(1) [OF inv'(1) g]
    unfolding s' s4_def [symmetric]
    by (intro postsI) (auto simp: posting_simps gar_inv_def uint_saturating_sub)
  moreover have "pool_flow s' = pool_flow s - uint ?slash"
    using s4 flow by (simp add: s' s4_def pool_flow_def)
  ultimately show ?thesis using g by blast
qed

section \<open>Garbage collection\<close>

lemma swap_remove_slotD:
  assumes "swap_remove_slot g remaining s = Inr s'"
  shows "delegations s' = delegations s \<and> withdrawals s' = withdrawals s \<and> settings s' = settings s
    \<and> cpi_log s' = cpi_log s
    \<and> (gateways s' = gateways s
       \<or> (\<exists>k sw i. gateways s k = Some sw
            \<and> gateways s' = (gateways s)(k \<mapsto> sw\<lparr>gw_registry_index := i\<rparr>)))"
proof (cases "unat (gw_registry_index g) = unat (reg_count (registry s) - 1)")
  case True
  with assms show ?thesis by (auto simp: swap_remove_slot_def Let_def run_iff)
next
  case False
  with assms obtain sw where sw: "gateways s (slot_address (reg_gateways (registry s)
      (unat (reg_count (registry s) - 1)))) = Some sw"
    and "gateways s' = (gateways s)(slot_address (reg_gateways (registry s)
      (unat (reg_count (registry s) - 1))) \<mapsto> sw\<lparr>gw_registry_index := gw_registry_index g\<rparr>)"
    and "delegations s' = delegations s" "withdrawals s' = withdrawals s" "settings s' = settings s"
    "cpi_log s' = cpi_log s"
    by (auto simp: swap_remove_slot_def Let_def run_iff)
  then show ?thesis by blast
qed

lemma finalize_gone_posts:
  assumes inv: "gar_inv bal s" and run: "finalize_gone env remaining gw s = Inr s'"
  shows "posts [] s s' \<and> pool_flow s' = pool_flow s"
proof -
  obtain g s1 where
    g: "gateways s gw = Some g" "gw_status g = Leaving" "gw_total_delegated_stake g = 0" and
    sw: "swap_remove_slot g remaining s = Inr s1" and
    s': "s' = s1\<lparr>gateways := (gateways s1)(gw := None)\<rparr>"
    using run unfolding finalize_gone_def run_iff by blast
  note d = swap_remove_slotD [OF sw]
  have touched: "posts [] s s1 \<and> pool_flow s1 = pool_flow s"
    using d
  proof (elim conjE disjE exE)
    assume "gateways s1 = gateways s"
    with d g(1) show ?thesis
      by (intro gateway_touch_posts [OF inv g(1) same_in_ledger_refl]) (simp_all add: fun_upd_idem)
  next
    fix k sw i
    assume k: "gateways s k = Some sw" "gateways s1 = (gateways s)(k \<mapsto> sw\<lparr>gw_registry_index := i\<rparr>)"
    with d show ?thesis
      by (intro gateway_touch_posts [OF inv k(1), of "sw\<lparr>gw_registry_index := i\<rparr>"])
        (simp_all add: same_in_ledger_def)
  qed
  then have inv1: "gar_inv bal s1"
    using quiet_posts_keep_gar_inv [OF inv] by blast
  note inv' = gar_invD [OF inv1]
  obtain g1 where g1: "gateways s1 gw = Some g1" "gw_total_delegated_stake g1 = 0" "gw_status g1 = Leaving"
  proof -
    have "\<exists>g1. gateways s1 gw = Some g1 \<and> gw_total_delegated_stake g1 = 0 \<and> gw_status g1 = Leaving"
      using d g by (auto simp: fun_upd_apply)
    then show thesis using that by blast
  qed
  then have stake: "gw_operator_stake g1 = 0"
    using staked_is_joined [OF inv1 g1(1)] by (cases "gw_operator_stake g1 = 0") auto
  have ctr: "counter_of (gateways s1) gw = 0" using g1 by (simp add: counter_of_def)
  note free = pending_total_gw_free [OF inv'(2) no_counter_no_delegations [OF inv1 ctr]]
  have dr: "drift ((gateways s1)(gw := None)) (delegations s1) k = drift (gateways s1) (delegations s1) k" for k
    using ctr by (auto simp: drift_def counter_of_def)
  have "posts [] s1 s'"
    using inv1 inv' g1 stake free dr unfolding s'
    by (intro postsI) (auto simp: book_of_def totals_upd pool_flow_def well_formed_def
        supply_consistent_def gar_inv_def)
  then have "posts [] s s'"
    using touched by (simp add: posts_def)
  then show ?thesis using touched by (simp add: s' pool_flow_def)
qed

end
