(* ===== verification/Gar_Conserve_Payment.thy ===== *)
theory Gar_Conserve_Payment
  imports Gar_Conserve_Delegate
begin

text \<open>
  Payments from stake in the ledger: every token that leaves the pool leaves exactly one kind
  of claim, also through the multi-source funding plan, whose loop keeps the invariant
  \<open>plan_inv\<close> over its local counters.
\<close>

section \<open>Single-source deductions\<close>

lemma deduct_delegation_for_payment_posts:
  assumes inv: "gar_inv bal s"
    and run: "deduct_delegation_for_payment env gw delegator stake_ta protocol_ta amount s = Inr s'"
  shows "\<exists>p. posts [entry Pending Delegated p, entry Delegated Outside (uint amount)] s s'
             \<and> pool_flow s' = pool_flow s - uint amount"
proof -
  obtain g d g1 d1 settled remaining tds s1 where
    g: "gateways s gw = Some g" and d: "delegations s (gw, delegator) = Some d" and
    pools: "stake_ta = gs_stake_token_account (settings s)"
      "protocol_ta = gs_protocol_token_account (settings s)" and
    se: "settle_delegate_rewards g d = (g1, d1, settled)" and
    rem: "checked_sub (del_amount d1) amount = Some remaining" and
    tds: "checked_sub (gw_total_delegated_stake g1) amount = Some tds" and
    tr: "token_transfer env stake_ta protocol_ta (pda_key env SettingsPda) amount s = Inr s1" and
    s': "s' = s1\<lparr>gateways := (gateways s1)(gw \<mapsto> g1\<lparr>gw_total_delegated_stake := tds\<rparr>),
             delegations := (delegations s1)((gw, delegator) \<mapsto> d1\<lparr>del_amount := remaining\<rparr>),
             settings := (settings s1)\<lparr>gs_total_delegated :=
               saturating_sub (saturating_add (gs_total_delegated (settings s1)) settled) amount\<rparr>\<rparr>"
    using run unfolding deduct_delegation_for_payment_def DeductDelegationForPayment_def Let_def
      run_iff by blast
  note inv' = gar_invD [OF inv]
  note s1 = token_transferD [OF tr]
  note ld = load_delegation_Some [OF d]
  note e = settle_exact [OF gar_inv_sound [OF inv] g ld se]
  note b = delegation_bounds [OF gar_inv_sound [OF inv] g ld]
  have "posts [entry Pending Delegated (uint settled), entry Delegated Outside (uint amount)] s s'"
    using inv inv' g d e b pools checked_subD [OF rem] checked_subD [OF tds]
    unfolding s' s1
    by (intro postsI) (auto simp: posting_simps gar_inv_def uint_saturating_sub uint_saturating_add
        pending_in_lookup)
  moreover have "pool_flow s' = pool_flow s - uint amount"
    using inv'(5) pools by (auto simp: s' s1 pool_flow_def transfer_flow_simps)
  ultimately show ?thesis by blast
qed

lemma deduct_operator_stake_for_payment_posts:
  assumes inv: "gar_inv bal s"
    and run: "deduct_operator_stake_for_payment env operator stake_ta protocol_ta amount s = Inr s'"
  shows "posts [entry Staked Outside (uint amount)] s s' \<and> pool_flow s' = pool_flow s - uint amount"
proof -
  obtain g remaining s1 where
    g: "gateways s operator = Some g" "gw_status g = Joined" and
    pools: "stake_ta = gs_stake_token_account (settings s)"
      "protocol_ta = gs_protocol_token_account (settings s)" and
    rem: "checked_sub (gw_operator_stake g) amount = Some remaining" and
    tr: "token_transfer env stake_ta protocol_ta (pda_key env SettingsPda) amount s = Inr s1" and
    s': "s' = s1\<lparr>gateways := (gateways s1)(operator \<mapsto> g\<lparr>gw_operator_stake := remaining\<rparr>),
             settings := (settings s1)\<lparr>gs_total_staked :=
               saturating_sub (gs_total_staked (settings s1)) amount\<rparr>\<rparr>"
    using run unfolding deduct_operator_stake_for_payment_def DeductOperatorStakeForPayment_def
      run_iff by blast
  note inv' = gar_invD [OF inv]
  note s1 = token_transferD [OF tr]
  have "posts [entry Staked Outside (uint amount)] s s'"
    using inv inv' g pools checked_subD [OF rem] lookup_le_totals(1) [OF inv'(1) g(1)]
    unfolding s' s1
    by (intro postsI) (auto simp: posting_simps gar_inv_def uint_saturating_sub)
  moreover have "pool_flow s' = pool_flow s - uint amount"
    using inv'(5) pools by (auto simp: s' s1 pool_flow_def transfer_flow_simps)
  ultimately show ?thesis by blast
qed

lemma deduct_withdrawal_for_payment_posts:
  assumes inv: "gar_inv bal s"
    and run: "deduct_withdrawal_for_payment env owner wid stake_ta protocol_ta amount s = Inr s'"
  shows "posts [entry Vaults Outside (uint amount)] s s' \<and> pool_flow s' = pool_flow s - uint amount"
proof -
  obtain w remaining s1 where
    w: "withdrawals s (owner, wid) = Some w" and
    pools: "stake_ta = gs_stake_token_account (settings s)"
      "protocol_ta = gs_protocol_token_account (settings s)" and
    rem: "checked_sub (wd_amount w) amount = Some remaining" and
    tr: "token_transfer env stake_ta protocol_ta (pda_key env SettingsPda) amount s = Inr s1" and
    s': "s' = s1\<lparr>withdrawals := (withdrawals s1)((owner, wid) \<mapsto> w\<lparr>wd_amount := remaining\<rparr>),
             settings := (settings s1)\<lparr>gs_total_withdrawn :=
               saturating_sub (gs_total_withdrawn (settings s1)) amount\<rparr>\<rparr>"
    using run unfolding deduct_withdrawal_for_payment_def DeductWithdrawalForPayment_def
      run_iff by blast
  note inv' = gar_invD [OF inv]
  note s1 = token_transferD [OF tr]
  have "posts [entry Vaults Outside (uint amount)] s s'"
    using inv inv' w pools checked_subD [OF rem] vault_le_total [OF inv'(3) w]
    unfolding s' s1
    by (intro postsI) (auto simp: posting_simps gar_inv_def uint_saturating_sub)
  moreover have "pool_flow s' = pool_flow s - uint amount"
    using inv'(5) pools by (auto simp: s' s1 pool_flow_def transfer_flow_simps)
  ultimately show ?thesis by blast
qed

section \<open>The funding plan\<close>

definition residue_sum :: "(pubkey \<times> u64) list \<Rightarrow> int" where
  "residue_sum ts = sum_list (map (\<lambda>t. uint (snd t)) ts)"

lemma residue_sum_simps [simp]:
  "residue_sum [] = 0" "residue_sum (t # ts) = uint (snd t) + residue_sum ts"
  "residue_sum (ts @ us) = residue_sum ts + residue_sum us"
  by (simp_all add: residue_sum_def)

lemma residue_sum_nonneg [simp]: "0 \<le> residue_sum ts"
  by (induction ts) simp_all

text \<open>
  The loop invariant: the accounts have moved away from the state \<open>s0\<close> the plan started in by
  exactly what the local counters say, and the supply counters are still untouched.
\<close>

definition plan_inv :: "gar_state \<Rightarrow> plan_acc \<Rightarrow> bool" where
  "plan_inv s0 a \<longleftrightarrow>
     (let s = pa_state a in
      well_formed s \<and> settings s = settings s0 \<and> cpi_log s = cpi_log s0
      \<and> withdrawal_counters s = withdrawal_counters s0
      \<and> stake_total (gateways s) = stake_total (gateways s0) - uint (pa_staked_sub a)
      \<and> counter_total (gateways s) = counter_total (gateways s0) + uint (pa_delegated_add a)
          - uint (pa_delegated_sub a) - uint (pa_delegated_residue_sub a)
      \<and> pending_total (gateways s) (delegations s)
          = pending_total (gateways s0) (delegations s0) - uint (pa_delegated_add a)
      \<and> vault_total (withdrawals s) = vault_total (withdrawals s0) - uint (pa_withdrawn_sub a)
      \<and> uint (pa_stake_pool_drain a)
          = uint (pa_delegated_sub a) + uint (pa_staked_sub a) + uint (pa_withdrawn_sub a)
      \<and> residue_sum (pa_residue_targets a) = uint (pa_delegated_residue_sub a)
      \<and> dust_total (gateways s) (delegations s) \<le> dust_total (gateways s0) (delegations s0)
      \<and> (\<forall>k. drift (gateways s) (delegations s) k = drift (gateways s0) (delegations s0) k))"

lemma plan_inv_sound:
  assumes "gar_inv bal s0" and "plan_inv s0 a"
  shows "delegations_sound (pa_state a)"
proof -
  have "counter_total (gateways s0) + pending_total (gateways s0) (delegations s0) < 2 ^ 64"
    using gar_inv_sound [OF assms(1)] by (simp add: delegations_sound_def)
  moreover have "counter_total (gateways (pa_state a))
      + pending_total (gateways (pa_state a)) (delegations (pa_state a))
      \<le> counter_total (gateways s0) + pending_total (gateways s0) (delegations s0)"
    using assms(2) uint_bounds64(1) [of "pa_delegated_sub a"]
      uint_bounds64(1) [of "pa_delegated_residue_sub a"]
    unfolding plan_inv_def Let_def by linarith
  ultimately show ?thesis
    using assms by (simp add: delegations_sound_def plan_inv_def Let_def counters_cover_def gar_inv_def)
qed

lemma plan_inv_init: "well_formed s \<Longrightarrow> plan_inv s (init_acc remaining s)"
  by (simp add: plan_inv_def init_acc_def)

lemma plan_inv_remaining [simp]: "plan_inv s0 (a\<lparr>pa_remaining := r\<rparr>) = plan_inv s0 a"
  by (simp add: plan_inv_def Let_def)

lemma plan_inv_seen [simp]: "plan_inv s0 (a\<lparr>pa_gateways_seen := r\<rparr>) = plan_inv s0 a"
  by (simp add: plan_inv_def Let_def)

lemma next_account_iff:
  "next_account a e k = Inr x \<longleftrightarrow>
     (\<exists>p ps. pa_remaining a = p # ps \<and> k p (a\<lparr>pa_remaining := ps\<rparr>) = Inr x)"
  by (auto simp: next_account_def split: list.split)

lemma plan_gateway_iff:
  "plan_gateway info a k = Inr x \<longleftrightarrow>
     (\<exists>gw g. info = GatewayPda gw \<and> gateways (pa_state a) gw = Some g \<and> gw_operator g = gw
        \<and> gw_operator g \<notin> set (pa_gateways_seen a) \<and> gw_status g = Joined
        \<and> k gw g (a\<lparr>pa_gateways_seen := pa_gateways_seen a @ [gw_operator g]\<rparr>) = Inr x)"
  by (cases info) (auto simp: plan_gateway_def run_iff)

lemma withdrawal_case_iff:
  "(case p of WithdrawalPda j wid \<Rightarrow> f j wid | _ \<Rightarrow> Inl e) = Inr x \<longleftrightarrow>
     (\<exists>j wid. p = WithdrawalPda j wid \<and> f j wid = Inr x)"
  by (cases p) auto

text \<open>An update of one gateway that leaves its counter alone leaves every drift alone.\<close>

lemma drift_gw_upd:
  "G k = Some g \<Longrightarrow> gw_total_delegated_stake g' = gw_total_delegated_stake g \<Longrightarrow>
   drift (G(k \<mapsto> g')) D j = drift G D j"
  by (simp add: drift_def counter_of_lookup)

lemma apply_operator_source_inv:
  assumes "plan_inv s0 a" and "apply_operator_source payer amount a = Inr a'"
  shows "plan_inv s0 a'"
proof -
  obtain gw g ps seen post drain where
    g: "gateways (pa_state a) gw = Some g" "gw_status g = Joined" and
    post: "checked_sub (gw_operator_stake g) amount = Some post" and
    drain: "checked_add (pa_stake_pool_drain a) amount = Some drain" and
    a': "a' = a\<lparr>pa_remaining := ps, pa_gateways_seen := seen,
           pa_state := (pa_state a)\<lparr>
             gateways := (gateways (pa_state a))(gw \<mapsto> g\<lparr>gw_operator_stake := post\<rparr>)\<rparr>,
           pa_stake_pool_drain := drain,
           pa_staked_sub := saturating_add (pa_staked_sub a) amount\<rparr>"
    using assms(2) by (auto simp: apply_operator_source_def next_account_iff plan_gateway_iff run_iff)
  have wf: "well_formed (pa_state a)" using assms(1) by (simp add: plan_inv_def Let_def)
  have "uint drain < 2 ^ 64" by (rule uint_bounds64)
  then have "uint (pa_staked_sub a) + uint amount < 2 ^ 64"
    using checked_addD [OF drain] assms(1) uint_bounds64(1) [of "pa_delegated_sub a"]
      uint_bounds64(1) [of "pa_withdrawn_sub a"]
    unfolding plan_inv_def Let_def by linarith
  then show ?thesis
    using assms(1) wf g checked_subD [OF post] checked_addD [OF drain]
    unfolding a'
    by (auto simp: plan_inv_def Let_def totals_upd pending_total_gw_upd dust_total_gw_upd
        drift_gw_upd well_formed_def
        gateway_ok_def uint_saturating_add)
qed

lemma apply_withdrawal_source_inv:
  assumes "plan_inv s0 a" and "apply_withdrawal_source payer amount a = Inr a'"
  shows "plan_inv s0 a'"
proof -
  obtain j wid w ps post drain where
    w: "withdrawals (pa_state a) (j, wid) = Some w" and
    post: "checked_sub (wd_amount w) amount = Some post" and
    drain: "checked_add (pa_stake_pool_drain a) amount = Some drain" and
    a': "a' = a\<lparr>pa_remaining := ps,
           pa_state := (pa_state a)\<lparr>
             withdrawals := (withdrawals (pa_state a))((j, wid) \<mapsto> w\<lparr>wd_amount := post\<rparr>)\<rparr>,
           pa_stake_pool_drain := drain,
           pa_withdrawn_sub := saturating_add (pa_withdrawn_sub a) amount\<rparr>"
    using assms(2)
    by (auto simp: apply_withdrawal_source_def next_account_iff run_iff withdrawal_case_iff)
  have wf: "well_formed (pa_state a)" using assms(1) by (simp add: plan_inv_def Let_def)
  have "uint drain < 2 ^ 64" by (rule uint_bounds64)
  then have "uint (pa_withdrawn_sub a) + uint amount < 2 ^ 64"
    using checked_addD [OF drain] assms(1) uint_bounds64(1) [of "pa_delegated_sub a"]
      uint_bounds64(1) [of "pa_staked_sub a"]
    unfolding plan_inv_def Let_def by linarith
  then show ?thesis
    using assms(1) wf w checked_subD [OF post] checked_addD [OF drain]
    unfolding a'
    by (auto simp: plan_inv_def Let_def totals_upd well_formed_def uint_saturating_add)
qed

lemma apply_balance_source_inv:
  assumes "plan_inv s0 a" and "apply_balance_source has_ata amount a = Inr a'"
  shows "plan_inv s0 a'"
  using assms by (auto simp: apply_balance_source_def run_iff plan_inv_def Let_def)

text \<open>One delegation source: the amount is paid, a residue below the minimum is set aside.\<close>

lemma drain_delegationD:
  assumes "drain_delegation amount kept g d a = Inr (g2, d2, a2)"
  obtains tds damount res where
    "g2 = g\<lparr>gw_total_delegated_stake := tds\<rparr>" "d2 = d\<lparr>del_amount := damount\<rparr>"
    "uint tds = uint (gw_total_delegated_stake g) - uint amount - res"
    "uint damount = uint kept - res" "res = 0 \<and> a2 = a \<or>
       res = uint kept \<and> a2 = a\<lparr>pa_residue_targets := pa_residue_targets a @ [(gw_operator g, kept)],
         pa_delegated_residue_sub := saturating_add (pa_delegated_residue_sub a) kept\<rparr>"
proof (cases "kept = 0 \<or> kept \<ge> g2_min_delegation_amount (gw_settings g)")
  case True
  with assms obtain tds where "checked_sub (gw_total_delegated_stake g) amount = Some tds"
    "g2 = g\<lparr>gw_total_delegated_stake := tds\<rparr>" "d2 = d\<lparr>del_amount := kept\<rparr>" "a2 = a"
    by (auto simp: drain_delegation_def run_iff)
  then show ?thesis
    by (intro that [of tds kept 0]) (auto dest: checked_subD)
next
  case False
  with assms obtain combined tds where "checked_add amount kept = Some combined"
    "checked_sub (gw_total_delegated_stake g) combined = Some tds"
    "g2 = g\<lparr>gw_total_delegated_stake := tds\<rparr>" "d2 = d\<lparr>del_amount := 0\<rparr>"
    "a2 = a\<lparr>pa_residue_targets := pa_residue_targets a @ [(gw_operator g, kept)],
         pa_delegated_residue_sub := saturating_add (pa_delegated_residue_sub a) kept\<rparr>"
    by (auto simp: drain_delegation_def run_iff)
  then show ?thesis
    by (intro that [of tds 0 "uint kept"]) (auto dest!: checked_subD checked_addD)
qed

lemma apply_delegation_source_inv:
  assumes inv: "gar_inv bal s0" and a: "plan_inv s0 a"
    and run: "apply_delegation_source payer amount a = Inr a'"
  shows "plan_inv s0 a'"
proof -
  obtain gw g d g1 d1 settled ps seen post g2 d2 a2 drain where
    g: "gateways (pa_state a) gw = Some g" and d: "delegations (pa_state a) (gw, payer) = Some d" and
    se: "settle_delegate_rewards g d = (g1, d1, settled)" and
    post: "checked_sub (del_amount d1) amount = Some post" and
    dr: "drain_delegation amount post g1 d1
           (a\<lparr>pa_remaining := ps, pa_gateways_seen := seen,
              pa_delegated_add := saturating_add (pa_delegated_add a) settled\<rparr>) = Inr (g2, d2, a2)" and
    drain: "checked_add (pa_stake_pool_drain a2) amount = Some drain" and
    a': "a' = a2\<lparr>pa_state := (pa_state a2)\<lparr>
             gateways := (gateways (pa_state a2))(gw \<mapsto> g2),
             delegations := (delegations (pa_state a2))((gw, payer) \<mapsto> d2)\<rparr>,
           pa_stake_pool_drain := drain,
           pa_delegated_sub := saturating_add (pa_delegated_sub a2) amount\<rparr>"
    using run by (auto simp: apply_delegation_source_def next_account_iff plan_gateway_iff Let_def run_iff)
  note sound = plan_inv_sound [OF inv a]
  note ld = load_delegation_Some [OF d]
  note e = settle_exact [OF sound g ld se] and b = delegation_bounds [OF sound g ld]
  let ?S = "pa_state a"
  let ?a = "a\<lparr>pa_remaining := ps, pa_gateways_seen := seen,
              pa_delegated_add := saturating_add (pa_delegated_add a) settled\<rparr>"
  obtain tds damount res where
    g2: "g2 = g1\<lparr>gw_total_delegated_stake := tds\<rparr>" and d2: "d2 = d1\<lparr>del_amount := damount\<rparr>" and
    tds: "uint tds = uint (gw_total_delegated_stake g1) - uint amount - res" and
    da: "uint damount = uint post - res" and
    res: "res = 0 \<and> a2 = ?a
      \<or> res = uint post \<and> a2 = ?a\<lparr>pa_residue_targets := pa_residue_targets ?a @ [(gw_operator g1, post)],
              pa_delegated_residue_sub := saturating_add (pa_delegated_residue_sub ?a) post\<rparr>"
    using drain_delegationD [OF dr] .
  note post' = checked_subD [OF post]
  have pend: "uint settled \<le> pending_total (gateways ?S) (delegations ?S)"
    using b(2) e(1) by simp
  have drain': "checked_add (pa_stake_pool_drain a) amount = Some drain"
    using drain res by auto
  have add: "uint (saturating_add (pa_delegated_add a) settled) = uint (pa_delegated_add a) + uint settled"
  proof -
    have "uint (pa_delegated_add a) + uint settled \<le> pending_total (gateways s0) (delegations s0)"
      using a pend unfolding plan_inv_def Let_def by linarith
    moreover have "pending_total (gateways s0) (delegations s0) < 2 ^ 64"
      using gar_inv_sound [OF inv] totals_nonneg(2) [of "gateways s0"]
      unfolding delegations_sound_def by linarith
    ultimately show ?thesis by (simp add: uint_saturating_add)
  qed
  have sub: "uint (saturating_add (pa_delegated_sub a) amount) = uint (pa_delegated_sub a) + uint amount"
  proof -
    have "uint (pa_delegated_sub a) + uint amount \<le> uint drain"
      using a checked_addD [OF drain'] uint_bounds64(1) [of "pa_staked_sub a"]
        uint_bounds64(1) [of "pa_withdrawn_sub a"]
      unfolding plan_inv_def Let_def by linarith
    then show ?thesis using uint_bounds64(2) [of drain] by (simp add: uint_saturating_add)
  qed
  let ?G = "(gateways ?S)(gw \<mapsto> g2)" and ?D = "(delegations ?S)((gw, payer) \<mapsto> d2)"
  have wf: "well_formed ?S" using a by (simp add: plan_inv_def Let_def)
  then have fin: "finite (dom (gateways ?S))" "finite (dom (delegations ?S))"
    by (simp_all add: well_formed_def)
  have tot: "stake_total ?G = stake_total (gateways ?S)"
    "counter_total ?G = counter_total (gateways ?S) + uint settled - uint amount - res"
    "pending_total ?G ?D = pending_total (gateways ?S) (delegations ?S) - uint settled"
    "dust_total ?G ?D \<le> dust_total (gateways ?S) (delegations ?S)"
    "drift ?G ?D k = drift (gateways ?S) (delegations ?S) k" for k
    using fin g d e tds da post'
    by (simp_all add: g2 d2 totals_upd pending_total_gw_upd dust_total_gw_upd dust_in_settled
        pending_in_lookup drift_def counter_of_lookup)
  have wf': "well_formed (?S\<lparr>gateways := ?G, delegations := ?D\<rparr>)"
    using wf g e by (auto simp: g2 d2 well_formed_def)
  have res': "uint (pa_delegated_residue_sub a2) = uint (pa_delegated_residue_sub a) + res"
  proof -
    have "0 \<le> counter_total ?G" by simp
    then have "uint (pa_delegated_residue_sub a) + res
               \<le> counter_total (gateways s0) + pending_total (gateways s0) (delegations s0)"
      using tot(2) a pend uint_bounds64(1) [of "pa_delegated_sub a"] uint_bounds64(1) [of amount]
      unfolding plan_inv_def Let_def by linarith
    then have "uint (pa_delegated_residue_sub a) + res < 2 ^ 64"
      using gar_inv_sound [OF inv] unfolding delegations_sound_def by linarith
    then show ?thesis using res by (auto simp: uint_saturating_add)
  qed
  have st2: "pa_state a2 = ?S" "pa_staked_sub a2 = pa_staked_sub a"
    "pa_withdrawn_sub a2 = pa_withdrawn_sub a" "pa_delegated_sub a2 = pa_delegated_sub a"
    "uint (pa_delegated_add a2) = uint (pa_delegated_add a) + uint settled"
    "residue_sum (pa_residue_targets a2) = residue_sum (pa_residue_targets a) + res"
    using res add by auto
  show ?thesis
    using a tot wf' res' st2 sub checked_addD [OF drain']
    unfolding a' by (simp add: plan_inv_def Let_def)
qed

lemma apply_source_inv:
  assumes "gar_inv bal s0" and "plan_inv s0 a" and "apply_source payer has_ata src a = Inr a'"
  shows "plan_inv s0 a'"
  using assms(3) apply_delegation_source_inv [OF assms(1,2)] apply_operator_source_inv [OF assms(2)]
    apply_withdrawal_source_inv [OF assms(2)] apply_balance_source_inv [OF assms(2)]
  by (auto simp: apply_source_def split: funding_source_kind.splits)

lemma apply_sources_inv:
  assumes "gar_inv bal s0" and "plan_inv s0 a" and "apply_sources payer has_ata srcs a = Inr a'"
  shows "plan_inv s0 a'"
  using assms(2,3)
  by (induction srcs arbitrary: a) (auto simp: and_then_iff dest: apply_source_inv [OF assms(1)])

text \<open>What is drained from the two purses is what the sources ask for.\<close>

lemma apply_source_paid:
  assumes "apply_source payer has_ata src a = Inr a'"
  shows "uint (pa_balance_drain a') + uint (pa_stake_pool_drain a')
         = uint (pa_balance_drain a) + uint (pa_stake_pool_drain a) + uint (fs_amount src)"
proof -
  have deleg: "pa_balance_drain a' = pa_balance_drain a
      \<and> uint (pa_stake_pool_drain a') = uint (pa_stake_pool_drain a) + uint amount"
    if run: "apply_delegation_source payer amount a = Inr a'" for amount
  proof -
    obtain d1 g1 ps seen settled kept g2 d2 a2 drain gw where
      dr: "drain_delegation amount kept g1 d1
           (a\<lparr>pa_remaining := ps, pa_gateways_seen := seen,
              pa_delegated_add := saturating_add (pa_delegated_add a) settled\<rparr>) = Inr (g2, d2, a2)" and
      drain: "checked_add (pa_stake_pool_drain a2) amount = Some drain" and
      a': "a' = a2\<lparr>pa_state := (pa_state a2)\<lparr>
             gateways := (gateways (pa_state a2))(gw \<mapsto> g2),
             delegations := (delegations (pa_state a2))((gw, payer) \<mapsto> d2)\<rparr>,
           pa_stake_pool_drain := drain,
           pa_delegated_sub := saturating_add (pa_delegated_sub a2) amount\<rparr>"
      using run
      by (auto simp: apply_delegation_source_def next_account_iff plan_gateway_iff Let_def run_iff)
    have "pa_balance_drain a2 = pa_balance_drain a \<and> pa_stake_pool_drain a2 = pa_stake_pool_drain a"
      by (rule drain_delegationD [OF dr]) auto
    then show ?thesis using checked_addD [OF drain] by (simp add: a')
  qed
  show ?thesis
    using assms deleg
    by (auto simp: apply_source_def apply_balance_source_def apply_operator_source_def
        apply_withdrawal_source_def next_account_iff plan_gateway_iff withdrawal_case_iff run_iff
        dest: checked_addD split: funding_source_kind.splits)
qed

definition sources_total :: "funding_source_spec list \<Rightarrow> int" where
  "sources_total srcs = sum_list (map (\<lambda>src. uint (fs_amount src)) srcs)"

lemma apply_sources_paid:
  "apply_sources payer has_ata srcs a = Inr a' \<Longrightarrow>
   uint (pa_balance_drain a') + uint (pa_stake_pool_drain a')
     = uint (pa_balance_drain a) + uint (pa_stake_pool_drain a) + sources_total srcs"
  by (induction srcs arbitrary: a)
    (auto simp: sources_total_def and_then_iff dest!: apply_source_paid)

lemma sum_sources_total:
  "sum_sources srcs acc = Inr x \<Longrightarrow> uint x = uint acc + sources_total srcs"
  by (induction srcs arbitrary: acc)
    (auto simp: sources_total_def run_iff dest!: checked_addD)

section \<open>The residue vaults and the whole plan\<close>

lemma open_residue_vaultsD:
  assumes "open_residue_vaults env payer ts remaining s = Inr (rest, s')" and "well_formed s"
  shows "well_formed s' \<and> vault_total (withdrawals s') = vault_total (withdrawals s) + residue_sum ts
    \<and> gateways s' = gateways s \<and> delegations s' = delegations s \<and> settings s' = settings s
    \<and> cpi_log s' = cpi_log s"
  using assms
proof (induction ts arbitrary: remaining s)
  case (Cons t ts)
  obtain op residue new_vault rest' avail s1 where t: "t = (op, residue)"
    and op: "open_withdrawal env payer op residue avail True False False s = Inr s1"
    and ih: "open_residue_vaults env payer ts rest' s1 = Inr (rest, s')"
    using Cons.prems(1) by (cases t) (auto simp: Let_def run_iff split: list.splits)
  note d = open_withdrawalD [OF op Cons.prems(2)]
  from Cons.IH [OF ih d(1)] d t show ?case by simp
qed simp

lemma foldl_saturating_sum:
  "uint x + residue_sum ts < 2 ^ 64 \<Longrightarrow>
   uint (foldl saturating_add x (map snd ts)) = uint x + residue_sum ts"
proof (induction ts arbitrary: x)
  case (Cons t ts)
  have "uint x + uint (snd t) < 2 ^ 64"
    using Cons.prems residue_sum_nonneg [of ts] by (simp del: residue_sum_nonneg)
  then have "uint (saturating_add x (snd t)) = uint x + uint (snd t)"
    by (simp add: uint_saturating_add)
  with Cons show ?case by simp
qed simp

text \<open>
  The Token program moves tokens out of the pool only for its owner, the settings PDA; the
  payer, who signs the transfer of a balance source, is not that.
\<close>

definition pool_refuses :: "gar_env \<Rightarrow> gar_state \<Rightarrow> pubkey \<Rightarrow> bool" where
  "pool_refuses env s payer \<longleftrightarrow>
     (\<forall>ts t. spl_accepts env ts t \<longrightarrow> tr_authority t = payer \<longrightarrow>
             tr_from t \<noteq> gs_stake_token_account (settings s))"

lemma pool_refusesD:
  assumes "pool_refuses env s payer" and "token_transfer env src dst payer amount s = Inr s1"
  shows "src \<noteq> gs_stake_token_account (settings s)"
proof -
  have "spl_accepts env (cpi_log s)
          \<lparr>tr_from = src, tr_to = dst, tr_authority = payer, tr_amount = amount\<rparr>"
    using assms(2) by (simp add: token_transfer_def Let_def require_iff)
  from assms(1) [unfolded pool_refuses_def, rule_format, OF this] show ?thesis by simp
qed

lemma pay_from_funding_plan_run:
  assumes "pay_from_funding_plan env remaining stake_ta protocol_ta payer_ata payer
             sources expected_total residue_vault_count s = Inr s'"
  obtains a s1 s2 rest s4 withdrawn where
    "s' = s4\<lparr>settings := (settings s4)\<lparr>
       gs_total_delegated :=
         saturating_sub (saturating_sub
           (saturating_add (gs_total_delegated (settings s4)) (pa_delegated_add a))
           (pa_delegated_sub a)) (pa_delegated_residue_sub a),
       gs_total_staked := saturating_sub (gs_total_staked (settings s4)) (pa_staked_sub a),
       gs_total_withdrawn := withdrawn\<rparr>\<rparr>"
    "stake_ta = gs_stake_token_account (settings s)"
    "protocol_ta = gs_protocol_token_account (settings s)"
    "sum_sources sources 0 = Inr expected_total"
    "apply_sources payer (payer_ata \<noteq> None) sources (init_acc remaining s) = Inr a"
    "(if pa_stake_pool_drain a > 0
      then token_transfer env stake_ta protocol_ta (pda_key env SettingsPda)
             (pa_stake_pool_drain a) (pa_state a)
      else Inr (pa_state a)) = Inr s1"
    "(if pa_balance_drain a > 0
      then ok_or payer_ata Panic (\<lambda>ata. token_transfer env ata protocol_ta payer (pa_balance_drain a) s1)
      else Inr s1) = Inr s2"
    "open_residue_vaults env payer (pa_residue_targets a) (pa_remaining a)
       (s2\<lparr>withdrawal_counters := (withdrawal_counters s2)(payer \<mapsto> load_counter env s2 payer)\<rparr>)
     = Inr (rest, s4)"
    "checked_add (saturating_sub (gs_total_withdrawn (settings s4)) (pa_withdrawn_sub a))
       (foldl saturating_add 0 (map snd (pa_residue_targets a))) = Some withdrawn"
  using assms unfolding pay_from_funding_plan_def Let_def run_iff split_paired_Ex
  by (elim exE conjE) (simp only: split_conv run_iff, blast)

definition plan_entries :: "plan_acc \<Rightarrow> entry list" where
  "plan_entries a =
     [entry Pending Delegated (uint (pa_delegated_add a)),
      entry Delegated Outside (uint (pa_delegated_sub a)),
      entry Delegated Vaults (uint (pa_delegated_residue_sub a)),
      entry Staked Outside (uint (pa_staked_sub a)),
      entry Vaults Outside (uint (pa_withdrawn_sub a))]"

lemma plan_payout:
  assumes "(if b > 0 then ok_or payer_ata Panic (\<lambda>ata. token_transfer env ata protocol_ta payer b s1)
            else Inr s1) = Inr s2"
    and "pool_refuses env s1 payer" and "protocol_ta \<noteq> gs_stake_token_account (settings s1)"
  obtains l where "s2 = s1\<lparr>cpi_log := l\<rparr>"
    and "token_flow (gs_stake_token_account (settings s1)) l = pool_flow s1"
proof (cases "b > 0")
  case True
  with assms(1) obtain ata where tr: "token_transfer env ata protocol_ta payer b s1 = Inr s2"
    by (auto simp: run_iff)
  then have "ata \<noteq> gs_stake_token_account (settings s1)"
    using pool_refusesD [OF assms(2)] by blast
  then show ?thesis
    using assms(3)
    by (intro that [OF token_transferD [OF tr]]) (auto simp: pool_flow_def transfer_flow_simps)
next
  case False
  with assms(1) show ?thesis by (intro that [of "cpi_log s1"]) (simp_all add: pool_flow_def)
qed

lemma pay_from_funding_plan_posts:
  assumes inv: "gar_inv bal s" and ref: "pool_refuses env s payer"
    and run: "pay_from_funding_plan env remaining stake_ta protocol_ta payer_ata payer
                sources expected_total residue_vault_count s = Inr s'"
  shows "\<exists>a. posts (plan_entries a) s s'
    \<and> pool_flow s' = pool_flow s - uint (pa_stake_pool_drain a)
    \<and> uint (pa_stake_pool_drain a) + uint (pa_balance_drain a) = uint expected_total"
proof (rule pay_from_funding_plan_run [OF run])
  fix a s1 s2 rest s4 withdrawn
  assume s': "s' = s4\<lparr>settings := (settings s4)\<lparr>
       gs_total_delegated :=
         saturating_sub (saturating_sub
           (saturating_add (gs_total_delegated (settings s4)) (pa_delegated_add a))
           (pa_delegated_sub a)) (pa_delegated_residue_sub a),
       gs_total_staked := saturating_sub (gs_total_staked (settings s4)) (pa_staked_sub a),
       gs_total_withdrawn := withdrawn\<rparr>\<rparr>"
    and pools: "stake_ta = gs_stake_token_account (settings s)"
      "protocol_ta = gs_protocol_token_account (settings s)"
    and sums: "sum_sources sources 0 = Inr expected_total"
    and app: "apply_sources payer (payer_ata \<noteq> None) sources (init_acc remaining s) = Inr a"
    and tr1: "(if pa_stake_pool_drain a > 0
      then token_transfer env stake_ta protocol_ta (pda_key env SettingsPda)
             (pa_stake_pool_drain a) (pa_state a)
      else Inr (pa_state a)) = Inr s1"
    and tr2: "(if pa_balance_drain a > 0
      then ok_or payer_ata Panic (\<lambda>ata. token_transfer env ata protocol_ta payer (pa_balance_drain a) s1)
      else Inr s1) = Inr s2"
    and rv: "open_residue_vaults env payer (pa_residue_targets a) (pa_remaining a)
       (s2\<lparr>withdrawal_counters := (withdrawal_counters s2)(payer \<mapsto> load_counter env s2 payer)\<rparr>)
     = Inr (rest, s4)"
    and wd: "checked_add (saturating_sub (gs_total_withdrawn (settings s4)) (pa_withdrawn_sub a))
       (foldl saturating_add 0 (map snd (pa_residue_targets a))) = Some withdrawn"
  note inv' = gar_invD [OF inv]
  have pi: "plan_inv s a"
    by (rule apply_sources_inv [OF inv plan_inv_init [OF gar_inv_well_formed [OF inv]] app])
  then have st: "settings (pa_state a) = settings s" "pool_flow (pa_state a) = pool_flow s"
    "well_formed (pa_state a)"
    by (simp_all add: plan_inv_def Let_def pool_flow_def)
  obtain l1 where s1: "s1 = (pa_state a)\<lparr>cpi_log := l1\<rparr>"
    and "token_flow (gs_stake_token_account (settings (pa_state a))) l1
             = pool_flow (pa_state a) - uint (pa_stake_pool_drain a)"
    by (rule optional_payout [OF tr1 [unfolded pools, folded st(1)]]) (use inv'(5) st in simp)
  then have f1: "token_flow (gs_stake_token_account (settings s)) l1
             = pool_flow s - uint (pa_stake_pool_drain a)"
    using st by simp
  have "pool_refuses env s1 payer" "protocol_ta \<noteq> gs_stake_token_account (settings s1)"
    using ref inv'(5) pools st by (simp_all add: s1 pool_refuses_def)
  then obtain l2 where s2: "s2 = s1\<lparr>cpi_log := l2\<rparr>"
    and "token_flow (gs_stake_token_account (settings s1)) l2 = pool_flow s1"
    by (rule plan_payout [OF tr2])
  then have f2: "token_flow (gs_stake_token_account (settings s)) l2
             = pool_flow s - uint (pa_stake_pool_drain a)"
    using f1 st by (simp add: s1 pool_flow_def)
  have wf2: "well_formed (s2\<lparr>withdrawal_counters := c\<rparr>)" for c
    using st(3) by (simp add: s1 s2 well_formed_def)
  have d: "well_formed s4"
    "vault_total (withdrawals s4) = vault_total (withdrawals (pa_state a)) + residue_sum (pa_residue_targets a)"
    "gateways s4 = gateways (pa_state a)" "delegations s4 = delegations (pa_state a)"
    "settings s4 = settings s" "cpi_log s4 = l2"
    using open_residue_vaultsD [OF rv wf2] st(1) by (simp_all add: s1 s2)
  have paid: "uint (pa_stake_pool_drain a) + uint (pa_balance_drain a) = uint expected_total"
    using apply_sources_paid [OF app] sum_sources_total [OF sums] by (simp add: init_acc_def)
  have flow: "pool_flow s' = pool_flow s - uint (pa_stake_pool_drain a)"
    using d f2 by (simp add: s' pool_flow_def)
  have pi': "stake_total (gateways (pa_state a)) = stake_total (gateways s) - uint (pa_staked_sub a)"
    "counter_total (gateways (pa_state a)) = counter_total (gateways s) + uint (pa_delegated_add a)
          - uint (pa_delegated_sub a) - uint (pa_delegated_residue_sub a)"
    "pending_total (gateways (pa_state a)) (delegations (pa_state a))
          = pending_total (gateways s) (delegations s) - uint (pa_delegated_add a)"
    "vault_total (withdrawals (pa_state a)) = vault_total (withdrawals s) - uint (pa_withdrawn_sub a)"
    "uint (pa_stake_pool_drain a)
          = uint (pa_delegated_sub a) + uint (pa_staked_sub a) + uint (pa_withdrawn_sub a)"
    "residue_sum (pa_residue_targets a) = uint (pa_delegated_residue_sub a)"
    "\<And>k. drift (gateways (pa_state a)) (delegations (pa_state a)) k = drift (gateways s) (delegations s) k"
    "dust_total (gateways (pa_state a)) (delegations (pa_state a)) \<le> dust_total (gateways s) (delegations s)"
    using pi by (simp_all add: plan_inv_def Let_def)
  have sup: "supply_consistent s'"
  proof -
    have "0 \<le> counter_total (gateways (pa_state a))" "0 \<le> stake_total (gateways (pa_state a))"
      "0 \<le> vault_total (withdrawals (pa_state a))"
      "0 \<le> pending_total (gateways (pa_state a)) (delegations (pa_state a))" by simp_all
    moreover have "counter_total (gateways s) + pending_total (gateways s) (delegations s) < 2 ^ 64"
      using gar_inv_sound [OF inv] by (simp add: delegations_sound_def)
    moreover have "uint (foldl saturating_add 0 (map snd (pa_residue_targets a)))
                   = uint (pa_delegated_residue_sub a)"
      using foldl_saturating_sum [of 0 "pa_residue_targets a"] pi'(6)
        uint_bounds64(2) [of "pa_delegated_residue_sub a"] by simp
    moreover have "uint (pa_delegated_sub a) \<le> counter_total (gateways s) + uint (pa_delegated_add a)"
      using pi'(2) totals_nonneg(2) [of "gateways (pa_state a)"]
        uint_bounds64(1) [of "pa_delegated_residue_sub a"] by linarith
    ultimately show ?thesis
      using d pi'(1-4,6) inv'(6-8) checked_addD [OF wd]
      by (simp add: s' supply_consistent_def uint_saturating_sub uint_saturating_add)
  qed
  have "posts (plan_entries a) s s'"
    using d pi' sup flow
    by (intro postsI) (simp_all add: s' book_of_def plan_entries_def well_formed_def pool_flow_def)
  then show ?thesis using flow paid by blast
qed

end
