(* ===== verification/Gar_Conserve_Rewards.thy ===== *)
theory Gar_Conserve_Rewards
  imports Gar_Distribution Gar_Conserve_Stake
begin

text \<open>
  The distribution of an epoch in the ledger: what it credits to stakes and promises to
  delegates never exceeds what it moves from the treasury into the stake pool, however the
  scaling, the split and the accumulator round.
\<close>

section \<open>What the accumulator owes\<close>

text \<open>The exact claim of a delegation in units of 10^-18: the reward and the dust together.\<close>

definition owed_in :: "gateway_map \<Rightarrow> pubkey \<Rightarrow> delegation \<Rightarrow> int" where
  "owed_in G k d = (case G k of None \<Rightarrow> 0
     | Some g \<Rightarrow> uint (del_amount d)
         * max 0 (uint (gw_cumulative_reward_per_token g) - uint (del_reward_debt d)))"

definition owed_total :: "gateway_map \<Rightarrow> delegation_map \<Rightarrow> int" where
  "owed_total G D = msum (\<lambda>k d. owed_in G (fst k) d) D"

lemma pending_in_eq:
  "G k = Some g \<Longrightarrow> pending_in G k d = min (2 ^ 64 - 1) (owed_in G k d div 10 ^ 18)"
  by (auto simp: pending_in_def accrued_def owed_in_def uint_settle_pending uint_sub_exact
      uint_word_less uint_word_le word_pos_iff not_less max_def)

lemma pending_dust_le_owed: "10 ^ 18 * pending_in G k d + dust_in G k d \<le> owed_in G k d"
proof (cases "G k")
  case (Some g)
  let ?o = "owed_in G k d"
  have "dust_in G k d = ?o mod 1000000000000000000"
    using Some by (simp add: dust_in_def owed_in_def)
  moreover have "pending_in G k d \<le> ?o div 1000000000000000000"
    using pending_in_eq [of G k, OF Some, of d] by simp
  moreover have "1000000000000000000 * (?o div 1000000000000000000) + ?o mod 1000000000000000000 = ?o"
    by (rule mult_div_mod_eq)
  ultimately have "1000000000000000000 * pending_in G k d + dust_in G k d \<le> ?o" by linarith
  then show ?thesis by simp
qed (simp add: pending_in_def dust_in_def owed_in_def)

text \<open>Below the cap nothing is lost.\<close>

lemma owed_eq_pending_dust:
  assumes "pending_in G k d < 2 ^ 64 - 1"
  shows "owed_in G k d = 10 ^ 18 * pending_in G k d + dust_in G k d"
proof (cases "G k")
  case (Some g)
  have "dust_in G k d = owed_in G k d mod 10 ^ 18"
    using Some by (simp add: dust_in_def owed_in_def)
  moreover have "10 ^ 18 * (owed_in G k d div 10 ^ 18) + owed_in G k d mod 10 ^ 18 = owed_in G k d"
    by simp
  ultimately show ?thesis
    using pending_in_eq [of G k, OF Some, of d] assms by (simp add: min_def split: if_splits)
qed (simp add: pending_in_def dust_in_def owed_in_def)

lemma pending_dust_le_owed_total:
  assumes "finite (dom D)"
  shows "10 ^ 18 * pending_total G D + dust_total G D \<le> owed_total G D"
proof -
  have "10 ^ 18 * pending_total G D = msum (\<lambda>k d. 10 ^ 18 * pending_in G (fst k) d) D"
    by (simp add: pending_total_def msum_def sum_distrib_left)
  then have "10 ^ 18 * pending_total G D + dust_total G D
      = msum (\<lambda>k d. 10 ^ 18 * pending_in G (fst k) d + dust_in G (fst k) d) D"
    using assms by (simp add: msum_add dust_total_def)
  also have "\<dots> \<le> owed_total G D"
    unfolding owed_total_def by (rule msum_mono) (rule pending_dust_le_owed)
  finally show ?thesis .
qed

lemma owed_total_eq:
  assumes fin: "finite (dom D)" and small: "pending_total G D < 2 ^ 64 - 1"
  shows "owed_total G D = 10 ^ 18 * pending_total G D + dust_total G D"
proof -
  have "owed_in G (fst j) d = 10 ^ 18 * pending_in G (fst j) d + dust_in G (fst j) d"
    if "D j = Some d" for j d
  proof (rule owed_eq_pending_dust)
    have "pending_in G (fst j) d \<le> pending_total G D"
      using delegation_le_totals(2) [OF fin, of "fst j" "snd j" d G] that by simp
    with small show "pending_in G (fst j) d < 2 ^ 64 - 1" by linarith
  qed
  then have "owed_total G D = msum (\<lambda>k d. 10 ^ 18 * pending_in G (fst k) d + dust_in G (fst k) d) D"
    unfolding owed_total_def by (rule msum_cong)
  also have "\<dots> = 10 ^ 18 * pending_total G D + dust_total G D"
    using fin by (simp add: msum_add dust_total_def pending_total_def)
      (simp add: msum_def sum_distrib_left)
  finally show ?thesis .
qed

text \<open>Raising one gateway's accumulator by \<open>inc\<close> adds at most \<open>inc\<close> per delegated token.\<close>

lemma owed_total_raise:
  assumes fin: "finite (dom D)" and g: "G k = Some g"
    and inc: "uint (gw_cumulative_reward_per_token g') \<le> uint (gw_cumulative_reward_per_token g) + inc"
      "0 \<le> inc"
  shows "owed_total (G(k \<mapsto> g')) D \<le> owed_total G D + delegated_to D k * inc"
proof -
  let ?extra = "\<lambda>j d. if fst j = k then uint (del_amount d) * inc else 0"
  have "owed_in (G(k \<mapsto> g')) (fst j) d \<le> owed_in G (fst j) d + ?extra j d" for j d
  proof (cases "fst j = k")
    case True
    have "uint (del_amount d) * max 0 (uint (gw_cumulative_reward_per_token g') - uint (del_reward_debt d))
        \<le> uint (del_amount d)
          * (max 0 (uint (gw_cumulative_reward_per_token g) - uint (del_reward_debt d)) + inc)"
      using inc by (intro mult_left_mono) auto
    with True g show ?thesis by (simp add: owed_in_def distrib_left)
  qed (simp add: owed_in_def)
  then have "owed_total (G(k \<mapsto> g')) D \<le> msum (\<lambda>j d. owed_in G (fst j) d + ?extra j d) D"
    unfolding owed_total_def by (rule msum_mono)
  also have "\<dots> = owed_total G D + msum ?extra D"
    using fin by (simp add: msum_add owed_total_def)
  also have "msum ?extra D = delegated_to D k * inc"
    by (auto simp: delegated_to_def msum_def sum_distrib_right intro!: sum.cong)
  finally show ?thesis .
qed

lemma owed_total_same:
  assumes "G k = Some g"
    and "gw_cumulative_reward_per_token g' = gw_cumulative_reward_per_token g"
  shows "owed_total (G(k \<mapsto> g')) D = owed_total G D"
  unfolding owed_total_def
  by (rule msum_cong) (use assms in \<open>auto simp: owed_in_def split: option.split\<close>)

section \<open>Scaling and splitting a reward\<close>

definition full_total :: "pending_distribution list \<Rightarrow> int" where
  "full_total ps = sum_list (map (\<lambda>p. uint (pd_full_reward p)) ps)"

definition scaled_total :: "u64 \<Rightarrow> u64 \<Rightarrow> pending_distribution list \<Rightarrow> int" where
  "scaled_total b t ps = sum_list (map (\<lambda>p. uint (scaled_reward b t p)) ps)"

lemma full_total_simps [simp]:
  "full_total [] = 0" "full_total (p # ps) = uint (pd_full_reward p) + full_total ps"
  "full_total (ps @ qs) = full_total ps + full_total qs"
  by (simp_all add: full_total_def)

lemma scaled_total_simps [simp]:
  "scaled_total b t [] = 0"
  "scaled_total b t (p # ps) = uint (scaled_reward b t p) + scaled_total b t ps"
  by (simp_all add: scaled_total_def)

lemma scaled_total_nonneg [simp]: "0 \<le> scaled_total b t ps"
  by (induction ps) simp_all

lemma full_total_nonneg [simp]: "0 \<le> full_total ps"
  by (induction ps) simp_all

text \<open>A reward of at most the batch total, scaled by what fits the treasury.\<close>

lemma uint_scaled_reward:
  assumes "pd_full_reward p \<le> b" and "t \<le> b"
  shows "uint (scaled_reward b t p) = uint (pd_full_reward p) * uint t div uint b"
proof (cases "b > 0 \<and> pd_full_reward p > 0")
  case True
  have fit: "uint (pd_full_reward p) * uint t < 2 ^ 128"
    by (rule mult_u64_fits) (use uint_bounds64 in auto)
  have b: "0 < uint b" using True by (simp add: word_pos_iff)
  have "uint (pd_full_reward p) * uint t div uint b \<le> uint (pd_full_reward p)"
    by (rule fee_le_amount) (use assms b in \<open>auto simp: uint_word_le\<close>)
  then have "uint (pd_full_reward p) * uint t div uint b < 2 ^ 64"
    using uint_bounds64(2) [of "pd_full_reward p"] by linarith
  moreover have "uint (saturating_mul (as_u128 (pd_full_reward p)) (as_u128 t) div as_u128 b)
      = uint (pd_full_reward p) * uint t div uint b"
    using fit by (simp add: uint_div uint_saturating_mul)
  ultimately show ?thesis
    using True by (simp add: scaled_reward_def uint_as_u64_small)
next
  case False
  then have "scaled_reward b t p = 0" by (auto simp: scaled_reward_def)
  moreover from False have "uint b = 0 \<or> uint (pd_full_reward p) = 0" by (auto simp: word_gt_0)
  ultimately show ?thesis by auto
qed

lemma full_le_total: "p \<in> set ps \<Longrightarrow> uint (pd_full_reward p) \<le> full_total ps"
proof (induction ps)
  case (Cons q ps)
  from Cons.prems consider "p = q" | "p \<in> set ps" by auto
  then show ?case
  proof cases
    case 1
    then show ?thesis by simp
  next
    case 2
    then show ?thesis
      using Cons.IH uint_bounds64(1) [of "pd_full_reward q"] unfolding full_total_simps by linarith
  qed
qed simp

lemma sum_div_le: "0 < (b :: int) \<Longrightarrow> x div b + y div b \<le> (x + y) div b"
  by (metis div_add1_eq le_add_same_cancel1 pos_imp_zdiv_nonneg_iff add_nonneg_nonneg pos_mod_sign)

lemma scaled_total_le_quot:
  assumes "0 < uint b" and "t \<le> b" and "\<And>p. p \<in> set ps \<Longrightarrow> pd_full_reward p \<le> b"
  shows "scaled_total b t ps \<le> full_total ps * uint t div uint b"
  using assms(3)
proof (induction ps)
  case (Cons p ps)
  have "scaled_total b t (p # ps)
        \<le> uint (pd_full_reward p) * uint t div uint b + full_total ps * uint t div uint b"
    using Cons uint_scaled_reward [OF _ assms(2), of p] by simp
  also have "\<dots> \<le> (uint (pd_full_reward p) * uint t + full_total ps * uint t) div uint b"
    by (rule sum_div_le [OF assms(1)])
  finally show ?case by (simp add: distrib_right)
qed simp

text \<open>Scaled rewards never add up to more than what is transferred.\<close>

lemma scaled_total_le:
  assumes "uint b = full_total ps" and "t \<le> b"
  shows "scaled_total b t ps \<le> uint t"
proof -
  have le: "pd_full_reward p \<le> b" if "p \<in> set ps" for p
    using full_le_total [OF that] assms(1) by (simp add: uint_word_le)
  show ?thesis
  proof (cases "0 < uint b")
    case True
    then show ?thesis
      using scaled_total_le_quot [OF True assms(2), of ps] le assms(1) by simp
  next
    case False
    then have "b = 0" using uint_bounds64(1) [of b] by (simp add: word_uint_eq_iff)
    then have "scaled_reward b t p = 0" for p by (simp add: scaled_reward_def)
    then have "scaled_total b t ps = 0" by (induction ps) simp_all
    then show ?thesis by simp
  qed
qed

lemma split_scaled_reward_exact:
  assumes "split_scaled_reward r ratio had = (oper, pool)" and "ratio \<le> 10000"
  shows "uint oper + uint pool = uint r"
    and "uint pool = (if had then uint r * uint ratio div 10000 else 0)"
proof -
  have ratio: "uint ratio \<le> 10000" using assms(2) by (simp add: uint_word_le)
  have le: "uint r * uint ratio div 10000 \<le> uint r"
    by (rule fee_le_amount) (use ratio in auto)
  have u16: "uint (as_u128 ratio) = uint ratio"
    using uint_lt2p [of ratio] by (simp add: unsigned_ucast_eq take_bit_int_eq_self)
  have "uint r * uint ratio \<le> 2 ^ 64 * 10000"
    using ratio uint_bounds64 [of r] by (intro mult_mono) auto
  then have v: "uint (as_u128 r * as_u128 ratio) = uint r * uint ratio"
    by (simp add: uint_mult_exact u16)
  have q: "uint (as_u64 (as_u128 r * as_u128 ratio div 10000)) = uint r * uint ratio div 10000"
    using le uint_bounds64(2) [of r] by (subst uint_as_u64_small) (auto simp: uint_div v)
  show pool: "uint pool = (if had then uint r * uint ratio div 10000 else 0)"
    using assms(1) q by (auto simp: split_scaled_reward_def Let_def word_gt_0 split: if_splits)
  have "oper = saturating_sub r pool"
    using assms(1) by (auto simp: split_scaled_reward_def Let_def)
  then show "uint oper + uint pool = uint r"
    using pool le by (auto simp: uint_saturating_sub)
qed

section \<open>Crediting a gateway\<close>

text \<open>What a credit changes, with the delegates' part that went into the accumulator.\<close>

lemma credit_gatewayD:
  assumes run: "credit_gateway b t p = Inr (g', paid, orphan)"
    and ratio: "g2_delegate_reward_share_ratio (gw_settings (pd_gateway p)) \<le> 10000"
    and room: "uint (gw_operator_stake (pd_gateway p)) + uint (scaled_reward b t p) < 2 ^ 64"
  obtains live inc where "0 \<le> live" "0 \<le> inc"
    "uint paid + live + uint orphan \<le> uint (scaled_reward b t p)"
    "uint (gw_cumulative_reward_per_token g') \<le> uint (gw_cumulative_reward_per_token (pd_gateway p)) + inc"
    "uint (gw_total_delegated_stake (pd_gateway p)) * inc \<le> 10 ^ 18 * live"
    "uint (gw_operator_stake g') = uint (gw_operator_stake (pd_gateway p)) + uint paid"
    "gw_total_delegated_stake g' = gw_total_delegated_stake (pd_gateway p)"
    "gateway_ok k (pd_gateway p) \<Longrightarrow> gateway_ok k g'"
proof (cases "scaled_reward b t p > 0")
  case False
  then have "g' = pd_gateway p" "paid = 0" "orphan = 0"
    using run by (auto simp: credit_gateway_def)
  then show ?thesis by (intro that [of 0 0]) simp_all
next
  case True
  let ?g = "pd_gateway p" and ?r = "scaled_reward b t p"
  obtain oper pool where split: "split_scaled_reward ?r
      (g2_delegate_reward_share_ratio (gw_settings ?g)) (pd_had_delegation_at_tally p) = (oper, pool)"
    by (cases "split_scaled_reward ?r (g2_delegate_reward_share_ratio (gw_settings ?g))
      (pd_had_delegation_at_tally p)")
  have sum: "uint oper + uint pool = uint ?r"
    using split_scaled_reward_exact(1) [OF split ratio] .
  define pays where "pays \<longleftrightarrow> oper > 0 \<and> gw_status ?g = Joined"
  define g1 where "g1 = (if pays
    then ?g\<lparr>gw_operator_stake := saturating_add (gw_operator_stake ?g) oper\<rparr> else ?g)"
  have paid_def: "paid = (if pays then oper else 0)"
    using run True split
    by (auto simp: credit_gateway_def Let_def pays_def result_iff split: if_splits)
  have pool_le: "uint pool \<le> uint ?r" using sum uint_bounds64(1) [of oper] by linarith
  then have paid: "uint paid + uint pool \<le> uint ?r" using sum paid_def by auto
  have oper_le: "uint oper \<le> uint ?r" using sum uint_bounds64(1) [of pool] by linarith
  have stake: "uint (gw_operator_stake g1) = uint (gw_operator_stake ?g) + uint paid"
  proof (cases pays)
    case True
    have "uint (gw_operator_stake ?g) + uint oper < 2 ^ 64" using room oper_le by linarith
    with True show ?thesis by (simp add: g1_def paid_def uint_saturating_add)
  qed (simp add: g1_def paid_def)
  have keeps: "gw_total_delegated_stake g1 = gw_total_delegated_stake ?g"
      "gw_cumulative_reward_per_token g1 = gw_cumulative_reward_per_token ?g"
    by (simp_all add: g1_def)
  have ok: "gateway_ok k g1" if "gateway_ok k ?g"
    using that by (auto simp: g1_def pays_def gateway_ok_def)
  consider (none) "pool = 0" "g' = g1" "orphan = 0"
    | (orphan) "pool > 0" "gw_total_delegated_stake ?g = 0" "g' = g1" "orphan = pool"
    | (live) v inc where "pool > 0" "gw_total_delegated_stake ?g > 0"
        "checked_mul (as_u128 pool) REWARD_PRECISION = Some v"
        "checked_div v (as_u128 (gw_total_delegated_stake ?g)) = Some inc"
        "g' = g1\<lparr>gw_cumulative_reward_per_token :=
                  saturating_add (gw_cumulative_reward_per_token g1) inc\<rparr>" "orphan = 0"
    using run True split keeps(1)
    by (auto simp: credit_gateway_def Let_def pays_def g1_def result_iff word_gt_0 split: if_splits)
  then show ?thesis
  proof cases
    case none
    then show ?thesis
      using stake keeps ok paid uint_bounds64(1) [of pool]
      by (intro that [of 0 0]) simp_all
  next
    case orphan
    then show ?thesis
      using stake keeps ok paid by (intro that [of 0 0]) simp_all
  next
    case live
    let ?t = "uint (gw_total_delegated_stake ?g)"
    have v: "uint v = uint pool * 10 ^ 18"
      using checked_mulD [OF live(3)] by (simp add: REWARD_PRECISION_def)
    have inc: "uint inc = uint v div ?t"
      using live(4) by (auto simp: checked_div_def uint_div split: if_splits)
    have "?t * uint inc \<le> uint v"
      unfolding inc minus_mod_eq_mult_div [symmetric]
      using live(2) by (simp add: word_pos_iff)
    then show ?thesis
      using live stake keeps ok paid v uint_bounds128(1) [of inc]
      by (intro that [of "uint pool" "uint inc"])
         (simp_all add: uint_saturating_add gateway_ok_def)
  qed
qed

section \<open>Pass 2\<close>

text \<open>What the buffer of pass 1 must be: current, distinct gateways with a sane share.\<close>

definition buffer_ok :: "gateway_map \<Rightarrow> pending_distribution list \<Rightarrow> bool" where
  "buffer_ok G ps \<longleftrightarrow> distinct (map pd_account ps)
     \<and> (\<forall>p \<in> set ps. G (pd_account p) = Some (pd_gateway p)
           \<and> g2_delegate_reward_share_ratio (gw_settings (pd_gateway p)) \<le> 10000)"

lemma buffer_ok_upd:
  "buffer_ok G (p # ps) \<Longrightarrow> buffer_ok (G(pd_account p \<mapsto> g)) ps"
  by (auto simp: buffer_ok_def) (metis imageI)

definition gateways_ok :: "gateway_map \<Rightarrow> bool" where
  "gateways_ok G \<longleftrightarrow> (\<forall>k g. G k = Some g \<longrightarrow> gateway_ok k g)"

text \<open>The gateways after pass 2, with what was paid, promised to delegates and orphaned.\<close>

definition pass2_ok :: "delegation_map \<Rightarrow> gateway_map \<Rightarrow> gateway_map \<Rightarrow> int \<Rightarrow> int \<Rightarrow> bool" where
  "pass2_ok D G G' paid live \<longleftrightarrow> 0 \<le> paid \<and> 0 \<le> live \<and> finite (dom G')
     \<and> stake_total G' = stake_total G + paid \<and> counter_total G' = counter_total G
     \<and> (\<forall>k. counter_of G' k = counter_of G k)
     \<and> owed_total G' D \<le> owed_total G D + 10 ^ 18 * live
     \<and> (gateways_ok G \<longrightarrow> gateways_ok G')"

lemma pass2_ok_refl: "finite (dom G) \<Longrightarrow> pass2_ok D G G 0 0"
  by (simp add: pass2_ok_def)

lemma pass2_ok_trans:
  assumes "pass2_ok D G G1 p l" and "pass2_ok D G1 G2 q m"
  shows "pass2_ok D G G2 (p + q) (l + m)"
proof -
  have "owed_total G2 D \<le> owed_total G D + 10 ^ 18 * (l + m)"
    using assms by (simp add: pass2_ok_def distrib_left)
  moreover have "stake_total G2 = stake_total G + (p + q)"
    using assms by (simp add: pass2_ok_def)
  ultimately show ?thesis
    using assms unfolding pass2_ok_def by (elim conjE, intro conjI) simp_all
qed

lemma credit_gateway_pass2_ok:
  assumes run: "credit_gateway b t p = Inr (g', paid, orphan)"
    and buf: "buffer_ok G (p # ps)" and fin: "finite (dom G)" "finite (dom D)"
    and cover: "\<And>k. delegated_to D k \<le> counter_of G k"
    and room: "stake_total G + uint (scaled_reward b t p) < 2 ^ 64"
  obtains live where
    "pass2_ok D G (G(pd_account p \<mapsto> g'\<lparr>gw_stats := update_stats p (gw_stats g')\<rparr>)) (uint paid) live"
    "uint paid + live + uint orphan \<le> uint (scaled_reward b t p)" "0 \<le> live"
proof -
  let ?k = "pd_account p" and ?g = "pd_gateway p"
  let ?g2 = "g'\<lparr>gw_stats := update_stats p (gw_stats g')\<rparr>"
  have g: "G ?k = Some ?g" and ratio: "g2_delegate_reward_share_ratio (gw_settings ?g) \<le> 10000"
    using buf by (auto simp: buffer_ok_def)
  have room_g: "uint (gw_operator_stake ?g) + uint (scaled_reward b t p) < 2 ^ 64"
    using lookup_le_totals(1) [OF fin(1) g] room by linarith
  obtain live inc where c: "0 \<le> live" "0 \<le> inc"
      "uint paid + live + uint orphan \<le> uint (scaled_reward b t p)"
      "uint (gw_cumulative_reward_per_token g') \<le> uint (gw_cumulative_reward_per_token ?g) + inc"
      "uint (gw_total_delegated_stake ?g) * inc \<le> 10 ^ 18 * live"
      "uint (gw_operator_stake g') = uint (gw_operator_stake ?g) + uint paid"
      "gw_total_delegated_stake g' = gw_total_delegated_stake ?g"
      "gateway_ok ?k ?g \<Longrightarrow> gateway_ok ?k g'"
    using credit_gatewayD [OF run ratio room_g, where k = "?k"] by metis
  have "owed_total (G(?k \<mapsto> ?g2)) D \<le> owed_total G D + delegated_to D ?k * inc"
    by (rule owed_total_raise [where G = G and D = D and k = ?k, OF fin(2) g]) (use c in simp_all)
  also have "delegated_to D ?k * inc \<le> uint (gw_total_delegated_stake ?g) * inc"
    using cover [of ?k] c(2) g by (intro mult_right_mono) (simp_all add: counter_of_lookup)
  also have "\<dots> \<le> 10 ^ 18 * live" by (rule c(5))
  finally have "owed_total (G(?k \<mapsto> ?g2)) D \<le> owed_total G D + 10 ^ 18 * live" by simp
  moreover have "gateways_ok (G(?k \<mapsto> ?g2))" if ok: "gateways_ok G"
  proof -
    have "gateway_ok ?k ?g2" using c(8) ok g by (simp add: gateways_ok_def gateway_ok_def)
    with ok show ?thesis by (simp add: gateways_ok_def)
  qed
  moreover have "stake_total (G(?k \<mapsto> ?g2)) = stake_total G + uint paid"
      "counter_total (G(?k \<mapsto> ?g2)) = counter_total G"
    using gateway_totals_upd [OF fin(1) g, of ?g2] c(6,7) by simp_all
  moreover have "counter_of (G(?k \<mapsto> ?g2)) k = counter_of G k" for k
    using c(7) g by (simp add: counter_of_lookup)
  ultimately have "pass2_ok D G (G(?k \<mapsto> ?g2)) (uint paid) live"
    using c(1) fin(1) unfolding pass2_ok_def by simp
  with c that show ?thesis by blast
qed

lemma apply_pending_pass2_ok:
  assumes "apply_pending b t ps G o1 r1 = Inr (G', o2, r2)"
    and "buffer_ok G ps" and "finite (dom G)" and "finite (dom D)"
    and "\<And>k. delegated_to D k \<le> counter_of G k"
    and "stake_total G + scaled_total b t ps < 2 ^ 64"
    and "uint o1 + scaled_total b t ps < 2 ^ 64" and "uint r1 + scaled_total b t ps < 2 ^ 64"
  shows "\<exists>paid live lost. pass2_ok D G G' paid live \<and> 0 \<le> lost
    \<and> uint o2 = uint o1 + paid \<and> uint r2 = uint r1 + lost
    \<and> paid + live + lost \<le> scaled_total b t ps"
  using assms
proof (induction ps arbitrary: G o1 r1)
  case Nil
  then show ?case by (intro exI [of _ 0]) (simp add: pass2_ok_refl)
next
  case (Cons p ps)
  from Cons.prems(1) obtain g' paid orphan where
    credit: "credit_gateway b t p = Inr (g', paid, orphan)"
    and rest: "apply_pending b t ps
        (G(pd_account p \<mapsto> g'\<lparr>gw_stats := update_stats p (gw_stats g')\<rparr>))
        (saturating_add o1 paid) (saturating_add r1 orphan) = Inr (G', o2, r2)"
    by (auto simp: result_iff)
  let ?G = "G(pd_account p \<mapsto> g'\<lparr>gw_stats := update_stats p (gw_stats g')\<rparr>)"
  let ?s = "uint (scaled_reward b t p)"
  note nn = scaled_total_nonneg [of b t ps] uint_bounds64(1) [of paid] uint_bounds64(1) [of orphan]
  have room: "stake_total G + ?s < 2 ^ 64"
    using Cons.prems(6) nn(1) unfolding scaled_total_simps by linarith
  obtain live where step: "pass2_ok D G ?G (uint paid) live"
      "uint paid + live + uint orphan \<le> ?s" "0 \<le> live"
    using credit_gateway_pass2_ok [OF credit Cons.prems(2-5) room] .
  have bound: "stake_total G + uint paid + scaled_total b t ps < 2 ^ 64"
      "uint o1 + uint paid < 2 ^ 64" "uint r1 + uint orphan < 2 ^ 64"
      "uint o1 + uint paid + scaled_total b t ps < 2 ^ 64"
      "uint r1 + uint orphan + scaled_total b t ps < 2 ^ 64"
    using Cons.prems(6-8) step(2,3) nn unfolding scaled_total_simps by linarith+
  have o: "uint (saturating_add o1 paid) = uint o1 + uint paid"
    using bound(2) by (simp add: uint_saturating_add)
  have r: "uint (saturating_add r1 orphan) = uint r1 + uint orphan"
    using bound(3) by (simp add: uint_saturating_add)
  have "\<exists>paid' live' lost. pass2_ok D ?G G' paid' live' \<and> 0 \<le> lost
      \<and> uint o2 = uint (saturating_add o1 paid) + paid'
      \<and> uint r2 = uint (saturating_add r1 orphan) + lost
      \<and> paid' + live' + lost \<le> scaled_total b t ps"
  proof (rule Cons.IH [OF rest])
    show "buffer_ok ?G ps" by (rule buffer_ok_upd [OF Cons.prems(2)])
    show "finite (dom ?G)" using Cons.prems(3) by simp
    show "delegated_to D k \<le> counter_of ?G k" for k
      using Cons.prems(5) [of k] step(1) by (simp add: pass2_ok_def)
    show "stake_total ?G + scaled_total b t ps < 2 ^ 64"
      using bound(1) step(1) by (simp add: pass2_ok_def)
    show "uint (saturating_add o1 paid) + scaled_total b t ps < 2 ^ 64"
      using o bound(4) by simp
    show "uint (saturating_add r1 orphan) + scaled_total b t ps < 2 ^ 64"
      using r bound(5) by simp
  qed (use Cons.prems in simp)
  then obtain paid' live' lost where tail: "pass2_ok D ?G G' paid' live'" "0 \<le> lost"
      "uint o2 = uint o1 + uint paid + paid'" "uint r2 = uint r1 + uint orphan + lost"
      "paid' + live' + lost \<le> scaled_total b t ps"
    using o r by auto
  show ?case
    by (intro exI [of _ "uint paid + paid'"] exI [of _ "live + live'"] exI [of _ "uint orphan + lost"])
       (use pass2_ok_trans [OF step(1) tail(1)] tail step nn in auto)
qed

section \<open>Pass 1\<close>

text \<open>No operator fills two slots of the registry, and no share exceeds the whole reward.\<close>

definition slots_distinct :: "gateway_registry \<Rightarrow> bool" where
  "slots_distinct reg \<longleftrightarrow>
     (\<forall>i < MAX_GATEWAYS. \<forall>j < MAX_GATEWAYS.
        slot_address (reg_gateways reg i) = slot_address (reg_gateways reg j)
        \<and> slot_address (reg_gateways reg i) \<noteq> 0 \<longrightarrow> i = j)"

definition shares_bounded :: "gateway_map \<Rightarrow> bool" where
  "shares_bounded G \<longleftrightarrow>
     (\<forall>k g. G k = Some g \<longrightarrow> g2_delegate_reward_share_ratio (gw_settings g) \<le> 10000)"

text \<open>The loop invariant of pass 1 at the cursor \<open>i\<close>.\<close>

definition pass1_ok :: "gar_state \<Rightarrow> nat \<Rightarrow> u64 \<Rightarrow> pending_distribution list \<Rightarrow> bool" where
  "pass1_ok s i tot ps \<longleftrightarrow> buffer_ok (gateways s) ps \<and> uint tot = full_total ps
     \<and> (\<forall>p \<in> set ps. \<exists>j < i. j < MAX_GATEWAYS \<and> pd_account p \<noteq> 0
           \<and> slot_address (reg_gateways (registry s) j) = pd_account p)"

lemma classify_gatewayD:
  "classify_gateway es e reg i account g = Inr p \<Longrightarrow> pd_account p = account \<and> pd_gateway p = g"
  by (auto simp: classify_gateway_def Let_def result_iff)

lemma pass1_ok_skip: "pass1_ok s i tot ps \<Longrightarrow> pass1_ok s (i + 1) tot ps"
  unfolding pass1_ok_def by (metis less_Suc_eq Suc_eq_plus1)

lemma pass1_ok_push:
  assumes "pass1_ok s i tot ps" and "slots_distinct (registry s)" and "shares_bounded (gateways s)"
    and "i < MAX_GATEWAYS" and "slot_address (reg_gateways (registry s) i) = pd_account p"
    and "pd_account p \<noteq> 0" and "gateways s (pd_account p) = Some (pd_gateway p)"
    and "(if pd_full_reward p > 0 then checked_add tot (pd_full_reward p) else Some tot) = Some tot'"
  shows "pass1_ok s (i + 1) tot' (ps @ [p])"
proof -
  have fresh: "pd_account q \<noteq> pd_account p" if q: "q \<in> set ps" for q
  proof
    assume "pd_account q = pd_account p"
    with assms(1) q obtain j where "j < i" "j < MAX_GATEWAYS"
        "slot_address (reg_gateways (registry s) j) = pd_account p"
      unfolding pass1_ok_def by metis
    moreover from this have "j = i"
      using assms(2,4-6) unfolding slots_distinct_def by metis
    ultimately show False by simp
  qed
  have "uint tot' = uint tot + uint (pd_full_reward p)"
    using assms(8) by (auto dest: checked_addD simp: word_gt_0 split: if_splits)
  moreover have "buffer_ok (gateways s) (ps @ [p])"
    using assms(1,3,7) fresh unfolding pass1_ok_def buffer_ok_def shares_bounded_def
    by (auto dest: fresh)
  moreover have "\<exists>j < i + 1. j < MAX_GATEWAYS \<and> pd_account q \<noteq> 0
      \<and> slot_address (reg_gateways (registry s) j) = pd_account q" if "q \<in> set (ps @ [p])" for q
  proof (cases "q = p")
    case True
    with assms(4-6) show ?thesis by (intro exI [of _ i]) simp
  next
    case False
    with that pass1_ok_skip [OF assms(1)] show ?thesis unfolding pass1_ok_def by simp
  qed
  ultimately show ?thesis
    using assms(1) by (simp add: pass1_ok_def)
qed

lemma collect_pending_pass1_ok:
  assumes "collect_pending s e infos i tot ps = Inr (i', tot', ps')"
    and "pass1_ok s i tot ps" and "slots_distinct (registry s)" and "shares_bounded (gateways s)"
  shows "pass1_ok s i' tot' ps'"
  using assms(1,2)
proof (induction infos arbitrary: i tot ps)
  case (Cons info infos)
  show ?case
  proof (cases "i \<ge> unat (ep_active_gateway_count e)")
    case True
    with Cons.prems show ?thesis by simp
  next
    case more: False
    show ?thesis
    proof (cases "slot_address (reg_gateways (registry s) i) = 0")
      case True
      with more Cons.prems(1) have "collect_pending s e infos (i + 1) tot ps = Inr (i', tot', ps')"
        by (simp add: result_iff)
      then show ?thesis by (rule Cons.IH) (rule pass1_ok_skip [OF Cons.prems(2)])
    next
      case False
      with more Cons.prems(1) obtain gw g p t where i: "i < MAX_GATEWAYS"
          and g: "gateways s gw = Some g" "gw_operator g = gw"
          and slot: "slot_address (reg_gateways (registry s) i) = gw_operator g"
          and p: "classify_gateway (epoch_settings_acc s) e (registry s) i gw g = Inr p"
          and t: "(if pd_full_reward p > 0 then checked_add tot (pd_full_reward p) else Some tot) = Some t"
          and rest: "collect_pending s e infos (i + 1) t (ps @ [p]) = Inr (i', tot', ps')"
        by (simp add: result_iff split: gar_pda.splits) blast
      have "pass1_ok s (i + 1) t (ps @ [p])"
        by (rule pass1_ok_push [OF Cons.prems(2) assms(3,4) i])
           (use classify_gatewayD [OF p] g slot False t in auto)
      with rest show ?thesis by (rule Cons.IH)
    qed
  qed
qed simp

section \<open>The instruction\<close>

lemma release_treasuryD:
  assumes "(if t > 0 then release_treasury_to_recipient env cfg src dst t s else Inr s) = Inr s1"
    and "src \<noteq> dst"
  obtains l where "s1 = s\<lparr>cpi_log := l\<rparr>" and "token_flow dst l = token_flow dst (cpi_log s) + uint t"
proof (cases "t > 0")
  case True
  with assms(1) have "token_transfer env src dst (tc_key cfg) t s = Inr s1"
    by (auto simp: release_treasury_to_recipient_def result_iff)
  from token_transferD [OF this] show ?thesis
    by (rule that) (use assms(2) in \<open>simp add: transfer_flow_simps\<close>)
next
  case False
  with assms(1) show ?thesis
    by (intro that [of "cpi_log s"]) (simp_all add: word_gt_0)
qed

lemma distribute_batch_run:
  assumes run: "distribute_batch env cfg remaining ix e (gs_protocol_token_account (settings s))
      (gs_stake_token_account (settings s)) s = Inr s'"
    and differ: "gs_stake_token_account (settings s) \<noteq> gs_protocol_token_account (settings s)"
  obtains E G protocol dist_idx batch_total pending staked l oper orphaned where
      "s' = s\<lparr>gateways := G, cpi_log := l, epochs := E,
              settings := (settings s)\<lparr>gs_total_staked := staked\<rparr>\<rparr>"
      "token_accounts env (gs_protocol_token_account (settings s)) = Some protocol"
      "collect_pending s e remaining (unat (ep_distribution_index e)) 0 [] = Inr (dist_idx, batch_total, pending)"
      "apply_pending batch_total (min batch_total (ta_amount protocol)) pending (gateways s) 0 0
         = Inr (G, oper, orphaned)"
      "token_flow (gs_stake_token_account (settings s)) l
         = pool_flow s + uint (saturating_sub (min batch_total (ta_amount protocol)) orphaned)"
      "(if oper > 0 then checked_add (gs_total_staked (settings s)) oper
        else Some (gs_total_staked (settings s))) = Some staked"
proof -
  from run obtain dist_idx batch_total pending protocol G oper orphaned s2 staked where
    parts: "collect_pending s e remaining (unat (ep_distribution_index e)) 0 [] = Inr (dist_idx, batch_total, pending)"
      "token_accounts env (gs_protocol_token_account (settings s)) = Some protocol"
      "apply_pending batch_total (min batch_total (ta_amount protocol)) pending (gateways s) 0 0
          = Inr (G, oper, orphaned)"
      "(if oper > 0 then checked_add (gs_total_staked (settings s2)) oper
         else Some (gs_total_staked (settings s2))) = Some staked"
    and release: "(if saturating_sub (min batch_total (ta_amount protocol)) orphaned > 0
         then release_treasury_to_recipient env cfg (gs_protocol_token_account (settings s))
                (gs_stake_token_account (settings s))
                (saturating_sub (min batch_total (ta_amount protocol)) orphaned) (s\<lparr>gateways := G\<rparr>)
         else Inr (s\<lparr>gateways := G\<rparr>)) = Inr s2"
    and s': "\<exists>E. s' = s2\<lparr>epochs := E, settings := (settings s2)\<lparr>gs_total_staked := staked\<rparr>\<rparr>"
    unfolding distribute_batch_def Let_def run_iff prod3_iff by blast
  obtain l where l: "s2 = s\<lparr>gateways := G, cpi_log := l\<rparr>"
      "token_flow (gs_stake_token_account (settings s)) l
        = pool_flow s + uint (saturating_sub (min batch_total (ta_amount protocol)) orphaned)"
    by (rule release_treasuryD [OF release]) (use differ in \<open>auto simp: pool_flow_def\<close>)
  from s' l(1) obtain E where "s' = s\<lparr>gateways := G, cpi_log := l, epochs := E,
      settings := (settings s)\<lparr>gs_total_staked := staked\<rparr>\<rparr>" by auto
  moreover have "settings s2 = settings s" using l(1) by simp
  note parts(4) [unfolded this]
  ultimately show ?thesis using parts(1-3) l(2) by (intro that)
qed

text \<open>The state a batch leaves: the credited stake and the promised rewards fit the transfer.\<close>

lemma distribute_batch_ledger:
  assumes run: "distribute_batch env cfg remaining ix e (gs_protocol_token_account (settings s))
      (gs_stake_token_account (settings s)) s = Inr s'"
    and inv: "gar_inv bal s"
    and treasury: "token_accounts env (gs_protocol_token_account (settings s)) = Some protocol"
      "bal + pool_flow s + uint (ta_amount protocol) < 2 ^ 64 - 1"
    and reg: "slots_distinct (registry s)" "shares_bounded (gateways s)"
  obtains paid live lost moved where
    "pass2_ok (delegations s) (gateways s) (gateways s') paid live" "0 \<le> lost"
    "paid + live + lost \<le> moved + lost" "moved + lost \<le> uint (ta_amount protocol)"
    "pool_flow s' = pool_flow s + moved"
    "uint (gs_total_staked (settings s')) = uint (gs_total_staked (settings s)) + paid"
    "\<exists>E G l st. s' = s\<lparr>gateways := G, cpi_log := l, epochs := E,
                          settings := (settings s)\<lparr>gs_total_staked := st\<rparr>\<rparr>"
proof -
  note fin = gar_invD(1,2) [OF inv]
  obtain E G protocol' dist_idx b ps staked l oper orphaned where
    s': "s' = s\<lparr>gateways := G, cpi_log := l, epochs := E,
                settings := (settings s)\<lparr>gs_total_staked := staked\<rparr>\<rparr>"
    and protocol': "token_accounts env (gs_protocol_token_account (settings s)) = Some protocol'"
    and collect: "collect_pending s e remaining (unat (ep_distribution_index e)) 0 [] = Inr (dist_idx, b, ps)"
    and pass2': "apply_pending b (min b (ta_amount protocol')) ps (gateways s) 0 0 = Inr (G, oper, orphaned)"
    and flow': "token_flow (gs_stake_token_account (settings s)) l
        = pool_flow s + uint (saturating_sub (min b (ta_amount protocol')) orphaned)"
    and staked: "(if oper > 0 then checked_add (gs_total_staked (settings s)) oper
        else Some (gs_total_staked (settings s))) = Some staked"
    by (rule distribute_batch_run [OF run gar_invD(5) [OF inv]])
  let ?t = "min b (ta_amount protocol)"
  have "protocol' = protocol" using protocol' treasury(1) by simp
  note pass2 = pass2' [unfolded this] and flow = flow' [unfolded this]
  have "pass1_ok s dist_idx b ps"
    using collect_pending_pass1_ok [OF collect _ reg] by (simp add: pass1_ok_def buffer_ok_def)
  then have buf: "buffer_ok (gateways s) ps" and b: "uint b = full_total ps"
    by (simp_all add: pass1_ok_def)
  have scaled: "scaled_total b ?t ps \<le> uint ?t"
    using scaled_total_le [OF b, of ?t] by simp
  also have t_le: "\<dots> \<le> uint (ta_amount protocol)" by (simp add: uint_min_word)
  finally have scaled': "scaled_total b ?t ps \<le> uint (ta_amount protocol)" .
  have "stake_total (gateways s) \<le> bal + pool_flow s"
    using gar_invD(9) [OF inv] totals_nonneg(2) [of "gateways s"]
      totals_nonneg(3) [of "gateways s" "delegations s"] totals_nonneg(4) [of "withdrawals s"]
    unfolding obligations_def by linarith
  then have room: "stake_total (gateways s) + scaled_total b ?t ps < 2 ^ 64"
    using scaled' treasury(2) by linarith
  have cover: "delegated_to (delegations s) k \<le> counter_of (gateways s) k" for k
    using inv by (simp add: gar_inv_def counters_cover_def drift_def)
  have small: "scaled_total b ?t ps < 2 ^ 64"
    using room totals_nonneg(1) [of "gateways s"] by linarith
  obtain paid live lost where p: "pass2_ok (delegations s) (gateways s) G paid live" "0 \<le> lost"
      "uint oper = paid" "uint orphaned = lost" "paid + live + lost \<le> scaled_total b ?t ps"
    using apply_pending_pass2_ok [OF pass2 buf fin cover room] small by auto
  define moved where "moved = uint (saturating_sub ?t orphaned)"
  have pos: "0 \<le> paid" "0 \<le> live" using p(1) by (simp_all add: pass2_ok_def)
  have moved: "moved + lost = uint ?t"
    using p scaled pos by (simp add: moved_def uint_saturating_sub)
  have "uint staked = uint (gs_total_staked (settings s)) + paid"
    using staked p(3) by (auto dest: checked_addD simp: word_gt_0 split: if_splits)
  moreover have "paid + live + lost \<le> moved + lost" using p(5) scaled moved by linarith
  moreover have "moved + lost \<le> uint (ta_amount protocol)" using t_le moved by linarith
  ultimately show ?thesis
    using p flow s' by (intro that [of paid live lost moved]) (auto simp: pool_flow_def moved_def)
qed

lemma distribute_batch_keeps_gar_inv:
  assumes run: "distribute_batch env cfg remaining ix e (gs_protocol_token_account (settings s))
      (gs_stake_token_account (settings s)) s = Inr s'"
    and inv: "gar_inv bal s"
    and treasury: "token_accounts env (gs_protocol_token_account (settings s)) = Some protocol"
      "bal + pool_flow s + uint (ta_amount protocol) < 2 ^ 64 - 1"
    and reg: "slots_distinct (registry s)" "shares_bounded (gateways s)"
  shows "gar_inv bal s'"
proof -
  obtain paid live lost moved where
    p: "pass2_ok (delegations s) (gateways s) (gateways s') paid live" "0 \<le> lost"
    and le: "paid + live + lost \<le> moved + lost" "moved + lost \<le> uint (ta_amount protocol)"
    and flow: "pool_flow s' = pool_flow s + moved"
    and staked: "uint (gs_total_staked (settings s')) = uint (gs_total_staked (settings s)) + paid"
    and s': "\<exists>E G l st. s' = s\<lparr>gateways := G, cpi_log := l, epochs := E,
                          settings := (settings s)\<lparr>gs_total_staked := st\<rparr>\<rparr>"
    using distribute_batch_ledger [OF assms] .
  have same: "delegations s' = delegations s" "withdrawals s' = withdrawals s"
      "gs_stake_token_account (settings s') = gs_stake_token_account (settings s)"
      "gs_protocol_token_account (settings s') = gs_protocol_token_account (settings s)"
      "gs_total_delegated (settings s') = gs_total_delegated (settings s)"
      "gs_total_withdrawn (settings s') = gs_total_withdrawn (settings s)"
    using s' by auto
  let ?G = "gateways s" and ?G' = "gateways s'" and ?D = "delegations s"
  have "well_formed s'"
    using inv p(1) same by (auto simp: gar_inv_def well_formed_def pass2_ok_def gateways_ok_def)
  moreover have "supply_consistent s'"
    using inv p(1) same staked by (simp add: gar_inv_def supply_consistent_def pass2_ok_def)
  moreover have "counters_cover s'"
    using inv p(1) same by (simp add: gar_inv_def counters_cover_def drift_def pass2_ok_def)
  moreover have "10 ^ 18 * obligations s' + dust_total ?G' ?D \<le> 10 ^ 18 * (bal + pool_flow s')"
  proof -
    have "pending_total ?G ?D \<le> bal + pool_flow s"
      using gar_invD(9) [OF inv] totals_nonneg(1,2) [of ?G] totals_nonneg(4) [of "withdrawals s"]
      unfolding obligations_def by linarith
    then have "pending_total ?G ?D < 2 ^ 64 - 1"
      using treasury(2) uint_bounds64(1) [of "ta_amount protocol"] by linarith
    then have owed: "owed_total ?G ?D = 10 ^ 18 * pending_total ?G ?D + dust_total ?G ?D"
      by (rule owed_total_eq [OF gar_invD(2) [OF inv]])
    have owed': "10 ^ 18 * pending_total ?G' ?D + dust_total ?G' ?D \<le> owed_total ?G' ?D"
      by (rule pending_dust_le_owed_total [OF gar_invD(2) [OF inv]])
    have raise: "owed_total ?G' ?D \<le> owed_total ?G ?D + 10 ^ 18 * live"
        "stake_total ?G' = stake_total ?G + paid" "counter_total ?G' = counter_total ?G"
      using p(1) by (simp_all add: pass2_ok_def)
    have solvent: "10 ^ 18 * obligations s + dust_total ?G ?D \<le> 10 ^ 18 * (bal + pool_flow s)"
      using inv by (simp add: gar_inv_def)
    have "10 ^ 18 * obligations s' + dust_total ?G' ?D
        \<le> 10 ^ 18 * obligations s + dust_total ?G ?D + 10 ^ 18 * (paid + live)"
      using owed owed' raise same by (simp add: obligations_def)
    also have "\<dots> \<le> 10 ^ 18 * (bal + pool_flow s) + 10 ^ 18 * moved"
      using solvent le(1) by simp
    finally show ?thesis using flow by simp
  qed
  moreover have "bal + pool_flow s' < 2 ^ 64"
    using flow le(2) p(2) treasury(2) by linarith
  ultimately show ?thesis using same by (simp add: gar_inv_def)
qed

lemma distribute_epoch_run:
  assumes "distribute_epoch env cfg remaining ix protocol_ta stake_ta s = Inr s'"
  obtains (skipped) E where "s' = s\<lparr>epochs := E\<rparr>"
    | (batch) e where "epochs s ix = Some e"
      "distribute_batch env cfg remaining ix e (gs_protocol_token_account (settings s))
         (gs_stake_token_account (settings s)) s = Inr s'"
proof -
  from assms obtain e where e: "epochs s ix = Some e"
      and accs: "protocol_ta = gs_protocol_token_account (settings s)"
        "stake_ta = gs_stake_token_account (settings s)"
    unfolding distribute_epoch_def run_iff by blast
  show ?thesis
    using assms e accs
    by (cases "ep_observations_submitted e = 0 \<and> ep_distribution_index e = 0")
       (auto simp: distribute_epoch_def run_iff intro: skipped batch)
qed

lemma quiet_epoch_keeps_gar_inv: "gar_inv bal s \<Longrightarrow> gar_inv bal (s\<lparr>epochs := E\<rparr>)"
  by (simp add: gar_inv_def well_formed_def supply_consistent_def counters_cover_def
      obligations_def pool_flow_def)

lemma distribute_epoch_keeps_gar_inv:
  assumes "distribute_epoch env cfg remaining ix protocol_ta stake_ta s = Inr s'"
    and "gar_inv bal s"
    and "token_accounts env (gs_protocol_token_account (settings s)) = Some protocol"
    and "bal + pool_flow s + uint (ta_amount protocol) < 2 ^ 64 - 1"
    and "slots_distinct (registry s)" and "shares_bounded (gateways s)"
  shows "gar_inv bal s'"
  using assms(1)
proof (cases rule: distribute_epoch_run)
  case skipped
  then show ?thesis using quiet_epoch_keeps_gar_inv [OF assms(2)] by simp
next
  case batch
  show ?thesis by (rule distribute_batch_keeps_gar_inv [OF batch(2) assms(2-6)])
qed

end
