(* ===== verification/Gar_Frame.thy ===== *)
theory Gar_Frame
  imports Gar_Conserve_Delegate Gar_Conserve_Gateway Gar_Conserve_Payment Gar_Conserve_Rewards
begin

text \<open>
  What the instructions of the stake ledger leave alone: the configuration in the settings, the
  registry, and the part of a gateway that the registry and the reward split depend on.
\<close>

section \<open>Configuration, shape and frame\<close>

definition strip :: "gateway_settings \<Rightarrow> gateway_settings" where
  "strip gs = gs\<lparr>gs_total_staked := 0, gs_total_delegated := 0, gs_total_withdrawn := 0\<rparr>"

lemma strip_simps [simp]:
  "strip (gs\<lparr>gs_total_staked := x\<rparr>) = strip gs"
  "strip (gs\<lparr>gs_total_delegated := x\<rparr>) = strip gs"
  "strip (gs\<lparr>gs_total_withdrawn := x\<rparr>) = strip gs"
  by (simp_all add: strip_def)

abbreviation config :: "gar_state \<Rightarrow> gateway_settings" where
  "config s \<equiv> strip (settings s)"

text \<open>Operator, registry index, and the active and staged reward shares of a gateway.\<close>

definition gw_shape :: "gateway \<Rightarrow> pubkey \<times> u32 \<times> u16 \<times> u16 option" where
  "gw_shape g = (gw_operator g, gw_registry_index g,
     g2_delegate_reward_share_ratio (gw_settings g),
     g2_pending_delegate_reward_share_ratio (gw_settings g))"

definition shapes :: "gateway_map \<Rightarrow> pubkey \<Rightarrow> (pubkey \<times> u32 \<times> u16 \<times> u16 option) option" where
  "shapes G k = map_option gw_shape (G k)"

text \<open>The accounts of the epoch lifecycle, which only the lifecycle's own instructions write.\<close>

abbreviation lifecycle :: "gar_state \<Rightarrow> (u64 \<rightharpoonup> epoch) \<times> (u64 \<times> pubkey \<rightharpoonup> observation)
    \<times> (u64 \<rightharpoonup> epoch_rent_receipt) \<times> (gar_pda \<times> pubkey) list" where
  "lifecycle s \<equiv> (epochs s, observations s, epoch_rent_receipts s, rent_log s)"

definition frame :: "gar_state \<Rightarrow> gar_state \<Rightarrow> bool" where
  "frame s s' \<longleftrightarrow> lifecycle s' = lifecycle s \<and> config s' = config s \<and> registry s' = registry s
     \<and> epoch_settings_acc s' = epoch_settings_acc s
     \<and> shapes (gateways s') = shapes (gateways s)"

text \<open>The fields every theorem about money reads are configuration.\<close>

lemma config_fields:
  "config s' = config s \<Longrightarrow>
     gs_stake_token_account (settings s') = gs_stake_token_account (settings s)
     \<and> gs_protocol_token_account (settings s') = gs_protocol_token_account (settings s)
     \<and> gs_min_expedited_withdrawal_penalty (settings s') = gs_min_expedited_withdrawal_penalty (settings s)
     \<and> gs_max_expedited_withdrawal_penalty (settings s') = gs_max_expedited_withdrawal_penalty (settings s)
     \<and> gs_withdrawal_period (settings s') = gs_withdrawal_period (settings s)
     \<and> gs_min_operator_stake (settings s') = gs_min_operator_stake (settings s)"
  unfolding strip_def
  by (drule arg_cong [of _ _ "\<lambda>c. (gs_stake_token_account c, gs_protocol_token_account c,
        gs_min_expedited_withdrawal_penalty c, gs_max_expedited_withdrawal_penalty c,
        gs_withdrawal_period c, gs_min_operator_stake c)"]) simp

lemma shapes_upd [simp]: "shapes (G(k \<mapsto> g')) = (shapes G)(k \<mapsto> gw_shape g')"
  by (auto simp: shapes_def fun_eq_iff)

lemma shapes_idem [simp]: "G k = Some g \<Longrightarrow> (shapes G)(k \<mapsto> gw_shape g) = shapes G"
  by (auto simp: shapes_def fun_eq_iff)

lemma gw_shape_simps [simp]:
  "gw_shape (g\<lparr>gw_operator_stake := a\<rparr>) = gw_shape g"
  "gw_shape (g\<lparr>gw_total_delegated_stake := a\<rparr>) = gw_shape g"
  "gw_shape (g\<lparr>gw_status := st\<rparr>) = gw_shape g"
  "gw_shape (g\<lparr>gw_leave_timestamp := lt\<rparr>) = gw_shape g"
  "gw_shape (g\<lparr>gw_leave_epoch_duration := d\<rparr>) = gw_shape g"
  "gw_shape (g\<lparr>gw_cumulative_reward_per_token := c\<rparr>) = gw_shape g"
  "gw_shape (g\<lparr>gw_stats := stt\<rparr>) = gw_shape g"
  "gw_shape (g\<lparr>gw_observer_address := ob\<rparr>) = gw_shape g"
  "gw_shape (g\<lparr>gw_operations_address := oa\<rparr>) = gw_shape g"
  by (simp_all add: gw_shape_def)

lemma settle_shape:
  "settle_delegate_rewards g d = (g1, d1, p) \<Longrightarrow> gw_shape g1 = gw_shape g"
  by (auto simp: settle_delegate_rewards_eq)

lemma frame_refl [simp]: "frame s s"
  by (simp add: frame_def)

lemma frame_trans: "frame s s1 \<Longrightarrow> frame s1 s2 \<Longrightarrow> frame s s2"
  by (simp add: frame_def)

lemma frameI:
  assumes "lifecycle s' = lifecycle s" and "config s' = config s" and "registry s' = registry s"
    and "epoch_settings_acc s' = epoch_settings_acc s"
    and "gateways s' = gateways s \<or>
         (\<exists>k g g'. gateways s k = Some g \<and> gateways s' = (gateways s)(k \<mapsto> g') \<and> gw_shape g' = gw_shape g)"
  shows "frame s s'"
  using assms by (auto simp: frame_def)

lemma token_transfer_frame: "token_transfer env src dst auth a s = Inr s' \<Longrightarrow> frame s s'"
  by (drule token_transferD) (simp add: frame_def)

lemma open_withdrawal_frame: "open_withdrawal env u gw a at d e p s = Inr s' \<Longrightarrow> frame s s'"
  by (auto simp: open_withdrawal_def Let_def run_iff frame_def)

lemma close_observer_lookup_frame: "frame s (close_observer_lookup g remaining s)"
  by (simp add: close_observer_lookup_def frame_def)

section \<open>Operator stake and withdrawals\<close>

lemma increase_operator_stake_frame:
  "increase_operator_stake env operator ata stake_ta amount s = Inr s' \<Longrightarrow> frame s s'"
  by (auto simp: increase_operator_stake_def accounts_defs run_iff Let_def frame_def
      dest!: token_transferD)

lemma decrease_operator_stake_frame:
  assumes "decrease_operator_stake env operator amount s = Inr s'"
  shows "frame s s'"
  using assms
  by (auto simp: decrease_operator_stake_def accounts_defs run_iff Let_def frame_def
      dest!: open_withdrawal_frame)

lemma claim_withdrawal_frame:
  "claim_withdrawal env owner wid stake_ta owner_ata s = Inr s' \<Longrightarrow> frame s s'"
  by (auto simp: claim_withdrawal_def accounts_defs run_iff Let_def frame_def dest!: token_transferD)

lemma instant_withdrawal_frame:
  "instant_withdrawal env owner wid stake_ta owner_ata protocol_ta s = Inr s' \<Longrightarrow> frame s s'"
  by (erule instant_withdrawal_run) (auto simp: frame_def dest!: token_transferD)

lemma close_drained_withdrawal_frame:
  "close_drained_withdrawal owner wid s = Inr s' \<Longrightarrow> frame s s'"
  by (auto simp: close_drained_withdrawal_def run_iff frame_def)

lemma cancel_withdrawal_frame:
  "cancel_withdrawal owner wid gw dp s = Inr s' \<Longrightarrow> frame s s'"
  unfolding cancel_withdrawal_def accounts_defs Let_def run_iff if_Inr_iff
  by (elim exE conjE disjE; clarsimp simp: frame_def settle_shape)

section \<open>Delegated stake\<close>

lemma settle_quiet_shape:
  "(if c then settle_delegate_rewards g d else (g, d, 0)) = (g1, d1, p) \<Longrightarrow> gw_shape g1 = gw_shape g"
  by (auto split: if_splits dest: settle_shape)

lemma delegate_stake_frame:
  "delegate_stake env remaining gw delegator ata stake_ta amount s = Inr s' \<Longrightarrow> frame s s'"
  by (auto simp: delegate_stake_def accounts_defs run_iff Let_def frame_def
      dest!: settle_quiet_shape settle_shape token_transferD)

lemma decrease_delegate_stake_frame:
  "decrease_delegate_stake env gw delegator amount s = Inr s' \<Longrightarrow> frame s s'"
  by (auto simp: decrease_delegate_stake_def accounts_defs run_iff Let_def frame_def
      dest!: settle_shape open_withdrawal_frame)

lemma close_empty_delegation_frame:
  "close_empty_delegation gw delegator s = Inr s' \<Longrightarrow> frame s s'"
  by (auto simp: close_empty_delegation_def accounts_defs run_iff Let_def frame_def dest!: settle_shape)

lemma claim_delegate_body_frame:
  "claim_delegate_body env gw delegator g d s = Inr s' \<Longrightarrow> gateways s gw = Some g \<Longrightarrow> frame s s'"
  by (auto simp: claim_delegate_body_def run_iff Let_def frame_def
      dest!: settle_shape open_withdrawal_frame)

lemma claim_delegate_from_leaving_gateway_frame:
  "claim_delegate_from_leaving_gateway env gw delegator s = Inr s' \<Longrightarrow> frame s s'"
  by (auto simp: claim_delegate_from_leaving_gateway_def accounts_defs run_iff
      intro: claim_delegate_body_frame)

lemma claim_delegate_from_disabled_gateway_frame:
  "claim_delegate_from_disabled_gateway env gw delegator s = Inr s' \<Longrightarrow> frame s s'"
  by (auto simp: claim_delegate_from_disabled_gateway_def accounts_defs run_iff
      intro: claim_delegate_body_frame)

lemma redelegate_stake_frame:
  "redelegate_stake env remaining src tgt delegator ata stake_ta protocol_ta amount s = Inr s' \<Longrightarrow> frame s s'"
  by (erule redelegate_stake_run)
     (auto simp: frame_def dest!: settle_shape token_transferD split: if_splits)

lemma compound_delegation_rewards_frame:
  "compound_delegation_rewards gw delegator s = Inr s' \<Longrightarrow> frame s s'"
  by (auto simp: compound_delegation_rewards_def accounts_defs run_iff Let_def frame_def
      dest!: settle_shape)

section \<open>Payments\<close>

lemma deduct_delegation_for_payment_frame:
  "deduct_delegation_for_payment env gw delegator stake_ta protocol_ta amount s = Inr s' \<Longrightarrow> frame s s'"
  by (auto simp: deduct_delegation_for_payment_def accounts_defs run_iff Let_def frame_def
      dest!: settle_shape token_transferD)

lemma deduct_operator_stake_for_payment_frame:
  "deduct_operator_stake_for_payment env operator stake_ta protocol_ta amount s = Inr s' \<Longrightarrow> frame s s'"
  by (auto simp: deduct_operator_stake_for_payment_def accounts_defs run_iff Let_def frame_def
      dest!: token_transferD)

lemma deduct_withdrawal_for_payment_frame:
  "deduct_withdrawal_for_payment env owner wid stake_ta protocol_ta amount s = Inr s' \<Longrightarrow> frame s s'"
  by (auto simp: deduct_withdrawal_for_payment_def accounts_defs run_iff Let_def frame_def
      dest!: token_transferD)

lemma drain_delegation_shape:
  "drain_delegation amount post' g d a = Inr (g', d', a') \<Longrightarrow>
     gw_shape g' = gw_shape g \<and> pa_state a' = pa_state a"
  by (auto simp: drain_delegation_def run_iff split: if_splits)

lemma apply_delegation_source_frame:
  assumes "apply_delegation_source payer amount a = Inr a'"
  shows "frame (pa_state a) (pa_state a')"
  using assms unfolding apply_delegation_source_def next_account_iff plan_gateway_iff run_iff Let_def
  by (clarsimp dest!: drain_delegation_shape settle_shape) (simp add: frame_def)

lemma apply_operator_source_frame:
  assumes "apply_operator_source payer amount a = Inr a'"
  shows "frame (pa_state a) (pa_state a')"
  using assms unfolding apply_operator_source_def next_account_iff plan_gateway_iff run_iff Let_def
  by (auto simp: frame_def)

lemma apply_withdrawal_source_frame:
  assumes "apply_withdrawal_source payer amount a = Inr a'"
  shows "frame (pa_state a) (pa_state a')"
  using assms unfolding apply_withdrawal_source_def next_account_iff
  by (elim exE conjE) (auto simp: frame_def run_iff split: gar_pda.split_asm)

lemma apply_sources_frame:
  "apply_sources payer has_ata sources a = Inr a' \<Longrightarrow> frame (pa_state a) (pa_state a')"
proof (induction sources arbitrary: a)
  case (Cons src sources)
  then obtain a1 where src: "apply_source payer has_ata src a = Inr a1"
    and rest: "apply_sources payer has_ata sources a1 = Inr a'" by (auto simp: run_iff)
  have "frame (pa_state a) (pa_state a1)"
    using src
    by (auto simp: apply_source_def apply_balance_source_def run_iff
        intro: apply_delegation_source_frame apply_operator_source_frame apply_withdrawal_source_frame
        split: funding_source_kind.splits)
  from frame_trans [OF this Cons.IH [OF rest]] show ?case .
qed simp

lemma open_residue_vaults_frame:
  "open_residue_vaults env payer targets remaining s = Inr (rest, s') \<Longrightarrow> frame s s'"
proof (induction targets arbitrary: remaining s)
  case (Cons t targets)
  then obtain gw residue new more at s1 where
    op: "open_withdrawal env payer gw residue at True False False s = Inr s1"
    and rest: "open_residue_vaults env payer targets more s1 = Inr (rest, s')"
    by (cases t) (auto simp: run_iff Let_def split: list.splits)
  from frame_trans [OF open_withdrawal_frame [OF op] Cons.IH [OF rest]] show ?case .
qed simp

lemma pay_from_funding_plan_frame:
  assumes "pay_from_funding_plan env remaining stake_ta protocol_ta payer_ata payer
             sources expected_total residue_vault_count s = Inr s'"
  shows "frame s s'"
proof (rule pay_from_funding_plan_run [OF assms], goal_cases)
  case (1 a s1 s2 rest s4 withdrawn)
  have "frame s (pa_state a)"
    using apply_sources_frame [OF 1(5)] by (simp add: init_acc_def)
  moreover have "frame (pa_state a) s1" using 1(6) by (auto dest: token_transfer_frame split: if_splits)
  moreover have "frame s1 s2"
    using 1(7) by (auto simp: run_iff dest: token_transfer_frame split: if_splits)
  moreover have "frame s2 s4"
    using open_residue_vaults_frame [OF 1(8)] by (simp add: frame_def)
  moreover have "frame s4 s'" unfolding 1(1) by (simp add: frame_def)
  ultimately show ?case by (meson frame_trans)
qed

section \<open>Gateway updates and rewards\<close>

lemma update_field_keeps:
  assumes "update_field field valid e write g = Inr g'" and "\<And>v. f (write v g) = f g"
  shows "f g' = f g"
  using assms by (auto simp: update_field_def run_iff split: option.splits)

lemma apply_metadata_keeps:
  assumes run: "apply_metadata p g = Inr g'"
    and "\<And>g v. f (g\<lparr>gw_label := v\<rparr>) = f g" "\<And>g v. f (g\<lparr>gw_fqdn := v\<rparr>) = f g"
    "\<And>g v. f (g\<lparr>gw_port := v\<rparr>) = f g" "\<And>g v. f (g\<lparr>gw_protocol := v\<rparr>) = f g"
    "\<And>g v. f (g\<lparr>gw_properties := v\<rparr>) = f g" "\<And>g v. f (g\<lparr>gw_note := v\<rparr>) = f g"
  shows "f g' = f g"
  using run unfolding apply_metadata_def and_then_iff
  by (elim exE conjE) (drule update_field_keeps [where f = f]; simp add: assms)+

lemma gw_shape_metadata [simp]:
  "gw_shape (g\<lparr>gw_label := a\<rparr>) = gw_shape g" "gw_shape (g\<lparr>gw_fqdn := b\<rparr>) = gw_shape g"
  "gw_shape (g\<lparr>gw_port := c\<rparr>) = gw_shape g" "gw_shape (g\<lparr>gw_protocol := d\<rparr>) = gw_shape g"
  "gw_shape (g\<lparr>gw_properties := e\<rparr>) = gw_shape g" "gw_shape (g\<lparr>gw_note := n\<rparr>) = gw_shape g"
  by (simp_all add: gw_shape_def)

lemma update_gateway_metadata_frame:
  assumes "update_gateway_metadata operator signer p s = Inr s'"
  shows "frame s s'"
proof -
  obtain g g1 where g: "gateways s operator = Some g" "apply_metadata p g = Inr g1"
      "s' = s\<lparr>gateways := (gateways s)(operator \<mapsto> g1)\<rparr>"
    using assms by (auto simp: update_gateway_metadata_def run_iff)
  have "gw_shape g1 = gw_shape g" by (rule apply_metadata_keeps [OF g(2)]) simp_all
  with g show ?thesis by (simp add: frame_def)
qed

lemma update_operations_address_frame:
  "update_operations_address operator new s = Inr s' \<Longrightarrow> frame s s'"
  by (auto simp: update_operations_address_def run_iff frame_def)

lemma update_observer_address_frame:
  "update_observer_address env operator new s = Inr s' \<Longrightarrow> frame s s'"
  by (auto simp: update_observer_address_def run_iff frame_def)

lemma credit_gateway_shape: "credit_gateway b t p = Inr (g, paid, orphan) \<Longrightarrow> gw_shape g = gw_shape (pd_gateway p)"
  by (auto simp: credit_gateway_def Let_def run_iff split: if_splits prod.splits)

lemma apply_pending_shapes:
  "apply_pending b t ps G o1 r1 = Inr (G', o2, r2) \<Longrightarrow> buffer_ok G ps \<Longrightarrow> shapes G' = shapes G"
proof (induction ps arbitrary: G o1 r1)
  case (Cons p ps)
  then obtain g paid orphan where c: "credit_gateway b t p = Inr (g, paid, orphan)"
    and rest: "apply_pending b t ps (G(pd_account p \<mapsto> g\<lparr>gw_stats := update_stats p (gw_stats g)\<rparr>))
        (saturating_add o1 paid) (saturating_add r1 orphan) = Inr (G', o2, r2)"
    by (auto simp: run_iff)
  have "G (pd_account p) = Some (pd_gateway p)" using Cons.prems(2) by (simp add: buffer_ok_def)
  with credit_gateway_shape [OF c] show ?case
    unfolding Cons.IH [OF rest buffer_ok_upd [OF Cons.prems(2)]] shapes_upd by simp
qed simp

lemma distribute_epoch_frame:
  assumes "distribute_epoch env cfg remaining ix protocol_ta stake_ta s = Inr s'"
    and "gar_inv bal s" and "slots_distinct (registry s)" and "shares_bounded (gateways s)"
  shows "frame s (s'\<lparr>epochs := epochs s\<rparr>)"
  using assms(1)
proof (cases rule: distribute_epoch_run)
  case skipped
  then show ?thesis by (simp add: frame_def)
next
  case (batch e)
  show ?thesis
  proof (rule distribute_batch_run [OF batch(2) gar_invD(5) [OF assms(2)]], goal_cases)
    case (1 E G protocol dist_idx b ps staked l oper orphaned)
    have "pass1_ok s dist_idx b ps"
      using collect_pending_pass1_ok [OF 1(3) _ assms(3,4)] by (simp add: pass1_ok_def buffer_ok_def)
    then have "buffer_ok (gateways s) ps" by (simp add: pass1_ok_def)
    from apply_pending_shapes [OF 1(4) this] show ?case unfolding 1(1) by (simp add: frame_def)
  qed
qed

end
