(* ===== verification/Gar_Registry.thy ===== *)
theory Gar_Registry
  imports Gar_Frame
begin

text \<open>
  The gateway registry as an indexed table: the first \<open>count\<close> slots and the gateway accounts
  point at each other, the slots behind them are empty. Joining appends a slot, finalising
  swap-removes one, everything else leaves the addresses alone.
\<close>

section \<open>An indexed table\<close>

text \<open>A row of addresses and the index stored with each entry.\<close>

definition coherent :: "nat \<Rightarrow> (nat \<Rightarrow> pubkey) \<Rightarrow> (pubkey \<Rightarrow> nat option) \<Rightarrow> bool" where
  "coherent c addr ix \<longleftrightarrow> c \<le> MAX_GATEWAYS
     \<and> (\<forall>i < c. ix (addr i) = Some i)
     \<and> (\<forall>k i. ix k = Some i \<longrightarrow> i < c \<and> addr i = k)
     \<and> (\<forall>i. c \<le> i \<and> i < MAX_GATEWAYS \<longrightarrow> addr i = 0)"

lemma coherent_append:
  assumes "coherent c addr ix" and "c < MAX_GATEWAYS" and "ix k = None"
  shows "coherent (c + 1) (addr(c := k)) (ix(k \<mapsto> c))"
  using assms by (auto simp: coherent_def less_Suc_eq)

lemma coherent_swap_remove:
  assumes coh: "coherent c addr ix" and i: "ix k = Some i"
  shows "coherent (c - 1) ((addr(i := addr (c - 1)))(c - 1 := 0)) ((ix(addr (c - 1) \<mapsto> i))(k := None))"
    (is "coherent _ ?addr ?ix")
proof -
  have slot: "ix (addr j) = Some j" if "j < c" for j using coh that by (simp add: coherent_def)
  have entry_at: "j < c \<and> addr j = x" if "ix x = Some j" for x j using coh that by (simp add: coherent_def)
  have tail: "addr j = 0" if "c \<le> j" "j < MAX_GATEWAYS" for j using coh that by (simp add: coherent_def)
  have ci: "i < c" "addr i = k" using entry_at [OF i] by simp_all
  have last: "ix (addr (c - 1)) = Some (c - 1)" using slot ci(1) by simp
  have "?ix (?addr j) = Some j" if j: "j < c - 1" for j
  proof (cases "j = i")
    case True
    then have "addr (c - 1) \<noteq> k" using last i j by auto
    with True j show ?thesis by simp
  next
    case False
    have sj: "ix (addr j) = Some j" using slot j by simp
    then have "addr j \<noteq> k" "addr j \<noteq> addr (c - 1)" using i last False j by auto
    with False j sj show ?thesis by simp
  qed
  moreover have "j < c - 1 \<and> ?addr j = x" if x: "?ix x = Some j" for x j
  proof (cases "x = addr (c - 1)")
    case True
    then have "x \<noteq> k" "j = i" using x by (auto split: if_splits)
    with True last ci have "i \<noteq> c - 1" by auto
    with True \<open>j = i\<close> ci show ?thesis by simp
  next
    case False
    then have "x \<noteq> k" "ix x = Some j" using x by (auto split: if_splits)
    with entry_at [of x j] False ci have "j < c" "addr j = x" "j \<noteq> c - 1" "j \<noteq> i" by auto
    then show ?thesis by simp
  qed
  moreover have "?addr j = 0" if "c - 1 \<le> j" "j < MAX_GATEWAYS" for j
    using that tail [of j] ci(1) by auto
  moreover have "c \<le> MAX_GATEWAYS" using coh by (simp add: coherent_def)
  ultimately show ?thesis unfolding coherent_def by (intro conjI allI impI) auto
qed

lemma coherent_distinct:
  "coherent c addr ix \<Longrightarrow> i < MAX_GATEWAYS \<Longrightarrow> j < MAX_GATEWAYS \<Longrightarrow> addr i = addr j \<Longrightarrow> addr i \<noteq> 0 \<Longrightarrow> i = j"
  unfolding coherent_def by (metis not_less option.inject)

section \<open>The registry of the program\<close>

abbreviation slot_addresses :: "gateway_registry \<Rightarrow> nat \<Rightarrow> pubkey" where
  "slot_addresses reg i \<equiv> slot_address (reg_gateways reg i)"

definition indices :: "gateway_map \<Rightarrow> pubkey \<Rightarrow> nat option" where
  "indices G k = map_option (\<lambda>g. unat (gw_registry_index g)) (G k)"

definition registry_coherent :: "gar_state \<Rightarrow> bool" where
  "registry_coherent s \<longleftrightarrow>
     coherent (unat (reg_count (registry s))) (slot_addresses (registry s)) (indices (gateways s))"

text \<open>Active and staged reward shares stay within the 95 percent cap.\<close>

definition shares_capped :: "gateway_map \<Rightarrow> bool" where
  "shares_capped G \<longleftrightarrow> (\<forall>k g. G k = Some g \<longrightarrow>
     g2_delegate_reward_share_ratio (gw_settings g) \<le> MAX_DELEGATE_REWARD_SHARE
     \<and> (\<forall>r. g2_pending_delegate_reward_share_ratio (gw_settings g) = Some r
            \<longrightarrow> r \<le> MAX_DELEGATE_REWARD_SHARE))"

lemma indices_simps [simp]:
  "indices (G(k \<mapsto> g)) = (indices G)(k \<mapsto> unat (gw_registry_index g))"
  "indices (G(k := None)) = (indices G)(k := None)"
  by (auto simp: indices_def fun_eq_iff)

lemma indices_shapes: "indices G k = map_option (\<lambda>(_, i, _, _). unat i) (shapes G k)"
  by (cases "G k") (auto simp: indices_def shapes_def gw_shape_def)

lemma indices_shapes_cong: "shapes G' = shapes G \<Longrightarrow> indices G' = indices G"
  by (simp add: indices_shapes fun_eq_iff)

lemma shares_capped_shapes:
  "shares_capped G \<longleftrightarrow> (\<forall>k x i r p. shapes G k = Some (x, i, r, p) \<longrightarrow>
     r \<le> MAX_DELEGATE_REWARD_SHARE \<and> (\<forall>q. p = Some q \<longrightarrow> q \<le> MAX_DELEGATE_REWARD_SHARE))"
  unfolding shares_capped_def shapes_def gw_shape_def by (auto simp: map_option_case split: option.splits)

lemma word_numeral_9500: "(9500 :: u16) < 10000"
  by simp

lemma shares_capped_bounded: "shares_capped G \<Longrightarrow> shares_bounded G"
  unfolding shares_capped_def shares_bounded_def MAX_DELEGATE_REWARD_SHARE_def
  by (meson order_trans less_imp_le word_numeral_9500)

lemma shares_capped_upd:
  "shares_capped G \<Longrightarrow>
   g2_delegate_reward_share_ratio (gw_settings g) \<le> MAX_DELEGATE_REWARD_SHARE \<Longrightarrow>
   (\<And>r. g2_pending_delegate_reward_share_ratio (gw_settings g) = Some r \<Longrightarrow> r \<le> MAX_DELEGATE_REWARD_SHARE) \<Longrightarrow>
   shares_capped (G(k \<mapsto> g))"
  by (simp add: shares_capped_def)

lemma registry_coherent_distinct: "registry_coherent s \<Longrightarrow> slots_distinct (registry s)"
  unfolding registry_coherent_def slots_distinct_def by (blast dest: coherent_distinct)

section \<open>Who changes it\<close>

text \<open>The table after an instruction that keeps the slots' addresses and the gateways' indices.\<close>

lemma registry_coherent_cong:
  assumes "registry_coherent s" and "reg_count (registry s') = reg_count (registry s)"
    and "slot_addresses (registry s') = slot_addresses (registry s)"
    and "indices (gateways s') = indices (gateways s)"
  shows "registry_coherent s'"
  using assms by (simp add: registry_coherent_def)

lemma frame_keeps_registry:
  assumes "frame s s'" shows "registry_coherent s \<Longrightarrow> registry_coherent s'"
    and "shares_capped (gateways s) \<Longrightarrow> shares_capped (gateways s')"
  using assms by (auto simp: frame_def shares_capped_shapes intro: registry_coherent_cong
      dest: indices_shapes_cong)

lemma join_network_keeps_registry:
  assumes coh: "registry_coherent s" and cap: "shares_capped (gateways s)"
    and run: "join_network env operator ata stake_ta p s = Inr s'"
  shows "registry_coherent s'" and "shares_capped (gateways s')"
proof -
  obtain s1 g slot lookup count staked where
    s': "s' = s1\<lparr>gateways := (gateways s1)(operator \<mapsto> g),
             observer_lookups := (observer_lookups s1)(jp_observer_address p \<mapsto> lookup),
             registry := (registry s1)\<lparr>
               reg_gateways := (reg_gateways (registry s1))(unat (reg_count (registry s1)) := slot),
               reg_count := count\<rparr>,
             settings := (settings s1)\<lparr>gs_total_staked := staked\<rparr>\<rparr>"
    and new: "gateways s operator = None"
    and tr: "token_transfer env ata stake_ta operator (jp_operator_stake p) s = Inr s1"
    and room: "unat (reg_count (registry s1)) < MAX_GATEWAYS"
    and count: "checked_add (reg_count (registry s1)) 1 = Some count"
    and g: "gw_registry_index g = reg_count (registry s1)" and slot: "slot_address slot = operator"
    and share: "g2_delegate_reward_share_ratio (gw_settings g) \<le> MAX_DELEGATE_REWARD_SHARE"
      "g2_pending_delegate_reward_share_ratio (gw_settings g) = None"
    by (rule join_network_run [OF run]) blast
  have same: "registry s1 = registry s" "gateways s1 = gateways s"
    using token_transferD [OF tr] by simp_all
  have "unat count = unat (reg_count (registry s)) + 1"
    using checked_addD [OF count] same by (simp flip: nat_uint_eq add: nat_add_distrib)
  moreover have "slot_addresses (registry s') = (slot_addresses (registry s))(unat (reg_count (registry s)) := operator)"
    using s' same slot by auto
  moreover have "indices (gateways s') = (indices (gateways s))(operator \<mapsto> unat (reg_count (registry s)))"
    using s' same g by simp
  moreover have "reg_count (registry s') = count" using s' by simp
  ultimately show "registry_coherent s'"
    using coherent_append [of _ "slot_addresses (registry s)" "indices (gateways s)" operator] coh room new same
    by (simp add: registry_coherent_def indices_def)
  show "shares_capped (gateways s')"
    unfolding s' using cap same share by (auto intro!: shares_capped_upd)
qed

text \<open>Leaving and pruning mark the slot and keep every address and index.\<close>

lemma open_exit_vaults_frame:
  "open_exit_vaults env operator prot excess flag avail1 avail2 acc s = Inr s' \<Longrightarrow> frame s s'"
  unfolding open_exit_vaults_def Let_def run_iff
  by (auto simp: run_iff split: if_splits intro: frame_trans dest!: open_withdrawal_frame)

definition same_table :: "gar_state \<Rightarrow> gar_state \<Rightarrow> bool" where
  "same_table s s' \<longleftrightarrow> lifecycle s' = lifecycle s \<and> reg_count (registry s') = reg_count (registry s)
     \<and> slot_addresses (registry s') = slot_addresses (registry s)
     \<and> shapes (gateways s') = shapes (gateways s)
     \<and> config s' = config s \<and> epoch_settings_acc s' = epoch_settings_acc s"

lemma frame_same_table: "frame s s' \<Longrightarrow> same_table s s'"
  by (simp add: frame_def same_table_def)

lemma same_table_trans: "same_table s t \<Longrightarrow> same_table t u \<Longrightarrow> same_table s u"
  by (simp add: same_table_def)

lemma same_table_keeps_registry:
  assumes "same_table s s'"
  shows "registry_coherent s \<Longrightarrow> registry_coherent s'"
    and "shares_capped (gateways s) \<Longrightarrow> shares_capped (gateways s')"
  using assms by (auto simp: same_table_def shares_capped_shapes intro: registry_coherent_cong
      dest: indices_shapes_cong)

lemma mark_slot_leaving_same_table: "mark_slot_leaving g s = Inr s' \<Longrightarrow> same_table s s'"
  by (auto simp: mark_slot_leaving_def Let_def run_iff same_table_def fun_eq_iff)

lemma leave_network_same_table:
  assumes run: "leave_network env remaining operator acc s = Inr s'"
  shows "same_table s s'"
proof -
  obtain g a1 a2 s1 s2 g1 withdrawn st where g: "gateways s operator = Some g"
    and ex: "open_exit_vaults env operator (min (gw_operator_stake g) (gs_min_operator_stake (settings s)))
       (saturating_sub (gw_operator_stake g) (gs_min_operator_stake (settings s))) True a1 a2 acc s = Inr s1"
    and ms: "mark_slot_leaving g1 s1 = Inr s2" and g1: "gw_shape g1 = gw_shape g"
    and s': "s' = (close_observer_lookup g1 remaining s2)\<lparr>
        gateways := (gateways (close_observer_lookup g1 remaining s2))(operator \<mapsto> g1),
        settings := (settings (close_observer_lookup g1 remaining s2))\<lparr>
          gs_total_staked := st, gs_total_withdrawn := withdrawn\<rparr>\<rparr>"
    using run unfolding leave_network_def Let_def run_iff
    by (elim exE conjE) (simp only: sum.inject, rule that, assumption+, simp, erule sym)
  have "same_table s s2"
    using frame_same_table [OF open_exit_vaults_frame [OF ex]] mark_slot_leaving_same_table [OF ms]
    by (rule same_table_trans)
  moreover have "same_table s2 (close_observer_lookup g1 remaining s2)"
    by (rule frame_same_table [OF close_observer_lookup_frame])
  ultimately have "same_table s (close_observer_lookup g1 remaining s2)" by (rule same_table_trans)
  with g g1 s' show ?thesis by (auto simp: same_table_def)
qed

lemma prune_gateway_same_table:
  assumes run: "prune_gateway env remaining gw stake_ta protocol_ta acc s = Inr s'"
  shows "same_table s s'"
proof (rule prune_gateway_run [OF run], goal_cases)
  case (1 g a1 a2 s1 s2 g1 s3 withdrawn)
  have "frame s s1" by (rule open_exit_vaults_frame [OF 1(7)])
  moreover have "frame s1 s2" using 1(8) by (auto dest: token_transfer_frame split: if_splits)
  ultimately have "same_table s s2" by (intro frame_same_table) (rule frame_trans)
  moreover have "same_table s2 s3" by (rule mark_slot_leaving_same_table [OF 1(10)])
  moreover have "same_table s3 (close_observer_lookup g1 remaining s3)"
    by (rule frame_same_table [OF close_observer_lookup_frame])
  ultimately have "same_table s (close_observer_lookup g1 remaining s3)" by (meson same_table_trans)
  with 1 show ?case by (auto simp: same_table_def)
qed

text \<open>Finalising swap-removes the slot of the gateway whose account it closes.\<close>

lemma swap_remove_slot_table:
  assumes run: "swap_remove_slot g remaining s = Inr s1"
  obtains "unat (gw_registry_index g) < unat (reg_count (registry s))"
    "slot_addresses (registry s) (unat (gw_registry_index g)) = gw_operator g"
    "unat (reg_count (registry s1)) = unat (reg_count (registry s)) - 1"
    "slot_addresses (registry s1) =
       ((slot_addresses (registry s))
          (unat (gw_registry_index g) := slot_addresses (registry s) (unat (reg_count (registry s)) - 1)))
          (unat (reg_count (registry s)) - 1 := 0)"
    "if unat (gw_registry_index g) = unat (reg_count (registry s)) - 1 then gateways s1 = gateways s
     else indices (gateways s1) = (indices (gateways s))
       (slot_addresses (registry s) (unat (reg_count (registry s)) - 1) \<mapsto> unat (gw_registry_index g))"
    "shares_capped (gateways s) \<Longrightarrow> shares_capped (gateways s1)"
proof -
  let ?i = "unat (gw_registry_index g)" and ?c = "reg_count (registry s)"
  have pre: "?c > 0" "?i < MAX_GATEWAYS" "gw_registry_index g < ?c"
      "slot_addresses (registry s) ?i = gw_operator g"
    using run by (auto simp: swap_remove_slot_def Let_def run_iff)
  have last: "unat (?c - 1) = unat ?c - 1"
    using pre(1) by (simp add: unat_minus_one word_gt_0)
  have count: "unat (saturating_sub ?c 1) = unat ?c - 1"
    using last pre(1) by (simp add: saturating_sub_def word_le_nat_alt unat_gt_0 Suc_le_eq word_gt_0)
  have small: "unat (of_nat ?i :: u32) = ?i"
    by simp
  from run pre consider
      (tail) "?i = unat ?c - 1" "s1 = s\<lparr>registry := (registry s)\<lparr>
          reg_gateways := (reg_gateways (registry s))(unat ?c - 1 := empty_slot),
          reg_count := saturating_sub ?c 1\<rparr>\<rparr>"
    | (swap) sg where "?i \<noteq> unat ?c - 1"
        "gateways s (slot_addresses (registry s) (unat ?c - 1)) = Some sg"
        "s1 = s\<lparr>gateways := (gateways s)(slot_addresses (registry s) (unat ?c - 1)
                  \<mapsto> sg\<lparr>gw_registry_index := of_nat ?i\<rparr>),
               registry := (registry s)\<lparr>
                 reg_gateways := ((reg_gateways (registry s))
                   (?i := reg_gateways (registry s) (unat ?c - 1)))(unat ?c - 1 := empty_slot),
                 reg_count := saturating_sub ?c 1\<rparr>\<rparr>"
    by (auto simp: swap_remove_slot_def Let_def run_iff last split: if_splits)
  then show ?thesis
  proof cases
    case tail
    with pre count show ?thesis
      by (intro that) (auto simp: word_less_nat_alt empty_slot_def fun_eq_iff)
  next
    case swap
    with pre count small show ?thesis
      by (intro that)
        (auto simp: word_less_nat_alt empty_slot_def fun_eq_iff shares_capped_def)
  qed
qed

lemma finalize_gone_keeps_registry:
  assumes coh: "registry_coherent s" and cap: "shares_capped (gateways s)"
    and run: "finalize_gone env remaining gw s = Inr s'"
  shows "registry_coherent s'" and "shares_capped (gateways s')"
proof -
  obtain g s1 where g: "gateways s gw = Some g" and sw: "swap_remove_slot g remaining s = Inr s1"
    and s': "s' = s1\<lparr>gateways := (gateways s1)(gw := None)\<rparr>"
    using run by (auto simp: finalize_gone_def run_iff)
  let ?c = "unat (reg_count (registry s))" and ?A = "slot_addresses (registry s)"
  let ?ix = "indices (gateways s)" and ?i = "unat (gw_registry_index g)"
  have ix: "?ix gw = Some ?i" using g by (simp add: indices_def)
  from coh ix have at: "?A ?i = gw" by (simp add: registry_coherent_def coherent_def)
  note removed = coherent_swap_remove [OF coh [unfolded registry_coherent_def] ix]
  show "registry_coherent s'"
  proof (rule swap_remove_slot_table [OF sw], goal_cases)
    case 1
    have "indices (gateways s') = (?ix(?A (?c - 1) \<mapsto> ?i))(gw := None)"
      using 1(5) at s' by (auto split: if_splits)
    with 1(3,4) removed s' show ?case by (simp add: registry_coherent_def)
  qed
  show "shares_capped (gateways s')"
  proof (rule swap_remove_slot_table [OF sw], goal_cases)
    case 1
    have "shares_capped (gateways s1)" by (rule 1(6) [OF cap])
    then show ?case using s' by (simp add: shares_capped_def)
  qed
qed

text \<open>Changing the settings of a gateway stages a capped share and keeps the index.\<close>

lemma gw_settings_metadata [simp]:
  "gw_settings (g\<lparr>gw_label := a\<rparr>) = gw_settings g" "gw_settings (g\<lparr>gw_fqdn := b\<rparr>) = gw_settings g"
  by simp_all

lemma apply_gateway_settings_shape:
  assumes run: "apply_gateway_settings env gs p g = Inr g'"
  shows "gw_registry_index g' = gw_registry_index g
    \<and> g2_delegate_reward_share_ratio (gw_settings g') = g2_delegate_reward_share_ratio (gw_settings g)
    \<and> (g2_pending_delegate_reward_share_ratio (gw_settings g')
         = g2_pending_delegate_reward_share_ratio (gw_settings g)
       \<or> (\<exists>r. g2_pending_delegate_reward_share_ratio (gw_settings g') = Some r
              \<and> r \<le> MAX_DELEGATE_REWARD_SHARE))"
proof -
  obtain g1 g2 g3 where
    1: "apply_metadata p g = Inr g1" and
    2: "(case up_allow_delegated_staking p of None \<Rightarrow> Inr g1
         | Some allow \<Rightarrow> set_allow_delegated_staking env gs allow g1) = Inr g2" and
    3: "update_field (up_delegate_reward_share_ratio p)
          (\<lambda>r. ucast r * 100 \<le> MAX_DELEGATE_REWARD_SHARE) InvalidRewardShare
          (\<lambda>r g. g\<lparr>gw_settings := (gw_settings g)\<lparr>
             g2_pending_delegate_reward_share_ratio := Some (ucast r * 100)\<rparr>\<rparr>) g2 = Inr g3" and
    4: "update_field (up_min_delegate_stake p) (\<lambda>m. m \<ge> gs_min_delegate_stake gs) DelegationBelowMinimum
       (\<lambda>m g. g\<lparr>gw_settings := (gw_settings g)\<lparr>g2_min_delegation_amount := m\<rparr>\<rparr>) g3 = Inr g'"
    using run by (auto simp: apply_gateway_settings_def run_iff)
  have s1: "gw_shape g1 = gw_shape g" by (rule apply_metadata_keeps [OF 1]) simp_all
  have "gw_shape g2 = gw_shape g1"
    using 2 by (auto simp: set_allow_delegated_staking_def Let_def run_iff gw_shape_def
        split: option.splits if_splits)
  moreover have "gw_shape g' = gw_shape g3"
    by (rule update_field_keeps [OF 4]) (simp add: gw_shape_def)
  ultimately have ends: "gw_shape g2 = gw_shape g" "gw_shape g' = gw_shape g3" using s1 by simp_all
  show ?thesis
  proof (cases "up_delegate_reward_share_ratio p")
    case None
    then have "g3 = g2" using 3 by (simp add: update_field_def)
    with ends have "gw_shape g' = gw_shape g" by simp
    then show ?thesis by (simp add: gw_shape_def)
  next
    case (Some r)
    then have cap: "ucast r * 100 \<le> MAX_DELEGATE_REWARD_SHARE"
      and g3: "g3 = g2\<lparr>gw_settings := (gw_settings g2)\<lparr>
             g2_pending_delegate_reward_share_ratio := Some (ucast r * 100)\<rparr>\<rparr>"
      using 3 by (simp_all add: update_field_def run_iff)
    have "gw_shape g' = (gw_operator g, gw_registry_index g,
        g2_delegate_reward_share_ratio (gw_settings g), Some (ucast r * 100))"
      using ends unfolding g3 by (simp add: gw_shape_def)
    with cap show ?thesis by (simp add: gw_shape_def)
  qed
qed

lemma update_gateway_settings_keeps_registry:
  assumes coh: "registry_coherent s" and cap: "shares_capped (gateways s)"
    and run: "update_gateway_settings env operator p s = Inr s'"
  shows "registry_coherent s'" and "shares_capped (gateways s')"
proof -
  obtain g g1 where g: "gateways s operator = Some g"
    and ap: "apply_gateway_settings env (settings s) p g = Inr g1"
    and s': "s' = s\<lparr>gateways := (gateways s)(operator \<mapsto> g1)\<rparr>"
    using run by (auto simp: update_gateway_settings_def run_iff)
  note shape = apply_gateway_settings_shape [OF ap]
  have "indices (gateways s') = indices (gateways s)"
    using shape g s' by (auto simp: indices_def fun_eq_iff)
  then show "registry_coherent s'" using coh s' by (intro registry_coherent_cong [OF coh]) simp_all
  show "shares_capped (gateways s')"
    unfolding s' using cap g shape by (auto simp: shares_capped_def)
qed

end
