(* ===== verification/Gar_Tally.thy ===== *)
theory Gar_Tally
  imports Gar_Epoch Gar_Registry
begin

text \<open>
  What a tally does: the steps of its loop as a relation, the epoch's total as the sum of the
  cached slot weights, and that no step touches the stake ledger or the registry's table.
\<close>

section \<open>The 128-bit total in two words\<close>

lemma total_set_composite_weight [simp]:
  "total_composite_weight (set_total_composite_weight v e) = v"
proof -
  have "or (push_bit 64 (ucast (ucast (drop_bit 64 v) :: u64))) (ucast (ucast v :: u64)) = v"
    by (rule bit_eqI) (auto simp: bit_simps)
  then show ?thesis
    by (simp add: total_composite_weight_def set_total_composite_weight_def)
qed

lemma total_add_composite_weight:
  "uint (total_composite_weight (add_composite_weight w e)) =
     min (2 ^ 128 - 1) (uint (total_composite_weight e) + uint w)"
  by (simp add: add_composite_weight_def uint_saturating_add)

lemma total_ignores [simp]:
  "total_composite_weight (e\<lparr>ep_tally_index := i\<rparr>) = total_composite_weight e"
  "total_composite_weight (e\<lparr>ep_weights_tallied := f\<rparr>) = total_composite_weight e"
  by (simp_all add: total_composite_weight_def)

text \<open>What a tally keeps of the epoch: everything but the total, the cursor and the flag.\<close>

definition untallied :: "epoch \<Rightarrow> epoch" where
  "untallied e = e\<lparr>ep_total_composite_weight_lo := 0, ep_total_composite_weight_hi := 0,
     ep_tally_index := 0, ep_weights_tallied := 0\<rparr>"

lemma untallied_simps [simp]:
  "untallied (advance_tally e) = untallied e"
  "untallied (add_composite_weight w e) = untallied e"
  "untallied (e\<lparr>ep_weights_tallied := f\<rparr>) = untallied e"
  by (simp_all add: untallied_def advance_tally_def add_composite_weight_def
      set_total_composite_weight_def)

lemma advance_tally_index: "ep_tally_index (advance_tally e) = ep_tally_index e + 1"
  by (simp add: advance_tally_def)

lemma add_composite_weight_index [simp]: "ep_tally_index (add_composite_weight w e) = ep_tally_index e"
  by (simp add: add_composite_weight_def set_total_composite_weight_def)

lemma untallied_fields:
  "untallied e' = untallied e \<Longrightarrow>
     ep_active_gateway_count e' = ep_active_gateway_count e \<and> ep_epoch_index e' = ep_epoch_index e
     \<and> ep_start_timestamp e' = ep_start_timestamp e \<and> ep_end_timestamp e' = ep_end_timestamp e
     \<and> ep_rewards_distributed e' = ep_rewards_distributed e
     \<and> ep_prescriptions_done e' = ep_prescriptions_done e
     \<and> ep_observations_submitted e' = ep_observations_submitted e
     \<and> ep_observations_closed e' = ep_observations_closed e
     \<and> ep_observer_count e' = ep_observer_count e
     \<and> ep_distribution_index e' = ep_distribution_index e
     \<and> ep_has_rent_receipt e' = ep_has_rent_receipt e
     \<and> ep_prescribed_observers e' = ep_prescribed_observers e"
  unfolding untallied_def
  by (drule arg_cong [of _ _ "\<lambda>e. (ep_active_gateway_count e, ep_epoch_index e, ep_start_timestamp e,
        ep_end_timestamp e, ep_rewards_distributed e, ep_prescriptions_done e,
        ep_observations_submitted e, ep_observations_closed e, ep_observer_count e,
        ep_distribution_index e, ep_has_rent_receipt e, ep_prescribed_observers e)"]) simp

section \<open>The steps of the loop\<close>

inductive tally_step :: "gar_state \<times> epoch \<Rightarrow> gar_state \<times> epoch \<Rightarrow> bool" where
  skip_slot:
    "i = unat (ep_tally_index e) \<Longrightarrow> i < unat (ep_active_gateway_count e) \<Longrightarrow> i < MAX_GATEWAYS \<Longrightarrow>
     tally_step (s, e) (s\<lparr>registry := cache_weight i 0 0 (registry s)\<rparr>, advance_tally e)"
| weigh_slot:
    "i = unat (ep_tally_index e) \<Longrightarrow> i < unat (ep_active_gateway_count e) \<Longrightarrow> i < MAX_GATEWAYS \<Longrightarrow>
     gateways s gw = Some g \<Longrightarrow> gw_operator g = gw \<Longrightarrow> gw_status g = Joined \<Longrightarrow>
     tally_gateway (settings s) (epoch_settings_acc s) e g = Inr (w, g1) \<Longrightarrow>
     tally_step (s, e)
       (s\<lparr>registry := cache_weight i w d (registry s), gateways := (gateways s)(gw \<mapsto> g1)\<rparr>,
        advance_tally (add_composite_weight w e))"

lemma tally_loop_steps:
  "tally_loop infos s e = Inr se' \<Longrightarrow> tally_step\<^sup>*\<^sup>* (s, e) se'"
proof (induction infos arbitrary: s e)
  case (Cons info infos)
  let ?i = "unat (ep_tally_index e)"
  show ?case
  proof (cases "?i \<ge> unat (ep_active_gateway_count e)")
    case True
    with Cons.prems show ?thesis by simp
  next
    case live: False
    with Cons.prems have max: "?i < MAX_GATEWAYS" by (simp add: Let_def require_iff)
    have skip: ?thesis
      if "tally_loop infos (s\<lparr>registry := cache_weight ?i 0 0 (registry s)\<rparr>) (advance_tally e) = Inr se'"
      using tally_step.skip_slot [OF refl, of e s] live max Cons.IH [OF that]
      by (meson converse_rtranclp_into_rtranclp not_le)
    show ?thesis
    proof (cases "slot_address (reg_gateways (registry s) ?i) = 0")
      case True
      with Cons.prems live max show ?thesis by (intro skip) (simp add: Let_def)
    next
      case False
      with Cons.prems live max obtain gw where k: "ai_key info = GatewayPda gw"
        by (auto simp: Let_def split: gar_pda.splits)
      from Cons.prems live max False k obtain g where g: "gateways s gw = Some g" "gw_operator g = gw"
        and rest: "if gw_status g \<noteq> Joined
            then tally_loop infos (s\<lparr>registry := cache_weight ?i 0 0 (registry s)\<rparr>) (advance_tally e) = Inr se'
            else and_then (tally_gateway (settings s) (epoch_settings_acc s) e g) (\<lambda>(w, g1).
              require (ai_is_writable info) ConstraintViolated (
              tally_loop infos
                (s\<lparr>registry := cache_weight ?i w (if gw_total_delegated_stake g > 0 then 1 else 0)
                                (registry s),
                   gateways := (gateways s)(gw \<mapsto> g1)\<rparr>)
                (advance_tally (add_composite_weight w e)))) = Inr se'"
        by (auto simp: Let_def ok_or_iff require_iff split: if_splits)
      show ?thesis
      proof (cases "gw_status g = Joined")
        case True
        with rest obtain w g1 where t: "tally_gateway (settings s) (epoch_settings_acc s) e g = Inr (w, g1)"
          and more: "tally_loop infos
                (s\<lparr>registry := cache_weight ?i w (if gw_total_delegated_stake g > 0 then 1 else 0)
                                (registry s),
                   gateways := (gateways s)(gw \<mapsto> g1)\<rparr>)
                (advance_tally (add_composite_weight w e)) = Inr se'"
          by (auto simp: and_then_iff require_iff)
        from live have "?i < unat (ep_active_gateway_count e)" by simp
        from tally_step.weigh_slot [OF refl this max g True t] Cons.IH [OF more]
        show ?thesis by (rule converse_rtranclp_into_rtranclp)
      qed (use rest in \<open>auto intro: skip\<close>)
    qed
  qed
qed simp

section \<open>The total is the sum of the slots\<close>

definition slot_weight_sum :: "gateway_registry \<Rightarrow> nat \<Rightarrow> int" where
  "slot_weight_sum reg n = (\<Sum>i < n. uint (slot_composite_weight (reg_gateways reg i)))"

lemma slot_weight_sum_cache [simp]:
  "slot_weight_sum (cache_weight n w d reg) (Suc n) = slot_weight_sum reg n + uint w"
  by (simp add: slot_weight_sum_def cache_weight_def)

lemma slot_weight_sum_bound:
  assumes "n \<le> MAX_GATEWAYS" shows "slot_weight_sum reg n \<le> 3000 * (2 ^ 64 - 1)"
proof -
  have "uint (x :: u64) \<le> 2 ^ 64 - 1" for x using uint_bounds64(2) [of x] by linarith
  then have "slot_weight_sum reg n \<le> (\<Sum>i < n. 2 ^ 64 - 1)"
    unfolding slot_weight_sum_def by (intro sum_mono)
  also have "\<dots> = int n * (2 ^ 64 - 1)" by simp
  also have "\<dots> \<le> 3000 * (2 ^ 64 - 1)"
    using assms by (intro mult_right_mono) (simp_all add: MAX_GATEWAYS_def)
  finally show ?thesis .
qed

text \<open>
  What a run of the loop adds: the weights it caches behind the cursor, up to saturation. Whatever
  was cached outside the range it walks, and whatever happened to those slots since, plays no part.
\<close>

definition cached_weights :: "gateway_registry \<Rightarrow> nat \<Rightarrow> nat \<Rightarrow> int" where
  "cached_weights reg a b = (\<Sum>i = a..<b. uint (slot_composite_weight (reg_gateways reg i)))"

definition tally_added :: "gar_state \<times> epoch \<Rightarrow> gar_state \<times> epoch \<Rightarrow> bool" where
  "tally_added se se' \<longleftrightarrow>
     (let a = unat (ep_tally_index (snd se)); b = unat (ep_tally_index (snd se')) in
      a \<le> b \<and> (a = b \<or> b \<le> MAX_GATEWAYS)
      \<and> uint (total_composite_weight (snd se'))
          = min (2 ^ 128 - 1) (uint (total_composite_weight (snd se)) + cached_weights (registry (fst se')) a b)
      \<and> (\<forall>i. \<not> (a \<le> i \<and> i < b) \<longrightarrow> reg_gateways (registry (fst se')) i = reg_gateways (registry (fst se)) i))"

lemma cached_weights_empty [simp]: "cached_weights reg a a = 0"
  by (simp add: cached_weights_def)

lemma cached_weights_step [simp]:
  "a \<le> n \<Longrightarrow> cached_weights (cache_weight n w d reg) a (Suc n) = cached_weights reg a n + uint w"
  by (simp add: cached_weights_def cache_weight_def)

lemma cached_weights_nonneg [simp]: "0 \<le> cached_weights reg a b"
  by (simp add: cached_weights_def sum_nonneg)

lemma cached_weights_whole: "cached_weights reg 0 n = slot_weight_sum reg n"
  by (simp add: cached_weights_def slot_weight_sum_def atLeast0LessThan)

lemma tally_added_refl: "tally_added se se"
proof -
  have "uint (total_composite_weight (snd se)) \<le> 2 ^ 128 - 1"
    using uint_lt2p [of "total_composite_weight (snd se)"] by simp
  then show ?thesis by (simp add: tally_added_def)
qed

lemma cursor_advances:
  "unat i < unat n \<Longrightarrow> unat (i + 1) = Suc (unat i)" for i n :: u32
proof -
  assume "unat i < unat n"
  moreover have "unat n < 4294967296" using unsigned_less [of n] by simp
  ultimately show ?thesis by (simp add: unat_word_ariths)
qed

lemma min_add_again: "0 \<le> w \<Longrightarrow> min m (min m x + w) = min m (x + w)" for m x w :: int
  by (simp add: min_def)

lemma cache_weight_other: "i \<noteq> n \<Longrightarrow> reg_gateways (cache_weight n w d reg) i = reg_gateways reg i"
  by (simp add: cache_weight_def)

lemma tally_added_step:
  assumes "tally_added se se'" and "tally_step se' se''"
  shows "tally_added se se''"
  using assms(2)
proof cases
  case (skip_slot i e s)
  with assms(1) show ?thesis
    by (auto simp: tally_added_def Let_def cursor_advances advance_tally_def cache_weight_other)
next
  case (weigh_slot i e s gw g w g1 d)
  with assms(1) show ?thesis
    by (auto simp: tally_added_def Let_def cursor_advances advance_tally_index total_add_composite_weight
        advance_tally_def cache_weight_other min_add_again add.assoc)
qed

lemma tally_steps_added: "tally_step\<^sup>*\<^sup>* se se' \<Longrightarrow> tally_added se se'"
  by (induction rule: rtranclp_induct) (auto intro: tally_added_refl tally_added_step)

lemma tally_added_fresh:
  assumes "tally_added se se'" and "ep_tally_index (snd se) = 0" and "total_composite_weight (snd se) = 0"
  shows "uint (total_composite_weight (snd se')) = slot_weight_sum (registry (fst se')) (unat (ep_tally_index (snd se')))"
proof -
  have "unat (ep_tally_index (snd se')) \<le> MAX_GATEWAYS"
    using assms(1,2) by (auto simp: tally_added_def Let_def MAX_GATEWAYS_def)
  from slot_weight_sum_bound [OF this, of "registry (fst se')"] show ?thesis
    using assms by (simp add: tally_added_def Let_def cached_weights_whole)
qed

lemma tally_steps_untallied: "tally_step\<^sup>*\<^sup>* se se' \<Longrightarrow> untallied (snd se') = untallied (snd se)"
proof (induction rule: rtranclp_induct)
  case (step y z)
  from step.hyps(2) have "untallied (snd z) = untallied (snd y)" by cases simp_all
  with step.IH show ?case by simp
qed simp

section \<open>What a tally leaves alone\<close>

lemma tally_gateway_same:
  assumes "tally_gateway gs es e g = Inr (w, g1)"
  shows "same_in_ledger g g1" and "gw_registry_index g1 = gw_registry_index g"
    and "g2_delegate_reward_share_ratio (gw_settings g1) =
           (case g2_pending_delegate_reward_share_ratio (gw_settings g) of
              None \<Rightarrow> g2_delegate_reward_share_ratio (gw_settings g) | Some r \<Rightarrow> r)"
    and "g2_pending_delegate_reward_share_ratio (gw_settings g1) = None"
proof -
  obtain ws where g1: "g1 = apply_pending_share (g\<lparr>gw_weights := ws\<rparr>)"
    using assms unfolding tally_gateway_def and_then_iff by auto
  show "same_in_ledger g g1" and "gw_registry_index g1 = gw_registry_index g"
    and "g2_delegate_reward_share_ratio (gw_settings g1) =
           (case g2_pending_delegate_reward_share_ratio (gw_settings g) of
              None \<Rightarrow> g2_delegate_reward_share_ratio (gw_settings g) | Some r \<Rightarrow> r)"
    and "g2_pending_delegate_reward_share_ratio (gw_settings g1) = None"
    unfolding g1
    by (cases "g2_pending_delegate_reward_share_ratio (gw_settings g)";
        simp add: apply_pending_share_def same_in_ledger_def)+
qed

definition tally_keeps :: "gar_state \<Rightarrow> gar_state \<Rightarrow> bool" where
  "tally_keeps s s' \<longleftrightarrow> lifecycle s' = lifecycle s \<and> settings s' = settings s
     \<and> epoch_settings_acc s' = epoch_settings_acc s \<and> cpi_log s' = cpi_log s
     \<and> (registry_coherent s \<longrightarrow> registry_coherent s')
     \<and> (shares_capped (gateways s) \<longrightarrow> shares_capped (gateways s'))
     \<and> (\<forall>bal. gar_inv bal s \<longrightarrow> gar_inv bal s')"

lemma tally_keeps_refl: "tally_keeps s s"
  by (simp add: tally_keeps_def)

lemma tally_keeps_trans: "tally_keeps s t \<Longrightarrow> tally_keeps t u \<Longrightarrow> tally_keeps s u"
  by (simp add: tally_keeps_def)

lemma gar_inv_registry [simp]: "gar_inv bal (s\<lparr>registry := r\<rparr>) = gar_inv bal s"
  by (simp add: gar_inv_def well_formed_def supply_consistent_def counters_cover_def
      obligations_def pool_flow_def)

lemma cache_weight_table [simp]:
  "reg_count (cache_weight i w d reg) = reg_count reg"
  "slot_addresses (cache_weight i w d reg) = slot_addresses reg"
  by (auto simp: cache_weight_def)

lemma tally_step_keeps:
  assumes "tally_step (s, e) (s', e')"
  shows "tally_keeps s s'"
  using assms
proof cases
  case (skip_slot i)
  then show ?thesis
    by (auto simp: tally_keeps_def intro: registry_coherent_cong [of s])
next
  case (weigh_slot i gw g w g1 d)
  note same = tally_gateway_same [OF weigh_slot(9)] and g = weigh_slot(6)
  let ?t = "s\<lparr>gateways := (gateways s)(gw \<mapsto> g1)\<rparr>"
  have s': "s' = ?t\<lparr>registry := cache_weight i w d (registry s)\<rparr>" using weigh_slot(1) by simp
  have "indices (gateways ?t) = indices (gateways s)"
    using same(2) g by (auto simp: indices_def fun_eq_iff)
  then have "registry_coherent s \<longrightarrow> registry_coherent s'"
    unfolding s' by (auto intro: registry_coherent_cong [of s])
  moreover have "shares_capped (gateways s) \<longrightarrow> shares_capped (gateways s')"
    using same(3,4) g unfolding s' by (auto simp: shares_capped_def split: option.splits)
  moreover have "gar_inv bal s \<longrightarrow> gar_inv bal s'" for bal
    using gateway_touch_posts [of bal s gw g g1 ?t, OF _ g same(1)]
      quiet_posts_keep_gar_inv [of bal s "[]" ?t] unfolding s' by auto
  ultimately show ?thesis by (simp add: tally_keeps_def s')
qed

lemma tally_steps_keep: "tally_step\<^sup>*\<^sup>* se se' \<Longrightarrow> tally_keeps (fst se) (fst se')"
proof (induction rule: rtranclp_induct)
  case (step y z)
  then have "tally_keeps (fst y) (fst z)" using tally_step_keeps by (metis prod.collapse)
  with step.IH show ?case by (rule tally_keeps_trans)
qed (rule tally_keeps_refl)

lemma tally_steps_tallied:
  "tally_step\<^sup>*\<^sup>* se se' \<Longrightarrow> ep_weights_tallied (snd se') = ep_weights_tallied (snd se)"
proof (induction rule: rtranclp_induct)
  case (step y z)
  from step.hyps(2) have "ep_weights_tallied (snd z) = ep_weights_tallied (snd y)"
    by cases (simp_all add: advance_tally_def add_composite_weight_def set_total_composite_weight_def)
  with step.IH show ?case by simp
qed simp

section \<open>The instruction\<close>

lemma tally_weights_run:
  assumes "tally_weights remaining ix s = Inr s'"
  obtains e s1 e1 where "epochs s ix = Some e" "ep_weights_tallied e = 0"
    "ep_epoch_index e = es_current_epoch_index (epoch_settings_acc s) - 1"
    "es_current_epoch_index (epoch_settings_acc s) > 0"
    "tally_step\<^sup>*\<^sup>* (s, e) (s1, e1)"
    "s' = s1\<lparr>epochs := (epochs s1)(ix \<mapsto>
       (if ep_tally_index e1 \<ge> ep_active_gateway_count e1 then e1\<lparr>ep_weights_tallied := 1\<rparr> else e1))\<rparr>"
proof -
  obtain e live s1 e1 where f: "epochs s ix = Some e" "ep_weights_tallied e = 0"
    "checked_sub (es_current_epoch_index (epoch_settings_acc s)) 1 = Some live"
    "ep_epoch_index e = live" "tally_loop remaining s e = Inr (s1, e1)"
    "s' = s1\<lparr>epochs := (epochs s1)(ix \<mapsto>
       (if ep_tally_index e1 \<ge> ep_active_gateway_count e1 then e1\<lparr>ep_weights_tallied := 1\<rparr> else e1))\<rparr>"
    using assms unfolding tally_weights_def Let_def run_iff by auto
  from f(3) have "live = es_current_epoch_index (epoch_settings_acc s) - 1"
    "es_current_epoch_index (epoch_settings_acc s) > 0"
    by (auto simp: checked_sub_iff word_le_nat_alt word_less_nat_alt)
  with f tally_loop_steps [OF f(5)] that show ?thesis by blast
qed

end
