(* ===== verification/Gar_Roulette.thy ===== *)
theory Gar_Roulette
  imports Gar_Epoch
begin

text \<open>
  The observer roulette: prefix sums, the binary search they allow and the linear walk they
  replace, and what the rounds select. Nothing is assumed of the hash function.
\<close>

section \<open>Prefix sums\<close>

definition cumulative :: "u64 list \<Rightarrow> nat \<Rightarrow> nat" where
  "cumulative ws i = sum_list (map unat (take i ws))"

lemma cumulative_Cons [simp]: "cumulative (w # ws) (Suc i) = unat w + cumulative ws i"
  by (simp add: cumulative_def)

lemma cumulative_0 [simp]: "cumulative ws 0 = 0"
  by (simp add: cumulative_def)

lemma unat_checked_add: "checked_add a b = Some c \<Longrightarrow> unat c = unat a + unat b" for a b :: u64
  by (drule checked_addD) (metis nat_int of_nat_add uint_nat unat_eq_nat_uint)

lemma prefix_sums_are_cumulative:
  "prefix_sums r ws = Inr ps \<Longrightarrow>
     length ps = length ws \<and> (\<forall>i < length ws. unat (ps ! i) = unat r + cumulative ws (Suc i))"
proof (induction ws arbitrary: r ps)
  case (Cons w ws)
  then obtain c rest where c: "checked_add r w = Some c" and rest: "prefix_sums c ws = Inr rest"
    and ps: "ps = c # rest" by (auto simp: result_iff)
  show ?case
    using Cons.IH [OF rest] unat_checked_add [OF c] unfolding ps
    by (auto simp: nth_Cons split: nat.split)
qed simp

text \<open>The sums fit exactly when the whole does.\<close>

lemma prefix_sums_returns:
  "unat r + cumulative ws (length ws) < 2 ^ 64 \<Longrightarrow> \<exists>ps. prefix_sums r ws = Inr ps"
proof (induction ws arbitrary: r)
  case (Cons w ws)
  have "unat r + unat w < 18446744073709551616" using Cons.prems by simp
  then have "uint r + uint w < 18446744073709551616" unfolding uint_nat by linarith
  then have c: "checked_add r w = Some (r + w)" by (simp add: checked_add_def)
  have "unat (r + w) + cumulative ws (length ws) < 2 ^ 64"
    using unat_checked_add [OF c] Cons.prems by simp
  from Cons.IH [OF this] obtain ps where "prefix_sums (r + w) ws = Inr ps" by blast
  with c show ?case by simp
qed simp

section \<open>The linear walk\<close>

text \<open>The walk the roulette replaces: the first slot whose running total exceeds the draw.\<close>

fun linear_walk :: "nat \<Rightarrow> u64 list \<Rightarrow> nat" where
  "linear_walk r [] = 0"
| "linear_walk r (w # ws) = (if r < unat w then 0 else Suc (linear_walk (r - unat w) ws))"

lemma linear_walk_hits:
  "r < cumulative ws (length ws) \<Longrightarrow>
     linear_walk r ws < length ws \<and> cumulative ws (linear_walk r ws) \<le> r
     \<and> r < cumulative ws (Suc (linear_walk r ws))"
proof (induction ws arbitrary: r)
  case (Cons w ws)
  show ?case
  proof (cases "r < unat w")
    case False
    with Cons.prems have "r - unat w < cumulative ws (length ws)" by simp
    from Cons.IH [OF this] False show ?thesis by auto
  qed simp
qed simp

lemma partition_point_is_walk:
  "prefix_sums c ws = Inr ps \<Longrightarrow> unat c \<le> r \<Longrightarrow>
     partition_point (\<lambda>p. unat p \<le> r) ps = linear_walk (r - unat c) ws"
proof (induction ws arbitrary: c ps)
  case (Cons w ws)
  then obtain d rest where d: "checked_add c w = Some d" and rest: "prefix_sums d ws = Inr rest"
    and ps: "ps = d # rest" by (auto simp: result_iff)
  note ud = unat_checked_add [OF d]
  show ?case
  proof (cases "unat d \<le> r")
    case True
    have "r - unat c - unat w = r - unat d" using ud by simp
    moreover have "\<not> r - unat c < unat w" using True ud by linarith
    ultimately show ?thesis
      using Cons.IH [OF rest True] True unfolding ps by (simp add: partition_point_def)
  next
    case False
    then have "r - unat c < unat w" using ud Cons.prems(2) by linarith
    with False show ?thesis unfolding ps by (simp add: partition_point_def)
  qed
qed (simp add: partition_point_def)

text \<open>One draw of the reference: the hash modulo the live total, walked linearly.\<close>

definition walk_draw :: "u64 list \<Rightarrow> u8 list \<Rightarrow> nat" where
  "walk_draw ws hash_bytes =
     linear_walk (le_nat (take 16 hash_bytes) mod cumulative ws (length ws)) ws"

lemma last_prefix:
  "prefix_sums 0 ws = Inr ps \<Longrightarrow> ws \<noteq> [] \<Longrightarrow> unat (last ps) = cumulative ws (length ws)"
proof -
  assume p: "prefix_sums 0 ws = Inr ps" and ne: "ws \<noteq> []"
  note facts = prefix_sums_are_cumulative [OF p]
  have "ps \<noteq> []" using facts ne by auto
  then have "last ps = ps ! (length ws - 1)" using facts by (simp add: last_conv_nth)
  then show ?thesis using facts ne by simp
qed

lemma draw_index_is_walk:
  "prefix_sums 0 ws = Inr ps \<Longrightarrow> ws \<noteq> [] \<Longrightarrow> draw_index ps h = walk_draw ws h"
  unfolding draw_index_def walk_draw_def
  by (simp add: partition_point_is_walk last_prefix)

text \<open>Every draw of a positive total hits a slot of positive weight.\<close>

lemma walk_draw_positive:
  assumes "cumulative ws (length ws) > 0"
  shows "walk_draw ws h < length ws" and "ws ! walk_draw ws h > 0"
proof -
  define r where "r = le_nat (take 16 h) mod cumulative ws (length ws)"
  have "r < cumulative ws (length ws)" using assms by (simp add: r_def)
  note hit = linear_walk_hits [OF this]
  then have "cumulative ws (linear_walk r ws) < cumulative ws (Suc (linear_walk r ws))" by linarith
  moreover have "cumulative ws (Suc j) = cumulative ws j + unat (ws ! j)" if "j < length ws" for j
    using that by (simp add: cumulative_def take_Suc_conv_app_nth)
  ultimately have "unat (ws ! linear_walk r ws) > 0" using hit by simp
  with hit show "walk_draw ws h < length ws" and "ws ! walk_draw ws h > 0"
    by (simp_all add: walk_draw_def r_def [symmetric] unat_gt_0 word_neq_0_conv)
qed

section \<open>The rounds\<close>

text \<open>The reference selection: linear walks, rejecting what is already selected.\<close>

fun walk_rounds :: "hasher \<Rightarrow> u64 list \<Rightarrow> nat \<Rightarrow> nat \<Rightarrow> u8 list \<Rightarrow> nat list \<Rightarrow> nat list" where
  "walk_rounds sha ws cap 0 h selected = selected"
| "walk_rounds sha ws cap (Suc rounds) h selected =
     (if length selected \<ge> cap then selected
      else walk_rounds sha ws cap rounds (sha h)
             (if walk_draw ws h \<in> set selected then selected else selected @ [walk_draw ws h]))"

definition walk_select :: "hasher \<Rightarrow> u8 list \<Rightarrow> u64 list \<Rightarrow> nat \<Rightarrow> nat list" where
  "walk_select sha hashchain ws max_observers =
     (let cap = min max_observers (length ws) in
      if cumulative ws (length ws) = 0 \<or> cap = 0 then []
      else walk_rounds sha ws cap (cap * 10) (sha hashchain) [])"

lemma roulette_rounds_are_walks:
  assumes "prefix_sums 0 ws = Inr ps" and "cumulative ws (length ws) > 0"
  shows "roulette_rounds sha ps cap rounds h selected = Inr (walk_rounds sha ws cap rounds h selected)"
proof -
  have ne: "ws \<noteq> []" using assms(2) by auto
  have len: "length ps = length ws" using prefix_sums_are_cumulative [OF assms(1)] by simp
  show ?thesis
    by (induction rounds arbitrary: h selected)
      (simp_all add: Let_def len draw_index_is_walk [OF assms(1) ne] walk_draw_positive(1) [OF assms(2)])
qed

lemma roulette_is_walk:
  assumes p: "prefix_sums 0 ws = Inr ps"
  shows "roulette_select_indices sha hashchain ps n = Inr (walk_select sha hashchain ws n)"
proof -
  have len: "length ps = length ws" using prefix_sums_are_cumulative [OF p] by simp
  show ?thesis
  proof (cases "ws = []")
    case True
    with len show ?thesis by (simp add: roulette_select_indices_def walk_select_def)
  next
    case False
    then have "ps \<noteq> []" using len by auto
    moreover have "(last ps = 0) = (cumulative ws (length ws) = 0)"
      using last_prefix [OF p False] by (metis unat_eq_zero)
    ultimately show ?thesis
      by (simp add: roulette_select_indices_def walk_select_def len Let_def
          roulette_rounds_are_walks [OF p])
  qed
qed

definition selection_ok :: "u64 list \<Rightarrow> nat \<Rightarrow> nat list \<Rightarrow> bool" where
  "selection_ok ws cap sel \<longleftrightarrow>
     distinct sel \<and> length sel \<le> cap \<and> (\<forall>i \<in> set sel. i < length ws \<and> ws ! i > 0)"

lemma walk_rounds_ok:
  assumes "cumulative ws (length ws) > 0"
  shows "selection_ok ws cap selected \<Longrightarrow> selection_ok ws cap (walk_rounds sha ws cap rounds h selected)"
proof (induction rounds arbitrary: h selected)
  case (Suc rounds)
  show ?case
  proof (cases "length selected \<ge> cap")
    case False
    with Suc.prems have "selection_ok ws cap
        (if walk_draw ws h \<in> set selected then selected else selected @ [walk_draw ws h])"
      by (auto simp: selection_ok_def walk_draw_positive [OF assms])
    from Suc.IH [OF this, of "sha h"] False show ?thesis by simp
  qed (use Suc.prems in simp)
qed simp

lemma walk_select_ok: "selection_ok ws (min n (length ws)) (walk_select sha hashchain ws n)"
proof (cases "cumulative ws (length ws) > 0")
  case True
  have "selection_ok ws (min n (length ws)) []" by (simp add: selection_ok_def)
  then have "selection_ok ws (min n (length ws))
      (walk_rounds sha ws (min n (length ws)) (min n (length ws) * 10) (sha hashchain) [])"
    by (rule walk_rounds_ok [OF True])
  moreover have "selection_ok ws (min n (length ws)) []" by (simp add: selection_ok_def)
  ultimately show ?thesis unfolding walk_select_def Let_def by presburger
qed (simp add: walk_select_def selection_ok_def)

text \<open>A positive total selects at least one observer: the first round always adds one.\<close>

lemma walk_rounds_extends: "\<exists>more. walk_rounds sha ws cap rounds h selected = selected @ more"
proof (induction rounds arbitrary: h selected)
  case (Suc rounds)
  show ?case
    using Suc.IH [of "sha h" selected] Suc.IH [of "sha h" "selected @ [walk_draw ws h]"] by auto
qed simp

lemma walk_select_nonempty:
  assumes "cumulative ws (length ws) > 0" and "n > 0"
  shows "walk_select sha hashchain ws n \<noteq> []"
proof -
  have "ws \<noteq> []" using assms(1) by auto
  then obtain k where k: "min n (length ws) * 10 = Suc k" and cap: "min n (length ws) > 0"
    using assms(2) by (cases "min n (length ws) * 10") auto
  obtain more where "walk_rounds sha ws (min n (length ws)) k (sha (sha hashchain))
      [walk_draw ws (sha hashchain)] = walk_draw ws (sha hashchain) # more"
    using walk_rounds_extends [of sha ws _ k _ "[walk_draw ws (sha hashchain)]"] by fastforce
  with assms(1) cap show ?thesis by (auto simp: walk_select_def Let_def k)
qed

section \<open>Names\<close>

lemma read_name_entry_nonzero:
  "read_name_entry data off i = Some h \<Longrightarrow> h \<noteq> replicate 32 0 \<and> length h = 32"
  by (auto simp: read_name_entry_def Let_def split: if_splits)

lemma probe_name_fresh:
  "probe_name data off n r taken = Some h \<Longrightarrow>
     h \<notin> set taken \<and> (\<exists>i. read_name_entry data off i = Some h)"
proof -
  assume run: "probe_name data off n r taken = Some h"
  let ?fresh = "\<lambda>probe. case read_name_entry data off ((r + probe) mod n) of
                      None \<Rightarrow> False | Some h \<Rightarrow> h \<notin> set taken"
  from run obtain probe where f: "find ?fresh [0 ..< n] = Some probe"
    and h: "read_name_entry data off ((r + probe) mod n) = Some h"
    by (auto simp: probe_name_def Let_def split: option.splits)
  from f have "?fresh probe" by (auto simp: find_Some_iff)
  with h show ?thesis by auto
qed

definition names_ok :: "u8 list \<Rightarrow> nat \<Rightarrow> nat \<Rightarrow> u8 list list \<Rightarrow> bool" where
  "names_ok data off count names \<longleftrightarrow>
     distinct names \<and> length names \<le> count \<and> (\<forall>h \<in> set names. \<exists>i. read_name_entry data off i = Some h)"

lemma select_names_ok:
  "names_ok data off count taken \<Longrightarrow>
     names_ok data off count (select_names sha data off n count rounds h taken)"
proof (induction rounds arbitrary: h taken)
  case (Suc rounds)
  show ?case
  proof (cases "length taken \<ge> count")
    case False
    let ?p = "probe_name data off n (le_nat (take 8 h) mod n) taken"
    have "names_ok data off count (case ?p of None \<Rightarrow> taken | Some m \<Rightarrow> taken @ [m])"
      using Suc.prems False by (auto simp: names_ok_def dest: probe_name_fresh split: option.split)
    from Suc.IH [OF this, of "sha h"] False show ?thesis by (simp add: Let_def)
  qed (use Suc.prems in simp)
qed simp

end
