(* ===== verification/Gar_Observation.thy ===== *)
theory Gar_Observation
  imports Gar_Epoch
begin

text \<open>
  Observations and the end of an epoch: \<open>instructions/observation.rs\<close> and the closing
  instructions of \<open>instructions/epoch.rs\<close>. Closing an account removes it and appends to
  \<open>rent_log\<close> which account was closed and who received its rent.
\<close>

section \<open>Reports\<close>

text \<open>Bit \<open>i\<close> of the results: whether the observer found gateway \<open>i\<close> passing.\<close>

definition passed_bit :: "(nat \<Rightarrow> u8) \<Rightarrow> nat \<Rightarrow> bool" where
  "passed_bit results i \<longleftrightarrow> and (drop_bit (i mod 8) (results (i div 8))) 1 \<noteq> 0"

definition count_failure :: "(nat \<Rightarrow> u8) \<Rightarrow> nat \<Rightarrow> (nat \<Rightarrow> u16) \<Rightarrow> nat \<Rightarrow> u16" where
  "count_failure results i counts =
     (if i div 8 < 375 \<and> \<not> passed_bit results i
      then counts(i := saturating_add (counts i) 1) else counts)"

definition count_failures :: "(nat \<Rightarrow> u8) \<Rightarrow> nat \<Rightarrow> (nat \<Rightarrow> u16) \<Rightarrow> nat \<Rightarrow> u16" where
  "count_failures results n counts = fold (count_failure results) [0 ..< n] counts"

text \<open>\<open>prescribed_observers[..observer_count].iter().position(|o| *o == observer)\<close>.\<close>

definition observer_position :: "epoch \<Rightarrow> pubkey \<Rightarrow> nat option" where
  "observer_position e observer =
     find (\<lambda>i. ep_prescribed_observers e i = observer) [0 ..< unat (ep_observer_count e)]"

definition save_observations ::
  "gar_env \<Rightarrow> u64 \<Rightarrow> (nat \<Rightarrow> u8) \<Rightarrow> u16 \<Rightarrow> u8 list \<Rightarrow> pubkey \<Rightarrow> gar_state \<Rightarrow> gar_state gar_result" where
  "save_observations env epoch_index gateway_results gateway_count report_tx_id observer s =
     ok_or (epochs s epoch_index) AccountNotInitialized (\<lambda>e.
     require (observations s (epoch_index, observer) = None) AccountAlreadyInUse (
     require (ep_prescriptions_done e \<noteq> 0) PrescriptionsNotDone (
     require (now env \<ge> ep_start_timestamp e) EpochNotStarted (
     require (now env < ep_end_timestamp e) EpochEnded (
     require ((ucast gateway_count :: u32) = ep_active_gateway_count e) InvalidObservation (
     require (unat (ep_observer_count e) \<le> 50) Panic (
     ok_or (observer_position e observer) NotPrescribedObserver (\<lambda>observer_idx.
     let e1 = set_observed e observer_idx;
         ob = \<lparr>ob_epoch_index = ep_epoch_index e, ob_observer = observer,
               ob_gateway_results = gateway_results, ob_gateway_count = gateway_count,
               ob_report_tx_id = report_tx_id, ob_submitted_at = now env,
               ob_bump = pda_bump env (ObservationPda epoch_index observer), ob_version = V1_0_0\<rparr>;
         n = min (unat (ep_active_gateway_count e)) (unat gateway_count);
         e2 = e1\<lparr>ep_failure_counts := count_failures gateway_results n (ep_failure_counts e1),
                ep_observations_submitted := saturating_add (ep_observations_submitted e1) 1\<rparr>
     in Inr (s\<lparr>epochs := (epochs s)(epoch_index \<mapsto> e2),
               observations := (observations s)((epoch_index, observer) \<mapsto> ob)\<rparr>)))))))))"

text \<open>The observation is looked up by its address; the rent goes to the recorded observer.\<close>

definition close_observation ::
  "u64 \<Rightarrow> pubkey \<Rightarrow> pubkey \<Rightarrow> gar_state \<Rightarrow> gar_state gar_result" where
  "close_observation epoch_index observer destination s =
     ok_or (epochs s epoch_index) AccountNotInitialized (\<lambda>e.
     ok_or (observations s (epoch_index, observer)) AccountNotInitialized (\<lambda>ob.
     require (ob_epoch_index ob = epoch_index) InvalidEpochIndex (
     require (destination = ob_observer ob) WrongObserverAccount (
     require (ep_rewards_distributed e \<noteq> 0) EpochNotCloseable (
     Inr (s\<lparr>epochs := (epochs s)(epoch_index \<mapsto>
              e\<lparr>ep_observations_closed := saturating_add (ep_observations_closed e) 1\<rparr>),
            observations := (observations s)((epoch_index, observer) := None),
            rent_log := rent_log s @ [(ObservationPda epoch_index observer, destination)]\<rparr>))))))"

section \<open>Closing an epoch\<close>

text \<open>
  The accounts of \<open>close_epoch\<close> can be addresses of this program or any other account; whether
  an address of the program is an existing account of it.
\<close>

datatype any_address = PdaAddress gar_pda | KeyAddress pubkey

record any_account =
  an_key :: any_address
  an_is_writable :: bool

definition pda_exists :: "gar_state \<Rightarrow> gar_pda \<Rightarrow> bool" where
  "pda_exists s a =
     (case a of
        SettingsPda \<Rightarrow> True | RegistryPda \<Rightarrow> True | EpochSettingsPda \<Rightarrow> True
      | GatewayPda gw \<Rightarrow> gateways s gw \<noteq> None
      | DelegationPda gw d \<Rightarrow> delegations s (gw, d) \<noteq> None
      | WithdrawalPda owner wid \<Rightarrow> withdrawals s (owner, wid) \<noteq> None
      | WithdrawalCounterPda owner \<Rightarrow> withdrawal_counters s owner \<noteq> None
      | AllowlistPda gw d \<Rightarrow> allowlist s (gw, d) \<noteq> None
      | ObserverLookupPda ob \<Rightarrow> observer_lookups s ob \<noteq> None
      | RedelegationPda d \<Rightarrow> redelegation_records s d \<noteq> None
      | EpochPda i \<Rightarrow> epochs s i \<noteq> None
      | EpochRentReceiptPda i \<Rightarrow> epoch_rent_receipts s i \<noteq> None
      | ObservationPda i ob \<Rightarrow> observations s (i, ob) \<noteq> None)"

text \<open>
  The receipt of the epoch: an account this program owns, that deserializes as a receipt, at the
  address of this epoch's receipt with the bump it records.
\<close>

definition epoch_receipt ::
  "gar_env \<Rightarrow> any_address \<Rightarrow> u64 \<Rightarrow> gar_state \<Rightarrow> epoch_rent_receipt gar_result" where
  "epoch_receipt env receipt_key epoch_index s =
     (case receipt_key of
        KeyAddress _ \<Rightarrow> Inl InvalidEpochRentReceipt
      | PdaAddress a \<Rightarrow>
          require (pda_exists s a) InvalidEpochRentReceipt (
          case a of
            EpochRentReceiptPda i \<Rightarrow>
              ok_or (epoch_rent_receipts s i) InvalidEpochRentReceipt (\<lambda>r.
              require (i = epoch_index \<and> er_bump r = pda_bump env (EpochRentReceiptPda epoch_index))
                InvalidEpochRentReceipt (Inr r))
          | _ \<Rightarrow> Inl ConstraintViolated))"

definition close_epoch_account :: "u64 \<Rightarrow> pubkey \<Rightarrow> gar_state \<Rightarrow> gar_state" where
  "close_epoch_account epoch_index destination s =
     s\<lparr>epochs := (epochs s)(epoch_index := None),
       rent_log := rent_log s @ [(EpochPda epoch_index, destination)]\<rparr>"

definition close_receipt_account :: "u64 \<Rightarrow> pubkey \<Rightarrow> gar_state \<Rightarrow> gar_state" where
  "close_receipt_account epoch_index destination s =
     s\<lparr>epoch_rent_receipts := (epoch_rent_receipts s)(epoch_index := None),
       rent_log := rent_log s @ [(EpochRentReceiptPda epoch_index, destination)]\<rparr>"

definition close_epoch ::
  "gar_env \<Rightarrow> any_account list \<Rightarrow> u64 \<Rightarrow> pubkey \<Rightarrow> gar_state \<Rightarrow> gar_state gar_result" where
  "close_epoch env remaining epoch_index payer s =
     ok_or (epochs s epoch_index) AccountNotInitialized (\<lambda>e.
     require (ep_rewards_distributed e \<noteq> 0) EpochNotCloseable (
     require (es_current_epoch_index (epoch_settings_acc s)
                \<ge> saturating_add (ep_epoch_index e) 7) EpochNotCloseable (
     require (ep_observations_closed e = ep_observations_submitted e) EpochObservationsNotClosed (
     if ep_has_rent_receipt e \<noteq> 0 then
       (case remaining of
          receipt_info # creator_info # _ \<Rightarrow>
            require (an_is_writable receipt_info \<and> an_is_writable creator_info) MissingEpochRentReceipt (
            and_then (epoch_receipt env (an_key receipt_info) (ep_epoch_index e) s) (\<lambda>r.
            require (an_key creator_info = KeyAddress (er_creator r)) WrongEpochCreator (
            Inr (close_receipt_account (ep_epoch_index e) (er_creator r)
                  (close_epoch_account epoch_index (er_creator r) s)))))
        | _ \<Rightarrow> Inl MissingEpochRentReceipt)
     else Inr (close_epoch_account epoch_index payer s)))))"

section \<open>The administrator's release valves\<close>

definition admin_close_stale_epoch ::
  "gar_env \<Rightarrow> pubkey \<Rightarrow> u64 \<Rightarrow> gar_state \<Rightarrow> gar_state gar_result" where
  "admin_close_stale_epoch env authority epoch_index s =
     require (es_authority (epoch_settings_acc s) = authority) Unauthorized (
     ok_or (epochs s epoch_index) AccountNotInitialized (\<lambda>e.
     require (now env \<ge> ep_end_timestamp e) EpochInProgress (
     require (ep_rewards_distributed e = 0) RewardsAlreadyDistributed (
     Inr (close_epoch_account epoch_index authority s)))))"

definition admin_close_orphaned_epoch_rent_receipt ::
  "pubkey \<Rightarrow> u64 \<Rightarrow> pubkey \<Rightarrow> gar_state \<Rightarrow> gar_state gar_result" where
  "admin_close_orphaned_epoch_rent_receipt authority epoch_index creator s =
     require (es_authority (epoch_settings_acc s) = authority) Unauthorized (
     ok_or (epoch_rent_receipts s epoch_index) AccountNotInitialized (\<lambda>r.
     require (creator = er_creator r) WrongEpochCreator (
     require (epochs s epoch_index = None) EpochStillExists (
     Inr (close_receipt_account epoch_index creator s)))))"

end
