(* ===== verification/Gar_Lifecycle.thy ===== *)
theory Gar_Lifecycle
  imports Gar_Tally Gar_Roulette Gar_Observation
begin

text \<open>
  The epoch lifecycle as a state machine: the order of its phases, that at most the latest epoch
  is unfinished (ADR-0034), that an epoch's two counters account for every open observation, and
  that a recorded rent receipt is there when the epoch is closed. Time only matters through its
  order: \<open>t\<close> bounds the clock of every instruction run so far.
\<close>

section \<open>The invariant\<close>

definition open_observers :: "(u64 \<times> pubkey \<rightharpoonup> observation) \<Rightarrow> u64 \<Rightarrow> pubkey set" where
  "open_observers obs i = {ob. obs (i, ob) \<noteq> None}"

definition prescribed_set :: "epoch \<Rightarrow> pubkey set" where
  "prescribed_set e = ep_prescribed_observers e ` {..< unat (ep_observer_count e)}"

text \<open>Phases come in order, and the two late ones need the epoch to have ended.\<close>

definition phases_ok :: "i64 \<Rightarrow> epoch \<Rightarrow> bool" where
  "phases_ok t e \<longleftrightarrow>
     (ep_rewards_distributed e = 0 \<or> ep_rewards_distributed e = 1)
     \<and> (ep_prescriptions_done e \<noteq> 0 \<longrightarrow> ep_weights_tallied e \<noteq> 0)
     \<and> (ep_prescriptions_done e = 0 \<longrightarrow> ep_observations_submitted e = 0)
     \<and> (ep_rewards_distributed e \<noteq> 0 \<longrightarrow> ep_prescriptions_done e \<noteq> 0 \<and> ep_end_timestamp e \<le> t)
     \<and> (ep_observations_closed e \<noteq> 0 \<longrightarrow> ep_rewards_distributed e \<noteq> 0)"

text \<open>Submitted minus closed is the number of observation accounts that are open.\<close>

definition observations_accounted :: "(u64 \<times> pubkey \<rightharpoonup> observation) \<Rightarrow> u64 \<Rightarrow> epoch \<Rightarrow> bool" where
  "observations_accounted obs i e \<longleftrightarrow>
     unat (ep_observer_count e) \<le> 50
     \<and> open_observers obs i \<subseteq> prescribed_set e
     \<and> card (open_observers obs i) + unat (ep_observations_closed e)
         = unat (ep_observations_submitted e)
     \<and> (\<forall>ob o'. obs (i, ob) = Some o' \<longrightarrow> ob_epoch_index o' = i)"

definition receipt_there :: "(gar_pda \<Rightarrow> u8) \<Rightarrow> (u64 \<rightharpoonup> epoch_rent_receipt) \<Rightarrow> u64 \<Rightarrow> epoch \<Rightarrow> bool" where
  "receipt_there bump rc i e \<longleftrightarrow>
     ep_has_rent_receipt e \<noteq> 0
       \<longrightarrow> (\<exists>r. rc i = Some r \<and> er_bump r = bump (EpochRentReceiptPda i))"

definition epoch_ok ::
  "(gar_pda \<Rightarrow> u8) \<Rightarrow> i64 \<Rightarrow> u64 \<Rightarrow> (u64 \<times> pubkey \<rightharpoonup> observation) \<Rightarrow> (u64 \<rightharpoonup> epoch_rent_receipt)
     \<Rightarrow> u64 \<Rightarrow> epoch \<Rightarrow> bool" where
  "epoch_ok bump t current obs rc i e \<longleftrightarrow>
     ep_epoch_index e = i \<and> i < current
     \<and> (ep_rewards_distributed e \<noteq> 1 \<longrightarrow> i = current - 1)
     \<and> phases_ok t e \<and> observations_accounted obs i e \<and> receipt_there bump rc i e"

definition epochs_ok :: "(gar_pda \<Rightarrow> u8) \<Rightarrow> i64 \<Rightarrow> gar_state \<Rightarrow> bool" where
  "epochs_ok bump t s \<longleftrightarrow>
     (\<forall>i e. epochs s i = Some e \<longrightarrow>
        epoch_ok bump t (es_current_epoch_index (epoch_settings_acc s)) (observations s)
          (epoch_rent_receipts s) i e)"

definition unborn_ok :: "gar_state \<Rightarrow> bool" where
  "unborn_ok s \<longleftrightarrow>
     (\<forall>i. es_current_epoch_index (epoch_settings_acc s) \<le> i \<longrightarrow> open_observers (observations s) i = {})"

definition lifecycle_ok :: "(gar_pda \<Rightarrow> u8) \<Rightarrow> i64 \<Rightarrow> gar_state \<Rightarrow> bool" where
  "lifecycle_ok bump t s \<longleftrightarrow> epochs_ok bump t s \<and> unborn_ok s"

lemma lifecycle_epoch:
  "lifecycle_ok bump t s \<Longrightarrow> epochs s i = Some e \<Longrightarrow>
     epoch_ok bump t (es_current_epoch_index (epoch_settings_acc s)) (observations s)
       (epoch_rent_receipts s) i e"
  by (simp add: lifecycle_ok_def epochs_ok_def)

lemma phases_later: "phases_ok t e \<Longrightarrow> t \<le> t' \<Longrightarrow> phases_ok t' e"
  by (auto simp: phases_ok_def)

lemma lifecycle_later: "lifecycle_ok bump t s \<Longrightarrow> t \<le> t' \<Longrightarrow> lifecycle_ok bump t' s"
  by (auto simp: lifecycle_ok_def epochs_ok_def epoch_ok_def intro: phases_later)

lemma lifecycle_frame:
  assumes "lifecycle_ok bump t s" and "lifecycle s' = lifecycle s"
    and "es_current_epoch_index (epoch_settings_acc s') = es_current_epoch_index (epoch_settings_acc s)"
  shows "lifecycle_ok bump t s'"
  using assms by (simp add: lifecycle_ok_def epochs_ok_def unborn_ok_def)

lemma open_observers_upd [simp]:
  "open_observers (obs((i, ob) \<mapsto> o')) j = (if j = i then insert ob (open_observers obs j) else open_observers obs j)"
  "open_observers (obs((i, ob) := None)) j = (if j = i then open_observers obs j - {ob} else open_observers obs j)"
  by (auto simp: open_observers_def)

lemma finite_open: "observations_accounted obs i e \<Longrightarrow> finite (open_observers obs i)"
  unfolding observations_accounted_def prescribed_set_def by (meson finite_imageI finite_lessThan finite_subset)

lemma open_le_50: "observations_accounted obs i e \<Longrightarrow> card (open_observers obs i) \<le> 50"
proof -
  assume a: "observations_accounted obs i e"
  have "card (open_observers obs i) \<le> card (prescribed_set e)"
    using a by (intro card_mono) (simp_all add: observations_accounted_def prescribed_set_def)
  also have "\<dots> \<le> unat (ep_observer_count e)"
    unfolding prescribed_set_def by (metis card_image_le card_lessThan finite_lessThan)
  finally show ?thesis using a by (simp add: observations_accounted_def)
qed

text \<open>Rewriting one epoch's account.\<close>

lemma lifecycle_upd:
  assumes ok: "lifecycle_ok bump t s"
    and e: "epoch_ok bump t (es_current_epoch_index (epoch_settings_acc s)) (observations s')
       (epoch_rent_receipts s') i e'"
    and s': "epochs s' = (epochs s)(i \<mapsto> e')"
      "es_current_epoch_index (epoch_settings_acc s') = es_current_epoch_index (epoch_settings_acc s)"
    and other: "\<And>j ob. j \<noteq> i \<Longrightarrow> observations s' (j, ob) = observations s (j, ob)"
      "\<And>j. j \<noteq> i \<Longrightarrow> epoch_rent_receipts s' j = epoch_rent_receipts s j"
  shows "lifecycle_ok bump t s'"
proof -
  have open_same: "open_observers (observations s') j = open_observers (observations s) j" if "j \<noteq> i" for j
    using other(1) [OF that] by (simp add: open_observers_def)
  have born: "i < es_current_epoch_index (epoch_settings_acc s)" using e by (simp add: epoch_ok_def)
  have "epoch_ok bump t (es_current_epoch_index (epoch_settings_acc s)) (observations s')
       (epoch_rent_receipts s') j f" if "epochs s j = Some f" "j \<noteq> i" for j f
    using lifecycle_epoch [OF ok that(1)] other [OF that(2)] open_same [OF that(2)]
    by (simp add: epoch_ok_def observations_accounted_def receipt_there_def)
  then have "epochs_ok bump t s'"
    unfolding epochs_ok_def s' using e by simp
  moreover have "unborn_ok s'"
    using ok born open_same unfolding lifecycle_ok_def unborn_ok_def s'(2) by (metis linorder_not_less)
  ultimately show ?thesis by (simp add: lifecycle_ok_def)
qed

text \<open>Closing one epoch's account, with or without its receipt.\<close>

lemma lifecycle_close:
  assumes ok: "lifecycle_ok bump t s"
    and s': "epochs s' = (epochs s)(i := None)" "observations s' = observations s"
      "es_current_epoch_index (epoch_settings_acc s') = es_current_epoch_index (epoch_settings_acc s)"
    and other: "\<And>j. j \<noteq> i \<Longrightarrow> epoch_rent_receipts s' j = epoch_rent_receipts s j"
  shows "lifecycle_ok bump t s'"
proof -
  have "epoch_ok bump t (es_current_epoch_index (epoch_settings_acc s)) (observations s)
       (epoch_rent_receipts s') j f" if "epochs s j = Some f" "j \<noteq> i" for j f
    using lifecycle_epoch [OF ok that(1)] other [OF that(2)] by (simp add: epoch_ok_def receipt_there_def)
  then have "epochs_ok bump t s'" unfolding epochs_ok_def s' by simp
  with ok s' show ?thesis by (simp add: lifecycle_ok_def unborn_ok_def)
qed

section \<open>Every instruction of the lifecycle keeps it\<close>

lemma latest_finished_next:
  assumes ok: "lifecycle_ok bump t s" and fin: "require_latest_epoch_finished s remaining = Inr ()"
    and e: "epochs s j = Some e"
  shows "ep_rewards_distributed e = 1"
proof (rule ccontr)
  let ?c = "es_current_epoch_index (epoch_settings_acc s)"
  assume "ep_rewards_distributed e \<noteq> 1"
  with lifecycle_epoch [OF ok e] have j: "j < ?c" "j = ?c - 1" by (unfold epoch_ok_def, blast+)
  then have "checked_sub ?c 1 = Some j" by (auto simp: checked_sub_iff word_le_nat_alt word_less_nat_alt)
  with fin e have "ep_rewards_distributed e = 1"
    by (simp add: require_latest_epoch_finished_def require_iff)
  with \<open>ep_rewards_distributed e \<noteq> 1\<close> show False by simp
qed

lemma init_epoch_rent_receiptD:
  assumes "init_epoch_rent_receipt env r payer i s = Inr s'"
  shows "epoch_rent_receipts s i = None" and "s' = s\<lparr>epoch_rent_receipts := (epoch_rent_receipts s)(i \<mapsto>
       \<lparr>er_creator = payer, er_bump = pda_bump env (EpochRentReceiptPda i), er_version = V1_0_0\<rparr>)\<rparr>"
  using assms by (auto simp: init_epoch_rent_receipt_def run_iff)

lemma create_epoch_run:
  assumes "create_epoch env sha slot remaining protocol_ta payer s = Inr s'"
  obtains start finish rate protocol receipt s2 nxt
    where "epochs s (es_current_epoch_index (epoch_settings_acc s)) = None"
    "es_enabled (epoch_settings_acc s)" "start \<le> now env"
    "require_latest_epoch_finished s remaining = Inr ()"
    "token_accounts env (gs_protocol_token_account (settings s)) = Some protocol"
    "rate = compute_reward_rate (es_current_epoch_index (epoch_settings_acc s))
       (es_max_reward_rate (epoch_settings_acc s)) (es_min_reward_rate (epoch_settings_acc s))
       (es_reward_decay_start_epoch (epoch_settings_acc s))
       (es_reward_decay_last_epoch (epoch_settings_acc s))"
    "checked_add_i64 start (es_epoch_duration (epoch_settings_acc s)) = Some finish"
    "(case receipt of None \<Rightarrow> Inr (s\<lparr>epochs := (epochs s)(es_current_epoch_index (epoch_settings_acc s) \<mapsto>
         new_epoch (es_current_epoch_index (epoch_settings_acc s)) start finish
           (eligible_rewards (ta_amount protocol) rate) rate (reg_count (registry s))
           (sha (le_bytes64 slot @ le_bytes64 (es_current_epoch_index (epoch_settings_acc s))
                 @ le_bytes_i64 (now env))) (receipt \<noteq> None))\<rparr>)
      | Some r \<Rightarrow> init_epoch_rent_receipt env r payer (es_current_epoch_index (epoch_settings_acc s))
         (s\<lparr>epochs := (epochs s)(es_current_epoch_index (epoch_settings_acc s) \<mapsto>
         new_epoch (es_current_epoch_index (epoch_settings_acc s)) start finish
           (eligible_rewards (ta_amount protocol) rate) rate (reg_count (registry s))
           (sha (le_bytes64 slot @ le_bytes64 (es_current_epoch_index (epoch_settings_acc s))
                 @ le_bytes_i64 (now env))) (receipt \<noteq> None))\<rparr>)) = Inr s2"
    "checked_add (es_current_epoch_index (epoch_settings_acc s)) 1 = Some nxt"
    "s' = s2\<lparr>epoch_settings_acc := (epoch_settings_acc s)\<lparr>es_current_epoch_index := nxt\<rparr>\<rparr>"
  using assms unfolding create_epoch_def Let_def run_iff
  by (elim exE conjE)
    (rule that, assumption, assumption, assumption, simp, simp only:, rule refl, assumption, assumption,
      assumption, drule Inr_inject, erule sym)

lemma new_epoch_fields [simp]:
  "ep_epoch_index (new_epoch i st fi el rt n h r) = i"
  "ep_rewards_distributed (new_epoch i st fi el rt n h r) = 0"
  "ep_prescriptions_done (new_epoch i st fi el rt n h r) = 0"
  "ep_weights_tallied (new_epoch i st fi el rt n h r) = 0"
  "ep_observations_submitted (new_epoch i st fi el rt n h r) = 0"
  "ep_observations_closed (new_epoch i st fi el rt n h r) = 0"
  "ep_observer_count (new_epoch i st fi el rt n h r) = 0"
  "ep_tally_index (new_epoch i st fi el rt n h r) = 0"
  "ep_active_gateway_count (new_epoch i st fi el rt n h r) = n"
  "ep_start_timestamp (new_epoch i st fi el rt n h r) = st"
  "ep_end_timestamp (new_epoch i st fi el rt n h r) = fi"
  "ep_has_rent_receipt (new_epoch i st fi el rt n h r) = (if r then 1 else 0)"
  "total_composite_weight (new_epoch i st fi el rt n h r) = 0"
  by (simp_all add: new_epoch_def empty_epoch_def total_composite_weight_def)

lemma word_succ_facts:
  fixes c nxt :: u64
  assumes "checked_add c 1 = Some nxt"
  shows "nxt - 1 = c" and "c < nxt" and "j < nxt \<longleftrightarrow> j \<le> c" and "nxt \<le> j \<Longrightarrow> c \<le> j \<and> j \<noteq> c"
proof -
  have n: "nxt = c + 1" and u: "uint nxt = uint c + 1"
    using assms checked_addD [OF assms] by (simp_all add: checked_add_iff)
  show "nxt - 1 = c" by (simp add: n)
  show "c < nxt" "j < nxt \<longleftrightarrow> j \<le> c" "nxt \<le> j \<Longrightarrow> c \<le> j \<and> j \<noteq> c"
    using u by (auto simp: word_less_def word_le_def)
qed

lemma create_epoch_keeps_lifecycle:
  assumes ok: "lifecycle_ok (pda_bump env) (now env) s"
    and run: "create_epoch env sha slot remaining protocol_ta payer s = Inr s'"
  shows "lifecycle_ok (pda_bump env) (now env) s'"
proof (rule create_epoch_run [OF run], goal_cases)
  case (1 start finish rate protocol receipt s2 nxt)
  let ?c = "es_current_epoch_index (epoch_settings_acc s)"
  define e where "e = new_epoch ?c start finish (eligible_rewards (ta_amount protocol) rate) rate
     (reg_count (registry s)) (sha (le_bytes64 slot @ le_bytes64 ?c @ le_bytes_i64 (now env))) (receipt \<noteq> None)"
  note succ = word_succ_facts [OF 1(9)]
  have s2: "epochs s2 = (epochs s)(?c \<mapsto> e)" "observations s2 = observations s"
      "\<And>j. j \<noteq> ?c \<Longrightarrow> epoch_rent_receipts s2 j = epoch_rent_receipts s j"
      "receipt_there (pda_bump env) (epoch_rent_receipts s2) ?c e"
    using 1(8) by (cases receipt; auto simp: e_def receipt_there_def dest!: init_epoch_rent_receiptD(2))+
  have unborn: "open_observers (observations s) j = {}" if "?c \<le> j" for j
    using ok that by (simp add: lifecycle_ok_def unborn_ok_def)
  have new: "epoch_ok (pda_bump env) (now env) nxt (observations s) (epoch_rent_receipts s2) ?c e"
    using succ(1,2) s2(4) unborn [of ?c]
    by (simp add: epoch_ok_def phases_ok_def observations_accounted_def e_def)
      (simp add: open_observers_def)
  have old: "epoch_ok (pda_bump env) (now env) nxt (observations s) (epoch_rent_receipts s2) j f"
    if f: "epochs s j = Some f" "j \<noteq> ?c" for j f
    using lifecycle_epoch [OF ok f(1)] latest_finished_next [OF ok 1(4) f(1)] s2(3) [OF f(2)] succ(3) [of j]
    by (simp add: epoch_ok_def receipt_there_def less_imp_le)
  from new old have "epochs_ok (pda_bump env) (now env) s'"
    unfolding epochs_ok_def 1(10) by (auto simp: s2 split: if_splits)
  moreover have "unborn_ok s'"
    unfolding unborn_ok_def 1(10) using unborn succ(4) by (simp add: s2)
  ultimately show ?case by (simp add: lifecycle_ok_def)
qed

lemma tally_weights_keeps_lifecycle:
  assumes ok: "lifecycle_ok bump t s" and run: "tally_weights remaining ix s = Inr s'"
  shows "lifecycle_ok bump t s'"
proof (rule tally_weights_run [OF run], goal_cases)
  case (1 e s1 e1)
  have keeps: "tally_keeps s s1" and un: "untallied e1 = untallied e"
    using tally_steps_keep [OF 1(5)] tally_steps_untallied [OF 1(5)] by simp_all
  define e2 where "e2 =
    (if ep_tally_index e1 \<ge> ep_active_gateway_count e1 then e1\<lparr>ep_weights_tallied := 1\<rparr> else e1)"
  have "untallied e2 = untallied e" using un by (simp add: e2_def)
  note same = untallied_fields [OF this]
  have "epoch_ok bump t (es_current_epoch_index (epoch_settings_acc s)) (observations s)
       (epoch_rent_receipts s) ix e2"
    using lifecycle_epoch [OF ok 1(1)] same 1(2)
    unfolding epoch_ok_def phases_ok_def observations_accounted_def receipt_there_def prescribed_set_def
    by auto
  with keeps 1(6) show ?case
    by (intro lifecycle_upd [OF ok, where i = ix and e' = e2]) (simp_all add: tally_keeps_def e2_def)
qed

text \<open>What prescribing names and setting the rewards leave of the epoch.\<close>

definition unprescribed :: "epoch \<Rightarrow> epoch" where
  "unprescribed e = e\<lparr>ep_prescribed_names := (\<lambda>_. []), ep_name_count := 0,
     ep_per_gateway_reward := 0, ep_per_observer_reward := 0\<rparr>"

lemma prescribe_names_keeps:
  "prescribe_names sha gs es remaining n e = Inr e' \<Longrightarrow> unprescribed e' = unprescribed e"
  unfolding prescribe_names_def Let_def
  by (auto simp: require_iff unprescribed_def
      split: if_splits prescribe_account.splits option.splits prod.splits)

lemma set_unit_rewards_keeps: "unprescribed (set_unit_rewards es j n e) = unprescribed e"
  by (simp add: set_unit_rewards_def unprescribed_def Let_def)

lemma unprescribed_fields:
  "unprescribed e' = unprescribed e \<Longrightarrow>
     ep_active_gateway_count e' = ep_active_gateway_count e \<and> ep_epoch_index e' = ep_epoch_index e
     \<and> ep_start_timestamp e' = ep_start_timestamp e \<and> ep_end_timestamp e' = ep_end_timestamp e
     \<and> ep_rewards_distributed e' = ep_rewards_distributed e
     \<and> ep_weights_tallied e' = ep_weights_tallied e
     \<and> ep_observations_submitted e' = ep_observations_submitted e
     \<and> ep_observations_closed e' = ep_observations_closed e
     \<and> ep_observer_count e' = ep_observer_count e
     \<and> ep_has_rent_receipt e' = ep_has_rent_receipt e
     \<and> ep_total_eligible_rewards e' = ep_total_eligible_rewards e
     \<and> ep_prescribed_observers e' = ep_prescribed_observers e
     \<and> ep_prescribed_observer_gateways e' = ep_prescribed_observer_gateways e"
  unfolding unprescribed_def
  by (drule arg_cong [of _ _ "\<lambda>e. (ep_active_gateway_count e, ep_epoch_index e, ep_start_timestamp e,
        ep_end_timestamp e, ep_rewards_distributed e, ep_weights_tallied e,
        ep_observations_submitted e, ep_observations_closed e, ep_observer_count e,
        ep_has_rent_receipt e, ep_total_eligible_rewards e, ep_prescribed_observers e,
        ep_prescribed_observer_gateways e)"]) simp

lemma prescribe_epoch_run:
  assumes "prescribe_epoch sha remaining ix s = Inr s'"
  obtains e prefix sel observers e2 where "epochs s ix = Some e"
    "ep_weights_tallied e \<noteq> 0" "ep_prescriptions_done e = 0"
    "unat (ep_active_gateway_count e) \<le> MAX_GATEWAYS"
    "prefix_sums 0 (slot_weights (registry s) (unat (ep_active_gateway_count e))) = Inr prefix"
    "roulette_select_indices sha (ep_hashchain e) prefix
       (min (unat (es_prescribed_observer_count (epoch_settings_acc s)))
            (unat (ep_active_gateway_count e))) = Inr sel"
    "length sel \<le> 50"
    "resolve_observers s remaining (map (\<lambda>i. slot_address (reg_gateways (registry s) i)) sel) = Inr observers"
    "prescribe_names sha (settings s) (epoch_settings_acc s) remaining (length sel)
       (e\<lparr>ep_prescribed_observer_gateways :=
            write_prefix (map (\<lambda>i. slot_address (reg_gateways (registry s) i)) sel)
              (ep_prescribed_observer_gateways e),
          ep_prescribed_observers := write_prefix observers (ep_prescribed_observers e),
          ep_observer_count := of_nat (length sel)\<rparr>) = Inr e2"
    "s' = s\<lparr>epochs := (epochs s)(ix \<mapsto>
       (set_unit_rewards (epoch_settings_acc s)
          (joined_count (registry s) (unat (ep_active_gateway_count e))) (length sel) e2)
       \<lparr>ep_prescriptions_done := 1\<rparr>)\<rparr>"
proof -
  obtain e prefix sel observers e2 where f: "epochs s ix = Some e"
    "ep_weights_tallied e \<noteq> 0" "ep_prescriptions_done e = 0"
    "prefix_sums 0 (slot_weights (registry s) (min (unat (ep_active_gateway_count e)) MAX_GATEWAYS)) = Inr prefix"
    "unat (ep_active_gateway_count e) \<le> MAX_GATEWAYS"
    "roulette_select_indices sha (ep_hashchain e) prefix
       (min (unat (es_prescribed_observer_count (epoch_settings_acc s)))
            (unat (ep_active_gateway_count e))) = Inr sel"
    "length sel \<le> 50"
    "resolve_observers s remaining (map (\<lambda>i. slot_address (reg_gateways (registry s) i)) sel) = Inr observers"
    "prescribe_names sha (settings s) (epoch_settings_acc s) remaining (length sel)
       (e\<lparr>ep_prescribed_observer_gateways :=
            write_prefix (map (\<lambda>i. slot_address (reg_gateways (registry s) i)) sel)
              (ep_prescribed_observer_gateways e),
          ep_prescribed_observers := write_prefix observers (ep_prescribed_observers e),
          ep_observer_count := of_nat (length sel)\<rparr>) = Inr e2"
    "s' = s\<lparr>epochs := (epochs s)(ix \<mapsto>
       (set_unit_rewards (epoch_settings_acc s)
          (joined_count (registry s) (unat (ep_active_gateway_count e))) (length sel) e2)
       \<lparr>ep_prescriptions_done := 1\<rparr>)\<rparr>"
    using assms unfolding prescribe_epoch_def Let_def run_iff
    by (elim exE conjE) (rule that, assumption+, drule Inr_inject, erule sym)
  from f(4,5) have "prefix_sums 0 (slot_weights (registry s) (unat (ep_active_gateway_count e))) = Inr prefix"
    by (simp add: min_absorb1)
  with f show ?thesis by (intro that [of e prefix sel observers e2]) assumption+
qed

lemma prescribe_epoch_keeps_lifecycle:
  assumes ok: "lifecycle_ok bump t s" and run: "prescribe_epoch sha remaining ix s = Inr s'"
  shows "lifecycle_ok bump t s'"
proof (rule prescribe_epoch_run [OF run], goal_cases)
  case (1 e prefix sel observers e2)
  let ?e1 = "e\<lparr>ep_prescribed_observer_gateways :=
            write_prefix (map (\<lambda>i. slot_address (reg_gateways (registry s) i)) sel)
              (ep_prescribed_observer_gateways e),
          ep_prescribed_observers := write_prefix observers (ep_prescribed_observers e),
          ep_observer_count := of_nat (length sel)\<rparr>"
  define e3 where "e3 = set_unit_rewards (epoch_settings_acc s)
     (joined_count (registry s) (unat (ep_active_gateway_count e))) (length sel) e2"
  have "unprescribed e3 = unprescribed ?e1"
    unfolding e3_def set_unit_rewards_keeps by (rule prescribe_names_keeps [OF 1(9)])
  note same = unprescribed_fields [OF this]
  have count: "unat (of_nat (length sel) :: u8) \<le> 50"
    using 1(7) by (simp add: unsigned_of_nat take_bit_nat_eq_self)
  have old: "epoch_ok bump t (es_current_epoch_index (epoch_settings_acc s)) (observations s)
       (epoch_rent_receipts s) ix e" by (rule lifecycle_epoch [OF ok 1(1)])
  then have none: "open_observers (observations s) ix = {}" "ep_observations_closed e = 0"
      "ep_observations_submitted e = 0"
    using finite_open [of "observations s" ix e] 1(3)
    by (auto simp: epoch_ok_def phases_ok_def observations_accounted_def unat_eq_zero)
  from old 1(2,3) none count
  have "epoch_ok bump t (es_current_epoch_index (epoch_settings_acc s)) (observations s)
       (epoch_rent_receipts s) ix (e3\<lparr>ep_prescriptions_done := 1\<rparr>)"
    using same unfolding epoch_ok_def phases_ok_def observations_accounted_def receipt_there_def by auto
  with 1(10) show ?case
    by (intro lifecycle_upd [OF ok, where i = ix and e' = "e3\<lparr>ep_prescriptions_done := 1\<rparr>"])
      (simp_all add: e3_def)
qed

section \<open>Reports, distribution and closing\<close>

lemma observer_position_prescribed:
  "observer_position e ob = Some i \<Longrightarrow> ob \<in> prescribed_set e \<and> i < unat (ep_observer_count e)"
  by (auto simp: observer_position_def prescribed_set_def find_Some_iff)

lemma save_observations_run:
  assumes "save_observations env ix results n tx ob s = Inr s'"
  obtains e idx o' fc hob where "epochs s ix = Some e" "observations s (ix, ob) = None"
    "ep_prescriptions_done e \<noteq> 0" "now env < ep_end_timestamp e"
    "observer_position e ob = Some idx" "ob_epoch_index o' = ep_epoch_index e"
    "s' = s\<lparr>epochs := (epochs s)(ix \<mapsto> e\<lparr>ep_has_observed := hob, ep_failure_counts := fc,
        ep_observations_submitted := saturating_add (ep_observations_submitted e) 1\<rparr>),
       observations := (observations s)((ix, ob) \<mapsto> o')\<rparr>"
proof -
  have set_obs: "\<exists>hob. set_observed e i = e\<lparr>ep_has_observed := hob\<rparr>" for e i
    by (cases "i < 50") (auto simp: set_observed_def intro: exI [of _ "ep_has_observed e"])
  have set_obs_index: "ep_epoch_index (set_observed e i) = ep_epoch_index e" for e i
    by (simp add: set_observed_def)
  from assms obtain e idx o' where f: "epochs s ix = Some e" "observations s (ix, ob) = None"
    "ep_prescriptions_done e \<noteq> 0" "now env < ep_end_timestamp e"
    "observer_position e ob = Some idx"
    "s' = s\<lparr>epochs := (epochs s)(ix \<mapsto> (set_observed e idx)\<lparr>
        ep_failure_counts := count_failures results (min (unat (ep_active_gateway_count e)) (unat n))
          (ep_failure_counts (set_observed e idx)),
        ep_observations_submitted := saturating_add (ep_observations_submitted (set_observed e idx)) 1\<rparr>),
       observations := (observations s)((ix, ob) \<mapsto> o')\<rparr>"
    "ob_epoch_index o' = ep_epoch_index (set_observed e idx)"
    unfolding save_observations_def Let_def run_iff
    by (elim exE conjE) (rule that, assumption+, drule Inr_inject, erule sym, simp add: set_obs_index)
  obtain hob where h: "set_observed e idx = e\<lparr>ep_has_observed := hob\<rparr>" using set_obs by blast
  from f show ?thesis unfolding h by (intro that) simp_all
qed

lemma unat_u8_le: "unat (x :: u8) \<le> 255"
proof -
  have "unat x < 256" using unsigned_less [of x] by simp
  then show ?thesis by simp
qed

lemma unat_saturating_succ: "unat x \<le> 254 \<Longrightarrow> unat (saturating_add x 1) = Suc (unat x)" for x :: u8
proof -
  assume "unat x \<le> 254"
  then have "uint x + 1 < 256" unfolding uint_nat by linarith
  then have "uint (saturating_add x 1) = uint x + 1" by (simp add: uint_saturating_add)
  then show ?thesis unfolding uint_nat by linarith
qed

lemma save_observations_keeps_lifecycle:
  assumes ok: "lifecycle_ok bump (now env) s"
    and run: "save_observations env ix results n tx ob s = Inr s'"
  shows "lifecycle_ok bump (now env) s'"
proof (rule save_observations_run [OF run], goal_cases)
  case (1 e idx o' fc hob)
  note old = lifecycle_epoch [OF ok 1(1)]
  have acc: "observations_accounted (observations s) ix e" using old by (simp add: epoch_ok_def)
  have closed: "ep_observations_closed e = 0"
    using old 1(4) by (auto simp: epoch_ok_def phases_ok_def)
  have submitted: "unat (ep_observations_submitted e) = card (open_observers (observations s) ix)"
    using acc closed by (simp add: observations_accounted_def)
  then have succ: "unat (saturating_add (ep_observations_submitted e) 1)
      = Suc (card (open_observers (observations s) ix))"
    using open_le_50 [OF acc] by (simp add: unat_saturating_succ)
  have fresh: "ob \<notin> open_observers (observations s) ix" using 1(2) by (simp add: open_observers_def)
  have index: "ob_epoch_index o' = ix" using old 1(6) by (simp add: epoch_ok_def)
  define e' where "e' = e\<lparr>ep_has_observed := hob, ep_failure_counts := fc,
        ep_observations_submitted := saturating_add (ep_observations_submitted e) 1\<rparr>"
  have "observations_accounted (observations s') ix e'"
    using acc closed succ fresh finite_open [OF acc] observer_position_prescribed [OF 1(5)]
    unfolding observations_accounted_def 1(7) e'_def prescribed_set_def
    by (simp add: index)
  with old 1(3) have "epoch_ok bump (now env) (es_current_epoch_index (epoch_settings_acc s))
      (observations s') (epoch_rent_receipts s') ix e'"
    unfolding epoch_ok_def phases_ok_def receipt_there_def e'_def 1(7) by auto
  then show ?case
    by (rule lifecycle_upd [OF ok]) (simp_all add: 1(7) e'_def)
qed

lemma close_observation_keeps_lifecycle:
  assumes ok: "lifecycle_ok bump t s" and run: "close_observation ix ob dest s = Inr s'"
  shows "lifecycle_ok bump t s'"
proof -
  from run obtain e o' where e: "epochs s ix = Some e" and ob: "observations s (ix, ob) = Some o'"
    and rd: "ep_rewards_distributed e \<noteq> 0"
    and s': "s' = s\<lparr>epochs := (epochs s)(ix \<mapsto>
              e\<lparr>ep_observations_closed := saturating_add (ep_observations_closed e) 1\<rparr>),
            observations := (observations s)((ix, ob) := None),
            rent_log := rent_log s @ [(ObservationPda ix ob, dest)]\<rparr>"
    unfolding close_observation_def run_iff by auto
  note old = lifecycle_epoch [OF ok e]
  have acc: "observations_accounted (observations s) ix e" using old by (simp add: epoch_ok_def)
  have mem: "ob \<in> open_observers (observations s) ix" using ob by (simp add: open_observers_def)
  then have pos: "card (open_observers (observations s) ix) \<ge> 1"
    using finite_open [OF acc] by (simp add: Suc_le_eq card_gt_0_iff) blast
  have "unat (ep_observations_submitted e) \<le> 255" by (rule unat_u8_le)
  with acc pos have "unat (ep_observations_closed e) \<le> 254" by (simp add: observations_accounted_def)
  note succ = unat_saturating_succ [OF this]
  have "observations_accounted (observations s') ix
      (e\<lparr>ep_observations_closed := saturating_add (ep_observations_closed e) 1\<rparr>)"
    using acc succ pos mem finite_open [OF acc]
    unfolding observations_accounted_def s' prescribed_set_def by (auto simp: card_Diff_singleton)
  with old rd have "epoch_ok bump t (es_current_epoch_index (epoch_settings_acc s))
      (observations s') (epoch_rent_receipts s') ix
      (e\<lparr>ep_observations_closed := saturating_add (ep_observations_closed e) 1\<rparr>)"
    unfolding epoch_ok_def phases_ok_def receipt_there_def s' by auto
  then show ?thesis by (rule lifecycle_upd [OF ok]) (simp_all add: s')
qed

lemma token_transfer_lifecycle:
  "token_transfer env src dst auth a s = Inr s' \<Longrightarrow>
     lifecycle s' = lifecycle s \<and> epoch_settings_acc s' = epoch_settings_acc s"
  by (drule token_transferD) simp

lemma distribute_epoch_epochs:
  assumes "distribute_epoch env cfg remaining ix protocol_ta stake_ta s = Inr s'"
  obtains e i r where "epochs s ix = Some e" "ep_prescriptions_done e \<noteq> 0"
    "ep_end_timestamp e \<le> now env" "ep_rewards_distributed e = 0" "r = 0 \<or> r = 1"
    "epochs s' = (epochs s)(ix \<mapsto> e\<lparr>ep_distribution_index := i, ep_rewards_distributed := r\<rparr>)"
    "observations s' = observations s" "epoch_rent_receipts s' = epoch_rent_receipts s"
    "epoch_settings_acc s' = epoch_settings_acc s" "rent_log s' = rent_log s"
proof -
  from assms obtain e where e: "epochs s ix = Some e" "ep_prescriptions_done e \<noteq> 0"
    "ep_end_timestamp e \<le> now env" "ep_rewards_distributed e = 0"
    and rest: "if ep_observations_submitted e = 0 \<and> ep_distribution_index e = 0
       then s' = s\<lparr>epochs := (epochs s)(ix \<mapsto>
              e\<lparr>ep_distribution_index := ep_active_gateway_count e, ep_rewards_distributed := 1\<rparr>)\<rparr>
       else distribute_batch env cfg remaining ix e protocol_ta stake_ta s = Inr s'"
    unfolding distribute_epoch_def run_iff by (auto split: if_splits)
  show ?thesis
  proof (cases "ep_observations_submitted e = 0 \<and> ep_distribution_index e = 0")
    case True
    with rest have s': "s' = s\<lparr>epochs := (epochs s)(ix \<mapsto>
        e\<lparr>ep_distribution_index := ep_active_gateway_count e, ep_rewards_distributed := 1\<rparr>)\<rparr>" by simp
    show ?thesis using e by (rule that [where r = 1]) (simp_all add: s')
  next
    case False
    with rest have "distribute_batch env cfg remaining ix e protocol_ta stake_ta s = Inr s'" by simp
    then obtain G tr s2 d n staked where
      mid: "(if tr > 0 then release_treasury_to_recipient env cfg protocol_ta stake_ta tr (s\<lparr>gateways := G\<rparr>)
             else Inr (s\<lparr>gateways := G\<rparr>)) = Inr s2"
      and s': "s' = s2\<lparr>epochs := (epochs s2)(ix \<mapsto>
          (if d \<ge> n then e\<lparr>ep_distribution_index := of_nat d, ep_rewards_distributed := 1\<rparr>
           else e\<lparr>ep_distribution_index := of_nat d\<rparr>)),
        settings := (settings s2)\<lparr>gs_total_staked := staked\<rparr>\<rparr>"
      unfolding distribute_batch_def Let_def run_iff by (elim exE conjE) (rule that, assumption, drule Inr_inject, erule sym)
    have s2: "lifecycle s2 = lifecycle s \<and> epoch_settings_acc s2 = epoch_settings_acc s"
      using mid by (auto simp: release_treasury_to_recipient_def require_iff split: if_splits
          dest!: token_transfer_lifecycle)
    have form: "(if d \<ge> n then e\<lparr>ep_distribution_index := of_nat d, ep_rewards_distributed := 1\<rparr>
           else e\<lparr>ep_distribution_index := of_nat d\<rparr>)
        = e\<lparr>ep_distribution_index := of_nat d, ep_rewards_distributed := (if d \<ge> n then 1 else 0)\<rparr>"
      using e(4) by (cases e) simp
    show ?thesis
      using e s2 by (intro that [of e "if d \<ge> n then 1 else 0" "of_nat d"]) (simp_all add: s' [unfolded form])
  qed
qed

lemma distribute_epoch_keeps_lifecycle:
  assumes ok: "lifecycle_ok bump (now env) s"
    and run: "distribute_epoch env cfg remaining ix protocol_ta stake_ta s = Inr s'"
  shows "lifecycle_ok bump (now env) s'"
proof (rule distribute_epoch_epochs [OF run], goal_cases)
  case (1 e i r)
  have "epoch_ok bump (now env) (es_current_epoch_index (epoch_settings_acc s)) (observations s')
      (epoch_rent_receipts s') ix (e\<lparr>ep_distribution_index := i, ep_rewards_distributed := r\<rparr>)"
    using lifecycle_epoch [OF ok 1(1)] 1
    unfolding epoch_ok_def phases_ok_def observations_accounted_def prescribed_set_def receipt_there_def
    by auto
  then show ?case by (rule lifecycle_upd [OF ok]) (simp_all add: 1)
qed

lemma close_epoch_run:
  assumes "close_epoch env remaining ix payer s = Inr s'"
  obtains (payer) e where "epochs s ix = Some e" "ep_rewards_distributed e \<noteq> 0"
      "ep_observations_closed e = ep_observations_submitted e"
      "saturating_add (ep_epoch_index e) 7 \<le> es_current_epoch_index (epoch_settings_acc s)"
      "ep_has_rent_receipt e = 0" "s' = close_epoch_account ix payer s"
    | (creator) e r where "epochs s ix = Some e" "ep_rewards_distributed e \<noteq> 0"
      "ep_observations_closed e = ep_observations_submitted e"
      "saturating_add (ep_epoch_index e) 7 \<le> es_current_epoch_index (epoch_settings_acc s)"
      "ep_has_rent_receipt e \<noteq> 0" "epoch_rent_receipts s (ep_epoch_index e) = Some r"
      "s' = close_receipt_account (ep_epoch_index e) (er_creator r)
              (close_epoch_account ix (er_creator r) s)"
proof -
  from assms obtain e where e: "epochs s ix = Some e" "ep_rewards_distributed e \<noteq> 0"
      "ep_observations_closed e = ep_observations_submitted e"
      "saturating_add (ep_epoch_index e) 7 \<le> es_current_epoch_index (epoch_settings_acc s)"
    and rest: "(if ep_has_rent_receipt e \<noteq> 0 then
       (case remaining of
          receipt_info # creator_info # _ \<Rightarrow>
            require (an_is_writable receipt_info \<and> an_is_writable creator_info) MissingEpochRentReceipt (
            and_then (epoch_receipt env (an_key receipt_info) (ep_epoch_index e) s) (\<lambda>r.
            require (an_key creator_info = KeyAddress (er_creator r)) WrongEpochCreator (
            Inr (close_receipt_account (ep_epoch_index e) (er_creator r)
                  (close_epoch_account ix (er_creator r) s)))))
        | _ \<Rightarrow> Inl MissingEpochRentReceipt)
     else Inr (close_epoch_account ix payer s)) = Inr s'"
    unfolding close_epoch_def run_iff by blast
  have receipt: "epoch_rent_receipts s i = Some r" if "epoch_receipt env k i s = Inr r" for k i r
    using that by (auto simp: epoch_receipt_def require_iff ok_or_iff split: any_address.splits gar_pda.splits)
  show ?thesis
  proof (cases "ep_has_rent_receipt e = 0")
    case True
    with e rest show ?thesis by (intro payer) simp_all
  next
    case False
    with rest obtain r where "epoch_rent_receipts s (ep_epoch_index e) = Some r"
      "s' = close_receipt_account (ep_epoch_index e) (er_creator r) (close_epoch_account ix (er_creator r) s)"
      by (auto simp: require_iff and_then_iff split: list.splits dest: receipt)
    with e False show ?thesis by (intro creator)
  qed
qed

lemma close_epoch_keeps_lifecycle:
  assumes ok: "lifecycle_ok bump t s" and run: "close_epoch env remaining ix payer s = Inr s'"
  shows "lifecycle_ok bump t s'"
  using run
proof (cases rule: close_epoch_run)
  case (payer e)
  show ?thesis by (rule lifecycle_close [OF ok, of s' ix]) (simp_all add: payer close_epoch_account_def)
next
  case (creator e r)
  have "ep_epoch_index e = ix" using lifecycle_epoch [OF ok creator(1)] by (simp add: epoch_ok_def)
  then show ?thesis
    by (intro lifecycle_close [OF ok, of s' ix])
      (simp_all add: creator(7) close_epoch_account_def close_receipt_account_def)
qed

lemma admin_close_stale_epoch_keeps_lifecycle:
  "lifecycle_ok bump t s \<Longrightarrow> admin_close_stale_epoch env authority ix s = Inr s' \<Longrightarrow> lifecycle_ok bump t s'"
  by (rule lifecycle_close [of bump t s s' ix])
    (auto simp: admin_close_stale_epoch_def run_iff close_epoch_account_def)

lemma admin_close_orphaned_keeps_lifecycle:
  assumes ok: "lifecycle_ok bump t s"
    and run: "admin_close_orphaned_epoch_rent_receipt authority ix creator s = Inr s'"
  shows "lifecycle_ok bump t s'"
proof -
  from run have gone: "epochs s ix = None" and s': "s' = close_receipt_account ix creator s"
    by (auto simp: admin_close_orphaned_epoch_rent_receipt_def run_iff)
  from gone have "epochs s' = (epochs s)(ix := None)"
    by (auto simp: s' close_receipt_account_def)
  then show ?thesis
    by (intro lifecycle_close [OF ok, of s' ix]) (simp_all add: s' close_receipt_account_def)
qed

section \<open>Administration and the other instructions\<close>

text \<open>The counter may only be moved while no epoch exists.\<close>

lemma admin_set_current_epoch_index_keeps_lifecycle:
  assumes ok: "lifecycle_ok bump t s"
    and run: "admin_set_current_epoch_index env authority i s = Inr s'"
  shows "lifecycle_ok bump t s'"
proof -
  from run have zero: "es_current_epoch_index (epoch_settings_acc s) = 0"
    and same: "lifecycle s' = lifecycle s"
    by (auto simp: admin_set_current_epoch_index_def UpdateEpochSettings_iff run_iff)
  have "epochs s j = None" for j
    using lifecycle_epoch [OF ok, of j] zero by (cases "epochs s j") (auto simp: epoch_ok_def)
  moreover have "open_observers (observations s) j = {}" for j
    using ok zero by (simp add: lifecycle_ok_def unborn_ok_def)
  ultimately show ?thesis using same by (simp add: lifecycle_ok_def epochs_ok_def unborn_ok_def)
qed

lemma lever_keeps_lifecycle:
  assumes ok: "lifecycle_ok bump t s"
    and run: "UpdateEpochSettings authority s k = Inr s'"
    and same: "\<And>es. k (epoch_settings_acc s) = Inr es \<Longrightarrow>
      es_current_epoch_index es = es_current_epoch_index (epoch_settings_acc s)"
  shows "lifecycle_ok bump t s'"
  using run same by (auto simp: UpdateEpochSettings_iff intro!: lifecycle_frame [OF ok])

lemma epoch_levers_keep_lifecycle:
  assumes ok: "lifecycle_ok bump t s"
  shows "set_epochs_enabled env authority b s = Inr s' \<Longrightarrow> lifecycle_ok bump t s'"
    and "admin_set_epoch_duration env authority d s = Inr s' \<Longrightarrow> lifecycle_ok bump t s'"
    and "admin_set_tenure_weight authority d w s = Inr s' \<Longrightarrow> lifecycle_ok bump t s'"
    and "admin_set_reward_ratios authority g ob s = Inr s' \<Longrightarrow> lifecycle_ok bump t s'"
  unfolding epoch_levers
  by (erule lever_keeps_lifecycle [OF ok]; auto simp: run_iff split: if_splits)+

lemma frame_keeps_lifecycle: "lifecycle_ok bump t s \<Longrightarrow> frame s s' \<Longrightarrow> lifecycle_ok bump t s'"
  by (rule lifecycle_frame) (simp_all add: frame_def)

lemma same_table_keeps_lifecycle: "lifecycle_ok bump t s \<Longrightarrow> same_table s s' \<Longrightarrow> lifecycle_ok bump t s'"
  by (rule lifecycle_frame) (simp_all add: same_table_def)

lemma join_network_lifecycle:
  "join_network env operator ata stake_ta p s = Inr s' \<Longrightarrow>
     lifecycle s' = lifecycle s \<and> epoch_settings_acc s' = epoch_settings_acc s"
  unfolding join_network_def accounts_defs Let_def run_iff
  by (elim exE conjE) (drule token_transfer_lifecycle, clarsimp)

lemma swap_remove_slot_lifecycle:
  "swap_remove_slot g remaining s = Inr s' \<Longrightarrow>
     lifecycle s' = lifecycle s \<and> epoch_settings_acc s' = epoch_settings_acc s"
  by (auto simp: swap_remove_slot_def Let_def run_iff split: if_splits)

lemma finalize_gone_lifecycle:
  "finalize_gone env remaining gw s = Inr s' \<Longrightarrow>
     lifecycle s' = lifecycle s \<and> epoch_settings_acc s' = epoch_settings_acc s"
  by (auto simp: finalize_gone_def run_iff dest!: swap_remove_slot_lifecycle)

lemma update_gateway_settings_lifecycle:
  "update_gateway_settings env operator p s = Inr s' \<Longrightarrow>
     lifecycle s' = lifecycle s \<and> epoch_settings_acc s' = epoch_settings_acc s"
  by (auto simp: update_gateway_settings_def run_iff)

end
