(* ===== verification/Machine.thy ===== *)
theory Machine
  imports Prelude
begin

text \<open>
  A program as a machine: transactions run one after another, each under an environment (the
  clock, the Token program's answers, the accounts the transaction was given); a transaction
  that fails leaves the state as it was. The locale is the contract of an invariant of such a
  machine, and what follows from it for every sequence of transactions. Each program of the
  repository interprets it on its own step function.
\<close>

fun exec :: "('e \<Rightarrow> 'o \<Rightarrow> 's \<Rightarrow> ('x, 's) result) \<Rightarrow> ('e \<times> 'o) list \<Rightarrow> 's \<Rightarrow> 's" where
  "exec step [] s = s"
| "exec step ((e, op) # txs) s =
     exec step txs (case step e op s of Inl _ \<Rightarrow> s | Inr s' \<Rightarrow> s')"

text \<open>
  The clock never goes back, and every transaction meets the runtime's side conditions in the
  state it runs in.
\<close>

fun admissible_trace ::
  "('e \<Rightarrow> int) \<Rightarrow> ('e \<Rightarrow> 'o \<Rightarrow> 's \<Rightarrow> bool) \<Rightarrow> ('e \<Rightarrow> 'o \<Rightarrow> 's \<Rightarrow> ('x, 's) result)
     \<Rightarrow> int \<Rightarrow> ('e \<times> 'o) list \<Rightarrow> 's \<Rightarrow> bool" where
  "admissible_trace clock adm step t [] s = True"
| "admissible_trace clock adm step t ((e, op) # txs) s =
     (t \<le> clock e \<and> adm e op s
      \<and> admissible_trace clock adm step (clock e) txs (case step e op s of Inl _ \<Rightarrow> s | Inr s' \<Rightarrow> s'))"

fun end_time :: "('e \<Rightarrow> int) \<Rightarrow> int \<Rightarrow> ('e \<times> 'o) list \<Rightarrow> int" where
  "end_time clock t [] = t"
| "end_time clock t ((e, op) # txs) = end_time clock (clock e) txs"

locale machine_invariant =
  fixes clock :: "'e \<Rightarrow> int"
    and adm :: "'e \<Rightarrow> 'o \<Rightarrow> 's \<Rightarrow> bool"
    and step :: "'e \<Rightarrow> 'o \<Rightarrow> 's \<Rightarrow> ('x, 's) result"
    and inv :: "int \<Rightarrow> 's \<Rightarrow> bool"
  assumes inv_later: "inv t s \<Longrightarrow> t \<le> t' \<Longrightarrow> inv t' s"
    and inv_step: "inv (clock e) s \<Longrightarrow> adm e op s \<Longrightarrow> step e op s = Inr s' \<Longrightarrow> inv (clock e) s'"
begin

lemma inv_attempt:
  "inv t s \<Longrightarrow> t \<le> clock e \<Longrightarrow> adm e op s \<Longrightarrow>
     inv (clock e) (case step e op s of Inl _ \<Rightarrow> s | Inr s' \<Rightarrow> s')"
  by (cases "step e op s") (auto intro: inv_later inv_step)

theorem inv_exec:
  "inv t s \<Longrightarrow> admissible_trace clock adm step t txs s \<Longrightarrow>
     inv (end_time clock t txs) (exec step txs s)"
proof (induction txs arbitrary: t s)
  case (Cons tx txs)
  then show ?case by (cases tx) (auto intro: inv_attempt)
qed simp

text \<open>What every transaction keeps of a quantity, every sequence of them keeps.\<close>

theorem measure_exec:
  assumes "\<And>e op s s'. inv (clock e) s \<Longrightarrow> adm e op s \<Longrightarrow> step e op s = Inr s' \<Longrightarrow> m s' = (m s :: 'q)"
  shows "inv t s \<Longrightarrow> admissible_trace clock adm step t txs s \<Longrightarrow> m (exec step txs s) = m s"
proof (induction txs arbitrary: t s)
  case (Cons tx txs)
  obtain e op where tx: "tx = (e, op)" by (cases tx)
  have inv: "inv (clock e) s" using Cons.prems inv_later by (simp add: tx)
  have "m (case step e op s of Inl _ \<Rightarrow> s | Inr s' \<Rightarrow> s') = m s"
    using Cons.prems(2) by (auto simp: tx split: sum.split intro: assms [OF inv])
  moreover have "inv (clock e) (case step e op s of Inl _ \<Rightarrow> s | Inr s' \<Rightarrow> s')"
    using Cons.prems by (intro inv_attempt [of t]) (simp_all add: tx)
  ultimately show ?case using Cons.IH Cons.prems(2) by (simp add: tx)
qed simp

end

end
