(* ===== verification/Gar_System.thy ===== *)
theory Gar_System
  imports Gar_Lifecycle Machine
begin

text \<open>
  The gateway registry program as a whole: its instructions as a datatype, the dispatch of
  \<open>lib.rs\<close> as a step function, the invariant that every instruction keeps, and its
  interpretation as a machine, from which the theorems about any sequence of transactions
  follow. Left out of the sequence are the instructions that rewrite what the invariant relates:
  genesis, the migration instructions, \<open>admin_repair_settings\<close> (which re-points the pool) and the
  two repairs of counters that are already wrong.
\<close>

section \<open>Instructions\<close>

datatype gateway_op =
    JoinNetworkOp pubkey pubkey pubkey join_network_params
  | LeaveNetworkOp "account_info list" pubkey "gar_pda option"
  | UpdateGatewaySettingsOp pubkey update_gateway_params
  | UpdateObserverAddressOp pubkey pubkey
  | UpdateGatewayMetadataOp pubkey pubkey update_gateway_metadata_params
  | UpdateOperationsAddressOp pubkey pubkey
  | PruneGatewayOp "account_info list" pubkey pubkey pubkey "gar_pda option"
  | FinalizeGoneOp "account_info list" pubkey

definition gateway_step :: "gar_env \<Rightarrow> gateway_op \<Rightarrow> gar_state \<Rightarrow> gar_state gar_result" where
  "gateway_step env op s = (case op of
     JoinNetworkOp operator ata stake_ta p \<Rightarrow> join_network env operator ata stake_ta p s
   | LeaveNetworkOp remaining operator excess \<Rightarrow> leave_network env remaining operator excess s
   | UpdateGatewaySettingsOp operator p \<Rightarrow> update_gateway_settings env operator p s
   | UpdateObserverAddressOp operator new_observer \<Rightarrow> update_observer_address env operator new_observer s
   | UpdateGatewayMetadataOp operator signer p \<Rightarrow> update_gateway_metadata operator signer p s
   | UpdateOperationsAddressOp operator new_address \<Rightarrow> update_operations_address operator new_address s
   | PruneGatewayOp remaining gw stake_ta protocol_ta excess \<Rightarrow>
       prune_gateway env remaining gw stake_ta protocol_ta excess s
   | FinalizeGoneOp remaining gw \<Rightarrow> finalize_gone env remaining gw s)"

datatype stake_op =
    IncreaseOperatorStakeOp pubkey pubkey pubkey u64
  | DecreaseOperatorStakeOp pubkey u64
  | ClaimWithdrawalOp pubkey u64 pubkey pubkey
  | InstantWithdrawalOp pubkey u64 pubkey pubkey pubkey
  | CancelWithdrawalOp pubkey u64 pubkey bool
  | CloseDrainedWithdrawalOp pubkey u64

definition stake_step :: "gar_env \<Rightarrow> stake_op \<Rightarrow> gar_state \<Rightarrow> gar_state gar_result" where
  "stake_step env op s = (case op of
     IncreaseOperatorStakeOp operator ata stake_ta amount \<Rightarrow>
       increase_operator_stake env operator ata stake_ta amount s
   | DecreaseOperatorStakeOp operator amount \<Rightarrow> decrease_operator_stake env operator amount s
   | ClaimWithdrawalOp owner wid stake_ta ata \<Rightarrow> claim_withdrawal env owner wid stake_ta ata s
   | InstantWithdrawalOp owner wid stake_ta ata protocol_ta \<Rightarrow>
       instant_withdrawal env owner wid stake_ta ata protocol_ta s
   | CancelWithdrawalOp owner wid gw delegate_passed \<Rightarrow> cancel_withdrawal owner wid gw delegate_passed s
   | CloseDrainedWithdrawalOp owner wid \<Rightarrow> close_drained_withdrawal owner wid s)"

datatype delegate_op =
    DelegateStakeOp "account_info list" pubkey pubkey pubkey pubkey u64
  | DecreaseDelegateStakeOp pubkey pubkey u64
  | CloseEmptyDelegationOp pubkey pubkey
  | ClaimFromLeavingOp pubkey pubkey
  | ClaimFromDisabledOp pubkey pubkey
  | RedelegateStakeOp "account_info list" pubkey pubkey pubkey pubkey pubkey pubkey u64
  | CompoundRewardsOp pubkey pubkey
  | AllowDelegateOp pubkey pubkey
  | DisallowDelegateOp pubkey pubkey
  | SetAllowlistEnabledOp pubkey bool

definition delegate_step :: "gar_env \<Rightarrow> delegate_op \<Rightarrow> gar_state \<Rightarrow> gar_state gar_result" where
  "delegate_step env op s = (case op of
     DelegateStakeOp remaining gw delegator ata stake_ta amount \<Rightarrow>
       delegate_stake env remaining gw delegator ata stake_ta amount s
   | DecreaseDelegateStakeOp gw delegator amount \<Rightarrow> decrease_delegate_stake env gw delegator amount s
   | CloseEmptyDelegationOp gw delegator \<Rightarrow> close_empty_delegation gw delegator s
   | ClaimFromLeavingOp gw delegator \<Rightarrow> claim_delegate_from_leaving_gateway env gw delegator s
   | ClaimFromDisabledOp gw delegator \<Rightarrow> claim_delegate_from_disabled_gateway env gw delegator s
   | RedelegateStakeOp remaining src tgt delegator ata stake_ta protocol_ta amount \<Rightarrow>
       redelegate_stake env remaining src tgt delegator ata stake_ta protocol_ta amount s
   | CompoundRewardsOp gw delegator \<Rightarrow> compound_delegation_rewards gw delegator s
   | AllowDelegateOp operator delegate \<Rightarrow> allow_delegate env operator delegate s
   | DisallowDelegateOp operator delegate \<Rightarrow> disallow_delegate operator delegate s
   | SetAllowlistEnabledOp operator enabled \<Rightarrow> set_allowlist_enabled operator enabled s)"

datatype payment_op =
    DeductDelegationOp pubkey pubkey pubkey pubkey u64
  | DeductOperatorStakeOp pubkey pubkey pubkey u64
  | DeductWithdrawalOp pubkey u64 pubkey pubkey u64
  | PayFromFundingPlanOp "gar_pda list" pubkey pubkey "pubkey option" pubkey
      "funding_source_spec list" u64 u8

definition payment_step :: "gar_env \<Rightarrow> payment_op \<Rightarrow> gar_state \<Rightarrow> gar_state gar_result" where
  "payment_step env op s = (case op of
     DeductDelegationOp gw delegator stake_ta protocol_ta amount \<Rightarrow>
       deduct_delegation_for_payment env gw delegator stake_ta protocol_ta amount s
   | DeductOperatorStakeOp operator stake_ta protocol_ta amount \<Rightarrow>
       deduct_operator_stake_for_payment env operator stake_ta protocol_ta amount s
   | DeductWithdrawalOp owner wid stake_ta protocol_ta amount \<Rightarrow>
       deduct_withdrawal_for_payment env owner wid stake_ta protocol_ta amount s
   | PayFromFundingPlanOp remaining stake_ta protocol_ta payer_ata payer sources expected residues \<Rightarrow>
       pay_from_funding_plan env remaining stake_ta protocol_ta payer_ata payer sources expected residues s)"

datatype epoch_op =
    SetEpochsEnabledOp pubkey bool
  | SetEpochDurationOp pubkey i64
  | SetRewardRatiosOp pubkey u64 u64
  | SetTenureWeightOp pubkey i64 u64
  | SetCurrentEpochIndexOp pubkey u64
  | CloseStaleEpochOp pubkey u64
  | CloseOrphanedReceiptOp pubkey u64 pubkey
  | CreateEpochOp hasher u64 "account_info list" pubkey pubkey
  | TallyWeightsOp "account_info list" u64
  | PrescribeEpochOp hasher "prescribe_account list" u64
  | SaveObservationsOp u64 "nat \<Rightarrow> u8" u16 "u8 list" pubkey
  | CloseObservationOp u64 pubkey pubkey
  | DistributeEpochOp treasury_config "account_info list" u64 pubkey pubkey
  | CloseEpochOp "any_account list" u64 pubkey

definition epoch_step :: "gar_env \<Rightarrow> epoch_op \<Rightarrow> gar_state \<Rightarrow> gar_state gar_result" where
  "epoch_step env op s = (case op of
     SetEpochsEnabledOp authority b \<Rightarrow> set_epochs_enabled env authority b s
   | SetEpochDurationOp authority d \<Rightarrow> admin_set_epoch_duration env authority d s
   | SetRewardRatiosOp authority g ob \<Rightarrow> admin_set_reward_ratios authority g ob s
   | SetTenureWeightOp authority d w \<Rightarrow> admin_set_tenure_weight authority d w s
   | SetCurrentEpochIndexOp authority i \<Rightarrow> admin_set_current_epoch_index env authority i s
   | CloseStaleEpochOp authority ix \<Rightarrow> admin_close_stale_epoch env authority ix s
   | CloseOrphanedReceiptOp authority ix creator \<Rightarrow>
       admin_close_orphaned_epoch_rent_receipt authority ix creator s
   | CreateEpochOp sha slot remaining protocol_ta payer \<Rightarrow>
       create_epoch env sha slot remaining protocol_ta payer s
   | TallyWeightsOp remaining ix \<Rightarrow> tally_weights remaining ix s
   | PrescribeEpochOp sha remaining ix \<Rightarrow> prescribe_epoch sha remaining ix s
   | SaveObservationsOp ix results n tx observer \<Rightarrow> save_observations env ix results n tx observer s
   | CloseObservationOp ix observer dest \<Rightarrow> close_observation ix observer dest s
   | DistributeEpochOp cfg remaining ix protocol_ta stake_ta \<Rightarrow>
       distribute_epoch env cfg remaining ix protocol_ta stake_ta s
   | CloseEpochOp remaining ix payer \<Rightarrow> close_epoch env remaining ix payer s)"

datatype gar_op =
    GatewayOp gateway_op
  | StakeOp stake_op
  | DelegateOp delegate_op
  | PaymentOp payment_op
  | EpochOp epoch_op
  | SetWithdrawalPeriodOp pubkey i64
  | TransferAuthorityOp pubkey pubkey
  | TransferEpochAuthorityOp pubkey pubkey

definition gar_step :: "gar_env \<Rightarrow> gar_op \<Rightarrow> gar_state \<Rightarrow> gar_state gar_result" where
  "gar_step env op s = (case op of
     GatewayOp o1 \<Rightarrow> gateway_step env o1 s
   | StakeOp o2 \<Rightarrow> stake_step env o2 s
   | DelegateOp o3 \<Rightarrow> delegate_step env o3 s
   | PaymentOp o4 \<Rightarrow> payment_step env o4 s
   | EpochOp o5 \<Rightarrow> epoch_step env o5 s
   | SetWithdrawalPeriodOp authority period \<Rightarrow> admin_set_withdrawal_period authority period s
   | TransferAuthorityOp authority new_authority \<Rightarrow> transfer_authority authority new_authority s
   | TransferEpochAuthorityOp authority new_authority \<Rightarrow>
       transfer_epoch_settings_authority authority new_authority s)"

section \<open>The runtime's side of a transaction\<close>

text \<open>The wallets that sign for tokens, of which the runtime guarantees that no PDA is one.\<close>

fun signers :: "gar_op \<Rightarrow> pubkey set" where
  "signers (GatewayOp (JoinNetworkOp operator _ _ _)) = {operator}"
| "signers (StakeOp (IncreaseOperatorStakeOp operator _ _ _)) = {operator}"
| "signers (StakeOp (ClaimWithdrawalOp owner _ _ _)) = {owner}"
| "signers (StakeOp (InstantWithdrawalOp owner _ _ _ _)) = {owner}"
| "signers (DelegateOp (DelegateStakeOp _ _ delegator _ _ _)) = {delegator}"
| "signers (PaymentOp (PayFromFundingPlanOp _ _ _ _ payer _ _ _)) = {payer}"
| "signers _ = {}"

text \<open>
  What is assumed of the runtime: addresses derive to their bumps, the stake pool's balance is a
  \<open>u64\<close> that only its owner can spend from, a wallet that signs is not that owner, and the pool
  and the treasury together hold less than a \<open>u64\<close>'s worth of tokens. An \<open>i64\<close> argument is one.
\<close>

definition treasury_bounded :: "gar_env \<Rightarrow> int \<Rightarrow> gar_state \<Rightarrow> bool" where
  "treasury_bounded env bal s \<longleftrightarrow>
     (case token_accounts env (gs_protocol_token_account (settings s)) of
        None \<Rightarrow> True | Some protocol \<Rightarrow> bal + pool_flow s + uint (ta_amount protocol) < 2 ^ 64 - 1)"

definition arguments_ok :: "gar_op \<Rightarrow> bool" where
  "arguments_ok op = (case op of SetWithdrawalPeriodOp _ period \<Rightarrow> i64_ok period | _ \<Rightarrow> True)"

definition runtime_ok :: "(gar_pda \<Rightarrow> u8) \<Rightarrow> int \<Rightarrow> gar_env \<Rightarrow> gar_op \<Rightarrow> gar_state \<Rightarrow> bool" where
  "runtime_ok bump bal env op s \<longleftrightarrow>
     pda_bump env = bump \<and> pool_conforms env bal s \<and> treasury_bounded env bal s \<and> arguments_ok op
     \<and> (\<forall>u \<in> signers op. pool_not_owned_by env s u \<and> pool_refuses env s u)"

section \<open>The invariant\<close>

definition rates_ok :: "gar_state \<Rightarrow> bool" where
  "rates_ok s \<longleftrightarrow>
     gs_min_expedited_withdrawal_penalty (settings s) \<le> gs_max_expedited_withdrawal_penalty (settings s)
     \<and> gs_max_expedited_withdrawal_penalty (settings s) \<le> RATE_SCALE
     \<and> i64_ok (gs_withdrawal_period (settings s))"

definition system_inv :: "(gar_pda \<Rightarrow> u8) \<Rightarrow> int \<Rightarrow> i64 \<Rightarrow> gar_state \<Rightarrow> bool" where
  "system_inv bump bal t s \<longleftrightarrow>
     gar_inv bal s \<and> registry_coherent s \<and> shares_capped (gateways s) \<and> rates_ok s
     \<and> lifecycle_ok bump t s"

lemma rates_ok_config: "config s' = config s \<Longrightarrow> rates_ok s' = rates_ok s"
  by (drule config_fields) (simp add: rates_ok_def)

text \<open>What an instruction owes: the ledger part apart from the rest of the invariant.\<close>

definition table_ok :: "(gar_pda \<Rightarrow> u8) \<Rightarrow> i64 \<Rightarrow> gar_state \<Rightarrow> bool" where
  "table_ok bump t s \<longleftrightarrow>
     registry_coherent s \<and> shares_capped (gateways s) \<and> rates_ok s \<and> lifecycle_ok bump t s"

lemma system_inv_parts: "system_inv bump bal t s \<longleftrightarrow> gar_inv bal s \<and> table_ok bump t s"
  by (auto simp: system_inv_def table_ok_def)

lemma frame_keeps_table: "frame s s' \<Longrightarrow> table_ok bump t s \<Longrightarrow> table_ok bump t s'"
  using rates_ok_config [of s' s]
  by (auto simp: table_ok_def frame_def intro: frame_keeps_registry [of s s'] frame_keeps_lifecycle [of bump t s s'])

lemma same_table_keeps_table: "same_table s s' \<Longrightarrow> table_ok bump t s \<Longrightarrow> table_ok bump t s'"
  using rates_ok_config [of s' s]
  by (auto simp: table_ok_def same_table_def
      intro: same_table_keeps_registry [of s s'] same_table_keeps_lifecycle [of bump t s s'])

lemma table_okI:
  assumes "table_ok bump t s" and "registry_coherent s'" and "shares_capped (gateways s')"
    and "config s' = config s" and "lifecycle_ok bump t s'"
  shows "table_ok bump t s'"
  using assms rates_ok_config [of s' s] by (simp add: table_ok_def)

section \<open>Gateways\<close>

lemma join_network_config: "join_network env operator ata stake_ta p s = Inr s' \<Longrightarrow> config s' = config s"
  unfolding join_network_def accounts_defs Let_def run_iff
  by (elim exE conjE) (drule token_transferD, clarsimp)

lemma finalize_gone_config: "finalize_gone env remaining gw s = Inr s' \<Longrightarrow> settings s' = settings s"
  by (auto simp: finalize_gone_def swap_remove_slot_def Let_def run_iff split: if_splits)

lemma update_gateway_settings_config:
  "update_gateway_settings env operator p s = Inr s' \<Longrightarrow> settings s' = settings s"
  by (auto simp: update_gateway_settings_def run_iff)

lemma gateway_step_keeps_table:
  assumes ok: "table_ok bump t s" and run: "gateway_step env op s = Inr s'"
  shows "table_ok bump t s'"
proof (cases op)
  case (JoinNetworkOp operator ata stake_ta p)
  with run have r: "join_network env operator ata stake_ta p s = Inr s'" by (simp add: gateway_step_def)
  show ?thesis
    using join_network_keeps_registry [OF _ _ r] join_network_lifecycle [OF r] join_network_config [OF r] ok
    by (intro table_okI [OF ok]) (auto simp: table_ok_def intro: lifecycle_frame)
next
  case (FinalizeGoneOp remaining gw)
  with run have r: "finalize_gone env remaining gw s = Inr s'" by (simp add: gateway_step_def)
  show ?thesis
    using finalize_gone_keeps_registry [OF _ _ r] finalize_gone_lifecycle [OF r] finalize_gone_config [OF r] ok
    by (intro table_okI [OF ok]) (auto simp: table_ok_def intro: lifecycle_frame)
next
  case (UpdateGatewaySettingsOp operator p)
  with run have r: "update_gateway_settings env operator p s = Inr s'" by (simp add: gateway_step_def)
  show ?thesis
    using update_gateway_settings_keeps_registry [OF _ _ r] update_gateway_settings_lifecycle [OF r]
      update_gateway_settings_config [OF r] ok
    by (intro table_okI [OF ok]) (auto simp: table_ok_def intro: lifecycle_frame)
qed (use ok run in \<open>auto simp: gateway_step_def intro: frame_keeps_table same_table_keeps_table
    dest!: leave_network_same_table prune_gateway_same_table update_observer_address_frame
      update_gateway_metadata_frame update_operations_address_frame\<close>)

lemma gateway_step_keeps_ledger:
  assumes inv: "gar_inv bal s" and rt: "runtime_ok bump bal env (GatewayOp op) s"
    and run: "gateway_step env op s = Inr s'"
  shows "gar_inv bal s'"
proof -
  have spl: "pool_conforms env bal s" using rt by (simp add: runtime_ok_def)
  note facts = join_network_posts [OF inv spl] leave_network_posts [OF inv]
    update_gateway_settings_posts [OF inv] update_observer_address_posts [OF inv]
    update_gateway_metadata_posts [OF inv] update_operations_address_posts [OF inv]
    prune_gateway_posts [OF inv] finalize_gone_posts [OF inv]
  have less: "bal + pool_flow s < 2 ^ 64" using inv by (simp add: gar_inv_def)
  have pruned: "bal + (pool_flow s - uint x) < 2 ^ 64" for x :: u64
    using less uint_bounds64(1) [of x] by linarith
  show ?thesis
  proof (cases op)
    case (JoinNetworkOp operator ata stake_ta p)
    with run rt show ?thesis
      using facts(1) posts_keeps_gar_inv [OF inv] by (simp add: gateway_step_def runtime_ok_def) blast
  next
    case (LeaveNetworkOp remaining operator excess)
    with run show ?thesis
      using facts(2) quiet_posts_keep_gar_inv [OF inv] by (simp add: gateway_step_def) blast
  next
    case (UpdateGatewaySettingsOp operator p)
    with run show ?thesis
      using facts(3) quiet_posts_keep_gar_inv [OF inv] by (simp add: gateway_step_def) blast
  next
    case (UpdateObserverAddressOp operator new)
    with run show ?thesis
      using facts(4) quiet_posts_keep_gar_inv [OF inv] by (simp add: gateway_step_def) blast
  next
    case (UpdateGatewayMetadataOp operator signer p)
    with run show ?thesis
      using facts(5) quiet_posts_keep_gar_inv [OF inv] by (simp add: gateway_step_def) blast
  next
    case (UpdateOperationsAddressOp operator new)
    with run show ?thesis
      using facts(6) quiet_posts_keep_gar_inv [OF inv] by (simp add: gateway_step_def) blast
  next
    case (PruneGatewayOp remaining gw stake_ta protocol_ta excess)
    with run obtain es g where "posts es s s'" "pool_flow s' = pool_flow s - uint (slash_of s g)"
      using facts(7) by (simp add: gateway_step_def) blast
    with pruned posts_keeps_gar_inv [OF inv] show ?thesis by metis
  next
    case (FinalizeGoneOp remaining gw)
    with run show ?thesis
      using facts(8) quiet_posts_keep_gar_inv [OF inv] by (simp add: gateway_step_def) blast
  qed
qed

section \<open>Stake, delegation and payment\<close>

lemmas keeps_ledger = posts_keeps_gar_inv quiet_posts_keep_gar_inv

lemma stake_step_frame:
  assumes "stake_step env op s = Inr s'" shows "frame s s'"
  using assms
  by (cases op) (auto simp: stake_step_def dest: increase_operator_stake_frame
      decrease_operator_stake_frame claim_withdrawal_frame instant_withdrawal_frame
      cancel_withdrawal_frame close_drained_withdrawal_frame)

lemma cancel_withdrawal_keeps_gar_inv:
  assumes inv: "gar_inv bal s" and run: "cancel_withdrawal owner wid gw dp s = Inr s'"
  shows "gar_inv bal s'"
proof -
  obtain w where w: "withdrawals s (owner, wid) = Some w"
    using run by (auto simp: cancel_withdrawal_def accounts_defs run_iff)
  show ?thesis
    using cancel_operator_vault_posts [OF inv w _ run] cancel_delegate_vault_posts [OF inv w _ run]
      quiet_posts_keep_gar_inv [OF inv] by (cases "wd_is_delegate w") blast+
qed

lemma stake_step_keeps_ledger:
  assumes inv: "gar_inv bal s" and rates: "rates_ok s"
    and rt: "runtime_ok bump bal env (StakeOp op) s" and run: "stake_step env op s = Inr s'"
  shows "gar_inv bal s'"
proof -
  have spl: "pool_conforms env bal s" using rt by (simp add: runtime_ok_def)
  note keep = posts_keeps_gar_inv [OF inv] and quiet = quiet_posts_keep_gar_inv [OF inv]
  show ?thesis
  proof (cases op)
    case (IncreaseOperatorStakeOp operator ata stake_ta amount)
    with run rt show ?thesis
      using increase_operator_stake_posts [OF inv spl] keep
      by (simp add: stake_step_def runtime_ok_def) blast
  next
    case (DecreaseOperatorStakeOp operator amount)
    with run show ?thesis
      using decrease_operator_stake_posts [OF inv] quiet by (simp add: stake_step_def) blast
  next
    case (ClaimWithdrawalOp owner wid stake_ta ata)
    with run rt show ?thesis
      using claim_withdrawal_posts [OF inv spl] keep by (simp add: stake_step_def runtime_ok_def) blast
  next
    case (InstantWithdrawalOp owner wid stake_ta ata protocol_ta)
    with run rt rates show ?thesis
      using instant_withdrawal_posts [OF inv spl] keep
      by (simp add: stake_step_def runtime_ok_def rates_ok_def) blast
  next
    case (CancelWithdrawalOp owner wid gw dp)
    with run show ?thesis
      using cancel_withdrawal_keeps_gar_inv [OF inv] by (simp add: stake_step_def)
  next
    case (CloseDrainedWithdrawalOp owner wid)
    with run show ?thesis
      using close_drained_withdrawal_posts [OF inv] quiet by (simp add: stake_step_def) blast
  qed
qed

lemma gw_shape_allowlist [simp]:
  "gw_shape (g\<lparr>gw_settings := (gw_settings g)\<lparr>g2_allowlist_enabled := b\<rparr>\<rparr>) = gw_shape g"
  by (simp add: gw_shape_def)

lemma set_allowlist_enabled_frame: "set_allowlist_enabled operator b s = Inr s' \<Longrightarrow> frame s s'"
  by (auto simp: set_allowlist_enabled_def run_iff frame_def)

lemma set_allowlist_enabled_keeps_gar_inv:
  assumes inv: "gar_inv bal s" and run: "set_allowlist_enabled operator b s = Inr s'"
  shows "gar_inv bal s'"
proof -
  obtain g where g: "gateways s operator = Some g"
    and s': "s' = s\<lparr>gateways := (gateways s)(operator \<mapsto>
            g\<lparr>gw_settings := (gw_settings g)\<lparr>g2_allowlist_enabled := b\<rparr>\<rparr>)\<rparr>"
    using run by (auto simp: set_allowlist_enabled_def run_iff)
  have "posts [] s s' \<and> pool_flow s' = pool_flow s"
    by (rule gateway_touch_posts [OF inv g]) (simp_all add: s' same_in_ledger_def)
  then show ?thesis using quiet_posts_keep_gar_inv [OF inv] by blast
qed

lemma allowlist_entries_free [simp]:
  "gar_inv bal (s\<lparr>allowlist := a\<rparr>) = gar_inv bal s" "frame s (s\<lparr>allowlist := a\<rparr>)"
  by (simp_all add: gar_inv_def well_formed_def supply_consistent_def counters_cover_def
      obligations_def pool_flow_def frame_def)

lemma delegate_step_frame:
  assumes "delegate_step env op s = Inr s'" shows "frame s s'"
  using assms
  by (cases op) (auto simp: delegate_step_def allow_delegate_def disallow_delegate_def run_iff
      dest: delegate_stake_frame decrease_delegate_stake_frame close_empty_delegation_frame
        claim_delegate_from_leaving_gateway_frame claim_delegate_from_disabled_gateway_frame
        redelegate_stake_frame compound_delegation_rewards_frame set_allowlist_enabled_frame)

lemma delegate_step_keeps_ledger:
  assumes inv: "gar_inv bal s"
    and rt: "runtime_ok bump bal env (DelegateOp op) s" and run: "delegate_step env op s = Inr s'"
  shows "gar_inv bal s'"
proof -
  have spl: "pool_conforms env bal s" using rt by (simp add: runtime_ok_def)
  note keep = posts_keeps_gar_inv [OF inv] and quiet = quiet_posts_keep_gar_inv [OF inv]
  show ?thesis
  proof (cases op)
    case (DelegateStakeOp remaining gw delegator ata stake_ta amount)
    with run rt show ?thesis
      using delegate_stake_posts [OF inv spl] keep by (simp add: delegate_step_def runtime_ok_def) blast
  next
    case (RedelegateStakeOp remaining src tgt delegator ata stake_ta protocol_ta amount)
    with run show ?thesis
      using redelegate_stake_posts [OF inv spl] keep by (simp add: delegate_step_def) blast
  next
    case (SetAllowlistEnabledOp operator b)
    with run show ?thesis
      using set_allowlist_enabled_keeps_gar_inv [OF inv] by (simp add: delegate_step_def)
  next
    case (AllowDelegateOp operator delegate)
    with run inv show ?thesis by (auto simp: delegate_step_def allow_delegate_def run_iff)
  next
    case (DisallowDelegateOp operator delegate)
    with run inv show ?thesis by (auto simp: delegate_step_def disallow_delegate_def run_iff)
  next
    case (DecreaseDelegateStakeOp gw delegator amount)
    with run show ?thesis
      using decrease_delegate_stake_posts [OF inv] quiet by (simp add: delegate_step_def) blast
  next
    case (CloseEmptyDelegationOp gw delegator)
    with run show ?thesis
      using close_empty_delegation_posts [OF inv] quiet by (simp add: delegate_step_def) blast
  next
    case (ClaimFromLeavingOp gw delegator)
    with run show ?thesis
      using claim_delegate_from_leaving_gateway_posts [OF inv] quiet by (simp add: delegate_step_def) blast
  next
    case (ClaimFromDisabledOp gw delegator)
    with run show ?thesis
      using claim_delegate_from_disabled_gateway_posts [OF inv] quiet by (simp add: delegate_step_def) blast
  next
    case (CompoundRewardsOp gw delegator)
    with run show ?thesis
      using compound_delegation_rewards_posts [OF inv] quiet by (simp add: delegate_step_def) blast
  qed
qed

lemma payment_step_frame:
  assumes "payment_step env op s = Inr s'" shows "frame s s'"
  using assms
  by (cases op) (auto simp: payment_step_def dest: deduct_delegation_for_payment_frame
      deduct_operator_stake_for_payment_frame deduct_withdrawal_for_payment_frame
      pay_from_funding_plan_frame)

text \<open>An instruction that only lets tokens out of the pool.\<close>

lemma outgoing_keeps_gar_inv:
  assumes inv: "gar_inv bal s" and p: "posts es s s'" and out: "pool_flow s' = pool_flow s - uint (x :: u64)"
  shows "gar_inv bal s'"
proof -
  have "bal + pool_flow s' < 2 ^ 64"
    using inv uint_bounds64(1) [of x] unfolding out gar_inv_def by linarith
  with posts_keeps_gar_inv [OF inv p] show ?thesis .
qed

lemma payment_step_keeps_ledger:
  assumes inv: "gar_inv bal s"
    and rt: "runtime_ok bump bal env (PaymentOp op) s" and run: "payment_step env op s = Inr s'"
  shows "gar_inv bal s'"
proof (cases op)
  case (DeductDelegationOp gw delegator stake_ta protocol_ta amount)
  with run show ?thesis
    using deduct_delegation_for_payment_posts [OF inv] outgoing_keeps_gar_inv [OF inv]
    by (simp add: payment_step_def) blast
next
  case (DeductOperatorStakeOp operator stake_ta protocol_ta amount)
  with run show ?thesis
    using deduct_operator_stake_for_payment_posts [OF inv] outgoing_keeps_gar_inv [OF inv]
    by (simp add: payment_step_def) blast
next
  case (DeductWithdrawalOp owner wid stake_ta protocol_ta amount)
  with run show ?thesis
    using deduct_withdrawal_for_payment_posts [OF inv] outgoing_keeps_gar_inv [OF inv]
    by (simp add: payment_step_def) blast
next
  case (PayFromFundingPlanOp remaining stake_ta protocol_ta payer_ata payer sources expected residues)
  with rt have "pool_refuses env s payer" by (simp add: runtime_ok_def)
  with PayFromFundingPlanOp run show ?thesis
    using pay_from_funding_plan_posts [OF inv] outgoing_keeps_gar_inv [OF inv]
    by (simp add: payment_step_def) blast
qed

section \<open>The epoch lifecycle and administration\<close>

text \<open>Nothing the ledger, the registry or the rates read changes.\<close>

definition lifecycle_only :: "gar_state \<Rightarrow> gar_state \<Rightarrow> bool" where
  "lifecycle_only s s' \<longleftrightarrow> settings s' = settings s \<and> registry s' = registry s
     \<and> gateways s' = gateways s \<and> delegations s' = delegations s \<and> withdrawals s' = withdrawals s
     \<and> cpi_log s' = cpi_log s"

lemma lifecycle_only_gar_inv: "lifecycle_only s s' \<Longrightarrow> gar_inv bal s \<Longrightarrow> gar_inv bal s'"
  by (simp add: lifecycle_only_def gar_inv_def well_formed_def supply_consistent_def counters_cover_def
      obligations_def pool_flow_def)

lemma lifecycle_only_table:
  "lifecycle_only s s' \<Longrightarrow> table_ok bump t s \<Longrightarrow> lifecycle_ok bump t s' \<Longrightarrow> table_ok bump t s'"
  by (auto simp: lifecycle_only_def table_ok_def registry_coherent_def rates_ok_def)

lemma levers_lifecycle_only: "UpdateEpochSettings authority s k = Inr s' \<Longrightarrow> lifecycle_only s s'"
  by (auto simp: UpdateEpochSettings_iff lifecycle_only_def)

lemma create_epoch_lifecycle_only:
  assumes "create_epoch env sha slot remaining protocol_ta payer s = Inr s'"
  shows "lifecycle_only s s'"
proof (rule create_epoch_run [OF assms], goal_cases)
  case (1 start finish rate protocol receipt s2 nxt)
  then show ?case
    by (cases receipt) (auto simp: lifecycle_only_def dest!: init_epoch_rent_receiptD(2))
qed

text \<open>Every lifecycle instruction but the tally and the distribution changes only its accounts.\<close>

definition ledger_op :: "epoch_op \<Rightarrow> bool" where
  "ledger_op op = (case op of TallyWeightsOp _ _ \<Rightarrow> True | DistributeEpochOp _ _ _ _ _ \<Rightarrow> True | _ \<Rightarrow> False)"

lemma epoch_step_lifecycle_only:
  assumes "epoch_step env op s = Inr s'" and "\<not> ledger_op op"
  shows "lifecycle_only s s'"
  using assms
  by (cases op)
    (auto simp: epoch_step_def ledger_op_def epoch_levers lifecycle_only_def close_observation_def
      admin_close_stale_epoch_def admin_close_orphaned_epoch_rent_receipt_def run_iff
      close_epoch_account_def close_receipt_account_def
      dest!: levers_lifecycle_only create_epoch_lifecycle_only
      elim!: save_observations_run prescribe_epoch_run close_epoch_run)

lemma epoch_step_keeps_lifecycle:
  assumes ok: "lifecycle_ok (pda_bump env) (now env) s" and run: "epoch_step env op s = Inr s'"
  shows "lifecycle_ok (pda_bump env) (now env) s'"
  using run
  by (cases op)
    (auto simp: epoch_step_def intro: epoch_levers_keep_lifecycle [OF ok]
      admin_set_current_epoch_index_keeps_lifecycle [OF ok]
      admin_close_stale_epoch_keeps_lifecycle [OF ok] admin_close_orphaned_keeps_lifecycle [OF ok]
      create_epoch_keeps_lifecycle [OF ok] tally_weights_keeps_lifecycle [OF ok]
      prescribe_epoch_keeps_lifecycle [OF ok] save_observations_keeps_lifecycle [OF ok]
      close_observation_keeps_lifecycle [OF ok] distribute_epoch_keeps_lifecycle [OF ok]
      close_epoch_keeps_lifecycle [OF ok])

lemma tally_weights_keeps:
  assumes run: "tally_weights remaining ix s = Inr s'"
  shows "settings s' = settings s" and "registry_coherent s \<Longrightarrow> registry_coherent s'"
    and "shares_capped (gateways s) \<Longrightarrow> shares_capped (gateways s')"
    and "gar_inv bal s \<Longrightarrow> gar_inv bal s'"
proof -
  obtain s1 E where k: "tally_keeps s s1" and s': "s' = s1\<lparr>epochs := E\<rparr>"
    by (rule tally_weights_run [OF run]) (auto dest: tally_steps_keep)
  have "lifecycle_only s1 s'" by (simp add: s' lifecycle_only_def)
  with k s' show "settings s' = settings s" "registry_coherent s \<Longrightarrow> registry_coherent s'"
    "shares_capped (gateways s) \<Longrightarrow> shares_capped (gateways s')" "gar_inv bal s \<Longrightarrow> gar_inv bal s'"
    by (auto simp: tally_keeps_def registry_coherent_def intro: lifecycle_only_gar_inv)
qed

lemma distribute_epoch_keeps_table:
  assumes inv: "gar_inv bal s" and ok: "table_ok bump t s"
    and run: "distribute_epoch env cfg remaining ix protocol_ta stake_ta s = Inr s'"
    and life: "lifecycle_ok bump t s'"
  shows "table_ok bump t s'"
proof -
  have "slots_distinct (registry s)" "shares_bounded (gateways s)"
    using ok by (simp_all add: table_ok_def registry_coherent_distinct shares_capped_bounded)
  with distribute_epoch_frame [OF run inv] have "frame s (s'\<lparr>epochs := epochs s\<rparr>)" by blast
  from frame_keeps_table [OF this ok] life show ?thesis
    by (simp add: table_ok_def registry_coherent_def rates_ok_def)
qed

lemma epoch_step_keeps:
  assumes inv: "gar_inv bal s" and ok: "table_ok (pda_bump env) (now env) s"
    and rt: "runtime_ok bump bal env (EpochOp op) s" and run: "epoch_step env op s = Inr s'"
  shows "gar_inv bal s' \<and> table_ok (pda_bump env) (now env) s'"
proof -
  have life: "lifecycle_ok (pda_bump env) (now env) s'"
    using ok by (intro epoch_step_keeps_lifecycle [OF _ run]) (simp add: table_ok_def)
  show ?thesis
  proof (cases "ledger_op op")
    case False
    from epoch_step_lifecycle_only [OF run False] inv ok life show ?thesis
      by (blast intro: lifecycle_only_gar_inv lifecycle_only_table)
  next
    case True
    then consider (tally) remaining ix where "op = TallyWeightsOp remaining ix"
      | (distribute) cfg remaining ix protocol_ta stake_ta
        where "op = DistributeEpochOp cfg remaining ix protocol_ta stake_ta"
      by (cases op) (auto simp: ledger_op_def)
    then show ?thesis
    proof cases
      case tally
      with run have r: "tally_weights remaining ix s = Inr s'" by (simp add: epoch_step_def)
      from tally_weights_keeps [OF r] inv ok life show ?thesis
        by (intro conjI table_okI [OF ok]) (auto simp: table_ok_def)
    next
      case distribute
      with run have r: "distribute_epoch env cfg remaining ix protocol_ta stake_ta s = Inr s'"
        by (simp add: epoch_step_def)
      then obtain protocol where "token_accounts env (gs_protocol_token_account (settings s)) = Some protocol"
        unfolding distribute_epoch_def run_iff by auto
      moreover from this have "bal + pool_flow s + uint (ta_amount protocol) < 2 ^ 64 - 1"
        using rt by (simp add: runtime_ok_def treasury_bounded_def)
      moreover have "slots_distinct (registry s)" "shares_bounded (gateways s)"
        using ok by (simp_all add: table_ok_def registry_coherent_distinct shares_capped_bounded)
      ultimately have "gar_inv bal s'" by (rule distribute_epoch_keeps_gar_inv [OF r inv])
      with distribute_epoch_keeps_table [OF inv ok r life] show ?thesis by simp
    qed
  qed
qed

section \<open>The program as a machine\<close>

lemma settings_levers_keep:
  assumes inv: "system_inv bump bal t s"
  shows "i64_ok period \<Longrightarrow> admin_set_withdrawal_period authority period s = Inr s'
           \<Longrightarrow> system_inv bump bal t s'"
    and "transfer_authority authority new s = Inr s' \<Longrightarrow> system_inv bump bal t s'"
    and "transfer_epoch_settings_authority authority new s = Inr s' \<Longrightarrow> system_inv bump bal t s'"
  using inv
  by (auto simp: admin_set_withdrawal_period_def transfer_authority_def
      transfer_epoch_settings_authority_def run_iff system_inv_def rates_ok_def registry_coherent_def
      gar_inv_def well_formed_def supply_consistent_def counters_cover_def obligations_def pool_flow_def
      intro: lifecycle_frame)

lemma gar_step_keeps_system_inv:
  assumes inv: "system_inv bump bal (now env) s" and rt: "runtime_ok bump bal env op s"
    and run: "gar_step env op s = Inr s'"
  shows "system_inv bump bal (now env) s'"
proof -
  have led: "gar_inv bal s" and ok: "table_ok bump (now env) s" and rates: "rates_ok s"
    using inv by (simp_all add: system_inv_parts table_ok_def)
  have bump: "pda_bump env = bump" using rt by (simp add: runtime_ok_def)
  show ?thesis
  proof (cases op)
    case (GatewayOp o1)
    with run gateway_step_keeps_ledger [OF led] gateway_step_keeps_table [OF ok] rt
    show ?thesis by (auto simp: gar_step_def system_inv_parts)
  next
    case (StakeOp o2)
    with run stake_step_keeps_ledger [OF led rates] frame_keeps_table [OF stake_step_frame ok] rt
    show ?thesis by (auto simp: gar_step_def system_inv_parts)
  next
    case (DelegateOp o3)
    with run delegate_step_keeps_ledger [OF led] frame_keeps_table [OF delegate_step_frame ok] rt
    show ?thesis by (auto simp: gar_step_def system_inv_parts)
  next
    case (PaymentOp o4)
    with run payment_step_keeps_ledger [OF led] frame_keeps_table [OF payment_step_frame ok] rt
    show ?thesis by (auto simp: gar_step_def system_inv_parts)
  next
    case (EpochOp o5)
    with run epoch_step_keeps [OF led ok [folded bump]] rt bump
    show ?thesis by (auto simp: gar_step_def system_inv_parts)
  next
    case (SetWithdrawalPeriodOp authority period)
    with run rt have "i64_ok period" "admin_set_withdrawal_period authority period s = Inr s'"
      by (simp_all add: gar_step_def runtime_ok_def arguments_ok_def)
    then show ?thesis by (rule settings_levers_keep(1) [OF inv])
  qed (use run settings_levers_keep(2,3) [OF inv] in \<open>auto simp: gar_step_def\<close>)
qed

lemma system_inv_later: "system_inv bump bal t s \<Longrightarrow> t \<le> t' \<Longrightarrow> system_inv bump bal t' s"
  by (auto simp: system_inv_def intro: lifecycle_later)

interpretation gar: machine_invariant now "runtime_ok bump bal" gar_step "system_inv bump bal"
  for bump :: "gar_pda \<Rightarrow> u8" and bal :: int
  by unfold_locales (auto intro: system_inv_later gar_step_keeps_system_inv)

text \<open>A state reached from \<open>s\<close> by a sequence of transactions, some of which may fail.\<close>

abbreviation gar_exec :: "(gar_env \<times> gar_op) list \<Rightarrow> gar_state \<Rightarrow> gar_state" where
  "gar_exec txs s \<equiv> exec gar_step txs s"

abbreviation gar_trace :: "(gar_pda \<Rightarrow> u8) \<Rightarrow> int \<Rightarrow> i64 \<Rightarrow> (gar_env \<times> gar_op) list \<Rightarrow> gar_state \<Rightarrow> bool" where
  "gar_trace bump bal t txs s \<equiv> admissible_trace now (runtime_ok bump bal) gar_step t txs s"

end
