(* ===== verification/Gar_Fixtures.thy ===== *)
theory Gar_Fixtures
  imports Gar_System
begin

text \<open>
  A small concrete deployment on which the properties of the gateway registry are instantiated:
  genesis, a Token program that keeps the pool's balance within a \<open>u64\<close> and lets only the
  settings PDA spend from it, and the state after one operator joined with 20,000 ARIO plus
  5 ARIO. Wallets and token accounts are small numbers.
\<close>

section \<open>The deployment\<close>

definition demo_settings :: gateway_settings where
  "demo_settings = initialize 3
     \<lparr>ip_authority = 4, ip_migration_authority = 4, ip_stake_token_account = 1,
      ip_protocol_token_account = 2, ip_arns_program_id = 5\<rparr>"

definition demo_epoch_settings :: epoch_settings where
  "demo_epoch_settings =
     \<lparr>es_authority = 4, es_epoch_duration = 86400, es_prescribed_observer_count = 50,
      es_prescribed_name_count = 2, es_min_observer_stake = 0, es_slash_rate = 0,
      es_enabled = True, es_current_epoch_index = 0, es_genesis_timestamp = 1000,
      es_tenure_weight_duration = 15552000, es_max_tenure_weight = 4,
      es_gateway_reward_ratio = 900000, es_observer_reward_ratio = 100000,
      es_missed_observation_penalty_rate = 250000, es_max_reward_rate = 1000,
      es_min_reward_rate = 500, es_reward_decay_start_epoch = 365,
      es_reward_decay_last_epoch = 547, es_max_consecutive_failures = 30,
      es_failed_gateway_slash_rate = 1000000, es_disable_at = 0\<rparr>"

definition demo_registry :: gateway_registry where
  "demo_registry = \<lparr>reg_count = 0, reg_gateways = (\<lambda>_. empty_slot)\<rparr>"

definition demo_state :: gar_state where
  "demo_state =
     \<lparr>settings = demo_settings, epoch_settings_acc = demo_epoch_settings, registry = demo_registry,
      gateways = Map.empty, delegations = Map.empty, withdrawals = Map.empty,
      withdrawal_counters = Map.empty, allowlist = Map.empty, observer_lookups = Map.empty,
      redelegation_records = Map.empty, epochs = Map.empty, observations = Map.empty,
      epoch_rent_receipts = Map.empty, rent_log = [], cpi_log = []\<rparr>"

definition demo_accepts :: "spl_transfer list \<Rightarrow> spl_transfer \<Rightarrow> bool" where
  "demo_accepts ts t \<longleftrightarrow>
     0 \<le> token_flow 1 (ts @ [t]) \<and> token_flow 1 (ts @ [t]) \<le> 2 ^ 64 - 1
     \<and> (tr_from t = 1 \<longrightarrow> tr_authority t = 7)"

definition demo_env :: "i64 \<Rightarrow> gar_env" where
  "demo_env t = \<lparr>now = t, pda_bump = (\<lambda>_. 255), pda_key = (\<lambda>_. 7),
     token_accounts =
       [1 \<mapsto> \<lparr>ta_owner = 7, ta_mint = 3, ta_amount = 20005000000\<rparr>,
        2 \<mapsto> \<lparr>ta_owner = 8, ta_mint = 3, ta_amount = 1000000000000\<rparr>,
        11 \<mapsto> \<lparr>ta_owner = 10, ta_mint = 3, ta_amount = 90000000000\<rparr>,
        21 \<mapsto> \<lparr>ta_owner = 20, ta_mint = 3, ta_amount = 90000000000\<rparr>],
     spl_accepts = demo_accepts\<rparr>"

lemma demo_env_simps [simp]:
  "now (demo_env t) = t" "pda_bump (demo_env t) = (\<lambda>_. 255)" "pda_key (demo_env t) = (\<lambda>_. 7)"
  "spl_accepts (demo_env t) = demo_accepts"
  "token_accounts (demo_env t) 1 = Some \<lparr>ta_owner = 7, ta_mint = 3, ta_amount = 20005000000\<rparr>"
  "token_accounts (demo_env t) 2 = Some \<lparr>ta_owner = 8, ta_mint = 3, ta_amount = 1000000000000\<rparr>"
  "token_accounts (demo_env t) 11 = Some \<lparr>ta_owner = 10, ta_mint = 3, ta_amount = 90000000000\<rparr>"
  "token_accounts (demo_env t) 21 = Some \<lparr>ta_owner = 20, ta_mint = 3, ta_amount = 90000000000\<rparr>"
  by (simp_all add: demo_env_def)

lemma demo_settings_simps [simp]:
  "gs_authority demo_settings = 4" "gs_mint demo_settings = 3"
  "gs_min_operator_stake demo_settings = 20000000000" "gs_min_delegate_stake demo_settings = 10000000"
  "gs_withdrawal_period demo_settings = 2592000" "gs_migration_active demo_settings"
  "gs_max_expedited_withdrawal_penalty demo_settings = 500000"
  "gs_min_expedited_withdrawal_penalty demo_settings = 100000"
  "gs_min_expedited_withdrawal_amount demo_settings = 1000000"
  "gs_stake_token_account demo_settings = 1" "gs_protocol_token_account demo_settings = 2"
  "gs_arns_program_id demo_settings = 5"
  "gs_total_staked demo_settings = 0" "gs_total_delegated demo_settings = 0"
  "gs_total_withdrawn demo_settings = 0"
  by (simp_all add: demo_settings_def initialize_def admin_constants)

text \<open>The Token program of the deployment meets what the theorems ask of the runtime.\<close>

lemma demo_pool_conforms: "gs_stake_token_account (settings s) = 1 \<Longrightarrow> pool_conforms (demo_env t) 0 s"
  by (auto simp: pool_conforms_def spl_conforms_def demo_accepts_def)

lemma demo_pool_refuses:
  "gs_stake_token_account (settings s) = 1 \<Longrightarrow> u \<noteq> 7 \<Longrightarrow> pool_refuses (demo_env t) s u"
  by (auto simp: pool_refuses_def demo_accepts_def)

lemma demo_pool_not_owned:
  "gs_stake_token_account (settings s) = 1 \<Longrightarrow> u \<noteq> 7 \<Longrightarrow> pool_not_owned_by (demo_env t) s u"
  by (simp add: pool_not_owned_by_def)

lemma demo_runtime_ok:
  assumes "gs_stake_token_account (settings s) = 1" "gs_protocol_token_account (settings s) = 2"
    and "pool_flow s < 2 ^ 60" and "arguments_ok op" and "7 \<notin> signers op"
  shows "runtime_ok (\<lambda>_. 255) 0 (demo_env t) op s"
proof -
  have "u \<noteq> 7" if "u \<in> signers op" for u using that assms(5) by auto
  with assms show ?thesis
    by (auto simp: runtime_ok_def demo_pool_conforms demo_pool_refuses demo_pool_not_owned
        treasury_bounded_def)
qed

section \<open>Genesis meets the invariant\<close>

lemma demo_state_inv: "system_inv (\<lambda>_. 255) 0 0 demo_state"
proof -
  have "gar_inv 0 demo_state"
    by (simp add: gar_inv_def demo_state_def well_formed_def supply_consistent_def counters_cover_def
        obligations_def pool_flow_def stake_total_def counter_total_def pending_total_def
        vault_total_def dust_total_def drift_def counter_of_def delegated_to_def)
  moreover have "registry_coherent demo_state"
    by (simp add: registry_coherent_def coherent_def demo_state_def demo_registry_def indices_def
        empty_slot_def)
  moreover have "lifecycle_ok (\<lambda>_. 255) 0 demo_state"
    by (simp add: lifecycle_ok_def epochs_ok_def unborn_ok_def demo_state_def open_observers_def)
  ultimately show ?thesis
    by (simp add: system_inv_def shares_capped_def rates_ok_def demo_state_def RATE_SCALE_def i64_ok_def)
qed

section \<open>One gateway joins\<close>

definition demo_join :: join_network_params where
  "demo_join = \<lparr>jp_operator_stake = 20000000000, jp_label = ''demo'', jp_fqdn = ''demo.io'',
     jp_port = 443, jp_protocol = Https, jp_properties = None, jp_note = None,
     jp_allow_delegated_staking = True, jp_delegate_reward_share_ratio = 10,
     jp_min_delegate_stake = None, jp_observer_address = 12\<rparr>"

definition demo_gateway :: gateway where
  "demo_gateway = \<lparr>gw_operator = 10, gw_label = ''demo'', gw_fqdn = ''demo.io'', gw_port = 443,
     gw_protocol = Https, gw_properties = [], gw_note = [], gw_operator_stake = 20000000000,
     gw_total_delegated_stake = 0, gw_status = Joined, gw_start_timestamp = 1000,
     gw_leave_timestamp = None, gw_leave_epoch_duration = 0, gw_stats = default_stats,
     gw_weights = default_weights,
     gw_settings = \<lparr>g2_allow_delegated_staking = True, g2_delegate_reward_share_ratio = 1000,
       g2_min_delegation_amount = 10000000, g2_allowlist_enabled = False,
       g2_pending_delegate_reward_share_ratio = None, g2_delegation_disabled_at = None\<rparr>,
     gw_registry_index = 0, gw_observer_address = 12, gw_cumulative_reward_per_token = 0,
     gw_bump = 255, gw_version = GATEWAY_VERSION, gw_operations_address = 10\<rparr>"

definition demo_slot :: gateway_slot where
  "demo_slot = \<lparr>slot_address = 10, slot_composite_weight = 0, slot_start_timestamp = 1000,
     slot_status = STATUS_JOINED, slot_delegated_at_tally = 0\<rparr>"

definition demo_deposit :: "u64 \<Rightarrow> spl_transfer" where
  "demo_deposit amount = \<lparr>tr_from = 11, tr_to = 1, tr_authority = 10, tr_amount = amount\<rparr>"

definition demo_joined :: gar_state where
  "demo_joined = demo_state\<lparr>gateways := [10 \<mapsto> demo_gateway],
     observer_lookups := [12 \<mapsto> \<lparr>ol_gateway = 10, ol_bump = 255, ol_version = V1_0_0\<rparr>],
     registry := \<lparr>reg_count = 1, reg_gateways = (\<lambda>_. empty_slot)(0 := demo_slot)\<rparr>,
     settings := demo_settings\<lparr>gs_total_staked := 20000000000\<rparr>,
     cpi_log := [demo_deposit 20000000000]\<rparr>"

lemma demo_join_runs: "join_network (demo_env 1000) 10 11 1 demo_join demo_state = Inr demo_joined"
  by (simp add: join_network_def accounts_defs demo_state_def demo_join_def demo_registry_def
      gar_constants is_valid_arweave_id_def token_transfer_def Let_def demo_accepts_def
      token_flow_def transfer_flow_def demo_joined_def demo_gateway_def demo_slot_def
      demo_deposit_def checked_add_def)

section \<open>Short histories\<close>

text \<open>The gateway joins, and a stranger's attempt to leave fails.\<close>

definition demo_txs :: "(gar_env \<times> gar_op) list" where
  "demo_txs = [(demo_env 1000, GatewayOp (JoinNetworkOp 10 11 1 demo_join)),
     (demo_env 1500, GatewayOp (LeaveNetworkOp [] 33 None))]"

lemma demo_join_step:
  "gar_step (demo_env 1000) (GatewayOp (JoinNetworkOp 10 11 1 demo_join)) demo_state = Inr demo_joined"
  by (simp add: gar_step_def gateway_step_def demo_join_runs)

lemma demo_leave_fails:
  "gar_step (demo_env 1500) (GatewayOp (LeaveNetworkOp [] 33 None)) demo_joined = Inl AccountNotInitialized"
  by (simp add: gar_step_def gateway_step_def leave_network_def demo_joined_def demo_state_def)

lemma demo_exec: "gar_exec demo_txs demo_state = demo_joined"
  by (simp add: demo_txs_def demo_join_step demo_leave_fails)

lemma demo_state_pools [simp]:
  "gs_stake_token_account (settings demo_state) = 1" "gs_protocol_token_account (settings demo_state) = 2"
  "pool_flow demo_state = 0"
  "gs_stake_token_account (settings demo_joined) = 1" "gs_protocol_token_account (settings demo_joined) = 2"
  "pool_flow demo_joined = 20000000000"
  by (simp_all add: demo_state_def demo_joined_def pool_flow_def demo_deposit_def token_flow_def
      transfer_flow_def)

lemma demo_trace: "gar_trace (\<lambda>_. 255) 0 0 demo_txs demo_state"
  unfolding demo_txs_def
  by (simp add: demo_join_step demo_leave_fails) (simp add: demo_runtime_ok arguments_ok_def)

text \<open>Then the first epoch is created.\<close>

definition demo_sha :: hasher where
  "demo_sha bytes = replicate 32 7"

definition demo_epoch :: epoch where
  "demo_epoch = new_epoch 0 1000 87400 1000000000 1000 1 (replicate 32 7) False"

definition demo_created :: gar_state where
  "demo_created = demo_joined\<lparr>epochs := [0 \<mapsto> demo_epoch],
     epoch_settings_acc := demo_epoch_settings\<lparr>es_current_epoch_index := 1\<rparr>\<rparr>"

lemma demo_create_runs:
  "create_epoch (demo_env 2000) demo_sha 5 [] 2 30 demo_joined = Inr demo_created"
  by (simp add: create_epoch_def accounts_defs demo_joined_def demo_state_def demo_epoch_settings_def
      Let_def checked_mul_i64_def checked_add_i64_def i64_ok_def require_latest_epoch_finished_def
      checked_sub_def compute_reward_rate_def eligible_rewards_def checked_mul_def RATE_SCALE_def
      demo_sha_def checked_add_def demo_created_def demo_epoch_def)

definition demo_epoch_txs :: "(gar_env \<times> gar_op) list" where
  "demo_epoch_txs = [(demo_env 1000, GatewayOp (JoinNetworkOp 10 11 1 demo_join)),
     (demo_env 2000, EpochOp (CreateEpochOp demo_sha 5 [] 2 30))]"

lemma demo_create_step:
  "gar_step (demo_env 2000) (EpochOp (CreateEpochOp demo_sha 5 [] 2 30)) demo_joined = Inr demo_created"
  by (simp add: gar_step_def epoch_step_def demo_create_runs)

lemma demo_epoch_exec: "gar_exec demo_epoch_txs demo_state = demo_created"
  by (simp add: demo_epoch_txs_def demo_join_step demo_create_step)

lemma demo_epoch_trace: "gar_trace (\<lambda>_. 255) 0 0 demo_epoch_txs demo_state"
  unfolding demo_epoch_txs_def
  by (simp add: demo_join_step demo_create_step) (simp add: demo_runtime_ok arguments_ok_def)

end
