(* ===== verification/Gar_Properties.thy ===== *)
theory Gar_Properties
  imports Gar_Fixtures
begin

text \<open>
  The properties of the gateway registry: what holds after any sequence of its instructions,
  and what its central instructions do. Each witness applies its property on the deployment of
  \<open>Gar_Fixtures\<close>.
\<close>

section \<open>After any history\<close>

text \<open>
  C1: Invariant 1 of \<open>INVARIANTS.md\<close>, as the code keeps it. However the program's instructions
  are interleaved, and whichever of them fail, what gateways, delegators (with their unsettled
  rewards) and vault owners may claim never exceeds the stake pool's token balance.
\<close>

theorem pool_always_covers_obligations:
  assumes "system_inv bump bal t s" and "gar_trace bump bal t txs s"
  shows "obligations (gar_exec txs s) \<le> bal + pool_flow (gar_exec txs s)"
proof -
  have "gar_inv bal (gar_exec txs s)"
    using gar.inv_exec [OF assms] by (simp add: system_inv_def)
  then have "10 ^ 18 * obligations (gar_exec txs s) \<le> 10 ^ 18 * (bal + pool_flow (gar_exec txs s))"
    using dust_total_nonneg [of "gateways (gar_exec txs s)" "delegations (gar_exec txs s)"]
    unfolding gar_inv_def by (elim conjE) (rule order_trans, rule add_increasing2, assumption, rule order_refl)
  then show ?thesis
    by simp
qed

theorem pool_always_covers_obligations_witness:
  "obligations (gar_exec demo_txs demo_state) \<le> 0 + pool_flow (gar_exec demo_txs demo_state)"
  by (rule pool_always_covers_obligations [OF demo_state_inv demo_trace])

text \<open>
  C6: Invariants 2 and 4. After any history the three supply counters of the settings are the
  sums over the accounts, and no gateway's delegated-stake counter is below what its delegations
  add up to.
\<close>

theorem supply_counters_always_exact:
  assumes "system_inv bump bal t s" and "gar_trace bump bal t txs s" and "s' = gar_exec txs s"
  shows "uint (gs_total_staked (settings s')) = stake_total (gateways s')
    \<and> uint (gs_total_delegated (settings s')) = counter_total (gateways s')
    \<and> uint (gs_total_withdrawn (settings s')) = vault_total (withdrawals s')
    \<and> (\<forall>k. delegated_to (delegations s') k \<le> counter_of (gateways s') k)"
proof -
  have "gar_inv bal s'"
    using gar.inv_exec [OF assms(1,2)] assms(3) by (simp add: system_inv_def)
  then show ?thesis
    by (simp add: gar_inv_def supply_consistent_def counters_cover_def drift_def)
qed

theorem supply_counters_always_exact_witness:
  "uint (gs_total_staked (settings demo_joined)) = stake_total (gateways demo_joined)
   \<and> delegated_to (delegations demo_joined) 10 \<le> counter_of (gateways demo_joined) 10"
  using supply_counters_always_exact [OF demo_state_inv demo_trace demo_exec [symmetric]] by blast

text \<open>
  C10: the registry is a table. After any history the first \<open>count\<close> slots and the gateway accounts
  are in bijection: each slot's address is a gateway that stores the slot's index, each gateway's
  index is a slot that stores its address, and the slots behind the count are empty.
\<close>

theorem registry_always_indexes_gateways:
  assumes "system_inv bump bal t s" and "gar_trace bump bal t txs s" and "s' = gar_exec txs s"
  shows "(\<forall>i < unat (reg_count (registry s')).
        \<exists>g. gateways s' (slot_address (reg_gateways (registry s') i)) = Some g
            \<and> unat (gw_registry_index g) = i)
    \<and> (\<forall>k g. gateways s' k = Some g \<longrightarrow>
        unat (gw_registry_index g) < unat (reg_count (registry s'))
        \<and> slot_address (reg_gateways (registry s') (unat (gw_registry_index g))) = k)
    \<and> (\<forall>i. unat (reg_count (registry s')) \<le> i \<and> i < MAX_GATEWAYS \<longrightarrow>
        slot_address (reg_gateways (registry s') i) = 0)"
proof -
  have "registry_coherent s'"
    using gar.inv_exec [OF assms(1,2)] assms(3) by (simp add: system_inv_def)
  then show ?thesis
    by (auto simp: registry_coherent_def coherent_def indices_def)
qed

theorem registry_always_indexes_gateways_witness:
  "\<exists>g. gateways demo_joined (slot_address (reg_gateways (registry demo_joined) 0)) = Some g
       \<and> unat (gw_registry_index g) = 0"
proof -
  have "0 < unat (reg_count (registry demo_joined))"
    by (simp add: demo_joined_def)
  then show ?thesis
    using registry_always_indexes_gateways [OF demo_state_inv demo_trace demo_exec [symmetric]]
    by blast
qed

text \<open>
  C17: ADR-0034. After any history an epoch whose rewards are not distributed is the latest one,
  so there is at most one; \<open>finalize_gone\<close> (ADR-0036) relies on this when it inspects only the
  latest epoch before it moves registry slots.
\<close>

theorem at_most_one_unfinished_epoch:
  assumes "system_inv bump bal t s" and "gar_trace bump bal t txs s" and "s' = gar_exec txs s"
    and "epochs s' i = Some e" and "ep_rewards_distributed e \<noteq> 1"
  shows "i = es_current_epoch_index (epoch_settings_acc s') - 1
    \<and> i < es_current_epoch_index (epoch_settings_acc s')"
proof -
  have "lifecycle_ok bump (end_time now t txs) s'"
    using gar.inv_exec [OF assms(1,2)] assms(3) by (simp add: system_inv_def)
  from lifecycle_epoch [OF this assms(4)] assms(5)
  show ?thesis
    by (auto simp: epoch_ok_def)
qed

theorem at_most_one_unfinished_epoch_witness:
  "(0 :: u64) = es_current_epoch_index (epoch_settings_acc demo_created) - 1"
proof -
  have "epochs demo_created 0 = Some demo_epoch" and "ep_rewards_distributed demo_epoch \<noteq> 1"
    by (simp_all add: demo_created_def demo_epoch_def new_epoch_def empty_epoch_def)
  then show ?thesis
    using at_most_one_unfinished_epoch
      [OF demo_state_inv demo_epoch_trace demo_epoch_exec [symmetric]]
    by blast
qed

end
