(* ===== verification/Gar_Prescription.thy ===== *)
theory Gar_Prescription
  imports Gar_Lifecycle Gar_Fees
begin

text \<open>
  What \<open>prescribe_epoch\<close> prescribes, read end to end: the observers are the linear walk over the
  live weights of the registry, their addresses are the gateways' own, and the unit rewards it
  sets cannot add up to more than the epoch's eligible rewards.
\<close>

section \<open>The observers\<close>

lemma resolve_observersD:
  "resolve_observers s remaining gws = Inr obs \<Longrightarrow>
     length obs = length gws
     \<and> (\<forall>j < length gws. \<exists>g. gateways s (gws ! j) = Some g \<and> obs ! j = gw_observer_address g)"
proof (induction gws arbitrary: obs)
  case (Cons k ks)
  then obtain g rest where g: "gateways s k = Some g" and rest: "resolve_observers s remaining ks = Inr rest"
    and obs: "obs = gw_observer_address g # rest"
    by (auto simp: result_iff)
  show ?case
    using Cons.IH [OF rest] g unfolding obs by (auto simp: nth_Cons split: nat.split)
qed simp

lemma write_prefix_nth [simp]: "j < length xs \<Longrightarrow> write_prefix xs f j = xs ! j"
  by (simp add: write_prefix_def)

definition selected_slots :: "hasher \<Rightarrow> gar_state \<Rightarrow> epoch \<Rightarrow> nat list" where
  "selected_slots sha s e =
     walk_select sha (ep_hashchain e)
       (slot_weights (registry s) (unat (ep_active_gateway_count e)))
       (min (unat (es_prescribed_observer_count (epoch_settings_acc s)))
            (unat (ep_active_gateway_count e)))"

lemma length_slot_weights [simp]: "length (slot_weights reg n) = n"
  by (simp add: slot_weights_def)

lemma prescribed_observers_facts:
  assumes run: "prescribe_epoch sha remaining ix s = Inr s'" and e: "epochs s ix = Some e"
    and e': "epochs s' ix = Some e'"
  defines "sel \<equiv> selected_slots sha s e"
  shows "unat (ep_observer_count e') = length sel" and "length sel \<le> 50"
    and "\<And>j. j < length sel \<Longrightarrow>
      ep_prescribed_observer_gateways e' j = slot_address (reg_gateways (registry s) (sel ! j))
      \<and> (\<exists>g. gateways s (ep_prescribed_observer_gateways e' j) = Some g
           \<and> ep_prescribed_observers e' j = gw_observer_address g)"
    and "selection_ok (slot_weights (registry s) (unat (ep_active_gateway_count e)))
      (unat (es_prescribed_observer_count (epoch_settings_acc s))) sel"
    and "e' = (set_unit_rewards (epoch_settings_acc s)
      (joined_count (registry s) (unat (ep_active_gateway_count e))) (length sel) e')
      \<lparr>ep_prescriptions_done := 1\<rparr>"
    and "ep_total_eligible_rewards e' = ep_total_eligible_rewards e"
proof (atomize (full), rule prescribe_epoch_run [OF run], goal_cases)
  case (1 f prefix picked observers e2)
  then have [simp]: "f = e" using e by simp
  have picked: "picked = sel"
    using 1(6) roulette_is_walk [OF 1(5)] by (simp add: sel_def selected_slots_def)
  let ?gws = "map (\<lambda>i. slot_address (reg_gateways (registry s) i)) picked"
  let ?e1 = "f\<lparr>ep_prescribed_observer_gateways := write_prefix ?gws (ep_prescribed_observer_gateways f),
          ep_prescribed_observers := write_prefix observers (ep_prescribed_observers f),
          ep_observer_count := of_nat (length picked)\<rparr>"
  define e3 where "e3 = set_unit_rewards (epoch_settings_acc s)
     (joined_count (registry s) (unat (ep_active_gateway_count f))) (length picked) e2"
  have "unprescribed e3 = unprescribed ?e1"
    unfolding e3_def set_unit_rewards_keeps by (rule prescribe_names_keeps [OF 1(9)])
  note same = unprescribed_fields [OF this]
  have e'3: "e' = e3\<lparr>ep_prescriptions_done := 1\<rparr>"
    using e' 1(10) by (simp add: e3_def)
  note resolved = resolve_observersD [OF 1(8)]
  have count: "unat (ep_observer_count e') = length sel"
    using same 1(7) by (simp add: e'3 picked unsigned_of_nat take_bit_nat_eq_self)
  have gws: "ep_prescribed_observer_gateways e' j = slot_address (reg_gateways (registry s) (sel ! j))
      \<and> (\<exists>g. gateways s (ep_prescribed_observer_gateways e' j) = Some g
           \<and> ep_prescribed_observers e' j = gw_observer_address g)" if "j < length sel" for j
    using that same resolved by (simp add: e'3 picked)
  have "selection_ok (slot_weights (registry s) (unat (ep_active_gateway_count e)))
      (min (min (unat (es_prescribed_observer_count (epoch_settings_acc s)))
          (unat (ep_active_gateway_count e))) (unat (ep_active_gateway_count e))) sel"
    using walk_select_ok [of "slot_weights (registry s) (unat (ep_active_gateway_count e))"
        "min (unat (es_prescribed_observer_count (epoch_settings_acc s))) (unat (ep_active_gateway_count e))"
        sha "ep_hashchain e"]
    by (simp add: sel_def selected_slots_def)
  then have ok: "selection_ok (slot_weights (registry s) (unat (ep_active_gateway_count e)))
      (unat (es_prescribed_observer_count (epoch_settings_acc s))) sel"
    by (simp add: selection_ok_def)
  have again: "e' = (set_unit_rewards (epoch_settings_acc s)
      (joined_count (registry s) (unat (ep_active_gateway_count e))) (length sel) e')
      \<lparr>ep_prescriptions_done := 1\<rparr>"
    unfolding e'3 e3_def picked by (cases e2) (simp add: set_unit_rewards_def Let_def)
  show ?case
    using count gws ok again same 1(7) by (simp add: picked) (simp add: e'3)
qed

lemma cumulative_positive:
  "(\<exists>i < length ws. ws ! i > 0) \<longleftrightarrow> cumulative ws (length ws) > 0"
proof -
  have "(\<exists>i < length ws. ws ! i > 0) \<longleftrightarrow> (\<exists>w \<in> set ws. 0 < w)"
    by (simp add: set_conv_nth Bex_def) blast
  also have "\<dots> \<longleftrightarrow> cumulative ws (length ws) > 0"
    by (induction ws) (auto simp: cumulative_def unat_gt_0 word_neq_0_conv)
  finally show ?thesis .
qed

section \<open>The unit rewards\<close>

lemma mult_quotient_le: "0 \<le> x \<Longrightarrow> 0 \<le> c \<Longrightarrow> c * (x div c) \<le> x" for c x :: int
proof (cases "c = 0")
  case False
  assume "0 \<le> x" "0 \<le> c"
  with False have "0 \<le> x mod c" by simp
  then show ?thesis by (simp add: minus_mod_eq_mult_div [symmetric])
qed simp

lemma zero_le_div_iff_int: "0 \<le> x \<Longrightarrow> 0 \<le> c \<Longrightarrow> 0 \<le> x div c" for c x :: int
  by (cases "c = 0") (simp_all add: pos_imp_zdiv_nonneg_iff)

lemma unit_total:
  fixes total ratio count :: u64
  assumes "ratio \<le> RATE_SCALE" and "n \<le> uint count"
  shows "n * uint (per_unit_reward total ratio count) \<le> uint total * uint ratio div 1000000"
proof -
  have r: "uint ratio \<le> 1000000" using assms(1) by (simp add: uint_word_le)
  have fit: "uint total * uint ratio < 2 ^ 128"
    by (rule mult_u64_fits) (use uint_bounds64 in auto)
  have v: "uint (as_u128 total * as_u128 ratio) = uint total * uint ratio"
    using fit by (simp add: uint_mult_exact)
  have le: "0 \<le> uint total * uint ratio div 1000000" "uint total * uint ratio div 1000000 \<le> uint total"
    by (rule fee_le_amount; use r in simp)+
  have share: "uint (as_u64 ((as_u128 total * as_u128 ratio) div as_u128 RATE_SCALE))
      = uint total * uint ratio div 1000000"
    by (subst uint_as_u64_small) (use le uint_bounds64 [of total] in \<open>auto simp: uint_div v\<close>)
  have "uint (per_unit_reward total ratio count) = uint total * uint ratio div 1000000 div uint count"
    using fit share by (simp add: per_unit_reward_def checked_mul_def uint_div)
  moreover have "uint count * (uint total * uint ratio div 1000000 div uint count)
      \<le> uint total * uint ratio div 1000000"
    by (rule mult_quotient_le) (use le uint_bounds64(1) [of count] in simp_all)
  moreover have "n * (uint total * uint ratio div 1000000 div uint count)
      \<le> uint count * (uint total * uint ratio div 1000000 div uint count)"
    using assms(2) le(1) uint_bounds64(1) [of count]
    by (intro mult_right_mono) (auto simp: zero_le_div_iff_int)
  ultimately show ?thesis by simp
qed

lemma selected_le_joined:
  assumes "selection_ok (slot_weights reg n) cap sel"
  shows "length sel \<le> length (filter (\<lambda>w. w > 0) (slot_weights reg n))"
proof -
  let ?live = "{i. i < n \<and> slot_weights reg n ! i > 0}"
  have "length (filter (\<lambda>w. w > 0) (slot_weights reg n)) = card ?live"
    by (simp only: length_filter_conv_card length_slot_weights)
  moreover have "set sel \<subseteq> ?live" and "distinct sel"
    using assms by (auto simp: selection_ok_def)
  then have "length sel \<le> card ?live"
    using card_mono [of ?live "set sel"] by (simp add: distinct_card)
  ultimately show ?thesis by simp
qed

lemma joined_count_exact:
  assumes "n \<le> MAX_GATEWAYS"
  shows "uint (joined_count reg n) = int (length (filter (\<lambda>w. w > 0) (slot_weights reg n)))"
proof -
  define k where "k = length (filter (\<lambda>w. w > 0) (slot_weights reg n))"
  have "k \<le> n" unfolding k_def by (rule order_trans [OF length_filter_le]) simp
  with assms have "k \<le> 3000" unfolding MAX_GATEWAYS_def by linarith
  then have "k < 2 ^ LENGTH(64)" by simp
  then have "unat (of_nat k :: u64) = k" by (simp add: unsigned_of_nat take_bit_nat_eq_self)
  then show ?thesis by (simp add: joined_count_def uint_nat flip: k_def)
qed

end
