(* ===== verification/Gar_Epoch_Fixtures.thy ===== *)
theory Gar_Epoch_Fixtures
  imports Gar_Fixtures Gar_Prescription
begin

text \<open>
  Concrete epochs on the deployment of \<open>Gar_Fixtures\<close>: one that is distributed and seven epochs
  old, with a report still open, and one that starts 180 days after the gateway joined, its tally
  and its prescription.
\<close>

section \<open>A distributed epoch\<close>

definition demo_done :: epoch where
  "demo_done = demo_epoch\<lparr>ep_weights_tallied := 1, ep_prescriptions_done := 1,
     ep_rewards_distributed := 1, ep_observer_count := 1, ep_observations_submitted := 1,
     ep_prescribed_observers := (\<lambda>_. 12), ep_has_rent_receipt := 1\<rparr>"

definition demo_report :: observation where
  "demo_report = \<lparr>ob_epoch_index = 0, ob_observer = 12, ob_gateway_results = (\<lambda>_. 255),
     ob_gateway_count = 1, ob_report_tx_id = replicate 32 0, ob_submitted_at = 3000, ob_bump = 255,
     ob_version = V1_0_0\<rparr>"

definition demo_receipt :: epoch_rent_receipt where
  "demo_receipt = \<lparr>er_creator = 30, er_bump = 255, er_version = V1_0_0\<rparr>"

text \<open>Seven epochs later, with the first one's report still open.\<close>

definition demo_aged :: gar_state where
  "demo_aged = demo_joined\<lparr>epochs := [0 \<mapsto> demo_done],
     epoch_settings_acc := demo_epoch_settings\<lparr>es_current_epoch_index := 8\<rparr>,
     observations := [(0, 12) \<mapsto> demo_report], epoch_rent_receipts := [0 \<mapsto> demo_receipt]\<rparr>"

lemmas demo_epoch_defs = demo_done_def demo_epoch_def new_epoch_def empty_epoch_def

lemma demo_aged_lifecycle: "lifecycle_ok (\<lambda>_. 255) 90000 demo_aged"
proof -
  have "open_observers (observations demo_aged) i = (if i = 0 then {12} else {})" for i
    by (auto simp: demo_aged_def open_observers_def)
  moreover have "prescribed_set demo_done = {12}"
    by (auto simp: prescribed_set_def demo_epoch_defs lessThan_Suc)
  ultimately show ?thesis
    by (simp add: lifecycle_ok_def epochs_ok_def unborn_ok_def epoch_ok_def phases_ok_def
        observations_accounted_def receipt_there_def)
      (simp add: demo_aged_def demo_epoch_defs demo_report_def demo_receipt_def)
qed

section \<open>An epoch tallied and prescribed\<close>

definition demo_late_epoch :: epoch where
  "demo_late_epoch = demo_epoch\<lparr>ep_start_timestamp := 15553000, ep_end_timestamp := 15639400\<rparr>"

definition demo_late :: gar_state where
  "demo_late = demo_created\<lparr>epochs := [0 \<mapsto> demo_late_epoch]\<rparr>"

definition demo_weights :: gateway_weights where
  "demo_weights = \<lparr>wt_stake_weight = 1000000, wt_tenure_weight = 1000000,
     wt_gateway_performance_ratio = 1000000, wt_observer_performance_ratio = 1000000,
     wt_composite_weight = 1000000, wt_normalized_composite_weight = 0, wt_weights_epoch = 0\<rparr>"

definition demo_tallied_epoch :: epoch where
  "demo_tallied_epoch = demo_late_epoch\<lparr>ep_total_composite_weight_lo := 1000000,
     ep_tally_index := 1, ep_weights_tallied := 1\<rparr>"

definition demo_tallied :: gar_state where
  "demo_tallied = demo_late\<lparr>epochs := [0 \<mapsto> demo_tallied_epoch],
     gateways := [10 \<mapsto> demo_gateway\<lparr>gw_weights := demo_weights\<rparr>],
     registry := cache_weight 0 1000000 0 (registry demo_late)\<rparr>"

lemma demo_weighs: "gateway_weights_compute 20000000000 20000000000 1000 15553000 15552000 4 default_stats RATE_SCALE
   = Inr demo_weights"
  by (simp add: gateway_weights_compute_def Let_def checked_sub_i64_def i64_ok_def RATE_SCALE_def default_stats_def
     checked_mul_def saturating_mul_def checked_div_def u64_try_from_or_max_def demo_weights_def)

lemma demo_late_simps [simp]:
  "epochs demo_late = [0 \<mapsto> demo_late_epoch]" "gateways demo_late = [10 \<mapsto> demo_gateway]"
  "es_current_epoch_index (epoch_settings_acc demo_late) = 1"
  "slot_address (reg_gateways (registry demo_late) 0) = 10"
  "gs_min_operator_stake (settings demo_late) = 20000000000"
  "es_tenure_weight_duration (epoch_settings_acc demo_late) = 15552000"
  "es_max_tenure_weight (epoch_settings_acc demo_late) = 4"
  by (simp_all add: demo_late_def demo_created_def demo_joined_def demo_state_def demo_slot_def demo_epoch_settings_def)

lemma demo_late_epoch_simps [simp]:
  "ep_start_timestamp demo_late_epoch = 15553000" "ep_epoch_index demo_late_epoch = 0"
  "ep_active_gateway_count demo_late_epoch = 1" "ep_tally_index demo_late_epoch = 0"
  "ep_weights_tallied demo_late_epoch = 0"
  "ep_total_composite_weight_lo demo_late_epoch = 0" "ep_total_composite_weight_hi demo_late_epoch = 0"
  by (simp_all add: demo_late_epoch_def demo_epoch_defs)

lemma demo_tally_gateway: 
  "tally_gateway (settings demo_late) (epoch_settings_acc demo_late) demo_late_epoch demo_gateway 
   = Inr (1000000, demo_gateway\<lparr>gw_weights := demo_weights\<rparr>)"
  using demo_weighs
  by (simp add: tally_gateway_def) (simp add: demo_gateway_def total_stake_def apply_pending_share_def demo_weights_def)

lemma demo_cursor:
  "advance_tally (add_composite_weight 1000000 demo_late_epoch)
     = demo_late_epoch\<lparr>ep_total_composite_weight_lo := 1000000, ep_tally_index := 1\<rparr>"
  by (simp add: advance_tally_def add_composite_weight_def set_total_composite_weight_def
      total_composite_weight_def saturating_add_def)

lemma demo_tally_loop:
  "tally_loop [\<lparr>ai_key = GatewayPda 10, ai_is_writable = True\<rparr>] demo_late demo_late_epoch
     = Inr (demo_late\<lparr>registry := cache_weight 0 1000000 0 (registry demo_late),
              gateways := [10 \<mapsto> demo_gateway\<lparr>gw_weights := demo_weights\<rparr>]\<rparr>,
            demo_late_epoch\<lparr>ep_total_composite_weight_lo := 1000000, ep_tally_index := 1\<rparr>)"
proof -
  have "gw_operator demo_gateway = 10" "gw_status demo_gateway = Joined"
      "gw_total_delegated_stake demo_gateway = 0"
    by (simp_all add: demo_gateway_def)
  then show ?thesis
    by (simp add: Let_def) (simp add: MAX_GATEWAYS_def demo_tally_gateway demo_cursor)
qed

lemma demo_tally_runs:
  "tally_weights [\<lparr>ai_key = GatewayPda 10, ai_is_writable = True\<rparr>] 0 demo_late = Inr demo_tallied"
  by (simp add: tally_weights_def checked_sub_def demo_tally_loop del: tally_loop.simps)
    (simp add: demo_tallied_def demo_tallied_epoch_def)

definition demo_prescribe_accounts :: "prescribe_account list" where
  "demo_prescribe_accounts = [OwnAccount (GatewayPda 10)]"

definition demo_prescribed_epoch :: epoch where
  "demo_prescribed_epoch = demo_tallied_epoch\<lparr>
      ep_prescribed_observer_gateways := write_prefix [10] (\<lambda>_. 0),
      ep_prescribed_observers := write_prefix [12] (\<lambda>_. 0), ep_observer_count := 1,
      ep_per_gateway_reward := 900000000, ep_per_observer_reward := 100000000,
      ep_prescriptions_done := 1\<rparr>"

definition demo_prescribed :: gar_state where
  "demo_prescribed = demo_tallied\<lparr>epochs := [0 \<mapsto> demo_prescribed_epoch]\<rparr>"

lemma demo_tallied_simps [simp]:
  "epochs demo_tallied = [0 \<mapsto> demo_tallied_epoch]" 
  "gateways demo_tallied = [10 \<mapsto> demo_gateway\<lparr>gw_weights := demo_weights\<rparr>]"
  "slot_weights (registry demo_tallied) (Suc 0) = [1000000]" "slot_address (reg_gateways (registry demo_tallied) 0) = 10"
  "es_prescribed_observer_count (epoch_settings_acc demo_tallied) = 50"
  "es_gateway_reward_ratio (epoch_settings_acc demo_tallied) = 900000"
  "es_observer_reward_ratio (epoch_settings_acc demo_tallied) = 100000"
  by (simp_all add: demo_tallied_def slot_weights_def cache_weight_def)
   (simp_all add: demo_late_def demo_created_def demo_joined_def demo_state_def demo_slot_def demo_epoch_settings_def)

lemma demo_tallied_epoch_simps [simp]:
  "ep_weights_tallied demo_tallied_epoch = 1" "ep_prescriptions_done demo_tallied_epoch = 0"
  "ep_active_gateway_count demo_tallied_epoch = 1" "ep_hashchain demo_tallied_epoch = replicate 32 7"
  "ep_prescribed_observer_gateways demo_tallied_epoch = (\<lambda>_. 0)" "ep_prescribed_observers demo_tallied_epoch = (\<lambda>_. 0)"
  "ep_total_eligible_rewards demo_tallied_epoch = 1000000000"
  by (simp_all add: demo_tallied_epoch_def demo_late_epoch_def demo_epoch_defs)

lemma demo_draw: "roulette_select_indices demo_sha h [1000000] (Suc 0) = Inr [0]"
proof -
  have "roulette_select_indices demo_sha h [1000000] (Suc 0)
    = Inr (walk_select demo_sha h [1000000] (Suc 0))"
    by (rule roulette_is_walk) (simp add: checked_add_def)
  moreover have "walk_select demo_sha h [1000000] (Suc 0) \<noteq> []"
    by (rule walk_select_nonempty) simp_all
  moreover have "selection_ok [1000000] 1 (walk_select demo_sha h [1000000] (Suc 0))"
    using walk_select_ok [of "[1000000]" "Suc 0" demo_sha h] by simp
  ultimately show ?thesis
    by (cases "walk_select demo_sha h [1000000] (Suc 0)") (auto simp: selection_ok_def)
qed

lemma demo_prescribe_runs:
  "prescribe_epoch demo_sha demo_prescribe_accounts 0 demo_tallied = Inr demo_prescribed"
  by (simp add: prescribe_epoch_def demo_prescribe_accounts_def Let_def MAX_GATEWAYS_def checked_add_def
      demo_draw)
    (simp add: demo_gateway_def demo_prescribed_def demo_prescribed_epoch_def prescribe_names_def
      set_unit_rewards_def joined_count_def per_unit_reward_def checked_mul_def RATE_SCALE_def)

lemma demo_classify:
  "\<exists>p. classify_gateway (epoch_settings_acc demo_prescribed) demo_prescribed_epoch
         (registry demo_prescribed) 0 10 (demo_gateway\<lparr>gw_weights := demo_weights\<rparr>) = Inr p
     \<and> pd_full_reward p = 675000000"
proof -
  have "ep_epoch_index demo_tallied_epoch = 0" "ep_start_timestamp demo_tallied_epoch = 15553000"
    "ep_observations_submitted demo_tallied_epoch = 0" "ep_has_observed demo_tallied_epoch = (\<lambda>_. 0)"
    by (simp_all add: demo_tallied_epoch_def demo_late_epoch_def demo_epoch_defs)
  moreover have "es_missed_observation_penalty_rate (epoch_settings_acc demo_tallied) = 250000"
    "slot_composite_weight (reg_gateways (registry demo_tallied) 0) = 1000000"
    by (simp_all add: demo_tallied_def cache_weight_def demo_late_def demo_created_def demo_epoch_settings_def)
  ultimately show ?thesis
    by (simp add: classify_gateway_def demo_prescribed_def demo_prescribed_epoch_def demo_weights_def
        prescribed_position_def is_observed_def scenario_reward_def Let_def RATE_SCALE_def
        saturating_mul_def saturating_sub_def) (simp add: demo_gateway_def)
qed

lemma demo_collects:
  "\<exists>p. collect_pending demo_prescribed demo_prescribed_epoch
         [\<lparr>ai_key = GatewayPda 10, ai_is_writable = True\<rparr>] 0 0 [] = Inr (1, 675000000, [p])
     \<and> pd_full_reward p = 675000000"
proof -
  obtain p where p: "classify_gateway (epoch_settings_acc demo_prescribed) demo_prescribed_epoch
         (registry demo_prescribed) 0 10 (demo_gateway\<lparr>gw_weights := demo_weights\<rparr>) = Inr p"
    and full: "pd_full_reward p = 675000000"
    using demo_classify by blast
  have facts: "gateways demo_prescribed 10 = Some (demo_gateway\<lparr>gw_weights := demo_weights\<rparr>)"
    "slot_address (reg_gateways (registry demo_prescribed) 0) = 10" "gw_operator demo_gateway = 10"
    "ep_active_gateway_count demo_prescribed_epoch = 1"
    by (simp_all add: demo_prescribed_def demo_prescribed_epoch_def demo_gateway_def)
  show ?thesis
    by (rule exI [of _ p])
      (simp add: facts full, simp add: facts p full MAX_GATEWAYS_def checked_add_def)
qed

end
