(* ===== verification/Gar_Epoch_Properties.thy ===== *)
theory Gar_Epoch_Properties
  imports Gar_Epoch_Fixtures Gar_Properties
begin

text \<open>
  The properties of the epoch lifecycle: who may be selected and how, what the tally and the
  unit rewards add up to, how an epoch ends. The state invariant \<open>lifecycle_ok\<close> that some of them
  assume holds after every history (\<open>Gar_System\<close>).
\<close>

section \<open>The end of an epoch\<close>

lemma closing_facts:
  assumes ok: "lifecycle_ok bump t s" and run: "close_epoch env remaining ix payer s = Inr s'"
  shows "\<exists>e. epochs s ix = Some e \<and> epochs s' ix = None \<and> open_observers (observations s') ix = {}
    \<and> (if ep_has_rent_receipt e = 0 then rent_log s' = rent_log s @ [(EpochPda ix, payer)]
       else \<exists>r. epoch_rent_receipts s ix = Some r \<and> epoch_rent_receipts s' ix = None
            \<and> rent_log s' = rent_log s @
                [(EpochPda ix, er_creator r), (EpochRentReceiptPda ix, er_creator r)])"
proof -
  have none_open: "open_observers (observations s) ix = {}" and ix: "ep_epoch_index e = ix"
    if "epochs s ix = Some e" "ep_observations_closed e = ep_observations_submitted e" for e
  proof -
    have acc: "observations_accounted (observations s) ix e" and "ep_epoch_index e = ix"
      using lifecycle_epoch [OF ok that(1)] by (simp_all add: epoch_ok_def)
    then show "ep_epoch_index e = ix" by simp
    have "card (open_observers (observations s) ix) = 0"
      using acc that(2) by (simp add: observations_accounted_def)
    then show "open_observers (observations s) ix = {}"
      using finite_open [OF acc] by simp
  qed
  show ?thesis
    using run
  proof (cases rule: close_epoch_run)
    case (payer e)
    then show ?thesis using none_open [of e] by (simp add: close_epoch_account_def)
  next
    case (creator e r)
    then show ?thesis
      using none_open [of e] ix [of e] by (simp add: close_epoch_account_def close_receipt_account_def)
  qed
qed

text \<open>The two accounts that a closing transaction names for a receipted epoch.\<close>

definition closing_accounts :: "u64 \<Rightarrow> pubkey \<Rightarrow> any_account list" where
  "closing_accounts ix creator =
     [\<lparr>an_key = PdaAddress (EpochRentReceiptPda ix), an_is_writable = True\<rparr>,
      \<lparr>an_key = KeyAddress creator, an_is_writable = True\<rparr>]"

lemma close_epoch_with_receipt:
  assumes "epochs s ix = Some e" "ep_epoch_index e = ix" "ep_rewards_distributed e \<noteq> 0"
    and "ep_observations_closed e = ep_observations_submitted e"
    and "saturating_add ix 7 \<le> es_current_epoch_index (epoch_settings_acc s)"
    and "ep_has_rent_receipt e \<noteq> 0"
    and "epoch_rent_receipts s ix = Some r" "er_bump r = pda_bump env (EpochRentReceiptPda ix)"
  shows "close_epoch env (closing_accounts ix (er_creator r)) ix payer s =
     Inr (close_receipt_account ix (er_creator r) (close_epoch_account ix (er_creator r) s))"
  using assms by (simp add: close_epoch_def closing_accounts_def epoch_receipt_def pda_exists_def)

lemma close_epoch_without_receipt:
  assumes "epochs s ix = Some e" "ep_epoch_index e = ix" "ep_rewards_distributed e \<noteq> 0"
    and "ep_observations_closed e = ep_observations_submitted e"
    and "saturating_add ix 7 \<le> es_current_epoch_index (epoch_settings_acc s)"
    and "ep_has_rent_receipt e = 0"
  shows "close_epoch env remaining ix payer s = Inr (close_epoch_account ix payer s)"
  using assms by (simp add: close_epoch_def)

text \<open>
  C19: closing an epoch strands nothing (audit M8) and pays its rent where ADR-0029 says: no
  observation of the epoch is left open, and whoever signs, the rent of the epoch and of its
  receipt go to the recorded creator; to the signer only when creation recorded none.
\<close>

theorem closing_an_epoch_strands_nothing:
  assumes "lifecycle_ok bump t s" and "close_epoch env remaining ix payer s = Inr s'"
  shows "\<exists>e. epochs s ix = Some e \<and> epochs s' ix = None \<and> open_observers (observations s') ix = {}
    \<and> (if ep_has_rent_receipt e = 0 then rent_log s' = rent_log s @ [(EpochPda ix, payer)]
       else \<exists>r. epoch_rent_receipts s ix = Some r \<and> epoch_rent_receipts s' ix = None
            \<and> rent_log s' = rent_log s @
                [(EpochPda ix, er_creator r), (EpochRentReceiptPda ix, er_creator r)])"
  by (rule closing_facts [OF assms])

definition demo_reported :: gar_state where
  "demo_reported = demo_aged\<lparr>observations := Map.empty,
     epochs := [0 \<mapsto> demo_done\<lparr>ep_observations_closed := 1\<rparr>],
     rent_log := [(ObservationPda 0 12, 12)]\<rparr>"

lemma demo_close_observation: "close_observation 0 12 12 demo_aged = Inr demo_reported"
  by (simp add: close_observation_def demo_aged_def demo_report_def demo_epoch_defs saturating_add_def
      demo_reported_def demo_joined_def demo_state_def)

lemma demo_close_runs:
  "close_epoch (demo_env 700000) (closing_accounts 0 30) 0 77 demo_reported =
     Inr (close_receipt_account 0 30 (close_epoch_account 0 30 demo_reported))"
  using close_epoch_with_receipt [of demo_reported 0 "demo_done\<lparr>ep_observations_closed := 1\<rparr>"
      demo_receipt "demo_env 700000" 77]
  by (simp add: demo_reported_def demo_aged_def demo_epoch_defs demo_receipt_def saturating_add_def)

theorem closing_an_epoch_strands_nothing_witness:
  "open_observers (observations (close_receipt_account 0 30 (close_epoch_account 0 30 demo_reported))) 0 = {}"
  using closing_an_epoch_strands_nothing
    [OF close_observation_keeps_lifecycle [OF demo_aged_lifecycle demo_close_observation] demo_close_runs]
  by blast

section \<open>Progress\<close>

text \<open>The transactions that close the given reports, each paying its recorded observer.\<close>

definition report_closings :: "gar_env \<Rightarrow> u64 \<Rightarrow> (pubkey \<times> pubkey) list \<Rightarrow> (gar_env \<times> gar_op) list" where
  "report_closings env ix reports =
     map (\<lambda>(ob, dest). (env, EpochOp (CloseObservationOp ix ob dest))) reports"

lemma close_observation_ready:
  assumes ok: "lifecycle_ok bump t s" and e: "epochs s ix = Some e" "ep_rewards_distributed e \<noteq> 0"
    and ob: "observations s (ix, ob) = Some o'"
  shows "close_observation ix ob (ob_observer o') s = Inr (s\<lparr>
     epochs := (epochs s)(ix \<mapsto>
       e\<lparr>ep_observations_closed := saturating_add (ep_observations_closed e) 1\<rparr>),
     observations := (observations s)((ix, ob) := None),
     rent_log := rent_log s @ [(ObservationPda ix ob, ob_observer o')]\<rparr>)"
proof -
  have "ob_epoch_index o' = ix"
    using lifecycle_epoch [OF ok e(1)] ob by (simp add: epoch_ok_def observations_accounted_def)
  then show ?thesis using e ob by (simp add: close_observation_def)
qed

lemma all_reports_closable:
  assumes "lifecycle_ok (pda_bump env) t s" and "epochs s ix = Some e" and "ep_rewards_distributed e \<noteq> 0"
    and "saturating_add ix 7 \<le> es_current_epoch_index (epoch_settings_acc s)"
  shows "\<exists>reports remaining s'.
     close_epoch env remaining ix payer (gar_exec (report_closings env ix reports) s) = Inr s'"
  using assms
proof (induction "card (open_observers (observations s) ix)" arbitrary: s e)
  case 0
  have eok: "ep_epoch_index e = ix" "observations_accounted (observations s) ix e"
      "receipt_there (pda_bump env) (epoch_rent_receipts s) ix e"
    using lifecycle_epoch [OF 0(2,3)] by (simp_all add: epoch_ok_def)
  have closed: "ep_observations_closed e = ep_observations_submitted e"
    using eok(2) 0(1) by (simp add: observations_accounted_def word_unat_eq_iff)
  show ?case
  proof (cases "ep_has_rent_receipt e = 0")
    case True
    have "close_epoch env [] ix payer (gar_exec (report_closings env ix []) s)
        = Inr (close_epoch_account ix payer s)"
      using close_epoch_without_receipt [OF 0(3) eok(1) 0(4) closed 0(5) True]
      by (simp add: report_closings_def)
    then show ?thesis by blast
  next
    case False
    with eok(3) obtain r where r: "epoch_rent_receipts s ix = Some r"
      "er_bump r = pda_bump env (EpochRentReceiptPda ix)"
      by (auto simp: receipt_there_def)
    have "close_epoch env (closing_accounts ix (er_creator r)) ix payer
          (gar_exec (report_closings env ix []) s)
        = Inr (close_receipt_account ix (er_creator r) (close_epoch_account ix (er_creator r) s))"
      using close_epoch_with_receipt [OF 0(3) eok(1) 0(4) closed 0(5) False r]
      by (simp add: report_closings_def)
    then show ?thesis by blast
  qed
next
  case (Suc n)
  have "open_observers (observations s) ix \<noteq> {}" using Suc(2) by auto
  then obtain ob o' where ob: "observations s (ix, ob) = Some o'" by (auto simp: open_observers_def)
  define s1 where "s1 = s\<lparr>epochs := (epochs s)(ix \<mapsto>
       e\<lparr>ep_observations_closed := saturating_add (ep_observations_closed e) 1\<rparr>),
     observations := (observations s)((ix, ob) := None),
     rent_log := rent_log s @ [(ObservationPda ix ob, ob_observer o')]\<rparr>"
  have run: "close_observation ix ob (ob_observer o') s = Inr s1"
    unfolding s1_def by (rule close_observation_ready [OF Suc(3,4,5) ob])
  have acc: "observations_accounted (observations s) ix e"
    using lifecycle_epoch [OF Suc(3,4)] by (simp add: epoch_ok_def)
  have "n = card (open_observers (observations s1) ix)"
    using Suc(2) ob finite_open [OF acc] by (simp add: s1_def open_observers_def [of _ ix, symmetric] card_Diff_singleton)
      (simp add: open_observers_def)
  then have "\<exists>reports remaining s'.
     close_epoch env remaining ix payer (gar_exec (report_closings env ix reports) s1) = Inr s'"
    by (rule Suc(1) [of s1 "e\<lparr>ep_observations_closed := saturating_add (ep_observations_closed e) 1\<rparr>"])
      (use Suc close_observation_keeps_lifecycle [OF Suc(3) run] in \<open>auto simp: s1_def\<close>)
  then obtain reports remaining s' where
    rest: "close_epoch env remaining ix payer (gar_exec (report_closings env ix reports) s1) = Inr s'"
    by blast
  have "gar_exec (report_closings env ix ((ob, ob_observer o') # reports)) s
      = gar_exec (report_closings env ix reports) s1"
    by (simp add: report_closings_def gar_step_def epoch_step_def run)
  with rest show ?case by metis
qed

text \<open>
  C18: the end of an epoch can always be reached. In every reachable state anyone, whatever the
  observers do, can close a distributed epoch past its retention, after closing the reports that
  are still open: no wedge of the counters, the receipt or the accounts can block it.
\<close>

theorem distributed_epoch_can_always_be_closed:
  assumes "lifecycle_ok (pda_bump env) t s" and "epochs s ix = Some e" and "ep_rewards_distributed e \<noteq> 0"
    and "saturating_add ix 7 \<le> es_current_epoch_index (epoch_settings_acc s)"
  shows "\<exists>reports remaining s'.
     close_epoch env remaining ix payer (gar_exec (report_closings env ix reports) s) = Inr s'"
  by (rule all_reports_closable [OF assms])

theorem distributed_epoch_can_always_be_closed_witness:
  "\<exists>reports remaining s'. close_epoch (demo_env 90000) remaining 0 77
     (gar_exec (report_closings (demo_env 90000) 0 reports) demo_aged) = Inr s'"
  by (rule distributed_epoch_can_always_be_closed [where t = 90000 and e = demo_done])
    (simp_all add: demo_aged_lifecycle, simp_all add: demo_aged_def demo_epoch_defs saturating_add_def)

section \<open>The tally\<close>

text \<open>
  C38: what a batch of \<open>tally_weights\<close> adds to the total. From any state, a batch moves the cursor
  forward, adds to the epoch's 128-bit total exactly the weights it caches in the slots it passes,
  saturating at the largest \<open>u128\<close>, and leaves every other slot as it was; the epoch is marked tallied
  exactly when the cursor has passed all its gateways. If the epoch had not been tallied at all, no
  addition saturates and the total is the sum of the weights of all the slots behind the cursor. It
  need not stay that sum: a gateway that leaves or is pruned between two batches has its slot zeroed,
  and the total keeps what was added for it.
\<close>

theorem tally_adds_exactly_the_weights_it_caches:
  assumes "tally_weights remaining ix s = Inr s'" and "epochs s ix = Some e"
  shows "\<exists>e'. epochs s' ix = Some e' \<and> ep_tally_index e \<le> ep_tally_index e'
    \<and> uint (total_composite_weight e') = min (2 ^ 128 - 1) (uint (total_composite_weight e)
        + (\<Sum>i = unat (ep_tally_index e)..<unat (ep_tally_index e').
             uint (slot_composite_weight (reg_gateways (registry s') i))))
    \<and> (\<forall>i. i < unat (ep_tally_index e) \<or> unat (ep_tally_index e') \<le> i
           \<longrightarrow> reg_gateways (registry s') i = reg_gateways (registry s) i)
    \<and> (ep_weights_tallied e' = 1 \<longleftrightarrow> ep_active_gateway_count e' \<le> ep_tally_index e')
    \<and> (ep_tally_index e = 0 \<and> total_composite_weight e = 0 \<longrightarrow>
         uint (total_composite_weight e') = slot_weight_sum (registry s') (unat (ep_tally_index e')))"
proof (rule tally_weights_run [OF assms(1)], goal_cases)
  case (1 e0 s1 e1)
  let ?e' = "if ep_tally_index e1 \<ge> ep_active_gateway_count e1 then e1\<lparr>ep_weights_tallied := 1\<rparr> else e1"
  have e: "e0 = e" using 1(1) assms(2) by simp
  have same: "ep_tally_index ?e' = ep_tally_index e1" "total_composite_weight ?e' = total_composite_weight e1"
    by simp_all
  have added: "tally_added (s, e) (s1, e1)" using tally_steps_added [OF 1(5)] e by simp
  have "ep_weights_tallied e1 = 0" using 1(2) tally_steps_tallied [OF 1(5)] e by simp
  then have flag: "ep_weights_tallied ?e' = 1 \<longleftrightarrow> ep_active_gateway_count ?e' \<le> ep_tally_index e1" by simp
  have "epochs s' ix = Some ?e'" "registry s' = registry s1" by (simp_all add: 1(6))
  then show ?case
    using added tally_added_fresh [OF added] flag
    by (intro exI [of _ ?e'], unfold same)
       (simp add: tally_added_def Let_def cached_weights_def word_le_nat_alt del: if_split)
qed

theorem tally_adds_exactly_the_weights_it_caches_witness:
  "\<exists>e'. epochs demo_tallied 0 = Some e'
    \<and> uint (total_composite_weight e') = slot_weight_sum (registry demo_tallied) (unat (ep_tally_index e'))
    \<and> (ep_weights_tallied e' = 1 \<longleftrightarrow> ep_active_gateway_count e' \<le> ep_tally_index e')"
proof -
  have e: "epochs demo_late 0 = Some demo_late_epoch" by simp
  have zero: "ep_tally_index demo_late_epoch = 0" "total_composite_weight demo_late_epoch = 0"
    by (simp_all add: total_composite_weight_def)
  show ?thesis
    using tally_adds_exactly_the_weights_it_caches [OF demo_tally_runs e] zero by blast
qed

section \<open>The roulette\<close>

text \<open>
  C14: the roulette over prefix sums with binary search selects exactly the slots, in the same
  order, that the original linear walk over the weights selects, for every hash function, hash
  chain and observer count; in particular it always returns.
\<close>

theorem roulette_equals_linear_walk:
  assumes "prefix_sums 0 ws = Inr ps"
  shows "roulette_select_indices sha hashchain ps n = Inr (walk_select sha hashchain ws n)"
  by (rule roulette_is_walk [OF assms])

theorem roulette_equals_linear_walk_witness:
  "roulette_select_indices demo_sha (replicate 32 7) [3, 3, 10] 2
     = Inr (walk_select demo_sha (replicate 32 7) [3, 0, 7] 2)"
  by (rule roulette_equals_linear_walk) (simp add: checked_add_def)

text \<open>
  C21: what \<open>prescribe_epoch\<close> prescribes depends only on the epoch's hash chain and the live
  weights, not on who cranks it or with which accounts: at most \<open>prescribed_observer_count\<close> (and
  50) distinct slots of positive weight, each with its gateway's own observer address, and at
  least one when any gateway has weight.
\<close>

theorem prescribed_observers_are_the_weighted_draw:
  assumes "prescribe_epoch sha remaining ix s = Inr s'" and "epochs s ix = Some e"
    and "epochs s' ix = Some e'" and "sel = selected_slots sha s e"
    and "weights = slot_weights (registry s) (unat (ep_active_gateway_count e))"
  shows "unat (ep_observer_count e') = length sel \<and> length sel \<le> 50 \<and> distinct sel
    \<and> length sel \<le> unat (es_prescribed_observer_count (epoch_settings_acc s))
    \<and> (\<forall>j < length sel. weights ! (sel ! j) > 0
         \<and> ep_prescribed_observer_gateways e' j = slot_address (reg_gateways (registry s) (sel ! j))
         \<and> (\<exists>g. gateways s (ep_prescribed_observer_gateways e' j) = Some g
              \<and> ep_prescribed_observers e' j = gw_observer_address g))
    \<and> (es_prescribed_observer_count (epoch_settings_acc s) > 0 \<and> (\<exists>w \<in> set weights. w > 0)
         \<longrightarrow> sel \<noteq> [])"
proof -
  note facts = prescribed_observers_facts [OF assms(1-3), folded assms(4,5)]
  have ok: "selection_ok weights (unat (es_prescribed_observer_count (epoch_settings_acc s))) sel"
    by (rule facts(4))
  have len: "length weights = unat (ep_active_gateway_count e)" by (simp add: assms(5))
  have "sel \<noteq> []" if "es_prescribed_observer_count (epoch_settings_acc s) > 0" "w \<in> set weights" "w > 0" for w
  proof -
    from that(2,3) obtain i where i: "i < length weights" "weights ! i > 0" by (auto simp: in_set_conv_nth)
    then have "cumulative weights (length weights) > 0" using cumulative_positive by blast
    moreover have "0 < unat (ep_active_gateway_count e)" using i(1) len by simp
    ultimately show ?thesis
      unfolding assms(4) selected_slots_def assms(5) [symmetric]
      by (intro walk_select_nonempty) (use that(1) in \<open>simp_all add: unat_gt_0 word_neq_0_conv\<close>)
  qed
  moreover have "weights ! (sel ! j) > 0
         \<and> ep_prescribed_observer_gateways e' j = slot_address (reg_gateways (registry s) (sel ! j))
         \<and> (\<exists>g. gateways s (ep_prescribed_observer_gateways e' j) = Some g
              \<and> ep_prescribed_observers e' j = gw_observer_address g)" if "j < length sel" for j
    using facts(3) [OF that] ok nth_mem [OF that] unfolding selection_ok_def by blast
  ultimately show ?thesis
    using facts(1,2) ok unfolding selection_ok_def by blast
qed

theorem prescribed_observers_are_the_weighted_draw_witness:
  "\<exists>sel. selected_slots demo_sha demo_tallied demo_tallied_epoch = sel \<and> sel \<noteq> [] \<and> distinct sel"
  using prescribed_observers_are_the_weighted_draw [OF demo_prescribe_runs, of demo_tallied_epoch]
  by (simp add: demo_prescribed_def demo_prescribed_epoch_def)

text \<open>
  C20: the unit rewards that \<open>prescribe_epoch\<close> sets never promise more than the epoch's eligible
  rewards: every rewarded gateway once plus every observer once costs at most
  \<open>total_eligible_rewards\<close>, as long as the two ratios share out the whole, which they do after
  every history from a new settings account (\<open>ratios_after_any_history\<close> in \<open>Gar_Settings\<close>).
\<close>

theorem unit_rewards_stay_within_the_eligible_total:
  assumes "prescribe_epoch sha remaining ix s = Inr s'" and "epochs s ix = Some e"
    and "epochs s' ix = Some e'" and "ratios_exact (epoch_settings_acc s)"
    and "n = unat (ep_active_gateway_count e)"
  shows "int (length (filter (\<lambda>w. w > 0) (slot_weights (registry s) n))) * uint (ep_per_gateway_reward e')
      + uint (ep_observer_count e') * uint (ep_per_observer_reward e')
    \<le> uint (ep_total_eligible_rewards e')"
proof -
  let ?es = "epoch_settings_acc s"
  note facts = prescribed_observers_facts [OF assms(1-3)]
  define sel where "sel = selected_slots sha s e"
  define live where "live = length (filter (\<lambda>w. w > 0) (slot_weights (registry s) n))"
  define joined where "joined = joined_count (registry s) n"
  have "n \<le> MAX_GATEWAYS"
    using assms(2,5) by (auto intro: prescribe_epoch_run [OF assms(1)])
  then have joined: "uint joined = int live"
    unfolding joined_def live_def by (rule joined_count_exact)
  have sel_live: "length sel \<le> live"
    using selected_le_joined [OF facts(4)] by (simp add: sel_def live_def assms(5))
  have obs: "uint (ep_observer_count e') = int (length sel)"
    using facts(1) by (simp add: sel_def uint_nat)
  have e': "e' = set_unit_rewards ?es joined (length sel) e' \<lparr>ep_prescriptions_done := 1\<rparr>"
    using facts(5) by (simp add: sel_def joined_def assms(5))
  define T where "T = ep_total_eligible_rewards e'"
  have small: "es_gateway_reward_ratio ?es \<le> RATE_SCALE" "es_observer_reward_ratio ?es \<le> RATE_SCALE"
    using assms(4) uint_bounds64(1) [of "es_gateway_reward_ratio ?es"]
      uint_bounds64(1) [of "es_observer_reward_ratio ?es"]
    unfolding ratios_exact_def word_le_def by linarith+
  let ?G = "uint T * uint (es_gateway_reward_ratio ?es) div 1000000"
  let ?O = "uint T * uint (es_observer_reward_ratio ?es) div 1000000"
  have whole: "?G + ?O \<le> uint T"
  proof -
    have "?G + ?O \<le> (uint T * uint (es_gateway_reward_ratio ?es)
        + uint T * uint (es_observer_reward_ratio ?es)) div 1000000"
      by (rule sum_div_le) simp
    also have "\<dots> = uint T"
      using assms(4) by (simp add: ratios_exact_def flip: distrib_left)
    finally show ?thesis .
  qed
  show ?thesis
  proof (cases "joined > 0")
    case False
    then have "live = 0" using joined by (simp add: word_neq_0_conv [symmetric])
    with sel_live obs show ?thesis by (simp flip: live_def)
  next
    case True
    have pg: "ep_per_gateway_reward e' = per_unit_reward T (es_gateway_reward_ratio ?es) joined"
      by (subst e') (use True in \<open>simp add: set_unit_rewards_def Let_def T_def\<close>)
    have g: "int live * uint (ep_per_gateway_reward e') \<le> ?G"
      unfolding pg by (rule unit_total [OF small(1)]) (simp add: joined)
    have o': "int (length sel) * uint (ep_per_observer_reward e') \<le> ?O"
    proof (cases "sel = []")
      case False
      have po: "ep_per_observer_reward e'
          = per_unit_reward T (es_observer_reward_ratio ?es) (of_nat (length sel))"
        by (subst e') (use True False in \<open>simp add: set_unit_rewards_def Let_def T_def\<close>)
      have "length sel \<le> 50" using facts(2) by (simp add: sel_def)
      then have "uint (of_nat (length sel) :: u64) = int (length sel)"
        by (simp add: uint_nat unsigned_of_nat take_bit_nat_eq_self)
      then show ?thesis unfolding po by (intro unit_total [OF small(2)]) simp
    qed (simp add: zero_le_div_iff_int uint_bounds64)
    from g o' whole show ?thesis by (simp add: obs T_def flip: live_def)
  qed
qed

theorem unit_rewards_stay_within_the_eligible_total_witness:
  "\<exists>e'. epochs demo_prescribed 0 = Some e'
    \<and> 1 * uint (ep_per_gateway_reward e') + uint (ep_observer_count e') * uint (ep_per_observer_reward e')
      \<le> uint (ep_total_eligible_rewards e')"
  using unit_rewards_stay_within_the_eligible_total [OF demo_prescribe_runs, of demo_tallied_epoch]
  by (simp add: demo_prescribed_def demo_prescribed_epoch_def ratios_exact_def RATE_SCALE_def)

section \<open>Reports\<close>

lemma drop_one_iff: "and (drop_bit k w) 1 = 1 \<longleftrightarrow> bit w k" for w :: u8
  by (simp add: and_one_eq bit_iff_odd_drop_bit odd_iff_mod_2_eq_one)

lemma is_observed_iff: "is_observed e j \<longleftrightarrow> j < 50 \<and> bit (ep_has_observed e (j div 8)) (j mod 8)"
  by (simp add: is_observed_def drop_one_iff)

text \<open>
  The bitmap of submitted observers is a faithful set. Marking observer \<open>i\<close> is read back for
  \<open>i\<close> and changes the answer for no other observer, for all fifty positions; positions outside
  the bitmap are never marked.
\<close>

theorem observed_bits_round_trip:
  "is_observed (set_observed e i) j \<longleftrightarrow> (if i < 50 \<and> j = i then True else is_observed e j)"
proof -
  have eq: "i div 8 = j div 8 \<Longrightarrow> i mod 8 = j mod 8 \<Longrightarrow> j = i"
    by (metis div_mult_mod_eq)
  have "bit (push_bit (i mod 8) (1 :: u8)) (j mod 8) \<longleftrightarrow> j mod 8 = i mod 8"
    by (auto simp: bit_simps)
  then have "bit (or w (push_bit (i mod 8) (1 :: u8))) (j mod 8) \<longleftrightarrow> bit w (j mod 8) \<or> j mod 8 = i mod 8" for w
    by (simp add: bit_or_iff)
  then show ?thesis
    using eq by (auto simp: is_observed_iff set_observed_def)
qed

text \<open>
  The running failure tally is the count. The loop of \<open>save_observations\<close> adds exactly one
  failure, without wrapping, to each of the first \<open>n\<close> gateways whose bit in the report is zero, and
  touches no other gateway's count.
\<close>

theorem failure_counts_are_per_gateway:
  "count_failures results n counts i =
     (if i < n \<and> i < 3000 \<and> \<not> passed_bit results i then saturating_add (counts i) 1 else counts i)"
proof -
  have byte: "i div 8 < 375 \<longleftrightarrow> i < 3000" by auto
  have "fold (count_failure results) [0 ..< n] counts i =
     (if i < n \<and> i div 8 < 375 \<and> \<not> passed_bit results i then saturating_add (counts i) 1 else counts i)"
    by (induction n) (auto simp: count_failure_def less_Suc_eq)
  then show ?thesis unfolding count_failures_def byte .
qed

section \<open>Rewards\<close>

text \<open>
  C37: a treasury that cannot pay a batch in full pays it pro rata. Each collected gateway's reward
  is its full reward times transfer over batch total, rounded down; the rewards of the batch
  together never exceed the transfer, and when the treasury covers the batch everyone gets the
  full reward.
\<close>

theorem short_treasury_scales_rewards_pro_rata:
  assumes "collect_pending s e remaining i 0 [] = Inr (j, batch_total, pending)"
    and "slots_distinct (registry s)" and "shares_bounded (gateways s)"
    and "transfer = min batch_total (ta_amount protocol)"
  shows "(\<forall>p \<in> set pending. uint (scaled_reward batch_total transfer p)
            = uint (pd_full_reward p) * uint transfer div uint batch_total)
    \<and> scaled_total batch_total transfer pending \<le> uint transfer
    \<and> (batch_total \<le> ta_amount protocol
        \<longrightarrow> (\<forall>p \<in> set pending. scaled_reward batch_total transfer p = pd_full_reward p))"
proof -
  have "pass1_ok s j batch_total pending"
    by (rule collect_pending_pass1_ok [OF assms(1) _ assms(2,3)]) (simp add: pass1_ok_def buffer_ok_def)
  then have total: "uint batch_total = full_total pending" by (simp add: pass1_ok_def)
  have le: "transfer \<le> batch_total" by (simp add: assms(4))
  have part: "pd_full_reward p \<le> batch_total" if "p \<in> set pending" for p
    using full_le_total [OF that] total by (simp add: word_le_def)
  have scaled: "uint (scaled_reward batch_total transfer p)
      = uint (pd_full_reward p) * uint transfer div uint batch_total" if "p \<in> set pending" for p
    by (rule uint_scaled_reward [OF part [OF that] le])
  have "scaled_reward batch_total transfer p = pd_full_reward p"
    if "batch_total \<le> ta_amount protocol" "p \<in> set pending" for p
  proof (cases "batch_total = 0")
    case True
    then have "pd_full_reward p = 0" using part [OF that(2)] by simp
    then show ?thesis by (simp add: scaled_reward_def)
  next
    case False
    have "transfer = batch_total" using that(1) by (simp add: assms(4))
    moreover have "uint batch_total \<noteq> 0" using False by (simp add: word_uint_eq_iff)
    ultimately have "uint (scaled_reward batch_total transfer p) = uint (pd_full_reward p)"
      using scaled [OF that(2)] by simp
    then show ?thesis by (simp only: word_uint_eq_iff)
  qed
  with scaled scaled_total_le [OF total le] show ?thesis by blast
qed

theorem short_treasury_scales_rewards_pro_rata_witness:
  "\<exists>p. scaled_reward 675000000 900 p = 900 \<and> pd_full_reward p = 675000000"
proof -
  obtain p where run: "collect_pending demo_prescribed demo_prescribed_epoch
      [\<lparr>ai_key = GatewayPda 10, ai_is_writable = True\<rparr>] 0 0 [] = Inr (1, 675000000, [p])"
    and full: "pd_full_reward p = 675000000"
    using demo_collects by blast
  have "slots_distinct (registry demo_prescribed)" "shares_bounded (gateways demo_prescribed)"
    by (auto simp: slots_distinct_def shares_bounded_def demo_prescribed_def demo_tallied_def
        cache_weight_def demo_late_def demo_created_def demo_joined_def demo_slot_def empty_slot_def
        demo_gateway_def split: if_splits)
  from short_treasury_scales_rewards_pro_rata [OF run this,
      of 900 "\<lparr>ta_owner = 8, ta_mint = 3, ta_amount = 900\<rparr>"] full
  show ?thesis by (auto simp: word_uint_eq_iff intro!: exI [of _ p])
qed

text \<open>
  Splitting a reward loses nothing: the operator's part and the delegates' part add up to the
  reward, and the delegates' part is the floor of the reward at the gateway's share, or nothing when
  no stake was delegated at the tally, whatever has happened to the delegations since.
\<close>

theorem reward_split_is_exact:
  assumes "split_scaled_reward reward ratio had_delegation_at_tally = (operator_part, delegates_part)"
    and "ratio \<le> 10000"
  shows "uint operator_part + uint delegates_part = uint reward
    \<and> uint delegates_part = (if had_delegation_at_tally then uint reward * uint ratio div 10000 else 0)"
  using split_scaled_reward_exact [OF assms] by simp

theorem reward_split_is_exact_witness:
  "split_scaled_reward 1001 9500 True = (51, 950) \<and> uint (51 :: u64) + uint (950 :: u64) = 1001"
proof -
  have "split_scaled_reward 1001 9500 True = (51, 950)"
    by (simp add: split_scaled_reward_def saturating_sub_def)
  from reward_split_is_exact [OF this] this show ?thesis by simp
qed

end
