(* ===== verification/Gar_Vaults.thy ===== *)
theory Gar_Vaults
  imports Gar_System
begin

text \<open>
  Who may change a withdrawal vault, and when: of all the instructions of the program only six
  touch an existing vault, each under its own condition, and every other one at most opens new vaults.
\<close>

section \<open>Vaults are kept\<close>

text \<open>Every vault that was there is there as it was; there may be new ones.\<close>

abbreviation vaults_kept :: "gar_state \<Rightarrow> gar_state \<Rightarrow> bool" where
  "vaults_kept s s' \<equiv> withdrawals s \<subseteq>\<^sub>m withdrawals s'"

lemma kept_same: "withdrawals s' = withdrawals s \<Longrightarrow> vaults_kept s s'"
  by simp

lemma token_transfer_kept: "token_transfer env src dst auth a s = Inr s' \<Longrightarrow> withdrawals s' = withdrawals s"
  by (drule token_transferD) simp

lemma open_withdrawal_kept: "open_withdrawal env u gw a at d e p s = Inr s' \<Longrightarrow> vaults_kept s s'"
  by (auto simp: open_withdrawal_def Let_def run_iff map_le_def)

lemma open_exit_vaults_kept:
  "open_exit_vaults env operator prot excess flag avail1 avail2 acc s = Inr s' \<Longrightarrow> vaults_kept s s'"
  unfolding open_exit_vaults_def Let_def run_iff
  by (auto simp: run_iff split: if_splits intro: map_le_trans dest!: open_withdrawal_kept)

lemma mark_slot_leaving_kept: "mark_slot_leaving g s = Inr s' \<Longrightarrow> withdrawals s' = withdrawals s"
  by (auto simp: mark_slot_leaving_def Let_def run_iff)

lemma close_observer_lookup_kept [simp]: "withdrawals (close_observer_lookup g remaining s) = withdrawals s"
  by (simp add: close_observer_lookup_def)

lemma vaults_keptD: "vaults_kept s s' \<Longrightarrow> withdrawals s k = Some w \<Longrightarrow> withdrawals s' k = Some w"
  by (metis domI map_le_def)

section \<open>Gateways\<close>

lemma leave_network_kept: "leave_network env remaining operator acc s = Inr s' \<Longrightarrow> vaults_kept s s'"
  unfolding leave_network_def Let_def run_iff
  by (elim exE conjE) (auto dest!: open_exit_vaults_kept mark_slot_leaving_kept)

lemma prune_gateway_kept:
  assumes run: "prune_gateway env remaining gw stake_ta protocol_ta acc s = Inr s'"
  shows "vaults_kept s s'"
proof (rule prune_gateway_run [OF run], goal_cases)
  case (1 g a1 a2 s1 s2 g1 s3 withdrawn)
  have "vaults_kept s s1" by (rule open_exit_vaults_kept [OF 1(7)])
  moreover have "withdrawals s2 = withdrawals s1" using 1(8) by (auto dest: token_transfer_kept split: if_splits)
  moreover have "withdrawals s3 = withdrawals s2" by (rule mark_slot_leaving_kept [OF 1(10)])
  ultimately show ?case using 1 by auto
qed

lemma join_network_kept: "join_network env operator ata stake_ta p s = Inr s' \<Longrightarrow> withdrawals s' = withdrawals s"
  unfolding join_network_def accounts_defs Let_def run_iff
  by (elim exE conjE) (drule token_transferD, clarsimp)

lemma finalize_gone_kept: "finalize_gone env remaining gw s = Inr s' \<Longrightarrow> withdrawals s' = withdrawals s"
  by (auto simp: finalize_gone_def swap_remove_slot_def Let_def run_iff split: if_splits)

lemma gateway_step_kept:
  assumes run: "gateway_step env op s = Inr s'"
  shows "vaults_kept s s'"
  using run
  by (cases op)
    (auto simp: gateway_step_def update_gateway_settings_def update_observer_address_def
      update_gateway_metadata_def update_operations_address_def run_iff
      dest: join_network_kept leave_network_kept prune_gateway_kept finalize_gone_kept)

section \<open>Delegated stake\<close>

lemma delegate_step_kept:
  assumes run: "delegate_step env op s = Inr s'"
  shows "vaults_kept s s'"
proof (cases op)
  case (RedelegateStakeOp remaining src tgt delegator ata stake_ta protocol_ta amount)
  then have "redelegate_stake env remaining src tgt delegator ata stake_ta protocol_ta amount s = Inr s'"
    using run by (simp add: delegate_step_def)
  then show ?thesis
    by (rule redelegate_stake_run) (auto dest!: token_transfer_kept split: if_splits)
qed (use run in \<open>auto simp: delegate_step_def delegate_stake_def decrease_delegate_stake_def
    close_empty_delegation_def claim_delegate_from_leaving_gateway_def
    claim_delegate_from_disabled_gateway_def claim_delegate_body_def compound_delegation_rewards_def
    allow_delegate_def disallow_delegate_def set_allowlist_enabled_def accounts_defs run_iff Let_def
    dest!: token_transfer_kept open_withdrawal_kept\<close>)

section \<open>The epoch lifecycle\<close>

lemma tally_steps_kept: "tally_step\<^sup>*\<^sup>* se se' \<Longrightarrow> withdrawals (fst se') = withdrawals (fst se)"
proof (induction rule: rtranclp_induct)
  case (step y z)
  from step.hyps(2) have "withdrawals (fst z) = withdrawals (fst y)" by cases simp_all
  with step.IH show ?case by simp
qed simp

lemma tally_weights_kept: "tally_weights remaining ix s = Inr s' \<Longrightarrow> withdrawals s' = withdrawals s"
  by (rule tally_weights_run) (auto dest: tally_steps_kept)

lemma distribute_batch_kept:
  assumes run: "distribute_batch env cfg remaining ix e protocol_ta stake_ta s = Inr s'"
  shows "withdrawals s' = withdrawals s"
proof -
  obtain transfer G s2 staked where
    "(if transfer > 0 then release_treasury_to_recipient env cfg protocol_ta stake_ta transfer (s\<lparr>gateways := G\<rparr>)
      else Inr (s\<lparr>gateways := G\<rparr>)) = Inr s2"
    and s': "\<exists>E. s' = s2\<lparr>epochs := E, settings := (settings s2)\<lparr>gs_total_staked := staked\<rparr>\<rparr>"
    using run unfolding distribute_batch_def Let_def run_iff prod3_iff by blast
  then have "withdrawals s2 = withdrawals s"
    by (auto simp: release_treasury_to_recipient_def run_iff dest!: token_transfer_kept split: if_splits)
  with s' show ?thesis by auto
qed

lemma distribute_epoch_kept:
  "distribute_epoch env cfg remaining ix protocol_ta stake_ta s = Inr s' \<Longrightarrow> withdrawals s' = withdrawals s"
  by (erule distribute_epoch_run) (auto dest: distribute_batch_kept)

lemma epoch_step_kept:
  assumes run: "epoch_step env op s = Inr s'"
  shows "withdrawals s' = withdrawals s"
proof (cases "ledger_op op")
  case False
  from epoch_step_lifecycle_only [OF run False] show ?thesis by (simp add: lifecycle_only_def)
next
  case True
  with run show ?thesis
    by (cases op) (auto simp: epoch_step_def ledger_op_def dest: tally_weights_kept distribute_epoch_kept)
qed

section \<open>Payments\<close>

text \<open>Whether a source of a funding plan may name a vault, of whom, among the accounts that are left.\<close>

definition plan_may_spend ::
  "pubkey \<Rightarrow> gar_pda list \<Rightarrow> funding_source_spec list \<Rightarrow> pubkey \<times> u64 \<Rightarrow> withdrawal \<Rightarrow> bool" where
  "plan_may_spend payer remaining sources k w \<longleftrightarrow> payer = wd_owner w
     \<and> WithdrawalPda (fst k) (snd k) \<in> set remaining \<and> FsWithdrawal \<in> fs_kind ` set sources"

lemma apply_source_kept:
  assumes run: "apply_source payer has_ata src a = Inr a'"
    and w: "withdrawals (pa_state a) k = Some w" and no: "\<not> plan_may_spend payer (pa_remaining a) [src] k w"
  shows "withdrawals (pa_state a') k = Some w \<and> set (pa_remaining a') \<subseteq> set (pa_remaining a)"
proof (cases "fs_kind src")
  case FsBalance
  with run w show ?thesis by (auto simp: apply_source_def apply_balance_source_def run_iff)
next
  case FsDelegation
  with run have d: "apply_delegation_source payer (fs_amount src) a = Inr a'" by (simp add: apply_source_def)
  have same: "pa_remaining b' = pa_remaining b" if "drain_delegation m post' g d b = Inr (g', d', b')" for m post' g d b g' d' b'
    using that by (auto simp: drain_delegation_def run_iff split: if_splits)
  from d show ?thesis
    unfolding apply_delegation_source_def next_account_iff plan_gateway_iff run_iff Let_def
    using w by (clarsimp simp: run_iff) (frule drain_delegation_shape, drule same, simp, blast)
next
  case FsOperatorStake
  with run w show ?thesis
    by (auto simp: apply_source_def apply_operator_source_def next_account_iff plan_gateway_iff run_iff)
next
  case FsWithdrawal
  with run w no show ?thesis
    by (cases k) (auto simp: apply_source_def apply_withdrawal_source_def next_account_iff withdrawal_case_iff
        run_iff plan_may_spend_def)
qed

lemma apply_sources_kept:
  assumes "apply_sources payer has_ata sources a = Inr a'" and "withdrawals (pa_state a) k = Some w"
    and "\<not> plan_may_spend payer (pa_remaining a) sources k w"
  shows "withdrawals (pa_state a') k = Some w"
  using assms
proof (induction sources arbitrary: a)
  case (Cons src sources)
  then obtain a1 where src: "apply_source payer has_ata src a = Inr a1"
    and rest: "apply_sources payer has_ata sources a1 = Inr a'" by (auto simp: run_iff)
  have "\<not> plan_may_spend payer (pa_remaining a) [src] k w" using Cons.prems(3) by (auto simp: plan_may_spend_def)
  from apply_source_kept [OF src Cons.prems(2) this]
  have kept: "withdrawals (pa_state a1) k = Some w" "set (pa_remaining a1) \<subseteq> set (pa_remaining a)" by simp_all
  then have "\<not> plan_may_spend payer (pa_remaining a1) sources k w"
    using Cons.prems(3) by (auto simp: plan_may_spend_def)
  from Cons.IH [OF rest kept(1) this] show ?case .
qed simp

lemma open_residue_vaults_kept:
  "open_residue_vaults env payer targets remaining s = Inr (rest, s') \<Longrightarrow> vaults_kept s s'"
proof (induction targets arbitrary: remaining s)
  case (Cons t targets)
  then obtain gw residue new more at s1 where
    op: "open_withdrawal env payer gw residue at True False False s = Inr s1"
    and rest: "open_residue_vaults env payer targets more s1 = Inr (rest, s')"
    by (cases t) (auto simp: run_iff Let_def split: list.splits)
  from map_le_trans [OF open_withdrawal_kept [OF op] Cons.IH [OF rest]] show ?case .
qed simp

lemma pay_from_funding_plan_kept:
  assumes run: "pay_from_funding_plan env remaining stake_ta protocol_ta payer_ata payer sources n r s = Inr s'"
    and w: "withdrawals s k = Some w" and no: "\<not> plan_may_spend payer remaining sources k w"
  shows "withdrawals s' k = Some w"
proof (rule pay_from_funding_plan_run [OF run], goal_cases)
  case (1 a s1 s2 rest s4 withdrawn)
  have "withdrawals (pa_state a) k = Some w"
    using apply_sources_kept [OF 1(5)] w no by (simp add: init_acc_def)
  moreover have "withdrawals s1 = withdrawals (pa_state a)"
    using 1(6) by (auto dest: token_transfer_kept split: if_splits)
  moreover have "withdrawals s2 = withdrawals s1"
    using 1(7) by (auto simp: run_iff dest: token_transfer_kept split: if_splits)
  moreover have "withdrawals s2 \<subseteq>\<^sub>m withdrawals s4"
    using open_residue_vaults_kept [OF 1(8)] by simp
  ultimately show ?case unfolding 1(1) by (auto dest: vaults_keptD)
qed

section \<open>Who may change a vault\<close>

text \<open>
  The instructions that may change an existing vault, each with its condition: a claim after the
  lock, an expedited withdrawal or a direct payment of a vault without protection, a cancellation,
  the closing of an empty vault, and a funding plan of the vault's owner that lists the vault among
  its accounts and has a source that spends vaults.
\<close>

definition vault_exit :: "gar_env \<Rightarrow> gar_op \<Rightarrow> pubkey \<times> u64 \<Rightarrow> withdrawal \<Rightarrow> bool" where
  "vault_exit env op k w \<longleftrightarrow> (case op of
     StakeOp (ClaimWithdrawalOp u i _ _) \<Rightarrow> k = (u, i) \<and> wd_available_at w \<le> now env
   | StakeOp (InstantWithdrawalOp u i _ _ _) \<Rightarrow> k = (u, i) \<and> \<not> wd_is_protected w
   | StakeOp (CancelWithdrawalOp u i _ _) \<Rightarrow> k = (u, i)
   | StakeOp (CloseDrainedWithdrawalOp u i) \<Rightarrow> k = (u, i) \<and> wd_amount w = 0
   | PaymentOp (DeductWithdrawalOp u i _ _ _) \<Rightarrow> k = (u, i) \<and> \<not> wd_is_protected w
   | PaymentOp (PayFromFundingPlanOp remaining _ _ _ payer sources _ _) \<Rightarrow> plan_may_spend payer remaining sources k w
   | _ \<Rightarrow> False)"

lemma stake_step_exit:
  assumes run: "stake_step env op s = Inr s'" and w: "withdrawals s k = Some w"
  shows "withdrawals s' k = Some w \<or> vault_exit env (StakeOp op) k w"
proof (cases op)
  case (CancelWithdrawalOp u i gw dp)
  with run have "cancel_withdrawal u i gw dp s = Inr s'" by (simp add: stake_step_def)
  then have "withdrawals s' = (withdrawals s)((u, i) := None)"
    unfolding cancel_withdrawal_def accounts_defs Let_def run_iff if_Inr_iff
    by (elim exE conjE disjE; clarsimp)
  with w show ?thesis by (auto simp: vault_exit_def CancelWithdrawalOp)
next
  case (InstantWithdrawalOp u i stake_ta ata protocol_ta)
  with run have "instant_withdrawal env u i stake_ta ata protocol_ta s = Inr s'" by (simp add: stake_step_def)
  then obtain v where "withdrawals s (u, i) = Some v" "\<not> wd_is_protected v"
      "withdrawals s' = (withdrawals s)((u, i) := None)"
    by (auto simp: instant_withdrawal_def accounts_defs run_iff Let_def dest!: token_transfer_kept)
  with w show ?thesis by (auto simp: vault_exit_def InstantWithdrawalOp)
qed (use run w in \<open>auto simp: stake_step_def vault_exit_def increase_operator_stake_def
    decrease_operator_stake_def claim_withdrawal_def close_drained_withdrawal_def accounts_defs
    run_iff Let_def dest!: token_transfer_kept open_withdrawal_kept dest: vaults_keptD split: if_splits\<close>)

lemma payment_step_exit:
  assumes run: "payment_step env op s = Inr s'" and w: "withdrawals s k = Some w"
  shows "withdrawals s' k = Some w \<or> vault_exit env (PaymentOp op) k w"
proof (cases op)
  case (PayFromFundingPlanOp remaining stake_ta protocol_ta payer_ata payer sources n r)
  with run have "pay_from_funding_plan env remaining stake_ta protocol_ta payer_ata payer sources n r s = Inr s'"
    by (simp add: payment_step_def)
  from pay_from_funding_plan_kept [OF this w] show ?thesis by (auto simp: vault_exit_def PayFromFundingPlanOp)
qed (use run w in \<open>auto simp: payment_step_def vault_exit_def deduct_delegation_for_payment_def
    deduct_operator_stake_for_payment_def deduct_withdrawal_for_payment_def accounts_defs run_iff Let_def
    dest!: token_transfer_kept split: if_splits\<close>)

lemma gar_step_exit:
  assumes run: "gar_step env op s = Inr s'" and w: "withdrawals s k = Some w"
  shows "withdrawals s' k = Some w \<or> vault_exit env op k w"
proof (cases op)
  case (GatewayOp o1)
  with run gateway_step_kept [of env o1 s s'] w show ?thesis by (auto simp: gar_step_def dest: vaults_keptD)
next
  case (DelegateOp o3)
  with run delegate_step_kept [of env o3 s s'] w show ?thesis by (auto simp: gar_step_def dest: vaults_keptD)
next
  case (StakeOp o2)
  with run stake_step_exit [OF _ w, of env o2 s'] show ?thesis by (simp add: gar_step_def)
next
  case (PaymentOp o4)
  with run payment_step_exit [OF _ w, of env o4 s'] show ?thesis by (simp add: gar_step_def)
next
  case (EpochOp o5)
  with run epoch_step_kept [of env o5 s s'] w show ?thesis by (simp add: gar_step_def)
qed (use run w in \<open>auto simp: gar_step_def admin_set_withdrawal_period_def transfer_authority_def
    transfer_epoch_settings_authority_def run_iff\<close>)

section \<open>Over histories\<close>

interpretation vault_lock: machine_invariant now "\<lambda>e op _. \<not> vault_exit e op k w" gar_step
    "\<lambda>_ s. withdrawals s k = Some w" for k w
  by unfold_locales (auto dest: gar_step_exit)

lemma admissible_weaken:
  "admissible_trace clock adm step t txs s \<Longrightarrow> (\<And>e op. (e, op) \<in> set txs \<Longrightarrow> P e op) \<Longrightarrow>
     admissible_trace clock (\<lambda>e op _. P e op) step t txs s"
  by (induction clock adm step t txs s rule: admissible_trace.induct) simp_all

lemma clock_within:
  "admissible_trace clock adm step t txs s \<Longrightarrow>
     t \<le> end_time clock t txs \<and> (\<forall>(e, op) \<in> set txs. clock e \<le> end_time clock t txs)"
  by (induction clock adm step t txs s rule: admissible_trace.induct) fastforce+

text \<open>What can still take a protected vault before its time: its cancellation, and a funding plan.\<close>

definition early_exit :: "gar_op \<Rightarrow> pubkey \<times> u64 \<Rightarrow> withdrawal \<Rightarrow> bool" where
  "early_exit op k w \<longleftrightarrow> (case op of
     StakeOp (CancelWithdrawalOp u i _ _) \<Rightarrow> k = (u, i)
   | PaymentOp (PayFromFundingPlanOp remaining _ _ _ payer sources _ _) \<Rightarrow> plan_may_spend payer remaining sources k w
   | _ \<Rightarrow> False)"

lemma vault_exit_protected:
  "vault_exit env op k w \<Longrightarrow> wd_is_protected w \<Longrightarrow> wd_amount w > 0 \<Longrightarrow> now env < wd_available_at w \<Longrightarrow>
     early_exit op k w"
  by (auto simp: vault_exit_def early_exit_def split: gar_op.splits stake_op.splits payment_op.splits)

end
