(* ===== verification/Gar_Settings.thy ===== *)
theory Gar_Settings
  imports Gar_System
begin

text \<open>
  What becomes of the epoch settings over a history of the program: the \<open>enabled\<close> flag, once set,
  stays set, and the two reward ratios always share out the whole, as \<open>initialize_epochs\<close> makes them.
\<close>

section \<open>Who writes the epoch settings\<close>

text \<open>What each instruction does to the epoch settings, beyond the levers.\<close>

lemma epoch_instructions_keep_settings:
  "admin_close_stale_epoch env authority ix s = Inr s' \<Longrightarrow> epoch_settings_acc s' = epoch_settings_acc s"
  "admin_close_orphaned_epoch_rent_receipt authority ix c s = Inr s' \<Longrightarrow> epoch_settings_acc s' = epoch_settings_acc s"
  "prescribe_epoch sha remaining ix s = Inr s' \<Longrightarrow> epoch_settings_acc s' = epoch_settings_acc s"
  "save_observations env ix results n tx ob s = Inr s' \<Longrightarrow> epoch_settings_acc s' = epoch_settings_acc s"
  "close_observation ix ob dest s = Inr s' \<Longrightarrow> epoch_settings_acc s' = epoch_settings_acc s"
  "close_epoch env accounts ix payer s = Inr s' \<Longrightarrow> epoch_settings_acc s' = epoch_settings_acc s"
  "tally_weights infos ix s = Inr s' \<Longrightarrow> epoch_settings_acc s' = epoch_settings_acc s"
proof -
  show "admin_close_stale_epoch env authority ix s = Inr s' \<Longrightarrow> epoch_settings_acc s' = epoch_settings_acc s"
    by (auto simp: admin_close_stale_epoch_def run_iff close_epoch_account_def)
  show "admin_close_orphaned_epoch_rent_receipt authority ix c s = Inr s' \<Longrightarrow> epoch_settings_acc s' = epoch_settings_acc s"
    by (auto simp: admin_close_orphaned_epoch_rent_receipt_def run_iff close_receipt_account_def)
  show "close_observation ix ob dest s = Inr s' \<Longrightarrow> epoch_settings_acc s' = epoch_settings_acc s"
    by (auto simp: close_observation_def run_iff)
  show "epoch_settings_acc s' = epoch_settings_acc s" if "prescribe_epoch sha remaining ix s = Inr s'"
    by (rule prescribe_epoch_run [OF that]) simp
  show "epoch_settings_acc s' = epoch_settings_acc s" if "save_observations env ix results n tx ob s = Inr s'"
    by (rule save_observations_run [OF that]) simp
  show "epoch_settings_acc s' = epoch_settings_acc s" if "close_epoch env accounts ix payer s = Inr s'"
    by (rule close_epoch_run [OF that]) (simp_all add: close_epoch_account_def close_receipt_account_def)
  show "epoch_settings_acc s' = epoch_settings_acc s" if "tally_weights infos ix s = Inr s'"
    by (rule tally_weights_run [OF that]) (drule tally_steps_keep, simp add: tally_keeps_def)
qed

section \<open>The flag\<close>

lemma create_epoch_settings:
  assumes "create_epoch env sha slot remaining ta payer s = Inr s'"
  shows "es_enabled (epoch_settings_acc s') = es_enabled (epoch_settings_acc s)"
proof (rule create_epoch_run [OF assms], goal_cases)
  case (1 start finish rate protocol receipt s2 nxt)
  then show ?case by (simp only:) simp
qed

lemma epoch_step_stays_enabled:
  assumes run: "epoch_step env op s = Inr s'" and on: "es_enabled (epoch_settings_acc s)"
  shows "es_enabled (epoch_settings_acc s')"
proof (cases op)
  case (DistributeEpochOp cfg remaining ix ta st)
  then have "distribute_epoch env cfg remaining ix ta st s = Inr s'" using run by (simp add: epoch_step_def)
  then show ?thesis by (rule distribute_epoch_epochs) (use on in simp)
qed (use run on in \<open>auto simp: epoch_step_def epoch_levers UpdateEpochSettings_iff run_iff split: if_splits
       dest: epoch_instructions_keep_settings create_epoch_settings\<close>)

lemma gateway_step_epoch_settings:
  "gateway_step env op s = Inr s' \<Longrightarrow> epoch_settings_acc s' = epoch_settings_acc s"
  by (cases op) (auto simp: gateway_step_def same_table_def frame_def
      dest!: join_network_lifecycle finalize_gone_lifecycle update_gateway_settings_lifecycle
        leave_network_same_table prune_gateway_same_table update_observer_address_frame
        update_gateway_metadata_frame update_operations_address_frame)

lemma gar_step_stays_enabled:
  assumes run: "gar_step env op s = Inr s'" and on: "es_enabled (epoch_settings_acc s)"
  shows "es_enabled (epoch_settings_acc s')"
proof (cases op)
  case (EpochOp o5)
  then show ?thesis using run epoch_step_stays_enabled [OF _ on] by (simp add: gar_step_def)
next
  case (GatewayOp o1)
  then show ?thesis using run on gateway_step_epoch_settings by (simp add: gar_step_def)
next
  case (StakeOp o2)
  then show ?thesis using run on stake_step_frame by (auto simp: gar_step_def frame_def)
next
  case (DelegateOp o3)
  then show ?thesis using run on delegate_step_frame by (auto simp: gar_step_def frame_def)
next
  case (PaymentOp o4)
  then show ?thesis using run on payment_step_frame by (auto simp: gar_step_def frame_def)
qed (use run on in \<open>auto simp: gar_step_def admin_set_withdrawal_period_def transfer_authority_def
       transfer_epoch_settings_authority_def run_iff\<close>)

lemma enabled_exec:
  "es_enabled (epoch_settings_acc s) \<Longrightarrow> es_enabled (epoch_settings_acc (gar_exec txs s))"
proof (induction txs arbitrary: s)
  case (Cons tx txs)
  obtain e op where [simp]: "tx = (e, op)" by (cases tx)
  have "es_enabled (epoch_settings_acc (case gar_step e op s of Inl _ \<Rightarrow> s | Inr s1 \<Rightarrow> s1))"
    using Cons.prems gar_step_stays_enabled by (simp split: sum.split)
  from Cons.IH [OF this] show ?case by simp
qed simp

section \<open>The reward ratios\<close>

lemma initialize_epochs_ratios: "initialize_epochs env p = Inr es \<Longrightarrow> epoch_settings_ok es"
  by (auto simp: initialize_epochs_def run_iff epoch_settings_ok_def ratios_exact_def
      GATEWAY_OPERATOR_REWARD_RATE_def OBSERVER_REWARD_RATE_def RATE_SCALE_def)

lemma ratios_exact_cong:
  "es_gateway_reward_ratio es' = es_gateway_reward_ratio es \<Longrightarrow>
     es_observer_reward_ratio es' = es_observer_reward_ratio es \<Longrightarrow> ratios_exact es' = ratios_exact es"
  by (simp add: ratios_exact_def)

lemma set_reward_ratios_exact:
  "admin_set_reward_ratios authority g ob s = Inr s' \<Longrightarrow> ratios_exact (epoch_settings_acc s')"
  by (auto simp: admin_set_reward_ratios_def UpdateEpochSettings_iff run_iff ratios_exact_def
      dest!: checked_addD)

lemma create_epoch_ratios:
  assumes "create_epoch env sha slot remaining ta payer s = Inr s'"
  shows "ratios_exact (epoch_settings_acc s') = ratios_exact (epoch_settings_acc s)"
proof (rule create_epoch_run [OF assms], goal_cases)
  case (1 start finish rate protocol receipt s2 nxt)
  then show ?case by (simp only:) (simp add: ratios_exact_def)
qed

lemma epoch_step_ratios:
  assumes run: "epoch_step env op s = Inr s'" and ok: "ratios_exact (epoch_settings_acc s)"
  shows "ratios_exact (epoch_settings_acc s')"
proof (cases op)
  case (DistributeEpochOp cfg remaining ix ta st)
  then have "distribute_epoch env cfg remaining ix ta st s = Inr s'" using run by (simp add: epoch_step_def)
  then show ?thesis by (rule distribute_epoch_epochs) (use ok in simp)
next
  case (SetRewardRatiosOp authority g ob)
  with run show ?thesis by (auto simp: epoch_step_def intro: set_reward_ratios_exact)
next
  case (CreateEpochOp sha slot remaining ta payer)
  with run ok show ?thesis using create_epoch_ratios by (simp add: epoch_step_def)
qed (use run ok in \<open>auto simp: epoch_step_def epoch_levers UpdateEpochSettings_iff run_iff ratios_exact_def
       split: if_splits dest: epoch_instructions_keep_settings\<close>)

lemma gar_step_ratios:
  assumes run: "gar_step env op s = Inr s'" and ok: "ratios_exact (epoch_settings_acc s)"
  shows "ratios_exact (epoch_settings_acc s')"
proof (cases op)
  case (EpochOp o5)
  then show ?thesis using run epoch_step_ratios [OF _ ok] by (simp add: gar_step_def)
next
  case (GatewayOp o1)
  then show ?thesis using run ok gateway_step_epoch_settings by (simp add: gar_step_def)
next
  case (StakeOp o2)
  then show ?thesis using run ok stake_step_frame by (auto simp: gar_step_def frame_def)
next
  case (DelegateOp o3)
  then show ?thesis using run ok delegate_step_frame by (auto simp: gar_step_def frame_def)
next
  case (PaymentOp o4)
  then show ?thesis using run ok payment_step_frame by (auto simp: gar_step_def frame_def)
qed (use run ok in \<open>auto simp: gar_step_def admin_set_withdrawal_period_def transfer_authority_def
       transfer_epoch_settings_authority_def run_iff ratios_exact_def\<close>)

interpretation ratios: machine_invariant now "\<lambda>_ _ _. True" gar_step "\<lambda>_ s. ratios_exact (epoch_settings_acc s)"
  by unfold_locales (auto intro: gar_step_ratios)

text \<open>So the ratios share out the whole after every history that starts from a new settings account.\<close>

lemma ratios_after_any_history:
  assumes "initialize_epochs env p = Inr (epoch_settings_acc s)"
    and "admissible_trace now (\<lambda>_ _ _. True) gar_step t txs s"
  shows "ratios_exact (epoch_settings_acc (gar_exec txs s))"
  using ratios.inv_exec [OF _ assms(2)] initialize_epochs_ratios [OF assms(1)] by (simp add: epoch_settings_ok_def)

end
