(* ===== verification/Gar_Stake_Properties.thy ===== *)
theory Gar_Stake_Properties
  imports Gar_Fixtures Gar_Vaults Gar_Settings
begin

text \<open>
  The properties of stake, its withdrawal and the payments out of it: what each instruction posts
  to the double-entry book of the stake pool, the penalty of an expedited withdrawal, what
  happens to an operator's stake when the gateway leaves or is pruned, and the protection of
  exit vaults, which the funding plan does not respect.
\<close>

section \<open>Fixtures\<close>

lemma demo_joined_inv: "gar_inv 0 demo_joined"
  using gar.inv_exec [OF demo_state_inv demo_trace] by (simp add: demo_exec system_inv_def)

definition demo_vault :: "bool \<Rightarrow> withdrawal" where
  "demo_vault protected = \<lparr>wd_owner = 10, wd_withdrawal_id = 0, wd_gateway = 10,
     wd_amount = 20000000000, wd_created_at = 2000, wd_available_at = 7778000,
     wd_is_delegate = False, wd_is_exit_vault = True, wd_is_protected = protected, wd_bump = 255,
     wd_version = V1_0_0\<rparr>"

text \<open>The operator of \<open>Gar_Fixtures\<close> has left; the whole stake is in an exit vault.\<close>

definition demo_left :: "bool \<Rightarrow> gar_state" where
  "demo_left protected = demo_joined\<lparr>
     gateways := [10 \<mapsto> demo_gateway\<lparr>gw_operator_stake := 0, gw_status := Leaving\<rparr>],
     withdrawals := [(10, 0) \<mapsto> demo_vault protected],
     settings := demo_settings\<lparr>gs_total_withdrawn := 20000000000\<rparr>\<rparr>"

lemma demo_left_simps [simp]:
  "withdrawals (demo_left p) = [(10, 0) \<mapsto> demo_vault p]"
  "settings (demo_left p) = demo_settings\<lparr>gs_total_withdrawn := 20000000000\<rparr>"
  "cpi_log (demo_left p) = [demo_deposit 20000000000]"
  by (simp_all add: demo_left_def demo_joined_def)

lemma demo_vault_simps [simp]:
  "wd_owner (demo_vault p) = 10" "wd_withdrawal_id (demo_vault p) = 0"
  "wd_amount (demo_vault p) = 20000000000" "wd_created_at (demo_vault p) = 2000"
  "wd_available_at (demo_vault p) = 7778000" "wd_is_protected (demo_vault p) = p"
  by (simp_all add: demo_vault_def)

section \<open>The book of the stake pool\<close>

text \<open>
  C22: the operator's three stake instructions refine the double-entry book. Adding stake posts
  the amount from outside to the staked bucket and decreasing it posts it on to the vaults;
  claiming a matured vault posts its whole amount back outside. Nothing else moves: no other
  bucket, no gateway's drift, and the supply counters stay exact.
\<close>

theorem stake_instructions_post_to_the_book:
  assumes "gar_inv bal s" and "pool_conforms env bal s" and "pool_not_owned_by env s operator"
  shows "(increase_operator_stake env operator ata stake_ta amount s = Inr s'
            \<longrightarrow> posts [entry Outside Staked (uint amount)] s s')
    \<and> (decrease_operator_stake env operator amount s = Inr s'
            \<longrightarrow> posts [entry Staked Vaults (uint amount)] s s')
    \<and> (claim_withdrawal env operator wid stake_ta ata s = Inr s'
            \<longrightarrow> (\<exists>w. withdrawals s (operator, wid) = Some w \<and> wd_available_at w \<le> now env
                  \<and> posts [entry Vaults Outside (uint (wd_amount w))] s s'))"
proof -
  have "wd_available_at w \<le> now env"
    if "claim_withdrawal env operator wid stake_ta ata s = Inr s'" "withdrawals s (operator, wid) = Some w" for w
    using that by (simp add: claim_withdrawal_def ClaimWithdrawal_def run_iff)
  then show ?thesis
    using increase_operator_stake_posts [OF assms] decrease_operator_stake_posts [OF assms(1)]
      claim_withdrawal_posts [OF assms] by blast
qed

lemma demo_increase_runs:
  "increase_operator_stake (demo_env 2000) 10 11 1 5000000000 demo_joined = Inr (demo_joined\<lparr>
     gateways := [10 \<mapsto> demo_gateway\<lparr>gw_operator_stake := 25000000000\<rparr>],
     settings := demo_settings\<lparr>gs_total_staked := 25000000000\<rparr>,
     cpi_log := [demo_deposit 20000000000, demo_deposit 5000000000]\<rparr>)"
  by (simp add: increase_operator_stake_def accounts_defs demo_joined_def demo_gateway_def
      token_transfer_def Let_def demo_accepts_def token_flow_def transfer_flow_def demo_deposit_def
      checked_add_def demo_state_def)

theorem stake_instructions_post_to_the_book_witness:
  "posts [entry Outside Staked 5000000000] demo_joined (demo_joined\<lparr>
     gateways := [10 \<mapsto> demo_gateway\<lparr>gw_operator_stake := 25000000000\<rparr>],
     settings := demo_settings\<lparr>gs_total_staked := 25000000000\<rparr>,
     cpi_log := [demo_deposit 20000000000, demo_deposit 5000000000]\<rparr>)"
  using stake_instructions_post_to_the_book [OF demo_joined_inv, of "demo_env 2000" 10 11 1 5000000000,
      THEN conjunct1, rule_format, OF _ _ demo_increase_runs]
  by (simp add: demo_pool_conforms demo_pool_not_owned)

section \<open>Expedited withdrawals\<close>

text \<open>
  The penalty of an expedited withdrawal is the linear schedule of the settings: its
  computation never overflows, it stays between the configured minimum and maximum, waiting
  longer never raises it, and from the end of the period on it is the minimum.
\<close>

theorem expedited_penalty_decays_within_bounds:
  assumes "gs_min_expedited_withdrawal_penalty gs \<le> gs_max_expedited_withdrawal_penalty gs"
    and "i64_ok (gs_withdrawal_period gs)" and "created \<le> t" and "t \<le> t'"
    and "i64_ok created" and "i64_ok t'" and "i64_ok (t' - created)"
  shows "\<exists>r r'. instant_penalty_rate gs created t = Inr r \<and> instant_penalty_rate gs created t' = Inr r'
    \<and> uint r = penalty_at gs (t - created)
    \<and> gs_min_expedited_withdrawal_penalty gs \<le> r' \<and> r' \<le> r
    \<and> r \<le> gs_max_expedited_withdrawal_penalty gs
    \<and> (gs_withdrawal_period gs \<le> t' - created \<longrightarrow> r' = gs_min_expedited_withdrawal_penalty gs)"
proof -
  have i: "i64_ok (t - created)" using assms(3,4,7) by (simp add: i64_ok_def)
  note el = elapsed_nonneg [OF assms(3) i] elapsed_nonneg [OF order_trans [OF assms(3,4)] assms(7)]
  obtain r where r: "instant_penalty_rate gs created t = Inr r" "uint r = penalty_at gs (t - created)"
    using instant_penalty_rate_is_schedule [OF assms(1,2), of created t] el(1) by metis
  obtain r' where r': "instant_penalty_rate gs created t' = Inr r'" "uint r' = penalty_at gs (t' - created)"
    using instant_penalty_rate_is_schedule [OF assms(1,2), of created t'] el(2) by metis
  have "penalty_at gs (t' - created) \<le> penalty_at gs (t - created)"
    by (rule penalty_at_antitone) (use assms in simp_all)
  moreover have "uint (gs_min_expedited_withdrawal_penalty gs) \<le> penalty_at gs (t' - created)"
    and "penalty_at gs (t - created) \<le> uint (gs_max_expedited_withdrawal_penalty gs)"
    by (rule penalty_at_bounds; use assms in simp)+
  moreover have "penalty_at gs (t' - created) = uint (gs_min_expedited_withdrawal_penalty gs)"
    if "gs_withdrawal_period gs \<le> t' - created"
    using that by (simp add: penalty_at_def Let_def)
  ultimately show ?thesis
    using r r' by (intro exI [of _ r] exI [of _ r'] conjI) (simp_all add: word_le_def word_uint_eq_iff)
qed

theorem expedited_penalty_decays_within_bounds_witness:
  "\<exists>r'. instant_penalty_rate demo_settings 2000 2594000 = Inr r' \<and> 100000 \<le> r' \<and> r' \<le> 500000"
proof -
  from expedited_penalty_decays_within_bounds [of demo_settings 2000 2000 2594000]
  obtain r r' where "instant_penalty_rate demo_settings 2000 2594000 = Inr r'"
    "100000 \<le> r'" "r' \<le> r" "r \<le> 500000"
    by (auto simp: i64_ok_def)
  then show ?thesis by (meson order_trans)
qed

text \<open>
  C30: an expedited withdrawal splits the vault exactly. The owner and the treasury receive
  together the whole amount, the treasury's part is the amount at the schedule's penalty,
  rounded down, both are paid by the settings PDA out of the pool, and the vault, which was not
  a protected one, is gone.
\<close>

theorem expedited_withdrawal_splits_exactly:
  assumes "instant_withdrawal env owner wid stake_ta owner_ata protocol_ta s = Inr s'"
    and "gs_min_expedited_withdrawal_penalty (settings s) \<le> gs_max_expedited_withdrawal_penalty (settings s)"
    and "gs_max_expedited_withdrawal_penalty (settings s) \<le> RATE_SCALE"
    and "i64_ok (gs_withdrawal_period (settings s))"
  shows "\<exists>w payout fee. withdrawals s (owner, wid) = Some w \<and> \<not> wd_is_protected w
    \<and> uint fee = uint (wd_amount w)
        * penalty_at (settings s) (max (saturating_sub_i64 (now env) (wd_created_at w)) 0) div 1000000
    \<and> uint payout + uint fee = uint (wd_amount w)
    \<and> withdrawals s' = (withdrawals s)((owner, wid) := None)
    \<and> cpi_log s' = cpi_log s @
        [\<lparr>tr_from = gs_stake_token_account (settings s), tr_to = owner_ata,
          tr_authority = pda_key env SettingsPda, tr_amount = payout\<rparr>,
         \<lparr>tr_from = gs_stake_token_account (settings s), tr_to = gs_protocol_token_account (settings s),
          tr_authority = pda_key env SettingsPda, tr_amount = fee\<rparr>]"
proof -
  obtain w ta rate fee s1 s2 where
    w: "withdrawals s (owner, wid) = Some w" and
    pool: "stake_ta = gs_stake_token_account (settings s)"
      "protocol_ta = gs_protocol_token_account (settings s)" and
    rate: "instant_penalty_rate (settings s) (wd_created_at w) (now env) = Inr rate" and
    fee: "instant_fee (wd_amount w) rate = Inr fee" and
    tr: "token_transfer env stake_ta owner_ata (pda_key env SettingsPda)
           (saturating_sub (wd_amount w) fee) s = Inr s1"
      "token_transfer env stake_ta protocol_ta (pda_key env SettingsPda) fee s1 = Inr s2" and
    s': "s' = s2\<lparr>withdrawals := (withdrawals s2)((owner, wid) := None),
             settings := (settings s2)\<lparr>
               gs_total_withdrawn := saturating_sub (gs_total_withdrawn (settings s2)) (wd_amount w)\<rparr>\<rparr>"
    using instant_withdrawal_run [OF assms(1)] by metis
  have open_vault: "\<not> wd_is_protected w"
    using assms(1) w by (simp add: instant_withdrawal_def InstantWithdrawal_def run_iff)
  obtain r where "instant_penalty_rate (settings s) (wd_created_at w) (now env) = Inr r"
      "uint r = penalty_at (settings s) (max (saturating_sub_i64 (now env) (wd_created_at w)) 0)"
    by (rule instant_penalty_rate_is_schedule [OF assms(2,4)])
  then have u: "uint rate = penalty_at (settings s) (max (saturating_sub_i64 (now env) (wd_created_at w)) 0)"
    using rate by simp
  have "uint rate \<le> uint RATE_SCALE"
    unfolding u by (rule order_trans [OF penalty_at_bounds(2)]) (use assms(2,3) in \<open>simp_all add: word_le_def\<close>)
  then have "rate \<le> RATE_SCALE" by (simp add: word_le_def)
  then obtain f where "instant_fee (wd_amount w) rate = Inr f"
      "uint f = uint (wd_amount w) * uint rate div 1000000" "f \<le> wd_amount w"
    by (rule instant_fee_at_rate)
  then have f: "uint fee = uint (wd_amount w) * uint rate div 1000000" "uint fee \<le> uint (wd_amount w)"
    using fee by (simp_all add: word_le_def)
  note logs = token_transferD [OF tr(1)] token_transferD [OF tr(2)]
  show ?thesis
    using w open_vault f u pool logs
    by (intro exI [of _ w] exI [of _ "saturating_sub (wd_amount w) fee"] exI [of _ fee])
      (simp add: s' uint_saturating_sub)
qed

lemma demo_instant_runs:
  "\<exists>s'. instant_withdrawal (demo_env 2000) 10 0 1 11 2 (demo_left False) = Inr s'"
  by (simp add: instant_withdrawal_def accounts_defs instant_penalty_rate_def clamp_i64_def Let_def
      checked_mul_def checked_div_def saturating_sub_def instant_fee_def RATE_SCALE_def token_transfer_def
      demo_accepts_def token_flow_def transfer_flow_def demo_deposit_def)

theorem expedited_withdrawal_splits_exactly_witness:
  "\<exists>s'. withdrawals s' (10, 0) = None \<and> length (cpi_log s') = 3
     \<and> instant_withdrawal (demo_env 2000) 10 0 1 11 2 (demo_left False) = Inr s'"
proof -
  obtain s' where run: "instant_withdrawal (demo_env 2000) 10 0 1 11 2 (demo_left False) = Inr s'"
    using demo_instant_runs by blast
  from expedited_withdrawal_splits_exactly [OF this] run show ?thesis
    by (auto simp: RATE_SCALE_def i64_ok_def intro!: exI [of _ s'])
qed

section \<open>Exit vaults\<close>

text \<open>
  C31: what can become of a withdrawal vault. Through any history of the program an existing vault
  stays exactly as it is, unless one of the transactions is of the few kinds that may touch it, each
  under its own condition (\<open>vault_exit\<close>). For a protected exit vault that is not empty this means, as
  long as the clock has not reached its end: no claim, no expedited withdrawal, no direct payment and
  no instruction of anyone else takes anything out of it; the only two ways are its cancellation,
  which returns it to the stake of a joined gateway, and a funding plan of its owner that lists it.
\<close>

theorem protected_vault_is_held_until_its_end:
  assumes w: "withdrawals s k = Some w" and clock: "admissible_trace now (\<lambda>_ _ _. True) gar_step t txs s"
  shows "(withdrawals (gar_exec txs s) k = Some w \<or> (\<exists>e op. (e, op) \<in> set txs \<and> vault_exit e op k w))
    \<and> (wd_is_protected w \<and> wd_amount w > 0 \<and> end_time now t txs < wd_available_at w \<longrightarrow>
        withdrawals (gar_exec txs s) k = Some w \<or> (\<exists>e op. (e, op) \<in> set txs \<and> early_exit op k w))"
proof -
  have exits: "withdrawals (gar_exec txs s) k = Some w" if "\<not> (\<exists>e op. (e, op) \<in> set txs \<and> vault_exit e op k w)"
  proof -
    have "admissible_trace now (\<lambda>e op _. \<not> vault_exit e op k w) gar_step t txs s"
      by (rule admissible_weaken [OF clock]) (use that in blast)
    from vault_lock.inv_exec [OF w this] show ?thesis .
  qed
  have "early_exit op k w" if "wd_is_protected w" "wd_amount w > 0" "end_time now t txs < wd_available_at w"
      "(e, op) \<in> set txs" "vault_exit e op k w" for e op
  proof -
    have "now e < wd_available_at w" using clock_within [OF clock] that(3,4) by fastforce
    from vault_exit_protected [OF that(5,1,2) this] show ?thesis .
  qed
  with exits show ?thesis by blast
qed

theorem protected_vault_is_held_until_its_end_witness:
  "withdrawals (gar_exec
     [(demo_env 2500, StakeOp (InstantWithdrawalOp 10 0 1 11 2)),
      (demo_env 2600, PaymentOp (DeductWithdrawalOp 10 0 1 2 20000000000)),
      (demo_env 3000, StakeOp (ClaimWithdrawalOp 10 0 1 11))] (demo_left True)) (10, 0) = Some (demo_vault True)"
proof -
  let ?txs = "[(demo_env 2500, StakeOp (InstantWithdrawalOp 10 0 1 11 2)),
      (demo_env 2600, PaymentOp (DeductWithdrawalOp 10 0 1 2 20000000000)),
      (demo_env 3000, StakeOp (ClaimWithdrawalOp 10 0 1 11))]"
  have w: "withdrawals (demo_left True) (10, 0) = Some (demo_vault True)" by simp
  have clock: "admissible_trace now (\<lambda>_ _ _. True) gar_step 2000 ?txs (demo_left True)" by simp
  have none: "\<not> (\<exists>e op. (e, op) \<in> set ?txs \<and> early_exit op (10, 0) (demo_vault True))"
    by (auto simp: early_exit_def)
  have early: "wd_is_protected (demo_vault True) \<and> wd_amount (demo_vault True) > 0
      \<and> end_time now 2000 ?txs < wd_available_at (demo_vault True)" by simp
  show ?thesis
    using protected_vault_is_held_until_its_end [OF w clock, THEN conjunct2, rule_format, OF early] none by blast
qed

lemma checked_add_zero: "checked_add 0 a = Some a" "checked_add a 0 = Some a" for a :: u64
  using uint_lt2p [of a] by (simp_all add: checked_add_iff)

lemma saturating_add_zero: "saturating_add 0 a = a" for a :: u64
proof -
  have "uint (saturating_add 0 a) = uint a" using uint_bounds64(2) [of a] by (simp add: uint_saturating_add)
  then show ?thesis by (simp add: word_uint_eq_iff)
qed

text \<open>
  C32: the funding plan does not look at the protection. Whoever owns a vault pays with any part of
  it through \<open>pay_from_funding_plan\<close> at any time, before the vault's end as after it and whether or not
  it is protected, as soon as the Token program accepts the transfer from the pool to the treasury;
  the very payment that the direct deduction refuses for a protected vault. The documents
  (\<open>state/mod.rs\<close>, \<open>BEHAVIORAL_DIFFERENCES.md\<close> BD-102) say this path is closed.
\<close>

theorem funding_plan_spends_protected_vaults:
  assumes w: "withdrawals s (payer, wid) = Some w" "wd_owner w = payer" "wd_withdrawal_id w = wid"
    and a: "0 < a" "a \<le> wd_amount w"
    and accounts: "token_accounts env stake_ta = Some pool" "stake_ta = gs_stake_token_account (settings s)"
      "token_accounts env protocol_ta = Some treasury" "protocol_ta = gs_protocol_token_account (settings s)"
    and token: "token_transfer env stake_ta protocol_ta (pda_key env SettingsPda) a s = Inr s1"
  shows "\<exists>s'. pay_from_funding_plan env [WithdrawalPda payer wid] stake_ta protocol_ta None payer
        [\<lparr>fs_kind = FsWithdrawal, fs_amount = a\<rparr>] a 0 s = Inr s'
      \<and> withdrawals s' = (withdrawals s)((payer, wid) \<mapsto> w\<lparr>wd_amount := wd_amount w - a\<rparr>)
      \<and> cpi_log s' = cpi_log s1 \<and> gateways s' = gateways s \<and> delegations s' = delegations s
      \<and> (wd_is_protected w \<longrightarrow>
          deduct_withdrawal_for_payment env payer wid stake_ta protocol_ta a s \<noteq> Inr s'')"
proof -
  have post: "checked_sub (wd_amount w) a = Some (wd_amount w - a)" using a(2) by (simp add: checked_sub_iff)
  let ?src = "\<lparr>fs_kind = FsWithdrawal, fs_amount = a\<rparr>"
  let ?s = "s\<lparr>withdrawals := (withdrawals s)((payer, wid) \<mapsto> w\<lparr>wd_amount := wd_amount w - a\<rparr>)\<rparr>"
  have plan: "apply_sources payer False [?src] (init_acc [WithdrawalPda payer wid] s)
      = Inr ((init_acc [] s)\<lparr>pa_state := ?s, pa_stake_pool_drain := a, pa_withdrawn_sub := a\<rparr>)"
    using w a post
    by (simp add: apply_source_def apply_withdrawal_source_def next_account_def init_acc_def
        require_def ok_or_def checked_add_zero saturating_add_zero)
  have log: "spl_accepts env (cpi_log s) \<lparr>tr_from = stake_ta, tr_to = protocol_ta,
      tr_authority = pda_key env SettingsPda, tr_amount = a\<rparr>"
    "cpi_log s1 = cpi_log s @ [\<lparr>tr_from = stake_ta, tr_to = protocol_ta,
      tr_authority = pda_key env SettingsPda, tr_amount = a\<rparr>]"
    using token by (auto simp: token_transfer_def require_iff Let_def)
  let ?t = "\<lparr>tr_from = stake_ta, tr_to = protocol_ta, tr_authority = pda_key env SettingsPda, tr_amount = a\<rparr>"
  have transfer: "token_transfer env stake_ta protocol_ta (pda_key env SettingsPda) a ?s
      = Inr (?s\<lparr>cpi_log := cpi_log s @ [?t]\<rparr>)"
    using log(1) by (simp add: token_transfer_def require_def)
  have total: "sum_sources [?src] 0 = Inr a"
    using a(1) by (simp add: require_def ok_or_def checked_add_zero)
  have "\<exists>s'. pay_from_funding_plan env [WithdrawalPda payer wid] stake_ta protocol_ta None payer [?src] a 0 s = Inr s'
      \<and> withdrawals s' = withdrawals ?s \<and> cpi_log s' = cpi_log s @ [?t]
      \<and> gateways s' = gateways s \<and> delegations s' = delegations s"
    unfolding pay_from_funding_plan_def pinned_by_key_def
    using accounts a(1) plan transfer total
    by (simp add: count_kind_def MAX_FUNDING_SOURCES_def MAX_DELEGATION_SOURCES_def
        init_acc_def Let_def checked_add_zero del: if_split apply_sources.simps sum_sources.simps)
  moreover have "deduct_withdrawal_for_payment env payer wid stake_ta protocol_ta a s \<noteq> Inr s''"
    if "wd_is_protected w"
    using that w(1) by (simp add: deduct_withdrawal_for_payment_def DeductWithdrawalForPayment_def run_iff)
  ultimately show ?thesis using log(2) by auto
qed

lemma demo_pool_accepts:
  "\<exists>s1. token_transfer (demo_env t) 1 2 (pda_key (demo_env t) SettingsPda) 20000000000 (demo_left True) = Inr s1"
  by (simp add: token_transfer_def demo_accepts_def token_flow_def transfer_flow_def demo_deposit_def)

theorem funding_plan_spends_protected_vaults_witness:
  "wd_is_protected (demo_vault True) \<and> 3000 < wd_available_at (demo_vault True)
   \<and> (\<exists>s'. pay_from_funding_plan (demo_env 3000) [WithdrawalPda 10 0] 1 2 None 10
          [\<lparr>fs_kind = FsWithdrawal, fs_amount = 20000000000\<rparr>] 20000000000 0 (demo_left True) = Inr s'
        \<and> withdrawals s' (10, 0) = Some (demo_vault True\<lparr>wd_amount := 0\<rparr>))"
proof -
  obtain s1 where token: "token_transfer (demo_env 3000) 1 2 (pda_key (demo_env 3000) SettingsPda) 20000000000 (demo_left True) = Inr s1"
    using demo_pool_accepts by blast
  have w: "withdrawals (demo_left True) (10, 0) = Some (demo_vault True)"
    "wd_owner (demo_vault True) = 10" "wd_withdrawal_id (demo_vault True) = 0"
    "0 < (20000000000 :: u64)" "20000000000 \<le> wd_amount (demo_vault True)" by simp_all
  obtain pool treasury where accounts: "token_accounts (demo_env 3000) 1 = Some pool"
    "token_accounts (demo_env 3000) 2 = Some treasury" by simp
  have pinned: "1 = gs_stake_token_account (settings (demo_left True))"
    "2 = gs_protocol_token_account (settings (demo_left True))" by simp_all
  obtain s' where "pay_from_funding_plan (demo_env 3000) [WithdrawalPda 10 0] 1 2 None 10
      [\<lparr>fs_kind = FsWithdrawal, fs_amount = 20000000000\<rparr>] 20000000000 0 (demo_left True) = Inr s'"
    "withdrawals s' = (withdrawals (demo_left True))((10, 0) \<mapsto>
        demo_vault True\<lparr>wd_amount := wd_amount (demo_vault True) - 20000000000\<rparr>)"
    using funding_plan_spends_protected_vaults [OF w accounts(1) pinned(1) accounts(2) pinned(2) token] by blast
  then show ?thesis by simp
qed

lemma open_withdrawal_vault:
  assumes "open_withdrawal env owner gw amount avail deleg exit_flag prot s = Inr s'"
  shows "withdrawals s' = (withdrawals s)((owner, wc_next_id (load_counter env s owner)) \<mapsto>
     \<lparr>wd_owner = owner, wd_withdrawal_id = wc_next_id (load_counter env s owner), wd_gateway = gw,
      wd_amount = amount, wd_created_at = now env, wd_available_at = avail, wd_is_delegate = deleg,
      wd_is_exit_vault = exit_flag, wd_is_protected = prot,
      wd_bump = pda_bump env (WithdrawalPda owner (wc_next_id (load_counter env s owner))),
      wd_version = V1_0_0\<rparr>)"
    and "withdrawals s (owner, wc_next_id (load_counter env s owner)) = None"
    and "settings s' = settings s"
  using assms by (auto simp: open_withdrawal_def Let_def run_iff)

text \<open>
  Leaving the network locks the operator's stake and loses nothing of it: the minimum stake
  goes into a protected exit vault for the 90 days of the leave period, what exceeds it into an
  ordinary vault for the withdrawal period, and together they are the stake; the gateway is
  leaving, without stake, and the book moves exactly that amount from stake to vaults.
\<close>

theorem leaving_locks_the_whole_stake:
  assumes "gar_inv bal s" and "leave_network env remaining operator acc s = Inr s'"
    and "gateways s operator = Some g" and "gw_operator_stake g > 0"
    and "gs_min_operator_stake (settings s) > 0"
  shows "\<exists>p v. withdrawals s (operator, p) = None \<and> withdrawals s' (operator, p) = Some v
    \<and> wd_is_protected v \<and> wd_is_exit_vault v
    \<and> wd_amount v = min (gw_operator_stake g) (gs_min_operator_stake (settings s))
    \<and> wd_available_at v = now env + GATEWAY_LEAVE_PERIOD
    \<and> (gw_operator_stake g > gs_min_operator_stake (settings s) \<longrightarrow>
        (\<exists>q x. q \<noteq> p \<and> withdrawals s (operator, q) = None \<and> withdrawals s' (operator, q) = Some x
          \<and> \<not> wd_is_protected x \<and> wd_available_at x = now env + gs_withdrawal_period (settings s)
          \<and> uint (wd_amount v) + uint (wd_amount x) = uint (gw_operator_stake g)))
    \<and> (\<exists>g'. gateways s' operator = Some g' \<and> gw_status g' = Leaving \<and> gw_operator_stake g' = 0)
    \<and> posts [entry Staked Vaults (uint (gw_operator_stake g))] s s'"
proof -
  let ?min = "gs_min_operator_stake (settings s)"
  let ?stake = "gw_operator_stake g"
  obtain avail1 avail2 s1 g1 s2 where
    avail: "checked_add_i64 (now env) GATEWAY_LEAVE_PERIOD = Some avail1"
      "checked_add_i64 (now env) (gs_withdrawal_period (settings s)) = Some avail2" and
    op: "open_exit_vaults env operator (min ?stake ?min) (saturating_sub ?stake ?min) True avail1 avail2 acc s
           = Inr s1" and
    g1: "g1 = g\<lparr>gw_status := Leaving, gw_leave_timestamp := Some (now env),
                gw_leave_epoch_duration := es_epoch_duration (epoch_settings_acc s),
                gw_operator_stake := 0\<rparr>" and
    sl: "mark_slot_leaving g1 s1 = Inr s2" and
    s': "withdrawals s' = withdrawals (close_observer_lookup g1 remaining s2)"
      "gateways s' = (gateways (close_observer_lookup g1 remaining s2))(operator \<mapsto> g1)"
    using assms(2,3) unfolding leave_network_def Let_def run_iff by auto
  have pos: "min ?stake ?min > 0" using assms(4,5) by (simp add: min_def)
  have W: "withdrawals s' = withdrawals s1"
    using s'(1) mark_slot_leavingD [OF sl] close_observer_lookupD [of s2 g1 remaining] by simp
  have t: "avail1 = now env + GATEWAY_LEAVE_PERIOD" "avail2 = now env + gs_withdrawal_period (settings s)"
    using avail by (auto simp: checked_add_i64_def split: if_splits)
  from op pos obtain m where
    1: "open_withdrawal env operator operator (min ?stake ?min) avail1 False True True s = Inr m" and
    2: "(if saturating_sub ?stake ?min > 0 then
         ok_or acc MissingExcessWithdrawal (\<lambda>excess_acc.
         require (excess_acc = WithdrawalPda operator (wc_next_id (load_counter env m operator)))
           InvalidExcessWithdrawalPda (
         require (withdrawals m (operator, wc_next_id (load_counter env m operator)) = None)
           InvalidParameter (
         open_withdrawal env operator operator (saturating_sub ?stake ?min) avail2 False True False m)))
       else Inr m) = Inr s1"
    unfolding open_exit_vaults_def Let_def run_iff by auto
  note v1 = open_withdrawal_vault [OF 1]
  define p where "p = wc_next_id (load_counter env s operator)"
  have booked: "posts [entry Staked Vaults (uint ?stake)] s s'"
    using leave_network_posts [OF assms(1,2)] assms(3) by auto
  show ?thesis
  proof (cases "?stake > ?min")
    case True
    then have ex: "min ?stake ?min = ?min" by (intro min_absorb2) simp
    have "uint ?min < uint ?stake" using True by (simp add: word_less_def)
    then have ex2: "uint (saturating_sub ?stake ?min) = uint ?stake - uint ?min"
      by (simp add: uint_saturating_sub)
    then have "saturating_sub ?stake ?min > 0" using True by (simp add: word_less_def)
    with 2 have o2: "open_withdrawal env operator operator (saturating_sub ?stake ?min) avail2 False True False m
        = Inr s1" by (auto simp: run_iff)
    note v2 = open_withdrawal_vault [OF o2]
    define q where "q = wc_next_id (load_counter env m operator)"
    have ne: "q \<noteq> p" using v1(1) v2(2) by (auto simp: p_def q_def)
    have fresh: "withdrawals s (operator, q) = None"
      using v1(1) v2(2) ne by (simp add: p_def q_def)
    let ?v = "the (withdrawals m (operator, p))"
    let ?x = "the (withdrawals s1 (operator, q))"
    show ?thesis
      by (rule exI [of _ p], rule exI [of _ ?v])
        (use True ex ex2 t v1 v2 ne fresh booked in
          \<open>auto simp: W s'(2) g1 p_def [symmetric] q_def [symmetric] intro!: exI [of _ q]\<close>)
  next
    case False
    then have "saturating_sub ?stake ?min = 0"
      by (simp add: word_uint_eq_iff uint_saturating_sub word_less_def)
    with 2 have "s1 = m" by simp
    with False v1 t booked show ?thesis
      by (intro exI [of _ p] exI [of _ "the (withdrawals m (operator, p))"])
        (auto simp: W s'(2) g1 p_def [symmetric])
  qed
qed

lemma demo_leave_runs: "\<exists>s'. leave_network (demo_env 2000) [] 10 None demo_joined = Inr s'"
  by (simp add: leave_network_def demo_joined_def demo_state_def demo_gateway_def checked_add_i64_def
      i64_ok_def GATEWAY_LEAVE_PERIOD_def open_exit_vaults_def open_withdrawal_def load_counter_def
      zero_counter_def Let_def saturating_sub_def checked_add_def mark_slot_leaving_def MAX_GATEWAYS_def
      demo_slot_def close_observer_lookup_def)

theorem leaving_locks_the_whole_stake_witness:
  "\<exists>s' p v. leave_network (demo_env 2000) [] 10 None demo_joined = Inr s'
     \<and> withdrawals s' (10, p) = Some v \<and> wd_is_protected v \<and> wd_amount v = 20000000000
     \<and> wd_available_at v = 7778000"
proof -
  obtain s' where run: "leave_network (demo_env 2000) [] 10 None demo_joined = Inr s'"
    using demo_leave_runs by blast
  have "gateways demo_joined 10 = Some demo_gateway" "gw_operator_stake demo_gateway = 20000000000"
    "gs_min_operator_stake (settings demo_joined) = 20000000000"
    by (simp_all add: demo_joined_def demo_gateway_def)
  with leaving_locks_the_whole_stake [OF demo_joined_inv run, of demo_gateway] run show ?thesis
    by (auto simp: GATEWAY_LEAVE_PERIOD_def)
qed

text \<open>
  Pruning slashes at most the minimum stake. Only a joined gateway with the configured number
  of consecutive failures can be pruned; the slash, the smaller of its stake and the minimum,
  goes from the pool to the treasury, the rest of the stake into the operator's vaults, and the
  stake pool's book shows exactly these two movements.
\<close>

theorem pruning_slashes_at_most_the_minimum:
  assumes "gar_inv bal s" and "prune_gateway env remaining gw stake_ta protocol_ta acc s = Inr s'"
    and "gateways s gw = Some g" and "slash = min (gs_min_operator_stake (settings s)) (gw_operator_stake g)"
  shows "gw_status g = Joined
    \<and> es_max_consecutive_failures (epoch_settings_acc s) \<le> st_failed_consecutive (gw_stats g)
    \<and> posts [entry Staked Outside (uint slash), entry Staked Vaults (uint (gw_operator_stake g) - uint slash)] s s'
    \<and> pool_flow s' = pool_flow s - uint slash
    \<and> slash \<le> gs_min_operator_stake (settings s)
    \<and> (\<exists>g'. gateways s' gw = Some g' \<and> gw_status g' = Leaving \<and> gw_operator_stake g' = 0)"
proof -
  have slash: "slash = slash_of s g" by (simp add: assms(4) slash_of_def)
  have "\<exists>g'. gateways s' gw = Some g' \<and> gw_status g' = Leaving \<and> gw_operator_stake g' = 0"
    by (rule prune_gateway_run [OF assms(2)]) simp
  moreover have "gw_status g = Joined
      \<and> es_max_consecutive_failures (epoch_settings_acc s) \<le> st_failed_consecutive (gw_stats g)"
    by (rule prune_gateway_run [OF assms(2)]) (use assms(3) in simp)
  moreover note prune_gateway_posts [OF assms(1,2)]
  ultimately show ?thesis
    using assms(3) by (auto simp: slash assms(4) slash_of_def)
qed

definition demo_failing :: gateway where
  "demo_failing = demo_gateway\<lparr>gw_stats := default_stats\<lparr>st_failed_consecutive := 30\<rparr>\<rparr>"

definition demo_doomed :: gar_state where
  "demo_doomed = demo_joined\<lparr>gateways := [10 \<mapsto> demo_failing]\<rparr>"

lemma demo_doomed_inv: "gar_inv 0 demo_doomed"
proof -
  have "same_in_ledger demo_gateway demo_failing"
    by (simp add: same_in_ledger_def demo_failing_def)
  moreover have "gateways demo_joined 10 = Some demo_gateway" by (simp add: demo_joined_def)
  ultimately have "posts [] demo_joined demo_doomed \<and> pool_flow demo_doomed = pool_flow demo_joined"
    by (intro gateway_touch_posts [OF demo_joined_inv])
      (auto simp: demo_doomed_def demo_joined_def fun_eq_iff)
  then show ?thesis using quiet_posts_keep_gar_inv [OF demo_joined_inv] by blast
qed

lemma demo_prune_runs: "\<exists>s'. prune_gateway (demo_env 2000) [] 10 1 2 None demo_doomed = Inr s'"
  by (simp add: prune_gateway_def accounts_defs demo_doomed_def demo_failing_def demo_joined_def
      demo_state_def demo_gateway_def demo_epoch_settings_def checked_add_i64_def
      i64_ok_def GATEWAY_LEAVE_PERIOD_def open_exit_vaults_def open_withdrawal_def load_counter_def
      zero_counter_def Let_def saturating_sub_def checked_add_def mark_slot_leaving_def MAX_GATEWAYS_def
      demo_slot_def close_observer_lookup_def token_transfer_def demo_accepts_def token_flow_def
      transfer_flow_def demo_deposit_def)

theorem pruning_slashes_at_most_the_minimum_witness:
  "\<exists>s'. prune_gateway (demo_env 2000) [] 10 1 2 None demo_doomed = Inr s'
     \<and> pool_flow s' = pool_flow demo_doomed - 20000000000"
proof -
  obtain s' where run: "prune_gateway (demo_env 2000) [] 10 1 2 None demo_doomed = Inr s'"
    using demo_prune_runs by blast
  have "gateways demo_doomed 10 = Some demo_failing" "gw_operator_stake demo_failing = 20000000000"
    "gs_min_operator_stake (settings demo_doomed) = 20000000000"
    by (simp_all add: demo_doomed_def demo_failing_def demo_joined_def demo_gateway_def)
  with pruning_slashes_at_most_the_minimum [OF demo_doomed_inv run, of demo_failing 20000000000] run
  show ?thesis by auto
qed

text \<open>
  A gateway is garbage-collected only when nothing can still refer to it. A successful
  \<open>finalize_gone\<close> found a leaving gateway past its leave window with no delegated stake left, and in
  any reachable state no epoch at all whose rewards are still to be distributed by registry
  position; then the gateway is gone and the registry is one slot shorter.
\<close>

theorem gateways_are_finalized_only_when_unreferenced:
  assumes "finalize_gone env remaining gw s = Inr s'" and "lifecycle_ok bump t s"
  shows "\<exists>g left. gateways s gw = Some g \<and> gw_status g = Leaving \<and> gw_total_delegated_stake g = 0
    \<and> gw_leave_timestamp g = Some left
    \<and> saturating_add_i64 left (saturating_add_i64 GATEWAY_LEAVE_PERIOD (saturating_mul_i64
        (max (max (gw_leave_epoch_duration g) (es_epoch_duration (epoch_settings_acc s))) 0) 7)) \<le> now env
    \<and> (\<forall>i e. epochs s i = Some e \<longrightarrow> ep_rewards_distributed e = 1)
    \<and> gateways s' gw = None
    \<and> unat (reg_count (registry s')) + 1 = unat (reg_count (registry s))"
proof -
  obtain g expiry s1 where
    g: "gateways s gw = Some g" "gw_status g = Leaving" "gw_total_delegated_stake g = 0" and
    ex: "finalize_gone_expiry g (es_epoch_duration (epoch_settings_acc s)) = Inr expiry" "expiry \<le> now env" and
    fin: "require_latest_epoch_finished s remaining = Inr ()" and
    sw: "swap_remove_slot g remaining s = Inr s1" and
    s': "s' = s1\<lparr>gateways := (gateways s1)(gw := None)\<rparr>"
    using assms(1) unfolding finalize_gone_def run_iff by auto
  have count: "reg_count (registry s1) = saturating_sub (reg_count (registry s)) 1"
    and pos: "reg_count (registry s) > 0"
    using sw by (auto simp: swap_remove_slot_def Let_def run_iff split: if_splits)
  have "unat (reg_count (registry s)) > 0" using pos by (simp add: unat_gt_0 word_neq_0_conv)
  then have "unat (reg_count (registry s1)) + 1 = unat (reg_count (registry s))"
    using uint_saturating_sub [of "reg_count (registry s)" 1] unfolding count uint_nat unat_1 by linarith
  moreover obtain left where "gw_leave_timestamp g = Some left"
    "expiry = saturating_add_i64 left (saturating_add_i64 GATEWAY_LEAVE_PERIOD (saturating_mul_i64
        (max (max (gw_leave_epoch_duration g) (es_epoch_duration (epoch_settings_acc s))) 0) 7))"
    using ex(1) by (auto simp: finalize_gone_expiry_def Let_def run_iff)
  ultimately show ?thesis
    using g ex(2) latest_finished_next [OF assms(2) fin] by (auto simp: s')
qed

lemma demo_left_lifecycle: "lifecycle_ok (\<lambda>_. 255) 0 (demo_left True)"
  by (simp add: lifecycle_ok_def epochs_ok_def unborn_ok_def demo_left_def demo_joined_def
      demo_state_def open_observers_def)

definition demo_gone :: gar_state where
  "demo_gone = (demo_left True)\<lparr>gateways := [10 \<mapsto> demo_gateway\<lparr>gw_operator_stake := 0,
     gw_status := Leaving, gw_leave_timestamp := Some 2000, gw_leave_epoch_duration := 86400\<rparr>]\<rparr>"

lemma demo_finalize_runs: "\<exists>s'. finalize_gone (demo_env 9000000) [] 10 demo_gone = Inr s'"
  by (simp add: finalize_gone_def demo_gone_def finalize_gone_expiry_def clamp_i64_def Let_def
      GATEWAY_LEAVE_PERIOD_def require_latest_epoch_finished_def swap_remove_slot_def MAX_GATEWAYS_def
      demo_left_def demo_joined_def demo_state_def demo_epoch_settings_def checked_sub_def
      demo_gateway_def demo_slot_def)

theorem gateways_are_finalized_only_when_unreferenced_witness:
  "\<exists>s'. finalize_gone (demo_env 9000000) [] 10 demo_gone = Inr s' \<and> gateways s' 10 = None"
proof -
  have "lifecycle_ok (\<lambda>_. 255) 0 demo_gone"
    by (rule lifecycle_frame [OF demo_left_lifecycle]) (simp_all add: demo_gone_def)
  then show ?thesis
    using demo_finalize_runs gateways_are_finalized_only_when_unreferenced by blast
qed

section \<open>Fees and payments\<close>

text \<open>
  Redelegating costs ten percent per redelegation already made in the window, at most sixty,
  rounded down: the first one is free, the computation overflows only after more than 400 million
  redelegations, and the fee never reaches the amount.
\<close>

theorem redelegation_fee_schedule:
  assumes "n = (if t \<ge> rr_fee_reset_at r then 0 else unat (rr_redelegation_count r))"
    and "n < 400000000"
  shows "\<exists>rate fee. get_fee_rate r t RATE_SCALE = Inr rate \<and> instant_fee amount rate = Inr fee
    \<and> uint fee = uint amount * min (10 * int n) 60 div 100
    \<and> (n = 0 \<longrightarrow> fee = 0) \<and> 10 * uint fee \<le> 6 * uint amount"
proof -
  define rate :: u64 where "rate = word_of_int (redelegation_fee_percent n * 10000)"
  have r: "get_fee_rate r t RATE_SCALE = Inr rate"
    using assms(2) unfolding get_fee_rate_eq assms(1) [symmetric] rate_def by simp
  have pct: "0 \<le> redelegation_fee_percent n" "redelegation_fee_percent n \<le> 60"
    by (simp_all add: redelegation_fee_percent_def)
  then have u: "uint rate = redelegation_fee_percent n * 10000"
    unfolding rate_def uint_word_of_int by simp
  then have "rate \<le> RATE_SCALE" using pct by (simp add: word_le_def)
  then obtain fee where fee: "instant_fee amount rate = Inr fee"
      "uint fee = uint amount * uint rate div 1000000"
    by (rule instant_fee_at_rate)
  have eq: "uint fee = uint amount * redelegation_fee_percent n div 100"
    unfolding fee(2) u by (simp add: mult.assoc [symmetric] mult.commute)
  have "uint amount * redelegation_fee_percent n \<le> uint amount * 60"
    by (rule mult_left_mono [OF pct(2)]) simp
  then have "10 * uint fee \<le> 6 * uint amount" unfolding eq by linarith
  with r fee eq show ?thesis
    by (intro exI [of _ rate] exI [of _ fee])
      (auto simp: redelegation_fee_percent_def word_uint_eq_iff)
qed

theorem redelegation_fee_schedule_witness:
  "\<exists>rate fee. get_fee_rate (zero_redelegation_record\<lparr>rr_redelegation_count := 2, rr_fee_reset_at := 50\<rparr>) 10
       RATE_SCALE = Inr rate
     \<and> instant_fee 1000 rate = Inr fee \<and> uint fee = 200"
  using redelegation_fee_schedule [of 2
      "zero_redelegation_record\<lparr>rr_redelegation_count := 2, rr_fee_reset_at := 50\<rparr>" 10 1000]
  by auto

text \<open>
  C23: a funding plan pays exactly the expected total. What leaves the stake pool for the treasury
  and what the payer's own token account adds make up the sum of the sources, which is the
  expected total, and the pool's part is taken from the delegated, staked and withdrawing buckets;
  a delegation drained below its gateway's minimum goes into a vault, not away.
\<close>

theorem funding_plan_pays_exactly_the_total:
  assumes "gar_inv bal s" and "pool_refuses env s payer"
    and "pay_from_funding_plan env remaining stake_ta protocol_ta payer_ata payer
           sources expected_total residue_vault_count s = Inr s'"
  shows "\<exists>(settled :: u64) (delegated :: u64) (residue :: u64) (staked :: u64) (vaulted :: u64) (balance :: u64).
    posts [entry Pending Delegated (uint settled), entry Delegated Outside (uint delegated),
           entry Delegated Vaults (uint residue), entry Staked Outside (uint staked),
           entry Vaults Outside (uint vaulted)] s s'
    \<and> uint delegated + uint staked + uint vaulted = pool_flow s - pool_flow s'
    \<and> pool_flow s - pool_flow s' + uint balance = uint expected_total
    \<and> sources_total sources = uint expected_total"
proof -
  obtain a where p: "posts (plan_entries a) s s'"
    and flow: "pool_flow s' = pool_flow s - uint (pa_stake_pool_drain a)"
    and total: "uint (pa_stake_pool_drain a) + uint (pa_balance_drain a) = uint expected_total"
    using pay_from_funding_plan_posts [OF assms] by blast
  have "sum_sources sources 0 = Inr expected_total"
    by (rule pay_from_funding_plan_run [OF assms(3)])
  from sum_sources_total [OF this] have "sources_total sources = uint expected_total" by simp
  moreover have "book_of s' Outside = post (plan_entries a) (book_of s) Outside"
    using p by (simp add: posts_def)
  then have "uint (pa_delegated_sub a) + uint (pa_staked_sub a) + uint (pa_withdrawn_sub a)
      = pool_flow s - pool_flow s'"
    by (simp add: plan_entries_def book_of_def)
  ultimately show ?thesis
    using p flow total
    by - (rule exI [of _ "pa_delegated_add a"], rule exI [of _ "pa_delegated_sub a"],
        rule exI [of _ "pa_delegated_residue_sub a"], rule exI [of _ "pa_staked_sub a"],
        rule exI [of _ "pa_withdrawn_sub a"], rule exI [of _ "pa_balance_drain a"],
        simp add: plan_entries_def)
qed

lemma demo_plan_runs:
  "\<exists>s'. pay_from_funding_plan (demo_env 3000) [] 1 2 (Some 21) 20
     [\<lparr>fs_kind = FsBalance, fs_amount = 700\<rparr>] 700 0 demo_joined = Inr s'"
  by (simp add: pay_from_funding_plan_def accounts_defs MAX_FUNDING_SOURCES_def
      MAX_DELEGATION_SOURCES_def count_kind_def checked_add_def init_acc_def token_transfer_def
      demo_accepts_def token_flow_def transfer_flow_def demo_deposit_def saturating_sub_def
      saturating_add_def Let_def apply_source_def apply_balance_source_def demo_joined_def demo_state_def)

theorem funding_plan_pays_exactly_the_total_witness:
  "\<exists>s'. pay_from_funding_plan (demo_env 3000) [] 1 2 (Some 21) 20
     [\<lparr>fs_kind = FsBalance, fs_amount = 700\<rparr>] 700 0 demo_joined = Inr s'
     \<and> pool_flow demo_joined - pool_flow s' \<le> 700"
proof -
  obtain s' where run: "pay_from_funding_plan (demo_env 3000) [] 1 2 (Some 21) 20
     [\<lparr>fs_kind = FsBalance, fs_amount = 700\<rparr>] 700 0 demo_joined = Inr s'"
    using demo_plan_runs by blast
  have "pool_refuses (demo_env 3000) demo_joined 20" by (simp add: demo_pool_refuses)
  from funding_plan_pays_exactly_the_total [OF demo_joined_inv this run]
  obtain balance :: u64 where "pool_flow demo_joined - pool_flow s' + uint balance = 700" by auto
  then have "pool_flow demo_joined - pool_flow s' \<le> 700"
    using uint_bounds64(1) [of balance] by linarith
  with run show ?thesis by blast
qed

section \<open>The epoch switch\<close>

text \<open>
  C35: the disable timelock never clears the \<open>enabled\<close> flag. Once epochs have been enabled, the flag
  stays set through every history of the program over this settings account, whatever its authority
  does: the only instruction that would clear it, \<open>create_epoch\<close> after the timelock, returns an error
  after writing, so its write is rolled back. From then on \<open>create_epoch\<close> fails, as it should, until
  the authority enables epochs again; but the account still reads as enabled, and
  \<open>admin_set_current_epoch_index\<close>, which asks for a clear flag, fails at any time. What does clear the
  flag and the index is a new account: the history leaves out \<open>close_epoch_settings\<close>, and what
  \<open>initialize_epochs\<close> writes after it is disabled and starts at zero.
\<close>

theorem only_a_new_settings_account_clears_the_flag:
  assumes "es_enabled (epoch_settings_acc s)"
  shows "es_enabled (epoch_settings_acc (gar_exec txs s))
    \<and> (es_disable_at (epoch_settings_acc (gar_exec txs s)) > 0
       \<and> es_disable_at (epoch_settings_acc (gar_exec txs s)) \<le> now env
       \<longrightarrow> create_epoch env sha slot remaining protocol_ta payer (gar_exec txs s) \<noteq> Inr s')
    \<and> admin_set_current_epoch_index env authority i (gar_exec txs s) \<noteq> Inr s'
    \<and> (initialize_epochs env p = Inr es \<longrightarrow> \<not> es_enabled es \<and> es_current_epoch_index es = 0)"
proof -
  have "es_enabled (epoch_settings_acc (gar_exec txs s))" by (rule enabled_exec [OF assms])
  moreover have "create_epoch env sha slot remaining protocol_ta payer t \<noteq> Inr s'"
    if "es_disable_at (epoch_settings_acc t) > 0" "es_disable_at (epoch_settings_acc t) \<le> now env" for t
    using that by (auto simp: create_epoch_def accounts_defs Let_def run_iff)
  ultimately show ?thesis
    by (auto simp: admin_set_current_epoch_index_def UpdateEpochSettings_iff initialize_epochs_def run_iff)
qed

theorem only_a_new_settings_account_clears_the_flag_witness:
  "es_enabled (epoch_settings_acc (gar_exec
     [(demo_env 5000, EpochOp (SetEpochsEnabledOp 4 False)),
      (demo_env 700000, EpochOp (CreateEpochOp demo_sha 5 [] 2 30))] demo_state))"
  by (rule conjunct1 [OF only_a_new_settings_account_clears_the_flag]) (simp add: demo_state_def demo_epoch_settings_def)

end
