(* ===== verification/Arns_State.thy ===== *)
theory Arns_State
  imports Gar_Payment Bytes
begin

text \<open>
  The accounts of \<open>ario-arns\<close> (\<open>state/mod.rs\<close>), its errors (\<open>error.rs\<close>) and what its handlers
  see of the runtime. The program's own accounts and those of \<open>ario-gar\<close>, which it pays from by
  cross-program call and reads for the operator discount, form one state; \<open>cpi_log\<close> of the
  \<open>ario-gar\<close> part is the log of token transfers of both programs. A name is a Rust \<open>String\<close>, a
  list of bytes. SHA-256 and the Unicode tables behind \<open>to_lowercase\<close> are parameters of the
  environment.
\<close>

section \<open>Constants\<close>

definition DEMAND_FACTOR_SCALE :: u64 where "DEMAND_FACTOR_SCALE = 1000000"
definition DEMAND_FACTOR_MIN :: u64 where "DEMAND_FACTOR_MIN = 500000"
definition MAX_DEMAND_FACTOR :: u64 where "MAX_DEMAND_FACTOR = 1000 * DEMAND_FACTOR_SCALE"
definition DEMAND_FACTOR_UP_ADJUSTMENT :: u64 where "DEMAND_FACTOR_UP_ADJUSTMENT = 1050000"
definition DEMAND_FACTOR_DOWN_ADJUSTMENT :: u64 where "DEMAND_FACTOR_DOWN_ADJUSTMENT = 985000"
definition MAX_PERIODS_AT_MIN_DEMAND_FACTOR :: u32 where "MAX_PERIODS_AT_MIN_DEMAND_FACTOR = 7"
definition MOVING_AVG_PERIOD_COUNT :: nat where "MOVING_AVG_PERIOD_COUNT = 7"
definition PERIOD_LENGTH_SECONDS :: i64 where "PERIOD_LENGTH_SECONDS = 86400"
definition ANNUAL_PERCENTAGE_FEE :: u64 where "ANNUAL_PERCENTAGE_FEE = 200000"
definition UNDERNAME_LEASE_FEE_PCT :: u64 where "UNDERNAME_LEASE_FEE_PCT = 1000"
definition UNDERNAME_PERMABUY_FEE_PCT :: u64 where "UNDERNAME_PERMABUY_FEE_PCT = 5000"
definition GRACE_PERIOD_SECONDS :: i64 where "GRACE_PERIOD_SECONDS = 14 * 86400"
definition RETURNED_NAME_DURATION_SECONDS :: i64 where "RETURNED_NAME_DURATION_SECONDS = 14 * 86400"
definition RETURNED_NAME_MAX_MULTIPLIER :: u64 where "RETURNED_NAME_MAX_MULTIPLIER = 50"
definition MAX_LEASE_LENGTH_YEARS :: u8 where "MAX_LEASE_LENGTH_YEARS = 5"
definition ONE_YEAR_SECONDS :: i64 where "ONE_YEAR_SECONDS = 365 * 86400"
definition MAX_NAME_LENGTH :: nat where "MAX_NAME_LENGTH = 51"
definition DEFAULT_UNDERNAME_COUNT :: u16 where "DEFAULT_UNDERNAME_COUNT = 10"
definition MAX_UNDERNAME_LIMIT :: u16 where "MAX_UNDERNAME_LIMIT = 10000"
definition GATEWAY_OPERATOR_DISCOUNT_PCT :: u64 where "GATEWAY_OPERATOR_DISCOUNT_PCT = 200000"
definition GATEWAY_DISCOUNT_MIN_TENURE :: i64 where "GATEWAY_DISCOUNT_MIN_TENURE = 15552000"
definition NUM_NAME_LENGTH_FEES :: nat where "NUM_NAME_LENGTH_FEES = 51"
definition DEMAND_CRITERIA_REVENUE :: u8 where "DEMAND_CRITERIA_REVENUE = 0"
definition DEMAND_CRITERIA_PURCHASES :: u8 where "DEMAND_CRITERIA_PURCHASES = 1"
definition MAX_PERMITTED_DATA_INCREASE :: nat where "MAX_PERMITTED_DATA_INCREASE = 10240"
definition ARNS_MIGRATION_DEADLINE :: i64 where "ARNS_MIGRATION_DEADLINE = 4490553669"

text \<open>\<open>MPL_CORE_PROGRAM_ID\<close>, decoded from its base-58 text; only its identity matters.\<close>

definition base58_digits :: string where
  "base58_digits = ''123456789ABCDEFGHJKLMNPQRSTUVWXYZabcdefghijkmnopqrstuvwxyz''"

definition base58_value :: "string \<Rightarrow> nat" where
  "base58_value t = foldl (\<lambda>n c. 58 * n + length (takeWhile (\<lambda>d. d \<noteq> c) base58_digits)) 0 t"

definition MPL_CORE_PROGRAM_ID :: pubkey where
  "MPL_CORE_PROGRAM_ID = of_nat (base58_value ''CoREENxT6tW1HoK8ypY1SxRMZTcVPm7R94rH4PZNhX7d'')"

definition GENESIS_FEES :: "u64 list" where
  "GENESIS_FEES =
     [500000000000, 100000000000, 10000000000, 5000000000, 2500000000, 1500000000, 800000000,
      500000000, 400000000, 350000000, 300000000, 250000000] @ replicate 39 200000000"

section \<open>Errors\<close>

text \<open>
  \<open>ArnsError\<close> in the source's order, then what the runtime answers: an account that is absent,
  already there, or violates a constraint without an error of its own, a transfer that the Token
  program refuses, a panic, and the error of a cross-program call into \<open>ario-gar\<close>.
\<close>

datatype (plugins only: code) arns_error =
    InvalidNameFormat | NameTooShort | NameTooLong | InvalidCharacters | ForbiddenNameLength
  | NameAlreadyRegistered | NameStillActive | InsufficientFunds
  | NotALease | AlreadyPermanent | LeaseExpired | InvalidLeaseDuration | CannotExtendPermanent
  | ExtensionExceedsMax | InGracePeriod | RecordExpired
  | InvalidUndernameQuantity
  | InvalidAnt | NotProcessOwner
  | CannotReleaseLease
  | NameNotReturned | AuctionActive | NameNotExpired
  | NameReserved | NotReservationHolder | ReservationExpired | ReservationNotExpired
  | NotOwner | NotAntHolder | ArnsUnauthorized
  | ArnsRegistryFull | NameRegistryAlreadyExists | NameNotInRegistry
  | ArnsArithmeticOverflow | ArnsArithmeticUnderflow
  | GatewayNotActive | NotGatewayOperator | InvalidGatewayProgram
  | InvalidTreasury
  | ArnsInvalidParameter | DemandFactorNotReady
  | InvalidAntAsset
  | ArnsMigrationInactive | ArnsMigrationAlreadyFinalized | ArnsInvalidAccountData
  | ArnsInvalidPda | ArnsMigrationExpired
  | ArnsRegistryAlreadyShrunk | ArnsShrinkWouldLoseData
  | ArnsAlreadyLatestVersion | ArnsUnknownSchemaVersion
  | UndernameLimitExceeded
  | ArnsAccountMissing | ArnsAccountExists | ArnsConstraint | ArnsTransferFailed | ArnsPanic
  | GarFailure gar_error

type_synonym 'a arns_result = "(arns_error, 'a) result"

section \<open>Accounts\<close>

type_synonym name_hash = "256 word"

datatype purchase_type = Lease | Permabuy

record arns_config =
  ac_authority :: pubkey
  ac_mint :: pubkey
  ac_treasury :: pubkey
  ac_grace_period_seconds :: i64
  ac_return_auction_duration_seconds :: i64
  ac_max_lease_length_years :: u8
  ac_total_names_registered :: u64
  ac_next_records_prune_timestamp :: i64
  ac_next_returned_names_prune_timestamp :: i64
  ac_migration_active :: bool
  ac_migration_authority :: pubkey
  ac_bump :: u8
  ac_version :: schema_version

text \<open>The arrays have the source's fixed lengths: 7, 7 and 51.\<close>

record demand_factor =
  df_current_demand_factor :: u64
  df_current_period :: u64
  df_purchases_this_period :: u64
  df_revenue_this_period :: u64
  df_consecutive_periods_with_min_demand_factor :: u32
  df_trailing_period_purchases :: "u64 list"
  df_trailing_period_revenues :: "u64 list"
  df_fees :: "u64 list"
  df_period_zero_start_timestamp :: i64
  df_criteria :: u8
  df_bump :: u8
  df_version :: schema_version

record arns_record =
  ar_name_hash :: name_hash
  ar_owner :: pubkey
  ar_ant :: pubkey
  ar_purchase_type :: purchase_type
  ar_start_timestamp :: i64
  ar_end_timestamp :: "i64 option"
  ar_undername_limit :: u16
  ar_purchase_price :: u64
  ar_bump :: u8
  ar_name :: string
  ar_version :: schema_version

record returned_name =
  rn_name :: string
  rn_name_hash :: name_hash
  rn_initiator :: pubkey
  rn_returned_at :: i64
  rn_bump :: u8
  rn_version :: schema_version

record reserved_name =
  rs_name :: string
  rs_reserved_for :: "pubkey option"
  rs_expires_at :: "i64 option"
  rs_reserved_by :: pubkey
  rs_created_at :: i64
  rs_bump :: u8
  rs_version :: schema_version

record name_entry =
  ne_name_hash :: name_hash
  ne_registry_index :: u32

text \<open>
  The variable-size registry account: the length of its data, the discriminator, the header and
  as many slots as the data has room for.
\<close>

record name_registry =
  nr_data_len :: nat
  nr_initialized :: bool
  nr_authority :: pubkey
  nr_count :: u32
  nr_slots :: "name_entry list"

section \<open>Environment and state\<close>

text \<open>
  Addresses: the program's own, those of \<open>ario-gar\<close>, and any other account. An account of a
  foreign program is its owner and its data.
\<close>

datatype arns_pda =
    ArnsConfigPda
  | DemandFactorPda
  | NameRegistryPda
  | ArnsRecordPda name_hash
  | ReturnedNamePda name_hash
  | ReservedNamePda name_hash
  | GarAccount gar_pda
  | OtherAccount pubkey

record raw_account =
  ra_owner :: pubkey
  ra_data :: "u8 list"

record arns_env = "arns_pda env" +
  sha256 :: "string \<Rightarrow> name_hash"
  unicode_lowercase :: "string \<Rightarrow> string" \<comment> \<open>\<open>str::to_lowercase\<close> of a string that is not all ASCII\<close>
  raw_accounts :: "pubkey \<rightharpoonup> raw_account"
  upgrade_authority :: "pubkey option"

text \<open>The environment a cross-program call into \<open>ario-gar\<close> runs in.\<close>

definition gar_view :: "arns_env \<Rightarrow> gar_env" where
  "gar_view env = \<lparr>now = now env, pda_bump = (\<lambda>p. pda_bump env (GarAccount p)),
     pda_key = (\<lambda>p. pda_key env (GarAccount p)), token_accounts = token_accounts env,
     spl_accepts = spl_accepts env\<rparr>"

record arns_state =
  arns_config_acc :: "arns_config option"
  demand_acc :: "demand_factor option"
  names_acc :: "name_registry option"
  arns_records :: "name_hash \<rightharpoonup> arns_record"
  returned_names :: "name_hash \<rightharpoonup> returned_name"
  reserved_names :: "name_hash \<rightharpoonup> reserved_name"
  gar_acc :: gar_state

text \<open>\<open>token::transfer(..)?\<close> and a cross-program call of an \<open>ario-gar\<close> instruction.\<close>

definition gar_cpi :: "gar_state gar_result \<Rightarrow> arns_state \<Rightarrow> arns_state arns_result" where
  "gar_cpi r s = (case r of Inl e \<Rightarrow> Inl (GarFailure e) | Inr g \<Rightarrow> Inr (s\<lparr>gar_acc := g\<rparr>))"

definition arns_transfer ::
  "arns_env \<Rightarrow> pubkey \<Rightarrow> pubkey \<Rightarrow> pubkey \<Rightarrow> u64 \<Rightarrow> arns_state \<Rightarrow> arns_state arns_result" where
  "arns_transfer env src dst auth amount s =
     (case token_transfer (gar_view env) src dst auth amount (gar_acc s) of
        Inl _ \<Rightarrow> Inl ArnsTransferFailed
      | Inr g \<Rightarrow> Inr (s\<lparr>gar_acc := g\<rparr>))"

text \<open>\<open>u64::try_from(x)\<close> on a \<open>u128\<close>.\<close>

definition u64_try_from :: "u128 \<Rightarrow> u64 option" where
  "u64_try_from x = (if uint x < 2 ^ 64 then Some (ucast x) else None)"

lemma u64_try_from_iff [result_iff]:
  "u64_try_from x = Some y \<longleftrightarrow> uint x < 2 ^ 64 \<and> y = ucast x"
  by (auto simp: u64_try_from_def)

lemma uint_ucast_u64: "uint x < 2 ^ 64 \<Longrightarrow> uint (ucast (x :: u128) :: u64) = uint x"
  by (simp add: unsigned_ucast_eq take_bit_int_eq_self)

section \<open>Name records\<close>

definition checked_undername_limit :: "u16 \<Rightarrow> u16 \<Rightarrow> u16 arns_result" where
  "checked_undername_limit current quantity =
     require (quantity > 0) InvalidUndernameQuantity (
     ok_or (checked_add current quantity) UndernameLimitExceeded (\<lambda>new_limit.
     require (new_limit \<le> MAX_UNDERNAME_LIMIT) UndernameLimitExceeded (Inr new_limit)))"

definition is_active :: "arns_record \<Rightarrow> i64 \<Rightarrow> bool" where
  "is_active r timestamp =
     (case ar_purchase_type r of
        Permabuy \<Rightarrow> True
      | Lease \<Rightarrow> (case ar_end_timestamp r of Some e \<Rightarrow> e \<ge> timestamp | None \<Rightarrow> True))"

definition is_in_grace_period :: "arns_record \<Rightarrow> i64 \<Rightarrow> i64 \<Rightarrow> bool" where
  "is_in_grace_period r timestamp grace_period =
     (case ar_purchase_type r of
        Permabuy \<Rightarrow> False
      | Lease \<Rightarrow> (case ar_end_timestamp r of
          Some e \<Rightarrow> e < timestamp \<and> timestamp \<le> saturating_add_i64 e grace_period
        | None \<Rightarrow> False))"

text \<open>The owner field of a Metaplex Core \<open>AssetV1\<close> account.\<close>

definition read_mpl_core_owner :: "u8 list \<Rightarrow> pubkey arns_result" where
  "read_mpl_core_owner data =
     require (length data \<ge> 33) InvalidAntAsset (
     require (data ! 0 = 1) InvalidAntAsset (
     Inr (of_nat (le_nat (take 32 (drop 1 data))))))"

section \<open>The name registry\<close>

definition NAME_REGISTRY_HEADER_BYTES :: nat where "NAME_REGISTRY_HEADER_BYTES = 8 + (32 + 4 + 4)"
definition NAME_ENTRY_SIZE :: nat where "NAME_ENTRY_SIZE = 32 + 4 + 4"
definition INITIAL_CAPACITY :: nat where "INITIAL_CAPACITY = 50000"

definition bytes_for_capacity :: "nat \<Rightarrow> nat" where
  "bytes_for_capacity slots = NAME_REGISTRY_HEADER_BYTES + slots * NAME_ENTRY_SIZE"

definition slot_capacity :: "nat \<Rightarrow> nat" where
  "slot_capacity data_len = (data_len - NAME_REGISTRY_HEADER_BYTES) div NAME_ENTRY_SIZE"

definition default_entry :: name_entry where
  "default_entry = \<lparr>ne_name_hash = 0, ne_registry_index = 0\<rparr>"

definition append_name_entry :: "name_registry \<Rightarrow> name_entry \<Rightarrow> name_registry arns_result" where
  "append_name_entry r entry =
     (let count_before = unat (nr_count r) in
      require (count_before < slot_capacity (nr_data_len r)) ArnsRegistryFull (
      ok_or (checked_add (nr_count r) 1) ArnsArithmeticOverflow (\<lambda>new_count.
      Inr (r\<lparr>nr_count := new_count, nr_slots := (nr_slots r)[count_before := entry]\<rparr>))))"

text \<open>The first position below \<open>n\<close> whose slot holds the hash.\<close>

fun find_name :: "name_hash \<Rightarrow> nat \<Rightarrow> name_entry list \<Rightarrow> nat option" where
  "find_name h 0 es = None"
| "find_name h (Suc n) [] = None"
| "find_name h (Suc n) (e # es) =
     (if ne_name_hash e = h then Some 0 else map_option Suc (find_name h n es))"

definition remove_name_entry_by_hash :: "name_hash \<Rightarrow> name_registry \<Rightarrow> name_registry" where
  "remove_name_entry_by_hash h r =
     (let count = min (unat (nr_count r)) (slot_capacity (nr_data_len r)) in
      case find_name h count (nr_slots r) of
        None \<Rightarrow> r
      | Some i \<Rightarrow>
         (let last = count - 1;
              slots = (if i \<noteq> last
                       then (nr_slots r)[i := (nr_slots r ! last)\<lparr>ne_registry_index := of_nat i\<rparr>]
                       else nr_slots r)
          in r\<lparr>nr_slots := slots[last := default_entry], nr_count := of_nat last\<rparr>))"

text \<open>Growing the account's data adds zeroed slots.\<close>

definition resize_registry :: "nat \<Rightarrow> name_registry \<Rightarrow> name_registry" where
  "resize_registry len r =
     r\<lparr>nr_data_len := len,
       nr_slots := nr_slots r @ replicate (slot_capacity len - length (nr_slots r)) default_entry\<rparr>"

end
