(* ===== verification/Arns_Demand.thy ===== *)
theory Arns_Demand
  imports Arns_State
begin

text \<open>
  The demand factor (\<open>instructions/demand.rs\<close>). Every pricing instruction first rolls the factor
  forward to the period of the clock, one period at a time for a short gap and in closed form for
  a long one. A \<open>while\<close> or \<open>for\<close> loop is a recursive function on the number of iterations that are
  left; \<open>zero_activity_cycle_length\<close>, whose \<open>loop\<close> has no such bound in the source, is a partial
  function whose value is proved to exist.
\<close>



section \<open>One period\<close>

definition get_period_for_timestamp :: "i64 \<Rightarrow> i64 \<Rightarrow> u64 arns_result" where
  "get_period_for_timestamp timestamp period_zero_start =
     (if timestamp < period_zero_start then Inr 1
      else ok_or (checked_sub_i64 timestamp period_zero_start) ArnsPanic (\<lambda>elapsed.
           Inr (of_int (elapsed div PERIOD_LENGTH_SECONDS) + 1)))"

text \<open>\<open>iter().sum()\<close> panics when it overflows.\<close>

fun sum_u64 :: "u64 list \<Rightarrow> u64 \<Rightarrow> u64 arns_result" where
  "sum_u64 [] acc = Inr acc"
| "sum_u64 (x # xs) acc = ok_or (checked_add acc x) ArnsPanic (\<lambda>acc. sum_u64 xs acc)"

definition mvg_avg_trailing_purchases :: "demand_factor \<Rightarrow> u64 arns_result" where
  "mvg_avg_trailing_purchases d =
     and_then (sum_u64 (df_trailing_period_purchases d) 0) (\<lambda>sum.
     Inr (sum div of_nat MOVING_AVG_PERIOD_COUNT))"

definition mvg_avg_trailing_revenues :: "demand_factor \<Rightarrow> u64 arns_result" where
  "mvg_avg_trailing_revenues d =
     and_then (sum_u64 (df_trailing_period_revenues d) 0) (\<lambda>sum.
     Inr (sum div of_nat MOVING_AVG_PERIOD_COUNT))"

definition is_demand_increasing :: "demand_factor \<Rightarrow> bool arns_result" where
  "is_demand_increasing d =
     (if df_criteria d = DEMAND_CRITERIA_PURCHASES then
        if df_purchases_this_period d = 0 then Inr False
        else and_then (mvg_avg_trailing_purchases d) (\<lambda>avg. Inr (df_purchases_this_period d > avg))
      else
        if df_revenue_this_period d = 0 then Inr False
        else and_then (mvg_avg_trailing_revenues d) (\<lambda>avg. Inr (df_revenue_this_period d > avg)))"

text \<open>\<open>u64::try_from(x as u128 * m / SCALE)\<close>, every step checked.\<close>

definition scaled_mul :: "u64 \<Rightarrow> u64 \<Rightarrow> u64 arns_result" where
  "scaled_mul x m =
     ok_or (checked_mul (as_u128 x) (as_u128 m)) ArnsArithmeticOverflow (\<lambda>p.
     ok_or (checked_div p (as_u128 DEMAND_FACTOR_SCALE)) ArnsArithmeticOverflow (\<lambda>q.
     ok_or (u64_try_from q) ArnsArithmeticOverflow Inr))"

fun update_fees :: "u64 list \<Rightarrow> u64 \<Rightarrow> u64 list arns_result" where
  "update_fees [] multiplier = Inr []"
| "update_fees (fee # fees) multiplier =
     and_then (scaled_mul fee multiplier) (\<lambda>f.
     and_then (update_fees fees multiplier) (\<lambda>fs. Inr (f # fs)))"

definition adjust_factor :: "bool \<Rightarrow> u64 \<Rightarrow> u64 arns_result" where
  "adjust_factor increasing factor =
     (if increasing then
        and_then (scaled_mul factor DEMAND_FACTOR_UP_ADJUSTMENT) (\<lambda>f. Inr (min f MAX_DEMAND_FACTOR))
      else if factor > DEMAND_FACTOR_MIN then scaled_mul factor DEMAND_FACTOR_DOWN_ADJUSTMENT
      else Inr factor)"

definition roll_one_period :: "demand_factor \<Rightarrow> demand_factor arns_result" where
  "roll_one_period d =
     and_then (is_demand_increasing d) (\<lambda>increasing.
     and_then (adjust_factor increasing (df_current_demand_factor d)) (\<lambda>factor.
     and_then
       (if factor \<le> DEMAND_FACTOR_MIN then
          if df_consecutive_periods_with_min_demand_factor d \<ge> MAX_PERIODS_AT_MIN_DEMAND_FACTOR then
            and_then (update_fees (df_fees d) DEMAND_FACTOR_MIN) (\<lambda>fees.
            Inr (DEMAND_FACTOR_SCALE, 0, fees))
          else
            ok_or (checked_add (df_consecutive_periods_with_min_demand_factor d) 1)
              ArnsArithmeticOverflow (\<lambda>c. Inr (DEMAND_FACTOR_MIN, c, df_fees d))
        else Inr (factor, 0, df_fees d)) (\<lambda>(factor, consecutive, fees).
     let ring_idx = unat (df_current_period d) mod MOVING_AVG_PERIOD_COUNT in
     ok_or (checked_add (df_current_period d) 1) ArnsArithmeticOverflow (\<lambda>next_period.
     Inr (d\<lparr>df_current_demand_factor := factor,
            df_consecutive_periods_with_min_demand_factor := consecutive,
            df_fees := fees,
            df_trailing_period_purchases :=
              (df_trailing_period_purchases d)[ring_idx := df_purchases_this_period d],
            df_trailing_period_revenues :=
              (df_trailing_period_revenues d)[ring_idx := df_revenue_this_period d],
            df_purchases_this_period := 0,
            df_revenue_this_period := 0,
            df_current_period := next_period\<rparr>)))))"

text \<open>\<open>for _ in 0..n { roll_one_period(demand)? }\<close>.\<close>

fun roll_periods :: "nat \<Rightarrow> demand_factor \<Rightarrow> demand_factor arns_result" where
  "roll_periods 0 d = Inr d"
| "roll_periods (Suc n) d = and_then (roll_one_period d) (roll_periods n)"

section \<open>The closed form of many periods without activity\<close>

definition zero_activity_step :: "u64 \<Rightarrow> u32 \<Rightarrow> u64 \<times> u32 \<times> bool" where
  "zero_activity_step factor consecutive =
     (let factor = (if factor > DEMAND_FACTOR_MIN
                    then ucast (as_u128 factor * as_u128 DEMAND_FACTOR_DOWN_ADJUSTMENT
                                div as_u128 DEMAND_FACTOR_SCALE)
                    else factor)
      in if factor \<le> DEMAND_FACTOR_MIN then
           if consecutive \<ge> MAX_PERIODS_AT_MIN_DEMAND_FACTOR then (DEMAND_FACTOR_SCALE, 0, True)
           else (DEMAND_FACTOR_MIN, consecutive + 1, False)
         else (factor, 0, False))"

text \<open>The \<open>loop\<close> of \<open>zero_activity_cycle_length\<close>; \<open>None\<close> is a loop that never returns.\<close>

partial_function (option) cycle_steps :: "u64 \<Rightarrow> u32 \<Rightarrow> u64 \<Rightarrow> u64 option" where
  "cycle_steps factor consecutive steps =
     (let steps = steps + 1;
          (f, c, halved) = zero_activity_step factor consecutive
      in if halved then Some steps else cycle_steps f c steps)"

definition zero_activity_cycle_length :: "u64 option" where
  "zero_activity_cycle_length = cycle_steps DEMAND_FACTOR_SCALE 0 0"

text \<open>One turn of the loops of \<open>advance_zero_activity_periods\<close> on factor, count and fees.\<close>

definition zero_activity_turn :: "u64 \<times> u32 \<times> u64 list \<Rightarrow> (u64 \<times> u32 \<times> u64 list) arns_result" where
  "zero_activity_turn = (\<lambda>(factor, consecutive, fees).
     let (f, c, halved) = zero_activity_step factor consecutive in
     if halved then and_then (update_fees fees DEMAND_FACTOR_MIN) (\<lambda>fees. Inr (f, c, fees))
     else Inr (f, c, fees))"

text \<open>Phase 1: to the next boundary, or until no period remains.\<close>

fun to_boundary :: "nat \<Rightarrow> u64 \<times> u32 \<times> u64 list \<Rightarrow> (nat \<times> u64 \<times> u32 \<times> u64 list) arns_result" where
  "to_boundary 0 x = Inr (0, x)"
| "to_boundary (Suc remaining) x =
     (if fst x = DEMAND_FACTOR_SCALE \<and> fst (snd x) = 0 then Inr (Suc remaining, x)
      else and_then (zero_activity_turn x) (to_boundary remaining))"

text \<open>Phase 2: one halving per whole cycle, until the fees are all zero.\<close>

fun halve_cycles :: "nat \<Rightarrow> u64 list \<Rightarrow> u64 list arns_result" where
  "halve_cycles 0 fees = Inr fees"
| "halve_cycles (Suc n) fees =
     (if \<exists>f \<in> set fees. f \<noteq> 0 then and_then (update_fees fees DEMAND_FACTOR_MIN) (halve_cycles n)
      else Inr fees)"

text \<open>Phase 3: the rest, period by period.\<close>

fun zero_activity_turns :: "nat \<Rightarrow> u64 \<times> u32 \<times> u64 list \<Rightarrow> (u64 \<times> u32 \<times> u64 list) arns_result" where
  "zero_activity_turns 0 x = Inr x"
| "zero_activity_turns (Suc n) x = and_then (zero_activity_turn x) (zero_activity_turns n)"

text \<open>
  A transaction whose loop did not end would run out of compute units and fail; that branch is
  never taken, since the cycle has a length.
\<close>

definition advance_zero_activity_periods :: "demand_factor \<Rightarrow> u64 \<Rightarrow> demand_factor arns_result" where
  "advance_zero_activity_periods d n =
     (if n = 0 then Inr d else
      and_then (to_boundary (unat n)
        (df_current_demand_factor d, df_consecutive_periods_with_min_demand_factor d, df_fees d))
        (\<lambda>(remaining, factor, consecutive, fees).
      and_then
        (if remaining > 0 then
           ok_or zero_activity_cycle_length ArnsPanic (\<lambda>cycle_len.
           and_then (halve_cycles (remaining div unat cycle_len) fees) (\<lambda>fees.
           zero_activity_turns (remaining mod unat cycle_len) (factor, consecutive, fees)))
         else Inr (factor, consecutive, fees)) (\<lambda>(factor, consecutive, fees).
      ok_or (checked_add (df_current_period d) n) ArnsArithmeticOverflow (\<lambda>period.
      Inr (d\<lparr>df_trailing_period_purchases := replicate MOVING_AVG_PERIOD_COUNT 0,
             df_trailing_period_revenues := replicate MOVING_AVG_PERIOD_COUNT 0,
             df_purchases_this_period := 0,
             df_revenue_this_period := 0,
             df_fees := fees,
             df_current_demand_factor := factor,
             df_consecutive_periods_with_min_demand_factor := consecutive,
             df_current_period := period\<rparr>)))))"

section \<open>Rolling forward to the clock\<close>

definition MAX_ROLLOVER_PERIODS :: u64 where "MAX_ROLLOVER_PERIODS = 100"

definition maybe_roll_demand_period :: "demand_factor \<Rightarrow> i64 \<Rightarrow> demand_factor arns_result" where
  "maybe_roll_demand_period d timestamp =
     and_then (get_period_for_timestamp timestamp (df_period_zero_start_timestamp d)) (\<lambda>period.
     if period \<le> df_current_period d then Inr d
     else if period - df_current_period d \<le> MAX_ROLLOVER_PERIODS
     then roll_periods (unat (period - df_current_period d)) d
     else and_then (roll_one_period d) (\<lambda>d1.
          advance_zero_activity_periods d1 (period - df_current_period d1)))"

definition update_demand_factor :: "arns_env \<Rightarrow> arns_state \<Rightarrow> arns_state arns_result" where
  "update_demand_factor env s =
     ok_or (demand_acc s) ArnsAccountMissing (\<lambda>d.
     and_then (maybe_roll_demand_period d (now env)) (\<lambda>d1.
     Inr (s\<lparr>demand_acc := Some d1\<rparr>)))"

end
