(* ===== verification/Arns_Rollover.thy ===== *)
theory Arns_Rollover
  imports Arns_Demand
begin

text \<open>
  The rollover of the demand factor: a period without activity is one turn of a pure function on
  factor, count and fees; the closed form applies that function as often as there are periods; so
  \<open>maybe_roll_demand_period\<close> is the loop that rolls one period at a time, for every gap. The work
  of the closed form does not grow with the gap.
\<close>

lemmas step_eval = zero_activity_step_def DEMAND_FACTOR_MIN_def DEMAND_FACTOR_DOWN_ADJUSTMENT_def
  DEMAND_FACTOR_SCALE_def MAX_PERIODS_AT_MIN_DEMAND_FACTOR_def

lemma seven_not_le_one: "\<not> (7 :: u32) \<le> 1"
  by (simp add: word_le_def)

section \<open>Scaled multiplication\<close>

lemma scaled_product:
  fixes x m :: u64
  assumes "uint m \<le> 1000000"
  shows "uint (as_u128 x * as_u128 m) = uint x * uint m"
    and "uint x * uint m < 2 ^ 128"
    and "uint (as_u128 x * as_u128 m div 1000000) = uint x * uint m div 1000000"
    and "uint x * uint m div 1000000 < 2 ^ 64"
    and "(ucast (as_u128 x * as_u128 m div 1000000) :: u64) = word_of_int (uint x * uint m div 1000000)"
proof -
  have x: "uint x < 2 ^ 64" "0 \<le> uint x" by (rule uint_bounds64)+
  show prod: "uint x * uint m < 2 ^ 128"
    using x assms mult_mono [of "uint x" "2 ^ 64" "uint m" 1000000] by simp
  show p: "uint (as_u128 x * as_u128 m) = uint x * uint m"
    using prod by (simp add: uint_mult_exact)
  show q: "uint (as_u128 x * as_u128 m div 1000000) = uint x * uint m div 1000000"
    by (simp add: uint_div p)
  have "uint x * uint m \<le> uint x * 1000000"
    using x assms by (simp add: mult_left_mono)
  then show "uint x * uint m div 1000000 < 2 ^ 64"
    using x by (simp add: div_less_iff_less_mult)
  show "(ucast (as_u128 x * as_u128 m div 1000000) :: u64) = word_of_int (uint x * uint m div 1000000)"
    by (simp add: q [symmetric])
qed

lemma scaled_mul_down:
  assumes "uint m \<le> 1000000"
  shows "scaled_mul x m = Inr (word_of_int (uint x * uint m div 1000000))"
  using scaled_product [OF assms, of x]
  by (simp add: scaled_mul_def checked_mul_def checked_div_def u64_try_from_def DEMAND_FACTOR_SCALE_def)

definition half :: "u64 \<Rightarrow> u64" where
  "half f = word_of_int (uint f div 2)"

lemma scaled_mul_MIN: "scaled_mul f DEMAND_FACTOR_MIN = Inr (half f)"
  by (simp add: scaled_mul_down DEMAND_FACTOR_MIN_def half_def)

lemma update_fees_half: "update_fees fees DEMAND_FACTOR_MIN = Inr (map half fees)"
  by (induction fees) (simp_all add: scaled_mul_MIN)

section \<open>A turn without activity\<close>

definition zturn :: "u64 \<times> u32 \<times> u64 list \<Rightarrow> u64 \<times> u32 \<times> u64 list" where
  "zturn = (\<lambda>(factor, consecutive, fees).
     let (f, c, halved) = zero_activity_step factor consecutive in
     (f, c, if halved then map half fees else fees))"

lemma zero_activity_turn_zturn: "zero_activity_turn x = Inr (zturn x)"
  by (cases x) (simp add: zero_activity_turn_def zturn_def update_fees_half split: prod.split)

lemma zero_activity_turns_zturn: "zero_activity_turns n x = Inr ((zturn ^^ n) x)"
  by (induction n arbitrary: x) (simp_all add: zero_activity_turn_zturn funpow_swap1)

lemma to_boundary_zturn:
  "\<exists>r. r \<le> n \<and> to_boundary n x = Inr (r, (zturn ^^ (n - r)) x)
     \<and> (r > 0 \<longrightarrow> (\<exists>fees. (zturn ^^ (n - r)) x = (DEMAND_FACTOR_SCALE, 0, fees)))"
proof (induction n arbitrary: x)
  case (Suc n)
  show ?case
  proof (cases "fst x = DEMAND_FACTOR_SCALE \<and> fst (snd x) = 0")
    case True
    then show ?thesis by (intro exI [of _ "Suc n"]) (cases x, auto)
  next
    case False
    obtain r where r: "r \<le> n" "to_boundary n (zturn x) = Inr (r, (zturn ^^ (n - r)) (zturn x))"
      "r > 0 \<longrightarrow> (\<exists>fees. (zturn ^^ (n - r)) (zturn x) = (DEMAND_FACTOR_SCALE, 0, fees))"
      using Suc.IH [of "zturn x"] by blast
    have "(zturn ^^ (n - r)) (zturn x) = (zturn ^^ (Suc n - r)) x"
      using r(1) by (simp add: Suc_diff_le funpow_swap1)
    with r False show ?thesis
      by (intro exI [of _ r]) (auto simp: zero_activity_turn_zturn)
  qed
qed simp

lemma halve_cycles_half: "halve_cycles n fees = Inr ((map half ^^ n) fees)"
proof (induction n arbitrary: fees)
  case (Suc n)
  have "map half fees = fees" if "\<forall>f \<in> set fees. f = 0"
    using that by (intro map_idI) (auto simp: half_def)
  then have zero: "(map half ^^ k) fees = fees" if "\<forall>f \<in> set fees. f = 0" for k
    using that by (induction k) simp_all
  show ?case
  proof (cases "\<forall>f \<in> set fees. f = 0")
    case True
    then show ?thesis using zero [of "Suc n"] by (simp only: halve_cycles.simps) auto
  qed (auto simp: Suc.IH update_fees_half funpow_swap1)
qed simp

section \<open>The cycle\<close>

lemma cycle_length: "zero_activity_cycle_length = Some 53"
  unfolding zero_activity_cycle_length_def
  by (subst DEMAND_FACTOR_SCALE_def) (simp add: cycle_steps.simps step_eval seven_not_le_one)

lemma turns_numeral:
  "zero_activity_turns (numeral k) x = zero_activity_turns (pred_numeral k) (zturn x)"
  by (simp add: numeral_eq_Suc zero_activity_turn_zturn)

lemma zturn_cycle: "(zturn ^^ 53) (DEMAND_FACTOR_SCALE, 0, fees) = (DEMAND_FACTOR_SCALE, 0, map half fees)"
proof -
  have "zero_activity_turns 53 (1000000, 0, fees) = Inr (1000000, 0, map half fees)"
    by (simp add: turns_numeral zero_activity_turn_zturn zturn_def step_eval seven_not_le_one)
  then show ?thesis by (simp add: zero_activity_turns_zturn DEMAND_FACTOR_SCALE_def)
qed

lemma zturn_cycles:
  "(zturn ^^ (53 * n)) (DEMAND_FACTOR_SCALE, 0, fees) = (DEMAND_FACTOR_SCALE, 0, (map half ^^ n) fees)"
proof (induction n arbitrary: fees)
  case (Suc n)
  have "(zturn ^^ (53 * Suc n)) x = (zturn ^^ (53 * n)) ((zturn ^^ 53) x)" for x
    by (simp only: mult_Suc_right funpow_add add.commute [of 53] comp_apply)
  with Suc show ?case by (simp add: zturn_cycle funpow_swap1)
qed simp

lemma advance_zturn:
  assumes "(f, c, fees) = (zturn ^^ unat n) (df_current_demand_factor d,
      df_consecutive_periods_with_min_demand_factor d, df_fees d)"
    and "uint (df_current_period d) + uint n < 2 ^ 64" and "n \<noteq> 0"
  shows "advance_zero_activity_periods d n =
    Inr (d\<lparr>df_trailing_period_purchases := replicate MOVING_AVG_PERIOD_COUNT 0,
           df_trailing_period_revenues := replicate MOVING_AVG_PERIOD_COUNT 0,
           df_purchases_this_period := 0, df_revenue_this_period := 0, df_fees := fees,
           df_current_demand_factor := f, df_consecutive_periods_with_min_demand_factor := c,
           df_current_period := df_current_period d + n\<rparr>)"
proof -
  define x where "x = (df_current_demand_factor d, df_consecutive_periods_with_min_demand_factor d, df_fees d)"
  obtain r where r: "r \<le> unat n" "to_boundary (unat n) x = Inr (r, (zturn ^^ (unat n - r)) x)"
    "r > 0 \<longrightarrow> (\<exists>fees. (zturn ^^ (unat n - r)) x = (DEMAND_FACTOR_SCALE, 0, fees))"
    using to_boundary_zturn by blast
  obtain f1 c1 fees1 where y: "(zturn ^^ (unat n - r)) x = (f1, c1, fees1)"
    by (cases "(zturn ^^ (unat n - r)) x")
  have split: "(zturn ^^ unat n) x = (zturn ^^ r) (f1, c1, fees1)"
  proof -
    have "(zturn ^^ unat n) x = (zturn ^^ (r + (unat n - r))) x" using r(1) by simp
    then show ?thesis using y by (simp only: funpow_add comp_apply)
  qed
  have "(zturn ^^ r) (f1, c1, fees1)
      = (zturn ^^ (r mod 53)) (f1, c1, (map half ^^ (r div 53)) fees1)" if "r > 0"
  proof -
    have "(zturn ^^ r) = (zturn ^^ (r mod 53)) \<circ> (zturn ^^ (53 * (r div 53)))"
      by (metis funpow_add mod_mult_div_eq)
    with r(3) y that zturn_cycles [of "r div 53" fees1] show ?thesis by auto
  qed
  with split assms(1) have rest: "(zturn ^^ (r mod 53)) (f1, c1, (map half ^^ (r div 53)) fees1) = (f, c, fees)"
    if "r > 0" using that by (simp add: x_def)
  have none: "(f1, c1, fees1) = (f, c, fees)" if "r = 0"
    using split assms(1) that by (simp add: x_def)
  show ?thesis
    using assms(2,3) r(2) y none rest
    by (cases "r = 0") (simp_all add: advance_zero_activity_periods_def x_def [symmetric] cycle_length
        halve_cycles_half zero_activity_turns_zturn checked_add_def)
qed

section \<open>A period without activity\<close>

definition quiet :: "demand_factor \<Rightarrow> bool" where
  "quiet d \<longleftrightarrow> df_purchases_this_period d = 0 \<and> df_revenue_this_period d = 0"

definition zstate :: "demand_factor \<Rightarrow> u64 \<times> u32 \<times> u64 list" where
  "zstate d = (df_current_demand_factor d, df_consecutive_periods_with_min_demand_factor d, df_fees d)"

definition rings_sized :: "demand_factor \<Rightarrow> bool" where
  "rings_sized d \<longleftrightarrow> length (df_trailing_period_purchases d) = MOVING_AVG_PERIOD_COUNT
     \<and> length (df_trailing_period_revenues d) = MOVING_AVG_PERIOD_COUNT"

definition with_zstate :: "u64 \<times> u32 \<times> u64 list \<Rightarrow> demand_factor \<Rightarrow> demand_factor" where
  "with_zstate = (\<lambda>(f, c, fees) d. d\<lparr>df_current_demand_factor := f,
     df_consecutive_periods_with_min_demand_factor := c, df_fees := fees\<rparr>)"

definition quiet_ring :: "demand_factor \<Rightarrow> demand_factor" where
  "quiet_ring d = (let i = unat (df_current_period d) mod MOVING_AVG_PERIOD_COUNT in
     d\<lparr>df_trailing_period_purchases := (df_trailing_period_purchases d)[i := 0],
       df_trailing_period_revenues := (df_trailing_period_revenues d)[i := 0],
       df_current_period := df_current_period d + 1\<rparr>)"

definition decayed :: "u64 \<Rightarrow> u64" where
  "decayed f = (if f > DEMAND_FACTOR_MIN
     then ucast (as_u128 f * as_u128 DEMAND_FACTOR_DOWN_ADJUSTMENT div as_u128 DEMAND_FACTOR_SCALE)
     else f)"

lemma zero_activity_step_decayed:
  "zero_activity_step f c =
     (if decayed f \<le> DEMAND_FACTOR_MIN then
        if c \<ge> MAX_PERIODS_AT_MIN_DEMAND_FACTOR then (DEMAND_FACTOR_SCALE, 0, True)
        else (DEMAND_FACTOR_MIN, c + 1, False)
      else (decayed f, 0, False))"
  by (simp only: zero_activity_step_def decayed_def Let_def)

lemma adjust_down: "adjust_factor False f = Inr (decayed f)"
  using scaled_product(5) [of DEMAND_FACTOR_DOWN_ADJUSTMENT f]
    scaled_mul_down [of DEMAND_FACTOR_DOWN_ADJUSTMENT f]
  by (simp add: adjust_factor_def decayed_def DEMAND_FACTOR_DOWN_ADJUSTMENT_def DEMAND_FACTOR_SCALE_def)

lemma quiet_not_increasing: "quiet d \<Longrightarrow> is_demand_increasing d = Inr False"
  by (simp add: quiet_def is_demand_increasing_def)

lemma count_up:
  "\<not> c \<ge> MAX_PERIODS_AT_MIN_DEMAND_FACTOR \<Longrightarrow> checked_add c 1 = Some (c + 1)" for c :: u32
  by (simp add: checked_add_def MAX_PERIODS_AT_MIN_DEMAND_FACTOR_def word_le_def)

lemma roll_quiet:
  assumes "quiet d" and "uint (df_current_period d) + 1 < 2 ^ 64"
  shows "roll_one_period d = Inr (quiet_ring (with_zstate (zturn (zstate d)) d)
           \<lparr>df_purchases_this_period := 0, df_revenue_this_period := 0\<rparr>)"
proof -
  have period: "checked_add (df_current_period d) 1 = Some (df_current_period d + 1)"
    using assms(2) by (simp add: checked_add_def)
  show ?thesis
    using quiet_not_increasing [OF assms(1)] assms(1) count_up [of "df_consecutive_periods_with_min_demand_factor d"]
    by (simp add: roll_one_period_def adjust_down zturn_def zero_activity_step_decayed zstate_def
        with_zstate_def quiet_ring_def Let_def update_fees_half quiet_def period)
qed

section \<open>Many periods without activity\<close>

definition ring_after :: "nat \<Rightarrow> nat \<Rightarrow> u64 list \<Rightarrow> u64 list" where
  "ring_after n p ring = foldl (\<lambda>xs k. xs[(p + k) mod MOVING_AVG_PERIOD_COUNT := 0]) ring [0..<n]"

lemma ring_after_0 [simp]: "ring_after 0 p ring = ring"
  by (simp add: ring_after_def)

lemma ring_after_Suc:
  "ring_after (Suc n) p ring = ring_after n (Suc p) (ring[p mod MOVING_AVG_PERIOD_COUNT := 0])"
proof -
  have "[0..<Suc n] = 0 # map Suc [0..<n]" by (simp add: upt_conv_Cons map_Suc_upt)
  then show ?thesis by (simp add: ring_after_def foldl_map)
qed

lemma length_ring_after [simp]: "length (ring_after n p ring) = length ring"
  by (induction n arbitrary: p ring) (simp_all add: ring_after_Suc)

lemma ring_after_nth:
  "i < length ring \<Longrightarrow> ring_after n p ring ! i =
     (if \<exists>k < n. (p + k) mod MOVING_AVG_PERIOD_COUNT = i then 0 else ring ! i)"
proof (induction n arbitrary: p ring)
  case (Suc n)
  have "(\<exists>k < Suc n. (p + k) mod MOVING_AVG_PERIOD_COUNT = i)
      \<longleftrightarrow> p mod MOVING_AVG_PERIOD_COUNT = i \<or> (\<exists>k < n. (Suc p + k) mod MOVING_AVG_PERIOD_COUNT = i)"
    by (auto simp: less_Suc_eq_0_disj)
  with Suc.IH [of "ring[p mod MOVING_AVG_PERIOD_COUNT := 0]" "Suc p"] Suc.prems show ?case
    by (auto simp: ring_after_Suc nth_list_update)
qed simp

lemma ring_after_full:
  assumes "length ring = MOVING_AVG_PERIOD_COUNT" and "n \<ge> MOVING_AVG_PERIOD_COUNT"
  shows "ring_after n p ring = replicate MOVING_AVG_PERIOD_COUNT 0"
proof (rule nth_equalityI)
  fix i assume "i < length (ring_after n p ring)"
  then have i: "i < 7" using assms(1) by (simp add: MOVING_AVG_PERIOD_COUNT_def)
  define k where "k = (i + 7 - p mod 7) mod 7"
  have "(p + k) mod 7 = (p + (i + 7 - p mod 7)) mod 7"
    unfolding k_def by (rule mod_add_right_eq)
  also have "p + (i + 7 - p mod 7) = i + 7 * (1 + p div 7)"
  proof -
    obtain q r where qr: "p div 7 = q" "p mod 7 = r" by simp
    then have "7 * q + r = p" "r < 7" by auto
    then show ?thesis unfolding qr by arith
  qed
  also have "\<dots> mod 7 = i" using i by (simp only: mod_mult_self2 mod_less)
  finally have "(p + k) mod 7 = i" "k < 7" by (simp_all add: k_def)
  moreover have "k < n" using \<open>k < 7\<close> assms(2) by (simp add: MOVING_AVG_PERIOD_COUNT_def)
  ultimately have "\<exists>k < n. (p + k) mod 7 = i" by blast
  with i assms(1) show "ring_after n p ring ! i = replicate MOVING_AVG_PERIOD_COUNT 0 ! i"
    by (simp add: ring_after_nth MOVING_AVG_PERIOD_COUNT_def)
qed (use assms in simp)

definition quiet_after :: "nat \<Rightarrow> demand_factor \<Rightarrow> demand_factor" where
  "quiet_after n d = (with_zstate ((zturn ^^ n) (zstate d)) d)
     \<lparr>df_trailing_period_purchases := ring_after n (unat (df_current_period d)) (df_trailing_period_purchases d),
      df_trailing_period_revenues := ring_after n (unat (df_current_period d)) (df_trailing_period_revenues d),
      df_purchases_this_period := 0, df_revenue_this_period := 0,
      df_current_period := df_current_period d + of_nat n\<rparr>"

lemma roll_periods_quiet:
  "quiet d \<Longrightarrow> uint (df_current_period d) + int n < 2 ^ 64 \<Longrightarrow> roll_periods n d = Inr (quiet_after n d)"
proof (induction n arbitrary: d)
  case 0
  then show ?case by (simp add: quiet_after_def with_zstate_def zstate_def quiet_def)
next
  case (Suc n)
  define d1 where "d1 = quiet_ring (with_zstate (zturn (zstate d)) d)
           \<lparr>df_purchases_this_period := 0, df_revenue_this_period := 0\<rparr>"
  have roll: "roll_one_period d = Inr d1" using roll_quiet Suc.prems by (simp add: d1_def)
  have period: "df_current_period d1 = df_current_period d + 1"
    by (simp add: d1_def quiet_ring_def with_zstate_def Let_def split: prod.split)
  have up: "uint (df_current_period d + 1) = uint (df_current_period d) + 1"
    using Suc.prems(2) by (subst uint_add_exact) simp_all
  have unat_up: "unat (df_current_period d + 1) = Suc (unat (df_current_period d))"
    using up unfolding uint_nat by linarith
  have "quiet d1" by (simp add: d1_def quiet_def)
  then have "roll_periods n d1 = Inr (quiet_after n d1)"
    using Suc.IH Suc.prems period up by simp
  moreover have "quiet_after n d1 = quiet_after (Suc n) d"
  proof -
    obtain f c fees where z: "zturn (zstate d) = (f, c, fees)" by (cases "zturn (zstate d)")
    obtain f' c' fees' where z': "(zturn ^^ n) (f, c, fees) = (f', c', fees')"
      by (cases "(zturn ^^ n) (f, c, fees)")
    have d1: "d1 = quiet_ring (with_zstate (f, c, fees) d)
        \<lparr>df_purchases_this_period := 0, df_revenue_this_period := 0\<rparr>"
      by (simp only: d1_def z)
    then have "zstate d1 = (f, c, fees)"
      by (simp add: quiet_ring_def with_zstate_def zstate_def Let_def)
    moreover have "(zturn ^^ Suc n) (zstate d) = (f', c', fees')"
      using z z' by (simp add: funpow_swap1)
    ultimately show ?thesis
      using z' unat_up
      by (cases d) (simp add: quiet_after_def d1 quiet_ring_def with_zstate_def Let_def ring_after_Suc)
  qed
  ultimately show ?case using roll by simp
qed

section \<open>The whole rollover\<close>

lemma roll_one_period_frame:
  assumes "roll_one_period d = Inr d1"
  shows "quiet d1" "df_current_period d1 = df_current_period d + 1"
    "uint (df_current_period d) + 1 < 2 ^ 64" "rings_sized d \<Longrightarrow> rings_sized d1"
    "df_period_zero_start_timestamp d1 = df_period_zero_start_timestamp d"
  using assms
  by (auto simp: roll_one_period_def result_iff quiet_def rings_sized_def Let_def split: prod.splits)

lemma advance_quiet_after:
  assumes "rings_sized d" "quiet d" "unat n \<ge> MOVING_AVG_PERIOD_COUNT"
    and "uint (df_current_period d) + uint n < 2 ^ 64"
  shows "advance_zero_activity_periods d n = Inr (quiet_after (unat n) d)"
proof -
  obtain f c fees where z: "(zturn ^^ unat n) (zstate d) = (f, c, fees)"
    by (cases "(zturn ^^ unat n) (zstate d)")
  have "n \<noteq> 0" using assms(3) by (auto simp: MOVING_AVG_PERIOD_COUNT_def)
  then show ?thesis
    using advance_zturn [of f c fees n d] z assms
    by (simp add: zstate_def quiet_after_def with_zstate_def rings_sized_def ring_after_full)
qed

text \<open>For every gap, rolling forward is the loop that rolls one period at a time.\<close>

theorem rollover_loop:
  assumes "rings_sized d"
    and "get_period_for_timestamp timestamp (df_period_zero_start_timestamp d) = Inr period"
    and "df_current_period d < period"
  shows "maybe_roll_demand_period d timestamp = roll_periods (unat (period - df_current_period d)) d"
proof -
  have ahead: "\<not> period \<le> df_current_period d" using assms(3) by (simp add: leD)
  show ?thesis
proof (cases "period - df_current_period d \<le> MAX_ROLLOVER_PERIODS")
  case True
  with assms(2) ahead show ?thesis by (simp add: maybe_roll_demand_period_def)
next
  case False
  define gap where "gap = unat (period - df_current_period d)"
  have gap: "int gap = uint period - uint (df_current_period d)"
    using assms(3) by (simp add: gap_def uint_sub_exact flip: uint_nat)
  have "100 < gap" using False
    by (simp add: gap_def MAX_ROLLOVER_PERIODS_def word_le_nat_alt)
  show ?thesis
  proof (cases "roll_one_period d")
    case (Inl e)
    have "gap = Suc (gap - 1)" using \<open>100 < gap\<close> by simp
    then have "roll_periods gap d = Inl e" using Inl by (metis and_then_simps(1) roll_periods.simps(2))
    with Inl False assms(2) ahead show ?thesis by (simp add: maybe_roll_demand_period_def gap_def)
  next
    case (Inr d1)
    note frame = roll_one_period_frame [OF Inr]
    have p1: "uint (df_current_period d1) = uint (df_current_period d) + 1"
      using frame(2,3) by (subst frame(2), subst uint_add_exact) simp_all
    have le: "df_current_period d1 \<le> period"
      using p1 gap \<open>100 < gap\<close> by (simp add: word_le_def)
    have n: "uint (period - df_current_period d1) = int (gap - 1)"
      using p1 gap \<open>100 < gap\<close> le by (simp add: uint_sub_exact)
    have n': "unat (period - df_current_period d1) = gap - 1"
      using n unfolding uint_nat by linarith
    have "advance_zero_activity_periods d1 (period - df_current_period d1) = Inr (quiet_after (gap - 1) d1)"
      using advance_quiet_after [of d1 "period - df_current_period d1"] frame assms(1) n' n p1 gap
        \<open>100 < gap\<close> uint_bounds64 [of period]
      by (simp add: MOVING_AVG_PERIOD_COUNT_def)
    moreover have "roll_periods (gap - 1) d1 = Inr (quiet_after (gap - 1) d1)"
      using roll_periods_quiet [of d1 "gap - 1"] frame(1) p1 gap \<open>100 < gap\<close> uint_bounds64 [of period]
      by simp
    moreover have "roll_periods gap d = and_then (roll_one_period d) (roll_periods (gap - 1))"
    proof -
      have "gap = Suc (gap - 1)" using \<open>100 < gap\<close> by simp
      then show ?thesis by (metis roll_periods.simps(2))
    qed
    ultimately show ?thesis
      using Inr False assms(2) ahead by (simp add: maybe_roll_demand_period_def gap_def)
  qed
qed
qed

end
