(* ===== verification/Arns_Pricing.thy ===== *)
theory Arns_Pricing
  imports Arns_Demand
begin

text \<open>
  Prices (\<open>pricing.rs\<close>, \<open>instructions/cost.rs\<close>): fees from the base fee of a name's length and the
  demand factor, the decaying premium of a returned name, the discount of a gateway operator, and
  the rules for names. Every function is the source's chain of checked \<open>u128\<close> operations.
\<close>

section \<open>Fees\<close>

abbreviation mul_or_overflow :: "u128 \<Rightarrow> u128 \<Rightarrow> (u128 \<Rightarrow> 'a arns_result) \<Rightarrow> 'a arns_result" where
  "mul_or_overflow a b k \<equiv> ok_or (checked_mul a b) ArnsArithmeticOverflow k"

abbreviation div_or_overflow :: "u128 \<Rightarrow> u128 \<Rightarrow> (u128 \<Rightarrow> 'a arns_result) \<Rightarrow> 'a arns_result" where
  "div_or_overflow a b k \<equiv> ok_or (checked_div a b) ArnsArithmeticOverflow k"

abbreviation to_u64 :: "u128 \<Rightarrow> u64 arns_result" where
  "to_u64 x \<equiv> ok_or (u64_try_from x) ArnsArithmeticOverflow Inr"

definition calculate_registration_fee ::
  "u64 \<Rightarrow> purchase_type \<Rightarrow> u8 \<Rightarrow> u64 \<Rightarrow> u64 arns_result" where
  "calculate_registration_fee base_fee purchase_type years demand_factor =
     (let scale = as_u128 DEMAND_FACTOR_SCALE; bf = as_u128 base_fee; df = as_u128 demand_factor in
      case purchase_type of
        Lease \<Rightarrow>
          mul_or_overflow (as_u128 ANNUAL_PERCENTAGE_FEE) (as_u128 years) (\<lambda>annual.
          ok_or (checked_add scale annual) ArnsArithmeticOverflow (\<lambda>year_factor.
          mul_or_overflow bf df (\<lambda>p.
          mul_or_overflow p year_factor (\<lambda>p.
          div_or_overflow p scale (\<lambda>q.
          div_or_overflow q scale to_u64)))))
      | Permabuy \<Rightarrow>
          mul_or_overflow bf df (\<lambda>p.
          mul_or_overflow p 5 (\<lambda>p.
          div_or_overflow p scale to_u64)))"

definition calculate_extension_fee :: "u64 \<Rightarrow> u8 \<Rightarrow> u64 \<Rightarrow> u64 arns_result" where
  "calculate_extension_fee base_fee years demand_factor =
     (let scale = as_u128 DEMAND_FACTOR_SCALE in
      mul_or_overflow (as_u128 base_fee) (as_u128 demand_factor) (\<lambda>p.
      mul_or_overflow p (as_u128 ANNUAL_PERCENTAGE_FEE) (\<lambda>p.
      mul_or_overflow p (as_u128 years) (\<lambda>p.
      div_or_overflow p scale (\<lambda>q.
      div_or_overflow q scale to_u64)))))"

definition calculate_undername_cost ::
  "u64 \<Rightarrow> u16 \<Rightarrow> purchase_type \<Rightarrow> u64 \<Rightarrow> u64 arns_result" where
  "calculate_undername_cost base_fee qty purchase_type demand_factor =
     (let scale = as_u128 DEMAND_FACTOR_SCALE;
          pct = (case purchase_type of Lease \<Rightarrow> as_u128 UNDERNAME_LEASE_FEE_PCT
                                     | Permabuy \<Rightarrow> as_u128 UNDERNAME_PERMABUY_FEE_PCT) in
      mul_or_overflow (as_u128 base_fee) (as_u128 demand_factor) (\<lambda>p.
      mul_or_overflow p pct (\<lambda>p.
      mul_or_overflow p (as_u128 qty) (\<lambda>p.
      div_or_overflow p scale (\<lambda>q.
      div_or_overflow q scale to_u64)))))"

definition calculate_permabuy_fee :: "u64 \<Rightarrow> u64 \<Rightarrow> u64 arns_result" where
  "calculate_permabuy_fee base_fee demand_factor =
     calculate_registration_fee base_fee Permabuy 0 demand_factor"

text \<open>An \<open>as u128\<close> cast of an \<open>i64\<close> extends its sign.\<close>

definition calculate_returned_name_premium :: "u64 \<Rightarrow> i64 \<Rightarrow> i64 \<Rightarrow> u64 arns_result" where
  "calculate_returned_name_premium registration_fee returned_at current_timestamp =
     (let elapsed = saturating_sub_i64 current_timestamp returned_at;
          duration = RETURNED_NAME_DURATION_SECONDS in
      if elapsed \<ge> duration then Inr registration_fee
      else
        let scale = as_u128 DEMAND_FACTOR_SCALE; dur = of_int duration; el = of_int elapsed;
            max_mult = as_u128 RETURNED_NAME_MAX_MULTIPLIER in
        mul_or_overflow max_mult dur (\<lambda>top.
        mul_or_overflow (max_mult - 1) el (\<lambda>decay.
        ok_or (checked_sub top decay) ArnsArithmeticOverflow (\<lambda>numerator.
        mul_or_overflow numerator scale (\<lambda>p.
        div_or_overflow p dur (\<lambda>multiplier.
        mul_or_overflow (as_u128 registration_fee) multiplier (\<lambda>p.
        div_or_overflow p scale to_u64)))))))"

definition apply_gateway_operator_discount :: "u64 \<Rightarrow> u64 arns_result" where
  "apply_gateway_operator_discount token_cost =
     mul_or_overflow (as_u128 token_cost) (as_u128 GATEWAY_OPERATOR_DISCOUNT_PCT) (\<lambda>p.
     div_or_overflow p (as_u128 DEMAND_FACTOR_SCALE) (\<lambda>discount.
     ok_or (checked_sub (as_u128 token_cost) discount) ArnsArithmeticOverflow to_u64))"

definition get_base_fee_for_name_length :: "u64 list \<Rightarrow> nat \<Rightarrow> u64 arns_result" where
  "get_base_fee_for_name_length fees name_length =
     (if name_length < 1 \<or> name_length > 51 then Inl InvalidNameFormat
      else Inr (fees ! (name_length - 1)))"

section \<open>The discount of a gateway operator\<close>

text \<open>
  The first of \<open>remaining_accounts\<close>, when there is one, must be a gateway at its own address that
  authorises the signer, joined, old enough and with nine of ten epochs passed. An account of
  another program has the wrong owner; another account of \<open>ario-gar\<close> does not deserialise.
\<close>

definition try_apply_gateway_discount ::
  "arns_env \<Rightarrow> arns_state \<Rightarrow> u64 \<Rightarrow> arns_pda list \<Rightarrow> pubkey \<Rightarrow> u64 arns_result" where
  "try_apply_gateway_discount env s token_cost remaining signer =
     (case remaining of
        [] \<Rightarrow> Inr token_cost
      | gateway_info # _ \<Rightarrow>
         (case gateway_info of
            GarAccount p \<Rightarrow>
             ok_or (case p of GatewayPda k \<Rightarrow> gateways (gar_acc s) k | _ \<Rightarrow> None) ArnsInvalidParameter
               (\<lambda>g.
             require (p = GatewayPda (gw_operator g)) NotGatewayOperator (
             require (authorises g signer) NotGatewayOperator (
             require (gw_status g = Joined) GatewayNotActive (
             require (saturating_sub_i64 (now env) (gw_start_timestamp g)
                        \<ge> GATEWAY_DISCOUNT_MIN_TENURE) GatewayNotActive (
             ok_or (checked_mul (1 + ucast (st_passed_epochs (gw_stats g)) :: u64) 1000000)
               ArnsArithmeticOverflow (\<lambda>numerator.
             ok_or (checked_div numerator (1 + ucast (st_total_epochs (gw_stats g))))
               ArnsArithmeticOverflow (\<lambda>ratio.
             require (ratio \<ge> 900000) GatewayNotActive (
             apply_gateway_operator_discount token_cost))))))))
          | _ \<Rightarrow> Inl InvalidGatewayProgram))"

section \<open>Names\<close>

definition is_valid_arns_name :: "string \<Rightarrow> bool" where
  "is_valid_arns_name name =
     (let len = length name in
      if len < 1 \<or> len > 51 then False
      else if len = 43 then False
      else if list_ex is_ascii_uppercase name then False
      else if len = 1 then is_ascii_alphanumeric (name ! 0)
      else if \<not> is_ascii_alphanumeric (name ! 0) \<or> \<not> is_ascii_alphanumeric (name ! (len - 1)) then False
      else list_all (\<lambda>b. is_ascii_alphanumeric b \<or> b = CHR ''-'') (take (len - 2) (drop 1 name)))"

text \<open>\<open>str::to_lowercase\<close>: a string of ASCII characters is mapped character by character.\<close>

definition ascii_lowercase :: "char \<Rightarrow> char" where
  "ascii_lowercase c = (if is_ascii_uppercase c then char_of ((of_char c :: nat) + 32) else c)"

lemma ascii_lowercase_id: "\<not> is_ascii_uppercase c \<Longrightarrow> ascii_lowercase c = c"
  by (simp add: ascii_lowercase_def)

lemma of_char_lowercase:
  "(of_char (ascii_lowercase c) :: nat) =
     (if 65 \<le> (of_char c :: nat) \<and> (of_char c :: nat) \<le> 90 then of_char c + 32 else of_char c)"
  by (auto simp: ascii_lowercase_def is_ascii_uppercase_def Let_def)

lemma lowercase_not_upper [simp]: "\<not> is_ascii_uppercase (ascii_lowercase c)"
  by (auto simp: is_ascii_uppercase_def of_char_lowercase Let_def)

lemma lowercase_alphanumeric [simp]: "is_ascii_alphanumeric (ascii_lowercase c) = is_ascii_alphanumeric c"
  by (auto simp: is_ascii_alphanumeric_def of_char_lowercase Let_def)

definition to_lowercase :: "arns_env \<Rightarrow> string \<Rightarrow> string" where
  "to_lowercase env name =
     (if list_all (\<lambda>c. (of_char c :: nat) < 128) name then map ascii_lowercase name
      else unicode_lowercase env name)"

definition hash_name :: "arns_env \<Rightarrow> string \<Rightarrow> name_hash" where
  "hash_name env name = sha256 env (to_lowercase env name)"

section \<open>Quotes\<close>

datatype cost_intent =
    IntentBuyName | IntentExtendLease | IntentUpgradeName | IntentIncreaseUndernameLimit | IntentPrimaryNameRequest

record token_cost_params =
  tc_intent :: cost_intent
  tc_name :: string
  tc_years :: "u8 option"
  tc_quantity :: "u16 option"
  tc_purchase_type :: "purchase_type option"

text \<open>A view: the cost is the instruction's return data, and the state stays as it is.\<close>

definition get_token_cost :: "token_cost_params \<Rightarrow> arns_state \<Rightarrow> u64 arns_result" where
  "get_token_cost params s =
     ok_or (demand_acc s) ArnsAccountMissing (\<lambda>d.
     and_then (get_base_fee_for_name_length (df_fees d) (length (tc_name params))) (\<lambda>base_fee.
     let df = df_current_demand_factor d in
     case tc_intent params of
       IntentBuyName \<Rightarrow>
         let years = (case tc_years params of Some y \<Rightarrow> y | None \<Rightarrow> 1);
             pt = (case tc_purchase_type params of Some pt \<Rightarrow> pt
                   | None \<Rightarrow> if years > 0 then Lease else Permabuy)
         in calculate_registration_fee base_fee pt years df
     | IntentExtendLease \<Rightarrow>
         ok_or (tc_years params) ArnsInvalidParameter (\<lambda>years.
         calculate_extension_fee base_fee years df)
     | IntentUpgradeName \<Rightarrow> calculate_permabuy_fee base_fee df
     | IntentIncreaseUndernameLimit \<Rightarrow>
         ok_or (tc_quantity params) ArnsInvalidParameter (\<lambda>qty.
         ok_or (tc_purchase_type params) ArnsInvalidParameter (\<lambda>pt.
         calculate_undername_cost base_fee qty pt df))
     | IntentPrimaryNameRequest \<Rightarrow>
         and_then (get_base_fee_for_name_length (df_fees d) MAX_NAME_LENGTH) (\<lambda>primary_base_fee.
         calculate_undername_cost primary_base_fee 1
           (case tc_purchase_type params of Some pt \<Rightarrow> pt | None \<Rightarrow> Lease) df)))"

end
