(* ===== verification/Arns_Names.thy ===== *)
theory Arns_Names
  imports Arns_Pricing
begin

text \<open>
  Buying and managing names from the buyer's own balance (\<open>instructions/purchase.rs\<close>,
  \<open>instructions/manage.rs\<close>). The five funding modes of an operation repeat one body around the
  payment; that body is the operation's \<open>_body\<close>, with the discount and the payment as arguments,
  and each handler is its account context, its payment and the body.
\<close>

named_theorems arns_accounts "account contexts of ario-arns, unfolded"
named_theorems arns_handlers "instruction handlers of ario-arns, unfolded"
named_theorems arns_bodies "bodies shared by the funding modes, unfolded"

type_synonym discount = "u64 \<Rightarrow> arns_state \<Rightarrow> u64 arns_result"
type_synonym payment = "u64 \<Rightarrow> arns_state \<Rightarrow> arns_state arns_result"

record buy_params =
  bp_name :: string
  bp_purchase_type :: purchase_type
  bp_years :: u8
  bp_ant :: pubkey

section \<open>Token accounts of an instruction\<close>

definition caller_token_account ::
  "arns_env \<Rightarrow> arns_config \<Rightarrow> pubkey \<Rightarrow> pubkey \<Rightarrow> 'a arns_result \<Rightarrow> 'a arns_result" where
  [arns_accounts]: "caller_token_account env c key owner k =
     ok_or (token_accounts env key) ArnsAccountMissing (\<lambda>ta.
     require (ta_owner ta = owner) ArnsConstraint (
     require (ta_mint ta = ac_mint c) ArnsConstraint k))"

definition treasury_token_account ::
  "arns_env \<Rightarrow> arns_config \<Rightarrow> pubkey \<Rightarrow> 'a arns_result \<Rightarrow> 'a arns_result" where
  [arns_accounts]: "treasury_token_account env c key k =
     ok_or (token_accounts env key) ArnsAccountMissing (\<lambda>ta.
     require (key = ac_treasury c) InvalidTreasury (
     require (ta_mint ta = ac_mint c) ArnsConstraint k))"

definition initiator_token_account ::
  "arns_env \<Rightarrow> arns_config \<Rightarrow> returned_name \<Rightarrow> pubkey \<Rightarrow> 'a arns_result \<Rightarrow> 'a arns_result" where
  [arns_accounts]: "initiator_token_account env c rn key k =
     ok_or (token_accounts env key) ArnsAccountMissing (\<lambda>ta.
     require (ta_owner ta = rn_initiator rn) ArnsInvalidParameter (
     require (ta_mint ta = ac_mint c) ArnsConstraint k))"

section \<open>Steps that every purchase takes\<close>

text \<open>A live reservation lets only its target buy.\<close>

definition check_reserved :: "arns_env \<Rightarrow> name_hash \<Rightarrow> pubkey \<Rightarrow> arns_state \<Rightarrow> 'a arns_result \<Rightarrow> 'a arns_result" where
  "check_reserved env h buyer s k =
     (case reserved_names s h of
        None \<Rightarrow> k
      | Some rs \<Rightarrow>
         if (case rs_expires_at rs of None \<Rightarrow> False | Some exp \<Rightarrow> now env \<ge> exp) then k
         else (case rs_reserved_for rs of
                 Some target \<Rightarrow> require (target = buyer) NameReserved k
               | None \<Rightarrow> Inl NameReserved))"

definition check_years :: "purchase_type \<Rightarrow> u8 \<Rightarrow> 'a arns_result \<Rightarrow> 'a arns_result" where
  "check_years pt years k =
     require (pt = Lease \<longrightarrow> years \<ge> 1 \<and> years \<le> MAX_LEASE_LENGTH_YEARS) InvalidLeaseDuration k"

definition schedule_records_prune :: "i64 option \<Rightarrow> arns_config \<Rightarrow> arns_config arns_result" where
  "schedule_records_prune end_timestamp c =
     (case end_timestamp of
        None \<Rightarrow> Inr c
      | Some end_ts \<Rightarrow>
         ok_or (checked_add_i64 end_ts (ac_grace_period_seconds c)) ArnsArithmeticOverflow (\<lambda>prune_ts.
         Inr (if prune_ts < ac_next_records_prune_timestamp c
              then c\<lparr>ac_next_records_prune_timestamp := prune_ts\<rparr> else c)))"

definition schedule_returned_prune :: "i64 \<Rightarrow> arns_config \<Rightarrow> arns_config arns_result" where
  "schedule_returned_prune timestamp c =
     ok_or (checked_add_i64 timestamp (ac_return_auction_duration_seconds c)) ArnsArithmeticOverflow (\<lambda>prune_ts.
     Inr (if prune_ts < ac_next_returned_names_prune_timestamp c
          then c\<lparr>ac_next_returned_names_prune_timestamp := prune_ts\<rparr> else c))"

definition tally_demand :: "u64 \<Rightarrow> demand_factor \<Rightarrow> demand_factor arns_result" where
  "tally_demand token_cost d =
     ok_or (checked_add (df_purchases_this_period d) 1) ArnsArithmeticOverflow (\<lambda>purchases.
     ok_or (checked_add (df_revenue_this_period d) token_cost) ArnsArithmeticOverflow (\<lambda>revenue.
     Inr (d\<lparr>df_purchases_this_period := purchases, df_revenue_this_period := revenue\<rparr>)))"

definition lease_end :: "i64 \<Rightarrow> purchase_type \<Rightarrow> u8 \<Rightarrow> i64 option arns_result" where
  "lease_end timestamp pt years =
     (case pt of
        Permabuy \<Rightarrow> Inr None
      | Lease \<Rightarrow>
         ok_or (checked_mul_i64 (uint years) ONE_YEAR_SECONDS) ArnsArithmeticOverflow (\<lambda>duration.
         ok_or (checked_add_i64 timestamp duration) ArnsArithmeticOverflow (\<lambda>e. Inr (Some e))))"

text \<open>
  What follows the payment: the record, the configuration's count and schedule, the demand tally,
  the registry entry. A registry account that does not exist yet has no header to read.
\<close>

definition register_name ::
  "arns_env \<Rightarrow> name_hash \<Rightarrow> buy_params \<Rightarrow> pubkey \<Rightarrow> u64 \<Rightarrow> arns_config \<Rightarrow> demand_factor
     \<Rightarrow> arns_state \<Rightarrow> arns_state arns_result" where
  "register_name env h params buyer token_cost c d s =
     and_then (lease_end (now env) (bp_purchase_type params) (bp_years params)) (\<lambda>end_timestamp.
     ok_or (checked_add (ac_total_names_registered c) 1) ArnsArithmeticOverflow (\<lambda>total.
     and_then (schedule_records_prune end_timestamp (c\<lparr>ac_total_names_registered := total\<rparr>)) (\<lambda>c1.
     and_then (tally_demand token_cost d) (\<lambda>d1.
     ok_or (names_acc s) ArnsPanic (\<lambda>reg.
     and_then (append_name_entry reg \<lparr>ne_name_hash = h, ne_registry_index = nr_count reg\<rparr>) (\<lambda>reg1.
     Inr (s\<lparr>arns_config_acc := Some c1, demand_acc := Some d1, names_acc := Some reg1,
            arns_records := (arns_records s)(h \<mapsto>
              \<lparr>ar_name_hash = h, ar_owner = buyer, ar_ant = bp_ant params,
               ar_purchase_type = bp_purchase_type params, ar_start_timestamp = now env,
               ar_end_timestamp = end_timestamp, ar_undername_limit = DEFAULT_UNDERNAME_COUNT,
               ar_purchase_price = token_cost, ar_bump = pda_bump env (ArnsRecordPda h),
               ar_name = to_lowercase env (bp_name params), ar_version = V1_0_0\<rparr>)\<rparr>)))))))"

section \<open>purchase.rs\<close>

definition buy_name_body ::
  "arns_env \<Rightarrow> buy_params \<Rightarrow> pubkey \<Rightarrow> discount \<Rightarrow> payment \<Rightarrow> arns_config \<Rightarrow> demand_factor
     \<Rightarrow> arns_state \<Rightarrow> arns_state arns_result" where
  [arns_bodies]: "buy_name_body env params buyer disc pay c d s =
     (let h = hash_name env (bp_name params) in
     require (is_valid_arns_name (bp_name params)) InvalidNameFormat (
     check_reserved env h buyer s (
     require (returned_names s h = None) AuctionActive (
     check_years (bp_purchase_type params) (bp_years params) (
     and_then (maybe_roll_demand_period d (now env)) (\<lambda>d1.
     and_then (get_base_fee_for_name_length (df_fees d1) (length (bp_name params))) (\<lambda>base_fee.
     and_then (calculate_registration_fee base_fee (bp_purchase_type params) (bp_years params)
                (df_current_demand_factor d1)) (\<lambda>fee.
     require (fee > 0) ArnsInvalidParameter (
     and_then (disc fee s) (\<lambda>token_cost.
     and_then (pay token_cost s) (\<lambda>s1.
     and_then (register_name env h params buyer token_cost c d1 s1) (\<lambda>s2.
     Inr (s2\<lparr>reserved_names := (reserved_names s2)(h := None)\<rparr>)))))))))))))"

text \<open>\<open>init\<close> of the record: its address must be free.\<close>

definition BuyNameAccounts ::
  "arns_env \<Rightarrow> buy_params \<Rightarrow> arns_state \<Rightarrow> (arns_config \<Rightarrow> demand_factor \<Rightarrow> 'a arns_result) \<Rightarrow> 'a arns_result" where
  [arns_accounts]: "BuyNameAccounts env params s k =
     ok_or (arns_config_acc s) ArnsAccountMissing (\<lambda>c.
     ok_or (demand_acc s) ArnsAccountMissing (\<lambda>d.
     require (arns_records s (hash_name env (bp_name params)) = None) ArnsAccountExists (k c d)))"

definition buy_name ::
  "arns_env \<Rightarrow> pubkey \<Rightarrow> pubkey \<Rightarrow> pubkey \<Rightarrow> arns_pda list \<Rightarrow> buy_params \<Rightarrow> arns_state \<Rightarrow> arns_state arns_result" where
  [arns_handlers]: "buy_name env buyer buyer_ta protocol_ta remaining params s =
     BuyNameAccounts env params s (\<lambda>c d.
     caller_token_account env c buyer_ta buyer (
     treasury_token_account env c protocol_ta (
     buy_name_body env params buyer
       (\<lambda>fee s. try_apply_gateway_discount env s fee remaining buyer)
       (\<lambda>cost. arns_transfer env buyer_ta protocol_ta buyer cost) c d s)))"

text \<open>The initiator's half of a returned name's price; the protocol initiates the expired ones.\<close>

definition protocol_share :: "bool \<Rightarrow> u64 \<Rightarrow> u64" where
  "protocol_share is_protocol_initiator token_cost =
     (if is_protocol_initiator then token_cost else token_cost div 2)"

definition buy_returned_name_body ::
  "arns_env \<Rightarrow> buy_params \<Rightarrow> pubkey \<Rightarrow> pubkey \<Rightarrow> pubkey \<Rightarrow> discount \<Rightarrow> payment
     \<Rightarrow> arns_config \<Rightarrow> demand_factor \<Rightarrow> returned_name \<Rightarrow> arns_state \<Rightarrow> arns_state arns_result" where
  [arns_bodies]: "buy_returned_name_body env params buyer buyer_ta initiator_ta disc pay c d rn s =
     (let h = hash_name env (bp_name params) in
     require (is_valid_arns_name (bp_name params)) InvalidNameFormat (
     check_years (bp_purchase_type params) (bp_years params) (
     and_then (maybe_roll_demand_period d (now env)) (\<lambda>d1.
     and_then (get_base_fee_for_name_length (df_fees d1) (length (bp_name params))) (\<lambda>base_fee.
     and_then (calculate_registration_fee base_fee (bp_purchase_type params) (bp_years params)
                (df_current_demand_factor d1)) (\<lambda>registration_fee.
     and_then (calculate_returned_name_premium registration_fee (rn_returned_at rn) (now env)) (\<lambda>fee.
     require (fee > 0) ArnsInvalidParameter (
     and_then (disc fee s) (\<lambda>token_cost.
     let is_protocol_initiator = (rn_initiator rn = pda_key env ArnsConfigPda);
         reward_for_protocol = protocol_share is_protocol_initiator token_cost in
     ok_or (checked_sub token_cost reward_for_protocol) ArnsArithmeticUnderflow (\<lambda>reward_for_initiator.
     and_then (pay reward_for_protocol s) (\<lambda>s1.
     and_then (if reward_for_initiator > 0 \<and> \<not> is_protocol_initiator
               then arns_transfer env buyer_ta initiator_ta buyer reward_for_initiator s1
               else Inr s1) (\<lambda>s2.
     and_then (register_name env h params buyer token_cost c d1 s2) (\<lambda>s3.
     Inr (s3\<lparr>returned_names := (returned_names s3)(h := None)\<rparr>))))))))))))))"

definition BuyReturnedNameAccounts ::
  "arns_env \<Rightarrow> buy_params \<Rightarrow> arns_state
     \<Rightarrow> (arns_config \<Rightarrow> demand_factor \<Rightarrow> returned_name \<Rightarrow> 'a arns_result) \<Rightarrow> 'a arns_result" where
  [arns_accounts]: "BuyReturnedNameAccounts env params s k =
     ok_or (arns_config_acc s) ArnsAccountMissing (\<lambda>c.
     ok_or (demand_acc s) ArnsAccountMissing (\<lambda>d.
     ok_or (returned_names s (hash_name env (bp_name params))) ArnsAccountMissing (\<lambda>rn.
     require (arns_records s (hash_name env (bp_name params)) = None) ArnsAccountExists (k c d rn))))"

definition buy_returned_name ::
  "arns_env \<Rightarrow> pubkey \<Rightarrow> pubkey \<Rightarrow> pubkey \<Rightarrow> pubkey \<Rightarrow> arns_pda list \<Rightarrow> buy_params
     \<Rightarrow> arns_state \<Rightarrow> arns_state arns_result" where
  [arns_handlers]: "buy_returned_name env buyer buyer_ta protocol_ta initiator_ta remaining params s =
     BuyReturnedNameAccounts env params s (\<lambda>c d rn.
     caller_token_account env c buyer_ta buyer (
     treasury_token_account env c protocol_ta (
     initiator_token_account env c rn initiator_ta (
     buy_returned_name_body env params buyer buyer_ta initiator_ta
       (\<lambda>fee s. try_apply_gateway_discount env s fee remaining buyer)
       (\<lambda>cost. arns_transfer env buyer_ta protocol_ta buyer cost) c d rn s))))"

end
