(* ===== verification/Arns_Manage.thy ===== *)
theory Arns_Manage
  imports Arns_Names
begin

text \<open>
  The life of a registered name (\<open>instructions/manage.rs\<close>, \<open>instructions/prune.rs\<close>,
  \<open>instructions/reserved.rs\<close>) and the administration of the registry
  (\<open>instructions/initialize.rs\<close>, the registry import and the end of the migration in
  \<open>migration.rs\<close>).
\<close>

section \<open>Upgrading, extending and adding undernames\<close>

text \<open>The record of an instruction is stored at the address of its own name hash.\<close>

definition ManageAccounts ::
  "name_hash \<Rightarrow> arns_state
     \<Rightarrow> (arns_config \<Rightarrow> demand_factor \<Rightarrow> arns_record \<Rightarrow> 'a arns_result) \<Rightarrow> 'a arns_result" where
  [arns_accounts]: "ManageAccounts h s k =
     ok_or (arns_config_acc s) ArnsAccountMissing (\<lambda>c.
     ok_or (demand_acc s) ArnsAccountMissing (\<lambda>d.
     ok_or (arns_records s h) ArnsAccountMissing (\<lambda>r.
     require (ar_name_hash r = h) ArnsConstraint (k c d r))))"

definition usable :: "arns_env \<Rightarrow> arns_config \<Rightarrow> arns_record \<Rightarrow> bool" where
  "usable env c r \<longleftrightarrow>
     is_active r (now env) \<or> is_in_grace_period r (now env) (ac_grace_period_seconds c)"

definition upgrade_name_body ::
  "arns_env \<Rightarrow> name_hash \<Rightarrow> discount \<Rightarrow> payment \<Rightarrow> arns_config \<Rightarrow> demand_factor \<Rightarrow> arns_record
     \<Rightarrow> arns_state \<Rightarrow> arns_state arns_result" where
  [arns_bodies]: "upgrade_name_body env h disc pay c d r s =
     require (ar_purchase_type r = Lease) AlreadyPermanent (
     require (usable env c r) RecordExpired (
     and_then (maybe_roll_demand_period d (now env)) (\<lambda>d1.
     and_then (get_base_fee_for_name_length (df_fees d1) (length (ar_name r))) (\<lambda>base_fee.
     and_then (calculate_permabuy_fee base_fee (df_current_demand_factor d1)) (\<lambda>fee.
     and_then (disc fee s) (\<lambda>token_cost.
     and_then (pay token_cost s) (\<lambda>s1.
     and_then (tally_demand token_cost d1) (\<lambda>d2.
     Inr (s1\<lparr>demand_acc := Some d2,
             arns_records := (arns_records s1)(h \<mapsto>
               r\<lparr>ar_purchase_type := Permabuy, ar_end_timestamp := None,
                 ar_purchase_price := token_cost\<rparr>)\<rparr>)))))))))"

definition upgrade_name ::
  "arns_env \<Rightarrow> name_hash \<Rightarrow> pubkey \<Rightarrow> pubkey \<Rightarrow> pubkey \<Rightarrow> arns_pda list \<Rightarrow> arns_state \<Rightarrow> arns_state arns_result" where
  [arns_handlers]: "upgrade_name env h caller caller_ta protocol_ta remaining s =
     ManageAccounts h s (\<lambda>c d r.
     caller_token_account env c caller_ta caller (
     treasury_token_account env c protocol_ta (
     upgrade_name_body env h
       (\<lambda>fee s. try_apply_gateway_discount env s fee remaining caller)
       (\<lambda>cost. arns_transfer env caller_ta protocol_ta caller cost) c d r s)))"

text \<open>
  An extension may not carry the lease more than the longest lease beyond now, counting a begun
  year as a whole one. The \<open>u64\<close> arithmetic of the source stays far inside its range.
\<close>

definition remaining_years :: "i64 \<Rightarrow> i64 \<Rightarrow> int" where
  "remaining_years end_ts timestamp =
     (max 0 (saturating_sub_i64 end_ts timestamp) + ONE_YEAR_SECONDS - 1) div ONE_YEAR_SECONDS"

definition check_extension ::
  "arns_env \<Rightarrow> arns_config \<Rightarrow> arns_record \<Rightarrow> u8 \<Rightarrow> (i64 \<Rightarrow> 'a arns_result) \<Rightarrow> 'a arns_result" where
  "check_extension env c r years k =
     require (ar_purchase_type r = Lease) CannotExtendPermanent (
     require (usable env c r) RecordExpired (
     require (years \<ge> 1) InvalidLeaseDuration (
     ok_or (ar_end_timestamp r) ArnsInvalidParameter (\<lambda>end_ts.
     require (uint years \<le> max 0 (uint MAX_LEASE_LENGTH_YEARS - remaining_years end_ts (now env)))
       ExtensionExceedsMax (k end_ts)))))"

definition extended_end :: "i64 \<Rightarrow> u8 \<Rightarrow> i64 arns_result" where
  "extended_end end_ts years =
     ok_or (checked_mul_i64 (uint years) ONE_YEAR_SECONDS) ArnsArithmeticOverflow (\<lambda>extension.
     ok_or (checked_add_i64 end_ts extension) ArnsArithmeticOverflow Inr)"

definition extension_cost :: "demand_factor \<Rightarrow> arns_record \<Rightarrow> u8 \<Rightarrow> u64 arns_result" where
  "extension_cost d r years =
     and_then (get_base_fee_for_name_length (df_fees d) (length (ar_name r))) (\<lambda>base_fee.
     calculate_extension_fee base_fee years (df_current_demand_factor d))"

definition record_extension ::
  "name_hash \<Rightarrow> i64 \<Rightarrow> u64 \<Rightarrow> arns_config \<Rightarrow> demand_factor \<Rightarrow> arns_record \<Rightarrow> arns_state \<Rightarrow> arns_state arns_result" where
  "record_extension h new_end token_cost c d r s =
     and_then (schedule_records_prune (Some new_end) c) (\<lambda>c1.
     and_then (tally_demand token_cost d) (\<lambda>d1.
     Inr (s\<lparr>arns_config_acc := Some c1, demand_acc := Some d1,
            arns_records := (arns_records s)(h \<mapsto> r\<lparr>ar_end_timestamp := Some new_end\<rparr>)\<rparr>)))"

definition extend_lease_body ::
  "arns_env \<Rightarrow> name_hash \<Rightarrow> u8 \<Rightarrow> discount \<Rightarrow> payment \<Rightarrow> arns_config \<Rightarrow> demand_factor \<Rightarrow> arns_record
     \<Rightarrow> arns_state \<Rightarrow> arns_state arns_result" where
  [arns_bodies]: "extend_lease_body env h years disc pay c d r s =
     check_extension env c r years (\<lambda>end_ts.
     and_then (maybe_roll_demand_period d (now env)) (\<lambda>d1.
     and_then (extension_cost d1 r years) (\<lambda>fee.
     and_then (disc fee s) (\<lambda>token_cost.
     and_then (pay token_cost s) (\<lambda>s1.
     and_then (extended_end end_ts years) (\<lambda>new_end.
     record_extension h new_end token_cost c d1 r s1))))))"

text \<open>The withdrawal and funding-plan modes compute the new end before they roll and pay.\<close>

definition extend_lease_early_body ::
  "arns_env \<Rightarrow> name_hash \<Rightarrow> u8 \<Rightarrow> discount \<Rightarrow> payment \<Rightarrow> arns_config \<Rightarrow> demand_factor \<Rightarrow> arns_record
     \<Rightarrow> arns_state \<Rightarrow> arns_state arns_result" where
  [arns_bodies]: "extend_lease_early_body env h years disc pay c d r s =
     check_extension env c r years (\<lambda>end_ts.
     and_then (extended_end end_ts years) (\<lambda>new_end.
     and_then (maybe_roll_demand_period d (now env)) (\<lambda>d1.
     and_then (extension_cost d1 r years) (\<lambda>fee.
     and_then (disc fee s) (\<lambda>token_cost.
     and_then (pay token_cost s) (\<lambda>s1.
     record_extension h new_end token_cost c d1 r s1))))))"

definition extend_lease ::
  "arns_env \<Rightarrow> name_hash \<Rightarrow> pubkey \<Rightarrow> pubkey \<Rightarrow> pubkey \<Rightarrow> arns_pda list \<Rightarrow> u8 \<Rightarrow> arns_state \<Rightarrow> arns_state arns_result" where
  [arns_handlers]: "extend_lease env h caller caller_ta protocol_ta remaining years s =
     ManageAccounts h s (\<lambda>c d r.
     caller_token_account env c caller_ta caller (
     treasury_token_account env c protocol_ta (
     extend_lease_body env h years
       (\<lambda>fee s. try_apply_gateway_discount env s fee remaining caller)
       (\<lambda>cost. arns_transfer env caller_ta protocol_ta caller cost) c d r s)))"

definition increase_undername_limit_body ::
  "arns_env \<Rightarrow> name_hash \<Rightarrow> u16 \<Rightarrow> discount \<Rightarrow> payment \<Rightarrow> arns_config \<Rightarrow> demand_factor \<Rightarrow> arns_record
     \<Rightarrow> arns_state \<Rightarrow> arns_state arns_result" where
  [arns_bodies]: "increase_undername_limit_body env h quantity disc pay c d r s =
     require (is_active r (now env)) RecordExpired (
     and_then (checked_undername_limit (ar_undername_limit r) quantity) (\<lambda>new_limit.
     and_then (maybe_roll_demand_period d (now env)) (\<lambda>d1.
     and_then (get_base_fee_for_name_length (df_fees d1) (length (ar_name r))) (\<lambda>base_fee.
     and_then (calculate_undername_cost base_fee quantity (ar_purchase_type r)
                (df_current_demand_factor d1)) (\<lambda>fee.
     and_then (disc fee s) (\<lambda>token_cost.
     and_then (pay token_cost s) (\<lambda>s1.
     and_then (tally_demand token_cost d1) (\<lambda>d2.
     Inr (s1\<lparr>demand_acc := Some d2,
             arns_records := (arns_records s1)(h \<mapsto> r\<lparr>ar_undername_limit := new_limit\<rparr>)\<rparr>)))))))))"

definition increase_undername_limit ::
  "arns_env \<Rightarrow> name_hash \<Rightarrow> pubkey \<Rightarrow> pubkey \<Rightarrow> pubkey \<Rightarrow> arns_pda list \<Rightarrow> u16 \<Rightarrow> arns_state \<Rightarrow> arns_state arns_result" where
  [arns_handlers]: "increase_undername_limit env h caller caller_ta protocol_ta remaining quantity s =
     ManageAccounts h s (\<lambda>c d r.
     caller_token_account env c caller_ta caller (
     treasury_token_account env c protocol_ta (
     increase_undername_limit_body env h quantity
       (\<lambda>fee s. try_apply_gateway_discount env s fee remaining caller)
       (\<lambda>cost. arns_transfer env caller_ta protocol_ta caller cost) c d r s)))"

section \<open>Reassigning and releasing\<close>

text \<open>The asset account the name is bound to, of the Metaplex Core program, and its holder.\<close>

definition ant_holder ::
  "arns_env \<Rightarrow> arns_record \<Rightarrow> pubkey \<Rightarrow> pubkey \<Rightarrow> 'a arns_result \<Rightarrow> 'a arns_result" where
  [arns_accounts]: "ant_holder env r ant_asset caller k =
     require (ant_asset = ar_ant r) InvalidAntAsset (
     ok_or (raw_accounts env ant_asset) InvalidAntAsset (\<lambda>a.
     require (ra_owner a = MPL_CORE_PROGRAM_ID) InvalidAntAsset (
     and_then (read_mpl_core_owner (ra_data a)) (\<lambda>ant_owner.
     require (caller = ant_owner) NotAntHolder k))))"

definition reassign_name ::
  "arns_env \<Rightarrow> name_hash \<Rightarrow> pubkey \<Rightarrow> pubkey \<Rightarrow> pubkey \<Rightarrow> arns_state \<Rightarrow> arns_state arns_result" where
  [arns_handlers]: "reassign_name env h ant_asset caller new_ant s =
     ok_or (arns_config_acc s) ArnsAccountMissing (\<lambda>c.
     ok_or (arns_records s h) ArnsAccountMissing (\<lambda>r.
     require (ar_name_hash r = h) ArnsConstraint (
     ant_holder env r ant_asset caller (
     require (is_active r (now env)) RecordExpired (
     require (\<not> is_in_grace_period r (now env) (ac_grace_period_seconds c)) InGracePeriod (
     require (new_ant \<noteq> ar_ant r) ArnsInvalidParameter (
     Inr (s\<lparr>arns_records := (arns_records s)(h \<mapsto> r\<lparr>ar_ant := new_ant\<rparr>)\<rparr>))))))))"

text \<open>
  What releasing and pruning to an auction have in common: the returned-name account, the prune
  schedule, the count, the registry entry, and the record's \<open>close\<close>.
\<close>

definition return_name ::
  "arns_env \<Rightarrow> name_hash \<Rightarrow> pubkey \<Rightarrow> arns_config \<Rightarrow> arns_record \<Rightarrow> arns_state \<Rightarrow> arns_state arns_result" where
  "return_name env h initiator c r s =
     and_then (schedule_returned_prune (now env) c) (\<lambda>c1.
     ok_or (names_acc s) ArnsPanic (\<lambda>reg.
     Inr (s\<lparr>arns_config_acc := Some (c1\<lparr>ac_total_names_registered :=
              saturating_sub (ac_total_names_registered c1) 1\<rparr>),
            names_acc := Some (remove_name_entry_by_hash (ar_name_hash r) reg),
            returned_names := (returned_names s)(h \<mapsto>
              \<lparr>rn_name = ar_name r, rn_name_hash = ar_name_hash r, rn_initiator = initiator,
               rn_returned_at = now env, rn_bump = pda_bump env (ReturnedNamePda h),
               rn_version = V1_0_0\<rparr>),
            arns_records := (arns_records s)(h := None)\<rparr>)))"

definition release_name ::
  "arns_env \<Rightarrow> name_hash \<Rightarrow> pubkey \<Rightarrow> pubkey \<Rightarrow> arns_state \<Rightarrow> arns_state arns_result" where
  [arns_handlers]: "release_name env h ant_asset caller s =
     ok_or (arns_config_acc s) ArnsAccountMissing (\<lambda>c.
     ok_or (arns_records s h) ArnsAccountMissing (\<lambda>r.
     require (ar_name_hash r = h) ArnsConstraint (
     require (returned_names s h = None) ArnsAccountExists (
     ant_holder env r ant_asset caller (
     require (ar_purchase_type r = Permabuy) CannotReleaseLease (
     require (is_active r (now env)) RecordExpired (
     return_name env h caller c r s)))))))"

section \<open>Pruning\<close>

definition prune_name_to_returned ::
  "arns_env \<Rightarrow> name_hash \<Rightarrow> arns_state \<Rightarrow> arns_state arns_result" where
  [arns_handlers]: "prune_name_to_returned env h s =
     ok_or (arns_config_acc s) ArnsAccountMissing (\<lambda>c.
     ok_or (arns_records s h) ArnsAccountMissing (\<lambda>r.
     require (ar_name_hash r = h) ArnsConstraint (
     require (returned_names s h = None) ArnsAccountExists (
     require (case ar_purchase_type r of
                Permabuy \<Rightarrow> False
              | Lease \<Rightarrow> (case ar_end_timestamp r of
                  Some e \<Rightarrow> now env > saturating_add_i64 e (ac_grace_period_seconds c)
                | None \<Rightarrow> False)) NameStillActive (
     return_name env h (pda_key env ArnsConfigPda) c r s)))))"

text \<open>
  One turn of the loop over \<open>remaining_accounts\<close>; anything but an expired record at its own
  address is skipped. The turn counts what it pruned.
\<close>

definition past_auction :: "arns_env \<Rightarrow> arns_config \<Rightarrow> arns_record \<Rightarrow> bool" where
  "past_auction env c r =
     (case ar_purchase_type r of
        Permabuy \<Rightarrow> False
      | Lease \<Rightarrow> (case ar_end_timestamp r of
          Some e \<Rightarrow> now env > saturating_add_i64 (saturating_add_i64 e GRACE_PERIOD_SECONDS)
                                (ac_return_auction_duration_seconds c)
        | None \<Rightarrow> False))"

definition prune_expired_turn ::
  "arns_env \<Rightarrow> arns_config \<Rightarrow> arns_pda \<Rightarrow> nat \<times> arns_state \<Rightarrow> (nat \<times> arns_state) arns_result" where
  "prune_expired_turn env c record_info = (\<lambda>(pruned, s).
     case record_info of
       ArnsRecordPda h \<Rightarrow>
        (case arns_records s h of
           None \<Rightarrow> Inr (pruned, s)
         | Some r \<Rightarrow>
            if \<not> past_auction env c r \<or> ar_name_hash r \<noteq> h then Inr (pruned, s)
            else ok_or (names_acc s) ArnsPanic (\<lambda>reg.
                 Inr (pruned + 1,
                   s\<lparr>names_acc := Some (remove_name_entry_by_hash (ar_name_hash r) reg),
                     arns_records := (arns_records s)(h := None)\<rparr>)))
     | _ \<Rightarrow> Inr (pruned, s))"

fun prune_expired_loop ::
  "arns_env \<Rightarrow> arns_config \<Rightarrow> arns_pda list \<Rightarrow> nat \<times> arns_state \<Rightarrow> (nat \<times> arns_state) arns_result" where
  "prune_expired_loop env c [] acc = Inr acc"
| "prune_expired_loop env c (i # infos) acc =
     and_then (prune_expired_turn env c i acc) (prune_expired_loop env c infos)"

definition prune_expired_names ::
  "arns_env \<Rightarrow> arns_pda list \<Rightarrow> u8 \<Rightarrow> arns_state \<Rightarrow> arns_state arns_result" where
  [arns_handlers]: "prune_expired_names env remaining max_names s =
     ok_or (arns_config_acc s) ArnsAccountMissing (\<lambda>c.
     and_then (prune_expired_loop env c (take (unat max_names) remaining) (0, s)) (\<lambda>(pruned, s1).
     Inr (if pruned > 0
          then s1\<lparr>arns_config_acc := Some (c\<lparr>ac_total_names_registered :=
                 saturating_sub (ac_total_names_registered c) (of_nat pruned)\<rparr>)\<rparr>
          else s1)))"

definition prune_returned_turn :: "arns_env \<Rightarrow> arns_pda \<Rightarrow> arns_state \<Rightarrow> arns_state" where
  "prune_returned_turn env returned_info s =
     (case returned_info of
        ReturnedNamePda h \<Rightarrow>
         (case returned_names s h of
            None \<Rightarrow> s
          | Some rn \<Rightarrow>
             if now env < saturating_add_i64 (rn_returned_at rn) RETURNED_NAME_DURATION_SECONDS
                \<or> rn_name_hash rn \<noteq> h then s
             else s\<lparr>returned_names := (returned_names s)(h := None)\<rparr>)
      | _ \<Rightarrow> s)"

definition prune_returned_names ::
  "arns_env \<Rightarrow> arns_pda list \<Rightarrow> u8 \<Rightarrow> arns_state \<Rightarrow> arns_state arns_result" where
  [arns_handlers]: "prune_returned_names env remaining max_names s =
     ok_or (arns_config_acc s) ArnsAccountMissing (\<lambda>c.
     Inr (fold (prune_returned_turn env) (take (unat max_names) remaining) s))"

section \<open>Reservations\<close>

definition reserve_name ::
  "arns_env \<Rightarrow> pubkey \<Rightarrow> string \<Rightarrow> pubkey option \<Rightarrow> i64 option \<Rightarrow> arns_state \<Rightarrow> arns_state arns_result" where
  [arns_handlers]: "reserve_name env authority name reserved_for expires_at s =
     ok_or (arns_config_acc s) ArnsAccountMissing (\<lambda>c.
     require (ac_authority c = authority) ArnsUnauthorized (
     let h = hash_name env name in
     require (reserved_names s h = None) ArnsAccountExists (
     require (is_valid_arns_name name) InvalidNameFormat (
     Inr (s\<lparr>reserved_names := (reserved_names s)(h \<mapsto>
            \<lparr>rs_name = to_lowercase env name, rs_reserved_for = reserved_for,
             rs_expires_at = expires_at, rs_reserved_by = authority, rs_created_at = now env,
             rs_bump = pda_bump env (ReservedNamePda h), rs_version = V1_0_0\<rparr>)\<rparr>)))))"

text \<open>\<open>claim_reserved_name\<close> and \<open>unreserve_name\<close>: the authority closes the reservation.\<close>

definition close_reservation ::
  "arns_env \<Rightarrow> pubkey \<Rightarrow> name_hash \<Rightarrow> arns_state \<Rightarrow> arns_state arns_result" where
  [arns_accounts]: "close_reservation env authority h s =
     ok_or (arns_config_acc s) ArnsAccountMissing (\<lambda>c.
     require (ac_authority c = authority) ArnsUnauthorized (
     ok_or (reserved_names s h) ArnsAccountMissing (\<lambda>rs.
     require (hash_name env (rs_name rs) = h) ArnsConstraint (
     Inr (s\<lparr>reserved_names := (reserved_names s)(h := None)\<rparr>)))))"

definition claim_reserved_name ::
  "arns_env \<Rightarrow> pubkey \<Rightarrow> name_hash \<Rightarrow> arns_state \<Rightarrow> arns_state arns_result" where
  [arns_handlers]: "claim_reserved_name env authority h s = close_reservation env authority h s"

definition unreserve_name ::
  "arns_env \<Rightarrow> pubkey \<Rightarrow> name_hash \<Rightarrow> arns_state \<Rightarrow> arns_state arns_result" where
  [arns_handlers]: "unreserve_name env authority h s = close_reservation env authority h s"

definition prune_expired_reservation :: "arns_env \<Rightarrow> name_hash \<Rightarrow> arns_state \<Rightarrow> arns_state arns_result" where
  [arns_handlers]: "prune_expired_reservation env h s =
     ok_or (reserved_names s h) ArnsAccountMissing (\<lambda>rs.
     require (hash_name env (rs_name rs) = h) ArnsConstraint (
     ok_or (rs_expires_at rs) ReservationNotExpired (\<lambda>expires_at.
     require (now env \<ge> expires_at) ReservationNotExpired (
     Inr (s\<lparr>reserved_names := (reserved_names s)(h := None)\<rparr>)))))"

section \<open>Administration\<close>

record initialize_arns_params =
  ip_authority :: pubkey
  ip_mint :: pubkey
  ip_treasury :: pubkey
  ip_period_zero_start_timestamp :: i64
  ip_migration_authority :: pubkey
  ip_initial_demand_factor :: u64

definition initialize_arns ::
  "arns_env \<Rightarrow> pubkey \<Rightarrow> initialize_arns_params \<Rightarrow> arns_state \<Rightarrow> arns_state arns_result" where
  [arns_handlers]: "initialize_arns env authority params s =
     require (arns_config_acc s = None) ArnsAccountExists (
     require (demand_acc s = None) ArnsAccountExists (
     require (upgrade_authority env = Some authority) ArnsUnauthorized (
     require (ip_initial_demand_factor params \<ge> DEMAND_FACTOR_MIN) ArnsInvalidParameter (
     require (ip_period_zero_start_timestamp params \<le> now env) ArnsInvalidParameter (
     require (ip_period_zero_start_timestamp params \<ge> 1577836800) ArnsInvalidParameter (
     Inr (s\<lparr>arns_config_acc := Some
              \<lparr>ac_authority = ip_authority params, ac_mint = ip_mint params,
               ac_treasury = ip_treasury params, ac_grace_period_seconds = GRACE_PERIOD_SECONDS,
               ac_return_auction_duration_seconds = RETURNED_NAME_DURATION_SECONDS,
               ac_max_lease_length_years = MAX_LEASE_LENGTH_YEARS, ac_total_names_registered = 0,
               ac_next_records_prune_timestamp = 2 ^ 63 - 1,
               ac_next_returned_names_prune_timestamp = 2 ^ 63 - 1, ac_migration_active = True,
               ac_migration_authority = ip_migration_authority params,
               ac_bump = pda_bump env ArnsConfigPda, ac_version = V1_0_0\<rparr>,
            demand_acc := Some
              \<lparr>df_current_demand_factor = ip_initial_demand_factor params, df_current_period = 1,
               df_purchases_this_period = 0, df_revenue_this_period = 0,
               df_consecutive_periods_with_min_demand_factor = 0,
               df_trailing_period_purchases = replicate MOVING_AVG_PERIOD_COUNT 0,
               df_trailing_period_revenues = replicate MOVING_AVG_PERIOD_COUNT 0,
               df_fees = GENESIS_FEES,
               df_period_zero_start_timestamp = ip_period_zero_start_timestamp params,
               df_criteria = DEMAND_CRITERIA_REVENUE,
               df_bump = pda_bump env DemandFactorPda, df_version = V1_0_0\<rparr>\<rparr>)))))))"

text \<open>
  The registry account grows by at most 10,240 bytes an instruction; the header is written when it
  has its full length. Rent is not part of the state.
\<close>

definition create_name_registry ::
  "arns_env \<Rightarrow> pubkey \<Rightarrow> arns_state \<Rightarrow> arns_state arns_result" where
  [arns_handlers]: "create_name_registry env authority s =
     (let target = bytes_for_capacity INITIAL_CAPACITY;
          write_header = (\<lambda>c reg. reg\<lparr>nr_initialized := True, nr_authority := ac_authority c\<rparr>);
          finish = (\<lambda>c reg. if nr_data_len reg = target then write_header c reg else reg) in
     ok_or (arns_config_acc s) ArnsAccountMissing (\<lambda>c.
     require (ac_authority c = authority) ArnsUnauthorized (
     case names_acc s of
       None \<Rightarrow>
         Inr (s\<lparr>names_acc := Some (finish c (resize_registry (min target MAX_PERMITTED_DATA_INCREASE)
                \<lparr>nr_data_len = 0, nr_initialized = False, nr_authority = 0, nr_count = 0,
                 nr_slots = []\<rparr>))\<rparr>)
     | Some reg \<Rightarrow>
         if nr_data_len reg = target then
           require (\<not> nr_initialized reg) NameRegistryAlreadyExists (
           Inr (s\<lparr>names_acc := Some (write_header c reg)\<rparr>))
         else
           require (nr_data_len reg < target) NameRegistryAlreadyExists (
           Inr (s\<lparr>names_acc := Some (finish c
                  (resize_registry (min (nr_data_len reg + MAX_PERMITTED_DATA_INCREASE) target) reg))\<rparr>)))))"

definition admin_expand_name_registry ::
  "arns_env \<Rightarrow> pubkey \<Rightarrow> u32 \<Rightarrow> arns_state \<Rightarrow> arns_state arns_result" where
  [arns_handlers]: "admin_expand_name_registry env authority target_capacity s =
     (let target = bytes_for_capacity (unat target_capacity) in
     ok_or (arns_config_acc s) ArnsAccountMissing (\<lambda>c.
     require (ac_authority c = authority) ArnsUnauthorized (
     case names_acc s of
       None \<Rightarrow> Inl ArnsPanic
     | Some reg \<Rightarrow>
         if nr_data_len reg \<ge> target then Inr s
         else Inr (s\<lparr>names_acc := Some (resize_registry
                (min (nr_data_len reg + MAX_PERMITTED_DATA_INCREASE) target) reg)\<rparr>))))"

definition arns_transfer_authority ::
  "arns_env \<Rightarrow> pubkey \<Rightarrow> pubkey \<Rightarrow> arns_state \<Rightarrow> arns_state arns_result" where
  [arns_handlers]: "arns_transfer_authority env authority new_authority s =
     ok_or (arns_config_acc s) ArnsAccountMissing (\<lambda>c.
     require (ac_authority c = authority) ArnsUnauthorized (
     require (new_authority \<noteq> 0) ArnsInvalidParameter (
     Inr (s\<lparr>arns_config_acc := Some (c\<lparr>ac_authority := new_authority\<rparr>)\<rparr>))))"

definition import_registry_entry ::
  "arns_env \<Rightarrow> pubkey \<Rightarrow> name_hash \<Rightarrow> u32 \<Rightarrow> arns_state \<Rightarrow> arns_state arns_result" where
  [arns_handlers]: "import_registry_entry env authority h registry_index s =
     ok_or (arns_config_acc s) ArnsAccountMissing (\<lambda>c.
     require (ac_migration_active c) ArnsMigrationInactive (
     require (ac_migration_authority c = authority) ArnsUnauthorized (
     require (now env < ARNS_MIGRATION_DEADLINE) ArnsMigrationExpired (
     ok_or (names_acc s) ArnsPanic (\<lambda>reg.
     require (registry_index = nr_count reg) ArnsInvalidAccountData (
     and_then (append_name_entry reg \<lparr>ne_name_hash = h, ne_registry_index = registry_index\<rparr>) (\<lambda>reg1.
     Inr (s\<lparr>names_acc := Some reg1\<rparr>))))))))"

definition finalize_migration :: "arns_env \<Rightarrow> pubkey \<Rightarrow> arns_state \<Rightarrow> arns_state arns_result" where
  [arns_handlers]: "finalize_migration env authority s =
     ok_or (arns_config_acc s) ArnsAccountMissing (\<lambda>c.
     require (ac_migration_active c) ArnsMigrationAlreadyFinalized (
     require (ac_authority c = authority) ArnsUnauthorized (
     Inr (s\<lparr>arns_config_acc := Some (c\<lparr>ac_migration_active := False\<rparr>)\<rparr>))))"

end
