(* ===== verification/Arns_From_Stake.thy ===== *)
theory Arns_From_Stake
  imports Arns_Manage
begin

text \<open>
  The funding modes that pay from stake (\<open>instructions/purchase_from_stake.rs\<close>,
  \<open>instructions/manage_from_stake.rs\<close>): the payment is a cross-program call into \<open>ario-gar\<close>,
  which takes the amount from a delegation, the operator's own stake, a withdrawal vault or a
  funding plan and sends it to the treasury. \<open>ario-gar\<close> validates the accounts of its side.
\<close>

section \<open>Payments\<close>

definition cpi_deduct_delegation ::
  "arns_env \<Rightarrow> pubkey \<Rightarrow> pubkey \<Rightarrow> pubkey \<Rightarrow> pubkey \<Rightarrow> payment" where
  [arns_bodies]: "cpi_deduct_delegation env gw delegator stake_ta protocol_ta amount s =
     gar_cpi (deduct_delegation_for_payment (gar_view env) gw delegator stake_ta protocol_ta amount
       (gar_acc s)) s"

definition cpi_deduct_operator_stake :: "arns_env \<Rightarrow> pubkey \<Rightarrow> pubkey \<Rightarrow> pubkey \<Rightarrow> payment" where
  [arns_bodies]: "cpi_deduct_operator_stake env operator stake_ta protocol_ta amount s =
     gar_cpi (deduct_operator_stake_for_payment (gar_view env) operator stake_ta protocol_ta amount
       (gar_acc s)) s"

definition cpi_deduct_withdrawal :: "arns_env \<Rightarrow> pubkey \<Rightarrow> u64 \<Rightarrow> pubkey \<Rightarrow> pubkey \<Rightarrow> payment" where
  [arns_bodies]: "cpi_deduct_withdrawal env owner wid stake_ta protocol_ta amount s =
     gar_cpi (deduct_withdrawal_for_payment (gar_view env) owner wid stake_ta protocol_ta amount
       (gar_acc s)) s"

text \<open>The funding plan of an instruction, and the accounts its sources name.\<close>

record plan_params =
  pl_sources :: "funding_source_spec list"
  pl_discount_account_count :: u8
  pl_residue_vault_count :: u8
  pl_stake_ta :: pubkey
  pl_payer_ta :: "pubkey option"

text \<open>An account of another program among the source accounts is refused by \<open>ario-gar\<close>.\<close>

fun gar_accounts :: "arns_pda list \<Rightarrow> gar_pda list option" where
  "gar_accounts [] = Some []"
| "gar_accounts (GarAccount p # infos) = map_option (Cons p) (gar_accounts infos)"
| "gar_accounts (_ # infos) = None"

definition cpi_pay_from_funding_plan ::
  "arns_env \<Rightarrow> arns_pda list \<Rightarrow> plan_params \<Rightarrow> pubkey \<Rightarrow> pubkey \<Rightarrow> payment" where
  [arns_bodies]: "cpi_pay_from_funding_plan env funding_source_accounts plan payer protocol_ta amount s =
     ok_or (gar_accounts funding_source_accounts) (GarFailure ConstraintViolated) (\<lambda>infos.
     gar_cpi (pay_from_funding_plan (gar_view env) infos (pl_stake_ta plan) protocol_ta
       (pl_payer_ta plan) payer (pl_sources plan) amount (pl_residue_vault_count plan) (gar_acc s)) s)"

text \<open>The discount gateway, when there is one, comes before the source accounts.\<close>

definition plan_split :: "plan_params \<Rightarrow> nat" where
  "plan_split plan = unat (pl_discount_account_count plan)"

definition plan_discount :: "arns_env \<Rightarrow> arns_pda list \<Rightarrow> plan_params \<Rightarrow> pubkey \<Rightarrow> discount" where
  [arns_bodies]: "plan_discount env remaining plan signer fee s =
     require (plan_split plan \<le> length remaining) ArnsInvalidParameter (
     try_apply_gateway_discount env s fee (take (plan_split plan) remaining) signer)"

text \<open>
  The treasury account of the stake-funded modes: the purchases leave the mint to \<open>ario-gar\<close>, the
  management instructions check it.
\<close>

definition treasury_by_key ::
  "arns_env \<Rightarrow> arns_config \<Rightarrow> pubkey \<Rightarrow> 'a arns_result \<Rightarrow> 'a arns_result" where
  [arns_accounts]: "treasury_by_key env c key k =
     ok_or (token_accounts env key) ArnsAccountMissing (\<lambda>ta.
     require (key = ac_treasury c) InvalidTreasury k)"

section \<open>purchase_from_stake.rs\<close>

definition buy_name_from_delegation ::
  "arns_env \<Rightarrow> pubkey \<Rightarrow> pubkey \<Rightarrow> pubkey \<Rightarrow> pubkey \<Rightarrow> arns_pda list \<Rightarrow> buy_params \<Rightarrow> arns_state \<Rightarrow> arns_state arns_result" where
  [arns_handlers]: "buy_name_from_delegation env buyer gw stake_ta protocol_ta remaining params s =
     BuyNameAccounts env params s (\<lambda>c d.
     treasury_by_key env c protocol_ta (
     buy_name_body env params buyer
       (\<lambda>fee s. try_apply_gateway_discount env s fee remaining buyer)
       (cpi_deduct_delegation env gw buyer stake_ta protocol_ta) c d s))"

definition buy_name_from_operator_stake ::
  "arns_env \<Rightarrow> pubkey \<Rightarrow> pubkey \<Rightarrow> pubkey \<Rightarrow> arns_pda list \<Rightarrow> buy_params \<Rightarrow> arns_state \<Rightarrow> arns_state arns_result" where
  [arns_handlers]: "buy_name_from_operator_stake env buyer stake_ta protocol_ta remaining params s =
     BuyNameAccounts env params s (\<lambda>c d.
     treasury_by_key env c protocol_ta (
     buy_name_body env params buyer
       (\<lambda>fee s. try_apply_gateway_discount env s fee remaining buyer)
       (cpi_deduct_operator_stake env buyer stake_ta protocol_ta) c d s))"

definition buy_name_from_withdrawal ::
  "arns_env \<Rightarrow> pubkey \<Rightarrow> u64 \<Rightarrow> pubkey \<Rightarrow> pubkey \<Rightarrow> arns_pda list \<Rightarrow> buy_params \<Rightarrow> arns_state \<Rightarrow> arns_state arns_result" where
  [arns_handlers]: "buy_name_from_withdrawal env buyer wid stake_ta protocol_ta remaining params s =
     BuyNameAccounts env params s (\<lambda>c d.
     treasury_by_key env c protocol_ta (
     buy_name_body env params buyer
       (\<lambda>fee s. try_apply_gateway_discount env s fee remaining buyer)
       (cpi_deduct_withdrawal env buyer wid stake_ta protocol_ta) c d s))"

definition buy_name_from_funding_plan ::
  "arns_env \<Rightarrow> pubkey \<Rightarrow> pubkey \<Rightarrow> arns_pda list \<Rightarrow> buy_params \<Rightarrow> plan_params \<Rightarrow> arns_state \<Rightarrow> arns_state arns_result" where
  [arns_handlers]: "buy_name_from_funding_plan env buyer protocol_ta remaining params plan s =
     BuyNameAccounts env params s (\<lambda>c d.
     treasury_by_key env c protocol_ta (
     require (is_valid_arns_name (bp_name params)) InvalidNameFormat (
     require (pl_discount_account_count plan \<le> 1) ArnsInvalidParameter (
     buy_name_body env params buyer (plan_discount env remaining plan buyer)
       (cpi_pay_from_funding_plan env (drop (plan_split plan) remaining) plan buyer protocol_ta) c d s))))"

text \<open>A returned name: \<open>ario-gar\<close> pays the protocol's share, the buyer's wallet the initiator's.\<close>

definition buy_returned_name_from_delegation ::
  "arns_env \<Rightarrow> pubkey \<Rightarrow> pubkey \<Rightarrow> pubkey \<Rightarrow> pubkey \<Rightarrow> pubkey \<Rightarrow> pubkey \<Rightarrow> arns_pda list \<Rightarrow> buy_params
     \<Rightarrow> arns_state \<Rightarrow> arns_state arns_result" where
  [arns_handlers]: "buy_returned_name_from_delegation env buyer buyer_ta gw stake_ta protocol_ta initiator_ta remaining params s =
     BuyReturnedNameAccounts env params s (\<lambda>c d rn.
     caller_token_account env c buyer_ta buyer (
     initiator_token_account env c rn initiator_ta (
     treasury_by_key env c protocol_ta (
     buy_returned_name_body env params buyer buyer_ta initiator_ta
       (\<lambda>fee s. try_apply_gateway_discount env s fee remaining buyer)
       (cpi_deduct_delegation env gw buyer stake_ta protocol_ta) c d rn s))))"

definition buy_returned_name_from_operator_stake ::
  "arns_env \<Rightarrow> pubkey \<Rightarrow> pubkey \<Rightarrow> pubkey \<Rightarrow> pubkey \<Rightarrow> pubkey \<Rightarrow> arns_pda list \<Rightarrow> buy_params
     \<Rightarrow> arns_state \<Rightarrow> arns_state arns_result" where
  [arns_handlers]: "buy_returned_name_from_operator_stake env buyer buyer_ta stake_ta protocol_ta initiator_ta remaining params s =
     BuyReturnedNameAccounts env params s (\<lambda>c d rn.
     caller_token_account env c buyer_ta buyer (
     initiator_token_account env c rn initiator_ta (
     treasury_by_key env c protocol_ta (
     buy_returned_name_body env params buyer buyer_ta initiator_ta
       (\<lambda>fee s. try_apply_gateway_discount env s fee remaining buyer)
       (cpi_deduct_operator_stake env buyer stake_ta protocol_ta) c d rn s))))"

definition buy_returned_name_from_withdrawal ::
  "arns_env \<Rightarrow> pubkey \<Rightarrow> pubkey \<Rightarrow> u64 \<Rightarrow> pubkey \<Rightarrow> pubkey \<Rightarrow> pubkey \<Rightarrow> arns_pda list \<Rightarrow> buy_params
     \<Rightarrow> arns_state \<Rightarrow> arns_state arns_result" where
  [arns_handlers]: "buy_returned_name_from_withdrawal env buyer buyer_ta wid stake_ta protocol_ta initiator_ta remaining params s =
     BuyReturnedNameAccounts env params s (\<lambda>c d rn.
     caller_token_account env c buyer_ta buyer (
     initiator_token_account env c rn initiator_ta (
     treasury_by_key env c protocol_ta (
     buy_returned_name_body env params buyer buyer_ta initiator_ta
       (\<lambda>fee s. try_apply_gateway_discount env s fee remaining buyer)
       (cpi_deduct_withdrawal env buyer wid stake_ta protocol_ta) c d rn s))))"

definition buy_returned_name_from_funding_plan ::
  "arns_env \<Rightarrow> pubkey \<Rightarrow> pubkey \<Rightarrow> pubkey \<Rightarrow> pubkey \<Rightarrow> arns_pda list \<Rightarrow> buy_params \<Rightarrow> plan_params
     \<Rightarrow> arns_state \<Rightarrow> arns_state arns_result" where
  [arns_handlers]: "buy_returned_name_from_funding_plan env buyer buyer_ta protocol_ta initiator_ta remaining params plan s =
     BuyReturnedNameAccounts env params s (\<lambda>c d rn.
     caller_token_account env c buyer_ta buyer (
     initiator_token_account env c rn initiator_ta (
     treasury_by_key env c protocol_ta (
     require (is_valid_arns_name (bp_name params)) InvalidNameFormat (
     require (pl_discount_account_count plan \<le> 1) ArnsInvalidParameter (
     buy_returned_name_body env params buyer buyer_ta initiator_ta (plan_discount env remaining plan buyer)
       (cpi_pay_from_funding_plan env (drop (plan_split plan) remaining) plan buyer protocol_ta) c d rn s))))))"

section \<open>manage_from_stake.rs\<close>

definition upgrade_name_from_delegation ::
  "arns_env \<Rightarrow> name_hash \<Rightarrow> pubkey \<Rightarrow> pubkey \<Rightarrow> pubkey \<Rightarrow> pubkey \<Rightarrow> arns_pda list \<Rightarrow> arns_state \<Rightarrow> arns_state arns_result" where
  [arns_handlers]: "upgrade_name_from_delegation env h caller gw stake_ta protocol_ta remaining s =
     ManageAccounts h s (\<lambda>c d r.
     treasury_token_account env c protocol_ta (
     upgrade_name_body env h
       (\<lambda>fee s. try_apply_gateway_discount env s fee remaining caller)
       (cpi_deduct_delegation env gw caller stake_ta protocol_ta) c d r s))"

definition upgrade_name_from_operator_stake ::
  "arns_env \<Rightarrow> name_hash \<Rightarrow> pubkey \<Rightarrow> pubkey \<Rightarrow> pubkey \<Rightarrow> arns_pda list \<Rightarrow> arns_state \<Rightarrow> arns_state arns_result" where
  [arns_handlers]: "upgrade_name_from_operator_stake env h caller stake_ta protocol_ta remaining s =
     ManageAccounts h s (\<lambda>c d r.
     treasury_token_account env c protocol_ta (
     upgrade_name_body env h
       (\<lambda>fee s. try_apply_gateway_discount env s fee remaining caller)
       (cpi_deduct_operator_stake env caller stake_ta protocol_ta) c d r s))"

definition upgrade_name_from_withdrawal ::
  "arns_env \<Rightarrow> name_hash \<Rightarrow> pubkey \<Rightarrow> u64 \<Rightarrow> pubkey \<Rightarrow> pubkey \<Rightarrow> arns_pda list \<Rightarrow> arns_state \<Rightarrow> arns_state arns_result" where
  [arns_handlers]: "upgrade_name_from_withdrawal env h caller wid stake_ta protocol_ta remaining s =
     ManageAccounts h s (\<lambda>c d r.
     treasury_token_account env c protocol_ta (
     upgrade_name_body env h
       (\<lambda>fee s. try_apply_gateway_discount env s fee remaining caller)
       (cpi_deduct_withdrawal env caller wid stake_ta protocol_ta) c d r s))"

definition upgrade_name_from_funding_plan ::
  "arns_env \<Rightarrow> name_hash \<Rightarrow> pubkey \<Rightarrow> pubkey \<Rightarrow> arns_pda list \<Rightarrow> plan_params \<Rightarrow> arns_state \<Rightarrow> arns_state arns_result" where
  [arns_handlers]: "upgrade_name_from_funding_plan env h caller protocol_ta remaining plan s =
     ManageAccounts h s (\<lambda>c d r.
     treasury_token_account env c protocol_ta (
     require (pl_discount_account_count plan \<le> 1) ArnsInvalidParameter (
     upgrade_name_body env h (plan_discount env remaining plan caller)
       (cpi_pay_from_funding_plan env (drop (plan_split plan) remaining) plan caller protocol_ta) c d r s)))"

definition extend_lease_from_delegation ::
  "arns_env \<Rightarrow> name_hash \<Rightarrow> pubkey \<Rightarrow> pubkey \<Rightarrow> pubkey \<Rightarrow> pubkey \<Rightarrow> arns_pda list \<Rightarrow> u8 \<Rightarrow> arns_state \<Rightarrow> arns_state arns_result" where
  [arns_handlers]: "extend_lease_from_delegation env h caller gw stake_ta protocol_ta remaining years s =
     ManageAccounts h s (\<lambda>c d r.
     treasury_token_account env c protocol_ta (
     extend_lease_body env h years
       (\<lambda>fee s. try_apply_gateway_discount env s fee remaining caller)
       (cpi_deduct_delegation env gw caller stake_ta protocol_ta) c d r s))"

definition extend_lease_from_operator_stake ::
  "arns_env \<Rightarrow> name_hash \<Rightarrow> pubkey \<Rightarrow> pubkey \<Rightarrow> pubkey \<Rightarrow> arns_pda list \<Rightarrow> u8 \<Rightarrow> arns_state \<Rightarrow> arns_state arns_result" where
  [arns_handlers]: "extend_lease_from_operator_stake env h caller stake_ta protocol_ta remaining years s =
     ManageAccounts h s (\<lambda>c d r.
     treasury_token_account env c protocol_ta (
     extend_lease_body env h years
       (\<lambda>fee s. try_apply_gateway_discount env s fee remaining caller)
       (cpi_deduct_operator_stake env caller stake_ta protocol_ta) c d r s))"

definition extend_lease_from_withdrawal ::
  "arns_env \<Rightarrow> name_hash \<Rightarrow> pubkey \<Rightarrow> u64 \<Rightarrow> pubkey \<Rightarrow> pubkey \<Rightarrow> arns_pda list \<Rightarrow> u8 \<Rightarrow> arns_state \<Rightarrow> arns_state arns_result" where
  [arns_handlers]: "extend_lease_from_withdrawal env h caller wid stake_ta protocol_ta remaining years s =
     ManageAccounts h s (\<lambda>c d r.
     treasury_token_account env c protocol_ta (
     extend_lease_early_body env h years
       (\<lambda>fee s. try_apply_gateway_discount env s fee remaining caller)
       (cpi_deduct_withdrawal env caller wid stake_ta protocol_ta) c d r s))"

definition extend_lease_from_funding_plan ::
  "arns_env \<Rightarrow> name_hash \<Rightarrow> pubkey \<Rightarrow> pubkey \<Rightarrow> arns_pda list \<Rightarrow> u8 \<Rightarrow> plan_params \<Rightarrow> arns_state \<Rightarrow> arns_state arns_result" where
  [arns_handlers]: "extend_lease_from_funding_plan env h caller protocol_ta remaining years plan s =
     ManageAccounts h s (\<lambda>c d r.
     treasury_token_account env c protocol_ta (
     require (pl_discount_account_count plan \<le> 1) ArnsInvalidParameter (
     extend_lease_early_body env h years (plan_discount env remaining plan caller)
       (cpi_pay_from_funding_plan env (drop (plan_split plan) remaining) plan caller protocol_ta) c d r s)))"

definition increase_undername_limit_from_delegation ::
  "arns_env \<Rightarrow> name_hash \<Rightarrow> pubkey \<Rightarrow> pubkey \<Rightarrow> pubkey \<Rightarrow> pubkey \<Rightarrow> arns_pda list \<Rightarrow> u16 \<Rightarrow> arns_state \<Rightarrow> arns_state arns_result" where
  [arns_handlers]: "increase_undername_limit_from_delegation env h caller gw stake_ta protocol_ta remaining quantity s =
     ManageAccounts h s (\<lambda>c d r.
     treasury_token_account env c protocol_ta (
     increase_undername_limit_body env h quantity
       (\<lambda>fee s. try_apply_gateway_discount env s fee remaining caller)
       (cpi_deduct_delegation env gw caller stake_ta protocol_ta) c d r s))"

definition increase_undername_limit_from_operator_stake ::
  "arns_env \<Rightarrow> name_hash \<Rightarrow> pubkey \<Rightarrow> pubkey \<Rightarrow> pubkey \<Rightarrow> arns_pda list \<Rightarrow> u16 \<Rightarrow> arns_state \<Rightarrow> arns_state arns_result" where
  [arns_handlers]: "increase_undername_limit_from_operator_stake env h caller stake_ta protocol_ta remaining quantity s =
     ManageAccounts h s (\<lambda>c d r.
     treasury_token_account env c protocol_ta (
     increase_undername_limit_body env h quantity
       (\<lambda>fee s. try_apply_gateway_discount env s fee remaining caller)
       (cpi_deduct_operator_stake env caller stake_ta protocol_ta) c d r s))"

definition increase_undername_limit_from_withdrawal ::
  "arns_env \<Rightarrow> name_hash \<Rightarrow> pubkey \<Rightarrow> u64 \<Rightarrow> pubkey \<Rightarrow> pubkey \<Rightarrow> arns_pda list \<Rightarrow> u16 \<Rightarrow> arns_state \<Rightarrow> arns_state arns_result" where
  [arns_handlers]: "increase_undername_limit_from_withdrawal env h caller wid stake_ta protocol_ta remaining quantity s =
     ManageAccounts h s (\<lambda>c d r.
     treasury_token_account env c protocol_ta (
     increase_undername_limit_body env h quantity
       (\<lambda>fee s. try_apply_gateway_discount env s fee remaining caller)
       (cpi_deduct_withdrawal env caller wid stake_ta protocol_ta) c d r s))"

definition increase_undername_limit_from_funding_plan ::
  "arns_env \<Rightarrow> name_hash \<Rightarrow> pubkey \<Rightarrow> pubkey \<Rightarrow> arns_pda list \<Rightarrow> u16 \<Rightarrow> plan_params \<Rightarrow> arns_state \<Rightarrow> arns_state arns_result" where
  [arns_handlers]: "increase_undername_limit_from_funding_plan env h caller protocol_ta remaining quantity plan s =
     ManageAccounts h s (\<lambda>c d r.
     treasury_token_account env c protocol_ta (
     require (pl_discount_account_count plan \<le> 1) ArnsInvalidParameter (
     increase_undername_limit_body env h quantity (plan_discount env remaining plan caller)
       (cpi_pay_from_funding_plan env (drop (plan_split plan) remaining) plan caller protocol_ta) c d r s)))"

end
