(* ===== verification/Arns_Payments.thy ===== *)
theory Arns_Payments
  imports Arns_From_Stake Gar_Conserve_Payment
begin

text \<open>
  What a paid instruction does, whichever of the five funding modes pays. \<open>payment_source\<close> is the
  contract of a payment: it changes nothing but the accounts of \<open>ario-gar\<close> and the token log, and
  what it adds to the log is the price, to one account. From it follows the effect of each
  operation's body; the interpretations discharge the contract for the wallet transfer and the
  four cross-program calls, so every handler of a mode has the effect of its operation.
\<close>

lemmas arns_run = run_iff caller_token_account_def treasury_token_account_def
  initiator_token_account_def treasury_by_key_def BuyNameAccounts_def BuyReturnedNameAccounts_def
  ManageAccounts_def

section \<open>Receipts\<close>

definition paid_into :: "pubkey \<Rightarrow> u64 \<Rightarrow> gar_state \<Rightarrow> gar_state \<Rightarrow> bool" where
  "paid_into treasury amount g g' \<longleftrightarrow>
     (\<exists>ts. cpi_log g' = cpi_log g @ ts \<and> (\<forall>t \<in> set ts. tr_to t = treasury)
        \<and> sum_list (map (\<lambda>t. uint (tr_amount t)) ts) = uint amount)"

lemma paid_into_one:
  "cpi_log g' = cpi_log g @ [t] \<Longrightarrow> tr_to t = treasury \<Longrightarrow> tr_amount t = amount \<Longrightarrow>
     paid_into treasury amount g g'"
  by (auto simp: paid_into_def)

lemma token_transfer_paid:
  "token_transfer env src dst auth amount g = Inr g' \<Longrightarrow> paid_into dst amount g g'"
  by (drule token_transferD) (auto intro: paid_into_one)

text \<open>Two payments, the second perhaps of nothing.\<close>

lemma paid_into_optional:
  assumes "(if a > 0 then token_transfer env src dst auth a g else Inr g) = Inr g'"
  shows "paid_into dst a g g'"
  using assms by (cases "a > 0") (auto simp: paid_into_def word_gt_0 dest: token_transfer_paid [unfolded paid_into_def])

lemma paid_into_trans:
  assumes "paid_into k a g g1" and "paid_into k b g1 g2" and "uint c = uint a + uint b"
  shows "paid_into k c g g2"
proof -
  from assms obtain ts us where
    "cpi_log g1 = cpi_log g @ ts" "\<forall>t \<in> set ts. tr_to t = k" "sum_list (map (\<lambda>t. uint (tr_amount t)) ts) = uint a"
    "cpi_log g2 = cpi_log g1 @ us" "\<forall>t \<in> set us. tr_to t = k" "sum_list (map (\<lambda>t. uint (tr_amount t)) us) = uint b"
    by (auto simp: paid_into_def)
  with assms(3) show ?thesis by (auto simp: paid_into_def intro!: exI [of _ "ts @ us"])
qed

lemma paid_into_log: "cpi_log g1 = cpi_log g \<Longrightarrow> cpi_log g2 = cpi_log g3 \<Longrightarrow> paid_into k a g1 g2 = paid_into k a g g3"
  by (simp add: paid_into_def)

section \<open>The payments of ario-gar\<close>

lemma deduct_delegation_paid:
  "deduct_delegation_for_payment env gw k stake_ta ta amount g = Inr g' \<Longrightarrow> paid_into ta amount g g'"
  unfolding deduct_delegation_for_payment_def DeductDelegationForPayment_def Let_def run_iff
  by (auto dest!: token_transferD intro: paid_into_one)

lemma deduct_operator_stake_paid:
  "deduct_operator_stake_for_payment env k stake_ta ta amount g = Inr g' \<Longrightarrow> paid_into ta amount g g'"
  unfolding deduct_operator_stake_for_payment_def DeductOperatorStakeForPayment_def Let_def run_iff
  by (auto dest!: token_transferD intro: paid_into_one)

lemma deduct_withdrawal_paid:
  "deduct_withdrawal_for_payment env k wid stake_ta ta amount g = Inr g' \<Longrightarrow> paid_into ta amount g g'"
  unfolding deduct_withdrawal_for_payment_def DeductWithdrawalForPayment_def Let_def run_iff
  by (auto dest!: token_transferD intro: paid_into_one)

text \<open>No source transfers before the plan's two payments, and the residue vaults transfer nothing.\<close>

lemma apply_source_log:
  assumes "apply_source payer b src a = Inr a'"
  shows "cpi_log (pa_state a') = cpi_log (pa_state a)"
proof -
  have deleg: "cpi_log (pa_state a') = cpi_log (pa_state a)"
    if "apply_delegation_source payer amount a = Inr a'" for amount
    using that unfolding apply_delegation_source_def next_account_iff plan_gateway_iff Let_def run_iff
    by (auto elim!: drain_delegationD)
  have op: "cpi_log (pa_state a') = cpi_log (pa_state a)"
    if "apply_operator_source payer amount a = Inr a'" for amount
    using that unfolding apply_operator_source_def next_account_iff plan_gateway_iff Let_def run_iff by auto
  have wd: "cpi_log (pa_state a') = cpi_log (pa_state a)"
    if "apply_withdrawal_source payer amount a = Inr a'" for amount
    using that unfolding apply_withdrawal_source_def next_account_iff withdrawal_case_iff Let_def run_iff by auto
  have bal: "cpi_log (pa_state a') = cpi_log (pa_state a)"
    if "apply_balance_source b amount a = Inr a'" for amount
    using that by (auto simp: apply_balance_source_def run_iff)
  show ?thesis using assms deleg op wd bal
    by (auto simp: apply_source_def split: funding_source_kind.splits)
qed

lemma apply_sources_log:
  "apply_sources payer b srcs a = Inr a' \<Longrightarrow> cpi_log (pa_state a') = cpi_log (pa_state a)"
  by (induction srcs arbitrary: a) (auto simp: and_then_iff dest: apply_source_log)

lemma open_residue_vaults_log:
  "open_residue_vaults env payer ts rem s = Inr (rest, s') \<Longrightarrow> cpi_log s' = cpi_log s"
proof (induction ts arbitrary: rem s)
  case (Cons t ts)
  obtain op residue rest' avail s1 where t: "t = (op, residue)"
    and op: "open_withdrawal env payer op residue avail True False False s = Inr s1"
    and ih: "open_residue_vaults env payer ts rest' s1 = Inr (rest, s')"
    using Cons.prems by (cases t) (auto simp: Let_def run_iff split: list.splits)
  from op have "cpi_log s1 = cpi_log s" by (auto simp: open_withdrawal_def Let_def run_iff)
  with Cons.IH [OF ih] show ?case by simp
qed simp

lemma optional_balance_paid:
  assumes "(if a > 0 then ok_or ata Panic (\<lambda>src. token_transfer env src dst auth a g) else Inr g) = Inr g'"
  shows "paid_into dst a g g'"
proof (cases "a > 0")
  case True
  with assms show ?thesis by (auto simp: run_iff dest: token_transfer_paid)
next
  case False
  with assms show ?thesis by (simp add: paid_into_def word_gt_0)
qed

lemma funding_plan_paid:
  assumes "pay_from_funding_plan env rem stake_ta ta payer_ata payer srcs amount n g = Inr g'"
  shows "paid_into ta amount g g'"
proof (rule pay_from_funding_plan_run [OF assms])
  fix a g1 g2 rest g4 withdrawn
  assume end_state: "g' = g4\<lparr>settings := (settings g4)\<lparr>
       gs_total_delegated :=
         saturating_sub (saturating_sub
           (saturating_add (gs_total_delegated (settings g4)) (pa_delegated_add a))
           (pa_delegated_sub a)) (pa_delegated_residue_sub a),
       gs_total_staked := saturating_sub (gs_total_staked (settings g4)) (pa_staked_sub a),
       gs_total_withdrawn := withdrawn\<rparr>\<rparr>"
    and sum: "sum_sources srcs 0 = Inr amount"
    and srcs: "apply_sources payer (payer_ata \<noteq> None) srcs (init_acc rem g) = Inr a"
    and stake: "(if pa_stake_pool_drain a > 0
      then token_transfer env stake_ta ta (pda_key env SettingsPda) (pa_stake_pool_drain a) (pa_state a)
      else Inr (pa_state a)) = Inr g1"
    and bal: "(if pa_balance_drain a > 0
      then ok_or payer_ata Panic (\<lambda>ata. token_transfer env ata ta payer (pa_balance_drain a) g1)
      else Inr g1) = Inr g2"
    and vaults: "open_residue_vaults env payer (pa_residue_targets a) (pa_remaining a)
       (g2\<lparr>withdrawal_counters := (withdrawal_counters g2)(payer \<mapsto> load_counter env g2 payer)\<rparr>)
     = Inr (rest, g4)"
  have "paid_into ta amount (pa_state a) g2"
    using apply_sources_paid [OF srcs] sum_sources_total [OF sum]
    by (intro paid_into_trans [OF paid_into_optional [OF stake] optional_balance_paid [OF bal]])
       (simp add: init_acc_def)
  then show ?thesis
    using apply_sources_log [OF srcs] open_residue_vaults_log [OF vaults]
    by (simp add: paid_into_def end_state init_acc_def)
qed

section \<open>Payment modes\<close>

lemma gar_cpi_iff: "gar_cpi r s = Inr s' \<longleftrightarrow> (\<exists>g. r = Inr g \<and> s' = s\<lparr>gar_acc := g\<rparr>)"
  by (auto simp: gar_cpi_def split: sum.splits)

lemma arns_transfer_iff:
  "arns_transfer env src dst auth amount s = Inr s' \<longleftrightarrow>
     (\<exists>g. token_transfer (gar_view env) src dst auth amount (gar_acc s) = Inr g \<and> s' = s\<lparr>gar_acc := g\<rparr>)"
  by (auto simp: arns_transfer_def split: sum.splits)

text \<open>The discounted price of a fee, with any gateway account offered for the discount.\<close>

definition quoted :: "arns_env \<Rightarrow> arns_state \<Rightarrow> u64 \<Rightarrow> pubkey \<Rightarrow> u64 \<Rightarrow> bool" where
  "quoted env s fee signer price \<longleftrightarrow>
     (\<exists>remaining. try_apply_gateway_discount env s fee remaining signer = Inr price)"

definition reservation_allows :: "arns_env \<Rightarrow> name_hash \<Rightarrow> pubkey \<Rightarrow> arns_state \<Rightarrow> bool" where
  "reservation_allows env h buyer s \<longleftrightarrow>
     (case reserved_names s h of
        None \<Rightarrow> True
      | Some rs \<Rightarrow> (case rs_expires_at rs of None \<Rightarrow> False | Some exp \<Rightarrow> now env \<ge> exp)
                  \<or> rs_reserved_for rs = Some buyer)"

lemma check_reserved_iff:
  "check_reserved env h buyer s k = Inr x \<longleftrightarrow> reservation_allows env h buyer s \<and> k = Inr x"
  by (auto simp: check_reserved_def reservation_allows_def run_iff split: option.splits)

definition years_allowed :: "purchase_type \<Rightarrow> u8 \<Rightarrow> bool" where
  "years_allowed pt years \<longleftrightarrow> (pt = Lease \<longrightarrow> years \<ge> 1 \<and> years \<le> MAX_LEASE_LENGTH_YEARS)"

lemma check_years_iff: "check_years pt years k = Inr x \<longleftrightarrow> years_allowed pt years \<and> k = Inr x"
  by (simp add: check_years_def years_allowed_def run_iff)

text \<open>The fee of registering a name of a given length for a given time.\<close>

definition registration_fee :: "demand_factor \<Rightarrow> string \<Rightarrow> purchase_type \<Rightarrow> u8 \<Rightarrow> u64 arns_result" where
  "registration_fee d name pt years =
     and_then (get_base_fee_for_name_length (df_fees d) (length name)) (\<lambda>base_fee.
     calculate_registration_fee base_fee pt years (df_current_demand_factor d))"

definition undername_fee :: "demand_factor \<Rightarrow> arns_record \<Rightarrow> u16 \<Rightarrow> u64 arns_result" where
  "undername_fee d r quantity =
     and_then (get_base_fee_for_name_length (df_fees d) (length (ar_name r))) (\<lambda>base_fee.
     calculate_undername_cost base_fee quantity (ar_purchase_type r) (df_current_demand_factor d))"

section \<open>Effects\<close>

text \<open>What each paid operation does at a price, without saying how the price was paid.\<close>

definition bought :: "arns_env \<Rightarrow> buy_params \<Rightarrow> pubkey \<Rightarrow> u64 \<Rightarrow> arns_state \<Rightarrow> arns_state \<Rightarrow> bool" where
  "bought env params buyer price s s' \<longleftrightarrow>
     (\<exists>h c d d1 fee g s2. h = hash_name env (bp_name params)
        \<and> arns_config_acc s = Some c \<and> demand_acc s = Some d
        \<and> arns_records s h = None \<and> returned_names s h = None
        \<and> is_valid_arns_name (bp_name params) \<and> reservation_allows env h buyer s
        \<and> years_allowed (bp_purchase_type params) (bp_years params)
        \<and> maybe_roll_demand_period d (now env) = Inr d1
        \<and> registration_fee d1 (bp_name params) (bp_purchase_type params) (bp_years params) = Inr fee
        \<and> fee > 0 \<and> quoted env s fee buyer price \<and> paid_into (ac_treasury c) price (gar_acc s) g
        \<and> register_name env h params buyer price c d1 (s\<lparr>gar_acc := g\<rparr>) = Inr s2
        \<and> s' = s2\<lparr>reserved_names := (reserved_names s2)(h := None)\<rparr>)"

definition bought_returned ::
  "arns_env \<Rightarrow> buy_params \<Rightarrow> pubkey \<Rightarrow> u64 \<Rightarrow> arns_state \<Rightarrow> arns_state \<Rightarrow> bool" where
  "bought_returned env params buyer price s s' \<longleftrightarrow>
     (\<exists>h c d rn d1 full fee share rest ita g g2 s3. h = hash_name env (bp_name params)
        \<and> arns_config_acc s = Some c \<and> demand_acc s = Some d
        \<and> arns_records s h = None \<and> returned_names s h = Some rn
        \<and> is_valid_arns_name (bp_name params)
        \<and> years_allowed (bp_purchase_type params) (bp_years params)
        \<and> maybe_roll_demand_period d (now env) = Inr d1
        \<and> registration_fee d1 (bp_name params) (bp_purchase_type params) (bp_years params) = Inr full
        \<and> calculate_returned_name_premium full (rn_returned_at rn) (now env) = Inr fee
        \<and> fee > 0 \<and> quoted env s fee buyer price
        \<and> share = protocol_share (rn_initiator rn = pda_key env ArnsConfigPda) price
        \<and> checked_sub price share = Some rest
        \<and> paid_into (ac_treasury c) share (gar_acc s) g
        \<and> map_option ta_owner (token_accounts env ita) = Some (rn_initiator rn)
        \<and> paid_into ita rest g g2
        \<and> register_name env h params buyer price c d1 (s\<lparr>gar_acc := g2\<rparr>) = Inr s3
        \<and> s' = s3\<lparr>returned_names := (returned_names s3)(h := None)\<rparr>)"

definition upgraded :: "arns_env \<Rightarrow> name_hash \<Rightarrow> pubkey \<Rightarrow> u64 \<Rightarrow> arns_state \<Rightarrow> arns_state \<Rightarrow> bool" where
  "upgraded env h caller price s s' \<longleftrightarrow>
     (\<exists>c d r d1 d2 fee g. arns_config_acc s = Some c \<and> demand_acc s = Some d \<and> arns_records s h = Some r
        \<and> ar_name_hash r = h \<and> ar_purchase_type r = Lease \<and> usable env c r
        \<and> maybe_roll_demand_period d (now env) = Inr d1
        \<and> registration_fee d1 (ar_name r) Permabuy 0 = Inr fee
        \<and> quoted env s fee caller price \<and> paid_into (ac_treasury c) price (gar_acc s) g
        \<and> tally_demand price d1 = Inr d2
        \<and> s' = s\<lparr>gar_acc := g, demand_acc := Some d2, arns_records := (arns_records s)(h \<mapsto>
              r\<lparr>ar_purchase_type := Permabuy, ar_end_timestamp := None, ar_purchase_price := price\<rparr>)\<rparr>)"

definition extended :: "arns_env \<Rightarrow> name_hash \<Rightarrow> u8 \<Rightarrow> pubkey \<Rightarrow> u64 \<Rightarrow> arns_state \<Rightarrow> arns_state \<Rightarrow> bool" where
  "extended env h years caller price s s' \<longleftrightarrow>
     (\<exists>c d r d1 fee g e new_end. arns_config_acc s = Some c \<and> demand_acc s = Some d
        \<and> arns_records s h = Some r
        \<and> ar_name_hash r = h \<and> ar_purchase_type r = Lease \<and> usable env c r \<and> years \<ge> 1
        \<and> ar_end_timestamp r = Some e
        \<and> uint years \<le> max 0 (uint MAX_LEASE_LENGTH_YEARS - remaining_years e (now env))
        \<and> maybe_roll_demand_period d (now env) = Inr d1 \<and> extension_cost d1 r years = Inr fee
        \<and> quoted env s fee caller price \<and> paid_into (ac_treasury c) price (gar_acc s) g
        \<and> extended_end e years = Inr new_end
        \<and> record_extension h new_end price c d1 r (s\<lparr>gar_acc := g\<rparr>) = Inr s')"

definition undernames_added ::
  "arns_env \<Rightarrow> name_hash \<Rightarrow> u16 \<Rightarrow> pubkey \<Rightarrow> u64 \<Rightarrow> arns_state \<Rightarrow> arns_state \<Rightarrow> bool" where
  "undernames_added env h quantity caller price s s' \<longleftrightarrow>
     (\<exists>c d r d1 d2 fee g new_limit. arns_config_acc s = Some c \<and> demand_acc s = Some d
        \<and> arns_records s h = Some r \<and> ar_name_hash r = h \<and> is_active r (now env)
        \<and> checked_undername_limit (ar_undername_limit r) quantity = Inr new_limit
        \<and> maybe_roll_demand_period d (now env) = Inr d1 \<and> undername_fee d1 r quantity = Inr fee
        \<and> quoted env s fee caller price \<and> paid_into (ac_treasury c) price (gar_acc s) g
        \<and> tally_demand price d1 = Inr d2
        \<and> s' = s\<lparr>gar_acc := g, demand_acc := Some d2,
              arns_records := (arns_records s)(h \<mapsto> r\<lparr>ar_undername_limit := new_limit\<rparr>)\<rparr>)"

section \<open>Every mode has the effect\<close>

locale payment_source =
  fixes treasury :: pubkey and pay :: payment
  assumes pays: "pay amount s = Inr s' \<Longrightarrow>
    \<exists>g. s' = s\<lparr>gar_acc := g\<rparr> \<and> paid_into treasury amount (gar_acc s) g"

locale payment_mode = payment_source +
  fixes env :: arns_env and signer :: pubkey and disc :: discount
  assumes quotes: "disc fee s = Inr price \<Longrightarrow> quoted env s fee signer price"
begin

lemma buy_name_effect:
  assumes "buy_name_body env params signer disc pay c d s = Inr s'"
    and "arns_config_acc s = Some c" "demand_acc s = Some d" "ac_treasury c = treasury"
    and "arns_records s (hash_name env (bp_name params)) = None"
  shows "\<exists>price. bought env params signer price s s'"
proof -
  obtain d1 fee price s1 s2 where
    "is_valid_arns_name (bp_name params)" "reservation_allows env (hash_name env (bp_name params)) signer s"
    "returned_names s (hash_name env (bp_name params)) = None"
    "years_allowed (bp_purchase_type params) (bp_years params)"
    "maybe_roll_demand_period d (now env) = Inr d1"
    "registration_fee d1 (bp_name params) (bp_purchase_type params) (bp_years params) = Inr fee" "fee > 0"
    and disc: "disc fee s = Inr price" and pay: "pay price s = Inr s1" and
    "register_name env (hash_name env (bp_name params)) params signer price c d1 s1 = Inr s2"
    "s' = s2\<lparr>reserved_names := (reserved_names s2)(hash_name env (bp_name params) := None)\<rparr>"
    using assms(1) unfolding buy_name_body_def Let_def registration_fee_def run_iff check_reserved_iff
      check_years_iff by blast
  moreover obtain g where "s1 = s\<lparr>gar_acc := g\<rparr>" "paid_into (ac_treasury c) price (gar_acc s) g"
    using pays [OF pay] assms(4) by blast
  ultimately show ?thesis
    using assms(2-5) quotes [OF disc] unfolding bought_def by blast
qed

lemma buy_returned_name_effect:
  assumes "buy_returned_name_body env params signer buyer_ta ita disc pay c d rn s = Inr s'"
    and "arns_config_acc s = Some c" "demand_acc s = Some d" "ac_treasury c = treasury"
    and "returned_names s (hash_name env (bp_name params)) = Some rn"
    and "arns_records s (hash_name env (bp_name params)) = None"
    and "map_option ta_owner (token_accounts env ita) = Some (rn_initiator rn)"
  shows "\<exists>price. bought_returned env params signer price s s'"
proof -
  let ?p = "rn_initiator rn = pda_key env ArnsConfigPda"
  obtain d1 full fee price rest s1 s2 s3 where
    "is_valid_arns_name (bp_name params)" "years_allowed (bp_purchase_type params) (bp_years params)"
    "maybe_roll_demand_period d (now env) = Inr d1"
    "registration_fee d1 (bp_name params) (bp_purchase_type params) (bp_years params) = Inr full"
    "calculate_returned_name_premium full (rn_returned_at rn) (now env) = Inr fee" "fee > 0"
    and disc: "disc fee s = Inr price" and share: "checked_sub price (protocol_share ?p price) = Some rest"
    and pay: "pay (protocol_share ?p price) s = Inr s1"
    and init: "(if rest > 0 \<and> \<not> ?p then arns_transfer env buyer_ta ita signer rest s1 else Inr s1) = Inr s2"
    and "register_name env (hash_name env (bp_name params)) params signer price c d1 s2 = Inr s3"
    "s' = s3\<lparr>returned_names := (returned_names s3)(hash_name env (bp_name params) := None)\<rparr>"
    using assms(1) unfolding buy_returned_name_body_def Let_def registration_fee_def run_iff
      check_years_iff by blast
  moreover obtain g where s1: "s1 = s\<lparr>gar_acc := g\<rparr>"
      "paid_into treasury (protocol_share ?p price) (gar_acc s) g"
    using pays [OF pay] by blast
  moreover obtain g2 where "s2 = s\<lparr>gar_acc := g2\<rparr>" "paid_into ita rest g g2"
  proof (cases "rest > 0 \<and> \<not> ?p")
    case True
    with init s1 show ?thesis by (auto simp: arns_transfer_iff intro: that token_transfer_paid)
  next
    case False
    then have "rest = 0"
      using share by (auto simp: protocol_share_def checked_sub_iff word_gt_0 split: if_splits)
    with False init s1 show ?thesis by (auto simp: paid_into_def intro!: that)
  qed
  ultimately show ?thesis
    using assms(2-7) quotes [OF disc] unfolding bought_returned_def by blast
qed

lemma upgrade_name_effect:
  assumes "upgrade_name_body env h disc pay c d r s = Inr s'"
    and "arns_config_acc s = Some c" "demand_acc s = Some d" "ac_treasury c = treasury"
    and "arns_records s h = Some r" "ar_name_hash r = h"
  shows "\<exists>price. upgraded env h signer price s s'"
proof -
  obtain d1 d2 fee price s1 where
    "ar_purchase_type r = Lease" "usable env c r" "maybe_roll_demand_period d (now env) = Inr d1"
    "registration_fee d1 (ar_name r) Permabuy 0 = Inr fee"
    and disc: "disc fee s = Inr price" and pay: "pay price s = Inr s1" and
    "tally_demand price d1 = Inr d2"
    "s' = s1\<lparr>demand_acc := Some d2, arns_records := (arns_records s1)(h \<mapsto>
              r\<lparr>ar_purchase_type := Permabuy, ar_end_timestamp := None, ar_purchase_price := price\<rparr>)\<rparr>"
    using assms(1) unfolding upgrade_name_body_def registration_fee_def calculate_permabuy_fee_def run_iff
    by blast
  moreover obtain g where "s1 = s\<lparr>gar_acc := g\<rparr>" "paid_into (ac_treasury c) price (gar_acc s) g"
    using pays [OF pay] assms(4) by blast
  ultimately show ?thesis
    using assms(2-6) quotes [OF disc] unfolding upgraded_def by (simp, blast)
qed

lemma check_extension_iff:
  "check_extension env c r years k = Inr x \<longleftrightarrow>
     ar_purchase_type r = Lease \<and> usable env c r \<and> years \<ge> 1
     \<and> (\<exists>e. ar_end_timestamp r = Some e
        \<and> uint years \<le> max 0 (uint MAX_LEASE_LENGTH_YEARS - remaining_years e (now env)) \<and> k e = Inr x)"
  unfolding check_extension_def run_iff by blast

lemma extend_lease_effect:
  assumes "extend_lease_body env h years disc pay c d r s = Inr s'
           \<or> extend_lease_early_body env h years disc pay c d r s = Inr s'"
    and "arns_config_acc s = Some c" "demand_acc s = Some d" "ac_treasury c = treasury"
    and "arns_records s h = Some r" "ar_name_hash r = h"
  shows "\<exists>price. extended env h years signer price s s'"
proof -
  obtain e d1 fee price s1 new_end where
    "ar_purchase_type r = Lease" "usable env c r" "years \<ge> 1" "ar_end_timestamp r = Some e"
    "uint years \<le> max 0 (uint MAX_LEASE_LENGTH_YEARS - remaining_years e (now env))"
    "maybe_roll_demand_period d (now env) = Inr d1" "extension_cost d1 r years = Inr fee"
    and disc: "disc fee s = Inr price" and pay: "pay price s = Inr s1" and
    "extended_end e years = Inr new_end" "record_extension h new_end price c d1 r s1 = Inr s'"
    using assms(1) unfolding extend_lease_body_def extend_lease_early_body_def check_extension_iff run_iff
    by blast
  moreover obtain g where "s1 = s\<lparr>gar_acc := g\<rparr>" "paid_into (ac_treasury c) price (gar_acc s) g"
    using pays [OF pay] assms(4) by blast
  ultimately show ?thesis
    using assms(2-6) quotes [OF disc] unfolding extended_def by blast
qed

lemma increase_undername_limit_effect:
  assumes "increase_undername_limit_body env h quantity disc pay c d r s = Inr s'"
    and "arns_config_acc s = Some c" "demand_acc s = Some d" "ac_treasury c = treasury"
    and "arns_records s h = Some r" "ar_name_hash r = h"
  shows "\<exists>price. undernames_added env h quantity signer price s s'"
proof -
  obtain new_limit d1 d2 fee price s1 where
    "is_active r (now env)" "checked_undername_limit (ar_undername_limit r) quantity = Inr new_limit"
    "maybe_roll_demand_period d (now env) = Inr d1" "undername_fee d1 r quantity = Inr fee"
    and disc: "disc fee s = Inr price" and pay: "pay price s = Inr s1" and
    "tally_demand price d1 = Inr d2"
    "s' = s1\<lparr>demand_acc := Some d2,
             arns_records := (arns_records s1)(h \<mapsto> r\<lparr>ar_undername_limit := new_limit\<rparr>)\<rparr>"
    using assms(1) unfolding increase_undername_limit_body_def undername_fee_def run_iff by blast
  moreover obtain g where "s1 = s\<lparr>gar_acc := g\<rparr>" "paid_into (ac_treasury c) price (gar_acc s) g"
    using pays [OF pay] assms(4) by blast
  ultimately show ?thesis
    using assms(2-6) quotes [OF disc] unfolding undernames_added_def by (simp, blast)
qed

end

section \<open>The five modes\<close>

lemma plan_discount_quotes: "plan_discount env remaining plan signer fee s = Inr price \<Longrightarrow> quoted env s fee signer price"
  by (auto simp: plan_discount_def quoted_def run_iff)

interpretation wallet: payment_mode ta "\<lambda>cost. arns_transfer env src ta auth cost" env signer
    "\<lambda>fee s. try_apply_gateway_discount env s fee remaining signer"
  for ta src auth env signer remaining
  by unfold_locales (auto simp: arns_transfer_iff quoted_def intro: token_transfer_paid)

interpretation delegation: payment_mode ta "cpi_deduct_delegation env gw k stake_ta ta" env signer
    "\<lambda>fee s. try_apply_gateway_discount env s fee remaining signer"
  for ta env gw k stake_ta signer remaining
  by unfold_locales
    (auto simp: cpi_deduct_delegation_def gar_cpi_iff quoted_def intro: deduct_delegation_paid)

interpretation operator_stake: payment_mode ta "cpi_deduct_operator_stake env k stake_ta ta" env signer
    "\<lambda>fee s. try_apply_gateway_discount env s fee remaining signer"
  for ta env k stake_ta signer remaining
  by unfold_locales
    (auto simp: cpi_deduct_operator_stake_def gar_cpi_iff quoted_def intro: deduct_operator_stake_paid)

interpretation withdrawal: payment_mode ta "cpi_deduct_withdrawal env k wid stake_ta ta" env signer
    "\<lambda>fee s. try_apply_gateway_discount env s fee remaining signer"
  for ta env k wid stake_ta signer remaining
  by unfold_locales
    (auto simp: cpi_deduct_withdrawal_def gar_cpi_iff quoted_def intro: deduct_withdrawal_paid)

interpretation plan: payment_mode ta "cpi_pay_from_funding_plan env infos plan k ta" env signer
    "plan_discount env remaining plan signer"
  for ta env infos plan k signer remaining
  by unfold_locales
    (auto simp: cpi_pay_from_funding_plan_def run_iff gar_cpi_iff intro: funding_plan_paid plan_discount_quotes)

section \<open>The handlers\<close>

text \<open>\<open>buy_name\<close> and its stake-funded modes.\<close>

lemma buy_name_bought:
  "buy_name env buyer buyer_ta protocol_ta remaining params s = Inr s'
     \<Longrightarrow> \<exists>price. bought env params buyer price s s'"
  unfolding buy_name_def arns_run by (elim exE conjE) (erule wallet.buy_name_effect; simp)

lemma buy_name_from_delegation_bought:
  "buy_name_from_delegation env buyer gw stake_ta protocol_ta remaining params s = Inr s'
     \<Longrightarrow> \<exists>price. bought env params buyer price s s'"
  unfolding buy_name_from_delegation_def arns_run by (elim exE conjE) (erule delegation.buy_name_effect; simp)

lemma buy_name_from_operator_stake_bought:
  "buy_name_from_operator_stake env buyer stake_ta protocol_ta remaining params s = Inr s'
     \<Longrightarrow> \<exists>price. bought env params buyer price s s'"
  unfolding buy_name_from_operator_stake_def arns_run by (elim exE conjE) (erule operator_stake.buy_name_effect; simp)

lemma buy_name_from_withdrawal_bought:
  "buy_name_from_withdrawal env buyer wid stake_ta protocol_ta remaining params s = Inr s'
     \<Longrightarrow> \<exists>price. bought env params buyer price s s'"
  unfolding buy_name_from_withdrawal_def arns_run by (elim exE conjE) (erule withdrawal.buy_name_effect; simp)

lemma buy_name_from_funding_plan_bought:
  "buy_name_from_funding_plan env buyer protocol_ta remaining params plan s = Inr s'
     \<Longrightarrow> \<exists>price. bought env params buyer price s s'"
  unfolding buy_name_from_funding_plan_def arns_run by (elim exE conjE) (erule plan.buy_name_effect; simp)

text \<open>\<open>buy_returned_name\<close> and its stake-funded modes.\<close>

lemma buy_returned_name_bought_returned:
  "buy_returned_name env buyer buyer_ta protocol_ta initiator_ta remaining params s = Inr s'
     \<Longrightarrow> \<exists>price. bought_returned env params buyer price s s'"
  unfolding buy_returned_name_def arns_run by (elim exE conjE) (erule wallet.buy_returned_name_effect; simp)

lemma buy_returned_name_from_delegation_bought_returned:
  "buy_returned_name_from_delegation env buyer buyer_ta gw stake_ta protocol_ta initiator_ta remaining params s = Inr s'
     \<Longrightarrow> \<exists>price. bought_returned env params buyer price s s'"
  unfolding buy_returned_name_from_delegation_def arns_run by (elim exE conjE) (erule delegation.buy_returned_name_effect; simp)

lemma buy_returned_name_from_operator_stake_bought_returned:
  "buy_returned_name_from_operator_stake env buyer buyer_ta stake_ta protocol_ta initiator_ta remaining params s = Inr s'
     \<Longrightarrow> \<exists>price. bought_returned env params buyer price s s'"
  unfolding buy_returned_name_from_operator_stake_def arns_run by (elim exE conjE) (erule operator_stake.buy_returned_name_effect; simp)

lemma buy_returned_name_from_withdrawal_bought_returned:
  "buy_returned_name_from_withdrawal env buyer buyer_ta wid stake_ta protocol_ta initiator_ta remaining params s = Inr s'
     \<Longrightarrow> \<exists>price. bought_returned env params buyer price s s'"
  unfolding buy_returned_name_from_withdrawal_def arns_run by (elim exE conjE) (erule withdrawal.buy_returned_name_effect; simp)

lemma buy_returned_name_from_funding_plan_bought_returned:
  "buy_returned_name_from_funding_plan env buyer buyer_ta protocol_ta initiator_ta remaining params plan s = Inr s'
     \<Longrightarrow> \<exists>price. bought_returned env params buyer price s s'"
  unfolding buy_returned_name_from_funding_plan_def arns_run by (elim exE conjE) (erule plan.buy_returned_name_effect; simp)

text \<open>\<open>upgrade_name\<close> and its stake-funded modes.\<close>

lemma upgrade_name_upgraded:
  "upgrade_name env h caller caller_ta protocol_ta remaining s = Inr s'
     \<Longrightarrow> \<exists>price. upgraded env h caller price s s'"
  unfolding upgrade_name_def arns_run by (elim exE conjE) (erule wallet.upgrade_name_effect; simp)

lemma upgrade_name_from_delegation_upgraded:
  "upgrade_name_from_delegation env h caller gw stake_ta protocol_ta remaining s = Inr s'
     \<Longrightarrow> \<exists>price. upgraded env h caller price s s'"
  unfolding upgrade_name_from_delegation_def arns_run by (elim exE conjE) (erule delegation.upgrade_name_effect; simp)

lemma upgrade_name_from_operator_stake_upgraded:
  "upgrade_name_from_operator_stake env h caller stake_ta protocol_ta remaining s = Inr s'
     \<Longrightarrow> \<exists>price. upgraded env h caller price s s'"
  unfolding upgrade_name_from_operator_stake_def arns_run by (elim exE conjE) (erule operator_stake.upgrade_name_effect; simp)

lemma upgrade_name_from_withdrawal_upgraded:
  "upgrade_name_from_withdrawal env h caller wid stake_ta protocol_ta remaining s = Inr s'
     \<Longrightarrow> \<exists>price. upgraded env h caller price s s'"
  unfolding upgrade_name_from_withdrawal_def arns_run by (elim exE conjE) (erule withdrawal.upgrade_name_effect; simp)

lemma upgrade_name_from_funding_plan_upgraded:
  "upgrade_name_from_funding_plan env h caller protocol_ta remaining plan s = Inr s'
     \<Longrightarrow> \<exists>price. upgraded env h caller price s s'"
  unfolding upgrade_name_from_funding_plan_def arns_run by (elim exE conjE) (erule plan.upgrade_name_effect; simp)

text \<open>\<open>extend_lease\<close> and its stake-funded modes.\<close>

lemma extend_lease_extended:
  "extend_lease env h caller caller_ta protocol_ta remaining years s = Inr s'
     \<Longrightarrow> \<exists>price. extended env h years caller price s s'"
  unfolding extend_lease_def arns_run by (elim exE conjE) (erule wallet.extend_lease_effect [OF disjI1]; simp)

lemma extend_lease_from_delegation_extended:
  "extend_lease_from_delegation env h caller gw stake_ta protocol_ta remaining years s = Inr s'
     \<Longrightarrow> \<exists>price. extended env h years caller price s s'"
  unfolding extend_lease_from_delegation_def arns_run by (elim exE conjE) (erule delegation.extend_lease_effect [OF disjI1]; simp)

lemma extend_lease_from_operator_stake_extended:
  "extend_lease_from_operator_stake env h caller stake_ta protocol_ta remaining years s = Inr s'
     \<Longrightarrow> \<exists>price. extended env h years caller price s s'"
  unfolding extend_lease_from_operator_stake_def arns_run by (elim exE conjE) (erule operator_stake.extend_lease_effect [OF disjI1]; simp)

lemma extend_lease_from_withdrawal_extended:
  "extend_lease_from_withdrawal env h caller wid stake_ta protocol_ta remaining years s = Inr s'
     \<Longrightarrow> \<exists>price. extended env h years caller price s s'"
  unfolding extend_lease_from_withdrawal_def arns_run by (elim exE conjE) (erule withdrawal.extend_lease_effect [OF disjI2]; simp)

lemma extend_lease_from_funding_plan_extended:
  "extend_lease_from_funding_plan env h caller protocol_ta remaining years plan s = Inr s'
     \<Longrightarrow> \<exists>price. extended env h years caller price s s'"
  unfolding extend_lease_from_funding_plan_def arns_run by (elim exE conjE) (erule plan.extend_lease_effect [OF disjI2]; simp)

text \<open>\<open>increase_undername_limit\<close> and its stake-funded modes.\<close>

lemma increase_undername_limit_undernames_added:
  "increase_undername_limit env h caller caller_ta protocol_ta remaining quantity s = Inr s'
     \<Longrightarrow> \<exists>price. undernames_added env h quantity caller price s s'"
  unfolding increase_undername_limit_def arns_run by (elim exE conjE) (erule wallet.increase_undername_limit_effect; simp)

lemma increase_undername_limit_from_delegation_undernames_added:
  "increase_undername_limit_from_delegation env h caller gw stake_ta protocol_ta remaining quantity s = Inr s'
     \<Longrightarrow> \<exists>price. undernames_added env h quantity caller price s s'"
  unfolding increase_undername_limit_from_delegation_def arns_run by (elim exE conjE) (erule delegation.increase_undername_limit_effect; simp)

lemma increase_undername_limit_from_operator_stake_undernames_added:
  "increase_undername_limit_from_operator_stake env h caller stake_ta protocol_ta remaining quantity s = Inr s'
     \<Longrightarrow> \<exists>price. undernames_added env h quantity caller price s s'"
  unfolding increase_undername_limit_from_operator_stake_def arns_run by (elim exE conjE) (erule operator_stake.increase_undername_limit_effect; simp)

lemma increase_undername_limit_from_withdrawal_undernames_added:
  "increase_undername_limit_from_withdrawal env h caller wid stake_ta protocol_ta remaining quantity s = Inr s'
     \<Longrightarrow> \<exists>price. undernames_added env h quantity caller price s s'"
  unfolding increase_undername_limit_from_withdrawal_def arns_run by (elim exE conjE) (erule withdrawal.increase_undername_limit_effect; simp)

lemma increase_undername_limit_from_funding_plan_undernames_added:
  "increase_undername_limit_from_funding_plan env h caller protocol_ta remaining quantity plan s = Inr s'
     \<Longrightarrow> \<exists>price. undernames_added env h quantity caller price s s'"
  unfolding increase_undername_limit_from_funding_plan_def arns_run by (elim exE conjE) (erule plan.increase_undername_limit_effect; simp)

end
