(* ===== verification/Arns_Registry.thy ===== *)
theory Arns_Registry
  imports Arns_Manage
begin

text \<open>
  The name registry as an index of the registered names. \<open>name_index\<close> is the interface the rest of
  the program relies on: what an append, a removal by hash and a growth of the account do to the
  set of hashes, and what the entry count says of it. Its lemmas tie an index to a map of records;
  the interpretation discharges the laws for the swap-remove table of \<open>state/mod.rs\<close>.
\<close>

locale name_index =
  fixes ok :: "'r \<Rightarrow> bool"
    and hashes :: "'r \<Rightarrow> 'h set"
    and size_of :: "'r \<Rightarrow> nat"
    and append :: "'r \<Rightarrow> 'h \<Rightarrow> ('e, 'r) result"
    and remove :: "'h \<Rightarrow> 'r \<Rightarrow> 'r"
    and grow :: "nat \<Rightarrow> 'r \<Rightarrow> 'r"
  assumes append_ok: "ok r \<Longrightarrow> h \<notin> hashes r \<Longrightarrow> append r h = Inr r' \<Longrightarrow> ok r' \<and> hashes r' = insert h (hashes r)"
    and remove_ok: "ok r \<Longrightarrow> ok (remove h r) \<and> hashes (remove h r) = hashes r - {h}"
    and grow_ok: "ok r \<Longrightarrow> ok (grow n r) \<and> hashes (grow n r) = hashes r"
    and size_ok: "ok r \<Longrightarrow> finite (hashes r) \<and> size_of r = card (hashes r)"
begin

text \<open>The index lists exactly the names of the map.\<close>

definition tracks :: "'r \<Rightarrow> ('h \<rightharpoonup> 'v) \<Rightarrow> bool" where
  "tracks r m \<longleftrightarrow> ok r \<and> hashes r = dom m"

lemma tracks_append:
  assumes "tracks r m" and "m h = None" and "append r h = Inr r'"
  shows "tracks r' (m(h \<mapsto> v))"
proof -
  from assms have "ok r" "h \<notin> hashes r" by (auto simp: tracks_def)
  from append_ok [OF this assms(3)] assms(1) show ?thesis by (simp add: tracks_def)
qed

lemma tracks_remove: "tracks r m \<Longrightarrow> tracks (remove h r) (m(h := None))"
  using remove_ok [of r h] by (auto simp: tracks_def)

lemma tracks_grow: "tracks r m \<Longrightarrow> tracks (grow n r) m"
  using grow_ok by (simp add: tracks_def)

lemma tracks_upd: "tracks r m \<Longrightarrow> m h \<noteq> None \<Longrightarrow> tracks r (m(h \<mapsto> v))"
  by (auto simp: tracks_def)

lemma tracks_size: "tracks r m \<Longrightarrow> finite (dom m) \<and> size_of r = card (dom m)"
  using size_ok [of r] by (simp add: tracks_def)

end

section \<open>The table\<close>

definition live_entries :: "name_registry \<Rightarrow> name_entry list" where
  "live_entries reg = take (unat (nr_count reg)) (nr_slots reg)"

definition registered_hashes :: "name_registry \<Rightarrow> name_hash set" where
  "registered_hashes reg = ne_name_hash ` set (live_entries reg)"

definition names_table_ok :: "name_registry \<Rightarrow> bool" where
  "names_table_ok reg \<longleftrightarrow>
     unat (nr_count reg) \<le> length (nr_slots reg)
     \<and> length (nr_slots reg) = slot_capacity (nr_data_len reg)
     \<and> distinct (map ne_name_hash (live_entries reg))
     \<and> (\<forall>i < unat (nr_count reg). ne_registry_index (nr_slots reg ! i) = of_nat i)"

definition append_hash :: "name_registry \<Rightarrow> name_hash \<Rightarrow> name_registry arns_result" where
  "append_hash reg h = append_name_entry reg \<lparr>ne_name_hash = h, ne_registry_index = nr_count reg\<rparr>"

definition grow_registry :: "nat \<Rightarrow> name_registry \<Rightarrow> name_registry" where
  "grow_registry len reg = (if len \<ge> nr_data_len reg then resize_registry len reg else reg)"

lemma find_name_Some:
  "find_name h n es = Some i \<Longrightarrow> i < n \<and> i < length es \<and> ne_name_hash (es ! i) = h"
  by (induction h n es arbitrary: i rule: find_name.induct) (auto split: if_splits)

lemma find_name_None:
  "find_name h n es = None \<Longrightarrow> h \<notin> ne_name_hash ` set (take n es)"
  by (induction h n es rule: find_name.induct) (auto split: if_splits)

text \<open>Overwriting a position of a list with the last element and dropping the last.\<close>

lemma swap_remove_distinct:
  assumes "distinct xs" and "i < length xs"
  shows "distinct ((butlast xs)[i := last xs]) \<and> set ((butlast xs)[i := last xs]) = set xs - {xs ! i}"
proof -
  obtain ys y where xs: "xs = ys @ [y]" using assms(2) by (cases xs rule: rev_cases) auto
  show ?thesis
  proof (cases "i < length ys")
    case True
    moreover have "set (ys[i := y]) = insert y (set ys - {ys ! i})"
      using True assms(1) by (intro set_update_distinct) (simp_all add: xs)
    ultimately show ?thesis
      using assms(1) by (auto simp: xs nth_append distinct_list_update)
  next
    case False
    with assms have "i = length ys" by (simp add: xs)
    then have "(butlast xs)[i := last xs] = ys" by (simp add: xs list_update_beyond)
    with \<open>i = length ys\<close> assms(1) show ?thesis by (auto simp: xs)
  qed
qed

lemma slot_capacity_mono: "m \<le> n \<Longrightarrow> slot_capacity m \<le> slot_capacity n"
  by (simp add: slot_capacity_def div_le_mono)

lemma append_hash_ok:
  assumes ok: "names_table_ok reg" and new: "h \<notin> registered_hashes reg" and run: "append_hash reg h = Inr reg'"
  shows "names_table_ok reg' \<and> registered_hashes reg' = insert h (registered_hashes reg)"
proof -
  define n where "n = unat (nr_count reg)"
  define e where "e = \<lparr>ne_name_hash = h, ne_registry_index = nr_count reg\<rparr>"
  have room: "n < length (nr_slots reg)" and up: "uint (nr_count reg) + 1 < 2 ^ 32"
    and reg': "reg' = reg\<lparr>nr_count := nr_count reg + 1, nr_slots := (nr_slots reg)[n := e]\<rparr>"
    using run ok by (auto simp: append_hash_def append_name_entry_def result_iff Let_def n_def e_def names_table_ok_def)
  have count: "unat (nr_count reg + 1) = Suc n"
  proof -
    have "uint (nr_count reg + 1) = uint (nr_count reg) + 1" using up by (subst uint_add_exact) simp_all
    then show ?thesis unfolding n_def uint_nat by linarith
  qed
  have live: "live_entries reg' = live_entries reg @ [e]"
    using room by (simp add: live_entries_def reg' count take_Suc_conv_app_nth n_def [symmetric])
  have index: "ne_registry_index (nr_slots reg' ! i) = of_nat i" if "i < Suc n" for i
    using ok room that by (cases "i = n") (simp_all add: names_table_ok_def reg' e_def n_def)
  have "h \<notin> set (map ne_name_hash (live_entries reg))" using new by (simp add: registered_hashes_def)
  with ok have "distinct (map ne_name_hash (live_entries reg'))"
    by (simp add: live e_def names_table_ok_def)
  moreover have "nr_count reg' = nr_count reg + 1" "length (nr_slots reg') = length (nr_slots reg)"
    "nr_data_len reg' = nr_data_len reg" by (simp_all add: reg')
  ultimately have "names_table_ok reg'"
    using ok room index by (simp only: names_table_ok_def count) simp
  moreover have "registered_hashes reg' = insert h (registered_hashes reg)"
    by (simp add: registered_hashes_def live e_def)
  ultimately show ?thesis by simp
qed

lemma remove_hash_ok:
  assumes ok: "names_table_ok reg"
  shows "names_table_ok (remove_name_entry_by_hash h reg)
    \<and> registered_hashes (remove_name_entry_by_hash h reg) = registered_hashes reg - {h}"
proof -
  define n where "n = unat (nr_count reg)"
  have n: "min n (slot_capacity (nr_data_len reg)) = n" using ok by (simp add: names_table_ok_def n_def)
  show ?thesis
  proof (cases "find_name h n (nr_slots reg)")
    case None
    with find_name_None [OF None] ok n show ?thesis
      by (simp add: remove_name_entry_by_hash_def n_def registered_hashes_def live_entries_def)
  next
    case (Some i)
    define es where "es = live_entries reg"
    define reg' where "reg' = remove_name_entry_by_hash h reg"
    have i: "i < n" "n \<le> length (nr_slots reg)" "ne_name_hash (nr_slots reg ! i) = h"
      using find_name_Some [OF Some] ok by (auto simp: names_table_ok_def n_def)
    have len: "length es = n" using i by (simp add: es_def live_entries_def n_def)
    have es_nth: "es ! j = nr_slots reg ! j" if "j < n" for j
      using that by (simp add: es_def live_entries_def n_def)
    have small: "n < 2 ^ 32" using unsigned_less [of "nr_count reg"] by (simp add: n_def)
    then have count: "unat (nr_count reg') = n - 1"
      using Some n by (simp add: reg'_def remove_name_entry_by_hash_def n_def [symmetric] Let_def
          unsigned_of_nat take_bit_nat_eq_self)
    define moved where "moved = (nr_slots reg ! (n - 1))\<lparr>ne_registry_index := of_nat i\<rparr>"
    have slots: "nr_slots reg' = (if i \<noteq> n - 1 then (nr_slots reg)[i := moved] else nr_slots reg)
        [n - 1 := default_entry]"
      and data: "nr_data_len reg' = nr_data_len reg"
      using Some n by (simp_all add: reg'_def remove_name_entry_by_hash_def n_def [symmetric] Let_def moved_def)
    have hashes: "map ne_name_hash (live_entries reg') = (butlast (map ne_name_hash es))[i := last (map ne_name_hash es)]"
    proof (rule nth_equalityI)
      show "length (map ne_name_hash (live_entries reg'))
          = length ((butlast (map ne_name_hash es))[i := last (map ne_name_hash es)])"
        using i len by (simp add: live_entries_def count slots)
      fix j assume "j < length (map ne_name_hash (live_entries reg'))"
      then have j: "j < n - 1" using i by (simp add: live_entries_def count slots)
      have "last (map ne_name_hash es) = ne_name_hash (nr_slots reg ! (n - 1))"
      proof -
        have "es \<noteq> []" using i len by auto
        then show ?thesis using i len es_nth [of "n - 1"] by (simp add: last_map last_conv_nth)
      qed
      with i j len show "map ne_name_hash (live_entries reg') ! j
          = (butlast (map ne_name_hash es))[i := last (map ne_name_hash es)] ! j"
        by (auto simp: live_entries_def count slots nth_list_update nth_butlast es_nth moved_def)
    qed
    have d: "distinct (map ne_name_hash es)" using ok by (simp add: names_table_ok_def es_def)
    have "registered_hashes reg' = set (map ne_name_hash (live_entries reg'))"
      by (simp add: registered_hashes_def)
    also have "\<dots> = set (map ne_name_hash es) - {h}"
      using swap_remove_distinct [OF d, of i] i len es_nth [of i] hashes by simp
    finally have set: "registered_hashes reg' = registered_hashes reg - {h}"
      by (simp add: registered_hashes_def es_def)
    have "ne_registry_index (nr_slots reg' ! j) = of_nat j" if "j < n - 1" for j
      using ok that i by (auto simp: slots nth_list_update moved_def names_table_ok_def n_def)
    moreover have "distinct (map ne_name_hash (live_entries reg'))"
      using swap_remove_distinct [OF d, of i] i len hashes by simp
    ultimately have "names_table_ok reg'"
      using ok i by (auto simp: names_table_ok_def count data slots)
    with set show ?thesis by (simp add: reg'_def)
  qed
qed

lemma grow_registry_ok:
  assumes "names_table_ok reg"
  shows "names_table_ok (grow_registry len reg) \<and> registered_hashes (grow_registry len reg) = registered_hashes reg"
  using assms slot_capacity_mono [of "nr_data_len reg" len]
  by (auto simp: grow_registry_def resize_registry_def names_table_ok_def registered_hashes_def live_entries_def nth_append)

lemma table_size: "names_table_ok reg \<Longrightarrow> finite (registered_hashes reg) \<and> unat (nr_count reg) = card (registered_hashes reg)"
  using distinct_card [of "map ne_name_hash (live_entries reg)"]
  by (auto simp: names_table_ok_def registered_hashes_def live_entries_def)

interpretation index: name_index names_table_ok registered_hashes "\<lambda>reg. unat (nr_count reg)" append_hash
    remove_name_entry_by_hash grow_registry
  by (rule name_index.intro) (rule append_hash_ok remove_hash_ok grow_registry_ok table_size; assumption)+

end
