(* ===== verification/Arns_System.thy ===== *)
theory Arns_System
  imports Arns_Payments Arns_Registry Arns_Rollover Gar_System
begin

text \<open>
  The name program as a whole: its instructions, the dispatch of \<open>lib.rs\<close> as a step function, and
  the abstract effects the instructions refine. A purchase or a paid change has the same effect in
  every funding mode (\<open>Arns_Payments\<close>), so the many instructions come down to a few effects, over
  which invariants are proved. Left out of the dispatch are the read-only cost query and the
  instructions that rewrite raw account data (\<open>import_account\<close>, the schema migrations). The
  instructions of \<open>ario-gar\<close>, whose accounts the name program pays from, may run in between.
\<close>

section \<open>Instructions\<close>

datatype purchase_op =
    BuyNameOp pubkey pubkey pubkey "arns_pda list" buy_params
  | BuyNameFromDelegationOp pubkey pubkey pubkey pubkey "arns_pda list" buy_params
  | BuyNameFromOperatorStakeOp pubkey pubkey pubkey "arns_pda list" buy_params
  | BuyNameFromWithdrawalOp pubkey u64 pubkey pubkey "arns_pda list" buy_params
  | BuyNameFromFundingPlanOp pubkey pubkey "arns_pda list" buy_params plan_params
  | BuyReturnedNameOp pubkey pubkey pubkey pubkey "arns_pda list" buy_params
  | BuyReturnedNameFromDelegationOp pubkey pubkey pubkey pubkey pubkey pubkey "arns_pda list" buy_params
  | BuyReturnedNameFromOperatorStakeOp pubkey pubkey pubkey pubkey pubkey "arns_pda list" buy_params
  | BuyReturnedNameFromWithdrawalOp pubkey pubkey u64 pubkey pubkey pubkey "arns_pda list" buy_params
  | BuyReturnedNameFromFundingPlanOp pubkey pubkey pubkey pubkey "arns_pda list" buy_params plan_params

definition purchase_step :: "arns_env \<Rightarrow> purchase_op \<Rightarrow> arns_state \<Rightarrow> arns_state arns_result" where
  "purchase_step env op s = (case op of
     BuyNameOp buyer buyer_ta protocol_ta remaining params \<Rightarrow>
       buy_name env buyer buyer_ta protocol_ta remaining params s
   | BuyNameFromDelegationOp buyer gw stake_ta protocol_ta remaining params \<Rightarrow>
       buy_name_from_delegation env buyer gw stake_ta protocol_ta remaining params s
   | BuyNameFromOperatorStakeOp buyer stake_ta protocol_ta remaining params \<Rightarrow>
       buy_name_from_operator_stake env buyer stake_ta protocol_ta remaining params s
   | BuyNameFromWithdrawalOp buyer wid stake_ta protocol_ta remaining params \<Rightarrow>
       buy_name_from_withdrawal env buyer wid stake_ta protocol_ta remaining params s
   | BuyNameFromFundingPlanOp buyer protocol_ta remaining params plan \<Rightarrow>
       buy_name_from_funding_plan env buyer protocol_ta remaining params plan s
   | BuyReturnedNameOp buyer buyer_ta protocol_ta initiator_ta remaining params \<Rightarrow>
       buy_returned_name env buyer buyer_ta protocol_ta initiator_ta remaining params s
   | BuyReturnedNameFromDelegationOp buyer buyer_ta gw stake_ta protocol_ta initiator_ta remaining params \<Rightarrow>
       buy_returned_name_from_delegation env buyer buyer_ta gw stake_ta protocol_ta initiator_ta remaining params s
   | BuyReturnedNameFromOperatorStakeOp buyer buyer_ta stake_ta protocol_ta initiator_ta remaining params \<Rightarrow>
       buy_returned_name_from_operator_stake env buyer buyer_ta stake_ta protocol_ta initiator_ta remaining params s
   | BuyReturnedNameFromWithdrawalOp buyer buyer_ta wid stake_ta protocol_ta initiator_ta remaining params \<Rightarrow>
       buy_returned_name_from_withdrawal env buyer buyer_ta wid stake_ta protocol_ta initiator_ta remaining params s
   | BuyReturnedNameFromFundingPlanOp buyer buyer_ta protocol_ta initiator_ta remaining params plan \<Rightarrow>
       buy_returned_name_from_funding_plan env buyer buyer_ta protocol_ta initiator_ta remaining params plan s)"

datatype manage_op =
    UpgradeNameOp name_hash pubkey pubkey pubkey "arns_pda list"
  | UpgradeNameFromDelegationOp name_hash pubkey pubkey pubkey pubkey "arns_pda list"
  | UpgradeNameFromOperatorStakeOp name_hash pubkey pubkey pubkey "arns_pda list"
  | UpgradeNameFromWithdrawalOp name_hash pubkey u64 pubkey pubkey "arns_pda list"
  | UpgradeNameFromFundingPlanOp name_hash pubkey pubkey "arns_pda list" plan_params
  | ExtendLeaseOp name_hash pubkey pubkey pubkey "arns_pda list" u8
  | ExtendLeaseFromDelegationOp name_hash pubkey pubkey pubkey pubkey "arns_pda list" u8
  | ExtendLeaseFromOperatorStakeOp name_hash pubkey pubkey pubkey "arns_pda list" u8
  | ExtendLeaseFromWithdrawalOp name_hash pubkey u64 pubkey pubkey "arns_pda list" u8
  | ExtendLeaseFromFundingPlanOp name_hash pubkey pubkey "arns_pda list" u8 plan_params
  | IncreaseUndernameLimitOp name_hash pubkey pubkey pubkey "arns_pda list" u16
  | IncreaseUndernameLimitFromDelegationOp name_hash pubkey pubkey pubkey pubkey "arns_pda list" u16
  | IncreaseUndernameLimitFromOperatorStakeOp name_hash pubkey pubkey pubkey "arns_pda list" u16
  | IncreaseUndernameLimitFromWithdrawalOp name_hash pubkey u64 pubkey pubkey "arns_pda list" u16
  | IncreaseUndernameLimitFromFundingPlanOp name_hash pubkey pubkey "arns_pda list" u16 plan_params

definition manage_step :: "arns_env \<Rightarrow> manage_op \<Rightarrow> arns_state \<Rightarrow> arns_state arns_result" where
  "manage_step env op s = (case op of
     UpgradeNameOp h caller caller_ta protocol_ta remaining \<Rightarrow>
       upgrade_name env h caller caller_ta protocol_ta remaining s
   | UpgradeNameFromDelegationOp h caller gw stake_ta protocol_ta remaining \<Rightarrow>
       upgrade_name_from_delegation env h caller gw stake_ta protocol_ta remaining s
   | UpgradeNameFromOperatorStakeOp h caller stake_ta protocol_ta remaining \<Rightarrow>
       upgrade_name_from_operator_stake env h caller stake_ta protocol_ta remaining s
   | UpgradeNameFromWithdrawalOp h caller wid stake_ta protocol_ta remaining \<Rightarrow>
       upgrade_name_from_withdrawal env h caller wid stake_ta protocol_ta remaining s
   | UpgradeNameFromFundingPlanOp h caller protocol_ta remaining plan \<Rightarrow>
       upgrade_name_from_funding_plan env h caller protocol_ta remaining plan s
   | ExtendLeaseOp h caller caller_ta protocol_ta remaining years \<Rightarrow>
       extend_lease env h caller caller_ta protocol_ta remaining years s
   | ExtendLeaseFromDelegationOp h caller gw stake_ta protocol_ta remaining years \<Rightarrow>
       extend_lease_from_delegation env h caller gw stake_ta protocol_ta remaining years s
   | ExtendLeaseFromOperatorStakeOp h caller stake_ta protocol_ta remaining years \<Rightarrow>
       extend_lease_from_operator_stake env h caller stake_ta protocol_ta remaining years s
   | ExtendLeaseFromWithdrawalOp h caller wid stake_ta protocol_ta remaining years \<Rightarrow>
       extend_lease_from_withdrawal env h caller wid stake_ta protocol_ta remaining years s
   | ExtendLeaseFromFundingPlanOp h caller protocol_ta remaining years plan \<Rightarrow>
       extend_lease_from_funding_plan env h caller protocol_ta remaining years plan s
   | IncreaseUndernameLimitOp h caller caller_ta protocol_ta remaining quantity \<Rightarrow>
       increase_undername_limit env h caller caller_ta protocol_ta remaining quantity s
   | IncreaseUndernameLimitFromDelegationOp h caller gw stake_ta protocol_ta remaining quantity \<Rightarrow>
       increase_undername_limit_from_delegation env h caller gw stake_ta protocol_ta remaining quantity s
   | IncreaseUndernameLimitFromOperatorStakeOp h caller stake_ta protocol_ta remaining quantity \<Rightarrow>
       increase_undername_limit_from_operator_stake env h caller stake_ta protocol_ta remaining quantity s
   | IncreaseUndernameLimitFromWithdrawalOp h caller wid stake_ta protocol_ta remaining quantity \<Rightarrow>
       increase_undername_limit_from_withdrawal env h caller wid stake_ta protocol_ta remaining quantity s
   | IncreaseUndernameLimitFromFundingPlanOp h caller protocol_ta remaining quantity plan \<Rightarrow>
       increase_undername_limit_from_funding_plan env h caller protocol_ta remaining quantity plan s)"

datatype ownership_op =
    ReassignNameOp name_hash pubkey pubkey pubkey
  | ReleaseNameOp name_hash pubkey pubkey
  | PruneNameToReturnedOp name_hash
  | PruneExpiredNamesOp "arns_pda list" u8
  | PruneReturnedNamesOp "arns_pda list" u8

definition ownership_step :: "arns_env \<Rightarrow> ownership_op \<Rightarrow> arns_state \<Rightarrow> arns_state arns_result" where
  "ownership_step env op s = (case op of
     ReassignNameOp h ant_asset caller new_ant \<Rightarrow>
       reassign_name env h ant_asset caller new_ant s
   | ReleaseNameOp h ant_asset caller \<Rightarrow> release_name env h ant_asset caller s
   | PruneNameToReturnedOp h \<Rightarrow> prune_name_to_returned env h s
   | PruneExpiredNamesOp remaining max_names \<Rightarrow>
       prune_expired_names env remaining max_names s
   | PruneReturnedNamesOp remaining max_names \<Rightarrow>
       prune_returned_names env remaining max_names s)"

datatype reservation_op =
    ReserveNameOp pubkey string "pubkey option" "i64 option"
  | ClaimReservedNameOp pubkey name_hash
  | UnreserveNameOp pubkey name_hash
  | PruneExpiredReservationOp name_hash

definition reservation_step :: "arns_env \<Rightarrow> reservation_op \<Rightarrow> arns_state \<Rightarrow> arns_state arns_result" where
  "reservation_step env op s = (case op of
     ReserveNameOp authority name reserved_for expires_at \<Rightarrow>
       reserve_name env authority name reserved_for expires_at s
   | ClaimReservedNameOp authority h \<Rightarrow> claim_reserved_name env authority h s
   | UnreserveNameOp authority h \<Rightarrow> unreserve_name env authority h s
   | PruneExpiredReservationOp h \<Rightarrow> prune_expired_reservation env h s)"

datatype arns_admin_op =
    UpdateDemandFactorOp
  | InitializeArnsOp pubkey initialize_arns_params
  | CreateNameRegistryOp pubkey
  | AdminExpandNameRegistryOp pubkey u32
  | ArnsTransferAuthorityOp pubkey pubkey
  | ImportRegistryEntryOp pubkey name_hash u32
  | FinalizeMigrationOp pubkey

definition arns_admin_step :: "arns_env \<Rightarrow> arns_admin_op \<Rightarrow> arns_state \<Rightarrow> arns_state arns_result" where
  "arns_admin_step env op s = (case op of
     UpdateDemandFactorOp \<Rightarrow> update_demand_factor env s
   | InitializeArnsOp authority params \<Rightarrow> initialize_arns env authority params s
   | CreateNameRegistryOp authority \<Rightarrow> create_name_registry env authority s
   | AdminExpandNameRegistryOp authority target_capacity \<Rightarrow>
       admin_expand_name_registry env authority target_capacity s
   | ArnsTransferAuthorityOp authority new_authority \<Rightarrow>
       arns_transfer_authority env authority new_authority s
   | ImportRegistryEntryOp authority h registry_index \<Rightarrow>
       import_registry_entry env authority h registry_index s
   | FinalizeMigrationOp authority \<Rightarrow> finalize_migration env authority s)"

datatype arns_op =
    PurchaseOp purchase_op
  | ManageOp manage_op
  | OwnershipOp ownership_op
  | ReservationOp reservation_op
  | ArnsAdminOp arns_admin_op
  | GarOp gar_op

definition arns_step :: "arns_env \<Rightarrow> arns_op \<Rightarrow> arns_state \<Rightarrow> arns_state arns_result" where
  "arns_step env op s = (case op of
     PurchaseOp o1 \<Rightarrow> purchase_step env o1 s
   | ManageOp o2 \<Rightarrow> manage_step env o2 s
   | OwnershipOp o3 \<Rightarrow> ownership_step env o3 s
   | ReservationOp o4 \<Rightarrow> reservation_step env o4 s
   | ArnsAdminOp o5 \<Rightarrow> arns_admin_step env o5 s
   | GarOp o6 \<Rightarrow> gar_cpi (gar_step (gar_view env) o6 (gar_acc s)) s)"

section \<open>Effects\<close>

text \<open>A live record leaves the table for an auction, or the table altogether.\<close>

definition released :: "arns_env \<Rightarrow> arns_op \<Rightarrow> name_hash \<Rightarrow> arns_config \<Rightarrow> arns_record \<Rightarrow> pubkey \<Rightarrow> bool" where
  "released env x h c r initiator \<longleftrightarrow>
     ar_purchase_type r = Permabuy \<and> x = OwnershipOp (ReleaseNameOp h (ar_ant r) initiator) \<and> (\<exists>a. raw_accounts env (ar_ant r) = Some a
       \<and> ra_owner a = MPL_CORE_PROGRAM_ID \<and> read_mpl_core_owner (ra_data a) = Inr initiator)
   \<or> ar_purchase_type r = Lease \<and> initiator = pda_key env ArnsConfigPda
     \<and> (\<exists>e. ar_end_timestamp r = Some e \<and> now env > saturating_add_i64 e (ac_grace_period_seconds c))"

definition drop_names :: "name_hash list \<Rightarrow> arns_state \<Rightarrow> arns_state" where
  "drop_names hs s = s\<lparr>names_acc := map_option (fold remove_name_entry_by_hash hs) (names_acc s),
     arns_records := (arns_records s) |` (- set hs)\<rparr>"

definition over :: "arns_env \<Rightarrow> returned_name \<Rightarrow> bool" where
  "over env rn \<longleftrightarrow> now env \<ge> saturating_add_i64 (rn_returned_at rn) RETURNED_NAME_DURATION_SECONDS"

text \<open>The configuration fields that only genesis writes.\<close>

definition same_terms :: "arns_config \<Rightarrow> arns_config \<Rightarrow> bool" where
  "same_terms c c' \<longleftrightarrow> ac_total_names_registered c' = ac_total_names_registered c
     \<and> ac_grace_period_seconds c' = ac_grace_period_seconds c
     \<and> ac_return_auction_duration_seconds c' = ac_return_auction_duration_seconds c
     \<and> (ac_migration_active c' \<longrightarrow> ac_migration_active c)"

inductive arns_effect :: "arns_env \<Rightarrow> arns_op \<Rightarrow> arns_state \<Rightarrow> arns_state \<Rightarrow> bool" for env x s where
  Bought: "bought env params buyer price s s' \<Longrightarrow> arns_effect env x s s'"
| BoughtReturned: "bought_returned env params buyer price s s' \<Longrightarrow> arns_effect env x s s'"
| Upgraded: "upgraded env h caller price s s' \<Longrightarrow> arns_effect env x s s'"
| Extended: "extended env h years caller price s s' \<Longrightarrow> arns_effect env x s s'"
| UndernamesAdded: "undernames_added env h quantity caller price s s' \<Longrightarrow> arns_effect env x s s'"
| Reassigned: "arns_config_acc s = Some c \<Longrightarrow> arns_records s h = Some r \<Longrightarrow> is_active r (now env)
    \<Longrightarrow> raw_accounts env (ar_ant r) = Some a \<Longrightarrow> ra_owner a = MPL_CORE_PROGRAM_ID
    \<Longrightarrow> read_mpl_core_owner (ra_data a) = Inr caller
    \<Longrightarrow> x = OwnershipOp (ReassignNameOp h (ar_ant r) caller new_ant)
    \<Longrightarrow> arns_effect env x s (s\<lparr>arns_records := (arns_records s)(h \<mapsto> r\<lparr>ar_ant := new_ant\<rparr>)\<rparr>)"
| Released: "arns_config_acc s = Some c \<Longrightarrow> arns_records s h = Some r \<Longrightarrow> ar_name_hash r = h
    \<Longrightarrow> returned_names s h = None \<Longrightarrow> released env x h c r initiator
    \<Longrightarrow> return_name env h initiator c r s = Inr s' \<Longrightarrow> arns_effect env x s s'"
| Dropped: "arns_config_acc s = Some c \<Longrightarrow> distinct hs
    \<Longrightarrow> (\<forall>h \<in> set hs. \<exists>r. arns_records s h = Some r \<and> past_auction env c r)
    \<Longrightarrow> hs \<noteq> [] \<longrightarrow> names_acc s \<noteq> None
    \<Longrightarrow> s' = (drop_names hs s)\<lparr>arns_config_acc := Some (c\<lparr>ac_total_names_registered :=
          saturating_sub (ac_total_names_registered c) (of_nat (length hs))\<rparr>)\<rparr>
    \<Longrightarrow> length hs < 256 \<Longrightarrow> arns_effect env x s s'"
| AuctionsOver: "(\<forall>h \<in> hs. \<exists>rn. returned_names s h = Some rn \<and> over env rn)
    \<Longrightarrow> arns_effect env x s (s\<lparr>returned_names := (returned_names s) |` (- hs)\<rparr>)"
| Reserved: "arns_effect env x s (s\<lparr>reserved_names := m\<rparr>)"
| Rolled: "demand_acc s = Some d \<Longrightarrow> maybe_roll_demand_period d (now env) = Inr d1
    \<Longrightarrow> arns_effect env x s (s\<lparr>demand_acc := Some d1\<rparr>)"
| Configured: "arns_config_acc s = Some c \<Longrightarrow> same_terms c c'
    \<Longrightarrow> arns_effect env x s (s\<lparr>arns_config_acc := Some c'\<rparr>)"
| Grown: "names_acc s = Some reg \<Longrightarrow> reg' = reg \<or> reg' = grow_registry n reg
    \<Longrightarrow> arns_effect env x s (s\<lparr>names_acc := Some (reg'\<lparr>nr_initialized := i, nr_authority := a\<rparr>)\<rparr>)"
| GarMoved: "arns_effect env x s (s\<lparr>gar_acc := g\<rparr>)"

text \<open>
  Genesis and the registry import are the only instructions outside the effects; they fail once
  the program has its configuration and the migration is over.
\<close>

definition set_up :: "arns_state \<Rightarrow> bool" where
  "set_up s \<longleftrightarrow> (\<exists>c reg. arns_config_acc s = Some c \<and> \<not> ac_migration_active c \<and> names_acc s = Some reg)"

lemma purchase_step_effect:
  assumes "purchase_step env op s = Inr s'"
  shows "arns_effect env x s s'"
  using assms by (cases op; simp add: purchase_step_def; blast dest: buy_name_bought buy_name_from_delegation_bought
      buy_name_from_operator_stake_bought buy_name_from_withdrawal_bought buy_name_from_funding_plan_bought
      buy_returned_name_bought_returned buy_returned_name_from_delegation_bought_returned
      buy_returned_name_from_operator_stake_bought_returned
      buy_returned_name_from_withdrawal_bought_returned
      buy_returned_name_from_funding_plan_bought_returned
      intro: arns_effect.Bought arns_effect.BoughtReturned)

lemma manage_step_effect:
  assumes "manage_step env op s = Inr s'"
  shows "arns_effect env x s s'"
  using assms by (cases op; simp add: manage_step_def; blast dest: upgrade_name_upgraded upgrade_name_from_delegation_upgraded
      upgrade_name_from_operator_stake_upgraded upgrade_name_from_withdrawal_upgraded
      upgrade_name_from_funding_plan_upgraded extend_lease_extended extend_lease_from_delegation_extended
      extend_lease_from_operator_stake_extended extend_lease_from_withdrawal_extended
      extend_lease_from_funding_plan_extended increase_undername_limit_undernames_added
      increase_undername_limit_from_delegation_undernames_added
      increase_undername_limit_from_operator_stake_undernames_added
      increase_undername_limit_from_withdrawal_undernames_added
      increase_undername_limit_from_funding_plan_undernames_added
      intro: arns_effect.Upgraded arns_effect.Extended arns_effect.UndernamesAdded)

lemma restrict_UNIV [simp]: "m |` UNIV = m"
  by (simp add: restrict_map_def)

lemma drop_names_Nil [simp]: "drop_names [] s = s"
  by (cases s; cases "names_acc s") (simp_all add: drop_names_def)

lemma drop_names_Cons: "drop_names (h # hs) s = drop_names hs (drop_names [h] s)"
  by (simp add: drop_names_def option.map_comp comp_def Compl_Un [symmetric])

lemma prune_expired_turnE:
  assumes "prune_expired_turn env c i (n, s) = Inr (m, s1)"
  obtains "m = n" "s1 = s"
  | h r where "arns_records s h = Some r" "past_auction env c r" "names_acc s \<noteq> None"
      "m = Suc n" "s1 = drop_names [h] s"
proof (cases "\<exists>h r. i = ArnsRecordPda h \<and> arns_records s h = Some r \<and> past_auction env c r \<and> ar_name_hash r = h")
  case True
  then obtain h r where i: "i = ArnsRecordPda h" and
    r: "arns_records s h = Some r" "past_auction env c r" "ar_name_hash r = h" by blast
  with assms obtain reg where reg: "names_acc s = Some reg" "m = Suc n"
    and s1: "s1 = s\<lparr>names_acc := Some (remove_name_entry_by_hash h reg),
                  arns_records := (arns_records s)(h := None)\<rparr>"
    by (auto simp: prune_expired_turn_def i run_iff)
  have "(arns_records s)(h := None) = (arns_records s) |` (- {h})" by (auto simp: restrict_map_def)
  with r reg s1 have "s1 = drop_names [h] s" by (simp add: drop_names_def)
  then show ?thesis using that(2) [OF r(1,2) _ reg(2)] reg(1) by simp
next
  case False
  then have "prune_expired_turn env c i (n, s) = Inr (n, s)"
    by (auto simp: prune_expired_turn_def split: arns_pda.split option.split)
  with assms show ?thesis by (intro that(1)) simp_all
qed

lemma prune_expired_loop_drops:
  "prune_expired_loop env c infos (n, s) = Inr (m, s') \<Longrightarrow>
     \<exists>hs. distinct hs \<and> (\<forall>h \<in> set hs. \<exists>r. arns_records s h = Some r \<and> past_auction env c r)
       \<and> (hs \<noteq> [] \<longrightarrow> names_acc s \<noteq> None) \<and> s' = drop_names hs s \<and> m = n + length hs
       \<and> length hs \<le> length infos"
proof (induction infos arbitrary: n s)
  case Nil
  then show ?case by (intro exI [of _ "[]"]) simp
next
  case (Cons i infos)
  obtain n1 s1 where turn: "prune_expired_turn env c i (n, s) = Inr (n1, s1)"
    and rest: "prune_expired_loop env c infos (n1, s1) = Inr (m, s')"
    using Cons.prems by (auto simp: run_iff)
  from Cons.IH [OF rest] obtain hs where hs: "distinct hs"
    "\<forall>h \<in> set hs. \<exists>r. arns_records s1 h = Some r \<and> past_auction env c r"
    "hs \<noteq> [] \<longrightarrow> names_acc s1 \<noteq> None" "s' = drop_names hs s1" "m = n1 + length hs"
    "length hs \<le> length infos" by blast
  from turn show ?case
  proof (cases rule: prune_expired_turnE)
    case 1
    with hs show ?thesis by (intro exI [of _ hs]) simp
  next
    case (2 h r)
    have sub: "arns_records s1 k = Some r' \<Longrightarrow> k \<noteq> h \<and> arns_records s k = Some r'" for k r'
      by (auto simp: 2 drop_names_def restrict_map_def split: if_splits)
    have "distinct (h # hs)" using hs(1,2) sub by fastforce
    moreover have "\<forall>k \<in> set (h # hs). \<exists>r. arns_records s k = Some r \<and> past_auction env c r"
      using hs(2) sub 2 by fastforce
    moreover have "s' = drop_names (h # hs) s" using hs(4) 2 by (simp add: drop_names_Cons [of h hs])
    ultimately show ?thesis using hs(5,6) 2 by (intro exI [of _ "h # hs"]) simp
  qed
qed

lemma prune_returned_turn_over:
  "\<exists>hs. (\<forall>h \<in> hs. \<exists>rn. returned_names s h = Some rn \<and> over env rn)
     \<and> prune_returned_turn env i s = s\<lparr>returned_names := (returned_names s) |` (- hs)\<rparr>"
proof (cases "prune_returned_turn env i s = s")
  case True
  then show ?thesis by (intro exI [of _ "{}"]) (cases s; simp)
next
  case False
  then obtain h rn where "i = ReturnedNamePda h" "returned_names s h = Some rn" "over env rn"
    by (auto simp: prune_returned_turn_def over_def split: arns_pda.splits option.splits if_splits)
  moreover have "(returned_names s)(h := None) = (returned_names s) |` (- {h})"
    by (auto simp: restrict_map_def)
  ultimately show ?thesis using False
    by (intro exI [of _ "{h}"]) (auto simp: prune_returned_turn_def split: if_splits)
qed

lemma prune_returned_over:
  "\<exists>hs. (\<forall>h \<in> hs. \<exists>rn. returned_names s h = Some rn \<and> over env rn)
     \<and> fold (prune_returned_turn env) infos s = s\<lparr>returned_names := (returned_names s) |` (- hs)\<rparr>"
proof (induction infos arbitrary: s)
  case Nil
  then show ?case by (intro exI [of _ "{}"]) simp
next
  case (Cons i infos)
  obtain hs where hs: "\<forall>h \<in> hs. \<exists>rn. returned_names s h = Some rn \<and> over env rn"
    "prune_returned_turn env i s = s\<lparr>returned_names := (returned_names s) |` (- hs)\<rparr>"
    using prune_returned_turn_over by blast
  obtain ks where ks:
    "\<forall>h \<in> ks. \<exists>rn. returned_names (prune_returned_turn env i s) h = Some rn \<and> over env rn"
    "fold (prune_returned_turn env) infos (prune_returned_turn env i s) = (prune_returned_turn env i s)
       \<lparr>returned_names := (returned_names (prune_returned_turn env i s)) |` (- ks)\<rparr>"
    using Cons.IH by blast
  have "\<forall>h \<in> ks. \<exists>rn. returned_names s h = Some rn \<and> over env rn"
    using ks(1) hs(2) by (auto simp: restrict_map_def split: if_splits)
  with hs ks show ?case
    by (intro exI [of _ "hs \<union> ks"]) (auto simp: Int_commute)
qed

lemma not_Permabuy: "pt \<noteq> Permabuy \<longleftrightarrow> pt = Lease"
  by (cases pt) simp_all

lemma ant_holder_iff:
  "ant_holder env r ant_asset caller k = Inr x \<longleftrightarrow>
     ant_asset = ar_ant r \<and> (\<exists>a. raw_accounts env (ar_ant r) = Some a \<and> ra_owner a = MPL_CORE_PROGRAM_ID
        \<and> read_mpl_core_owner (ra_data a) = Inr caller) \<and> k = Inr x"
  by (auto simp: ant_holder_def run_iff)

lemma ownership_step_effect:
  assumes "ownership_step env op s = Inr s'"
  shows "arns_effect env (OwnershipOp op) s s'"
proof (cases op)
  case (ReassignNameOp h ant_asset caller new_ant)
  with assms show ?thesis
    by (auto simp: ownership_step_def reassign_name_def run_iff ant_holder_iff intro: arns_effect.Reassigned)
next
  case (ReleaseNameOp h ant_asset caller)
  with assms show ?thesis
    by (auto simp: ownership_step_def release_name_def run_iff ant_holder_iff released_def
        intro!: arns_effect.Released [where initiator = caller])
next
  case (PruneNameToReturnedOp h)
  with assms obtain c r e where "arns_config_acc s = Some c" "arns_records s h = Some r"
    "ar_name_hash r = h" "returned_names s h = None" "ar_purchase_type r = Lease"
    "ar_end_timestamp r = Some e" "now env > saturating_add_i64 e (ac_grace_period_seconds c)"
    "return_name env h (pda_key env ArnsConfigPda) c r s = Inr s'"
    by (auto simp: ownership_step_def prune_name_to_returned_def run_iff not_Permabuy
        split: purchase_type.splits option.splits)
  then show ?thesis
    by (intro arns_effect.Released [where initiator = "pda_key env ArnsConfigPda"])
       (auto simp: released_def)
next
  case (PruneExpiredNamesOp remaining max_names)
  with assms obtain c m s1 where c: "arns_config_acc s = Some c"
    and loop: "prune_expired_loop env c (take (unat max_names) remaining) (0, s) = Inr (m, s1)"
    and s': "s' = (if m > 0 then s1\<lparr>arns_config_acc := Some (c\<lparr>ac_total_names_registered :=
                 saturating_sub (ac_total_names_registered c) (of_nat m)\<rparr>)\<rparr> else s1)"
    by (auto simp: ownership_step_def prune_expired_names_def run_iff)
  from prune_expired_loop_drops [OF loop] obtain hs where hs: "distinct hs"
    "\<forall>h \<in> set hs. \<exists>r. arns_records s h = Some r \<and> past_auction env c r"
    "hs \<noteq> [] \<longrightarrow> names_acc s \<noteq> None" "s1 = drop_names hs s" "m = length hs"
    "length hs \<le> length (take (unat max_names) remaining)" by auto
  have "length hs < 256" using hs(6) unsigned_less [of max_names, where 'a = nat] by simp
  moreover have "s' = (drop_names hs s)\<lparr>arns_config_acc := Some (c\<lparr>ac_total_names_registered :=
        saturating_sub (ac_total_names_registered c) (of_nat (length hs))\<rparr>)\<rparr>"
    using hs c s' by (auto simp: saturating_sub_def)
  ultimately show ?thesis using hs c by (intro arns_effect.Dropped) simp_all
next
  case (PruneReturnedNamesOp remaining max_names)
  with assms obtain hs where "\<forall>h \<in> hs. \<exists>rn. returned_names s h = Some rn \<and> over env rn"
    "s' = s\<lparr>returned_names := (returned_names s) |` (- hs)\<rparr>"
    using prune_returned_over [of s env "take (unat max_names) remaining"]
    by (auto simp: ownership_step_def prune_returned_names_def run_iff)
  then show ?thesis by (simp add: arns_effect.AuctionsOver)
qed

lemma reservation_step_effect:
  assumes "reservation_step env op s = Inr s'"
  shows "arns_effect env x s s'"
  using assms by (cases op)
    (auto simp: reservation_step_def reserve_name_def claim_reserved_name_def unreserve_name_def
      close_reservation_def prune_expired_reservation_def run_iff Let_def intro: arns_effect.Reserved)

lemma same_terms_refl: "same_terms c c" by (simp add: same_terms_def)

lemma arns_admin_step_effect:
  assumes "arns_admin_step env op s = Inr s'" and "set_up s"
  shows "arns_effect env x s s'"
proof -
  obtain c reg where c: "arns_config_acc s = Some c" "\<not> ac_migration_active c" "names_acc s = Some reg"
    using assms(2) by (auto simp: set_up_def)
  show ?thesis
  proof (cases op)
    case UpdateDemandFactorOp
    with assms(1) show ?thesis
      by (auto simp: arns_admin_step_def update_demand_factor_def run_iff intro: arns_effect.Rolled)
  next
    case (InitializeArnsOp authority params)
    with assms(1) c show ?thesis by (simp add: arns_admin_step_def initialize_arns_def run_iff)
  next
    case (CreateNameRegistryOp authority)
    have grown: "arns_effect env x s (s\<lparr>names_acc := Some (reg'\<lparr>nr_initialized := i, nr_authority := a\<rparr>)\<rparr>)"
      "arns_effect env x s (s\<lparr>names_acc := Some reg'\<rparr>)"
      if "reg' = reg \<or> reg' = grow_registry n reg" for reg' n i a
      using arns_effect.Grown [OF c(3) that, where env = env and x = x]
        arns_effect.Grown [OF c(3) that, where env = env and x = x and i = "nr_initialized reg'" and a = "nr_authority reg'"]
      by simp_all
    have grow: "resize_registry n reg = grow_registry n reg" if "n \<ge> nr_data_len reg" for n
      using that by (simp add: grow_registry_def)
    show ?thesis using CreateNameRegistryOp assms(1) c
      by (auto simp: arns_admin_step_def create_name_registry_def run_iff Let_def grow
          split: if_splits intro: grown)
  next
    case (AdminExpandNameRegistryOp authority target)
    have same: "arns_effect env x y y" for y using arns_effect.Reserved [of env x y "reserved_names y"] by simp
    have grown: "arns_effect env x s (s\<lparr>names_acc := Some (resize_registry n reg)\<rparr>)"
      if "n \<ge> nr_data_len reg" for n
      using arns_effect.Grown [OF c(3), where reg' = "grow_registry n reg" and n = n and env = env and x = x
          and i = "nr_initialized (grow_registry n reg)" and a = "nr_authority (grow_registry n reg)"] that
      by (simp add: grow_registry_def)
    show ?thesis using AdminExpandNameRegistryOp assms(1) c
      by (auto simp: arns_admin_step_def admin_expand_name_registry_def run_iff Let_def same
          split: if_splits intro: grown)
  next
  case (ArnsTransferAuthorityOp authority new_authority)
    with assms(1) c show ?thesis
      by (auto simp: arns_admin_step_def arns_transfer_authority_def run_iff same_terms_def
          intro: arns_effect.Configured)
  next
    case (ImportRegistryEntryOp authority h i)
    with assms(1) c show ?thesis by (simp add: arns_admin_step_def import_registry_entry_def run_iff)
  next
    case (FinalizeMigrationOp authority)
    with assms(1) c show ?thesis by (simp add: arns_admin_step_def finalize_migration_def run_iff)
  qed
qed

lemma arns_step_effect:
  assumes "arns_step env op s = Inr s'" and "set_up s"
  shows "arns_effect env op s s'"
  using assms
  by (cases op)
    (auto simp: arns_step_def gar_cpi_iff purchase_step_effect manage_step_effect ownership_step_effect
      reservation_step_effect arns_admin_step_effect intro: arns_effect.GarMoved)

end
