(* ===== verification/Arns_Invariant.thy ===== *)
theory Arns_Invariant
  imports Arns_System
begin

text \<open>
  The invariant of the name program: names are stored under their own hash, a name is never both
  registered and in an auction, a permanent name has no end and a lease ends within five years,
  the registry lists exactly the registered names and the configuration counts them, and the
  demand factor stays within its bounds. It is proved once for each effect and holds for every
  sequence of transactions by the interpretation at the end.
\<close>

section \<open>The demand factor\<close>

definition demand_ok :: "demand_factor \<Rightarrow> bool" where
  "demand_ok d \<longleftrightarrow> rings_sized d \<and> length (df_fees d) = NUM_NAME_LENGTH_FEES
     \<and> DEMAND_FACTOR_MIN \<le> df_current_demand_factor d \<and> df_current_demand_factor d \<le> MAX_DEMAND_FACTOR
     \<and> df_consecutive_periods_with_min_demand_factor d \<le> MAX_PERIODS_AT_MIN_DEMAND_FACTOR"

lemmas factor_bounds = DEMAND_FACTOR_MIN_def MAX_DEMAND_FACTOR_def DEMAND_FACTOR_SCALE_def

lemma update_fees_length: "update_fees fees m = Inr fees' \<Longrightarrow> length fees' = length fees"
  by (induction fees arbitrary: fees') (auto simp: run_iff)

lemma decayed_le: "decayed f \<le> f"
proof (cases "f > DEMAND_FACTOR_MIN")
  case True
  have "uint f * 985000 div 1000000 \<le> uint f" "0 \<le> uint f * 985000 div 1000000"
    using uint_ge_0 [of f] by linarith+
  then have "uint (decayed f) \<le> uint f"
    using True scaled_product(4,5) [of "985000 :: u64" f]
    by (simp add: decayed_def DEMAND_FACTOR_DOWN_ADJUSTMENT_def DEMAND_FACTOR_SCALE_def uint_word_of_int_eq
        take_bit_int_eq_self)
  then show ?thesis by (simp add: word_le_def)
next
  case False
  then show ?thesis by (simp add: decayed_def)
qed

lemma adjust_factor_le_max:
  assumes "adjust_factor increasing f = Inr f'" and "f \<le> MAX_DEMAND_FACTOR"
  shows "f' \<le> MAX_DEMAND_FACTOR"
proof (cases increasing)
  case True
  with assms(1) show ?thesis by (auto simp: adjust_factor_def run_iff)
next
  case False
  with assms adjust_down [of f] decayed_le [of f] show ?thesis by auto
qed

lemma roll_one_period_ok:
  assumes run: "roll_one_period d = Inr d1" and ok: "demand_ok d"
  shows "demand_ok d1"
proof -
  have sizes: "rings_sized d1" using roll_one_period_frame(4) [OF run] ok by (simp add: demand_ok_def)
  obtain increasing f where f: "adjust_factor increasing (df_current_demand_factor d) = Inr f"
    and rest: "and_then
       (if f \<le> DEMAND_FACTOR_MIN then
          if df_consecutive_periods_with_min_demand_factor d \<ge> MAX_PERIODS_AT_MIN_DEMAND_FACTOR then
            and_then (update_fees (df_fees d) DEMAND_FACTOR_MIN) (\<lambda>fees.
            Inr (DEMAND_FACTOR_SCALE, 0, fees))
          else
            ok_or (checked_add (df_consecutive_periods_with_min_demand_factor d) 1)
              ArnsArithmeticOverflow (\<lambda>c. Inr (DEMAND_FACTOR_MIN, c, df_fees d))
        else Inr (f, 0, df_fees d)) (\<lambda>(factor, consecutive, fees).
     let ring_idx = unat (df_current_period d) mod MOVING_AVG_PERIOD_COUNT in
     ok_or (checked_add (df_current_period d) 1) ArnsArithmeticOverflow (\<lambda>next_period.
     Inr (d\<lparr>df_current_demand_factor := factor,
            df_consecutive_periods_with_min_demand_factor := consecutive,
            df_fees := fees,
            df_trailing_period_purchases :=
              (df_trailing_period_purchases d)[ring_idx := df_purchases_this_period d],
            df_trailing_period_revenues :=
              (df_trailing_period_revenues d)[ring_idx := df_revenue_this_period d],
            df_purchases_this_period := 0,
            df_revenue_this_period := 0,
            df_current_period := next_period\<rparr>))) = Inr d1"
    using run by (auto simp: roll_one_period_def and_then_iff)
  have max: "f \<le> MAX_DEMAND_FACTOR" using adjust_factor_le_max [OF f] ok by (simp add: demand_ok_def)
  have "c + 1 \<le> 7" if "\<not> 7 \<le> c" for c :: u32
    using that uint_add_exact [of c 1] by (simp add: word_le_def)
  then show ?thesis using rest ok max sizes
    by (auto simp: demand_ok_def run_iff Let_def factor_bounds MAX_PERIODS_AT_MIN_DEMAND_FACTOR_def checked_add_iff
        dest!: update_fees_length split: if_splits)
qed

lemma roll_periods_ok: "roll_periods n d = Inr d1 \<Longrightarrow> demand_ok d \<Longrightarrow> demand_ok d1"
  by (induction n arbitrary: d) (auto simp: run_iff intro: roll_one_period_ok)

lemma maybe_roll_ok:
  assumes run: "maybe_roll_demand_period d t = Inr d1" and ok: "demand_ok d"
  shows "demand_ok d1"
proof -
  obtain period where period: "get_period_for_timestamp t (df_period_zero_start_timestamp d) = Inr period"
    using run by (auto simp: maybe_roll_demand_period_def and_then_iff)
  show ?thesis
  proof (cases "df_current_period d < period")
    case True
    have "rings_sized d" using ok by (simp add: demand_ok_def)
    from rollover_loop [OF this period True] run ok show ?thesis by (auto intro: roll_periods_ok)
  next
    case False
    with run period ok show ?thesis by (simp add: maybe_roll_demand_period_def not_less)
  qed
qed

lemma tally_demand_ok: "tally_demand price d = Inr d1 \<Longrightarrow> demand_ok d \<Longrightarrow> demand_ok d1"
  by (auto simp: tally_demand_def run_iff demand_ok_def rings_sized_def)

section \<open>Valid names\<close>

lemma valid_name_chars:
  assumes "is_valid_arns_name n"
  shows "\<forall>c \<in> set n. (is_ascii_alphanumeric c \<or> c = CHR ''-'') \<and> \<not> is_ascii_uppercase c"
proof -
  have len: "n \<noteq> []" "list_all (\<lambda>c. \<not> is_ascii_uppercase c) n"
    using assms by (auto simp: is_valid_arns_name_def Let_def list_ex_iff list_all_iff split: if_splits)
  show ?thesis
  proof (cases "length n = 1")
    case True
    then obtain c where "n = [c]" by (cases n) auto
    with assms len show ?thesis by (auto simp: is_valid_arns_name_def split: if_splits)
  next
    case False
    then obtain a m b where n: "n = a # m @ [b]"
      using len(1) by (cases n; cases "tl n" rule: rev_cases) auto
    from assms have "is_ascii_alphanumeric a" "is_ascii_alphanumeric b"
      "\<forall>c \<in> set m. is_ascii_alphanumeric c \<or> c = CHR ''-''"
      by (auto simp: is_valid_arns_name_def n list_all_iff nth_append Let_def split: if_splits)
    with len show ?thesis by (auto simp: n list_all_iff)
  qed
qed

lemma valid_name_lowercase:
  assumes "is_valid_arns_name n"
  shows "to_lowercase env n = n" and "hash_name env n = sha256 env n"
proof -
  note chars = valid_name_chars [OF assms]
  have "(of_char c :: nat) < 128" if "c \<in> set n" for c
    using chars that by (auto simp: is_ascii_alphanumeric_def Let_def)
  moreover have "map ascii_lowercase n = n"
    using chars by (intro map_idI) (auto simp: ascii_lowercase_def)
  ultimately show "to_lowercase env n = n" by (simp add: to_lowercase_def list_all_iff)
  then show "hash_name env n = sha256 env n" by (simp add: hash_name_def)
qed

section \<open>The invariant\<close>

definition record_ok :: "(string \<Rightarrow> name_hash) \<Rightarrow> i64 \<Rightarrow> name_hash \<Rightarrow> arns_record \<Rightarrow> bool" where
  "record_ok H t h r \<longleftrightarrow> ar_name_hash r = h \<and> h = H (ar_name r) \<and> is_valid_arns_name (ar_name r)
     \<and> (ar_purchase_type r = Permabuy \<longleftrightarrow> ar_end_timestamp r = None)
     \<and> (\<forall>e. ar_end_timestamp r = Some e \<longrightarrow>
           0 \<le> e \<and> e \<le> t + uint MAX_LEASE_LENGTH_YEARS * ONE_YEAR_SECONDS)
     \<and> DEFAULT_UNDERNAME_COUNT \<le> ar_undername_limit r \<and> ar_undername_limit r \<le> MAX_UNDERNAME_LIMIT"

definition auction_ok :: "(string \<Rightarrow> name_hash) \<Rightarrow> i64 \<Rightarrow> name_hash \<Rightarrow> returned_name \<Rightarrow> bool" where
  "auction_ok H t h rn \<longleftrightarrow> rn_name_hash rn = h \<and> h = H (rn_name rn) \<and> is_valid_arns_name (rn_name rn)
     \<and> 0 \<le> rn_returned_at rn \<and> rn_returned_at rn \<le> t"

definition config_ok :: "arns_config \<Rightarrow> nat \<Rightarrow> bool" where
  "config_ok c names \<longleftrightarrow> \<not> ac_migration_active c \<and> unat (ac_total_names_registered c) = names
     \<and> ac_grace_period_seconds c = GRACE_PERIOD_SECONDS
     \<and> ac_return_auction_duration_seconds c = RETURNED_NAME_DURATION_SECONDS"

definition table_tracks :: "arns_state \<Rightarrow> bool" where
  "table_tracks s \<longleftrightarrow> (\<exists>reg. names_acc s = Some reg \<and> index.tracks reg (arns_records s))"

definition arns_inv :: "(string \<Rightarrow> name_hash) \<Rightarrow> i64 \<Rightarrow> arns_state \<Rightarrow> bool" where
  "arns_inv H t s \<longleftrightarrow>
     (\<exists>c. arns_config_acc s = Some c \<and> config_ok c (card (dom (arns_records s))))
     \<and> (\<exists>d. demand_acc s = Some d \<and> demand_ok d)
     \<and> table_tracks s
     \<and> (\<forall>h r. arns_records s h = Some r \<longrightarrow> record_ok H t h r)
     \<and> (\<forall>h rn. returned_names s h = Some rn \<longrightarrow> auction_ok H t h rn)
     \<and> (\<forall>h. arns_records s h = None \<or> returned_names s h = None)"

text \<open>The runtime: one hash function, and a clock far from the end of \<open>i64\<close>.\<close>

definition arns_runtime :: "(string \<Rightarrow> name_hash) \<Rightarrow> arns_env \<Rightarrow> arns_op \<Rightarrow> arns_state \<Rightarrow> bool" where
  "arns_runtime H env op s \<longleftrightarrow> sha256 env = H \<and> 0 \<le> now env \<and> now env < 2 ^ 62"

lemma arns_inv_set_up: "arns_inv H t s \<Longrightarrow> set_up s"
  by (auto simp: arns_inv_def set_up_def table_tracks_def config_ok_def)

lemma arns_inv_later: "arns_inv H t s \<Longrightarrow> t \<le> t' \<Longrightarrow> arns_inv H t' s"
  unfolding arns_inv_def record_ok_def auction_ok_def by (meson add_right_mono order_trans)

lemma arns_invD:
  assumes "arns_inv H t s"
  obtains c d reg where "arns_config_acc s = Some c" "config_ok c (card (dom (arns_records s)))"
    "demand_acc s = Some d" "demand_ok d" "names_acc s = Some reg" "index.tracks reg (arns_records s)"
    "finite (dom (arns_records s))" "unat (nr_count reg) = card (dom (arns_records s))"
  using assms unfolding arns_inv_def table_tracks_def by (metis index.tracks_size)

lemma arns_inv_records: "arns_inv H t s \<Longrightarrow> arns_records s h = Some r \<Longrightarrow> record_ok H t h r"
  by (simp add: arns_inv_def)

lemma arns_inv_auctions: "arns_inv H t s \<Longrightarrow> returned_names s h = Some rn \<Longrightarrow> auction_ok H t h rn"
  by (simp add: arns_inv_def)

lemma arns_inv_disjoint: "arns_inv H t s \<Longrightarrow> arns_records s h = None \<or> returned_names s h = None"
  by (simp add: arns_inv_def)

text \<open>Changing one registered record, and nothing else the invariant reads but the demand account.\<close>

lemma arns_inv_update:
  assumes inv: "arns_inv H t s" and r: "arns_records s h = Some r" and ok: "record_ok H t h r'"
    and c: "arns_config_acc s' = Some c'" "config_ok c' (card (dom (arns_records s)))"
    and d: "demand_acc s' = Some d'" "demand_ok d'"
    and s': "names_acc s' = names_acc s" "arns_records s' = (arns_records s)(h \<mapsto> r')"
      "returned_names s' = returned_names s"
  shows "arns_inv H t s'"
proof -
  have "dom (arns_records s') = dom (arns_records s)" using r by (auto simp: s')
  moreover have "table_tracks s'"
    using inv r index.tracks_upd by (fastforce simp: arns_inv_def table_tracks_def s')
  moreover have "\<forall>k x. arns_records s' k = Some x \<longrightarrow> record_ok H t k x"
    using arns_inv_records [OF inv] ok by (simp add: s')
  moreover have "\<forall>k. arns_records s' k = None \<or> returned_names s' k = None"
    using arns_inv_disjoint [OF inv] arns_inv_disjoint [OF inv, of h] r by (simp add: s')
  ultimately show ?thesis using c d arns_inv_auctions [OF inv] by (simp add: arns_inv_def s'(3))
qed

lemma schedule_records_prune_terms:
  "schedule_records_prune e c = Inr c' \<Longrightarrow> config_ok c' n = config_ok c n"
  by (cases e) (auto simp: schedule_records_prune_def run_iff config_ok_def split: if_splits)

lemma schedule_returned_prune_terms:
  "schedule_returned_prune t c = Inr c' \<Longrightarrow>
     config_ok c' n = config_ok c n \<and> ac_total_names_registered c' = ac_total_names_registered c"
  by (auto simp: schedule_returned_prune_def run_iff config_ok_def split: if_splits)

lemma lease_end_bounds:
  assumes "lease_end t pt years = Inr e" and "years_allowed pt years" and "0 \<le> t"
  shows "(pt = Permabuy \<longleftrightarrow> e = None)"
    and "\<And>x. e = Some x \<Longrightarrow> x = t + uint years * ONE_YEAR_SECONDS \<and> 1 \<le> uint years \<and> uint years \<le> 5"
  using assms
  by (auto simp: lease_end_def run_iff checked_add_i64_iff years_allowed_def checked_mul_i64_def word_le_def
      MAX_LEASE_LENGTH_YEARS_def split: purchase_type.splits if_splits)

lemma config_ok_more:
  assumes "config_ok c n" and "checked_add (ac_total_names_registered c) 1 = Some n_total"
  shows "config_ok (c\<lparr>ac_total_names_registered := n_total\<rparr>) (Suc n)"
proof -
  have "uint n_total = uint (ac_total_names_registered c) + 1" using checked_addD [OF assms(2)] by simp
  then have "unat n_total = Suc (unat (ac_total_names_registered c))" unfolding uint_nat by linarith
  with assms(1) show ?thesis by (simp add: config_ok_def)
qed

lemma config_ok_fewer:
  assumes "config_ok c n" and "k < 256" and "k \<le> n"
  shows "config_ok (c\<lparr>ac_total_names_registered := saturating_sub (ac_total_names_registered c) (of_nat k)\<rparr>) (n - k)"
proof -
  have "uint (of_nat k :: u64) = int k" using assms(2) by (simp add: unsigned_of_nat take_bit_nat_eq_self)
  then have "uint (saturating_sub (ac_total_names_registered c) (of_nat k))
      = max 0 (uint (ac_total_names_registered c) - int k)" by (simp add: uint_saturating_sub)
  then have "unat (saturating_sub (ac_total_names_registered c) (of_nat k)) = n - k"
    using assms unfolding config_ok_def uint_nat by linarith
  with assms(1) show ?thesis by (simp add: config_ok_def)
qed

section \<open>Registration\<close>

lemma register_name_effect:
  assumes run: "register_name env h params buyer price c d1 (s\<lparr>gar_acc := g\<rparr>) = Inr s'"
    and inv: "arns_inv H (now env) s" and rt: "arns_runtime H env op s"
    and c: "arns_config_acc s = Some c" and d: "demand_ok d1"
    and h: "h = hash_name env (bp_name params)" and free: "arns_records s h = None"
    and name: "is_valid_arns_name (bp_name params)"
    and years: "years_allowed (bp_purchase_type params) (bp_years params)"
  obtains c' d' reg' r where
    "s' = s\<lparr>gar_acc := g, arns_config_acc := Some c', demand_acc := Some d', names_acc := Some reg',
           arns_records := (arns_records s)(h \<mapsto> r)\<rparr>"
    "config_ok c' (card (dom ((arns_records s)(h \<mapsto> r))))" "demand_ok d'"
    "index.tracks reg' ((arns_records s)(h \<mapsto> r))" "record_ok H (now env) h r"
    "ar_owner r = buyer" "ar_purchase_price r = price" "ar_ant r = bp_ant params"
    "lease_end (now env) (bp_purchase_type params) (bp_years params) = Inr (ar_end_timestamp r)"
    "ar_purchase_type r = bp_purchase_type params"
proof -
  obtain reg where reg: "names_acc s = Some reg" "index.tracks reg (arns_records s)"
    and fin: "finite (dom (arns_records s))" and cok: "config_ok c (card (dom (arns_records s)))"
    using arns_invD [OF inv] c by (metis option.inject)
  define r where "r e = \<lparr>ar_name_hash = h, ar_owner = buyer, ar_ant = bp_ant params,
               ar_purchase_type = bp_purchase_type params, ar_start_timestamp = now env,
               ar_end_timestamp = e, ar_undername_limit = DEFAULT_UNDERNAME_COUNT,
               ar_purchase_price = price, ar_bump = pda_bump env (ArnsRecordPda h),
               ar_name = to_lowercase env (bp_name params), ar_version = V1_0_0\<rparr>" for e
  obtain e n_total c' d' reg0 reg' where e: "lease_end (now env) (bp_purchase_type params) (bp_years params) = Inr e"
    and more: "checked_add (ac_total_names_registered c) 1 = Some n_total"
    and c': "schedule_records_prune e (c\<lparr>ac_total_names_registered := n_total\<rparr>) = Inr c'"
    and d': "tally_demand price d1 = Inr d'" and reg0: "names_acc (s\<lparr>gar_acc := g\<rparr>) = Some reg0"
    and app: "append_name_entry reg0 \<lparr>ne_name_hash = h, ne_registry_index = nr_count reg0\<rparr> = Inr reg'"
    and s1: "Inr (s\<lparr>gar_acc := g, arns_config_acc := Some c', demand_acc := Some d', names_acc := Some reg',
       arns_records := (arns_records (s\<lparr>gar_acc := g\<rparr>))(h \<mapsto> r e)\<rparr>) = Inr s'"
    using run unfolding register_name_def run_iff r_def
    by (elim exE conjE) (rule that, assumption+, simp add: r_def)
  have reg': "append_hash reg h = Inr reg'" using reg(1) reg0 app by (simp add: append_hash_def)
  have s': "s' = s\<lparr>gar_acc := g, arns_config_acc := Some c', demand_acc := Some d', names_acc := Some reg',
       arns_records := (arns_records s)(h \<mapsto> r e)\<rparr>" using s1 by simp
  have now: "0 \<le> now env" "sha256 env = H" using rt by (simp_all add: arns_runtime_def)
  have card: "card (dom ((arns_records s)(h \<mapsto> r e))) = Suc (card (dom (arns_records s)))"
    using fin free by (simp add: card_insert_disjoint domIff)
  note lease = lease_end_bounds [OF e years now(1)]
  show ?thesis
  proof (rule that [OF s'])
    show "config_ok c' (card (dom ((arns_records s)(h \<mapsto> r e))))"
      unfolding card schedule_records_prune_terms [OF c'] by (rule config_ok_more [OF cok more])
    show "demand_ok d'" by (rule tally_demand_ok [OF d' d])
    show "index.tracks reg' ((arns_records s)(h \<mapsto> r e))" by (rule index.tracks_append [OF reg(2) free reg'])
    show "record_ok H (now env) h (r e)"
    proof -
      have "h = H (ar_name (r e))" using valid_name_lowercase [OF name, of env] now by (simp add: h r_def)
      moreover have "is_valid_arns_name (ar_name (r e))" using valid_name_lowercase [OF name, of env] name by (simp add: r_def)
      moreover have "0 \<le> x \<and> x \<le> now env + uint MAX_LEASE_LENGTH_YEARS * ONE_YEAR_SECONDS" if "e = Some x" for x
        using lease(2) [OF that] now(1) by (simp add: MAX_LEASE_LENGTH_YEARS_def ONE_YEAR_SECONDS_def)
      ultimately show ?thesis using lease(1)
        by (simp add: record_ok_def r_def DEFAULT_UNDERNAME_COUNT_def MAX_UNDERNAME_LIMIT_def)
    qed
  qed (use e in \<open>simp_all add: r_def\<close>)
qed

section \<open>Every effect keeps the invariant\<close>

lemma bought_keeps:
  assumes eff: "bought env params buyer price s s'"
    and inv: "arns_inv H (now env) s" and rt: "arns_runtime H env op s"
  shows "arns_inv H (now env) s'"
proof -
  obtain h c d d1 g s2 where h: "h = hash_name env (bp_name params)"
    and c: "arns_config_acc s = Some c" and d: "demand_acc s = Some d"
    and free: "arns_records s h = None" "returned_names s h = None"
    and name: "is_valid_arns_name (bp_name params)"
    and years: "years_allowed (bp_purchase_type params) (bp_years params)"
    and roll: "maybe_roll_demand_period d (now env) = Inr d1"
    and run: "register_name env h params buyer price c d1 (s\<lparr>gar_acc := g\<rparr>) = Inr s2"
    and s': "s' = s2\<lparr>reserved_names := (reserved_names s2)(h := None)\<rparr>"
    using eff unfolding bought_def by blast
  have dok: "demand_ok d1" using maybe_roll_ok [OF roll] inv d by (auto simp: arns_inv_def)
  obtain c' d' reg' r where s2: "s2 = s\<lparr>gar_acc := g, arns_config_acc := Some c', demand_acc := Some d',
         names_acc := Some reg', arns_records := (arns_records s)(h \<mapsto> r)\<rparr>"
    and ok: "config_ok c' (card (dom ((arns_records s)(h \<mapsto> r))))" "demand_ok d'"
    "index.tracks reg' ((arns_records s)(h \<mapsto> r))" "record_ok H (now env) h r"
    by (rule register_name_effect [OF run inv rt c dok h free(1) name years])
  show ?thesis
    using ok free(2) arns_inv_records [OF inv] arns_inv_auctions [OF inv] arns_inv_disjoint [OF inv]
    by (simp add: arns_inv_def table_tracks_def s' s2)
qed

lemma bought_returned_keeps:
  assumes eff: "bought_returned env params buyer price s s'"
    and inv: "arns_inv H (now env) s" and rt: "arns_runtime H env op s"
  shows "arns_inv H (now env) s'"
proof -
  obtain h c d d1 g s2 where h: "h = hash_name env (bp_name params)"
    and c: "arns_config_acc s = Some c" and d: "demand_acc s = Some d"
    and free: "arns_records s h = None"
    and name: "is_valid_arns_name (bp_name params)"
    and years: "years_allowed (bp_purchase_type params) (bp_years params)"
    and roll: "maybe_roll_demand_period d (now env) = Inr d1"
    and run: "register_name env h params buyer price c d1 (s\<lparr>gar_acc := g\<rparr>) = Inr s2"
    and s': "s' = s2\<lparr>returned_names := (returned_names s2)(h := None)\<rparr>"
    using eff unfolding bought_returned_def by blast
  have dok: "demand_ok d1" using maybe_roll_ok [OF roll] inv d by (auto simp: arns_inv_def)
  obtain c' d' reg' r where s2: "s2 = s\<lparr>gar_acc := g, arns_config_acc := Some c', demand_acc := Some d',
         names_acc := Some reg', arns_records := (arns_records s)(h \<mapsto> r)\<rparr>"
    and ok: "config_ok c' (card (dom ((arns_records s)(h \<mapsto> r))))" "demand_ok d'"
    "index.tracks reg' ((arns_records s)(h \<mapsto> r))" "record_ok H (now env) h r"
    by (rule register_name_effect [OF run inv rt c dok h free name years])
  show ?thesis
    using ok arns_inv_records [OF inv] arns_inv_auctions [OF inv] arns_inv_disjoint [OF inv]
    by (simp add: arns_inv_def table_tracks_def s' s2)
qed

lemma upgraded_keeps:
  assumes eff: "upgraded env h caller price s s'" and inv: "arns_inv H (now env) s"
  shows "arns_inv H (now env) s'"
proof -
  obtain c d r d1 d2 g where c: "arns_config_acc s = Some c" and d: "demand_acc s = Some d"
    and r: "arns_records s h = Some r"
    and roll: "maybe_roll_demand_period d (now env) = Inr d1" and d2: "tally_demand price d1 = Inr d2"
    and s': "s' = s\<lparr>gar_acc := g, demand_acc := Some d2, arns_records := (arns_records s)(h \<mapsto>
              r\<lparr>ar_purchase_type := Permabuy, ar_end_timestamp := None, ar_purchase_price := price\<rparr>)\<rparr>"
    using eff unfolding upgraded_def by blast
  have "demand_ok d2" using tally_demand_ok [OF d2] maybe_roll_ok [OF roll] inv d by (auto simp: arns_inv_def)
  moreover have "config_ok c (card (dom (arns_records s)))" using inv c by (auto simp: arns_inv_def)
  ultimately show ?thesis
    using arns_inv_records [OF inv r] c
    by (intro arns_inv_update [OF inv r]) (simp_all add: s' record_ok_def)
qed

lemma extension_bounds:
  assumes "uint years \<le> max 0 (uint MAX_LEASE_LENGTH_YEARS - remaining_years e t)" and "years \<ge> 1"
    and "extended_end e years = Inr e'" and "0 \<le> e" and "e \<le> t + 5 * ONE_YEAR_SECONDS"
    and "0 \<le> t" and "t < 2 ^ 62"
  shows "e < e'" and "e' \<le> t + 5 * ONE_YEAR_SECONDS"
proof -
  define y where "y = ONE_YEAR_SECONDS"
  have y: "y = 31536000" by (simp add: y_def ONE_YEAR_SECONDS_def)
  have "- (2 ^ 63) \<le> e - t" "e - t \<le> 2 ^ 63 - 1" using assms(4-7) by (simp_all add: ONE_YEAR_SECONDS_def)
  then have clamp: "clamp_i64 (e - t) = e - t" by (simp add: clamp_i64_def)
  have e': "e' = e + uint years * y"
    using assms(3) by (auto simp: extended_end_def run_iff checked_add_i64_iff checked_mul_i64_def y_def split: if_splits)
  have years: "1 \<le> uint years" using assms(2) by (simp add: word_le_def)
  then show "e < e'" by (simp add: e' y)
  define q where "q = (max 0 (e - t) + y - 1) div y"
  have "uint years + q \<le> 5"
    using assms(1) years by (simp add: remaining_years_def clamp q_def y_def MAX_LEASE_LENGTH_YEARS_def max_def split: if_splits)
  moreover have "max 0 (e - t) \<le> q * y" unfolding q_def y by linarith
  moreover have "(uint years + q) * y = uint years * y + q * y" by (simp add: distrib_right)
  ultimately show "e' \<le> t + 5 * ONE_YEAR_SECONDS"
    using mult_right_mono [of "uint years + q" 5 y] unfolding e' y_def [symmetric] y by linarith
qed

lemma extended_effect:
  assumes eff: "extended env h years caller price s s'"
    and inv: "arns_inv H (now env) s" and rt: "arns_runtime H env op s"
  obtains c c' d' r e new_end g where "arns_config_acc s = Some c" "arns_records s h = Some r"
    "ar_purchase_type r = Lease" "ar_end_timestamp r = Some e" "usable env c r"
    "e < new_end" "new_end \<le> now env + 5 * ONE_YEAR_SECONDS" "0 \<le> e"
    "config_ok c' (card (dom (arns_records s)))" "demand_ok d'"
    "s' = s\<lparr>gar_acc := g, arns_config_acc := Some c', demand_acc := Some d',
            arns_records := (arns_records s)(h \<mapsto> r\<lparr>ar_end_timestamp := Some new_end\<rparr>)\<rparr>"
proof -
  obtain c d r d1 g e new_end where c: "arns_config_acc s = Some c" and d: "demand_acc s = Some d"
    and r: "arns_records s h = Some r" "ar_purchase_type r = Lease" "usable env c r" "years \<ge> 1"
      "ar_end_timestamp r = Some e"
    and room: "uint years \<le> max 0 (uint MAX_LEASE_LENGTH_YEARS - remaining_years e (now env))"
    and roll: "maybe_roll_demand_period d (now env) = Inr d1"
    and new_end: "extended_end e years = Inr new_end"
    and run: "record_extension h new_end price c d1 r (s\<lparr>gar_acc := g\<rparr>) = Inr s'"
    using eff unfolding extended_def by blast
  obtain c' d' where c': "schedule_records_prune (Some new_end) c = Inr c'" and d': "tally_demand price d1 = Inr d'"
    and s': "s' = s\<lparr>gar_acc := g, arns_config_acc := Some c', demand_acc := Some d',
            arns_records := (arns_records s)(h \<mapsto> r\<lparr>ar_end_timestamp := Some new_end\<rparr>)\<rparr>"
    using run by (auto simp: record_extension_def run_iff)
  have e: "0 \<le> e" "e \<le> now env + 5 * ONE_YEAR_SECONDS"
    using arns_inv_records [OF inv r(1)] r(5) by (auto simp: record_ok_def MAX_LEASE_LENGTH_YEARS_def)
  have "0 \<le> now env" "now env < 2 ^ 62" using rt by (simp_all add: arns_runtime_def)
  from extension_bounds [OF room r(4) new_end e this]
  have "e < new_end" "new_end \<le> now env + 5 * ONE_YEAR_SECONDS" .
  moreover have "demand_ok d'" using tally_demand_ok [OF d'] maybe_roll_ok [OF roll] inv d by (auto simp: arns_inv_def)
  moreover have "config_ok c' (card (dom (arns_records s)))"
    using inv c schedule_records_prune_terms [OF c'] by (auto simp: arns_inv_def)
  ultimately show ?thesis using that c r s' e by blast
qed

lemma extended_keeps:
  assumes eff: "extended env h years caller price s s'"
    and inv: "arns_inv H (now env) s" and rt: "arns_runtime H env op s"
  shows "arns_inv H (now env) s'"
proof (rule extended_effect [OF eff inv rt])
  fix c c' d' r e new_end g
  assume r: "arns_records s h = Some r" and rest: "ar_purchase_type r = Lease"
    "e < new_end" "new_end \<le> now env + 5 * ONE_YEAR_SECONDS" "0 \<le> e"
    "config_ok c' (card (dom (arns_records s)))" "demand_ok d'"
    "s' = s\<lparr>gar_acc := g, arns_config_acc := Some c', demand_acc := Some d',
            arns_records := (arns_records s)(h \<mapsto> r\<lparr>ar_end_timestamp := Some new_end\<rparr>)\<rparr>"
  show ?thesis
    using rest arns_inv_records [OF inv r]
    by (intro arns_inv_update [OF inv r]) (simp_all add: record_ok_def MAX_LEASE_LENGTH_YEARS_def)
qed

lemma checked_undername_limitD:
  assumes "checked_undername_limit limit q = Inr l"
  shows "limit < l" and "l \<le> MAX_UNDERNAME_LIMIT"
  using assms by (auto simp: checked_undername_limit_def run_iff word_less_def dest!: checked_addD)

lemma undernames_added_keeps:
  assumes eff: "undernames_added env h quantity caller price s s'" and inv: "arns_inv H (now env) s"
  shows "arns_inv H (now env) s'"
proof -
  obtain c d r d1 d2 g l where c: "arns_config_acc s = Some c" and d: "demand_acc s = Some d"
    and r: "arns_records s h = Some r"
    and l: "checked_undername_limit (ar_undername_limit r) quantity = Inr l"
    and roll: "maybe_roll_demand_period d (now env) = Inr d1" and d2: "tally_demand price d1 = Inr d2"
    and s': "s' = s\<lparr>gar_acc := g, demand_acc := Some d2,
              arns_records := (arns_records s)(h \<mapsto> r\<lparr>ar_undername_limit := l\<rparr>)\<rparr>"
    using eff unfolding undernames_added_def by blast
  have "demand_ok d2" using tally_demand_ok [OF d2] maybe_roll_ok [OF roll] inv d by (auto simp: arns_inv_def)
  moreover have "config_ok c (card (dom (arns_records s)))" using inv c by (auto simp: arns_inv_def)
  moreover have "DEFAULT_UNDERNAME_COUNT \<le> l"
    using arns_inv_records [OF inv r] checked_undername_limitD(1) [OF l] by (auto simp: record_ok_def)
  ultimately show ?thesis
    using arns_inv_records [OF inv r] c checked_undername_limitD(2) [OF l]
    by (intro arns_inv_update [OF inv r]) (simp_all add: s' record_ok_def)
qed

lemma returned_keeps:
  assumes inv: "arns_inv H (now env) s" and rt: "arns_runtime H env op s"
    and c: "arns_config_acc s = Some c" and r: "arns_records s h = Some r"
    and run: "return_name env h initiator c r s = Inr s'"
  shows "arns_inv H (now env) s'"
proof -
  obtain c1 reg where c1: "schedule_returned_prune (now env) c = Inr c1" and reg: "names_acc s = Some reg"
    and s': "s' = s\<lparr>arns_config_acc := Some (c1\<lparr>ac_total_names_registered :=
              saturating_sub (ac_total_names_registered c1) 1\<rparr>),
            names_acc := Some (remove_name_entry_by_hash (ar_name_hash r) reg),
            returned_names := (returned_names s)(h \<mapsto>
              \<lparr>rn_name = ar_name r, rn_name_hash = ar_name_hash r, rn_initiator = initiator,
               rn_returned_at = now env, rn_bump = pda_bump env (ReturnedNamePda h),
               rn_version = V1_0_0\<rparr>),
            arns_records := (arns_records s)(h := None)\<rparr>"
    using run by (auto simp: return_name_def run_iff)
  have rok: "record_ok H (now env) h r" by (rule arns_inv_records [OF inv r])
  obtain fin: "finite (dom (arns_records s))" and cok: "config_ok c (card (dom (arns_records s)))"
    using arns_invD [OF inv] c by (metis option.inject)
  have tracks: "index.tracks reg (arns_records s)"
    using inv reg by (auto simp: arns_inv_def table_tracks_def)
  have card: "card (dom ((arns_records s)(h := None))) = card (dom (arns_records s)) - 1"
    and pos: "1 \<le> card (dom (arns_records s))"
    using fin r by (auto simp: card_Diff_singleton domI Suc_le_eq card_gt_0_iff)
  have "config_ok (c1\<lparr>ac_total_names_registered := saturating_sub (ac_total_names_registered c1) 1\<rparr>)
      (card (dom (arns_records s)) - 1)"
    using config_ok_fewer [of c1 "card (dom (arns_records s))" 1] cok schedule_returned_prune_terms [OF c1] pos
    by simp
  moreover have "index.tracks (remove_name_entry_by_hash (ar_name_hash r) reg) ((arns_records s)(h := None))"
    using index.tracks_remove [OF tracks] rok by (simp add: record_ok_def)
  moreover have "0 \<le> now env" using rt by (simp add: arns_runtime_def)
  ultimately show ?thesis
    using inv rok card by (simp add: arns_inv_def table_tracks_def s' auction_ok_def record_ok_def)
qed

lemma tracks_drop:
  "index.tracks reg m \<Longrightarrow> index.tracks (fold remove_name_entry_by_hash hs reg) (m |` (- set hs))"
proof (induction hs arbitrary: reg m)
  case (Cons h hs)
  have "(m(h := None)) |` (- set hs) = m |` (- set (h # hs))" by (auto simp: restrict_map_def)
  with Cons.IH [OF index.tracks_remove [OF Cons.prems, of h]] show ?case by (simp only: fold_simps)
qed simp

lemma dropped_keeps:
  assumes inv: "arns_inv H t s" and c: "arns_config_acc s = Some c" and hs: "distinct hs"
    "\<forall>h \<in> set hs. \<exists>r. arns_records s h = Some r \<and> past_auction env c r" "length hs < 256"
    and s': "s' = (drop_names hs s)\<lparr>arns_config_acc := Some (c\<lparr>ac_total_names_registered :=
          saturating_sub (ac_total_names_registered c) (of_nat (length hs))\<rparr>)\<rparr>"
  shows "arns_inv H t s'"
proof -
  obtain fin: "finite (dom (arns_records s))" and cok: "config_ok c (card (dom (arns_records s)))"
    using arns_invD [OF inv] c by (metis option.inject)
  have sub: "set hs \<subseteq> dom (arns_records s)" using hs(2) by auto
  have "dom (arns_records s |` (- set hs)) = dom (arns_records s) - set hs" by (auto simp: restrict_map_def split: if_splits)
  then have card: "card (dom (arns_records s |` (- set hs))) = card (dom (arns_records s)) - length hs"
    using fin sub hs(1) by (simp add: card_Diff_subset distinct_card)
  have "length hs \<le> card (dom (arns_records s))"
    using card_mono [OF fin sub] distinct_card [OF hs(1)] by simp
  from config_ok_fewer [OF cok hs(3) this] card
  have "config_ok (c\<lparr>ac_total_names_registered :=
      saturating_sub (ac_total_names_registered c) (of_nat (length hs))\<rparr>) (card (dom (arns_records s |` (- set hs))))"
    by simp
  moreover have "table_tracks s'"
    using inv tracks_drop by (auto simp: arns_inv_def table_tracks_def s' drop_names_def)
  moreover have "\<forall>h r. arns_records s' h = Some r \<longrightarrow> record_ok H t h r"
    using arns_inv_records [OF inv] by (auto simp: s' drop_names_def restrict_map_def)
  moreover have "\<forall>h. arns_records s' h = None \<or> returned_names s' h = None"
    using arns_inv_disjoint [OF inv] by (auto simp: s' drop_names_def restrict_map_def)
  ultimately show ?thesis
    using inv by (simp add: arns_inv_def s' drop_names_def)
qed

lemma arns_effect_keeps:
  assumes "arns_effect env op s s'" and inv: "arns_inv H (now env) s" and rt: "arns_runtime H env op s"
  shows "arns_inv H (now env) s'"
  using assms(1)
proof cases
  case (Reassigned c h r a caller new_ant)
  obtain d where d: "demand_acc s = Some d" "demand_ok d" using inv by (auto simp: arns_inv_def)
  have "config_ok c (card (dom (arns_records s)))" using inv Reassigned(2) by (auto simp: arns_inv_def)
  with Reassigned d arns_inv_records [OF inv Reassigned(3)] show ?thesis
    by (intro arns_inv_update [OF inv Reassigned(3)]) (simp_all add: record_ok_def)
next
  case (AuctionsOver hs)
  with inv show ?thesis
    by (auto simp: arns_inv_def table_tracks_def restrict_map_def)
next
  case (Rolled d d1)
  with inv maybe_roll_ok [OF Rolled(3)] show ?thesis by (auto simp: arns_inv_def table_tracks_def)
next
  case (Configured c c')
  then show ?thesis using inv
    by (auto simp: arns_inv_def table_tracks_def same_terms_def config_ok_def)
next
  case (Grown reg reg' n a i)
  have same: "registered_hashes (x\<lparr>nr_initialized := i, nr_authority := a\<rparr>) = registered_hashes x"
    "names_table_ok (x\<lparr>nr_initialized := i, nr_authority := a\<rparr>) = names_table_ok x" for x
    by (simp_all add: registered_hashes_def live_entries_def names_table_ok_def)
  have "index.tracks reg (arns_records s)" using inv Grown(2) by (auto simp: arns_inv_def table_tracks_def)
  then have "index.tracks reg' (arns_records s)" using Grown(3) index.tracks_grow by auto
  then have "index.tracks (reg'\<lparr>nr_initialized := i, nr_authority := a\<rparr>) (arns_records s)"
    by (simp add: index.tracks_def same)
  with inv Grown(1) show ?thesis by (simp add: arns_inv_def table_tracks_def)
next
  case (Bought params buyer price)
  then show ?thesis by (rule bought_keeps [OF _ inv rt])
next
  case (BoughtReturned params buyer price)
  then show ?thesis by (rule bought_returned_keeps [OF _ inv rt])
next
  case (Upgraded h caller price)
  then show ?thesis by (rule upgraded_keeps [OF _ inv])
next
  case (Extended h years caller price)
  then show ?thesis by (rule extended_keeps [OF _ inv rt])
next
  case (UndernamesAdded h quantity caller price)
  then show ?thesis by (rule undernames_added_keeps [OF _ inv])
next
  case (Released c h r initiator)
  then show ?thesis by (intro returned_keeps [OF inv rt])
next
  case (Dropped c hs)
  then show ?thesis by (intro dropped_keeps [OF inv])
next
  case (Reserved m)
  with inv show ?thesis by (simp add: arns_inv_def table_tracks_def)
next
  case (GarMoved g)
  with inv show ?thesis by (simp add: arns_inv_def table_tracks_def)
qed

lemma arns_step_keeps:
  assumes "arns_inv H (now env) s" and "arns_runtime H env op s" and "arns_step env op s = Inr s'"
  shows "arns_inv H (now env) s'"
  using assms arns_step_effect [OF assms(3) arns_inv_set_up] arns_effect_keeps by blast

interpretation arns: machine_invariant now "arns_runtime H" arns_step "arns_inv H"
  for H :: "string \<Rightarrow> name_hash"
  by unfold_locales (auto intro: arns_inv_later arns_step_keeps)

abbreviation arns_exec :: "(arns_env \<times> arns_op) list \<Rightarrow> arns_state \<Rightarrow> arns_state" where
  "arns_exec txs s \<equiv> exec arns_step txs s"

abbreviation arns_trace ::
  "(string \<Rightarrow> name_hash) \<Rightarrow> i64 \<Rightarrow> (arns_env \<times> arns_op) list \<Rightarrow> arns_state \<Rightarrow> bool" where
  "arns_trace H t txs s \<equiv> admissible_trace now (arns_runtime H) arns_step t txs s"

end
