(* ===== verification/Arns_Lifecycle.thy ===== *)
theory Arns_Lifecycle
  imports Arns_Invariant
begin

text \<open>
  The life of one name as an abstract state machine, and the proof that every instruction of the
  program, whatever it does to the accounts, moves every name along an edge of it.
\<close>

datatype name_status = Free | Leased i64 | Owned | Auctioned i64

definition status :: "arns_state \<Rightarrow> name_hash \<Rightarrow> name_status" where
  "status s h =
     (case arns_records s h of
        Some r \<Rightarrow> (case ar_end_timestamp r of Some e \<Rightarrow> Leased e | None \<Rightarrow> Owned)
      | None \<Rightarrow> (case returned_names s h of
          Some rn \<Rightarrow> Auctioned (rn_returned_at rn)
        | None \<Rightarrow> Free))"

text \<open>
  The edges at a time \<open>t\<close>. A lease runs for one to five years from now; it can be extended or
  made permanent through its grace period and not later; after the grace period it goes to an
  auction, and after the length of an auction on top of that it may be dropped without one. A
  permanent name leaves only by release, and an auction ends by a purchase or after two weeks.
\<close>

abbreviation grace :: i64 where "grace \<equiv> GRACE_PERIOD_SECONDS"
abbreviation auction :: i64 where "auction \<equiv> RETURNED_NAME_DURATION_SECONDS"
abbreviation five_years :: i64 where "five_years \<equiv> 5 * ONE_YEAR_SECONDS"

inductive name_edge :: "i64 \<Rightarrow> name_status \<Rightarrow> name_status \<Rightarrow> bool" for t where
  Stay: "name_edge t x x"
| Lease: "x = Free \<or> x = Auctioned t0 \<Longrightarrow> t + ONE_YEAR_SECONDS \<le> e \<Longrightarrow> e \<le> t + five_years
    \<Longrightarrow> name_edge t x (Leased e)"
| Buy: "x = Free \<or> x = Auctioned t0 \<Longrightarrow> name_edge t x Owned"
| Extend: "t \<le> e + grace \<Longrightarrow> e < e' \<Longrightarrow> e' \<le> t + five_years \<Longrightarrow> name_edge t (Leased e) (Leased e')"
| Upgrade: "t \<le> e + grace \<Longrightarrow> name_edge t (Leased e) Owned"
| Release: "name_edge t Owned (Auctioned t)"
| Lapse: "e + grace < t \<Longrightarrow> name_edge t (Leased e) (Auctioned t)"
| Drop: "e + grace + auction < t \<Longrightarrow> name_edge t (Leased e) Free"
| AuctionOver: "t0 + auction \<le> t \<Longrightarrow> name_edge t (Auctioned t0) Free"

inductive_simps edge_from_Leased: "name_edge t (Leased e) y"
inductive_simps edge_from_Owned: "name_edge t Owned y"

lemma status_record:
  "arns_records s h = Some r \<Longrightarrow> status s h = (case ar_end_timestamp r of Some e \<Rightarrow> Leased e | None \<Rightarrow> Owned)"
  by (simp add: status_def)

lemma status_same:
  "arns_records s' h = arns_records s h \<Longrightarrow> returned_names s' h = returned_names s h \<Longrightarrow> status s' h = status s h"
  by (simp add: status_def split: option.split)

lemma stay_same:
  "arns_records s' h = arns_records s h \<Longrightarrow> returned_names s' h = returned_names s h
     \<Longrightarrow> name_edge t (status s h) (status s' h)"
  using status_same [of s' h s] by (simp add: name_edge.Stay)

text \<open>The clock is far from the end of \<open>i64\<close>, so no deadline saturates.\<close>

lemma deadline:
  assumes "arns_inv H t s" and "arns_records s h = Some r" and "ar_end_timestamp r = Some e"
    and "t < 2 ^ 62"
  shows "clamp_i64 (e + grace) = e + grace"
    and "clamp_i64 (e + grace + auction) = e + grace + auction"
  using arns_inv_records [OF assms(1,2)] assms(3,4)
  by (auto simp: record_ok_def clamp_i64_def GRACE_PERIOD_SECONDS_def RETURNED_NAME_DURATION_SECONDS_def
      MAX_LEASE_LENGTH_YEARS_def ONE_YEAR_SECONDS_def)

lemma usable_deadline:
  assumes "arns_inv H (now env) s" and "arns_runtime H env op s" and "arns_records s h = Some r"
    and "ar_end_timestamp r = Some e" and "arns_config_acc s = Some c"
  shows "usable env c r \<longleftrightarrow> now env \<le> e + grace"
proof -
  have c: "ac_grace_period_seconds c = grace" using assms(1,5) by (auto simp: arns_inv_def config_ok_def)
  have "ar_purchase_type r \<noteq> Permabuy" using arns_inv_records [OF assms(1,3)] assms(4) by (auto simp: record_ok_def)
  then have "ar_purchase_type r = Lease" by (cases "ar_purchase_type r") simp_all
  moreover have "clamp_i64 (e + grace) = e + grace"
    using deadline(1) [OF assms(1,3,4)] assms(2) by (simp add: arns_runtime_def)
  moreover have "0 < grace" by (simp add: GRACE_PERIOD_SECONDS_def)
  ultimately show ?thesis
    using assms(4) by (auto simp: usable_def is_active_def is_in_grace_period_def c)
qed

lemma registered_edge:
  assumes run: "register_name env h params buyer price c d1 (s\<lparr>gar_acc := g\<rparr>) = Inr s2"
    and inv: "arns_inv H (now env) s" and rt: "arns_runtime H env op s"
    and c: "arns_config_acc s = Some c" and d: "demand_ok d1"
    and h: "h = hash_name env (bp_name params)" and free: "arns_records s h = None"
    and name: "is_valid_arns_name (bp_name params)"
    and years: "years_allowed (bp_purchase_type params) (bp_years params)"
    and s': "arns_records s' = arns_records s2" "\<And>k. k \<noteq> h \<Longrightarrow> returned_names s' k = returned_names s2 k"
  shows "name_edge (now env) (status s k) (status s' k)"
proof -
  obtain c' d' reg' r where s2: "s2 = s\<lparr>gar_acc := g, arns_config_acc := Some c', demand_acc := Some d',
         names_acc := Some reg', arns_records := (arns_records s)(h \<mapsto> r)\<rparr>"
    and e: "lease_end (now env) (bp_purchase_type params) (bp_years params) = Inr (ar_end_timestamp r)"
    by (rule register_name_effect [OF run inv rt c d h free name years])
  have t: "0 \<le> now env" using rt by (simp add: arns_runtime_def)
  show ?thesis
  proof (cases "k = h")
    case True
    obtain t0 where x: "status s h = Free \<or> status s h = Auctioned t0"
      using free by (cases "returned_names s h") (auto simp: status_def)
    show ?thesis
    proof (cases "ar_end_timestamp r")
      case None
      then have "status s' h = Owned" by (simp add: status_def s' s2)
      with x True show ?thesis by (auto intro: name_edge.Buy)
    next
      case (Some e1)
      then have "status s' h = Leased e1" by (simp add: status_def s' s2)
      moreover have "now env + ONE_YEAR_SECONDS \<le> e1" "e1 \<le> now env + five_years"
        using lease_end_bounds(2) [OF e years t Some] by (auto simp: ONE_YEAR_SECONDS_def)
      ultimately show ?thesis using x True name_edge.Lease by metis
    qed
  next
    case False
    then have "status s' k = status s k" by (intro status_same) (simp_all add: s' s2)
    then show ?thesis by (simp add: name_edge.Stay)
  qed
qed

lemma effect_edge:
  assumes eff: "arns_effect env op s s'" and inv: "arns_inv H (now env) s" and rt: "arns_runtime H env op s"
  shows "name_edge (now env) (status s k) (status s' k)"
  using eff
proof cases
  case (Bought params buyer price)
  then obtain c d d1 g s2 where "arns_config_acc s = Some c" "demand_acc s = Some d"
    "arns_records s (hash_name env (bp_name params)) = None"
    "is_valid_arns_name (bp_name params)"
    "years_allowed (bp_purchase_type params) (bp_years params)"
    "maybe_roll_demand_period d (now env) = Inr d1"
    "register_name env (hash_name env (bp_name params)) params buyer price c d1 (s\<lparr>gar_acc := g\<rparr>) = Inr s2"
    and s': "s' = s2\<lparr>reserved_names := (reserved_names s2)(hash_name env (bp_name params) := None)\<rparr>"
    unfolding bought_def by blast
  moreover from this have "demand_ok d1" using maybe_roll_ok inv by (fastforce simp: arns_inv_def)
  ultimately show ?thesis
    by (intro registered_edge [where s' = s', OF _ inv rt]) (simp_all add: s')
next
  case (BoughtReturned params buyer price)
  then obtain c d d1 g s2 where "arns_config_acc s = Some c" "demand_acc s = Some d"
    "arns_records s (hash_name env (bp_name params)) = None"
    "is_valid_arns_name (bp_name params)"
    "years_allowed (bp_purchase_type params) (bp_years params)"
    "maybe_roll_demand_period d (now env) = Inr d1"
    "register_name env (hash_name env (bp_name params)) params buyer price c d1 (s\<lparr>gar_acc := g\<rparr>) = Inr s2"
    and s': "s' = s2\<lparr>returned_names := (returned_names s2)(hash_name env (bp_name params) := None)\<rparr>"
    unfolding bought_returned_def by blast
  moreover from this have "demand_ok d1" using maybe_roll_ok inv by (fastforce simp: arns_inv_def)
  ultimately show ?thesis
    by (intro registered_edge [where s' = s', OF _ inv rt]) (auto simp: s')
next
  case (Upgraded h caller price)
  then obtain c r d2 g where r: "arns_config_acc s = Some c" "arns_records s h = Some r"
    "ar_purchase_type r = Lease" "usable env c r"
    and s': "s' = s\<lparr>gar_acc := g, demand_acc := Some d2, arns_records := (arns_records s)(h \<mapsto>
              r\<lparr>ar_purchase_type := Permabuy, ar_end_timestamp := None, ar_purchase_price := price\<rparr>)\<rparr>"
    unfolding upgraded_def by blast
  obtain e where e: "ar_end_timestamp r = Some e"
    using arns_inv_records [OF inv r(2)] r(3) by (cases "ar_end_timestamp r") (auto simp: record_ok_def)
  have "now env \<le> e + grace" using usable_deadline [OF inv rt r(2) e r(1)] r(4) by simp
  then show ?thesis
    by (cases "k = h", simp add: s' status_def r e name_edge.Upgrade) (intro stay_same; simp add: s')
next
  case (Extended h years caller price)
  show ?thesis
  proof (rule extended_effect [OF Extended inv rt])
    fix c c' d' r e new_end g
    assume r: "arns_config_acc s = Some c" "arns_records s h = Some r" "ar_end_timestamp r = Some e" "usable env c r"
      and new_end: "e < new_end" "new_end \<le> now env + five_years"
      and s': "s' = s\<lparr>gar_acc := g, arns_config_acc := Some c', demand_acc := Some d',
            arns_records := (arns_records s)(h \<mapsto> r\<lparr>ar_end_timestamp := Some new_end\<rparr>)\<rparr>"
    have "now env \<le> e + grace" using usable_deadline [OF inv rt r(2,3,1)] r(4) by simp
    with new_end show ?thesis
      by (cases "k = h", simp add: s' status_def r name_edge.Extend) (intro stay_same; simp add: s')
  qed
next
  case (UndernamesAdded h quantity caller price)
  then obtain r d2 g l where "arns_records s h = Some r"
    "s' = s\<lparr>gar_acc := g, demand_acc := Some d2,
              arns_records := (arns_records s)(h \<mapsto> r\<lparr>ar_undername_limit := l\<rparr>)\<rparr>"
    unfolding undernames_added_def by blast
  then show ?thesis
    by (cases "k = h", simp add: status_def name_edge.Stay) (intro stay_same; simp)
next
  case (Reassigned c h r a caller new_ant)
  then show ?thesis
    by (cases "k = h", simp add: status_def name_edge.Stay) (intro stay_same; simp)
next
  case (Released c h r initiator)
  then have s': "status s' h = Auctioned (now env)" "k \<noteq> h \<Longrightarrow> status s' k = status s k"
    by (auto simp: return_name_def run_iff status_def split: option.split)
  have c: "ac_grace_period_seconds c = grace" using inv Released(1) by (auto simp: arns_inv_def config_ok_def)
  have rok: "record_ok H (now env) h r" by (rule arns_inv_records [OF inv Released(2)])
  show ?thesis
  proof (cases "ar_end_timestamp r")
    case None
    with Released(2) have "status s h = Owned" by (simp add: status_def)
    then show ?thesis using s' by (cases "k = h") (simp_all add: name_edge.Release name_edge.Stay)
  next
    case (Some e)
    with Released(2) have "status s h = Leased e" by (simp add: status_def)
    moreover have "e + grace < now env"
      using Released(5) rok Some deadline(1) [OF inv Released(2) Some] rt
      by (auto simp: released_def c record_ok_def arns_runtime_def)
    ultimately show ?thesis using s' by (cases "k = h") (simp_all add: name_edge.Lapse name_edge.Stay)
  qed
next
  case (Dropped c hs)
  show ?thesis
  proof (cases "k \<in> set hs")
    case True
    then obtain r where r: "arns_records s k = Some r" "past_auction env c r" using Dropped(3) by blast
    have c: "ac_return_auction_duration_seconds c = auction"
      using inv Dropped(1) by (auto simp: arns_inv_def config_ok_def)
    obtain e where e: "ar_end_timestamp r = Some e"
        "now env > clamp_i64 (clamp_i64 (e + grace) + auction)"
      using r(2) by (auto simp: past_auction_def c split: purchase_type.splits option.splits)
    have "now env < 2 ^ 62" using rt by (simp add: arns_runtime_def)
    with e deadline [OF inv r(1) e(1)] have "e + grace + auction < now env" by simp
    moreover have "status s k = Leased e" by (simp add: status_def r e)
    moreover have "status s' k = Free"
      using True r(1) arns_inv_disjoint [OF inv, of k] by (simp add: Dropped status_def drop_names_def)
    ultimately show ?thesis by (simp add: name_edge.Drop)
  next
    case False
    then show ?thesis by (intro stay_same) (simp_all add: Dropped drop_names_def)
  qed
next
  case (AuctionsOver hs)
  show ?thesis
  proof (cases "k \<in> hs")
    case True
    then obtain rn where rn: "returned_names s k = Some rn" "over env rn" using AuctionsOver(2) by blast
    have "rn_returned_at rn \<le> now env" "0 \<le> rn_returned_at rn" "now env < 2 ^ 62"
      using arns_inv_auctions [OF inv rn(1)] rt by (auto simp: auction_ok_def arns_runtime_def)
    then have "rn_returned_at rn + auction \<le> now env"
      using rn(2) by (simp add: over_def clamp_i64_def RETURNED_NAME_DURATION_SECONDS_def)
    moreover have "arns_records s k = None" using arns_inv_disjoint [OF inv, of k] rn(1) by simp
    ultimately show ?thesis using True rn
      by (simp add: AuctionsOver status_def name_edge.AuctionOver)
  next
    case False
    then show ?thesis by (intro stay_same) (simp_all add: AuctionsOver)
  qed
qed (simp_all add: stay_same)

lemma step_edge:
  assumes "arns_inv H (now env) s" and "arns_runtime H env op s" and "arns_step env op s = Inr s'"
  shows "name_edge (now env) (status s k) (status s' k)"
  by (rule effect_edge [OF arns_step_effect [OF assms(3) arns_inv_set_up [OF assms(1)]] assms(1,2)])

end
