(* ===== verification/Arns_Safety.thy ===== *)
theory Arns_Safety
  imports Arns_Lifecycle
begin

text \<open>
  What the holder of a live name can rely on, and what a purchase costs. \<open>holds_ant\<close> says who
  controls a name: the owner field of the Metaplex Core asset the name points to.
\<close>

section \<open>A live name stays with its holder\<close>

definition holds_ant :: "arns_env \<Rightarrow> arns_record \<Rightarrow> pubkey \<Rightarrow> bool" where
  "holds_ant env r holder \<longleftrightarrow> (\<exists>a. raw_accounts env (ar_ant r) = Some a
     \<and> ra_owner a = MPL_CORE_PROGRAM_ID \<and> read_mpl_core_owner (ra_data a) = Inr holder)"

text \<open>The later end of two terms: no end is later than any.\<close>

definition not_shortened :: "i64 option \<Rightarrow> i64 option \<Rightarrow> bool" where
  "not_shortened e e' \<longleftrightarrow> (case e' of None \<Rightarrow> True | Some x \<Rightarrow> (case e of None \<Rightarrow> False | Some y \<Rightarrow> y \<le> x))"

lemma not_shortened_simps [simp]:
  "not_shortened e None" "not_shortened e e" "not_shortened (Some y) (Some x) \<longleftrightarrow> y \<le> x"
  by (simp_all add: not_shortened_def split: option.split)

definition keeps_rights :: "arns_record \<Rightarrow> arns_record \<Rightarrow> bool" where
  "keeps_rights r r' \<longleftrightarrow> ar_owner r' = ar_owner r \<and> ar_name r' = ar_name r
     \<and> not_shortened (ar_end_timestamp r) (ar_end_timestamp r')
     \<and> ar_undername_limit r \<le> ar_undername_limit r'"

lemma keeps_rights_refl [simp]: "keeps_rights r r"
  by (simp add: keeps_rights_def)

lemma effect_safe:
  assumes eff: "arns_effect env op s s'" and inv: "arns_inv H (now env) s" and rt: "arns_runtime H env op s"
    and c: "arns_config_acc s = Some c" and r: "arns_records s h = Some r" and live: "usable env c r"
  shows "(\<exists>r'. arns_records s' h = Some r' \<and> keeps_rights r r'
            \<and> (ar_ant r' = ar_ant r \<or> (\<exists>holder. holds_ant env r holder
                 \<and> op = OwnershipOp (ReassignNameOp h (ar_ant r) holder (ar_ant r')))))
       \<or> (\<exists>holder. holds_ant env r holder \<and> op = OwnershipOp (ReleaseNameOp h (ar_ant r) holder))"
  using eff
proof cases
  case (Bought params buyer price)
  then obtain c1 d1 g s2 k where free: "arns_records s k = None"
    and reg: "register_name env k params buyer price c1 d1 (s\<lparr>gar_acc := g\<rparr>) = Inr s2"
    and s': "arns_records s' = arns_records s2"
    unfolding bought_def by fastforce
  from free r have "k \<noteq> h" by auto
  with reg s' r show ?thesis by (auto simp: register_name_def run_iff)
next
  case (BoughtReturned params buyer price)
  then obtain c1 d1 g s2 k where free: "arns_records s k = None"
    and reg: "register_name env k params buyer price c1 d1 (s\<lparr>gar_acc := g\<rparr>) = Inr s2"
    and s': "arns_records s' = arns_records s2"
    unfolding bought_returned_def by fastforce
  from free r have "k \<noteq> h" by auto
  with reg s' r show ?thesis by (auto simp: register_name_def run_iff)
next
  case (Upgraded k caller price)
  then obtain q where "arns_records s k = Some q" "arns_records s' = (arns_records s)(k \<mapsto>
      q\<lparr>ar_purchase_type := Permabuy, ar_end_timestamp := None, ar_purchase_price := price\<rparr>)"
    unfolding upgraded_def by fastforce
  with r show ?thesis by (cases "k = h") (auto simp: keeps_rights_def)
next
  case (Extended k years caller price)
  show ?thesis
  proof (rule extended_effect [OF Extended inv rt])
    fix c c' d' q e new_end g
    assume "arns_records s k = Some q" "ar_end_timestamp q = Some e" "e < new_end"
      "s' = s\<lparr>gar_acc := g, arns_config_acc := Some c', demand_acc := Some d',
            arns_records := (arns_records s)(k \<mapsto> q\<lparr>ar_end_timestamp := Some new_end\<rparr>)\<rparr>"
    with r show ?thesis by (cases "k = h") (auto simp: keeps_rights_def)
  qed
next
  case (UndernamesAdded k quantity caller price)
  then obtain q l where "arns_records s k = Some q"
    "checked_undername_limit (ar_undername_limit q) quantity = Inr l"
    "arns_records s' = (arns_records s)(k \<mapsto> q\<lparr>ar_undername_limit := l\<rparr>)"
    unfolding undernames_added_def by fastforce
  with r checked_undername_limitD(1) show ?thesis
    by (cases "k = h") (fastforce simp: keeps_rights_def)+
next
  case (Reassigned c k q a caller new_ant)
  with r show ?thesis
    by (cases "k = h") (auto simp: keeps_rights_def holds_ant_def)
next
  case (Released c' k q initiator)
  show ?thesis
  proof (cases "k = h")
    case True
    with Released r have q: "q = r" by simp
    have "ar_purchase_type r = Permabuy"
    proof (rule ccontr)
      assume "ar_purchase_type r \<noteq> Permabuy"
      then obtain e where "ar_end_timestamp r = Some e" "now env > clamp_i64 (e + ac_grace_period_seconds c')"
        using Released(5) by (auto simp: released_def q)
      moreover have "ac_grace_period_seconds c' = grace" using inv Released(1) by (auto simp: arns_inv_def config_ok_def)
      ultimately show False
        using usable_deadline [OF inv rt r _ c] live deadline(1) [OF inv r] rt by (simp add: arns_runtime_def)
    qed
    with Released(5) show ?thesis by (auto simp: released_def q holds_ant_def True)
  next
    case False
    with Released(6) r show ?thesis by (auto simp: return_name_def run_iff)
  qed
next
  case (Dropped c' hs)
  have "h \<notin> set hs"
  proof
    assume "h \<in> set hs"
    then have past: "past_auction env c' r" using Dropped(3) r by auto
    have c': "ac_return_auction_duration_seconds c' = auction"
      using inv Dropped(1) by (auto simp: arns_inv_def config_ok_def)
    obtain e where e: "ar_end_timestamp r = Some e" "now env > clamp_i64 (clamp_i64 (e + grace) + auction)"
      using past by (auto simp: past_auction_def c' split: purchase_type.splits option.splits)
    have "now env < 2 ^ 62" using rt by (simp add: arns_runtime_def)
    with e deadline [OF inv r e(1)] have "e + grace + auction < now env" by simp
    with usable_deadline [OF inv rt r e(1) c] live show False by (simp add: RETURNED_NAME_DURATION_SECONDS_def)
  qed
  with Dropped r show ?thesis by (simp add: drop_names_def)
qed (use r in auto)

end
