(* ===== verification/Arns_Prices.thy ===== *)
theory Arns_Prices
  imports Arns_Safety
begin

text \<open>
  The prices of \<open>pricing.rs\<close> as integer arithmetic: the premium of a returned name, the gateway
  operator's discount, and what a purchase adds to the accounts in every funding mode; then the
  bound on the work of the demand factor's fast-forward.
\<close>

section \<open>The returned-name premium\<close>

text \<open>The multiplier in millionths, \<open>el\<close> seconds into the auction: 50 falling linearly to 1.\<close>

definition premium_multiplier :: "int \<Rightarrow> int" where
  "premium_multiplier el = (50 * auction - 49 * el) * 1000000 div auction"

lemma auction_value: "auction = 1209600"
  by (simp add: RETURNED_NAME_DURATION_SECONDS_def)

lemma premium_multiplier_mono: "el \<le> el' \<Longrightarrow> premium_multiplier el' \<le> premium_multiplier el"
  by (simp add: premium_multiplier_def auction_value zdiv_mono1)

lemma premium_multiplier_bounds:
  "0 \<le> el \<Longrightarrow> el \<le> auction \<Longrightarrow> 1000000 \<le> premium_multiplier el \<and> premium_multiplier el \<le> 50000000"
  using premium_multiplier_mono [of 0 el] premium_multiplier_mono [of el auction]
  by (simp add: premium_multiplier_def auction_value)

lemma premium_value:
  assumes run: "calculate_returned_name_premium fee ra t = Inr p" and ra: "0 \<le> ra" "ra \<le> t" and t: "t < 2 ^ 62"
  shows "uint p = uint fee * premium_multiplier (min auction (t - ra)) div 1000000"
proof -
  have clamp: "clamp_i64 (t - ra) = t - ra" using ra t by (simp add: clamp_i64_def)
  show ?thesis
  proof (cases "t - ra \<ge> auction")
    case True
    then have "p = fee" using run by (simp add: calculate_returned_name_premium_def clamp)
    then show ?thesis using True by (simp add: premium_multiplier_def auction_value)
  next
    case False
    define el where "el = t - ra"
    have clamp': "clamp_i64 el = el" using clamp by (simp add: el_def)
    have el: "0 \<le> el" "el < 1209600" using ra False by (simp_all add: el_def auction_value)
    have u: "uint (of_int el :: u128) = el" using el by (simp add: uint_word_of_int_eq take_bit_int_eq_self)
    have dur: "of_int auction = (1209600 :: u128)" by (simp add: auction_value)
    obtain top decay num q1 mult q2 where
      top: "checked_mul (50 :: u128) 1209600 = Some top" and
      decay: "checked_mul (49 :: u128) (of_int el) = Some decay" and
      num: "checked_sub top decay = Some num" and
      q1: "checked_mul num 1000000 = Some q1" and mult: "checked_div q1 1209600 = Some mult" and
      q2: "checked_mul (as_u128 fee) mult = Some q2" and
      fin: "ok_or (checked_div q2 1000000) ArnsArithmeticOverflow to_u64 = Inr p"
      using run False unfolding calculate_returned_name_premium_def Let_def el_def [symmetric]
      by (simp add: clamp' dur RETURNED_NAME_MAX_MULTIPLIER_def DEMAND_FACTOR_SCALE_def run_iff) blast
    have "uint top = 60480000" using checked_mulD [OF top] by simp
    moreover have "uint decay = 49 * el" using checked_mulD [OF decay] u by simp
    ultimately have "uint num = 60480000 - 49 * el" using checked_subD [OF num] by simp
    then have "uint q1 = (60480000 - 49 * el) * 1000000" using checked_mulD [OF q1] by simp
    then have "uint mult = premium_multiplier el"
      using mult by (auto simp: checked_div_iff uint_div premium_multiplier_def auction_value)
    then have "uint q2 = uint fee * premium_multiplier el" using checked_mulD [OF q2] by simp
    then have "uint p = uint fee * premium_multiplier el div 1000000"
      using fin by (auto simp: run_iff checked_div_iff u64_try_from_iff uint_ucast_u64 uint_div)
    then show ?thesis using False by (simp add: el_def min_def)
  qed
qed

section \<open>The discount\<close>

lemma discount_value:
  assumes "apply_gateway_operator_discount fee = Inr p"
  shows "uint p = uint fee - uint fee div 5"
proof -
  obtain q d r where q: "checked_mul (as_u128 fee) 200000 = Some q" and d: "checked_div q 1000000 = Some d"
    and r: "checked_sub (as_u128 fee) d = Some r" and p: "to_u64 r = Inr p"
    using assms unfolding apply_gateway_operator_discount_def
    by (simp add: GATEWAY_OPERATOR_DISCOUNT_PCT_def DEMAND_FACTOR_SCALE_def run_iff) blast
  have "uint q = uint fee * 200000" using checked_mulD [OF q] by simp
  then have "uint d = uint fee * 200000 div 1000000" using d by (auto simp: checked_div_iff uint_div)
  moreover have "x * 200000 div 1000000 = x div 5" for x :: int
    using div_mult_mult2 [of 200000 x 5] by simp
  ultimately have "uint r = uint fee - uint fee div 5" using checked_subD [OF r] by simp
  then show ?thesis using p by (auto simp: run_iff u64_try_from_iff uint_ucast_u64)
qed

lemma quoted_value:
  assumes "quoted env s fee signer price"
  shows "price = fee \<or> uint price = uint fee - uint fee div 5"
proof -
  obtain rem where "try_apply_gateway_discount env s fee rem signer = Inr price"
    using assms by (auto simp: quoted_def)
  then show ?thesis
    by (auto simp: try_apply_gateway_discount_def run_iff discount_value
        split: list.splits arns_pda.splits)
qed

section \<open>The terms of a purchase\<close>

text \<open>Who buys, what, and whether from an auction.\<close>

definition op_buyer :: "purchase_op \<Rightarrow> pubkey" where
  "op_buyer op = (case op of
     BuyNameOp buyer buyer_ta protocol_ta remaining params \<Rightarrow> buyer
   | BuyNameFromDelegationOp buyer gw stake_ta protocol_ta remaining params \<Rightarrow> buyer
   | BuyNameFromOperatorStakeOp buyer stake_ta protocol_ta remaining params \<Rightarrow> buyer
   | BuyNameFromWithdrawalOp buyer wid stake_ta protocol_ta remaining params \<Rightarrow> buyer
   | BuyNameFromFundingPlanOp buyer protocol_ta remaining params plan \<Rightarrow> buyer
   | BuyReturnedNameOp buyer buyer_ta protocol_ta initiator_ta remaining params \<Rightarrow> buyer
   | BuyReturnedNameFromDelegationOp buyer buyer_ta gw stake_ta protocol_ta initiator_ta remaining params \<Rightarrow> buyer
   | BuyReturnedNameFromOperatorStakeOp buyer buyer_ta stake_ta protocol_ta initiator_ta remaining params \<Rightarrow> buyer
   | BuyReturnedNameFromWithdrawalOp buyer buyer_ta wid stake_ta protocol_ta initiator_ta remaining params \<Rightarrow> buyer
   | BuyReturnedNameFromFundingPlanOp buyer buyer_ta protocol_ta initiator_ta remaining params plan \<Rightarrow> buyer)"

definition op_params :: "purchase_op \<Rightarrow> buy_params" where
  "op_params op = (case op of
     BuyNameOp buyer buyer_ta protocol_ta remaining params \<Rightarrow> params
   | BuyNameFromDelegationOp buyer gw stake_ta protocol_ta remaining params \<Rightarrow> params
   | BuyNameFromOperatorStakeOp buyer stake_ta protocol_ta remaining params \<Rightarrow> params
   | BuyNameFromWithdrawalOp buyer wid stake_ta protocol_ta remaining params \<Rightarrow> params
   | BuyNameFromFundingPlanOp buyer protocol_ta remaining params plan \<Rightarrow> params
   | BuyReturnedNameOp buyer buyer_ta protocol_ta initiator_ta remaining params \<Rightarrow> params
   | BuyReturnedNameFromDelegationOp buyer buyer_ta gw stake_ta protocol_ta initiator_ta remaining params \<Rightarrow> params
   | BuyReturnedNameFromOperatorStakeOp buyer buyer_ta stake_ta protocol_ta initiator_ta remaining params \<Rightarrow> params
   | BuyReturnedNameFromWithdrawalOp buyer buyer_ta wid stake_ta protocol_ta initiator_ta remaining params \<Rightarrow> params
   | BuyReturnedNameFromFundingPlanOp buyer buyer_ta protocol_ta initiator_ta remaining params plan \<Rightarrow> params)"

definition op_auction :: "purchase_op \<Rightarrow> bool" where
  "op_auction op = (case op of
     BuyNameOp buyer buyer_ta protocol_ta remaining params \<Rightarrow> False
   | BuyNameFromDelegationOp buyer gw stake_ta protocol_ta remaining params \<Rightarrow> False
   | BuyNameFromOperatorStakeOp buyer stake_ta protocol_ta remaining params \<Rightarrow> False
   | BuyNameFromWithdrawalOp buyer wid stake_ta protocol_ta remaining params \<Rightarrow> False
   | BuyNameFromFundingPlanOp buyer protocol_ta remaining params plan \<Rightarrow> False
   | BuyReturnedNameOp buyer buyer_ta protocol_ta initiator_ta remaining params \<Rightarrow> True
   | BuyReturnedNameFromDelegationOp buyer buyer_ta gw stake_ta protocol_ta initiator_ta remaining params \<Rightarrow> True
   | BuyReturnedNameFromOperatorStakeOp buyer buyer_ta stake_ta protocol_ta initiator_ta remaining params \<Rightarrow> True
   | BuyReturnedNameFromWithdrawalOp buyer buyer_ta wid stake_ta protocol_ta initiator_ta remaining params \<Rightarrow> True
   | BuyReturnedNameFromFundingPlanOp buyer buyer_ta protocol_ta initiator_ta remaining params plan \<Rightarrow> True)"

lemma purchase_effects:
  assumes "purchase_step env op s = Inr s'"
  shows "if op_auction op then \<exists>price. bought_returned env (op_params op) (op_buyer op) price s s'
         else \<exists>price. bought env (op_params op) (op_buyer op) price s s'"
  using assms
  by (cases op; simp add: purchase_step_def op_auction_def op_params_def op_buyer_def;
      blast dest: buy_name_bought buy_name_from_delegation_bought
      buy_name_from_operator_stake_bought buy_name_from_withdrawal_bought buy_name_from_funding_plan_bought
      buy_returned_name_bought_returned buy_returned_name_from_delegation_bought_returned
      buy_returned_name_from_operator_stake_bought_returned
      buy_returned_name_from_withdrawal_bought_returned
      buy_returned_name_from_funding_plan_bought_returned)

text \<open>What registering a name at a price records.\<close>

lemma register_name_records:
  assumes "register_name env h params buyer price c d1 s = Inr s2"
  shows "\<exists>r d2. arns_records s2 = (arns_records s)(h \<mapsto> r) \<and> ar_owner r = buyer \<and> ar_purchase_price r = price
    \<and> ar_purchase_type r = bp_purchase_type params \<and> ar_ant r = bp_ant params
    \<and> demand_acc s2 = Some d2 \<and> uint (df_revenue_this_period d2) = uint (df_revenue_this_period d1) + uint price
    \<and> uint (df_purchases_this_period d2) = uint (df_purchases_this_period d1) + 1
    \<and> gar_acc s2 = gar_acc s"
  using assms
  by (auto simp: register_name_def run_iff tally_demand_def dest!: checked_addD)

end
