(* ===== verification/Arns_Catchup.thy ===== *)
theory Arns_Catchup
  imports Arns_Invariant
begin

text \<open>
  How much work the fast-forward of the demand factor does: from any factor within its bounds the
  first phase meets the boundary of a cycle within 510 turns, however many periods were missed.
\<close>

definition at_boundary :: "u64 \<times> u32 \<times> u64 list \<Rightarrow> bool" where
  "at_boundary x \<longleftrightarrow> fst x = DEMAND_FACTOR_SCALE \<and> fst (snd x) = 0"

lemma to_boundary_work:
  "at_boundary ((zturn ^^ k) x) \<Longrightarrow> to_boundary n x = Inr (r, y) \<Longrightarrow> n \<le> r + k"
proof (induction n arbitrary: k x)
  case (Suc n)
  show ?case
  proof (cases "at_boundary x")
    case True
    with Suc.prems(2) show ?thesis by (simp add: at_boundary_def)
  next
    case False
    with Suc.prems(1) obtain m where m: "k = Suc m" by (cases k) auto
    have "to_boundary n (zturn x) = Inr (r, y)"
      using Suc.prems(2) False by (simp add: at_boundary_def zero_activity_turn_zturn split: if_splits)
    moreover have "at_boundary ((zturn ^^ m) (zturn x))" using Suc.prems(1) by (simp add: m funpow_swap1)
    ultimately show ?thesis using Suc.IH by (fastforce simp: m)
  qed
qed simp

lemma uint_decayed:
  assumes "f > DEMAND_FACTOR_MIN"
  shows "uint (decayed f) = uint f * 197 div 200"
proof -
  have "x * 985000 div 1000000 = x * 197 div 200" for x :: int
    using div_mult_mult2 [of 5000 "x * 197" 200] by (simp add: mult.assoc)
  moreover have "0 \<le> uint f * 985000 div 1000000" using uint_ge_0 [of f] by linarith
  ultimately show ?thesis
    using assms scaled_product(4,5) [of "985000 :: u64" f]
    by (simp add: decayed_def DEMAND_FACTOR_DOWN_ADJUSTMENT_def DEMAND_FACTOR_SCALE_def
        uint_word_of_int_eq take_bit_int_eq_self)
qed

text \<open>At the floor the boundary is at most eight turns away.\<close>

lemma floor_turn:
  assumes "decayed f \<le> DEMAND_FACTOR_MIN"
  shows "zturn (f, c, fees) = (if c \<ge> 7 then (DEMAND_FACTOR_SCALE, 0, map half fees)
                               else (DEMAND_FACTOR_MIN, c + 1, fees))"
  using assms by (simp add: zturn_def zero_activity_step_decayed MAX_PERIODS_AT_MIN_DEMAND_FACTOR_def)

lemma decayed_floor: "f \<le> DEMAND_FACTOR_MIN \<Longrightarrow> decayed f = f"
  by (simp add: decayed_def leD)

lemma from_floor:
  "f \<le> DEMAND_FACTOR_MIN \<Longrightarrow> 7 \<le> uint c + int m \<Longrightarrow>
     \<exists>k \<le> Suc m. at_boundary ((zturn ^^ k) (f, c, fees))"
proof (induction m arbitrary: f c)
  case 0
  then have "7 \<le> c" by (simp add: word_le_def)
  with 0 show ?case
    by (intro exI [of _ 1]) (simp add: floor_turn decayed_floor at_boundary_def)
next
  case (Suc m)
  show ?case
  proof (cases "7 \<le> c")
    case True
    with Suc.prems show ?thesis
      by (intro exI [of _ 1]) (simp add: floor_turn decayed_floor at_boundary_def)
  next
    case False
    then have "uint (c + 1) = uint c + 1" by (subst uint_add_exact) (simp_all add: word_le_def)
    with Suc.prems Suc.IH [of DEMAND_FACTOR_MIN "c + 1"]
    obtain k where "k \<le> Suc m" "at_boundary ((zturn ^^ k) (DEMAND_FACTOR_MIN, c + 1, fees))" by auto
    moreover have "zturn (f, c, fees) = (DEMAND_FACTOR_MIN, c + 1, fees)"
      using False Suc.prems(1) by (simp add: floor_turn decayed_floor)
    ultimately show ?thesis by (intro exI [of _ "Suc k"]) (simp add: funpow_swap1)
  qed
qed

text \<open>Above the floor, \<open>j\<close> decays of 1.5 percent lead to it.\<close>

lemma from_above:
  "f > DEMAND_FACTOR_MIN \<Longrightarrow> uint f * p ^ j \<le> 500000 * q ^ j \<Longrightarrow> p = 197 \<Longrightarrow> q = 200 \<Longrightarrow>
     \<exists>k \<le> j + 7. at_boundary ((zturn ^^ k) (f, c, fees))"
proof (induction j arbitrary: f c)
  case 0
  then show ?case by (simp add: DEMAND_FACTOR_MIN_def word_less_def)
next
  case (Suc j)
  show ?case
  proof (cases "decayed f \<le> DEMAND_FACTOR_MIN")
    case low: True
    show ?thesis
    proof (cases "7 \<le> c")
      case True
      then show ?thesis by (intro exI [of _ 1]) (simp add: floor_turn [OF low] at_boundary_def)
    next
      case False
      then have "uint (c + 1) = uint c + 1" by (subst uint_add_exact) (simp_all add: word_le_def)
      then have "7 \<le> uint (c + 1) + int 6" using uint_ge_0 [of c] by simp
      from from_floor [OF order_refl this] obtain k where
        "k \<le> Suc 6" "at_boundary ((zturn ^^ k) (DEMAND_FACTOR_MIN, c + 1, fees))" by blast
      with False show ?thesis
        by (intro exI [of _ "Suc k"]) (simp add: funpow_swap1 floor_turn [OF low])
    qed
  next
    case False
    have "uint (decayed f) * 200 \<le> uint f * 197" by (simp add: uint_decayed [OF Suc.prems(1)])
    then have "uint (decayed f) * q * p ^ j \<le> uint f * p * p ^ j"
      using Suc.prems(3,4) by (intro mult_right_mono) simp_all
    also have "\<dots> \<le> 500000 * q ^ j * q" using Suc.prems(2) by (simp add: mult_ac)
    finally have "uint (decayed f) * p ^ j \<le> 500000 * q ^ j" using Suc.prems(4) by (simp add: mult_ac)
    from Suc.IH [OF _ this Suc.prems(3,4), of 0] False obtain k where
      k: "k \<le> j + 7" "at_boundary ((zturn ^^ k) (decayed f, 0, fees))" by (auto simp: not_le)
    have "zturn (f, c, fees) = (decayed f, 0, fees)"
      using False by (simp add: zturn_def zero_activity_step_decayed)
    with k show ?thesis by (intro exI [of _ "Suc k"]) (simp add: funpow_swap1)
  qed
qed

lemma decay_503:
  fixes p q :: int
  assumes "2004 * p ^ 46 \<le> 1000 * q ^ 46" and "191530 * p ^ 43 \<le> 100000 * q ^ 43" and "0 \<le> p" and "0 \<le> q"
  shows "2000 * p ^ 503 \<le> q ^ 503"
proof -
  have "(2004 * p ^ 46) ^ 10 \<le> (1000 * q ^ 46) ^ 10" using assms by (intro power_mono) simp_all
  then have a: "2004 ^ 10 * p ^ 460 \<le> 1000 ^ 10 * q ^ 460" by (simp add: power_mult_distrib power_mult [symmetric])
  have regroup: "A * P1 * (B * P2) \<le> C * Q1 * (D * Q2) \<Longrightarrow> A * B * (P1 * P2) \<le> C * D * (Q1 * Q2)"
    for A B C D P1 P2 Q1 Q2 :: int by (simp add: mult_ac)
  have "2004 ^ 10 * p ^ 460 * (191530 * p ^ 43) \<le> 1000 ^ 10 * q ^ 460 * (100000 * q ^ 43)"
    by (rule mult_mono [OF a assms(2)]) (use assms in simp_all)
  from regroup [OF this]
  have b: "2004 ^ 10 * 191530 * p ^ 503 \<le> 1000 ^ 10 * 100000 * q ^ 503"
    by (simp only: power_add [symmetric] numeral_plus_numeral semiring_norm)
  have c: "0 \<le> P \<Longrightarrow> 2004 ^ 10 * 191530 * P \<le> 1000 ^ 10 * 100000 * Q \<Longrightarrow> 2000 * P \<le> Q" for P Q :: int
    by simp
  show ?thesis by (rule c [OF zero_le_power [OF assms(3)] b])
qed

lemma boundary_within:
  assumes "f \<le> MAX_DEMAND_FACTOR"
  shows "\<exists>k \<le> 510. at_boundary ((zturn ^^ k) (f, c, fees))"
proof (cases "f \<le> DEMAND_FACTOR_MIN")
  case True
  then obtain k where "k \<le> Suc 7" "at_boundary ((zturn ^^ k) (f, c, fees))"
    using from_floor [of f c 7 fees] uint_ge_0 [of c] by auto
  then show ?thesis by (intro exI [of _ k]) simp
next
  case False
  obtain p q :: int where p: "p = 197" and q: "q = 200" by simp
  have "2004 * p ^ 46 \<le> 1000 * q ^ 46" "191530 * p ^ 43 \<le> 100000 * q ^ 43" by (simp_all add: p q)
  then have d: "2000 * p ^ 503 \<le> q ^ 503" by (rule decay_503) (simp_all add: p q)
  have "uint f \<le> 1000000000" using assms by (simp add: word_le_def factor_bounds)
  moreover have "0 \<le> p ^ 503" by (rule zero_le_power) (simp add: p)
  ultimately have "uint f * p ^ 503 \<le> 1000000000 * p ^ 503" by (rule mult_right_mono)
  with d have decay: "uint f * p ^ 503 \<le> 500000 * q ^ 503" by linarith
  have "f > DEMAND_FACTOR_MIN" using False by (simp only: not_le)
  from from_above [OF this decay p q] obtain k where "k \<le> 503 + 7" "at_boundary ((zturn ^^ k) (f, c, fees))" by blast
  then show ?thesis by (intro exI [of _ k]) simp
qed

end
