(* ===== verification/Arns_Fixtures.thy ===== *)
theory Arns_Fixtures
  imports Arns_Prices Arns_Catchup Gar_Fixtures
begin

text \<open>
  A small deployment of the name program beside the one of \<open>Gar_Fixtures\<close>, on which the
  properties are instantiated: a registry with room for four names, no name sold yet, and a buyer
  who leases ``ardrive'' for two years. The hash function of the deployment is the length of a
  name: any function will do.
\<close>

definition length_hash :: "string \<Rightarrow> name_hash" where
  "length_hash n = of_nat (length n)"

definition asset_data :: "u8 list" where
  "asset_data = 1 # le_bytes 32 10"

definition name_env :: "i64 \<Rightarrow> arns_env" where
  "name_env t = \<lparr>now = t, pda_bump = (\<lambda>_. 255), pda_key = (\<lambda>_. 7),
     token_accounts = token_accounts (demo_env t), spl_accepts = demo_accepts,
     sha256 = length_hash, unicode_lowercase = (\<lambda>n. n),
     raw_accounts = [40 \<mapsto> \<lparr>ra_owner = MPL_CORE_PROGRAM_ID, ra_data = asset_data\<rparr>],
     upgrade_authority = Some 4\<rparr>"

definition name_config :: "u64 \<Rightarrow> i64 \<Rightarrow> arns_config" where
  "name_config names prune =
     \<lparr>ac_authority = 4, ac_mint = 3, ac_treasury = 2, ac_grace_period_seconds = GRACE_PERIOD_SECONDS,
      ac_return_auction_duration_seconds = RETURNED_NAME_DURATION_SECONDS,
      ac_max_lease_length_years = 5, ac_total_names_registered = names,
      ac_next_records_prune_timestamp = prune,
      ac_next_returned_names_prune_timestamp = 2 ^ 63 - 1, ac_migration_active = False,
      ac_migration_authority = 4, ac_bump = 255, ac_version = V1_0_0\<rparr>"

definition name_demand :: "u64 \<Rightarrow> u64 \<Rightarrow> demand_factor" where
  "name_demand purchases revenue =
     \<lparr>df_current_demand_factor = 1000000, df_current_period = 1, df_purchases_this_period = purchases,
      df_revenue_this_period = revenue, df_consecutive_periods_with_min_demand_factor = 0,
      df_trailing_period_purchases = replicate MOVING_AVG_PERIOD_COUNT 0,
      df_trailing_period_revenues = replicate MOVING_AVG_PERIOD_COUNT 0,
      df_fees = GENESIS_FEES, df_period_zero_start_timestamp = 1000,
      df_criteria = DEMAND_CRITERIA_REVENUE, df_bump = 255, df_version = V1_0_0\<rparr>"

definition name_table :: "name_hash list \<Rightarrow> name_registry" where
  "name_table hs = \<lparr>nr_data_len = bytes_for_capacity 4, nr_initialized = True, nr_authority = 4,
     nr_count = of_nat (length hs),
     nr_slots = map (\<lambda>(h, i). \<lparr>ne_name_hash = h, ne_registry_index = of_nat i\<rparr>) (zip hs [0..<length hs])
                @ replicate (4 - length hs) default_entry\<rparr>"

definition fresh_names :: arns_state where
  "fresh_names = \<lparr>arns_config_acc = Some (name_config 0 (2 ^ 63 - 1)), demand_acc = Some (name_demand 0 0),
     names_acc = Some (name_table []), arns_records = Map.empty, returned_names = Map.empty,
     reserved_names = Map.empty, gar_acc = demo_state\<rparr>"

definition ardrive :: buy_params where
  "ardrive = \<lparr>bp_name = ''ardrive'', bp_purchase_type = Lease, bp_years = 2, bp_ant = 40\<rparr>"

definition ardrive_record :: arns_record where
  "ardrive_record = \<lparr>ar_name_hash = 7, ar_owner = 10, ar_ant = 40, ar_purchase_type = Lease,
     ar_start_timestamp = 2000, ar_end_timestamp = Some (2000 + 2 * ONE_YEAR_SECONDS),
     ar_undername_limit = 10, ar_purchase_price = 1120000000, ar_bump = 255, ar_name = ''ardrive'',
     ar_version = V1_0_0\<rparr>"

definition ardrive_paid :: spl_transfer where
  "ardrive_paid = \<lparr>tr_from = 11, tr_to = 2, tr_authority = 10, tr_amount = 1120000000\<rparr>"

definition leased_names :: arns_state where
  "leased_names = \<lparr>arns_config_acc = Some (name_config 1 (2000 + 2 * ONE_YEAR_SECONDS + GRACE_PERIOD_SECONDS)),
     demand_acc = Some (name_demand 1 1120000000), names_acc = Some (name_table [7]),
     arns_records = [7 \<mapsto> ardrive_record], returned_names = Map.empty, reserved_names = Map.empty,
     gar_acc = demo_state\<lparr>cpi_log := [ardrive_paid]\<rparr>\<rparr>"

definition buy_ardrive :: purchase_op where
  "buy_ardrive = BuyNameOp 10 11 2 [] ardrive"

lemma name_env_simps [simp]:
  "now (name_env t) = t" "pda_bump (name_env t) = (\<lambda>_. 255)" "pda_key (name_env t) = (\<lambda>_. 7)"
  "token_accounts (name_env t) = token_accounts (demo_env t)" "spl_accepts (name_env t) = demo_accepts"
  "sha256 (name_env t) = length_hash" "unicode_lowercase (name_env t) = (\<lambda>n. n)"
  "raw_accounts (name_env t) = [40 \<mapsto> \<lparr>ra_owner = MPL_CORE_PROGRAM_ID, ra_data = asset_data\<rparr>]"
  "spl_accepts (gar_view (name_env t)) = demo_accepts"
  by (simp_all add: name_env_def gar_view_def)

lemma demand_ok_demo: "demand_ok (name_demand p r)"
  by (simp add: demand_ok_def name_demand_def rings_sized_def GENESIS_FEES_def NUM_NAME_LENGTH_FEES_def
      DEMAND_FACTOR_MIN_def MAX_DEMAND_FACTOR_def DEMAND_FACTOR_SCALE_def MAX_PERIODS_AT_MIN_DEMAND_FACTOR_def)

lemma fresh_names_inv: "arns_inv length_hash 2000 fresh_names"
  by (auto simp: arns_inv_def fresh_names_def config_ok_def name_config_def demand_ok_demo table_tracks_def
      index.tracks_def names_table_ok_def registered_hashes_def live_entries_def name_table_def
      slot_capacity_def bytes_for_capacity_def NAME_ENTRY_SIZE_def NAME_REGISTRY_HEADER_BYTES_def)

lemma valid_ardrive: "is_valid_arns_name ''ardrive''"
  by (simp add: is_valid_arns_name_def is_ascii_uppercase_def is_ascii_alphanumeric_def)

lemma hash_ardrive: "hash_name (name_env t) ''ardrive'' = 7"
  by (simp add: valid_name_lowercase(2) [OF valid_ardrive] length_hash_def)

lemma roll_demo: "maybe_roll_demand_period (name_demand p r) 2000 = Inr (name_demand p r)"
  by (simp add: maybe_roll_demand_period_def get_period_for_timestamp_def name_demand_def
      checked_sub_i64_def i64_ok_def PERIOD_LENGTH_SECONDS_def)

lemma base_fee_demo: "get_base_fee_for_name_length (df_fees (name_demand p r)) (length ''ardrive'') = Inr 800000000"
  by (simp add: name_demand_def get_base_fee_for_name_length_def GENESIS_FEES_def)

lemma lease_fee_demo: "calculate_registration_fee 800000000 Lease 2 (df_current_demand_factor (name_demand p r)) = Inr 1120000000"
  by (simp add: name_demand_def calculate_registration_fee_def DEMAND_FACTOR_SCALE_def ANNUAL_PERCENTAGE_FEE_def
      checked_mul_def checked_add_def checked_div_def u64_try_from_def)

lemma replicate_slots: "replicate 4 x = [x, x, x, x]" "replicate 3 x = [x, x, x]"
  by (simp_all add: numeral_eq_Suc)

lemma ardrive_simps [simp]:
  "bp_name ardrive = ''ardrive''" "bp_purchase_type ardrive = Lease" "bp_years ardrive = 2" "bp_ant ardrive = 40"
  by (simp_all add: ardrive_def)

lemma demo_payment:
  "arns_transfer (name_env t) 11 2 10 1120000000 fresh_names
   = Inr (fresh_names\<lparr>gar_acc := demo_state\<lparr>cpi_log := [ardrive_paid]\<rparr>\<rparr>)"
  by (simp add: arns_transfer_def token_transfer_def fresh_names_def demo_accepts_def token_flow_def
      transfer_flow_def Let_def ardrive_paid_def demo_state_def)

lemma register_ardrive:
  "register_name (name_env 2000) 7 ardrive 10 1120000000 (name_config 0 (2 ^ 63 - 1)) (name_demand 0 0)
     (fresh_names\<lparr>gar_acc := g\<rparr>) = Inr (leased_names\<lparr>gar_acc := g\<rparr>)"
  by (simp add: register_name_def lease_end_def checked_mul_i64_def checked_add_i64_def i64_ok_def
      checked_add_def name_config_def schedule_records_prune_def tally_demand_def name_demand_def
      fresh_names_def leased_names_def append_name_entry_def name_table_def ONE_YEAR_SECONDS_def
      GRACE_PERIOD_SECONDS_def slot_capacity_def bytes_for_capacity_def NAME_ENTRY_SIZE_def
      NAME_REGISTRY_HEADER_BYTES_def ardrive_record_def DEFAULT_UNDERNAME_COUNT_def
      valid_name_lowercase(1) [OF valid_ardrive] replicate_slots Let_def)

lemma buy_ardrive_run: "purchase_step (name_env 2000) buy_ardrive fresh_names = Inr leased_names"
proof -
  have acc: "arns_config_acc fresh_names = Some (name_config 0 (2 ^ 63 - 1))"
    "demand_acc fresh_names = Some (name_demand 0 0)" "arns_records fresh_names = Map.empty"
    "returned_names fresh_names = Map.empty" "reserved_names fresh_names = Map.empty"
    by (simp_all add: fresh_names_def)
  have conf: "ac_mint (name_config n p) = 3" "ac_treasury (name_config n p) = 2" for n p
    by (simp_all add: name_config_def)
  have fin: "leased_names\<lparr>gar_acc := demo_state\<lparr>cpi_log := [ardrive_paid]\<rparr>,
      reserved_names := (reserved_names leased_names)(7 := None)\<rparr> = leased_names"
    by (simp add: leased_names_def)
  show ?thesis
    by (simp add: purchase_step_def buy_ardrive_def buy_name_def arns_accounts acc conf hash_ardrive
        buy_name_body_def check_reserved_def check_years_def valid_ardrive roll_demo base_fee_demo [simplified] lease_fee_demo
        MAX_LEASE_LENGTH_YEARS_def try_apply_gateway_discount_def demo_payment register_ardrive [simplified] Let_def fin)
qed

section \<open>An auction\<close>

text \<open>``ardrive'' was released by 20 a moment ago; 10 leases it at fifty times the fee.\<close>

definition ardrive_auction :: returned_name where
  "ardrive_auction = \<lparr>rn_name = ''ardrive'', rn_name_hash = 7, rn_initiator = 20, rn_returned_at = 2000,
     rn_bump = 255, rn_version = V1_0_0\<rparr>"

definition auction_names :: arns_state where
  "auction_names = fresh_names\<lparr>returned_names := [7 \<mapsto> ardrive_auction]\<rparr>"

definition auction_log :: "spl_transfer list" where
  "auction_log = [\<lparr>tr_from = 11, tr_to = 2, tr_authority = 10, tr_amount = 28000000000\<rparr>,
                  \<lparr>tr_from = 11, tr_to = 21, tr_authority = 10, tr_amount = 28000000000\<rparr>]"

definition auctioned_names :: arns_state where
  "auctioned_names = leased_names\<lparr>demand_acc := Some (name_demand 1 56000000000),
     arns_records := [7 \<mapsto> ardrive_record\<lparr>ar_purchase_price := 56000000000\<rparr>],
     gar_acc := demo_state\<lparr>cpi_log := auction_log\<rparr>\<rparr>"

definition bid_ardrive :: purchase_op where
  "bid_ardrive = BuyReturnedNameOp 10 11 2 21 [] ardrive"

lemma register_auctioned:
  "register_name (name_env 2000) 7 ardrive 10 56000000000 (name_config 0 (2 ^ 63 - 1)) (name_demand 0 0)
     (auction_names\<lparr>gar_acc := g\<rparr>)
   = Inr (auctioned_names\<lparr>returned_names := [7 \<mapsto> ardrive_auction], gar_acc := g\<rparr>)"
  by (simp add: register_name_def lease_end_def checked_mul_i64_def checked_add_i64_def i64_ok_def
      checked_add_def name_config_def schedule_records_prune_def tally_demand_def name_demand_def
      fresh_names_def leased_names_def auction_names_def auctioned_names_def append_name_entry_def
      name_table_def ONE_YEAR_SECONDS_def GRACE_PERIOD_SECONDS_def slot_capacity_def bytes_for_capacity_def
      NAME_ENTRY_SIZE_def NAME_REGISTRY_HEADER_BYTES_def ardrive_record_def DEFAULT_UNDERNAME_COUNT_def
      valid_name_lowercase(1) [OF valid_ardrive] replicate_slots Let_def)

lemma auction_payments:
  "arns_transfer (name_env t) 11 2 10 28000000000 auction_names
   = Inr (auction_names\<lparr>gar_acc := demo_state\<lparr>cpi_log := [hd auction_log]\<rparr>\<rparr>)"
  "arns_transfer (name_env t) 11 21 10 28000000000 (auction_names\<lparr>gar_acc := demo_state\<lparr>cpi_log := [hd auction_log]\<rparr>\<rparr>)
   = Inr (auction_names\<lparr>gar_acc := demo_state\<lparr>cpi_log := auction_log\<rparr>\<rparr>)"
  by (simp_all add: arns_transfer_def token_transfer_def auction_names_def fresh_names_def demo_accepts_def
      token_flow_def transfer_flow_def Let_def auction_log_def demo_state_def)

lemma auction_premium: "calculate_returned_name_premium 1120000000 2000 2000 = Inr 56000000000"
  by (simp add: calculate_returned_name_premium_def clamp_i64_def RETURNED_NAME_DURATION_SECONDS_def
      RETURNED_NAME_MAX_MULTIPLIER_def DEMAND_FACTOR_SCALE_def checked_mul_def checked_sub_def checked_div_def
      u64_try_from_def Let_def)

lemma bid_ardrive_run: "purchase_step (name_env 2000) bid_ardrive auction_names = Inr auctioned_names"
proof -
  have acc: "arns_config_acc auction_names = Some (name_config 0 (2 ^ 63 - 1))"
    "demand_acc auction_names = Some (name_demand 0 0)" "arns_records auction_names = Map.empty"
    "returned_names auction_names = [7 \<mapsto> ardrive_auction]"
    by (simp_all add: auction_names_def fresh_names_def)
  have conf: "ac_mint (name_config n p) = 3" "ac_treasury (name_config n p) = 2" for n p
    by (simp_all add: name_config_def)
  have rn: "rn_initiator ardrive_auction = 20" "rn_returned_at ardrive_auction = 2000"
    by (simp_all add: ardrive_auction_def)
  have fin: "auctioned_names\<lparr>gar_acc := demo_state\<lparr>cpi_log := auction_log\<rparr>, returned_names := Map.empty\<rparr> = auctioned_names"
    by (simp add: auctioned_names_def leased_names_def)
  show ?thesis
    by (simp add: purchase_step_def bid_ardrive_def buy_returned_name_def arns_accounts acc conf rn hash_ardrive
        buy_returned_name_body_def check_years_def valid_ardrive roll_demo base_fee_demo [simplified] lease_fee_demo
        MAX_LEASE_LENGTH_YEARS_def try_apply_gateway_discount_def auction_premium protocol_share_def
        checked_sub_def auction_payments register_auctioned [simplified] Let_def fin)
qed

end
