(* ===== verification/Arns_Properties.thy ===== *)
theory Arns_Properties
  imports Arns_Fixtures
begin

text \<open>
  The properties of the name program: the registry and the records over every history, the life
  cycle of a name and what its holder can rely on, prices and payments, and the demand factor.
\<close>

section \<open>The deployment meets the hypotheses\<close>

lemma name_runtime: "0 \<le> t \<Longrightarrow> t < 2 ^ 62 \<Longrightarrow> arns_runtime length_hash (name_env t) op s"
  by (simp add: arns_runtime_def)

lemma leased_names_inv: "arns_inv length_hash 2000 leased_names"
  using arns_step_keeps [of length_hash "name_env 2000" fresh_names "PurchaseOp buy_ardrive" leased_names]
    fresh_names_inv name_runtime buy_ardrive_run
  by (simp add: arns_step_def)

definition lease_txs :: "(arns_env \<times> arns_op) list" where
  "lease_txs = [(name_env 2000, PurchaseOp buy_ardrive), (name_env 2000, PurchaseOp buy_ardrive)]"

text \<open>The second attempt at the same name fails and leaves the state as it was.\<close>

lemma buy_again_fails: "purchase_step (name_env 2000) buy_ardrive leased_names = Inl ArnsAccountExists"
  by (simp add: purchase_step_def buy_ardrive_def buy_name_def arns_accounts leased_names_def
      hash_ardrive name_config_def)

lemma lease_txs_exec: "arns_exec lease_txs fresh_names = leased_names"
  by (simp add: lease_txs_def arns_step_def buy_ardrive_run buy_again_fails)

lemma lease_txs_trace: "arns_trace length_hash 2000 lease_txs fresh_names"
  by (simp add: lease_txs_def name_runtime)

section \<open>Every history\<close>

text \<open>
  C11: the name registry is exact. After any sequence of transactions of the two programs, failed
  ones included, its first \<open>count\<close> slots hold the hash of every registered name once and nothing
  else, each slot at its own index, and the configuration's counter is the number of registered
  names; so the swap-remove deletions of pruning and release never lose or duplicate a name.
\<close>

theorem name_registry_always_exact:
  assumes "arns_inv H t s" and "arns_trace H t txs s"
  shows "\<exists>reg c. names_acc (arns_exec txs s) = Some reg \<and> arns_config_acc (arns_exec txs s) = Some c
    \<and> ne_name_hash ` set (take (unat (nr_count reg)) (nr_slots reg)) = dom (arns_records (arns_exec txs s))
    \<and> unat (nr_count reg) = card (dom (arns_records (arns_exec txs s)))
    \<and> (\<forall>i < unat (nr_count reg). ne_registry_index (nr_slots reg ! i) = of_nat i)
    \<and> unat (ac_total_names_registered c) = card (dom (arns_records (arns_exec txs s)))"
proof -
  obtain c reg where c: "arns_config_acc (arns_exec txs s) = Some c"
      "config_ok c (card (dom (arns_records (arns_exec txs s))))"
    and reg: "names_acc (arns_exec txs s) = Some reg" "index.tracks reg (arns_records (arns_exec txs s))"
      "unat (nr_count reg) = card (dom (arns_records (arns_exec txs s)))"
    by (rule arns_invD [OF arns.inv_exec [OF assms]])
  then show ?thesis
    by (intro exI [of _ reg] exI [of _ c])
       (simp add: config_ok_def index.tracks_def names_table_ok_def registered_hashes_def live_entries_def)
qed

theorem name_registry_always_exact_witness:
  "\<exists>reg. names_acc leased_names = Some reg
     \<and> ne_name_hash ` set (take (unat (nr_count reg)) (nr_slots reg)) = {7}"
  using name_registry_always_exact [OF fresh_names_inv lease_txs_trace]
  by (auto simp: lease_txs_exec leased_names_def)

text \<open>
  C26: names stay well formed. After any history every record is stored under the hash of its own
  name, which obeys the naming rules; no name is registered and in an auction at the same time; a
  permanent name has no end, a lease one at most five years ahead; the undername limit stays
  between 10 and 10,000; and the demand factor stays between its floor and its ceiling.
\<close>

theorem names_always_well_formed:
  assumes "arns_inv H t s" and "arns_trace H t txs s"
  shows "(\<forall>h r. arns_records (arns_exec txs s) h = Some r \<longrightarrow>
       ar_name_hash r = h \<and> h = H (ar_name r) \<and> is_valid_arns_name (ar_name r)
       \<and> returned_names (arns_exec txs s) h = None
       \<and> (ar_purchase_type r = Permabuy \<longleftrightarrow> ar_end_timestamp r = None)
       \<and> (\<forall>e. ar_end_timestamp r = Some e \<longrightarrow> e \<le> end_time now t txs + 5 * ONE_YEAR_SECONDS)
       \<and> 10 \<le> ar_undername_limit r \<and> ar_undername_limit r \<le> 10000)
     \<and> (\<exists>d. demand_acc (arns_exec txs s) = Some d \<and> DEMAND_FACTOR_MIN \<le> df_current_demand_factor d
          \<and> df_current_demand_factor d \<le> MAX_DEMAND_FACTOR)"
proof (intro conjI allI impI)
  note inv = arns.inv_exec [OF assms]
  fix h r assume r: "arns_records (arns_exec txs s) h = Some r"
  note ok = arns_inv_records [OF inv r, unfolded record_ok_def]
  show "returned_names (arns_exec txs s) h = None" using arns_inv_disjoint [OF inv, of h] r by simp
  show "10 \<le> ar_undername_limit r" "ar_undername_limit r \<le> 10000"
    using ok by (simp_all add: DEFAULT_UNDERNAME_COUNT_def MAX_UNDERNAME_LIMIT_def)
  show "e \<le> end_time now t txs + 5 * ONE_YEAR_SECONDS" if "ar_end_timestamp r = Some e" for e
    using ok that by (simp add: MAX_LEASE_LENGTH_YEARS_def)
qed (use arns_inv_records [OF arns.inv_exec [OF assms]] arns.inv_exec [OF assms] in
     \<open>auto simp: record_ok_def arns_inv_def demand_ok_def\<close>)

theorem names_always_well_formed_witness:
  "returned_names leased_names 7 = None \<and> is_valid_arns_name ''ardrive''"
  using names_always_well_formed [OF fresh_names_inv lease_txs_trace, THEN conjunct1,
      THEN spec [of _ 7], THEN spec [of _ ardrive_record]]
  by (simp add: lease_txs_exec leased_names_def ardrive_record_def)

section \<open>The life of a name\<close>

text \<open>
  C5: every instruction refines the life cycle of a name. Whatever an instruction does to the
  accounts, each name either keeps its status or takes one edge: from free or an auction to a
  lease of one to five years or to permanent ownership; within a lease and its fourteen days of
  grace to a longer lease, never more than five years ahead, or to permanent ownership; after
  the grace period to an auction, and two weeks later still possibly straight to free; from
  permanent ownership only to an auction; and from an auction to free after two weeks.
\<close>

theorem instructions_refine_the_name_life_cycle:
  assumes "arns_inv H (now env) s" and "arns_runtime H env op s" and "arns_step env op s = Inr s'"
  shows "name_edge (now env) (status s h) (status s' h)"
  by (rule step_edge [OF assms])

theorem instructions_refine_the_name_life_cycle_witness:
  "name_edge 2000 Free (Leased (2000 + 2 * ONE_YEAR_SECONDS))"
proof -
  have run: "arns_step (name_env 2000) (PurchaseOp buy_ardrive) fresh_names = Inr leased_names"
    by (simp add: arns_step_def buy_ardrive_run)
  have inv: "arns_inv length_hash (now (name_env 2000)) fresh_names" using fresh_names_inv by simp
  have rt: "arns_runtime length_hash (name_env 2000) (PurchaseOp buy_ardrive) fresh_names"
    by (rule name_runtime) simp_all
  show ?thesis
    using instructions_refine_the_name_life_cycle [OF inv rt run, of 7]
    by (simp add: status_def fresh_names_def leased_names_def ardrive_record_def)
qed

text \<open>
  C4: a live name cannot be taken from its holder. While a name is permanent or its lease is
  within the grace period, no instruction of anyone removes its record, changes its owner,
  shortens its lease or lowers its undername limit; only a signature of the current holder of the
  asset it points to can point it elsewhere (reassigning) or give it up (releasing).
\<close>

theorem live_name_cannot_be_taken:
  assumes "arns_inv H (now env) s" and "arns_runtime H env op s" and "arns_step env op s = Inr s'"
    and "arns_config_acc s = Some c" and "arns_records s h = Some r" and "usable env c r"
  shows "(\<exists>r'. arns_records s' h = Some r' \<and> ar_owner r' = ar_owner r \<and> ar_name r' = ar_name r
            \<and> not_shortened (ar_end_timestamp r) (ar_end_timestamp r')
            \<and> ar_undername_limit r \<le> ar_undername_limit r'
            \<and> (ar_ant r' = ar_ant r \<or> (\<exists>holder. holds_ant env r holder
                 \<and> op = OwnershipOp (ReassignNameOp h (ar_ant r) holder (ar_ant r')))))
       \<or> (\<exists>holder. holds_ant env r holder \<and> op = OwnershipOp (ReleaseNameOp h (ar_ant r) holder))"
  using effect_safe [OF arns_step_effect [OF assms(3) arns_inv_set_up [OF assms(1)]] assms(1,2,4,5,6)]
  unfolding keeps_rights_def by blast

theorem live_name_cannot_be_taken_witness:
  "(\<exists>s'. arns_step (name_env 2000) (OwnershipOp (ReassignNameOp 7 40 10 41)) leased_names = Inr s'
      \<and> (\<exists>r. arns_records s' 7 = Some r \<and> ar_owner r = 10 \<and> ar_ant r = 41))
   \<and> holds_ant (name_env 2000) ardrive_record 10"
proof -
  let ?op = "OwnershipOp (ReassignNameOp 7 40 10 41)"
  let ?s = "leased_names\<lparr>arns_records := [7 \<mapsto> ardrive_record\<lparr>ar_ant := 41\<rparr>]\<rparr>"
  have owner: "read_mpl_core_owner asset_data = Inr 10"
    by (simp add: read_mpl_core_owner_def asset_data_def require_def le_nat_le_bytes)
  have live: "is_active ardrive_record 2000" "\<not> is_in_grace_period ardrive_record 2000 x" for x
    by (simp_all add: is_active_def is_in_grace_period_def ardrive_record_def ONE_YEAR_SECONDS_def)
  have c: "arns_config_acc leased_names
      = Some (name_config 1 (2000 + 2 * ONE_YEAR_SECONDS + GRACE_PERIOD_SECONDS))"
    and r: "arns_records leased_names 7 = Some ardrive_record" by (simp_all add: leased_names_def)
  have run: "arns_step (name_env 2000) ?op leased_names = Inr ?s"
    using owner live c r
    by (simp add: arns_step_def ownership_step_def reassign_name_def ant_holder_def require_def
        ardrive_record_def leased_names_def)
  have inv: "arns_inv length_hash (now (name_env 2000)) leased_names" using leased_names_inv by simp
  have rt: "arns_runtime length_hash (name_env 2000) ?op leased_names" by (rule name_runtime) simp_all
  have "usable (name_env 2000) (name_config 1 p) ardrive_record" for p using live by (simp add: usable_def)
  from live_name_cannot_be_taken [OF inv rt run c r this]
  show ?thesis using run by (auto simp: ardrive_record_def)
qed

section \<open>Prices and payments\<close>

text \<open>
  C24: the funding mode never changes the price or loses part of it. A purchase of a free name
  from the wallet, a delegation, the operator's stake, a withdrawal vault or a funding plan costs
  the registration fee at the demand factor rolled to the clock, or that fee less a fifth for a
  gateway operator; exactly this price is recorded on the name and added to the period's revenue,
  and exactly this price enters the treasury account of the configuration, in one transfer or,
  with a funding plan, two.
\<close>

theorem every_funding_mode_pays_the_full_price:
  assumes "purchase_step env op s = Inr s'" and "\<not> op_auction op"
  shows "\<exists>c d d1 d2 fee price r. arns_config_acc s = Some c \<and> demand_acc s = Some d
    \<and> maybe_roll_demand_period d (now env) = Inr d1
    \<and> registration_fee d1 (bp_name (op_params op)) (bp_purchase_type (op_params op)) (bp_years (op_params op)) = Inr fee
    \<and> fee > 0 \<and> (price = fee \<or> uint price = uint fee - uint fee div 5)
    \<and> paid_into (ac_treasury c) price (gar_acc s) (gar_acc s')
    \<and> arns_records s' (hash_name env (bp_name (op_params op))) = Some r
    \<and> ar_owner r = op_buyer op \<and> ar_purchase_price r = price
    \<and> demand_acc s' = Some d2
    \<and> uint (df_revenue_this_period d2) = uint (df_revenue_this_period d1) + uint price
    \<and> uint (df_purchases_this_period d2) = uint (df_purchases_this_period d1) + 1"
proof -
  let ?h = "hash_name env (bp_name (op_params op))"
  obtain price where "bought env (op_params op) (op_buyer op) price s s'"
    using purchase_effects [OF assms(1)] assms(2) by auto
  then obtain c d d1 fee g s2 where eff: "arns_config_acc s = Some c" "demand_acc s = Some d"
    "maybe_roll_demand_period d (now env) = Inr d1"
    "registration_fee d1 (bp_name (op_params op)) (bp_purchase_type (op_params op)) (bp_years (op_params op)) = Inr fee"
    "fee > 0" and q: "quoted env s fee (op_buyer op) price"
    and paid: "paid_into (ac_treasury c) price (gar_acc s) g"
    and run: "register_name env ?h (op_params op) (op_buyer op) price c d1 (s\<lparr>gar_acc := g\<rparr>) = Inr s2"
    and s': "s' = s2\<lparr>reserved_names := (reserved_names s2)(?h := None)\<rparr>"
    unfolding bought_def by blast
  obtain r d2 where "arns_records s2 = (arns_records s)(?h \<mapsto> r)" "ar_owner r = op_buyer op"
    "ar_purchase_price r = price" "demand_acc s2 = Some d2"
    "uint (df_revenue_this_period d2) = uint (df_revenue_this_period d1) + uint price"
    "uint (df_purchases_this_period d2) = uint (df_purchases_this_period d1) + 1" "gar_acc s2 = g"
    using register_name_records [OF run] by auto
  then show ?thesis
    using eff paid quoted_value [OF q]
    by (intro exI [of _ c] exI [of _ d] exI [of _ d1] exI [of _ d2] exI [of _ fee] exI [of _ price] exI [of _ r])
       (simp add: s')
qed

theorem every_funding_mode_pays_the_full_price_witness:
  "paid_into 2 1120000000 (gar_acc fresh_names) (gar_acc leased_names)"
  using every_funding_mode_pays_the_full_price [OF buy_ardrive_run]
  by (auto simp: op_auction_def op_params_def op_buyer_def buy_ardrive_def hash_ardrive leased_names_def
      fresh_names_def name_config_def ardrive_record_def)

text \<open>
  C36: what a name bought out of an auction costs and who receives it. The price is a base fee under
  the premium that decays over the auction, or that less a fifth for a gateway operator, and is the
  price that the record keeps. If the protocol put the name up (an expired lease), the treasury receives
  all of it; if its holder released it, the treasury receives half, rounded down, and the token
  account of that holder the rest; together exactly the price, in every funding mode.
\<close>

theorem auction_price_is_shared_with_the_initiator:
  assumes "purchase_step env op s = Inr s'" and "op_auction op"
  shows "\<exists>c rn full fee price to_treasury to_initiator ita g r. arns_config_acc s = Some c
    \<and> returned_names s (hash_name env (bp_name (op_params op))) = Some rn
    \<and> calculate_returned_name_premium full (rn_returned_at rn) (now env) = Inr fee
    \<and> (price = fee \<or> uint price = uint fee - uint fee div 5)
    \<and> uint to_treasury = (if rn_initiator rn = pda_key env ArnsConfigPda then uint price else uint price div 2)
    \<and> uint to_treasury + uint to_initiator = uint price
    \<and> paid_into (ac_treasury c) to_treasury (gar_acc s) g
    \<and> map_option ta_owner (token_accounts env ita) = Some (rn_initiator rn)
    \<and> paid_into ita to_initiator g (gar_acc s')
    \<and> arns_records s' (hash_name env (bp_name (op_params op))) = Some r
    \<and> ar_owner r = op_buyer op \<and> ar_purchase_price r = price
    \<and> returned_names s' (hash_name env (bp_name (op_params op))) = None"
proof -
  let ?h = "hash_name env (bp_name (op_params op))"
  obtain price where "bought_returned env (op_params op) (op_buyer op) price s s'"
    using purchase_effects [OF assms(1)] assms(2) by auto
  then obtain c d1 rn full fee share rest ita g g2 s3 where eff: "arns_config_acc s = Some c"
    "returned_names s ?h = Some rn" "calculate_returned_name_premium full (rn_returned_at rn) (now env) = Inr fee"
    and q: "quoted env s fee (op_buyer op) price"
    and share: "share = protocol_share (rn_initiator rn = pda_key env ArnsConfigPda) price"
    and rest: "checked_sub price share = Some rest"
    and paid: "paid_into (ac_treasury c) share (gar_acc s) g"
      "map_option ta_owner (token_accounts env ita) = Some (rn_initiator rn)" "paid_into ita rest g g2"
    and run: "register_name env ?h (op_params op) (op_buyer op) price c d1 (s\<lparr>gar_acc := g2\<rparr>) = Inr s3"
    and s': "s' = s3\<lparr>returned_names := (returned_names s3)(?h := None)\<rparr>"
    unfolding bought_returned_def by blast
  obtain r where "arns_records s3 = (arns_records s)(?h \<mapsto> r)" "ar_owner r = op_buyer op"
    "ar_purchase_price r = price" "gar_acc s3 = g2"
    using register_name_records [OF run] by auto
  moreover have "uint share + uint rest = uint price" using checked_subD [OF rest] by simp
  moreover have "uint share = (if rn_initiator rn = pda_key env ArnsConfigPda then uint price else uint price div 2)"
    by (simp add: share protocol_share_def uint_div)
  ultimately show ?thesis
    using eff paid quoted_value [OF q]
    by (intro exI [of _ c] exI [of _ rn] exI [of _ full] exI [of _ fee] exI [of _ price] exI [of _ share]
        exI [of _ rest] exI [of _ ita] exI [of _ g] exI [of _ r]) (simp add: s')
qed

theorem auction_price_is_shared_with_the_initiator_witness:
  "(\<exists>g. paid_into 2 28000000000 (gar_acc auction_names) g)
   \<and> purchase_step (name_env 2000) bid_ardrive auction_names = Inr auctioned_names
   \<and> returned_names auctioned_names 7 = None"
proof -
  have op: "op_auction bid_ardrive" "op_params bid_ardrive = ardrive" "op_buyer bid_ardrive = 10"
    by (simp_all add: op_auction_def op_params_def op_buyer_def bid_ardrive_def)
  obtain c rn price to_treasury g r where w: "arns_config_acc auction_names = Some c"
    "returned_names auction_names 7 = Some rn"
    "uint to_treasury = (if rn_initiator rn = 7 then uint price else uint price div 2)"
    "paid_into (ac_treasury c) to_treasury (gar_acc auction_names) g"
    "arns_records auctioned_names 7 = Some r" "ar_purchase_price r = price" "returned_names auctioned_names 7 = None"
    using auction_price_is_shared_with_the_initiator [OF bid_ardrive_run op(1)]
    by (auto simp: op hash_ardrive)
  have "price = 56000000000" "rn = ardrive_auction" "ac_treasury c = 2"
    using w(1,2,5,6) by (simp_all add: auctioned_names_def auction_names_def fresh_names_def name_config_def) auto
  with w(3) have "to_treasury = 28000000000"
    by (simp add: ardrive_auction_def word_uint_eq_iff)
  with w(4,7) \<open>ac_treasury c = 2\<close> bid_ardrive_run show ?thesis by auto
qed

text \<open>
  The premium of a returned name starts at fifty times the registration fee, never rises
  while the auction runs, never falls below the fee itself, and is the fee from the end of the
  fourteen days on; no intermediate product of the checked arithmetic overflows on the way.
\<close>

theorem returned_name_premium_falls_from_fifty_to_one:
  assumes "calculate_returned_name_premium fee returned_at t = Inr p"
    and "calculate_returned_name_premium fee returned_at t' = Inr p'"
    and "0 \<le> returned_at" and "returned_at \<le> t" and "t \<le> t'" and "t' < 2 ^ 62"
  shows "uint fee \<le> uint p \<and> uint p \<le> 50 * uint fee \<and> uint p' \<le> uint p
    \<and> (t = returned_at \<longrightarrow> uint p = 50 * uint fee)
    \<and> (t \<ge> returned_at + RETURNED_NAME_DURATION_SECONDS \<longrightarrow> p = fee)"
proof -
  let ?m = "\<lambda>x. premium_multiplier (min auction (x - returned_at))"
  have p: "uint p = uint fee * ?m t div 1000000" and p': "uint p' = uint fee * ?m t' div 1000000"
    using premium_value [OF assms(1)] premium_value [OF assms(2)] assms(3-6) by auto
  have m: "1000000 \<le> ?m t" "?m t \<le> 50000000" "?m t' \<le> ?m t"
    using premium_multiplier_bounds [of "min auction (t - returned_at)"] assms(4,5)
    by (auto simp: auction_value intro: premium_multiplier_mono)
  have "uint fee * 1000000 \<le> uint fee * ?m t" "uint fee * ?m t \<le> uint fee * 50000000"
    "uint fee * ?m t' \<le> uint fee * ?m t" using m by (auto intro: mult_left_mono)
  then have "uint fee \<le> uint p" "uint p \<le> 50 * uint fee" "uint p' \<le> uint p"
    unfolding p p' by (simp_all add: zdiv_mono1)
  moreover have "t = returned_at \<longrightarrow> uint p = 50 * uint fee"
    by (simp add: p premium_multiplier_def auction_value)
  moreover have "t \<ge> returned_at + RETURNED_NAME_DURATION_SECONDS \<longrightarrow> p = fee"
    using assms(1,3-6) by (auto simp: calculate_returned_name_premium_def clamp_i64_def Let_def)
  ultimately show ?thesis by simp
qed

lemma premium_demo:
  "calculate_returned_name_premium 1000 2000 606800 = Inr 25500"
  "calculate_returned_name_premium 1000 2000 1211600 = Inr 1000"
  by (simp_all add: calculate_returned_name_premium_def clamp_i64_def RETURNED_NAME_DURATION_SECONDS_def
      RETURNED_NAME_MAX_MULTIPLIER_def DEMAND_FACTOR_SCALE_def checked_mul_def checked_sub_def checked_div_def
      u64_try_from_def Let_def)

theorem returned_name_premium_falls_from_fifty_to_one_witness:
  "(1000 :: int) \<le> 25500 \<and> uint (1000 :: u64) \<le> uint (25500 :: u64)"
  using returned_name_premium_falls_from_fifty_to_one [OF premium_demo] by simp

section \<open>The demand factor\<close>

text \<open>
  C15: the fast-forward of the demand factor computes exactly the loop it replaces. Whatever the
  gap, rolling to the clock equals running the one-period state machine once per elapsed period;
  the closed form with its whole-cycle halvings loses no decay, no halving of a fee and no reset.
\<close>

theorem rollover_equals_one_period_at_a_time:
  assumes "demand_ok d"
    and "get_period_for_timestamp timestamp (df_period_zero_start_timestamp d) = Inr period"
  shows "maybe_roll_demand_period d timestamp
         = roll_periods (unat period - unat (df_current_period d)) d"
proof (cases "df_current_period d < period")
  case True
  have sized: "rings_sized d" using assms(1) by (simp add: demand_ok_def)
  have "unat (period - df_current_period d) = unat period - unat (df_current_period d)"
    using True by (simp add: unat_sub word_le_less_eq)
  with rollover_loop [OF sized assms(2) True] show ?thesis by simp
next
  case False
  then have "unat period \<le> unat (df_current_period d)" by (simp add: not_less word_le_nat_alt)
  with False assms(2) show ?thesis by (simp add: maybe_roll_demand_period_def not_less)
qed

theorem rollover_equals_one_period_at_a_time_witness:
  "maybe_roll_demand_period (name_demand 3 5) 87400 = roll_periods 1 (name_demand 3 5)"
proof -
  have "get_period_for_timestamp 87400 (df_period_zero_start_timestamp (name_demand 3 5)) = Inr 2"
    by (simp add: get_period_for_timestamp_def name_demand_def checked_sub_i64_def i64_ok_def
        PERIOD_LENGTH_SECONDS_def)
  from rollover_equals_one_period_at_a_time [OF demand_ok_demo this]
  show ?thesis by (simp add: name_demand_def)
qed

text \<open>
  C40: rolling forward is bounded work, however long nobody touched the factor. The loop that
  measures a cycle ends, after 53 steps; and from any factor within the bounds the walk to the
  first cycle boundary takes at most 510 turns and leaves only what is shorter than the gap.
\<close>

theorem catching_up_is_bounded_work:
  assumes "demand_ok d"
    and "to_boundary n (df_current_demand_factor d, df_consecutive_periods_with_min_demand_factor d, df_fees d)
         = Inr (remaining, x)"
  shows "zero_activity_cycle_length = Some 53 \<and> remaining \<le> n \<and> n - remaining \<le> 510"
proof -
  obtain k where k: "k \<le> 510"
    "at_boundary ((zturn ^^ k) (df_current_demand_factor d, df_consecutive_periods_with_min_demand_factor d, df_fees d))"
    using boundary_within [of "df_current_demand_factor d"] assms(1) unfolding demand_ok_def by blast
  from to_boundary_work [OF k(2) assms(2)] k(1) have "n - remaining \<le> 510" by simp
  moreover have "remaining \<le> n" using to_boundary_zturn assms(2) by (metis Inr_inject fst_conv)
  ultimately show ?thesis using cycle_length by simp
qed

theorem catching_up_is_bounded_work_witness:
  "\<exists>remaining x. to_boundary 4000000
     (df_current_demand_factor (name_demand 0 0), df_consecutive_periods_with_min_demand_factor (name_demand 0 0),
      df_fees (name_demand 0 0)) = Inr (remaining, x) \<and> 4000000 - remaining \<le> 510"
proof -
  obtain remaining x where "to_boundary 4000000
     (df_current_demand_factor (name_demand 0 0), df_consecutive_periods_with_min_demand_factor (name_demand 0 0),
      df_fees (name_demand 0 0)) = Inr (remaining, x)"
    using to_boundary_zturn by blast
  with catching_up_is_bounded_work [OF demand_ok_demo this] show ?thesis by blast
qed

end
