(* ===== verification/Core_State.thy ===== *)
theory Core_State
  imports Arns_Pricing
begin

text \<open>
  The accounts of \<open>ario-core\<close> (\<open>state/mod.rs\<close>), its errors (\<open>error.rs\<close>) and what its handlers see
  of the runtime. The program reads accounts of \<open>ario-arns\<close> and \<open>ario-ant\<close> as raw bytes, so those
  are byte lists of the environment, found at an address; address derivation from seeds, SHA-256
  and the Unicode tables behind \<open>to_lowercase\<close> are parameters. It pays by cross-program call into
  \<open>ario-gar\<close>, whose state is part of this one and keeps the log of token transfers of both.
\<close>

section \<open>Constants\<close>

definition DEFAULT_MIN_VAULT_DURATION :: i64 where "DEFAULT_MIN_VAULT_DURATION = 14 * 86400"
definition DEFAULT_MAX_VAULT_DURATION :: i64 where "DEFAULT_MAX_VAULT_DURATION = 200 * 365 * 86400"
definition DEFAULT_PRIMARY_NAME_REQUEST_EXPIRY :: i64 where
  "DEFAULT_PRIMARY_NAME_REQUEST_EXPIRY = 7 * 86400"
definition MIN_VAULT_SIZE :: u64 where "MIN_VAULT_SIZE = 100000000"
definition PRIMARY_NAME_REQUEST_BASE_FEE_LEASE :: u64 where
  "PRIMARY_NAME_REQUEST_BASE_FEE_LEASE = 200000"
definition PRIMARY_NAME_REQUEST_BASE_FEE_PERMABUY :: u64 where
  "PRIMARY_NAME_REQUEST_BASE_FEE_PERMABUY = 1000000"
definition MAX_PRIMARY_NAME_LENGTH :: nat where "MAX_PRIMARY_NAME_LENGTH = 63"
definition MAX_UNDERNAME_LENGTH :: nat where "MAX_UNDERNAME_LENGTH = 61"
definition MAX_BASE_NAME_LENGTH :: nat where "MAX_BASE_NAME_LENGTH = 51"
definition LEASE_GRACE_PERIOD :: i64 where "LEASE_GRACE_PERIOD = 14 * 86400"
definition CORE_MIGRATION_DEADLINE :: i64 where "CORE_MIGRATION_DEADLINE = 4490553669"

text \<open>\<open>ario_ant::ID\<close>, the one program whose records name an owner.\<close>

definition ARIO_ANT_ID :: pubkey where
  "ARIO_ANT_ID = of_nat (base58_value ''ARioAntProgXXXXXXXXXXXXXXXXXXXXXXXXXXXXXXXXX'')"

lemmas core_durations = DEFAULT_MIN_VAULT_DURATION_def DEFAULT_MAX_VAULT_DURATION_def
  DEFAULT_PRIMARY_NAME_REQUEST_EXPIRY_def

section \<open>Errors\<close>

text \<open>
  \<open>ArioError\<close> in the source's order, then what the runtime answers: an account that is absent,
  already there, or violates a constraint without an error of its own, a request the Token program
  refuses, and the error of a cross-program call into \<open>ario-gar\<close>.
\<close>

datatype (plugins only: code) core_error =
    CoreAlreadyInitialized
  | CoreInsufficientBalance | CoreInvalidAmount | CoreSelfTransfer
  | VaultLocked | VaultAlreadyReleased | LockDurationTooShort | LockDurationTooLong | VaultNotFound
  | InvalidVaultExtension | VaultNotRevocable | NotVaultController | VaultExpired
  | MaxVaultsExceeded | VaultBelowMinimum
  | PrimaryNameRequestExists | PrimaryNameRequestNotFound | PrimaryNameRequestExpired
  | PrimaryNameRequestNotExpired | NotNameOwner | PrimaryNameAlreadySet | NoPrimaryName
  | MustRemoveExistingPrimaryName | CoreNameTooLong | CoreNameEmpty
  | CoreUnauthorized | CoreInvalidAuthority | CoreInvalidOwner
  | CoreArithmeticOverflow | CoreArithmeticUnderflow | CoreInvalidParameter
  | CoreAccountAlreadyExists | CoreInvalidAccountState
  | ArnsRecordNotFound | CoreInvalidNameFormat | CoreInvalidTreasury | CoreInvalidAntAsset
  | CoreNotAntHolder | UndernameRecordOwnerRequired
  | CoreMigrationInactive | CoreMigrationAlreadyFinalized | CoreInvalidAccountData
  | CoreInvalidPda | CoreMigrationExpired
  | CoreAlreadyLatestVersion | CoreUnknownSchemaVersion
  | CoreAccountMissing | CoreAccountExists | CoreConstraint | CoreTransferFailed
  | CoreGarFailure gar_error

type_synonym 'a core_result = "(core_error, 'a) result"

section \<open>Accounts\<close>

record ario_config =
  cc_authority :: pubkey
  cc_mint :: pubkey
  cc_arns_program :: pubkey
  cc_treasury :: pubkey
  cc_total_supply :: u64
  cc_protocol_balance :: u64
  cc_circulating_supply :: u64
  cc_locked_supply :: u64
  cc_min_vault_duration :: i64
  cc_max_vault_duration :: i64
  cc_primary_name_request_expiry :: i64
  cc_migration_active :: bool
  cc_migration_authority :: pubkey
  cc_bump :: u8
  cc_gar_program :: pubkey
  cc_version :: schema_version

record core_balance =
  cb_owner :: pubkey
  cb_amount :: u64
  cb_bump :: u8
  cb_version :: schema_version

record vault_counter =
  vc_owner :: pubkey
  vc_next_id :: u64
  vc_bump :: u8
  vc_version :: schema_version

record vault =
  va_owner :: pubkey
  va_vault_id :: u64
  va_amount :: u64
  va_start_timestamp :: i64
  va_end_timestamp :: i64
  va_controller :: "pubkey option"
  va_revocable :: bool
  va_bump :: u8
  va_version :: schema_version

record primary_name_request =
  rq_initiator :: pubkey
  rq_name :: string
  rq_created_at :: i64
  rq_expires_at :: i64
  rq_bump :: u8
  rq_version :: schema_version

record primary_name =
  pn_owner :: pubkey
  pn_name :: string
  pn_set_at :: i64
  pn_bump :: u8
  pn_version :: schema_version

record primary_name_reverse =
  rv_name :: string
  rv_owner :: pubkey
  rv_bump :: u8
  rv_version :: schema_version

definition is_unlocked :: "vault \<Rightarrow> i64 \<Rightarrow> bool" where
  "is_unlocked v current_timestamp \<longleftrightarrow> current_timestamp \<ge> va_end_timestamp v"

definition can_revoke :: "vault \<Rightarrow> pubkey \<Rightarrow> bool" where
  "can_revoke v authority \<longleftrightarrow> va_revocable v \<and> va_controller v = Some authority"

definition is_expired :: "primary_name_request \<Rightarrow> i64 \<Rightarrow> bool" where
  "is_expired r current_timestamp \<longleftrightarrow> current_timestamp \<ge> rq_expires_at r"

section \<open>Environment and state\<close>

datatype core_pda =
    CoreConfigPda
  | BalancePda pubkey
  | VaultCounterPda pubkey
  | VaultPda pubkey u64
  | PrimaryNameRequestPda pubkey
  | PrimaryNamePda pubkey
  | PrimaryNameReversePda name_hash
  | CoreGarAccount gar_pda
  | ForeignAccount pubkey

record core_env = "core_pda env" +
  core_sha256 :: "string \<Rightarrow> name_hash"
  core_unicode_lowercase :: "string \<Rightarrow> string" \<comment> \<open>\<open>str::to_lowercase\<close> of a string that is not all ASCII\<close>
  find_program_address :: "u8 list list \<Rightarrow> pubkey \<Rightarrow> pubkey"
  core_accounts :: "pubkey \<rightharpoonup> raw_account"
  core_upgrade_authority :: "pubkey option"
  associated_token :: "pubkey \<Rightarrow> pubkey \<Rightarrow> pubkey" \<comment> \<open>of a wallet and a mint\<close>
  spl_closes :: "spl_transfer list \<Rightarrow> pubkey \<Rightarrow> pubkey \<Rightarrow> bool"

record core_state =
  core_config_acc :: "ario_config option"
  core_balances :: "pubkey \<rightharpoonup> core_balance"
  vault_counters :: "pubkey \<rightharpoonup> vault_counter"
  vaults :: "pubkey \<times> u64 \<rightharpoonup> vault" \<comment> \<open>keyed by owner and id\<close>
  name_requests :: "pubkey \<rightharpoonup> primary_name_request"
  primary_names :: "pubkey \<rightharpoonup> primary_name"
  reverse_names :: "name_hash \<rightharpoonup> primary_name_reverse"
  closed_token_accounts :: "pubkey list"
  core_gar :: gar_state

text \<open>The environment a cross-program call into \<open>ario-gar\<close> runs in.\<close>

definition core_gar_view :: "core_env \<Rightarrow> gar_env" where
  "core_gar_view env = \<lparr>now = now env, pda_bump = (\<lambda>p. pda_bump env (CoreGarAccount p)),
     pda_key = (\<lambda>p. pda_key env (CoreGarAccount p)), token_accounts = token_accounts env,
     spl_accepts = spl_accepts env\<rparr>"

definition core_gar_cpi :: "gar_state gar_result \<Rightarrow> core_state \<Rightarrow> core_state core_result" where
  "core_gar_cpi r s = (case r of Inl e \<Rightarrow> Inl (CoreGarFailure e) | Inr g \<Rightarrow> Inr (s\<lparr>core_gar := g\<rparr>))"

text \<open>\<open>token::transfer(..)?\<close> and \<open>token::close_account(..)?\<close>.\<close>

definition core_transfer ::
  "core_env \<Rightarrow> pubkey \<Rightarrow> pubkey \<Rightarrow> pubkey \<Rightarrow> u64 \<Rightarrow> core_state \<Rightarrow> core_state core_result" where
  "core_transfer env src dst auth amount s =
     (case token_transfer (core_gar_view env) src dst auth amount (core_gar s) of
        Inl _ \<Rightarrow> Inl CoreTransferFailed
      | Inr g \<Rightarrow> Inr (s\<lparr>core_gar := g\<rparr>))"

definition core_close_account ::
  "core_env \<Rightarrow> pubkey \<Rightarrow> pubkey \<Rightarrow> core_state \<Rightarrow> core_state core_result" where
  "core_close_account env account authority s =
     require (spl_closes env (cpi_log (core_gar s)) account authority) CoreTransferFailed
       (Inr (s\<lparr>closed_token_accounts := closed_token_accounts s @ [account]\<rparr>))"

definition core_lowercase :: "core_env \<Rightarrow> string \<Rightarrow> string" where
  "core_lowercase env name =
     (if list_all (\<lambda>c. (of_char c :: nat) < 128) name then map ascii_lowercase name
      else core_unicode_lowercase env name)"

section \<open>Accounts of an instruction\<close>

named_theorems core_accounts_defs "account contexts of ario-core, unfolded"
named_theorems core_handlers "instruction handlers of ario-core, unfolded"
named_theorems core_bodies "bodies shared by handlers of ario-core, unfolded"

text \<open>A wallet's token account: its owner and mint, without an error of their own.\<close>

definition own_token_account ::
  "core_env \<Rightarrow> ario_config \<Rightarrow> pubkey \<Rightarrow> pubkey \<Rightarrow> 'a core_result \<Rightarrow> 'a core_result" where
  [core_accounts_defs]: "own_token_account env c key owner k =
     ok_or (token_accounts env key) CoreAccountMissing (\<lambda>ta.
     require (ta_owner ta = owner) CoreConstraint (
     require (ta_mint ta = cc_mint c) CoreConstraint k))"

definition core_treasury_account ::
  "core_env \<Rightarrow> ario_config \<Rightarrow> pubkey \<Rightarrow> 'a core_result \<Rightarrow> 'a core_result" where
  [core_accounts_defs]: "core_treasury_account env c key k =
     ok_or (token_accounts env key) CoreAccountMissing (\<lambda>ta.
     require (key = cc_treasury c) CoreInvalidTreasury (
     require (ta_mint ta = cc_mint c) CoreConstraint k))"

lemma core_transfer_iff:
  "core_transfer env src dst auth amount s = Inr s' \<longleftrightarrow>
     (\<exists>g. token_transfer (core_gar_view env) src dst auth amount (core_gar s) = Inr g
       \<and> s' = s\<lparr>core_gar := g\<rparr>)"
  by (auto simp: core_transfer_def split: sum.splits)

lemma core_gar_cpi_iff: "core_gar_cpi r s = Inr s' \<longleftrightarrow> (\<exists>g. r = Inr g \<and> s' = s\<lparr>core_gar := g\<rparr>)"
  by (auto simp: core_gar_cpi_def split: sum.splits)

lemma core_close_account_iff:
  "core_close_account env account authority s = Inr s' \<longleftrightarrow>
     spl_closes env (cpi_log (core_gar s)) account authority
     \<and> s' = s\<lparr>closed_token_accounts := closed_token_accounts s @ [account]\<rparr>"
  by (auto simp: core_close_account_def require_iff)

lemma own_token_account_iff:
  "own_token_account env c key owner k = Inr x \<longleftrightarrow>
     (\<exists>ta. token_accounts env key = Some ta \<and> ta_owner ta = owner \<and> ta_mint ta = cc_mint c) \<and> k = Inr x"
  by (auto simp: own_token_account_def require_iff ok_or_iff)

lemma core_treasury_account_iff:
  "core_treasury_account env c key k = Inr x \<longleftrightarrow>
     (\<exists>ta. token_accounts env key = Some ta \<and> ta_mint ta = cc_mint c) \<and> key = cc_treasury c \<and> k = Inr x"
  by (auto simp: core_treasury_account_def require_iff ok_or_iff)

lemmas core_run_iff = require_iff ok_or_iff and_then_iff core_transfer_iff core_gar_cpi_iff
  core_close_account_iff own_token_account_iff core_treasury_account_iff
  checked_add_iff checked_sub_iff checked_add_i64_iff

end
