(* ===== verification/Borsh.thy ===== *)
theory Borsh
  imports Bytes Runtime "HOL-Library.Sublist"
begin

text \<open>
  Borsh, the layout of account data: fields one after another, integers in little-endian order, a
  \<open>String\<close> or \<open>Vec\<close> after its length as a \<open>u32\<close>, an \<open>Option\<close> after a tag byte. Parsers walk the
  data with an offset; the locale \<open>borsh_field\<close> says that one accepts exactly the encodings of a
  field, and fields compose.
\<close>

section \<open>Keys and texts\<close>

definition key_bytes :: "256 word \<Rightarrow> u8 list" where
  "key_bytes k = le_bytes 32 (unat k)"

definition text_bytes :: "string \<Rightarrow> u8 list" where
  "text_bytes t = map of_char t"

definition key_at :: "u8 list \<Rightarrow> nat \<Rightarrow> pubkey" where
  "key_at data offset = of_nat (le_nat_at data offset 32)"

lemma length_key_bytes [simp]: "length (key_bytes k) = 32"
  by (simp add: key_bytes_def)

lemma length_text_bytes [simp]: "length (text_bytes t) = length t"
  by (simp add: text_bytes_def)

lemma le_nat_key_bytes [simp]: "le_nat (key_bytes k) = unat k"
  unfolding key_bytes_def by (rule le_nat_le_bytes) (use unsigned_less [of k] in simp)

lemma key_bytes_of_nat:
  assumes "length bs = 32"
  shows "key_bytes (of_nat (le_nat bs)) = bs"
proof -
  have "le_nat bs < 2 ^ 256" using le_nat_less [of bs] assms by simp
  then have "unat (of_nat (le_nat bs) :: 256 word) = le_nat bs"
    by (simp add: unsigned_of_nat take_bit_nat_eq_self)
  then show ?thesis using le_bytes_le_nat [of bs] assms by (simp add: key_bytes_def)
qed

lemma of_char_byte: "(of_char c :: u8) = of_nat (of_char c)"
  by (simp add: of_nat_of_char)

lemma unat_of_char [simp]: "unat (of_char c :: u8) = of_char c"
proof -
  have "(of_char c :: nat) < 256" by (metis mod_less_divisor of_char_mod_256 zero_less_numeral)
  then show ?thesis by (simp only: of_char_byte unat_of_nat_byte)
qed

lemma text_bytes_surj: "\<exists>t. text_bytes t = bs"
proof
  have "of_char (char_of (unat b)) = b" for b :: u8
  proof -
    have "unat b < 256" using unsigned_less [of b] by simp
    then have "unat (of_char (char_of (unat b)) :: u8) = unat b" by simp
    then show ?thesis by (simp only: word_unat_eq_iff)
  qed
  then show "text_bytes (map (\<lambda>b. char_of (unat b)) bs) = bs" by (simp add: text_bytes_def map_idI)
qed

lemma text_bytes_inject [simp]: "text_bytes t = text_bytes u \<longleftrightarrow> t = u"
proof -
  have "inj (of_char :: char \<Rightarrow> u8)"
    by (rule injI) (metis of_char_eq_iff unat_of_char)
  then show ?thesis unfolding text_bytes_def by simp
qed

section \<open>Encodings\<close>

definition borsh_u16 :: "u16 \<Rightarrow> u8 list" where "borsh_u16 n = le_bytes 2 (unat n)"
definition borsh_u32 :: "u32 \<Rightarrow> u8 list" where "borsh_u32 n = le_bytes 4 (unat n)"

definition borsh_vec :: "('a \<Rightarrow> u8 list) \<Rightarrow> 'a list \<Rightarrow> u8 list" where
  "borsh_vec enc xs = le_bytes 4 (length xs) @ concat (map enc xs)"

definition borsh_string :: "string \<Rightarrow> u8 list" where
  "borsh_string t = le_bytes 4 (length t) @ text_bytes t"

fun borsh_option :: "('a \<Rightarrow> u8 list) \<Rightarrow> 'a option \<Rightarrow> u8 list" where
  "borsh_option enc None = [0]"
| "borsh_option enc (Some x) = 1 # enc x"

lemma length_borsh_ints [simp]: "length (borsh_u16 m) = 2" "length (borsh_u32 n) = 4"
  by (simp_all add: borsh_u16_def borsh_u32_def)

lemma length_borsh_string [simp]: "length (borsh_string t) = 4 + length t"
  by (simp add: borsh_string_def)

lemma length_borsh_option: "length (borsh_option enc x) = 1 + (case x of None \<Rightarrow> 0 | Some y \<Rightarrow> length (enc y))"
  by (cases x) simp_all

lemma borsh_u32_of_nat:
  assumes "length bs = 4"
  shows "borsh_u32 (of_nat (le_nat bs)) = bs"
proof -
  have "le_nat bs < 2 ^ 32" using le_nat_less [of bs] assms by simp
  then have "unat (of_nat (le_nat bs) :: u32) = le_nat bs"
    by (simp add: unsigned_of_nat take_bit_nat_eq_self)
  then show ?thesis using le_bytes_le_nat [of bs] assms by (simp add: borsh_u32_def)
qed

lemma le_nat_borsh_u32 [simp]: "le_nat (borsh_u32 n) = unat n"
  unfolding borsh_u32_def by (rule le_nat_le_bytes) (use unsigned_less [of n] in simp)

lemma le_nat_len: "n < 2 ^ 32 \<Longrightarrow> le_nat (le_bytes 4 n) = n"
  by (rule le_nat_le_bytes) simp

section \<open>Reading at an offset\<close>

text \<open>The bytes \<open>bs\<close> stand at an offset of the data.\<close>

abbreviation holds_at :: "u8 list \<Rightarrow> nat \<Rightarrow> u8 list \<Rightarrow> bool" where
  "holds_at data i bs \<equiv> prefix bs (drop i data)"

lemma holds_at_append:
  "holds_at data i (bs @ cs) \<longleftrightarrow> holds_at data i bs \<and> holds_at data (i + length bs) cs"
proof
  assume "holds_at data i (bs @ cs)"
  then obtain rest where rest: "drop i data = bs @ cs @ rest" by (auto simp: prefix_def)
  then have "drop (length bs) (drop i data) = cs @ rest" by simp
  then have "drop (i + length bs) data = cs @ rest" by (simp add: add.commute)
  then show "holds_at data i bs \<and> holds_at data (i + length bs) cs" using rest by simp
next
  assume both: "holds_at data i bs \<and> holds_at data (i + length bs) cs"
  then obtain r1 r2 where "drop i data = bs @ r1" and "drop (i + length bs) data = cs @ r2"
    by (auto simp: prefix_def)
  then have "r1 = cs @ r2" by (metis add.commute append_eq_conv_conj drop_drop)
  then show "holds_at data i (bs @ cs)" using \<open>drop i data = bs @ r1\<close> by simp
qed

lemma holds_at_length: "holds_at data i bs \<Longrightarrow> bs \<noteq> [] \<Longrightarrow> i + length bs \<le> length data"
  using prefix_length_le [of bs "drop i data"] by (cases bs) auto

lemma holds_at_take: "holds_at data i bs \<longleftrightarrow> take (length bs) (drop i data) = bs"
  by (metis append_eq_conv_conj prefix_def take_is_prefix)

lemma holds_at_nth:
  assumes "holds_at data i [b]"
  shows "i < length data" "data ! i = b"
proof -
  show "i < length data" using holds_at_length [OF assms] by simp
  then show "data ! i = b" using assms by (simp add: Cons_nth_drop_Suc [symmetric])
qed

lemma holds_at_le_nat: "holds_at data i bs \<Longrightarrow> le_nat_at data i (length bs) = le_nat bs"
  by (simp add: le_nat_at_def holds_at_take)

lemma holds_at_key: "holds_at data i (key_bytes k) \<Longrightarrow> key_at data i = k"
  using holds_at_le_nat [of "key_bytes k" i data] by (simp add: key_at_def)

lemma holds_at_len: "holds_at data i (le_bytes 4 n) \<Longrightarrow> n < 2 ^ 32 \<Longrightarrow> le_nat_at data i 4 = n"
  using holds_at_le_nat [of "le_bytes 4 n" i data] by (simp add: le_nat_len)

lemma holds_at_exists: "i + n \<le> length data \<longleftrightarrow> n = 0 \<and> i \<le> length data \<or> (\<exists>bs. length bs = n \<and> bs \<noteq> [] \<and> holds_at data i bs)"
proof -
  have "holds_at data i (take n (drop i data))" by (simp add: take_is_prefix)
  then show ?thesis using holds_at_length [of _ i data] by (cases "n = 0") (force intro!: exI [of _ "take n (drop i data)"])+
qed

section \<open>Parsers of a field\<close>

text \<open>
  A parser that steps over one field and returns the next offset: it accepts exactly the encodings
  of the values that \<open>fits\<close> allows.
\<close>

fun skip_many ::
  "(u8 list \<Rightarrow> nat \<Rightarrow> ('e, nat) result) \<Rightarrow> nat \<Rightarrow> u8 list \<Rightarrow> nat \<Rightarrow> ('e, nat) result" where
  "skip_many skip 0 data i = Inr i"
| "skip_many skip (Suc n) data i = and_then (skip data i) (\<lambda>i1. skip_many skip n data i1)"

locale borsh_field =
  fixes skip :: "u8 list \<Rightarrow> nat \<Rightarrow> ('e, nat) result"
    and enc :: "'a \<Rightarrow> u8 list"
    and fits :: "'a \<Rightarrow> bool"
  assumes skip_iff: "skip data i = Inr j \<longleftrightarrow> (\<exists>x. fits x \<and> holds_at data i (enc x) \<and> j = i + length (enc x))"
begin

lemma then_iff:
  "and_then (skip data i) k = Inr y \<longleftrightarrow> (\<exists>x. fits x \<and> holds_at data i (enc x) \<and> k (i + length (enc x)) = Inr y)"
  by (auto simp: and_then_iff skip_iff)

lemma thenI:
  "fits x \<Longrightarrow> holds_at data i (enc x) \<Longrightarrow> k (i + length (enc x)) = Inr y \<Longrightarrow> and_then (skip data i) k = Inr y"
  unfolding then_iff by (intro exI conjI)

text \<open>A fixed number of such fields.\<close>

lemma skip_many_iff:
  "skip_many skip n data i = Inr j \<longleftrightarrow>
     (\<exists>xs. length xs = n \<and> list_all fits xs \<and> holds_at data i (concat (map enc xs))
       \<and> j = i + length (concat (map enc xs)))"
proof (induction n arbitrary: i)
  case (Suc n)
  have "skip_many skip (Suc n) data i = Inr j \<longleftrightarrow>
      (\<exists>x xs. fits x \<and> holds_at data i (enc x) \<and> length xs = n \<and> list_all fits xs
        \<and> holds_at data (i + length (enc x)) (concat (map enc xs))
        \<and> j = i + length (enc x) + length (concat (map enc xs)))"
    by (auto simp: then_iff Suc.IH)
  also have "\<dots> \<longleftrightarrow> (\<exists>x xs. length (x # xs) = Suc n \<and> list_all fits (x # xs)
        \<and> holds_at data i (concat (map enc (x # xs)))
        \<and> j = i + length (concat (map enc (x # xs))))"
    by (simp add: holds_at_append add.assoc) blast
  also have "\<dots> \<longleftrightarrow> (\<exists>xs. length xs = Suc n \<and> list_all fits xs \<and> holds_at data i (concat (map enc xs))
        \<and> j = i + length (concat (map enc xs)))"
    (is "?l = (\<exists>xs. ?P xs)")
  proof
    assume ?l
    then show "\<exists>xs. ?P xs" by blast
  next
    assume "\<exists>xs. ?P xs"
    then obtain xs where xs: "?P xs" by blast
    then obtain x ys where "xs = x # ys" by (cases xs) auto
    with xs show ?l by blast
  qed
  finally show ?case .
qed auto

end

section \<open>Schema versions\<close>

definition version_bytes :: "schema_version \<Rightarrow> u8 list" where
  "version_bytes v = [sv_major v, sv_minor v, sv_patch v]"

lemma length_version_bytes [simp]: "length (version_bytes v) = 3"
  by (simp add: version_bytes_def)

lemma version_bytes_surj: "length bs = 3 \<Longrightarrow> \<exists>v. version_bytes v = bs"
  by (rule exI [of _ "SchemaVersion (bs ! 0) (bs ! 1) (bs ! 2)"])
    (auto simp: version_bytes_def numeral_3_eq_3 length_Suc_conv)

end
