(* ===== verification/Core_Records.thy ===== *)
theory Core_Records
  imports Core_State Borsh
begin

text \<open>
  What \<open>ario-core\<close> reads of other programs' accounts to decide on a primary name: the name format,
  the \<open>ArnsRecord\<close> and \<open>DemandFactor\<close> of \<open>ario-arns\<close>, the \<open>AntRecord\<close> and \<open>AntConfig\<close> of
  \<open>ario-ant\<close> (first half of \<open>instructions/primary_name.rs\<close>). The accounts are parsed as raw bytes,
  offset by offset, as in the source.
\<close>

section \<open>Name format\<close>

definition is_valid_name_segment :: "string \<Rightarrow> bool" where
  "is_valid_name_segment s =
     (if s = [] then False
      else if length s = 1 then is_ascii_alphanumeric (s ! 0)
      else if \<not> is_ascii_alphanumeric (s ! 0) \<or> \<not> is_ascii_alphanumeric (s ! (length s - 1)) then False
      else list_all (\<lambda>b. is_ascii_alphanumeric b \<or> b = CHR ''-'') s)"

text \<open>\<open>splitn(2, '_')\<close>: the base name, and the undername when there is a first underscore.\<close>

definition split_primary_name :: "string \<Rightarrow> string \<times> string option" where
  "split_primary_name name =
     (case dropWhile (\<lambda>c. c \<noteq> CHR ''_'') name of
        [] \<Rightarrow> (name, None)
      | _ # base_name \<Rightarrow> (base_name, Some (takeWhile (\<lambda>c. c \<noteq> CHR ''_'') name)))"

definition validate_primary_name_format :: "string \<Rightarrow> unit core_result" where
  "validate_primary_name_format name =
     require (name \<noteq> []) CoreNameEmpty (
     require (length name \<le> MAX_PRIMARY_NAME_LENGTH) CoreNameTooLong (
     let (base_name, undername) = split_primary_name name in
     require (base_name \<noteq> [] \<and> length base_name \<le> MAX_BASE_NAME_LENGTH) CoreInvalidNameFormat (
     require (is_valid_name_segment base_name) CoreInvalidNameFormat (
     require (length base_name \<noteq> 43) CoreInvalidNameFormat (
     case undername of
       None \<Rightarrow> Inr ()
     | Some un \<Rightarrow>
         require (un \<noteq> [] \<and> length un \<le> MAX_UNDERNAME_LENGTH) CoreInvalidNameFormat (
         require (is_valid_name_segment un) CoreInvalidNameFormat (Inr ())))))))"

section \<open>Raw accounts\<close>

text \<open>
  An \<open>AccountInfo\<close>: an address nobody created an account at has no data and belongs to the system
  program, whose id is zero.
\<close>

record account_view =
  av_key :: pubkey
  av_owner :: pubkey
  av_data :: "u8 list"

definition address_of :: "core_env \<Rightarrow> core_pda \<Rightarrow> pubkey" where
  "address_of env p = (case p of ForeignAccount k \<Rightarrow> k | _ \<Rightarrow> pda_key env p)"

definition account_at :: "core_env \<Rightarrow> pubkey \<Rightarrow> account_view" where
  "account_at env k =
     (case core_accounts env k of
        None \<Rightarrow> \<lparr>av_key = k, av_owner = 0, av_data = []\<rparr>
      | Some a \<Rightarrow> \<lparr>av_key = k, av_owner = ra_owner a, av_data = ra_data a\<rparr>)"

definition view_of :: "core_env \<Rightarrow> core_pda \<Rightarrow> account_view" where
  "view_of env p = account_at env (address_of env p)"

lemma av_key_account_at [simp]: "av_key (account_at env k) = k"
  by (simp add: account_at_def split: option.splits)

lemma view_of_at: "av_key (view_of env p) = k \<Longrightarrow> view_of env p = account_at env k"
  by (simp add: view_of_def)

text \<open>\<open>hash(b"account:<Name>")[..8]\<close>, the discriminator Anchor writes first.\<close>

definition discriminator :: "core_env \<Rightarrow> string \<Rightarrow> u8 list" where
  "discriminator env account_name = take 8 (key_bytes (core_sha256 env (''account:'' @ account_name)))"

definition arns_record_address :: "core_env \<Rightarrow> pubkey \<Rightarrow> string \<Rightarrow> pubkey" where
  "arns_record_address env arns_program_id base_name =
     find_program_address env
       [text_bytes ''arns_record'', key_bytes (core_sha256 env base_name)] arns_program_id"

definition demand_factor_address :: "core_env \<Rightarrow> pubkey \<Rightarrow> pubkey" where
  "demand_factor_address env arns_program_id =
     find_program_address env [text_bytes ''demand_factor''] arns_program_id"

definition ant_record_address :: "core_env \<Rightarrow> pubkey \<Rightarrow> pubkey \<Rightarrow> string \<Rightarrow> pubkey" where
  "ant_record_address env ant_program ant_mint undername =
     find_program_address env
       [text_bytes ''ant_record'', key_bytes ant_mint,
        key_bytes (core_sha256 env (core_lowercase env undername))] ant_program"

definition ant_config_address :: "core_env \<Rightarrow> pubkey \<Rightarrow> pubkey \<Rightarrow> pubkey" where
  "ant_config_address env ant_program ant_mint =
     find_program_address env [text_bytes ''ant_config'', key_bytes ant_mint] ant_program"

section \<open>The ArnsRecord and the DemandFactor of ario-arns\<close>

definition verify_arns_record_active :: "account_view \<Rightarrow> i64 \<Rightarrow> unit core_result" where
  "verify_arns_record_active info current_timestamp =
     (let data = av_data info; purchase_type_offset = 8 + 32 + 32 + 32 in
      if length data > purchase_type_offset \<and> data ! purchase_type_offset = 0 then
        let end_ts_offset = purchase_type_offset + 1 + 8 in
        if length data \<ge> end_ts_offset + 1 + 8 \<and> data ! end_ts_offset = 1 then
          let end_ts = as_i64 (of_nat (le_nat_at data (end_ts_offset + 1) 8));
              grace_end = (case checked_add_i64 end_ts LEASE_GRACE_PERIOD of
                             Some t \<Rightarrow> t | None \<Rightarrow> 2 ^ 63 - 1)
          in require (grace_end \<ge> current_timestamp) ArnsRecordNotFound (Inr ())
        else Inr ()
      else Inr ())"

definition validate_arns_record_exists ::
  "core_env \<Rightarrow> account_view \<Rightarrow> pubkey \<Rightarrow> string \<Rightarrow> i64 \<Rightarrow> unit core_result" where
  "validate_arns_record_exists env info arns_program_id base_name current_timestamp =
     require (av_owner info = arns_program_id) CoreInvalidAccountState (
     require (av_key info = arns_record_address env arns_program_id base_name) CoreInvalidAccountState (
     require (av_data info \<noteq> []) ArnsRecordNotFound (
     require (length (av_data info) \<ge> 8) CoreInvalidAccountState (
     require (take 8 (av_data info) = discriminator env ''ArnsRecord'') CoreInvalidAccountState (
     verify_arns_record_active info current_timestamp)))))"

definition read_arns_purchase_type :: "account_view \<Rightarrow> u8 core_result" where
  "read_arns_purchase_type info =
     (let purchase_type_offset = 8 + 32 + 32 + 32 in
      require (length (av_data info) > purchase_type_offset) CoreInvalidAccountState
        (Inr (av_data info ! purchase_type_offset)))"

definition primary_name_base_fee :: "account_view \<Rightarrow> u64 core_result" where
  "primary_name_base_fee info =
     and_then (read_arns_purchase_type info) (\<lambda>purchase_type.
     if purchase_type = 0 then Inr PRIMARY_NAME_REQUEST_BASE_FEE_LEASE
     else if purchase_type = 1 then Inr PRIMARY_NAME_REQUEST_BASE_FEE_PERMABUY
     else Inl CoreInvalidAccountState)"

definition read_demand_factor :: "core_env \<Rightarrow> account_view \<Rightarrow> pubkey \<Rightarrow> u64 core_result" where
  "read_demand_factor env info arns_program_id =
     require (av_owner info = arns_program_id) CoreInvalidAccountState (
     require (av_key info = demand_factor_address env arns_program_id) CoreInvalidAccountState (
     require (length (av_data info) \<ge> 16) CoreInvalidAccountState (
     require (take 8 (av_data info) = discriminator env ''DemandFactor'') CoreInvalidAccountState (
     Inr (of_nat (le_nat_at (av_data info) 8 8))))))"

text \<open>The ANT of a record, as the three handlers that need it read it.\<close>

definition read_arns_record_ant :: "core_env \<Rightarrow> account_view \<Rightarrow> pubkey core_result" where
  "read_arns_record_ant env info =
     (let ant_offset = 8 + 32 + 32 in
      require (length (av_data info) \<ge> ant_offset + 32) CoreInvalidAccountState (
      require (take 8 (av_data info) = discriminator env ''ArnsRecord'') CoreInvalidAccountState (
      Inr (key_at (av_data info) ant_offset))))"

section \<open>The AntRecord and the AntConfig of ario-ant\<close>

text \<open>
  Lengths are \<open>u32\<close> values, so the \<open>usize\<close> sums of the source stay far below \<open>2^64\<close> and its
  checked additions never fail; offsets are natural numbers here.
\<close>

definition skip_borsh_string :: "u8 list \<Rightarrow> nat \<Rightarrow> nat core_result" where
  "skip_borsh_string data offset =
     require (length data \<ge> offset + 4) CoreInvalidAccountState
       (Inr (offset + 4 + le_nat_at data offset 4))"

fun skip_borsh_strings :: "u8 list \<Rightarrow> nat \<Rightarrow> nat \<Rightarrow> nat core_result" where
  "skip_borsh_strings data 0 offset = Inr offset"
| "skip_borsh_strings data (Suc n) offset =
     and_then (skip_borsh_string data offset) (\<lambda>next_offset. skip_borsh_strings data n next_offset)"

definition read_ant_config_last_known_owner ::
  "core_env \<Rightarrow> account_view \<Rightarrow> pubkey \<Rightarrow> pubkey \<Rightarrow> pubkey core_result" where
  "read_ant_config_last_known_owner env info ant_mint ant_program =
     require (ant_program = ARIO_ANT_ID) CoreInvalidAccountState (
     require (av_owner info = ant_program) CoreInvalidAccountState (
     require (av_key info = ant_config_address env ant_program ant_mint) CoreInvalidAccountState (
     let data = av_data info in
     require (data \<noteq> []) CoreInvalidAccountState (
     require (length data \<ge> 8) CoreInvalidAccountState (
     require (take 8 data = discriminator env ''AntConfig'') CoreInvalidAccountState (
     and_then (skip_borsh_strings data 4 40) (\<lambda>offset.
     require (length data \<ge> offset + 4) CoreInvalidAccountState (
     and_then (skip_borsh_strings data (le_nat_at data offset 4) (offset + 4)) (\<lambda>owner_offset.
     require (length data \<ge> owner_offset + 32) CoreInvalidAccountState (
     Inr (key_at data owner_offset)))))))))))"

text \<open>The explicit owner and the last reconciled owner of an \<open>AntRecord\<close>, from its bytes.\<close>

definition parse_ant_record :: "u8 list \<Rightarrow> (pubkey option \<times> pubkey) core_result" where
  "parse_ant_record data =
     and_then (skip_borsh_string data (8 + 32)) (\<lambda>target_offset.
     and_then (skip_borsh_string data target_offset) (\<lambda>protocol_offset.
     let priority_offset = protocol_offset + 5 in
     require (length data > priority_offset) CoreInvalidAccountState (
     let owner_offset = priority_offset + (if data ! priority_offset = 0 then 1 else 5) in
     require (length data > owner_offset) CoreInvalidAccountState (
     and_then (if data ! owner_offset = 0 then Inr (None, 1)
               else require (length data \<ge> owner_offset + 1 + 32) CoreInvalidAccountState
                      (Inr (Some (key_at data (owner_offset + 1)), 33)))
       (\<lambda>(explicit_owner, owner_size).
     let lro_offset = owner_offset + owner_size in
     require (length data \<ge> lro_offset + 32) CoreInvalidAccountState (
     Inr (explicit_owner, key_at data lro_offset)))))))"

text \<open>
  A record last reconciled under another owner than the ANT's current one is stale: its delegate
  is ignored.
\<close>

definition effective_owner :: "pubkey option \<Rightarrow> pubkey \<Rightarrow> pubkey \<Rightarrow> pubkey" where
  "effective_owner explicit_owner last_reconciled_owner last_known_owner =
     (if last_reconciled_owner \<noteq> last_known_owner then last_known_owner
      else (case explicit_owner of None \<Rightarrow> last_known_owner | Some o1 \<Rightarrow> o1))"

definition read_ant_record_owner ::
  "core_env \<Rightarrow> account_view \<Rightarrow> account_view \<Rightarrow> pubkey \<Rightarrow> string \<Rightarrow> pubkey \<Rightarrow> pubkey core_result" where
  "read_ant_record_owner env record_info config_info ant_mint undername ant_program =
     require (ant_program = ARIO_ANT_ID) CoreInvalidAccountState (
     require (av_owner record_info = ant_program) CoreInvalidAccountState (
     require (av_key record_info = ant_record_address env ant_program ant_mint undername) CoreInvalidAccountState (
     let data = av_data record_info in
     require (data \<noteq> []) CoreInvalidAccountState (
     require (length data \<ge> 8) CoreInvalidAccountState (
     require (take 8 data = discriminator env ''AntRecord'') CoreInvalidAccountState (
     and_then (parse_ant_record data) (\<lambda>(explicit_owner, last_reconciled_owner).
     and_then (read_ant_config_last_known_owner env config_info ant_mint ant_program) (\<lambda>last_known_owner.
     Inr (effective_owner explicit_owner last_reconciled_owner last_known_owner)))))))))"

section \<open>The fee\<close>

definition primary_name_fee :: "u64 \<Rightarrow> u64 \<Rightarrow> u64 core_result" where
  "primary_name_fee base_fee demand_factor =
     ok_or (checked_mul (as_u128 base_fee) (as_u128 demand_factor)) CoreArithmeticOverflow (\<lambda>product.
     ok_or (checked_div product 1000000) CoreArithmeticOverflow (\<lambda>quotient.
     ok_or (u64_try_from quotient) CoreArithmeticOverflow Inr))"

end
