(* ===== verification/Core_Names.thy ===== *)
theory Core_Names
  imports Core_Records Arns_From_Stake
begin

text \<open>
  Primary names (\<open>instructions/primary_name.rs\<close>): a request that the name's owner approves, the
  one-step variant for the owner itself, both also paid from a funding plan, and the two removals.
  The forward account is keyed by the wallet, the reverse account by the hash of the name.
\<close>

section \<open>Shared steps\<close>

text \<open>The account at a position of \<open>remaining_accounts\<close>; the handlers check the length first.\<close>

definition nth_view :: "core_env \<Rightarrow> core_pda list \<Rightarrow> nat \<Rightarrow> account_view" where
  "nth_view env remaining i = view_of env (remaining ! i)"

definition base_name_of :: "core_env \<Rightarrow> string \<Rightarrow> string" where
  "base_name_of env name = fst (split_primary_name (core_lowercase env name))"

definition undername_of :: "core_env \<Rightarrow> string \<Rightarrow> string" where
  "undername_of env name =
     (case snd (split_primary_name (core_lowercase env name)) of None \<Rightarrow> ''@'' | Some un \<Rightarrow> un)"

definition open_request ::
  "core_env \<Rightarrow> pubkey \<Rightarrow> string \<Rightarrow> ario_config \<Rightarrow> core_state \<Rightarrow> core_state core_result" where
  [core_bodies]: "open_request env initiator name c s =
     ok_or (checked_add_i64 (now env) (cc_primary_name_request_expiry c)) CoreArithmeticOverflow (\<lambda>expires_at.
     Inr (s\<lparr>name_requests := (name_requests s)(initiator \<mapsto>
            \<lparr>rq_initiator = initiator, rq_name = core_lowercase env name, rq_created_at = now env,
             rq_expires_at = expires_at, rq_bump = pda_bump env (PrimaryNameRequestPda initiator),
             rq_version = V1_0_0\<rparr>)\<rparr>))"

text \<open>
  Writing the forward and the reverse account, both \<open>init_if_needed\<close>: a fresh one has a zero owner.
\<close>

definition set_primary_name ::
  "core_env \<Rightarrow> pubkey \<Rightarrow> string \<Rightarrow> name_hash \<Rightarrow> core_state \<Rightarrow> core_state core_result" where
  "set_primary_name env owner name h s =
     require (case primary_names s owner of
                None \<Rightarrow> True | Some p \<Rightarrow> \<not> (pn_owner p \<noteq> 0 \<and> pn_name p \<noteq> name))
       MustRemoveExistingPrimaryName (
     require (case reverse_names s h of
                None \<Rightarrow> True | Some r \<Rightarrow> \<not> (rv_owner r \<noteq> 0 \<and> rv_owner r \<noteq> owner))
       PrimaryNameAlreadySet (
     Inr (s\<lparr>primary_names := (primary_names s)(owner \<mapsto>
              \<lparr>pn_owner = owner, pn_name = name, pn_set_at = now env,
               pn_bump = pda_bump env (PrimaryNamePda owner), pn_version = V1_0_0\<rparr>),
            reverse_names := (reverse_names s)(h \<mapsto>
              \<lparr>rv_name = name, rv_owner = owner,
               rv_bump = pda_bump env (PrimaryNameReversePda h), rv_version = V1_0_0\<rparr>)\<rparr>)))"

text \<open>The fee of a request, from the name's record and the demand factor.\<close>

definition quote_primary_name ::
  "core_env \<Rightarrow> ario_config \<Rightarrow> account_view \<Rightarrow> account_view \<Rightarrow> (u64 \<Rightarrow> 'a core_result) \<Rightarrow> 'a core_result" where
  [core_bodies]: "quote_primary_name env c record_info demand_info k =
     and_then (read_demand_factor env demand_info (cc_arns_program c)) (\<lambda>demand_factor.
     and_then (primary_name_base_fee record_info) (\<lambda>base_fee.
     and_then (primary_name_fee base_fee demand_factor) k))"

definition pay_from_wallet ::
  "core_env \<Rightarrow> pubkey \<Rightarrow> pubkey \<Rightarrow> pubkey \<Rightarrow> u64 \<Rightarrow> core_state \<Rightarrow> core_state core_result" where
  [core_bodies]: "pay_from_wallet env initiator initiator_ta protocol_ta fee s =
     (if fee > 0 then core_transfer env initiator_ta protocol_ta initiator fee s else Inr s)"

text \<open>The funding plan of an instruction and the accounts \<open>ario-gar\<close> validates.\<close>

record core_plan =
  cp_sources :: "funding_source_spec list"
  cp_validation_account_count :: u8
  cp_residue_vault_count :: u8
  cp_stake_ta :: pubkey
  cp_payer_ta :: "pubkey option"

fun core_gar_accounts :: "core_pda list \<Rightarrow> gar_pda list option" where
  "core_gar_accounts [] = Some []"
| "core_gar_accounts (CoreGarAccount p # infos) = map_option (Cons p) (core_gar_accounts infos)"
| "core_gar_accounts (_ # infos) = None"

definition pay_from_plan ::
  "core_env \<Rightarrow> core_pda list \<Rightarrow> core_plan \<Rightarrow> pubkey \<Rightarrow> pubkey \<Rightarrow> u64 \<Rightarrow> core_state \<Rightarrow> core_state core_result" where
  [core_bodies]: "pay_from_plan env funding_source_accounts plan initiator protocol_ta fee s =
     (if fee > 0 \<or> cp_sources plan \<noteq> [] then
        ok_or (core_gar_accounts funding_source_accounts) (CoreGarFailure ConstraintViolated) (\<lambda>infos.
        core_gar_cpi (pay_from_funding_plan (core_gar_view env) infos (cp_stake_ta plan) protocol_ta
          (cp_payer_ta plan) initiator (cp_sources plan) fee (cp_residue_vault_count plan) (core_gar s)) s)
      else Inr s)"

definition validation_accounts :: "core_plan \<Rightarrow> core_pda list \<Rightarrow> core_pda list" where
  "validation_accounts plan remaining = take (unat (cp_validation_account_count plan)) remaining"

definition funding_accounts :: "core_plan \<Rightarrow> core_pda list \<Rightarrow> core_pda list" where
  "funding_accounts plan remaining = drop (unat (cp_validation_account_count plan)) remaining"

section \<open>Requesting a name\<close>

definition RequestAccounts ::
  "core_env \<Rightarrow> pubkey \<Rightarrow> core_state \<Rightarrow> (ario_config \<Rightarrow> 'a core_result) \<Rightarrow> 'a core_result" where
  [core_accounts_defs]: "RequestAccounts env initiator s k =
     ok_or (core_config_acc s) CoreAccountMissing (\<lambda>c.
     require (name_requests s initiator = None) CoreAccountExists (k c))"

definition request_primary_name ::
  "core_env \<Rightarrow> pubkey \<Rightarrow> pubkey \<Rightarrow> pubkey \<Rightarrow> core_pda list \<Rightarrow> string \<Rightarrow> core_state \<Rightarrow> core_state core_result" where
  [core_handlers]: "request_primary_name env initiator initiator_ta protocol_ta remaining name s =
     RequestAccounts env initiator s (\<lambda>c.
     own_token_account env c initiator_ta initiator (
     core_treasury_account env c protocol_ta (
     and_then (validate_primary_name_format name) (\<lambda>_.
     require (remaining \<noteq> []) CoreInvalidParameter (
     and_then (validate_arns_record_exists env (nth_view env remaining 0) (cc_arns_program c)
                (base_name_of env name) (now env)) (\<lambda>_.
     require (length remaining > 1) CoreInvalidParameter (
     quote_primary_name env c (nth_view env remaining 0) (nth_view env remaining 1) (\<lambda>fee.
     and_then (pay_from_wallet env initiator initiator_ta protocol_ta fee s) (\<lambda>s1.
     open_request env initiator name c s1)))))))))"

definition request_primary_name_from_funding_plan ::
  "core_env \<Rightarrow> pubkey \<Rightarrow> pubkey \<Rightarrow> core_pda list \<Rightarrow> string \<Rightarrow> core_plan \<Rightarrow> core_state \<Rightarrow> core_state core_result" where
  [core_handlers]: "request_primary_name_from_funding_plan env initiator protocol_ta remaining name plan s =
     RequestAccounts env initiator s (\<lambda>c.
     core_treasury_account env c protocol_ta (
     and_then (validate_primary_name_format name) (\<lambda>_.
     require (unat (cp_validation_account_count plan) \<le> length remaining) CoreInvalidParameter (
     let infos = validation_accounts plan remaining in
     require (length infos \<ge> 2) CoreInvalidParameter (
     and_then (validate_arns_record_exists env (nth_view env infos 0) (cc_arns_program c)
                (base_name_of env name) (now env)) (\<lambda>_.
     quote_primary_name env c (nth_view env infos 0) (nth_view env infos 1) (\<lambda>fee.
     and_then (pay_from_plan env (funding_accounts plan remaining) plan initiator protocol_ta fee s) (\<lambda>s1.
     open_request env initiator name c s1))))))))"

section \<open>Setting a name\<close>

text \<open>
  The one-step variant: the caller is the effective owner of the record that the name selects. In
  the funding-plan mode the accounts come first in the remaining ones.
\<close>

definition request_and_set_primary_name ::
  "core_env \<Rightarrow> pubkey \<Rightarrow> pubkey \<Rightarrow> pubkey \<Rightarrow> core_pda list \<Rightarrow> string \<Rightarrow> name_hash \<Rightarrow> pubkey
     \<Rightarrow> core_state \<Rightarrow> core_state core_result" where
  [core_handlers]: "request_and_set_primary_name env initiator initiator_ta protocol_ta remaining name
       reverse_lookup_hash ant_program_id s =
     ok_or (core_config_acc s) CoreAccountMissing (\<lambda>c.
     own_token_account env c initiator_ta initiator (
     core_treasury_account env c protocol_ta (
     and_then (validate_primary_name_format name) (\<lambda>_.
     require (reverse_lookup_hash = core_sha256 env (core_lowercase env name)) CoreInvalidParameter (
     require (remaining \<noteq> []) CoreInvalidParameter (
     and_then (validate_arns_record_exists env (nth_view env remaining 0) (cc_arns_program c)
                (base_name_of env name) (now env)) (\<lambda>_.
     and_then (read_arns_record_ant env (nth_view env remaining 0)) (\<lambda>ant.
     require (length remaining > 3) UndernameRecordOwnerRequired (
     and_then (read_ant_record_owner env (nth_view env remaining 2) (nth_view env remaining 3) ant
                (undername_of env name) ant_program_id) (\<lambda>record_owner.
     require (record_owner = initiator) CoreNotAntHolder (
     require (length remaining > 1) CoreInvalidParameter (
     quote_primary_name env c (nth_view env remaining 0) (nth_view env remaining 1) (\<lambda>fee.
     and_then (pay_from_wallet env initiator initiator_ta protocol_ta fee s) (\<lambda>s1.
     set_primary_name env initiator (core_lowercase env name) reverse_lookup_hash s1))))))))))))))"

definition request_and_set_primary_name_from_funding_plan ::
  "core_env \<Rightarrow> pubkey \<Rightarrow> pubkey \<Rightarrow> core_pda list \<Rightarrow> string \<Rightarrow> name_hash \<Rightarrow> core_plan \<Rightarrow> pubkey
     \<Rightarrow> core_state \<Rightarrow> core_state core_result" where
  [core_handlers]: "request_and_set_primary_name_from_funding_plan env initiator protocol_ta remaining name
       reverse_lookup_hash plan ant_program_id s =
     ok_or (core_config_acc s) CoreAccountMissing (\<lambda>c.
     core_treasury_account env c protocol_ta (
     and_then (validate_primary_name_format name) (\<lambda>_.
     require (reverse_lookup_hash = core_sha256 env (core_lowercase env name)) CoreInvalidParameter (
     require (unat (cp_validation_account_count plan) \<le> length remaining) CoreInvalidParameter (
     let infos = validation_accounts plan remaining in
     require (length infos \<ge> 4) CoreInvalidParameter (
     and_then (validate_arns_record_exists env (nth_view env infos 0) (cc_arns_program c)
                (base_name_of env name) (now env)) (\<lambda>_.
     and_then (read_arns_record_ant env (nth_view env infos 0)) (\<lambda>ant.
     and_then (read_ant_record_owner env (nth_view env infos 2) (nth_view env infos 3) ant
                (undername_of env name) ant_program_id) (\<lambda>record_owner.
     require (record_owner = initiator) CoreNotAntHolder (
     quote_primary_name env c (nth_view env infos 0) (nth_view env infos 1) (\<lambda>fee.
     and_then (pay_from_plan env (funding_accounts plan remaining) plan initiator protocol_ta fee s) (\<lambda>s1.
     set_primary_name env initiator (core_lowercase env name) reverse_lookup_hash s1))))))))))))"

text \<open>The checks that approval and the base-name removal share: the record of the name's base.\<close>

definition controlling_ant ::
  "core_env \<Rightarrow> ario_config \<Rightarrow> core_pda list \<Rightarrow> string \<Rightarrow> (pubkey \<Rightarrow> 'a core_result) \<Rightarrow> 'a core_result" where
  [core_bodies]: "controlling_ant env c remaining name k =
     require (remaining \<noteq> []) CoreInvalidParameter (
     let info = nth_view env remaining 0 in
     require (av_owner info = cc_arns_program c) CoreInvalidAccountState (
     require (av_key info = arns_record_address env (cc_arns_program c) (base_name_of env name))
       CoreInvalidAccountState (
     and_then (verify_arns_record_active info (now env)) (\<lambda>_.
     and_then (read_arns_record_ant env info) (\<lambda>ant.
     require (length remaining > 2) UndernameRecordOwnerRequired (k ant))))))"

definition approve_primary_name ::
  "core_env \<Rightarrow> pubkey \<Rightarrow> pubkey \<Rightarrow> core_pda list \<Rightarrow> name_hash \<Rightarrow> pubkey \<Rightarrow> core_state \<Rightarrow> core_state core_result" where
  [core_handlers]: "approve_primary_name env initiator name_owner remaining reverse_lookup_hash ant_program_id s =
     ok_or (core_config_acc s) CoreAccountMissing (\<lambda>c.
     ok_or (name_requests s initiator) CoreAccountMissing (\<lambda>rq.
     require (initiator = rq_initiator rq) CoreInvalidParameter (
     require (reverse_lookup_hash = core_sha256 env (rq_name rq)) CoreInvalidParameter (
     require (\<not> is_expired rq (now env)) PrimaryNameRequestExpired (
     controlling_ant env c remaining (rq_name rq) (\<lambda>ant.
     and_then (read_ant_record_owner env (nth_view env remaining 1) (nth_view env remaining 2) ant
                (undername_of env (rq_name rq)) ant_program_id) (\<lambda>record_owner.
     require (record_owner = name_owner) CoreNotAntHolder (
     and_then (set_primary_name env (rq_initiator rq) (rq_name rq) reverse_lookup_hash s) (\<lambda>s1.
     Inr (s1\<lparr>name_requests := (name_requests s1)(initiator := None)\<rparr>))))))))))"

definition close_expired_request :: "core_env \<Rightarrow> pubkey \<Rightarrow> core_state \<Rightarrow> core_state core_result" where
  [core_handlers]: "close_expired_request env initiator s =
     ok_or (name_requests s initiator) CoreAccountMissing (\<lambda>rq.
     require (initiator = rq_initiator rq) CoreInvalidParameter (
     require (is_expired rq (now env)) PrimaryNameRequestNotExpired (
     Inr (s\<lparr>name_requests := (name_requests s)(initiator := None)\<rparr>))))"

section \<open>Removing a name\<close>

text \<open>Both removals close the forward account and the reverse account at the given hash.\<close>

definition drop_primary_name :: "pubkey \<Rightarrow> name_hash \<Rightarrow> core_state \<Rightarrow> core_state" where
  "drop_primary_name owner h s =
     s\<lparr>primary_names := (primary_names s)(owner := None),
       reverse_names := (reverse_names s)(h := None)\<rparr>"

definition remove_primary_name ::
  "core_env \<Rightarrow> pubkey \<Rightarrow> name_hash \<Rightarrow> core_state \<Rightarrow> core_state core_result" where
  [core_handlers]: "remove_primary_name env owner reverse_lookup_hash s =
     ok_or (primary_names s owner) CoreAccountMissing (\<lambda>p.
     require (pn_owner p = owner) CoreInvalidOwner (
     ok_or (reverse_names s reverse_lookup_hash) CoreAccountMissing (\<lambda>r.
     require (reverse_lookup_hash = core_sha256 env (core_lowercase env (pn_name p))) CoreInvalidParameter (
     Inr (drop_primary_name owner reverse_lookup_hash s)))))"

definition remove_primary_name_for_base_name ::
  "core_env \<Rightarrow> pubkey \<Rightarrow> pubkey \<Rightarrow> core_pda list \<Rightarrow> name_hash \<Rightarrow> pubkey \<Rightarrow> core_state \<Rightarrow> core_state core_result" where
  [core_handlers]: "remove_primary_name_for_base_name env original_owner name_owner remaining
       reverse_lookup_hash ant_program_id s =
     ok_or (core_config_acc s) CoreAccountMissing (\<lambda>c.
     ok_or (primary_names s original_owner) CoreAccountMissing (\<lambda>p.
     ok_or (reverse_names s reverse_lookup_hash) CoreAccountMissing (\<lambda>r.
     require (original_owner = pn_owner p) CoreInvalidParameter (
     require (reverse_lookup_hash = core_sha256 env (core_lowercase env (pn_name p))) CoreInvalidParameter (
     controlling_ant env c remaining (pn_name p) (\<lambda>ant.
     and_then (read_ant_record_owner env (nth_view env remaining 1) (nth_view env remaining 2) ant
                ''@'' ant_program_id) (\<lambda>record_owner.
     require (record_owner = name_owner) CoreNotAntHolder (
     Inr (drop_primary_name original_owner reverse_lookup_hash s)))))))))"

end
