(* ===== verification/Core_Vault.thy ===== *)
theory Core_Vault
  imports Core_State
begin

text \<open>
  Time-locked vaults and the token instructions of \<open>ario-core\<close>: \<open>instructions/vault.rs\<close> and
  \<open>instructions/token.rs\<close>. The tokens of a vault sit in a token account owned by the vault's
  address; the configuration counts what is locked. Releasing or revoking sweeps the live balance
  of the token account that the transaction names and closes it, while the count moves by the
  vault's recorded amount.
\<close>

section \<open>Shared steps\<close>

definition lock_supply :: "u64 \<Rightarrow> ario_config \<Rightarrow> ario_config core_result" where
  "lock_supply amount c =
     ok_or (checked_add (cc_locked_supply c) amount) CoreArithmeticOverflow (\<lambda>locked.
     ok_or (checked_sub (cc_circulating_supply c) amount) CoreArithmeticUnderflow (\<lambda>circulating.
     Inr (c\<lparr>cc_locked_supply := locked, cc_circulating_supply := circulating\<rparr>)))"

definition unlock_supply :: "u64 \<Rightarrow> ario_config \<Rightarrow> ario_config core_result" where
  "unlock_supply amount c =
     ok_or (checked_sub (cc_locked_supply c) amount) CoreArithmeticUnderflow (\<lambda>locked.
     ok_or (checked_add (cc_circulating_supply c) amount) CoreArithmeticOverflow (\<lambda>circulating.
     Inr (c\<lparr>cc_locked_supply := locked, cc_circulating_supply := circulating\<rparr>)))"

definition check_lock :: "ario_config \<Rightarrow> u64 \<Rightarrow> i64 \<Rightarrow> 'a core_result \<Rightarrow> 'a core_result" where
  [core_bodies]: "check_lock c amount lock_duration_seconds k =
     require (lock_duration_seconds \<ge> cc_min_vault_duration c) LockDurationTooShort (
     require (lock_duration_seconds \<le> cc_max_vault_duration c) LockDurationTooLong (
     require (amount > 0) CoreInvalidAmount (
     require (amount \<ge> MIN_VAULT_SIZE) VaultBelowMinimum k)))"

text \<open>The token account of a vault is any account of the mint that the vault's address owns.\<close>

definition vault_token_account ::
  "core_env \<Rightarrow> ario_config \<Rightarrow> pubkey \<times> u64 \<Rightarrow> pubkey \<Rightarrow> (token_account \<Rightarrow> 'a core_result) \<Rightarrow> 'a core_result" where
  [core_accounts_defs]: "vault_token_account env c vid key k =
     ok_or (token_accounts env key) CoreAccountMissing (\<lambda>ta.
     require (ta_owner ta = pda_key env (VaultPda (fst vid) (snd vid))) CoreInvalidAccountState (
     require (ta_mint ta = cc_mint c) CoreConstraint (k ta)))"

text \<open>\<open>init_if_needed\<close>: a fresh account is zeroed.\<close>

definition load_vault_counter :: "core_state \<Rightarrow> pubkey \<Rightarrow> vault_counter" where
  "load_vault_counter s owner =
     (case vault_counters s owner of
        Some counter \<Rightarrow> counter
      | None \<Rightarrow> \<lparr>vc_owner = 0, vc_next_id = 0, vc_bump = 0, vc_version = SchemaVersion 0 0 0\<rparr>)"

text \<open>What follows the transfer into a new vault.\<close>

definition open_vault ::
  "core_env \<Rightarrow> pubkey \<Rightarrow> u64 \<Rightarrow> i64 \<Rightarrow> pubkey option \<Rightarrow> bool \<Rightarrow> ario_config \<Rightarrow> core_state \<Rightarrow> core_state core_result" where
  "open_vault env owner amount lock_duration_seconds controller revocable c s =
     (let counter = load_vault_counter s owner; vid = vc_next_id counter in
      ok_or (checked_add_i64 (now env) lock_duration_seconds) CoreArithmeticOverflow (\<lambda>end_ts.
      ok_or (checked_add vid 1) CoreArithmeticOverflow (\<lambda>next_id.
      and_then (lock_supply amount c) (\<lambda>c1.
      Inr (s\<lparr>core_config_acc := Some c1,
             vault_counters := (vault_counters s)(owner \<mapsto>
               \<lparr>vc_owner = owner, vc_next_id = next_id, vc_bump = pda_bump env (VaultCounterPda owner),
                vc_version = V1_0_0\<rparr>),
             vaults := (vaults s)((owner, vid) \<mapsto>
               \<lparr>va_owner = owner, va_vault_id = vid, va_amount = amount, va_start_timestamp = now env,
                va_end_timestamp = end_ts, va_controller = controller, va_revocable = revocable,
                va_bump = pda_bump env (VaultPda owner vid), va_version = V1_0_0\<rparr>)\<rparr>)))))"

text \<open>Both account contexts that create a vault: the counter's next address must be free.\<close>

definition NewVaultAccounts ::
  "core_env \<Rightarrow> pubkey \<Rightarrow> pubkey \<Rightarrow> pubkey \<Rightarrow> pubkey \<Rightarrow> core_state \<Rightarrow> (ario_config \<Rightarrow> 'a core_result) \<Rightarrow> 'a core_result" where
  [core_accounts_defs]: "NewVaultAccounts env owner payer payer_ta vault_ta s k =
     ok_or (core_config_acc s) CoreAccountMissing (\<lambda>c.
     let vid = vc_next_id (load_vault_counter s owner) in
     require (vaults s (owner, vid) = None) CoreAccountExists (
     own_token_account env c payer_ta payer (
     vault_token_account env c (owner, vid) vault_ta (\<lambda>_. k c))))"

text \<open>An existing vault is found at its own address.\<close>

definition existing_vault ::
  "pubkey \<times> u64 \<Rightarrow> core_state \<Rightarrow> (vault \<Rightarrow> 'a core_result) \<Rightarrow> 'a core_result" where
  [core_accounts_defs]: "existing_vault vid s k =
     ok_or (vaults s vid) CoreAccountMissing (\<lambda>v.
     require (vid = (va_owner v, va_vault_id v)) CoreConstraint (k v))"

section \<open>vault.rs\<close>

definition create_vault ::
  "core_env \<Rightarrow> pubkey \<Rightarrow> pubkey \<Rightarrow> pubkey \<Rightarrow> u64 \<Rightarrow> i64 \<Rightarrow> core_state \<Rightarrow> core_state core_result" where
  [core_handlers]: "create_vault env owner owner_ta vault_ta amount lock_duration_seconds s =
     NewVaultAccounts env owner owner owner_ta vault_ta s (\<lambda>c.
     check_lock c amount lock_duration_seconds (
     and_then (core_transfer env owner_ta vault_ta owner amount s) (\<lambda>s1.
     open_vault env owner amount lock_duration_seconds None False c s1)))"

definition vaulted_transfer ::
  "core_env \<Rightarrow> pubkey \<Rightarrow> pubkey \<Rightarrow> pubkey \<Rightarrow> pubkey \<Rightarrow> u64 \<Rightarrow> i64 \<Rightarrow> bool
     \<Rightarrow> core_state \<Rightarrow> core_state core_result" where
  [core_handlers]: "vaulted_transfer env sender recipient sender_ta vault_ta amount lock_duration_seconds revocable s =
     NewVaultAccounts env recipient sender sender_ta vault_ta s (\<lambda>c.
     check_lock c amount lock_duration_seconds (
     require (sender \<noteq> recipient) CoreSelfTransfer (
     and_then (core_transfer env sender_ta vault_ta sender amount s) (\<lambda>s1.
     open_vault env recipient amount lock_duration_seconds
       (if revocable then Some sender else None) revocable c s1))))"

text \<open>Sweeping the live balance and closing the token account, then the vault.\<close>

definition empty_vault ::
  "core_env \<Rightarrow> pubkey \<times> u64 \<Rightarrow> vault \<Rightarrow> pubkey \<Rightarrow> token_account \<Rightarrow> pubkey \<Rightarrow> ario_config
     \<Rightarrow> core_state \<Rightarrow> core_state core_result" where
  "empty_vault env vid v vault_ta ta dest_ta c s =
     (let authority = pda_key env (VaultPda (fst vid) (snd vid)) in
      and_then (core_transfer env vault_ta dest_ta authority (ta_amount ta) s) (\<lambda>s1.
      and_then (core_close_account env vault_ta authority s1) (\<lambda>s2.
      and_then (unlock_supply (va_amount v) c) (\<lambda>c1.
      Inr (s2\<lparr>core_config_acc := Some c1, vaults := (vaults s2)(vid := None)\<rparr>)))))"

definition revoke_vault ::
  "core_env \<Rightarrow> pubkey \<times> u64 \<Rightarrow> pubkey \<Rightarrow> pubkey \<Rightarrow> pubkey \<Rightarrow> core_state \<Rightarrow> core_state core_result" where
  [core_handlers]: "revoke_vault env vid controller controller_ta vault_ta s =
     ok_or (core_config_acc s) CoreAccountMissing (\<lambda>c.
     existing_vault vid s (\<lambda>v.
     require (va_revocable v) VaultNotRevocable (
     require (va_controller v = Some controller) NotVaultController (
     vault_token_account env c vid vault_ta (\<lambda>ta.
     ok_or (token_accounts env controller_ta) CoreAccountMissing (\<lambda>cta.
     require (ta_owner cta = controller) CoreInvalidOwner (
     require (ta_mint cta = cc_mint c) CoreConstraint (
     require (va_revocable v) VaultNotRevocable (
     require (va_controller v = Some controller) NotVaultController (
     require (\<not> is_unlocked v (now env)) VaultExpired (
     empty_vault env vid v vault_ta ta controller_ta c s)))))))))))"

definition extend_vault ::
  "core_env \<Rightarrow> pubkey \<times> u64 \<Rightarrow> pubkey \<Rightarrow> i64 \<Rightarrow> core_state \<Rightarrow> core_state core_result" where
  [core_handlers]: "extend_vault env vid owner additional_seconds s =
     ok_or (core_config_acc s) CoreAccountMissing (\<lambda>c.
     ok_or (vaults s vid) CoreAccountMissing (\<lambda>v.
     require (vid = (owner, va_vault_id v)) CoreConstraint (
     require (va_owner v = owner) CoreInvalidOwner (
     require (additional_seconds > 0) CoreInvalidParameter (
     require (now env \<le> va_end_timestamp v) VaultExpired (
     ok_or (checked_add_i64 (va_end_timestamp v) additional_seconds) CoreArithmeticOverflow (\<lambda>new_end.
     ok_or (checked_sub_i64 new_end (now env)) CoreArithmeticUnderflow (\<lambda>remaining_plus_extension.
     require (remaining_plus_extension \<le> cc_max_vault_duration c) LockDurationTooLong (
     Inr (s\<lparr>vaults := (vaults s)(vid \<mapsto> v\<lparr>va_end_timestamp := new_end\<rparr>)\<rparr>))))))))))"

definition increase_vault ::
  "core_env \<Rightarrow> pubkey \<times> u64 \<Rightarrow> pubkey \<Rightarrow> pubkey \<Rightarrow> pubkey \<Rightarrow> u64 \<Rightarrow> core_state \<Rightarrow> core_state core_result" where
  [core_handlers]: "increase_vault env vid owner owner_ta vault_ta amount s =
     ok_or (core_config_acc s) CoreAccountMissing (\<lambda>c.
     ok_or (vaults s vid) CoreAccountMissing (\<lambda>v.
     require (vid = (owner, va_vault_id v)) CoreConstraint (
     require (va_owner v = owner) CoreInvalidOwner (
     own_token_account env c owner_ta owner (
     vault_token_account env c vid vault_ta (\<lambda>_.
     require (amount > 0) CoreInvalidAmount (
     require (now env \<le> va_end_timestamp v) VaultExpired (
     and_then (core_transfer env owner_ta vault_ta owner amount s) (\<lambda>s1.
     ok_or (checked_add (va_amount v) amount) CoreArithmeticOverflow (\<lambda>new_balance.
     and_then (lock_supply amount c) (\<lambda>c1.
     Inr (s1\<lparr>core_config_acc := Some c1,
             vaults := (vaults s1)(vid \<mapsto> v\<lparr>va_amount := new_balance\<rparr>)\<rparr>))))))))))))"

definition release_vault ::
  "core_env \<Rightarrow> pubkey \<times> u64 \<Rightarrow> pubkey \<Rightarrow> pubkey \<Rightarrow> pubkey \<Rightarrow> core_state \<Rightarrow> core_state core_result" where
  [core_handlers]: "release_vault env vid owner owner_ta vault_ta s =
     ok_or (core_config_acc s) CoreAccountMissing (\<lambda>c.
     existing_vault vid s (\<lambda>v.
     vault_token_account env c vid vault_ta (\<lambda>ta.
     own_token_account env c owner_ta owner (
     require (owner = va_owner v) CoreInvalidOwner (
     require (is_unlocked v (now env)) VaultLocked (
     empty_vault env vid v vault_ta ta owner_ta c s))))))"

section \<open>token.rs\<close>

definition transfer_tokens ::
  "core_env \<Rightarrow> pubkey \<Rightarrow> pubkey \<Rightarrow> pubkey \<Rightarrow> u64 \<Rightarrow> core_state \<Rightarrow> core_state core_result" where
  [core_handlers]: "transfer_tokens env from_ta to_ta authority amount s =
     ok_or (token_accounts env from_ta) CoreAccountMissing (\<lambda>fta.
     ok_or (token_accounts env to_ta) CoreAccountMissing (\<lambda>tta.
     require (ta_owner fta = authority) CoreInvalidOwner (
     require (ta_mint fta = ta_mint tta) CoreInvalidAccountState (
     require (amount > 0) CoreInvalidAmount (
     require (from_ta \<noteq> to_ta) CoreSelfTransfer (
     core_transfer env from_ta to_ta authority amount s))))))"

end
