(* ===== verification/Core_Admin.thy ===== *)
theory Core_Admin
  imports Core_Names Core_Vault Gar_Distribution
begin

text \<open>
  Genesis and administration of \<open>ario-core\<close>: \<open>instructions/initialize.rs\<close>,
  \<open>instructions/admin.rs\<close> and the typed handlers of \<open>migration.rs\<close> (the distribution of one
  balance, the supply totals, the end of the migration).
\<close>

section \<open>initialize.rs\<close>

record core_initialize_params =
  ci_total_supply :: u64
  ci_authority :: pubkey
  ci_arns_program :: pubkey
  ci_treasury :: pubkey
  ci_migration_authority :: pubkey
  ci_gar_program :: pubkey

definition initialize_core ::
  "core_env \<Rightarrow> pubkey \<Rightarrow> pubkey \<Rightarrow> core_initialize_params \<Rightarrow> core_state \<Rightarrow> core_state core_result" where
  [core_handlers]: "initialize_core env payer mint params s =
     require (core_config_acc s = None) CoreAccountExists (
     require (core_upgrade_authority env = Some payer) CoreUnauthorized (
     Inr (s\<lparr>core_config_acc := Some
       \<lparr>cc_authority = ci_authority params, cc_mint = mint, cc_arns_program = ci_arns_program params,
        cc_treasury = ci_treasury params, cc_total_supply = ci_total_supply params,
        cc_protocol_balance = 0, cc_circulating_supply = ci_total_supply params,
        cc_locked_supply = 0, cc_min_vault_duration = DEFAULT_MIN_VAULT_DURATION,
        cc_max_vault_duration = DEFAULT_MAX_VAULT_DURATION,
        cc_primary_name_request_expiry = DEFAULT_PRIMARY_NAME_REQUEST_EXPIRY,
        cc_migration_active = True, cc_migration_authority = ci_migration_authority params,
        cc_bump = pda_bump env CoreConfigPda, cc_gar_program = ci_gar_program params,
        cc_version = V1_0_0\<rparr>\<rparr>)))"

section \<open>admin.rs\<close>

record update_config_params =
  uc_min_vault_duration :: "i64 option"
  uc_max_vault_duration :: "i64 option"
  uc_primary_name_request_expiry :: "i64 option"
  uc_new_authority :: "pubkey option"

definition set_when :: "'v option \<Rightarrow> ('v \<Rightarrow> 'c \<Rightarrow> 'c) \<Rightarrow> 'c \<Rightarrow> 'c" where
  "set_when v upd c = (case v of None \<Rightarrow> c | Some x \<Rightarrow> upd x c)"

definition update_core_config ::
  "pubkey \<Rightarrow> update_config_params \<Rightarrow> core_state \<Rightarrow> core_state core_result" where
  [core_handlers]: "update_core_config authority params s =
     ok_or (core_config_acc s) CoreAccountMissing (\<lambda>c.
     require (cc_authority c = authority) CoreUnauthorized (
     let c1 = set_when (uc_min_vault_duration params) (\<lambda>d. cc_min_vault_duration_update (\<lambda>_. d)) c;
         c2 = set_when (uc_max_vault_duration params) (\<lambda>d. cc_max_vault_duration_update (\<lambda>_. d)) c1;
         c3 = set_when (uc_primary_name_request_expiry params)
                (\<lambda>d. cc_primary_name_request_expiry_update (\<lambda>_. d)) c2 in
     require (uc_new_authority params \<noteq> Some 0) CoreInvalidParameter (
     let c4 = set_when (uc_new_authority params) (\<lambda>a. cc_authority_update (\<lambda>_. a)) c3 in
     require (cc_min_vault_duration c4 \<le> cc_max_vault_duration c4) CoreInvalidParameter (
     require (cc_min_vault_duration c4 \<ge> 0) CoreInvalidParameter (
     require (cc_primary_name_request_expiry c4 > 0) CoreInvalidParameter (
     require (cc_max_vault_duration c4 > 0) CoreInvalidParameter (
     Inr (s\<lparr>core_config_acc := Some c4\<rparr>))))))))"

definition core_transfer_authority ::
  "pubkey \<Rightarrow> pubkey \<Rightarrow> core_state \<Rightarrow> core_state core_result" where
  [core_handlers]: "core_transfer_authority authority new_authority s =
     ok_or (core_config_acc s) CoreAccountMissing (\<lambda>c.
     require (cc_authority c = authority) CoreUnauthorized (
     require (new_authority \<noteq> 0) CoreInvalidParameter (
     Inr (s\<lparr>core_config_acc := Some (c\<lparr>cc_authority := new_authority\<rparr>)\<rparr>))))"

definition admin_repair_config ::
  "core_env \<Rightarrow> pubkey \<Rightarrow> pubkey \<Rightarrow> pubkey \<Rightarrow> core_state \<Rightarrow> core_state core_result" where
  [core_handlers]: "admin_repair_config env authority new_mint new_treasury s =
     ok_or (core_config_acc s) CoreAccountMissing (\<lambda>c.
     require (cc_authority c = authority) CoreUnauthorized (
     require (cc_migration_active c) CoreMigrationInactive (
     require (now env < CORE_MIGRATION_DEADLINE) CoreMigrationExpired (
     Inr (s\<lparr>core_config_acc := Some (c\<lparr>cc_mint := new_mint, cc_treasury := new_treasury\<rparr>)\<rparr>)))))"

text \<open>
  The account is at its current size here; growing one of the earlier layout is not modelled.
\<close>

definition admin_set_gar_program ::
  "core_env \<Rightarrow> pubkey \<Rightarrow> pubkey \<Rightarrow> core_state \<Rightarrow> core_state core_result" where
  [core_handlers]: "admin_set_gar_program env authority new_gar_program s =
     require (now env < CORE_MIGRATION_DEADLINE) CoreMigrationExpired (
     ok_or (core_config_acc s) CoreUnauthorized (\<lambda>c.
     require (cc_authority c = authority) CoreUnauthorized (
     require (cc_migration_active c) CoreMigrationInactive (
     Inr (s\<lparr>core_config_acc := Some (c\<lparr>cc_gar_program := new_gar_program\<rparr>)\<rparr>)))))"

section \<open>migration.rs\<close>

text \<open>
  The recipient's token account is the associated one, created when it does not exist.
\<close>

definition import_balance ::
  "core_env \<Rightarrow> pubkey \<Rightarrow> pubkey \<Rightarrow> pubkey \<Rightarrow> pubkey \<Rightarrow> u64 \<Rightarrow> core_state \<Rightarrow> core_state core_result" where
  [core_handlers]: "import_balance env authority protocol_ta recipient_ta owner amount s =
     ok_or (core_config_acc s) CoreAccountMissing (\<lambda>c.
     require (cc_migration_active c) CoreMigrationInactive (
     require (cc_migration_authority c = authority) CoreUnauthorized (
     require (core_balances s owner = None) CoreAccountExists (
     ok_or (token_accounts env protocol_ta) CoreAccountMissing (\<lambda>ta.
     require (protocol_ta = cc_treasury c) CoreInvalidTreasury (
     require (ta_owner ta = pda_key env CoreConfigPda) CoreInvalidOwner (
     require (recipient_ta = associated_token env owner (cc_mint c)) CoreConstraint (
     require (case token_accounts env recipient_ta of None \<Rightarrow> True
              | Some rta \<Rightarrow> ta_owner rta = owner \<and> ta_mint rta = cc_mint c) CoreConstraint (
     require (now env < CORE_MIGRATION_DEADLINE) CoreMigrationExpired (
     let s1 = s\<lparr>core_balances := (core_balances s)(owner \<mapsto>
                \<lparr>cb_owner = owner, cb_amount = amount, cb_bump = pda_bump env (BalancePda owner),
                 cb_version = V1_0_0\<rparr>)\<rparr> in
     if owner \<noteq> cc_migration_authority c
     then core_transfer env protocol_ta recipient_ta (pda_key env CoreConfigPda) amount s1
     else Inr s1))))))))))"

definition finalize_core_migration :: "pubkey \<Rightarrow> core_state \<Rightarrow> core_state core_result" where
  [core_handlers]: "finalize_core_migration authority s =
     ok_or (core_config_acc s) CoreAccountMissing (\<lambda>c.
     require (cc_migration_active c) CoreMigrationAlreadyFinalized (
     require (cc_authority c = authority) CoreUnauthorized (
     Inr (s\<lparr>core_config_acc := Some (c\<lparr>cc_migration_active := False\<rparr>)\<rparr>))))"

definition finalize_supply ::
  "pubkey \<Rightarrow> u64 \<Rightarrow> u64 \<Rightarrow> u64 \<Rightarrow> u64 \<Rightarrow> core_state \<Rightarrow> core_state core_result" where
  [core_handlers]: "finalize_supply authority total_supply protocol_balance circulating_supply locked_supply s =
     ok_or (core_config_acc s) CoreAccountMissing (\<lambda>c.
     require (cc_migration_active c) CoreMigrationInactive (
     require (cc_authority c = authority) CoreUnauthorized (
     ok_or (case checked_add circulating_supply locked_supply of
              None \<Rightarrow> None | Some v \<Rightarrow> checked_add v protocol_balance) CoreArithmeticOverflow (\<lambda>computed_total.
     require (computed_total = total_supply) CoreInvalidParameter (
     Inr (s\<lparr>core_config_acc := Some (c\<lparr>cc_total_supply := total_supply,
            cc_protocol_balance := protocol_balance, cc_circulating_supply := circulating_supply,
            cc_locked_supply := locked_supply\<rparr>)\<rparr>))))))"

section \<open>The treasury as \<open>ario-gar\<close> sees it\<close>

text \<open>What the reward distribution reads of the configuration (\<open>instructions/release_treasury.rs\<close>).\<close>

definition treasury_view :: "core_env \<Rightarrow> ario_config \<Rightarrow> treasury_config" where
  "treasury_view env c = \<lparr>tc_key = pda_key env CoreConfigPda, tc_treasury = cc_treasury c\<rparr>"

end
