(* ===== verification/Core_System.thy ===== *)
theory Core_System
  imports Core_Admin Gar_System Machine
begin

text \<open>
  The instructions of \<open>ario-core\<close> and their dispatch (\<open>lib.rs\<close>) as a step function. Left out are
  the instructions that rewrite raw account data (\<open>import_account\<close>, the schema migrations). The
  treasury release runs inside the reward distribution of \<open>ario-gar\<close>, whose instructions may run
  in between; a distribution reads the treasury of this configuration.
\<close>

datatype vault_op =
    CreateVaultOp pubkey pubkey pubkey u64 i64
  | VaultedTransferOp pubkey pubkey pubkey pubkey u64 i64 bool
  | RevokeVaultOp "pubkey \<times> u64" pubkey pubkey pubkey
  | ExtendVaultOp "pubkey \<times> u64" pubkey i64
  | IncreaseVaultOp "pubkey \<times> u64" pubkey pubkey pubkey u64
  | ReleaseVaultOp "pubkey \<times> u64" pubkey pubkey pubkey

definition vault_step :: "core_env \<Rightarrow> vault_op \<Rightarrow> core_state \<Rightarrow> core_state core_result" where
  "vault_step env op s = (case op of
     CreateVaultOp owner owner_ta vault_ta amount duration \<Rightarrow>
       create_vault env owner owner_ta vault_ta amount duration s
   | VaultedTransferOp sender recipient sender_ta vault_ta amount duration revocable \<Rightarrow>
       vaulted_transfer env sender recipient sender_ta vault_ta amount duration revocable s
   | RevokeVaultOp vid controller controller_ta vault_ta \<Rightarrow>
       revoke_vault env vid controller controller_ta vault_ta s
   | ExtendVaultOp vid owner seconds \<Rightarrow> extend_vault env vid owner seconds s
   | IncreaseVaultOp vid owner owner_ta vault_ta amount \<Rightarrow>
       increase_vault env vid owner owner_ta vault_ta amount s
   | ReleaseVaultOp vid owner owner_ta vault_ta \<Rightarrow> release_vault env vid owner owner_ta vault_ta s)"

datatype primary_name_op =
    RequestPrimaryNameOp pubkey pubkey pubkey "core_pda list" string
  | RequestFromFundingPlanOp pubkey pubkey "core_pda list" string core_plan
  | RequestAndSetPrimaryNameOp pubkey pubkey pubkey "core_pda list" string name_hash pubkey
  | RequestAndSetFromFundingPlanOp pubkey pubkey "core_pda list" string name_hash core_plan pubkey
  | ApprovePrimaryNameOp pubkey pubkey "core_pda list" name_hash pubkey
  | CloseExpiredRequestOp pubkey
  | RemovePrimaryNameOp pubkey name_hash
  | RemovePrimaryNameForBaseNameOp pubkey pubkey "core_pda list" name_hash pubkey

definition primary_name_step :: "core_env \<Rightarrow> primary_name_op \<Rightarrow> core_state \<Rightarrow> core_state core_result" where
  "primary_name_step env op s = (case op of
     RequestPrimaryNameOp initiator initiator_ta protocol_ta remaining name \<Rightarrow>
       request_primary_name env initiator initiator_ta protocol_ta remaining name s
   | RequestFromFundingPlanOp initiator protocol_ta remaining name plan \<Rightarrow>
       request_primary_name_from_funding_plan env initiator protocol_ta remaining name plan s
   | RequestAndSetPrimaryNameOp initiator initiator_ta protocol_ta remaining name h ant_program \<Rightarrow>
       request_and_set_primary_name env initiator initiator_ta protocol_ta remaining name h ant_program s
   | RequestAndSetFromFundingPlanOp initiator protocol_ta remaining name h plan ant_program \<Rightarrow>
       request_and_set_primary_name_from_funding_plan env initiator protocol_ta remaining name h plan
         ant_program s
   | ApprovePrimaryNameOp initiator name_owner remaining h ant_program \<Rightarrow>
       approve_primary_name env initiator name_owner remaining h ant_program s
   | CloseExpiredRequestOp initiator \<Rightarrow> close_expired_request env initiator s
   | RemovePrimaryNameOp owner h \<Rightarrow> remove_primary_name env owner h s
   | RemovePrimaryNameForBaseNameOp original_owner name_owner remaining h ant_program \<Rightarrow>
       remove_primary_name_for_base_name env original_owner name_owner remaining h ant_program s)"

datatype core_admin_op =
    InitializeCoreOp pubkey pubkey core_initialize_params
  | UpdateCoreConfigOp pubkey update_config_params
  | CoreTransferAuthorityOp pubkey pubkey
  | AdminRepairConfigOp pubkey pubkey pubkey
  | AdminSetGarProgramOp pubkey pubkey
  | ImportBalanceOp pubkey pubkey pubkey pubkey u64
  | FinalizeCoreMigrationOp pubkey
  | FinalizeSupplyOp pubkey u64 u64 u64 u64

definition core_admin_step :: "core_env \<Rightarrow> core_admin_op \<Rightarrow> core_state \<Rightarrow> core_state core_result" where
  "core_admin_step env op s = (case op of
     InitializeCoreOp payer mint params \<Rightarrow> initialize_core env payer mint params s
   | UpdateCoreConfigOp authority params \<Rightarrow> update_core_config authority params s
   | CoreTransferAuthorityOp authority new_authority \<Rightarrow>
       core_transfer_authority authority new_authority s
   | AdminRepairConfigOp authority new_mint new_treasury \<Rightarrow>
       admin_repair_config env authority new_mint new_treasury s
   | AdminSetGarProgramOp authority new_gar_program \<Rightarrow>
       admin_set_gar_program env authority new_gar_program s
   | ImportBalanceOp authority protocol_ta recipient_ta owner amount \<Rightarrow>
       import_balance env authority protocol_ta recipient_ta owner amount s
   | FinalizeCoreMigrationOp authority \<Rightarrow> finalize_core_migration authority s
   | FinalizeSupplyOp authority total_supply protocol circulating locked \<Rightarrow>
       finalize_supply authority total_supply protocol circulating locked s)"

datatype core_op =
    VaultOp vault_op
  | PrimaryNameOp primary_name_op
  | TransferTokensOp pubkey pubkey pubkey u64
  | CoreAdminOp core_admin_op
  | CoreGarOp gar_op

text \<open>The configuration that a distribution's treasury release reads is this program's.\<close>

definition with_treasury :: "core_env \<Rightarrow> gar_op \<Rightarrow> core_state \<Rightarrow> gar_op core_result" where
  "with_treasury env op s = (case op of
     EpochOp (DistributeEpochOp _ remaining ix protocol_ta stake_ta) \<Rightarrow>
       ok_or (core_config_acc s) CoreAccountMissing (\<lambda>c.
       Inr (EpochOp (DistributeEpochOp (treasury_view env c) remaining ix protocol_ta stake_ta)))
   | _ \<Rightarrow> Inr op)"

definition core_step :: "core_env \<Rightarrow> core_op \<Rightarrow> core_state \<Rightarrow> core_state core_result" where
  "core_step env op s = (case op of
     VaultOp o1 \<Rightarrow> vault_step env o1 s
   | PrimaryNameOp o2 \<Rightarrow> primary_name_step env o2 s
   | TransferTokensOp from_ta to_ta authority amount \<Rightarrow> transfer_tokens env from_ta to_ta authority amount s
   | CoreAdminOp o3 \<Rightarrow> core_admin_step env o3 s
   | CoreGarOp o4 \<Rightarrow>
       and_then (with_treasury env o4 s) (\<lambda>o5.
       core_gar_cpi (gar_step (core_gar_view env) o5 (core_gar s)) s))"

end
