(* ===== verification/Core_Effects.thy ===== *)
theory Core_Effects
  imports Core_System
begin

text \<open>
  What each instruction of \<open>ario-core\<close> does to the state, as one relation: the guards that matter
  and the new state. The state of \<open>ario-gar\<close> is left open in it, where a payment moved it. The
  invariants are proved over the relation, once per effect.
\<close>

section \<open>Who controls a name\<close>

text \<open>
  The owner that the ledger names for an undername of the name's base: the record of \<open>ario-arns\<close>
  gives the ANT, the records of \<open>ario-ant\<close> its effective owner.
\<close>

definition name_controller :: "core_env \<Rightarrow> pubkey \<Rightarrow> string \<Rightarrow> string \<Rightarrow> pubkey core_result" where
  "name_controller env arns_program name undername =
     (let info = account_at env (arns_record_address env arns_program (base_name_of env name)) in
      require (av_owner info = arns_program) CoreInvalidAccountState (
      and_then (verify_arns_record_active info (now env)) (\<lambda>_.
      and_then (read_arns_record_ant env info) (\<lambda>ant.
      read_ant_record_owner env (account_at env (ant_record_address env ARIO_ANT_ID ant undername))
        (account_at env (ant_config_address env ARIO_ANT_ID ant)) ant undername ARIO_ANT_ID))))"

lemma read_ant_record_owner_at:
  assumes "read_ant_record_owner env (view_of env p) (view_of env q) ant un prog = Inr who"
  shows "read_ant_record_owner env (account_at env (ant_record_address env ARIO_ANT_ID ant un))
           (account_at env (ant_config_address env ARIO_ANT_ID ant)) ant un ARIO_ANT_ID = Inr who"
proof -
  have "prog = ARIO_ANT_ID" "av_key (view_of env p) = ant_record_address env ARIO_ANT_ID ant un"
    "av_key (view_of env q) = ant_config_address env ARIO_ANT_ID ant"
    using assms
    by (auto simp: read_ant_record_owner_def read_ant_config_last_known_owner_def Let_def core_run_iff)
  then show ?thesis using assms view_of_at by metis
qed

lemma controlling_ant_controls:
  assumes "controlling_ant env c remaining name (\<lambda>ant.
             and_then (read_ant_record_owner env (nth_view env remaining 1) (nth_view env remaining 2)
                         ant un prog) (\<lambda>who. require (who = u) e (f ant))) = Inr x"
  shows "name_controller env (cc_arns_program c) name un = Inr u \<and> (\<exists>ant. f ant = Inr x)"
proof -
  let ?k = "arns_record_address env (cc_arns_program c) (base_name_of env name)"
  have key: "av_key (nth_view env remaining 0) = ?k"
    using assms by (auto simp: controlling_ant_def Let_def core_run_iff)
  obtain ant where "av_owner (nth_view env remaining 0) = cc_arns_program c"
    and "verify_arns_record_active (nth_view env remaining 0) (now env) = Inr ()"
    and "read_arns_record_ant env (nth_view env remaining 0) = Inr ant"
    and read: "read_ant_record_owner env (nth_view env remaining 1) (nth_view env remaining 2) ant un prog = Inr u"
    and "f ant = Inr x"
    using assms by (auto simp: controlling_ant_def Let_def core_run_iff)
  then show ?thesis
    using read_ant_record_owner_at [OF read [unfolded nth_view_def]] view_of_at [OF key [unfolded nth_view_def]]
    by (auto simp: name_controller_def nth_view_def core_run_iff)
qed

section \<open>Effects\<close>

definition same_supply :: "ario_config \<Rightarrow> ario_config \<Rightarrow> bool" where
  "same_supply c c' \<longleftrightarrow> cc_total_supply c' = cc_total_supply c
     \<and> cc_protocol_balance c' = cc_protocol_balance c
     \<and> cc_circulating_supply c' = cc_circulating_supply c \<and> cc_locked_supply c' = cc_locked_supply c"

definition durations_ok :: "ario_config \<Rightarrow> bool" where
  "durations_ok c \<longleftrightarrow> 0 \<le> cc_min_vault_duration c \<and> cc_min_vault_duration c \<le> cc_max_vault_duration c
     \<and> 0 < cc_primary_name_request_expiry c"

text \<open>A vault is emptied by its owner after its end, or by its controller before.\<close>

definition may_empty :: "core_env \<Rightarrow> core_op \<Rightarrow> pubkey \<times> u64 \<Rightarrow> vault \<Rightarrow> pubkey \<Rightarrow> pubkey \<Rightarrow> bool" where
  "may_empty env x vid v vault_ta dest \<longleftrightarrow>
     x = VaultOp (ReleaseVaultOp vid (va_owner v) dest vault_ta) \<and> va_end_timestamp v \<le> now env
   \<or> (\<exists>k. x = VaultOp (RevokeVaultOp vid k dest vault_ta) \<and> va_revocable v
        \<and> va_controller v = Some k \<and> now env < va_end_timestamp v)"

text \<open>Who agreed to a primary name: the wallet itself and the name's controller.\<close>

definition agreed :: "core_env \<Rightarrow> core_op \<Rightarrow> core_state \<Rightarrow> ario_config \<Rightarrow> pubkey \<Rightarrow> string \<Rightarrow> bool" where
  "agreed env x s c owner name \<longleftrightarrow>
     (\<exists>given. name = core_lowercase env given \<and> validate_primary_name_format given = Inr ()
        \<and> name_controller env (cc_arns_program c) given (undername_of env given) = Inr owner
        \<and> ((\<exists>ta pta rem h prog. x = PrimaryNameOp (RequestAndSetPrimaryNameOp owner ta pta rem given h prog))
           \<or> (\<exists>pta rem h plan prog. x = PrimaryNameOp (RequestAndSetFromFundingPlanOp owner pta rem given h plan prog))))
   \<or> (\<exists>rq who rem h prog. name_requests s owner = Some rq \<and> rq_initiator rq = owner \<and> rq_name rq = name
        \<and> now env < rq_expires_at rq
        \<and> name_controller env (cc_arns_program c) name (undername_of env name) = Inr who
        \<and> x = PrimaryNameOp (ApprovePrimaryNameOp owner who rem h prog))"

text \<open>The wallet that signs for a primary name of its own.\<close>

definition requester :: "core_op \<Rightarrow> pubkey option" where
  "requester x = (case x of
     PrimaryNameOp op \<Rightarrow> (case op of
       RequestPrimaryNameOp k _ _ _ _ \<Rightarrow> Some k
     | RequestFromFundingPlanOp k _ _ _ _ \<Rightarrow> Some k
     | RequestAndSetPrimaryNameOp k _ _ _ _ _ _ \<Rightarrow> Some k
     | RequestAndSetFromFundingPlanOp k _ _ _ _ _ _ \<Rightarrow> Some k
     | _ \<Rightarrow> None)
   | _ \<Rightarrow> None)"

inductive core_effect :: "core_env \<Rightarrow> core_op \<Rightarrow> core_state \<Rightarrow> core_state \<Rightarrow> bool" for env x s where
  Opened: "core_config_acc s = Some c \<Longrightarrow> vid = (owner, vc_next_id (load_vault_counter s owner))
    \<Longrightarrow> vaults s vid = None \<Longrightarrow> checked_add (snd vid) 1 = Some next_id
    \<Longrightarrow> MIN_VAULT_SIZE \<le> amount \<Longrightarrow> cc_min_vault_duration c \<le> duration
    \<Longrightarrow> duration \<le> cc_max_vault_duration c
    \<Longrightarrow> (case controller of None \<Rightarrow> \<not> revocable | Some k \<Rightarrow> revocable \<and> k \<noteq> owner)
    \<Longrightarrow> lock_supply amount c = Inr c1
    \<Longrightarrow> core_effect env x s (s\<lparr>core_config_acc := Some c1,
          vault_counters := (vault_counters s)(owner \<mapsto>
            \<lparr>vc_owner = owner, vc_next_id = next_id, vc_bump = cbump, vc_version = V1_0_0\<rparr>),
          vaults := (vaults s)(vid \<mapsto>
            \<lparr>va_owner = owner, va_vault_id = snd vid, va_amount = amount, va_start_timestamp = now env,
             va_end_timestamp = now env + duration, va_controller = controller, va_revocable = revocable,
             va_bump = vbump, va_version = V1_0_0\<rparr>), core_gar := g\<rparr>)"
| Increased: "core_config_acc s = Some c \<Longrightarrow> vaults s vid = Some v \<Longrightarrow> now env \<le> va_end_timestamp v
    \<Longrightarrow> checked_add (va_amount v) amount = Some new_balance \<Longrightarrow> lock_supply amount c = Inr c1
    \<Longrightarrow> core_effect env x s (s\<lparr>core_config_acc := Some c1,
          vaults := (vaults s)(vid \<mapsto> v\<lparr>va_amount := new_balance\<rparr>), core_gar := g\<rparr>)"
| ExtendedVault: "core_config_acc s = Some c \<Longrightarrow> vaults s vid = Some v \<Longrightarrow> now env \<le> va_end_timestamp v
    \<Longrightarrow> va_end_timestamp v < new_end \<Longrightarrow> new_end - now env \<le> cc_max_vault_duration c
    \<Longrightarrow> core_effect env x s (s\<lparr>vaults := (vaults s)(vid \<mapsto> v\<lparr>va_end_timestamp := new_end\<rparr>)\<rparr>)"
| Emptied: "core_config_acc s = Some c \<Longrightarrow> vaults s vid = Some v \<Longrightarrow> vid = (va_owner v, va_vault_id v)
    \<Longrightarrow> may_empty env x vid v vault_ta dest \<Longrightarrow> unlock_supply (va_amount v) c = Inr c1
    \<Longrightarrow> core_effect env x s (s\<lparr>core_config_acc := Some c1, vaults := (vaults s)(vid := None),
          closed_token_accounts := closed_token_accounts s @ [vault_ta], core_gar := g\<rparr>)"
| Requested: "core_config_acc s = Some c \<Longrightarrow> name_requests s initiator = None
    \<Longrightarrow> validate_primary_name_format given = Inr () \<Longrightarrow> requester x = Some initiator
    \<Longrightarrow> core_effect env x s (s\<lparr>core_gar := g, name_requests := (name_requests s)(initiator \<mapsto>
          \<lparr>rq_initiator = initiator, rq_name = core_lowercase env given, rq_created_at = now env,
           rq_expires_at = now env + cc_primary_name_request_expiry c, rq_bump = rbump,
           rq_version = V1_0_0\<rparr>)\<rparr>)"
| NameSet: "core_config_acc s = Some c \<Longrightarrow> h = core_sha256 env name \<Longrightarrow> agreed env x s c owner name
    \<Longrightarrow> set_primary_name env owner name h (s\<lparr>core_gar := g\<rparr>) = Inr s1
    \<Longrightarrow> reqs = name_requests s \<or> reqs = (name_requests s)(owner := None)
    \<Longrightarrow> core_effect env x s (s1\<lparr>name_requests := reqs\<rparr>)"
| RequestClosed: "name_requests s initiator = Some rq \<Longrightarrow> is_expired rq (now env)
    \<Longrightarrow> core_effect env x s (s\<lparr>name_requests := (name_requests s)(initiator := None)\<rparr>)"
| NameRemoved: "primary_names s owner = Some p \<Longrightarrow> pn_owner p = owner \<Longrightarrow> reverse_names s h = Some r
    \<Longrightarrow> h = core_sha256 env (core_lowercase env (pn_name p))
    \<Longrightarrow> x = PrimaryNameOp (RemovePrimaryNameOp owner h)
      \<or> (\<exists>c who rem prog. core_config_acc s = Some c
           \<and> x = PrimaryNameOp (RemovePrimaryNameForBaseNameOp owner who rem h prog)
           \<and> name_controller env (cc_arns_program c) (pn_name p) ''@'' = Inr who)
    \<Longrightarrow> core_effect env x s (drop_primary_name owner h s)"
| Configured: "core_config_acc s = Some c \<Longrightarrow> same_supply c c' \<Longrightarrow> durations_ok c \<longrightarrow> durations_ok c'
    \<Longrightarrow> core_effect env x s (s\<lparr>core_config_acc := Some c'\<rparr>)"
| Initialised: "core_config_acc s = None \<Longrightarrow> cc_protocol_balance c = 0 \<Longrightarrow> cc_locked_supply c = 0
    \<Longrightarrow> cc_circulating_supply c = cc_total_supply c \<Longrightarrow> durations_ok c
    \<Longrightarrow> core_effect env x s (s\<lparr>core_config_acc := Some c\<rparr>)"
| SupplyFinalised: "core_config_acc s = Some c \<Longrightarrow> cc_migration_active c
    \<Longrightarrow> x = CoreAdminOp (FinalizeSupplyOp (cc_authority c) supply protocol circulating locked)
    \<Longrightarrow> uint circulating + uint locked + uint protocol = uint supply
    \<Longrightarrow> core_effect env x s (s\<lparr>core_config_acc := Some (c\<lparr>cc_total_supply := supply,
          cc_protocol_balance := protocol, cc_circulating_supply := circulating,
          cc_locked_supply := locked\<rparr>)\<rparr>)"
| BalanceImported: "core_effect env x s (s\<lparr>core_balances := bs, core_gar := g\<rparr>)"
| PoolMoved: "core_effect env x s (s\<lparr>core_gar := g\<rparr>)"

section \<open>Every instruction has one of the effects\<close>

lemma effect_cong: "core_effect env x s t \<Longrightarrow> s' = t \<Longrightarrow> core_effect env x s s'"
  by simp

lemma vault_token_account_iff:
  "vault_token_account env c vid key k = Inr x \<longleftrightarrow>
     (\<exists>ta. token_accounts env key = Some ta \<and> ta_owner ta = pda_key env (VaultPda (fst vid) (snd vid))
        \<and> ta_mint ta = cc_mint c \<and> k ta = Inr x)"
  by (auto simp: vault_token_account_def core_run_iff)

lemma existing_vault_iff:
  "existing_vault vid s k = Inr x \<longleftrightarrow>
     (\<exists>v. vaults s vid = Some v \<and> vid = (va_owner v, va_vault_id v) \<and> k v = Inr x)"
  by (auto simp: existing_vault_def core_run_iff)

lemma check_lock_iff:
  "check_lock c amount duration k = Inr x \<longleftrightarrow>
     cc_min_vault_duration c \<le> duration \<and> duration \<le> cc_max_vault_duration c \<and> 0 < amount
     \<and> MIN_VAULT_SIZE \<le> amount \<and> k = Inr x"
  by (auto simp: check_lock_def core_run_iff)

lemmas vault_run_iff = core_run_iff vault_token_account_iff existing_vault_iff check_lock_iff

lemma open_vault_effect:
  assumes run: "open_vault env owner amount duration controller revocable c (s\<lparr>core_gar := g\<rparr>) = Inr s'"
    and config: "core_config_acc s = Some c"
    and free: "vaults s (owner, vc_next_id (load_vault_counter s owner)) = None"
    and amount: "MIN_VAULT_SIZE \<le> amount"
    and duration: "cc_min_vault_duration c \<le> duration" "duration \<le> cc_max_vault_duration c"
    and controller: "case controller of None \<Rightarrow> \<not> revocable | Some k \<Rightarrow> revocable \<and> k \<noteq> owner"
  shows "core_effect env x s s'"
proof -
  have load: "load_vault_counter (s\<lparr>core_gar := g\<rparr>) owner = load_vault_counter s owner"
    by (simp add: load_vault_counter_def)
  let ?id = "vc_next_id (load_vault_counter s owner)"
  obtain next_id c1 where next_id: "checked_add ?id 1 = Some next_id" and c1: "lock_supply amount c = Inr c1"
    and s': "s' = s\<lparr>core_config_acc := Some c1,
          vault_counters := (vault_counters s)(owner \<mapsto>
            \<lparr>vc_owner = owner, vc_next_id = next_id, vc_bump = pda_bump env (VaultCounterPda owner),
             vc_version = V1_0_0\<rparr>),
          vaults := (vaults s)((owner, ?id) \<mapsto>
            \<lparr>va_owner = owner, va_vault_id = ?id, va_amount = amount, va_start_timestamp = now env,
             va_end_timestamp = now env + duration, va_controller = controller, va_revocable = revocable,
             va_bump = pda_bump env (VaultPda owner ?id), va_version = V1_0_0\<rparr>), core_gar := g\<rparr>"
    using run by (auto simp: open_vault_def load Let_def core_run_iff)
  show ?thesis
    by (rule effect_cong [OF core_effect.Opened [OF config refl free _ amount duration controller c1]])
      (use next_id s' in simp_all)
qed

lemma empty_vault_effect:
  assumes run: "empty_vault env vid v vault_ta ta dest c s = Inr s'"
    and v: "core_config_acc s = Some c" "vaults s vid = Some v" "vid = (va_owner v, va_vault_id v)"
    and may: "may_empty env x vid v vault_ta dest"
  shows "core_effect env x s s'"
proof -
  obtain c1 g where c1: "unlock_supply (va_amount v) c = Inr c1"
    and s': "s' = s\<lparr>core_gar := g, closed_token_accounts := closed_token_accounts s @ [vault_ta],
               core_config_acc := Some c1, vaults := (vaults s)(vid := None)\<rparr>"
    using run by (auto simp: empty_vault_def Let_def core_run_iff)
  show ?thesis
    by (rule effect_cong [OF core_effect.Emptied [OF v may c1, of g]]) (simp add: s')
qed

lemma vault_step_effect:
  assumes "vault_step env op s = Inr s'"
  shows "core_effect env (VaultOp op) s s'"
proof (cases op)
  case (CreateVaultOp owner owner_ta vault_ta amount duration)
  with assms show ?thesis
    by (auto simp: vault_step_def create_vault_def NewVaultAccounts_def Let_def vault_run_iff
        intro!: open_vault_effect)
next
  case (VaultedTransferOp sender recipient sender_ta vault_ta amount duration revocable)
  with assms show ?thesis
    by (auto simp: vault_step_def vaulted_transfer_def NewVaultAccounts_def Let_def vault_run_iff
        intro!: open_vault_effect)
next
  case (RevokeVaultOp vid controller controller_ta vault_ta)
  with assms show ?thesis
    by (auto simp: vault_step_def revoke_vault_def vault_run_iff may_empty_def is_unlocked_def
        intro!: empty_vault_effect)
next
  case (ExtendVaultOp vid owner seconds)
  with assms show ?thesis
    by (auto simp: vault_step_def extend_vault_def vault_run_iff checked_sub_i64_def
        intro!: core_effect.ExtendedVault split: if_splits)
next
  case (IncreaseVaultOp vid owner owner_ta vault_ta amount)
  with assms obtain c v c1 g b where "core_config_acc s = Some c" "vaults s vid = Some v"
    "now env \<le> va_end_timestamp v" "checked_add (va_amount v) amount = Some b"
    "lock_supply amount c = Inr c1"
    and s': "s' = s\<lparr>core_gar := g, core_config_acc := Some c1,
               vaults := (vaults s)(vid \<mapsto> v\<lparr>va_amount := b\<rparr>)\<rparr>"
    by (auto simp: vault_step_def increase_vault_def vault_run_iff)
  then show ?thesis by (intro effect_cong [OF core_effect.Increased [of s c vid v env amount b c1 _ g]]) simp_all
next
  case (ReleaseVaultOp vid owner owner_ta vault_ta)
  with assms show ?thesis
    by (auto simp: vault_step_def release_vault_def vault_run_iff may_empty_def is_unlocked_def
        intro!: empty_vault_effect)
qed

lemma pay_from_wallet_gar:
  "pay_from_wallet env k ta pta fee s = Inr s1 \<Longrightarrow> \<exists>g. s1 = s\<lparr>core_gar := g\<rparr>"
  by (cases "fee > 0") (auto simp: pay_from_wallet_def core_run_iff intro: exI [of _ "core_gar s"])

lemma pay_from_plan_gar:
  "pay_from_plan env infos plan k pta fee s = Inr s1 \<Longrightarrow> \<exists>g. s1 = s\<lparr>core_gar := g\<rparr>"
  by (auto simp: pay_from_plan_def core_run_iff intro: exI [of _ "core_gar s"] split: if_splits)

lemma open_request_effect:
  assumes "open_request env initiator given c (s\<lparr>core_gar := g\<rparr>) = Inr s'"
    and "core_config_acc s = Some c" and "name_requests s initiator = None"
    and "validate_primary_name_format given = Inr ()" and "requester x = Some initiator"
  shows "core_effect env x s s'"
proof -
  have s': "s' = s\<lparr>core_gar := g, name_requests := (name_requests s)(initiator \<mapsto>
          \<lparr>rq_initiator = initiator, rq_name = core_lowercase env given, rq_created_at = now env,
           rq_expires_at = now env + cc_primary_name_request_expiry c,
           rq_bump = pda_bump env (PrimaryNameRequestPda initiator), rq_version = V1_0_0\<rparr>)\<rparr>"
    using assms(1) by (auto simp: open_request_def core_run_iff)
  show ?thesis unfolding s' by (rule core_effect.Requested [OF assms(2-5)])
qed

lemma same_requests: "name_requests s = r \<Longrightarrow> s\<lparr>name_requests := r\<rparr> = s"
  by (cases s) simp

lemma set_name_effect:
  assumes "set_primary_name env owner name (core_sha256 env name) (s\<lparr>core_gar := g\<rparr>) = Inr s'"
    and "core_config_acc s = Some c" and "agreed env x s c owner name"
  shows "core_effect env x s s'"
proof -
  have "name_requests s' = name_requests s"
    using assms(1) unfolding set_primary_name_def require_iff by auto
  note same = same_requests [OF this]
  show ?thesis
    by (rule effect_cong [OF core_effect.NameSet [OF assms(2) refl assms(3) assms(1), of "name_requests s"]])
      (simp_all add: same)
qed

text \<open>The records that the one-step variants check name the wallet as controller.\<close>

lemma set_checks_control:
  assumes "validate_arns_record_exists env (nth_view env infos 0) arns_program (base_name_of env name) (now env) = Inr ()"
    and "read_arns_record_ant env (nth_view env infos 0) = Inr ant"
    and "read_ant_record_owner env (nth_view env infos 2) (nth_view env infos 3) ant un prog = Inr who"
  shows "name_controller env arns_program name un = Inr who"
proof -
  have "av_key (view_of env (infos ! 0)) = arns_record_address env arns_program (base_name_of env name)"
    using assms(1) by (auto simp: validate_arns_record_exists_def nth_view_def core_run_iff)
  note info = view_of_at [OF this]
  show ?thesis
    using assms(1,2) read_ant_record_owner_at [OF assms(3) [unfolded nth_view_def]]
    by (auto simp: name_controller_def validate_arns_record_exists_def nth_view_def info core_run_iff)
qed

lemma agreed_directly:
  assumes "name = core_lowercase env given" "validate_primary_name_format given = Inr ()"
    and "name_controller env (cc_arns_program c) given (undername_of env given) = Inr owner"
    and "(\<exists>ta pta rem h prog. x = PrimaryNameOp (RequestAndSetPrimaryNameOp owner ta pta rem given h prog))
       \<or> (\<exists>pta rem h plan prog. x = PrimaryNameOp (RequestAndSetFromFundingPlanOp owner pta rem given h plan prog))"
  shows "agreed env x s c owner name"
  unfolding agreed_def using assms by blast

lemma request_effect:
  assumes "request_primary_name env initiator ta pta rem given s = Inr s'" and "requester x = Some initiator"
  shows "core_effect env x s s'"
proof -
  obtain c s1 fee where "core_config_acc s = Some c" "name_requests s initiator = None"
    "validate_primary_name_format given = Inr ()"
    "pay_from_wallet env initiator ta pta fee s = Inr s1" "open_request env initiator given c s1 = Inr s'"
    using assms(1) unfolding request_primary_name_def RequestAccounts_def quote_primary_name_def core_run_iff by auto
  then show ?thesis using assms(2) by (auto dest!: pay_from_wallet_gar intro: open_request_effect)
qed

lemma request_from_plan_effect:
  assumes "request_primary_name_from_funding_plan env initiator pta rem given plan s = Inr s'"
    and "requester x = Some initiator"
  shows "core_effect env x s s'"
proof -
  obtain c s1 fee where "core_config_acc s = Some c" "name_requests s initiator = None"
    "validate_primary_name_format given = Inr ()"
    "pay_from_plan env (funding_accounts plan rem) plan initiator pta fee s = Inr s1"
    "open_request env initiator given c s1 = Inr s'"
    using assms(1) unfolding request_primary_name_from_funding_plan_def RequestAccounts_def
      quote_primary_name_def Let_def core_run_iff by auto
  then show ?thesis using assms(2) by (auto dest!: pay_from_plan_gar intro: open_request_effect)
qed

lemma request_and_set_effect:
  assumes "request_and_set_primary_name env owner ta pta rem given h prog s = Inr s'"
  shows "core_effect env (PrimaryNameOp (RequestAndSetPrimaryNameOp owner ta pta rem given h prog)) s s'"
proof -
  obtain c ant s1 fee where c: "core_config_acc s = Some c"
    and valid: "validate_primary_name_format given = Inr ()"
    and h: "h = core_sha256 env (core_lowercase env given)"
    and checks: "validate_arns_record_exists env (nth_view env rem 0) (cc_arns_program c) (base_name_of env given) (now env) = Inr ()"
      "read_arns_record_ant env (nth_view env rem 0) = Inr ant"
      "read_ant_record_owner env (nth_view env rem 2) (nth_view env rem 3) ant (undername_of env given) prog = Inr owner"
    and pay: "pay_from_wallet env owner ta pta fee s = Inr s1"
    and set: "set_primary_name env owner (core_lowercase env given) h s1 = Inr s'"
    using assms unfolding request_and_set_primary_name_def quote_primary_name_def core_run_iff by auto
  have "agreed env (PrimaryNameOp (RequestAndSetPrimaryNameOp owner ta pta rem given h prog)) s c owner
          (core_lowercase env given)"
    by (rule agreed_directly [OF refl valid set_checks_control [OF checks]]) blast
  then show ?thesis
    using set c pay_from_wallet_gar [OF pay] unfolding h by (auto intro: set_name_effect)
qed

lemma request_and_set_from_plan_effect:
  assumes "request_and_set_primary_name_from_funding_plan env owner pta rem given h plan prog s = Inr s'"
  shows "core_effect env (PrimaryNameOp (RequestAndSetFromFundingPlanOp owner pta rem given h plan prog)) s s'"
proof -
  let ?infos = "validation_accounts plan rem"
  obtain c ant s1 fee where c: "core_config_acc s = Some c"
    and valid: "validate_primary_name_format given = Inr ()"
    and h: "h = core_sha256 env (core_lowercase env given)"
    and checks: "validate_arns_record_exists env (nth_view env ?infos 0) (cc_arns_program c) (base_name_of env given) (now env) = Inr ()"
      "read_arns_record_ant env (nth_view env ?infos 0) = Inr ant"
      "read_ant_record_owner env (nth_view env ?infos 2) (nth_view env ?infos 3) ant (undername_of env given) prog = Inr owner"
    and pay: "pay_from_plan env (funding_accounts plan rem) plan owner pta fee s = Inr s1"
    and set: "set_primary_name env owner (core_lowercase env given) h s1 = Inr s'"
    using assms unfolding request_and_set_primary_name_from_funding_plan_def quote_primary_name_def
      Let_def core_run_iff by auto
  have "agreed env (PrimaryNameOp (RequestAndSetFromFundingPlanOp owner pta rem given h plan prog)) s c owner
          (core_lowercase env given)"
    by (rule agreed_directly [OF refl valid set_checks_control [OF checks]]) blast
  then show ?thesis
    using set c pay_from_plan_gar [OF pay] unfolding h by (auto intro: set_name_effect)
qed

lemma approve_effect:
  assumes "approve_primary_name env initiator name_owner rem h prog s = Inr s'"
  shows "core_effect env (PrimaryNameOp (ApprovePrimaryNameOp initiator name_owner rem h prog)) s s'"
proof -
  obtain c rq where c: "core_config_acc s = Some c" and rq: "name_requests s initiator = Some rq"
    "rq_initiator rq = initiator" "now env < rq_expires_at rq"
    and h: "h = core_sha256 env (rq_name rq)"
    and run: "controlling_ant env c rem (rq_name rq) (\<lambda>ant.
     and_then (read_ant_record_owner env (nth_view env rem 1) (nth_view env rem 2) ant
                (undername_of env (rq_name rq)) prog) (\<lambda>record_owner.
     require (record_owner = name_owner) CoreNotAntHolder (
     and_then (set_primary_name env initiator (rq_name rq) h s) (\<lambda>s1.
     Inr (s1\<lparr>name_requests := (name_requests s1)(initiator := None)\<rparr>))))) = Inr s'"
    using assms unfolding approve_primary_name_def is_expired_def core_run_iff by force
  note control = controlling_ant_controls [OF run]
  obtain s1 where set: "set_primary_name env initiator (rq_name rq) h s = Inr s1"
    and s': "s' = s1\<lparr>name_requests := (name_requests s1)(initiator := None)\<rparr>"
    using control by (auto simp: and_then_iff)
  have reqs: "name_requests s1 = name_requests s" using set unfolding set_primary_name_def require_iff by auto
  have same: "s\<lparr>core_gar := core_gar s\<rparr> = s" by (cases s) simp
  have "agreed env (PrimaryNameOp (ApprovePrimaryNameOp initiator name_owner rem h prog)) s c initiator (rq_name rq)"
    unfolding agreed_def using rq control by blast
  from core_effect.NameSet [OF c h this, of "core_gar s" s1 "(name_requests s)(initiator := None)"]
  show ?thesis using set by (simp add: s' reqs same)
qed

lemma primary_name_step_effect:
  assumes "primary_name_step env op s = Inr s'"
  shows "core_effect env (PrimaryNameOp op) s s'"
proof (cases op)
  case (CloseExpiredRequestOp initiator)
  with assms show ?thesis
    by (auto simp: primary_name_step_def close_expired_request_def core_run_iff intro: core_effect.RequestClosed)
next
  case (RemovePrimaryNameOp owner h)
  with assms show ?thesis
    by (auto simp: primary_name_step_def remove_primary_name_def core_run_iff intro!: core_effect.NameRemoved)
next
  case (RemovePrimaryNameForBaseNameOp owner who rem h prog)
  then have "remove_primary_name_for_base_name env owner who rem h prog s = Inr s'"
    using assms by (simp add: primary_name_step_def)
  then obtain c p r where c: "core_config_acc s = Some c" and p: "primary_names s owner = Some p"
    "pn_owner p = owner" "reverse_names s h = Some r" "h = core_sha256 env (core_lowercase env (pn_name p))"
    and run: "controlling_ant env c rem (pn_name p) (\<lambda>ant.
     and_then (read_ant_record_owner env (nth_view env rem 1) (nth_view env rem 2) ant ''@'' prog)
       (\<lambda>record_owner. require (record_owner = who) CoreNotAntHolder (
     Inr (drop_primary_name owner h s)))) = Inr s'"
    unfolding remove_primary_name_for_base_name_def core_run_iff by force
  from controlling_ant_controls [OF run] have s': "s' = drop_primary_name owner h s"
    and control: "name_controller env (cc_arns_program c) (pn_name p) ''@'' = Inr who" by auto
  show ?thesis unfolding s' RemovePrimaryNameForBaseNameOp
    by (rule core_effect.NameRemoved [OF p]) (use c control in blast)
qed (use assms in \<open>simp_all add: primary_name_step_def requester_def request_effect request_from_plan_effect
      request_and_set_effect request_and_set_from_plan_effect approve_effect\<close>)

lemma same_supply_set_when:
  "same_supply c (set_when v (\<lambda>d. cc_min_vault_duration_update (\<lambda>_. d)) c') = same_supply c c'"
  "same_supply c (set_when v (\<lambda>d. cc_max_vault_duration_update (\<lambda>_. d)) c') = same_supply c c'"
  "same_supply c (set_when v (\<lambda>d. cc_primary_name_request_expiry_update (\<lambda>_. d)) c') = same_supply c c'"
  "same_supply c (set_when w (\<lambda>k. cc_authority_update (\<lambda>_. k)) c') = same_supply c c'"
  by (cases v; cases w; simp add: set_when_def same_supply_def)+

lemma same_supply_refl [simp]: "same_supply c c"
  by (simp add: same_supply_def)

lemma update_core_config_effect:
  assumes "update_core_config authority params s = Inr s'"
  shows "core_effect env x s s'"
proof -
  define c4 where "c4 c = set_when (uc_new_authority params) (\<lambda>a. cc_authority_update (\<lambda>_. a))
      (set_when (uc_primary_name_request_expiry params) (\<lambda>d. cc_primary_name_request_expiry_update (\<lambda>_. d))
      (set_when (uc_max_vault_duration params) (\<lambda>d. cc_max_vault_duration_update (\<lambda>_. d))
      (set_when (uc_min_vault_duration params) (\<lambda>d. cc_min_vault_duration_update (\<lambda>_. d)) c)))" for c :: ario_config
  have "same_supply c (c4 c)" for c by (simp add: c4_def same_supply_set_when)
  moreover obtain c where "core_config_acc s = Some c" "durations_ok (c4 c)"
    and "s' = s\<lparr>core_config_acc := Some (c4 c)\<rparr>"
    using assms unfolding update_core_config_def Let_def core_run_iff c4_def [symmetric] durations_ok_def by auto
  ultimately show ?thesis by (auto intro: core_effect.Configured)
qed

lemma balance_effect: "core_effect env x s (s\<lparr>core_balances := bs\<rparr>)"
  by (rule effect_cong [OF core_effect.BalanceImported [where bs = bs and g = "core_gar s"]]) (cases s; simp)

lemma core_admin_step_effect:
  assumes "core_admin_step env op s = Inr s'"
  shows "core_effect env (CoreAdminOp op) s s'"
proof (cases op)
  case (InitializeCoreOp payer mint params)
  with assms show ?thesis
    by (auto simp: core_admin_step_def initialize_core_def core_run_iff durations_ok_def core_durations
        intro!: core_effect.Initialised)
next
  case (UpdateCoreConfigOp authority params)
  with assms show ?thesis by (simp add: core_admin_step_def update_core_config_effect)
next
  case (ImportBalanceOp authority protocol_ta recipient_ta owner amount)
  with assms show ?thesis
    by (auto simp: core_admin_step_def import_balance_def Let_def core_run_iff split: if_splits
        intro: balance_effect core_effect.BalanceImported)
next
  case (FinalizeSupplyOp authority tot protocol circulating locked)
  with assms show ?thesis
    by (auto simp: core_admin_step_def finalize_supply_def core_run_iff uint_add_exact
        intro!: core_effect.SupplyFinalised split: option.splits)
qed (use assms in \<open>auto simp: core_admin_step_def core_transfer_authority_def admin_repair_config_def
      admin_set_gar_program_def finalize_core_migration_def core_run_iff durations_ok_def same_supply_def
      intro!: core_effect.Configured\<close>)

lemma core_step_effect:
  assumes "core_step env op s = Inr s'"
  shows "core_effect env op s s'"
  using assms
  by (cases op)
    (auto simp: core_step_def core_run_iff transfer_tokens_def vault_step_effect primary_name_step_effect
      core_admin_step_effect intro: core_effect.PoolMoved)

end
