(* ===== verification/Core_Invariant.thy ===== *)
theory Core_Invariant
  imports Core_Effects
begin

text \<open>
  The invariant of \<open>ario-core\<close>. The configuration counts exactly what the vaults lock, and locked,
  circulating and protocol supply add up to the supply; every vault sits at its own address, below
  its owner's counter, and can be revoked exactly if it has a controller, who is not its owner; the
  forward and the reverse accounts of primary names mirror each other. Proved once per effect, it
  holds for every sequence of transactions by the interpretation at the end.
\<close>

section \<open>Valid names in lower case\<close>

definition canonical :: "string \<Rightarrow> bool" where
  "canonical n \<longleftrightarrow> validate_primary_name_format n = Inr () \<and> list_all (\<lambda>c. \<not> is_ascii_uppercase c) n"

lemma lowercase_eq_punct:
  assumes "\<not> is_ascii_alphanumeric p"
  shows "ascii_lowercase c = p \<longleftrightarrow> c = p"
proof (cases "is_ascii_uppercase c")
  case True
  then have "is_ascii_alphanumeric c" by (auto simp: is_ascii_uppercase_def is_ascii_alphanumeric_def Let_def)
  with assms show ?thesis using lowercase_alphanumeric [of c] by auto
qed (simp add: ascii_lowercase_id)

lemma not_alphanumeric_punct: "\<not> is_ascii_alphanumeric CHR ''-''" "\<not> is_ascii_alphanumeric CHR ''_''"
  by (simp_all add: is_ascii_alphanumeric_def)

lemmas lowercase_punct [simp] = not_alphanumeric_punct [THEN lowercase_eq_punct]

lemma lowercase_segment [simp]: "is_valid_name_segment (map ascii_lowercase t) = is_valid_name_segment t"
  by (cases "t = []") (auto simp: is_valid_name_segment_def list_all_length)

lemma lowercase_split:
  "split_primary_name (map ascii_lowercase n) =
     map_prod (map ascii_lowercase) (map_option (map ascii_lowercase)) (split_primary_name n)"
proof (cases "dropWhile (\<lambda>c. c \<noteq> CHR ''_'') n")
  case Nil
  then show ?thesis unfolding split_primary_name_def dropWhile_map comp_def lowercase_punct
    by (simp del: dropWhile_eq_Nil_conv)
next
  case (Cons c base)
  then show ?thesis
    unfolding split_primary_name_def dropWhile_map takeWhile_map comp_def lowercase_punct by simp
qed

lemma lowercase_validate: "validate_primary_name_format (map ascii_lowercase n) = validate_primary_name_format n"
proof -
  obtain base un where "split_primary_name n = (base, un)" by fastforce
  then show ?thesis
    by (cases un) (simp_all add: validate_primary_name_format_def lowercase_split require_def)
qed

lemma segment_ascii: "is_valid_name_segment t \<Longrightarrow> list_all (\<lambda>c. (of_char c :: nat) < 128) t"
  by (cases t)
    (auto simp: is_valid_name_segment_def is_ascii_alphanumeric_def Let_def list_all_iff split: if_splits)

lemma split_primary_name_join:
  "n = (case split_primary_name n of (base, None) \<Rightarrow> base | (base, Some un) \<Rightarrow> un @ CHR ''_'' # base)"
proof (cases "dropWhile (\<lambda>c. c \<noteq> CHR ''_'') n")
  case Nil
  then show ?thesis unfolding split_primary_name_def by (simp del: dropWhile_eq_Nil_conv)
next
  case (Cons c base)
  then have "c = CHR ''_''" using hd_dropWhile [of "\<lambda>c. c \<noteq> CHR ''_''" n] by auto
  then show ?thesis
    using takeWhile_dropWhile_id [of "\<lambda>c. c \<noteq> CHR ''_''" n] Cons by (simp add: split_primary_name_def)
qed

lemma valid_name_segments:
  assumes "validate_primary_name_format n = Inr ()" and "split_primary_name n = (base, un)"
  shows "is_valid_name_segment base" "\<And>u. un = Some u \<Longrightarrow> is_valid_name_segment u"
  using assms by (auto simp: validate_primary_name_format_def require_iff split: option.splits)

lemma valid_name_ascii:
  assumes "validate_primary_name_format n = Inr ()"
  shows "list_all (\<lambda>c. (of_char c :: nat) < 128) n"
proof -
  obtain base un where parts: "split_primary_name n = (base, un)" by fastforce
  show ?thesis
  proof (cases un)
    case None
    then have "n = base" using split_primary_name_join [of n] parts by simp
    then show ?thesis using segment_ascii valid_name_segments(1) [OF assms parts] by simp
  next
    case (Some u)
    then have "n = u @ CHR ''_'' # base" using split_primary_name_join [of n] parts by simp
    then show ?thesis
      using segment_ascii valid_name_segments [OF assms parts] Some by simp
  qed
qed

lemma core_lowercase_valid:
  "validate_primary_name_format n = Inr () \<Longrightarrow> core_lowercase env n = map ascii_lowercase n"
  by (simp add: core_lowercase_def valid_name_ascii)

lemma canonical_lowercase: "validate_primary_name_format n = Inr () \<Longrightarrow> canonical (core_lowercase env n)"
  by (simp add: canonical_def core_lowercase_valid lowercase_validate list_all_iff)

lemma lowercase_canonical: "canonical n \<Longrightarrow> core_lowercase env n = n"
  by (simp add: canonical_def core_lowercase_valid map_idI ascii_lowercase_id list_all_iff)

section \<open>Supply\<close>

definition locked_total :: "core_state \<Rightarrow> int" where
  "locked_total s = msum (\<lambda>_ v. uint (va_amount v)) (vaults s)"

definition supply_tracked :: "ario_config \<Rightarrow> int \<Rightarrow> bool" where
  "supply_tracked c locked \<longleftrightarrow> uint (cc_locked_supply c) = locked
     \<and> uint (cc_circulating_supply c) + locked + uint (cc_protocol_balance c) = uint (cc_total_supply c)"

lemma lock_supply_tracked:
  assumes "lock_supply amount c = Inr c1" and "supply_tracked c n"
  shows "supply_tracked c1 (n + uint amount)"
  using assms
  by (auto simp: lock_supply_def core_run_iff supply_tracked_def uint_add_exact uint_sub_exact)

lemma unlock_supply_tracked:
  assumes "unlock_supply amount c = Inr c1" and "supply_tracked c n"
  shows "supply_tracked c1 (n - uint amount)"
  using assms
  by (auto simp: unlock_supply_def core_run_iff supply_tracked_def uint_add_exact uint_sub_exact)

lemma supply_moves_durations:
  "lock_supply amount c = Inr c1 \<Longrightarrow> durations_ok c1 = durations_ok c"
  "unlock_supply amount c = Inr c1 \<Longrightarrow> durations_ok c1 = durations_ok c"
  by (auto simp: lock_supply_def unlock_supply_def core_run_iff durations_ok_def)

lemma same_supply_tracked: "same_supply c c' \<Longrightarrow> supply_tracked c' n = supply_tracked c n"
  by (simp add: same_supply_def supply_tracked_def)

section \<open>Vaults\<close>

definition vault_ok :: "i64 \<Rightarrow> (pubkey \<rightharpoonup> vault_counter) \<Rightarrow> pubkey \<times> u64 \<Rightarrow> vault \<Rightarrow> bool" where
  "vault_ok t counters k v \<longleftrightarrow> k = (va_owner v, va_vault_id v)
     \<and> (\<exists>counter. counters (va_owner v) = Some counter \<and> va_vault_id v < vc_next_id counter)
     \<and> MIN_VAULT_SIZE \<le> va_amount v \<and> va_start_timestamp v \<le> t
     \<and> va_start_timestamp v \<le> va_end_timestamp v
     \<and> (va_revocable v \<longleftrightarrow> va_controller v \<noteq> None) \<and> va_controller v \<noteq> Some (va_owner v)"

definition vaults_ok :: "i64 \<Rightarrow> core_state \<Rightarrow> bool" where
  "vaults_ok t s \<longleftrightarrow> finite (dom (vaults s))
     \<and> (\<forall>k v. vaults s k = Some v \<longrightarrow> vault_ok t (vault_counters s) k v)
     \<and> (case core_config_acc s of None \<Rightarrow> vaults s = Map.empty
        | Some c \<Rightarrow> supply_tracked c (locked_total s) \<and> durations_ok c)"

lemma vaults_ok_config:
  "vaults_ok t s \<Longrightarrow> core_config_acc s = Some c \<Longrightarrow> supply_tracked c (locked_total s) \<and> durations_ok c"
  by (simp add: vaults_ok_def)

lemma vaults_ok_frame:
  "vaults s' = vaults s \<Longrightarrow> vault_counters s' = vault_counters s \<Longrightarrow> core_config_acc s' = core_config_acc s
     \<Longrightarrow> vaults_ok t s' = vaults_ok t s"
  unfolding vaults_ok_def locked_total_def by (cases "core_config_acc s") simp_all

text \<open>Replacing or adding one vault while the configuration moves by the difference.\<close>

lemma vaults_ok_upd:
  assumes ok: "vaults_ok t s" and new: "vault_ok t C k v"
    and counters: "\<And>j w. vaults s j = Some w \<Longrightarrow> vault_ok t (vault_counters s) j w \<Longrightarrow> vault_ok t C j w"
    and c1: "supply_tracked c1 (locked_total s - mval (\<lambda>_ v. uint (va_amount v)) (vaults s) k + uint (va_amount v))"
    and d: "durations_ok c1"
    and s': "vaults s' = (vaults s)(k \<mapsto> v)" "vault_counters s' = C" "core_config_acc s' = Some c1"
  shows "vaults_ok t s'"
proof -
  have fin: "finite (dom (vaults s))" using ok by (simp add: vaults_ok_def)
  have "locked_total s' = locked_total s - mval (\<lambda>_ v. uint (va_amount v)) (vaults s) k + uint (va_amount v)"
    unfolding locked_total_def s'(1) by (rule msum_upd [OF fin])
  then show ?thesis
    using ok new counters c1 d fin by (auto simp: vaults_ok_def s')
qed

lemma vault_ok_later_counter:
  assumes "vault_ok t counters k v" and "\<And>c. counters o1 = Some c \<Longrightarrow> vc_next_id c \<le> vc_next_id c'"
  shows "vault_ok t (counters(o1 \<mapsto> c')) k v"
  using assms unfolding vault_ok_def by (cases "va_owner v = o1") (fastforce intro: less_le_trans)+

section \<open>Primary names\<close>

definition names_linked :: "(string \<Rightarrow> name_hash) \<Rightarrow> core_state \<Rightarrow> bool" where
  "names_linked H s \<longleftrightarrow>
     (\<forall>k p. primary_names s k = Some p \<longrightarrow> k \<noteq> 0 \<and> pn_owner p = k \<and> canonical (pn_name p)
        \<and> (\<exists>r. reverse_names s (H (pn_name p)) = Some r \<and> rv_owner r = k \<and> rv_name r = pn_name p))
     \<and> (\<forall>h r. reverse_names s h = Some r \<longrightarrow> h = H (rv_name r)
        \<and> (\<exists>p. primary_names s (rv_owner r) = Some p \<and> pn_name p = rv_name r))"

definition request_ok :: "i64 \<Rightarrow> pubkey \<Rightarrow> primary_name_request \<Rightarrow> bool" where
  "request_ok t k rq \<longleftrightarrow> k \<noteq> 0 \<and> rq_initiator rq = k \<and> canonical (rq_name rq)
     \<and> rq_created_at rq \<le> t \<and> rq_created_at rq < rq_expires_at rq"

definition requests_ok :: "i64 \<Rightarrow> core_state \<Rightarrow> bool" where
  "requests_ok t s \<longleftrightarrow> (\<forall>k rq. name_requests s k = Some rq \<longrightarrow> request_ok t k rq)"

lemma request_ok_later: "request_ok t k rq \<Longrightarrow> t \<le> t' \<Longrightarrow> request_ok t' k rq"
  by (simp add: request_ok_def)

lemma names_linked_forward:
  assumes "names_linked H s" and "primary_names s k = Some p"
  obtains r where "k \<noteq> 0" "pn_owner p = k" "canonical (pn_name p)"
    "reverse_names s (H (pn_name p)) = Some r" "rv_owner r = k" "rv_name r = pn_name p"
  using assms unfolding names_linked_def by blast

lemma names_linked_reverse:
  assumes "names_linked H s" and "reverse_names s h = Some r"
  obtains p where "h = H (rv_name r)" "rv_owner r \<noteq> 0" "primary_names s (rv_owner r) = Some p"
    "pn_name p = rv_name r"
  using assms unfolding names_linked_def by blast

lemma names_linked_frame:
  "primary_names s' = primary_names s \<Longrightarrow> reverse_names s' = reverse_names s \<Longrightarrow>
     names_linked H s' = names_linked H s"
  by (simp add: names_linked_def)

lemma requests_ok_frame: "name_requests s' = name_requests s \<Longrightarrow> requests_ok t s' = requests_ok t s"
  by (simp add: requests_ok_def)

lemma set_primary_name_linked:
  assumes set: "set_primary_name env k n (H n) s = Inr s'" and linked: "names_linked H s"
    and k: "k \<noteq> 0" and n: "canonical n"
  shows "names_linked H s'"
proof -
  have old: "pn_name p = n" if "primary_names s k = Some p" for p
    using set names_linked_forward [OF linked that] that by (auto simp: set_primary_name_def require_iff)
  have mine: "rv_owner r = k" if "reverse_names s (H n) = Some r" for r
    using set names_linked_reverse [OF linked that] that by (auto simp: set_primary_name_def require_iff)
  obtain p r where p: "primary_names s' = (primary_names s)(k \<mapsto> p)" "pn_owner p = k" "pn_name p = n"
    and r: "reverse_names s' = (reverse_names s)(H n \<mapsto> r)" "rv_owner r = k" "rv_name r = n"
    using set by (auto simp: set_primary_name_def require_iff)
  have "\<exists>q. reverse_names s' (H (pn_name p')) = Some q \<and> rv_owner q = j \<and> rv_name q = pn_name p'"
    if "primary_names s j = Some p'" "j \<noteq> k" for j p'
  proof -
    obtain q where q: "reverse_names s (H (pn_name p')) = Some q" "rv_owner q = j" "rv_name q = pn_name p'"
      using linked \<open>primary_names s j = Some p'\<close> by (auto simp: names_linked_def)
    with mine that(2) have "H (pn_name p') \<noteq> H n" by force
    then show ?thesis using q r(1) by simp
  qed
  moreover have "h = H (rv_name q) \<and> (\<exists>p'. primary_names s' (rv_owner q) = Some p' \<and> pn_name p' = rv_name q)"
    if "reverse_names s h = Some q" "h \<noteq> H n" for h q
  proof -
    from names_linked_reverse [OF linked that(1)] obtain p' where h: "h = H (rv_name q)"
      and p': "primary_names s (rv_owner q) = Some p'" "pn_name p' = rv_name q" .
    from old p' h that(2) have "rv_owner q \<noteq> k" by force
    then show ?thesis using h p' p(1) by simp
  qed
  ultimately show ?thesis
    using linked p r k n unfolding names_linked_def by auto
qed

lemma drop_primary_name_linked:
  assumes linked: "names_linked H s" and p: "primary_names s k = Some p"
  shows "names_linked H (drop_primary_name k (H (pn_name p)) s)"
proof -
  obtain r where r: "reverse_names s (H (pn_name p)) = Some r" "rv_owner r = k"
    using linked p by (auto simp: names_linked_def)
  have "H (pn_name p') \<noteq> H (pn_name p)" if q: "primary_names s j = Some p'" and j: "j \<noteq> k" for j p'
  proof
    assume eq: "H (pn_name p') = H (pn_name p)"
    from names_linked_forward [OF linked q] obtain r' where "reverse_names s (H (pn_name p')) = Some r'"
      "rv_owner r' = j" .
    with r j eq show False by simp
  qed
  moreover have "rv_owner q \<noteq> k" if q: "reverse_names s h = Some q" and h: "h \<noteq> H (pn_name p)" for h q
  proof
    assume eq: "rv_owner q = k"
    from names_linked_reverse [OF linked q] obtain p' where "h = H (rv_name q)"
      "primary_names s (rv_owner q) = Some p'" "pn_name p' = rv_name q" .
    with p h eq show False by simp
  qed
  ultimately show ?thesis
    using linked by (auto simp: names_linked_def drop_primary_name_def)
qed

section \<open>The invariant\<close>

definition core_inv :: "(string \<Rightarrow> name_hash) \<Rightarrow> i64 \<Rightarrow> core_state \<Rightarrow> bool" where
  "core_inv H t s \<longleftrightarrow> vaults_ok t s \<and> names_linked H s \<and> requests_ok t s"

text \<open>
  The runtime: one hash function; the zero key, which is the system program's id, signs nothing. A
  report of the supply at the end of the migration reports what the vaults lock.
\<close>

definition core_runtime :: "(string \<Rightarrow> name_hash) \<Rightarrow> core_env \<Rightarrow> core_op \<Rightarrow> core_state \<Rightarrow> bool" where
  "core_runtime H env op s \<longleftrightarrow> core_sha256 env = H \<and> requester op \<noteq> Some 0
     \<and> (case op of CoreAdminOp (FinalizeSupplyOp _ _ _ _ locked) \<Rightarrow> uint locked = locked_total s | _ \<Rightarrow> True)"

lemma vault_ok_later: "vault_ok t C k v \<Longrightarrow> t \<le> t' \<Longrightarrow> vault_ok t' C k v"
  by (auto simp: vault_ok_def)

lemma core_inv_later: "core_inv H t s \<Longrightarrow> t \<le> t' \<Longrightarrow> core_inv H t' s"
  unfolding core_inv_def vaults_ok_def requests_ok_def by (meson request_ok_later vault_ok_later)

lemma vaults_ok_vault:
  "vaults_ok t s \<Longrightarrow> vaults s k = Some v \<Longrightarrow> vault_ok t (vault_counters s) k v"
  unfolding vaults_ok_def by blast

lemma opened_keeps_vaults:
  assumes ok: "vaults_ok (now env) s" and c: "core_config_acc s = Some c"
    and vid: "vid = (owner, vc_next_id (load_vault_counter s owner))" and free: "vaults s vid = None"
    and next_id: "checked_add (snd vid) 1 = Some next_id"
    and amount: "MIN_VAULT_SIZE \<le> amount" and duration: "cc_min_vault_duration c \<le> duration"
    and controller: "case controller of None \<Rightarrow> \<not> revocable | Some k \<Rightarrow> revocable \<and> k \<noteq> owner"
    and c1: "lock_supply amount c = Inr c1"
    and v: "v = \<lparr>va_owner = owner, va_vault_id = snd vid, va_amount = amount, va_start_timestamp = now env,
             va_end_timestamp = now env + duration, va_controller = controller, va_revocable = revocable,
             va_bump = vbump, va_version = V1_0_0\<rparr>"
    and counter: "vc_next_id counter = next_id"
    and s': "vaults s' = (vaults s)(vid \<mapsto> v)" "vault_counters s' = (vault_counters s)(owner \<mapsto> counter)"
      "core_config_acc s' = Some c1"
  shows "vaults_ok (now env) s'"
proof (rule vaults_ok_upd [OF ok _ _ _ _ s'])
  have "uint next_id = uint (snd vid) + 1" using checked_addD [OF next_id] by simp
  then have less: "snd vid < next_id" by (simp add: word_less_def)
  have durations: "durations_ok c" using vaults_ok_config [OF ok c] by simp
  show "vault_ok (now env) ((vault_counters s)(owner \<mapsto> counter)) vid v"
    using less durations duration amount controller
    by (cases vid; cases controller) (auto simp: vault_ok_def v vid counter durations_ok_def)
  have "vc_next_id c0 \<le> vc_next_id counter" if "vault_counters s owner = Some c0" for c0
    using less that by (simp add: vid load_vault_counter_def counter)
  then show "vault_ok (now env) ((vault_counters s)(owner \<mapsto> counter)) j w"
    if "vault_ok (now env) (vault_counters s) j w" for j w
    using that vault_ok_later_counter by blast
  show "supply_tracked c1 (locked_total s - mval (\<lambda>_ v. uint (va_amount v)) (vaults s) vid + uint (va_amount v))"
    using lock_supply_tracked [OF c1] vaults_ok_config [OF ok c] free by (simp add: v)
  show "durations_ok c1" using supply_moves_durations(1) [OF c1] durations by simp
qed

lemma emptied_keeps_vaults:
  assumes ok: "vaults_ok t s" and c: "core_config_acc s = Some c" and v: "vaults s vid = Some v"
    and c1: "unlock_supply (va_amount v) c = Inr c1"
    and s': "vaults s' = (vaults s)(vid := None)" "vault_counters s' = vault_counters s"
      "core_config_acc s' = Some c1"
  shows "vaults_ok t s'"
proof -
  have fin: "finite (dom (vaults s))" using ok by (simp add: vaults_ok_def)
  have "locked_total s' = locked_total s - uint (va_amount v)"
    unfolding locked_total_def s'(1) msum_del [OF fin] using v by simp
  then have "supply_tracked c1 (locked_total s')" "durations_ok c1"
    using unlock_supply_tracked [OF c1] supply_moves_durations(2) [OF c1] vaults_ok_config [OF ok c] by simp_all
  then show ?thesis using ok fin by (auto simp: vaults_ok_def s')
qed

text \<open>Changing a vault's amount or end where it stands.\<close>

lemma vault_update_keeps:
  assumes ok: "vaults_ok t s" and c: "core_config_acc s = Some c" and v: "vaults s vid = Some v"
    and new: "vault_ok t (vault_counters s) vid v'"
    and cfg: "supply_tracked cfg (locked_total s - uint (va_amount v) + uint (va_amount v'))" "durations_ok cfg"
    and s': "vaults s' = (vaults s)(vid \<mapsto> v')" "vault_counters s' = vault_counters s"
      "core_config_acc s' = Some cfg"
  shows "vaults_ok t s'"
  by (rule vaults_ok_upd [OF ok new _ _ cfg(2) s']) (use v cfg(1) in simp_all)

lemma core_effect_keeps_vaults:
  assumes eff: "core_effect env op s s'" and ok: "vaults_ok (now env) s" and rt: "core_runtime H env op s"
  shows "vaults_ok (now env) s'"
  using eff
proof cases
  case (Opened c vid owner next_id amount duration controller revocable c1)
  show ?thesis
    by (rule opened_keeps_vaults [OF ok Opened(2-7,9,10) refl]) (simp_all add: Opened(1))
next
  case (Increased c vid v amount new_balance c1 g)
  note v_ok = vaults_ok_vault [OF ok Increased(3)]
  have grown: "uint new_balance = uint (va_amount v) + uint amount" by (rule checked_addD [OF Increased(5)])
  then have "va_amount v \<le> new_balance" by (simp add: word_le_def)
  then have "vault_ok (now env) (vault_counters s) vid (v\<lparr>va_amount := new_balance\<rparr>)"
    using v_ok by (auto simp: vault_ok_def)
  then show ?thesis
    using lock_supply_tracked [OF Increased(6)] supply_moves_durations(1) [OF Increased(6)]
      vaults_ok_config [OF ok Increased(2)] grown
    by (intro vault_update_keeps [where cfg = c1, OF ok Increased(2,3)]) (simp_all add: Increased(1) algebra_simps)
next
  case (ExtendedVault c vid v new_end)
  have "vault_ok (now env) (vault_counters s) vid (v\<lparr>va_end_timestamp := new_end\<rparr>)"
    using vaults_ok_vault [OF ok ExtendedVault(3)] ExtendedVault(5) by (auto simp: vault_ok_def)
  then show ?thesis
    using vaults_ok_config [OF ok ExtendedVault(2)]
    by (intro vault_update_keeps [where cfg = c, OF ok ExtendedVault(2,3)]) (simp_all add: ExtendedVault(1,2))
next
  case (Emptied c vid v vault_ta dest c1 g)
  show ?thesis by (rule emptied_keeps_vaults [OF ok Emptied(2,3,6)]) (simp_all add: Emptied(1))
next
  case (NameSet c h name owner g s1 reqs)
  then have "vaults s' = vaults s" "vault_counters s' = vault_counters s" "core_config_acc s' = core_config_acc s"
    unfolding set_primary_name_def require_iff by auto
  then show ?thesis using ok vaults_ok_frame by blast
next
  case (Configured c c')
  then show ?thesis
    using ok vaults_ok_config [OF ok, of c] by (simp add: vaults_ok_def locked_total_def same_supply_tracked)
next
  case (Initialised c)
  then show ?thesis using ok by (simp add: vaults_ok_def supply_tracked_def locked_total_def)
next
  case (SupplyFinalised c tot protocol circulating locked)
  then have "uint locked = locked_total s" using rt by (simp add: core_runtime_def)
  then show ?thesis
    using SupplyFinalised ok vaults_ok_config [OF ok, of c]
    by (simp add: vaults_ok_def supply_tracked_def locked_total_def durations_ok_def)
qed (rule vaults_ok_frame [THEN iffD2, OF _ _ _ ok]; simp add: drop_primary_name_def)+

lemma agreed_canonical:
  assumes "agreed env x s c k n" and "requests_ok t s" and "requester x \<noteq> Some 0"
  shows "canonical n \<and> k \<noteq> 0"
  using assms canonical_lowercase unfolding agreed_def requests_ok_def request_ok_def
  by (elim disjE exE conjE) (auto simp: requester_def)

lemma core_effect_keeps_names:
  assumes eff: "core_effect env op s s'" and linked: "names_linked H s" and reqs: "requests_ok t s"
    and rt: "core_runtime H env op s"
  shows "names_linked H s'"
  using eff
proof cases
  case (NameSet c h name k g s1 requests)
  have "h = H name" using NameSet(3) rt by (simp add: core_runtime_def)
  moreover have "canonical name \<and> k \<noteq> 0"
    using agreed_canonical [OF NameSet(4) reqs] rt by (simp add: core_runtime_def)
  moreover have "names_linked H (s\<lparr>core_gar := g\<rparr>)" using linked by (simp add: names_linked_def)
  ultimately have "names_linked H s1" using set_primary_name_linked NameSet(5) by blast
  then show ?thesis using NameSet(1) by (simp add: names_linked_def)
next
  case (NameRemoved k p h r)
  from names_linked_forward [OF linked NameRemoved(2)] have "canonical (pn_name p)" by blast
  then have "h = H (pn_name p)" using NameRemoved(5) rt by (simp add: core_runtime_def lowercase_canonical)
  then show ?thesis using drop_primary_name_linked [OF linked NameRemoved(2)] NameRemoved(1) by simp
qed (use linked in \<open>simp_all add: names_linked_def\<close>)

lemma core_effect_keeps_requests:
  assumes eff: "core_effect env op s s'" and reqs: "requests_ok (now env) s" and ok: "vaults_ok (now env) s"
    and rt: "core_runtime H env op s"
  shows "requests_ok (now env) s'"
  using eff
proof cases
  case (Requested c initiator given g rbump)
  have "0 < cc_primary_name_request_expiry c"
    using vaults_ok_config [OF ok Requested(2)] by (simp add: durations_ok_def)
  moreover have "initiator \<noteq> 0" using Requested(5) rt by (auto simp: core_runtime_def)
  ultimately show ?thesis
    using reqs canonical_lowercase [OF Requested(4)]
    by (simp add: requests_ok_def request_ok_def [of _ initiator] Requested(1))
next
  case (NameSet c h name owner g s1 requests)
  then show ?thesis using reqs unfolding requests_ok_def by (auto split: if_splits)
qed (use reqs in \<open>simp_all add: requests_ok_def drop_primary_name_def\<close>)

lemma core_step_keeps:
  assumes "core_inv H (now env) s" and "core_runtime H env op s" and "core_step env op s = Inr s'"
  shows "core_inv H (now env) s'"
  using assms core_step_effect [OF assms(3)] core_effect_keeps_vaults core_effect_keeps_names
    core_effect_keeps_requests
  unfolding core_inv_def by blast

interpretation core: machine_invariant now "core_runtime H" core_step "core_inv H"
  for H :: "string \<Rightarrow> name_hash"
  by unfold_locales (auto intro: core_inv_later core_step_keeps)

abbreviation core_exec :: "(core_env \<times> core_op) list \<Rightarrow> core_state \<Rightarrow> core_state" where
  "core_exec txs s \<equiv> exec core_step txs s"

abbreviation core_trace ::
  "(string \<Rightarrow> name_hash) \<Rightarrow> i64 \<Rightarrow> (core_env \<times> core_op) list \<Rightarrow> core_state \<Rightarrow> bool" where
  "core_trace H t txs s \<equiv> admissible_trace now (core_runtime H) core_step t txs s"

end
