(* ===== verification/Core_Safety.thy ===== *)
theory Core_Safety
  imports Core_Invariant Arns_Payments
begin

text \<open>
  What no transaction of \<open>ario-core\<close> does: take tokens out of a vault before its end, give or take
  a primary name without consent, or accept a primary name without its fee.
\<close>

section \<open>Vaults only grow until they are emptied\<close>

definition vault_grown :: "vault \<Rightarrow> vault \<Rightarrow> bool" where
  "vault_grown v v' \<longleftrightarrow> va_owner v' = va_owner v \<and> va_vault_id v' = va_vault_id v
     \<and> va_start_timestamp v' = va_start_timestamp v \<and> va_controller v' = va_controller v
     \<and> va_revocable v' = va_revocable v
     \<and> va_amount v \<le> va_amount v' \<and> va_end_timestamp v \<le> va_end_timestamp v'"

lemma vault_grown_refl [simp]: "vault_grown v v"
  by (simp add: vault_grown_def)

lemma vault_grown_trans: "vault_grown u v \<Longrightarrow> vault_grown v w \<Longrightarrow> vault_grown u w"
  by (auto simp: vault_grown_def)

lemma core_effect_vault:
  assumes eff: "core_effect env op s s'" and v: "vaults s k = Some v"
  shows "(\<exists>v'. vaults s' k = Some v' \<and> vault_grown v v')
       \<or> vaults s' k = None \<and> (\<exists>ta dest. may_empty env op k v ta dest)"
  using eff
proof cases
  case (Opened c vid owner next_id amount duration controller revocable c1)
  then have "vid \<noteq> k" using v by auto
  then show ?thesis using v Opened(1) by simp
next
  case (Increased c vid w amount new_balance c1 g)
  have "va_amount w \<le> new_balance" using checked_addD [OF Increased(5)] by (simp add: word_le_def)
  then show ?thesis using v Increased(1,3) by (cases "vid = k") (simp_all add: vault_grown_def)
next
  case (ExtendedVault c vid w new_end)
  then show ?thesis using v by (cases "vid = k") (simp_all add: vault_grown_def)
next
  case (Emptied c vid w vault_ta dest c1 g)
  then show ?thesis using v by (cases "vid = k") auto
next
  case (NameSet c h name owner g s1 reqs)
  then have "vaults s' = vaults s" unfolding set_primary_name_def require_iff by auto
  then show ?thesis using v by simp
qed (use v in \<open>simp_all add: drop_primary_name_def\<close>)

section \<open>Lock safety over histories\<close>

text \<open>
  The one early exit: the vault is revocable, and the wallet that signs the revocation is the
  controller that the vault records. A revocation that anyone else signs is not excepted.
\<close>

definition controller_revokes :: "pubkey \<times> u64 \<Rightarrow> vault \<Rightarrow> core_op \<Rightarrow> bool" where
  "controller_revokes k v op \<longleftrightarrow> va_revocable v
     \<and> (\<exists>c dest ta. va_controller v = Some c \<and> op = VaultOp (RevokeVaultOp k c dest ta))"

definition still_locked :: "pubkey \<times> u64 \<Rightarrow> vault \<Rightarrow> i64 \<Rightarrow> core_state \<Rightarrow> bool" where
  "still_locked k v t s \<longleftrightarrow> t < va_end_timestamp v \<longrightarrow> (\<exists>v'. vaults s k = Some v' \<and> vault_grown v v')"

lemma still_locked_step:
  assumes locked: "still_locked k v (now env) s" and no: "\<not> controller_revokes k v op"
    and run: "core_step env op s = Inr s'"
  shows "still_locked k v (now env) s'"
  unfolding still_locked_def
proof
  assume early: "now env < va_end_timestamp v"
  with locked obtain w where w: "vaults s k = Some w" "vault_grown v w" by (auto simp: still_locked_def)
  have "\<not> may_empty env op k w ta dest" for ta dest
    using early no w(2) by (auto simp: may_empty_def vault_grown_def controller_revokes_def)
  then show "\<exists>v'. vaults s' k = Some v' \<and> vault_grown v v'"
    using core_effect_vault [OF core_step_effect [OF run] w(1)] vault_grown_trans [OF w(2)] by blast
qed

interpretation lock: machine_invariant now "\<lambda>_ op _. \<not> controller_revokes k v op" core_step "still_locked k v"
  for k v
  by unfold_locales (auto simp: still_locked_def intro: still_locked_step [unfolded still_locked_def, rule_format])

text \<open>A side condition on the instruction alone may be asked of the list of transactions.\<close>

lemma admissible_restrict:
  "admissible_trace clock adm step t txs s \<Longrightarrow> (\<And>e op. (e, op) \<in> set txs \<Longrightarrow> P op) \<Longrightarrow>
     admissible_trace clock (\<lambda>_ op _. P op) step t txs s"
  by (induction clock adm step t txs s rule: admissible_trace.induct) (simp_all, blast)

section \<open>Consent\<close>

text \<open>Who took a primary name away: its wallet, or whoever controls the base name.\<close>

definition name_withdrawn :: "core_env \<Rightarrow> core_op \<Rightarrow> core_state \<Rightarrow> pubkey \<Rightarrow> bool" where
  "name_withdrawn env op s k \<longleftrightarrow>
     (\<exists>h. op = PrimaryNameOp (RemovePrimaryNameOp k h))
   \<or> (\<exists>c p who rem h prog. core_config_acc s = Some c \<and> primary_names s k = Some p
        \<and> op = PrimaryNameOp (RemovePrimaryNameForBaseNameOp k who rem h prog)
        \<and> name_controller env (cc_arns_program c) (pn_name p) ''@'' = Inr who)"

lemma core_effect_names:
  assumes "core_effect env op s s'" and "primary_names s' k \<noteq> primary_names s k"
  shows "(\<exists>c p. core_config_acc s = Some c \<and> primary_names s' k = Some p \<and> pn_owner p = k
            \<and> agreed env op s c k (pn_name p))
       \<or> primary_names s' k = None \<and> name_withdrawn env op s k"
  using assms(1)
proof cases
  case (NameSet c h name owner g s1 reqs)
  then obtain p where "primary_names s' = (primary_names s)(owner \<mapsto> p)" "pn_owner p = owner" "pn_name p = name"
    unfolding set_primary_name_def require_iff by auto
  then show ?thesis using NameSet(2,4) assms(2) by (cases "k = owner") auto
next
  case (NameRemoved owner p h r)
  then show ?thesis
    using assms(2) by (cases "k = owner") (auto simp: drop_primary_name_def name_withdrawn_def)
qed (use assms(2) in simp_all)

section \<open>Fees\<close>

text \<open>The accounts that a name's fee is computed from, and the fee by the schedule.\<close>

definition name_fee :: "core_env \<Rightarrow> pubkey \<Rightarrow> string \<Rightarrow> int" where
  "name_fee env arns name =
     (let record_data = av_data (account_at env (arns_record_address env arns (base_name_of env name)));
          demand_data = av_data (account_at env (demand_factor_address env arns));
          base = (if record_data ! 104 = 0 then 200000 else 1000000)
      in base * int (le_nat_at demand_data 8 8) div 1000000)"

text \<open>The name that an instruction asks for, and pays for.\<close>

definition name_asked :: "core_op \<Rightarrow> string option" where
  "name_asked op = (case op of
     PrimaryNameOp (RequestPrimaryNameOp _ _ _ _ name) \<Rightarrow> Some name
   | PrimaryNameOp (RequestFromFundingPlanOp _ _ _ name _) \<Rightarrow> Some name
   | PrimaryNameOp (RequestAndSetPrimaryNameOp _ _ _ _ name _ _) \<Rightarrow> Some name
   | PrimaryNameOp (RequestAndSetFromFundingPlanOp _ _ _ name _ _ _) \<Rightarrow> Some name
   | _ \<Rightarrow> None)"

lemma pay_from_wallet_paid:
  "pay_from_wallet env initiator ita pta fee s = Inr s' \<Longrightarrow> paid_into pta fee (core_gar s) (core_gar s')"
  by (cases "fee > 0")
    (auto simp: pay_from_wallet_def core_run_iff paid_into_def word_gt_0
      dest: token_transfer_paid [unfolded paid_into_def])

lemma pay_from_plan_paid:
  "pay_from_plan env infos plan initiator pta fee s = Inr s' \<Longrightarrow> paid_into pta fee (core_gar s) (core_gar s')"
  by (auto simp: pay_from_plan_def core_run_iff paid_into_def word_gt_0 split: if_splits
      dest: funding_plan_paid [unfolded paid_into_def])

lemma le_nat_at_less: "le_nat_at data i k < 256 ^ k"
proof -
  have "le_nat_at data i k < 256 ^ length (take k (drop i data))"
    unfolding le_nat_at_def by (rule le_nat_less)
  also have "\<dots> \<le> 256 ^ k" by (rule power_increasing) simp_all
  finally show ?thesis .
qed

lemma primary_name_fee_value:
  assumes "primary_name_fee base df = Inr fee"
  shows "uint fee = uint base * uint df div 1000000"
proof -
  obtain p where p: "checked_mul (as_u128 base) (as_u128 df) = Some p"
    and fee: "uint (p div 1000000) < 2 ^ 64" "fee = ucast (p div 1000000)"
    using assms by (auto simp: primary_name_fee_def ok_or_iff checked_div_def u64_try_from_iff split: if_splits)
  have "uint p = uint base * uint df" using checked_mulD [OF p] by simp
  moreover have "uint fee = uint (p div 1000000)" using uint_ucast_u64 [OF fee(1)] fee(2) by simp
  ultimately show ?thesis by (simp add: uint_div_distrib)
qed

text \<open>The two accounts that a successful quote was computed from sit at their addresses.\<close>

lemma quote_value:
  assumes quote: "quote_primary_name env c (nth_view env infos 0) (nth_view env infos 1) k = Inr x"
    and at: "validate_arns_record_exists env (nth_view env infos 0) (cc_arns_program c) (base_name_of env name) (now env) = Inr u"
  obtains fee where "uint fee = name_fee env (cc_arns_program c) name" and "k fee = Inr x"
proof -
  obtain df base fee where df: "read_demand_factor env (nth_view env infos 1) (cc_arns_program c) = Inr df"
    and base: "primary_name_base_fee (nth_view env infos 0) = Inr base"
    and fee: "primary_name_fee base df = Inr fee" and k: "k fee = Inr x"
    using quote by (auto simp: quote_primary_name_def and_then_iff)
  have rec: "nth_view env infos 0 = account_at env (arns_record_address env (cc_arns_program c) (base_name_of env name))"
    using at view_of_at unfolding nth_view_def validate_arns_record_exists_def require_iff by blast
  have dem: "nth_view env infos 1 = account_at env (demand_factor_address env (cc_arns_program c))"
    using df view_of_at unfolding nth_view_def read_demand_factor_def require_iff by blast
  have "uint df = int (le_nat_at (av_data (nth_view env infos 1)) 8 8)"
    using df le_nat_at_less [of "av_data (nth_view env infos 1)" 8 8]
    by (auto simp: read_demand_factor_def require_iff unsigned_of_nat take_bit_nat_eq_self)
  moreover have "uint base = (if av_data (nth_view env infos 0) ! 104 = 0 then 200000 else 1000000)"
    using base by (auto simp: primary_name_base_fee_def read_arns_purchase_type_def Let_def and_then_iff
        require_iff PRIMARY_NAME_REQUEST_BASE_FEE_LEASE_def PRIMARY_NAME_REQUEST_BASE_FEE_PERMABUY_def
        split: if_splits)
  ultimately have "uint fee = name_fee env (cc_arns_program c) name"
    using primary_name_fee_value [OF fee] unfolding name_fee_def Let_def rec dem by simp
  then show ?thesis using k that by blast
qed

definition fee_collected :: "core_env \<Rightarrow> string \<Rightarrow> core_state \<Rightarrow> core_state \<Rightarrow> bool" where
  "fee_collected env name s s' \<longleftrightarrow> (\<exists>c fee. core_config_acc s = Some c
     \<and> uint fee = name_fee env (cc_arns_program c) name
     \<and> paid_into (cc_treasury c) fee (core_gar s) (core_gar s'))"

lemma fee_collectedI:
  "core_config_acc s = Some c \<Longrightarrow> uint fee = name_fee env (cc_arns_program c) name \<Longrightarrow>
     paid_into (cc_treasury c) fee (core_gar s) (core_gar s1) \<Longrightarrow> core_gar s' = core_gar s1 \<Longrightarrow>
     fee_collected env name s s'"
  unfolding fee_collected_def by auto

lemma set_primary_name_gar: "set_primary_name env k n h s = Inr s' \<Longrightarrow> core_gar s' = core_gar s"
  by (auto simp: set_primary_name_def require_iff)

lemma open_request_gar: "open_request env k n c s = Inr s' \<Longrightarrow> core_gar s' = core_gar s"
  by (auto simp: open_request_def ok_or_iff)

lemma request_fee:
  assumes "request_primary_name env k ita pta rem name s = Inr s'"
  shows "fee_collected env name s s'"
  using assms unfolding request_primary_name_def RequestAccounts_def core_run_iff
  by (elim exE conjE quote_value) (auto simp: and_then_iff intro: fee_collectedI dest!: pay_from_wallet_paid open_request_gar)

lemma request_plan_fee:
  assumes "request_primary_name_from_funding_plan env k pta rem name plan s = Inr s'"
  shows "fee_collected env name s s'"
  using assms unfolding request_primary_name_from_funding_plan_def RequestAccounts_def core_run_iff Let_def
  by (elim exE conjE quote_value) (auto simp: and_then_iff intro: fee_collectedI dest!: pay_from_plan_paid open_request_gar)

lemma set_fee:
  assumes "request_and_set_primary_name env k ita pta rem name h prog s = Inr s'"
  shows "fee_collected env name s s'"
  using assms unfolding request_and_set_primary_name_def core_run_iff
  by (elim exE conjE quote_value) (auto simp: and_then_iff intro: fee_collectedI dest!: pay_from_wallet_paid set_primary_name_gar)

lemma set_plan_fee:
  assumes "request_and_set_primary_name_from_funding_plan env k pta rem name h plan prog s = Inr s'"
  shows "fee_collected env name s s'"
  using assms unfolding request_and_set_primary_name_from_funding_plan_def core_run_iff Let_def
  by (elim exE conjE quote_value) (auto simp: and_then_iff intro: fee_collectedI dest!: pay_from_plan_paid set_primary_name_gar)

lemma name_asked_fee:
  assumes "core_step env op s = Inr s'" and "name_asked op = Some name"
  shows "fee_collected env name s s'"
proof (cases op)
  case (PrimaryNameOp o1)
  then show ?thesis
    using assms
    by (cases o1) (auto simp: name_asked_def core_step_def primary_name_step_def
        intro: request_fee request_plan_fee set_fee set_plan_fee)
qed (use assms in \<open>simp_all add: name_asked_def\<close>)

end
