(* ===== verification/Ant_State.thy ===== *)
theory Ant_State
  imports Arns_Pricing
begin

text \<open>
  The accounts of \<open>ario-ant\<close> (\<open>state.rs\<close>), its errors (\<open>error.rs\<close>), its validators, and what its
  handlers see of the runtime. An ANT is a Metaplex Core asset; who holds it is read from the raw
  data of the asset's account, which other programs may change between any two transactions, so it
  belongs to the environment. Requests to Metaplex Core are logged, like token transfers elsewhere.
\<close>

section \<open>Constants\<close>

definition ANT_MAX_UNDERNAME_LENGTH :: nat where "ANT_MAX_UNDERNAME_LENGTH = 61"
definition MIN_TTL_SECONDS :: u32 where "MIN_TTL_SECONDS = 60"
definition DEFAULT_TTL_SECONDS :: u32 where "DEFAULT_TTL_SECONDS = 900"
definition MAX_TTL_SECONDS :: u32 where "MAX_TTL_SECONDS = 86400"
definition ANT_MAX_NAME_LENGTH :: nat where "ANT_MAX_NAME_LENGTH = 61"
definition MAX_DESCRIPTION_LENGTH :: nat where "MAX_DESCRIPTION_LENGTH = 128"
definition MAX_KEYWORDS :: nat where "MAX_KEYWORDS = 3"
definition MAX_KEYWORD_LENGTH :: nat where "MAX_KEYWORD_LENGTH = 32"
definition MAX_CONTROLLERS :: nat where "MAX_CONTROLLERS = 4"
definition MAX_ACL_PAGE_ENTRIES :: nat where "MAX_ACL_PAGE_ENTRIES = 256"
definition MAX_TICKER_LENGTH :: nat where "MAX_TICKER_LENGTH = 16"
definition ARWEAVE_TX_ID_LENGTH :: nat where "ARWEAVE_TX_ID_LENGTH = 43"
definition MAX_TARGET_LENGTH :: nat where "MAX_TARGET_LENGTH = 128"
definition CIDV0_LENGTH :: nat where "CIDV0_LENGTH = 46"
definition PROTOCOL_ARWEAVE :: u8 where "PROTOCOL_ARWEAVE = 0"
definition PROTOCOL_IPFS :: u8 where "PROTOCOL_IPFS = 1"

lemmas ant_lengths = ANT_MAX_UNDERNAME_LENGTH_def ANT_MAX_NAME_LENGTH_def MAX_DESCRIPTION_LENGTH_def
  MAX_KEYWORDS_def MAX_KEYWORD_LENGTH_def MAX_CONTROLLERS_def MAX_ACL_PAGE_ENTRIES_def
  MAX_TICKER_LENGTH_def ARWEAVE_TX_ID_LENGTH_def MAX_TARGET_LENGTH_def CIDV0_LENGTH_def

section \<open>Errors\<close>

text \<open>
  \<open>AntError\<close> in the source's order, then what the runtime answers: an account that is absent,
  already there or violates a constraint without an error of its own, a request that Metaplex Core
  refuses, and a panic.
\<close>

datatype (plugins only: code) ant_error =
    AntUnauthorized | UnauthorizedRecordAccess
  | InvalidUndername | UndernameTooLong | InvalidTarget | UnsupportedProtocol | TargetTooLong
  | InvalidTtl | RecordNotFound | RecordHasNoOwner | RecordTransferToSelf
  | ControllerAlreadyExists | ControllerNotFound | MaxControllersReached
  | AntNameTooLong | AntNameEmpty | DescriptionTooLong | TooManyKeywords | KeywordTooLong
  | InvalidKeyword | DuplicateKeyword | InvalidLogo
  | CannotChangePriorityOfRoot | PriorityRequiresOwnerOrController | OnlyOwnerOrControllerCanCreate
  | InvalidAsset | NotNftHolder | CannotRemoveRootRecord | TickerTooLong | TickerEmpty
  | AntMigrationInactive | AntMigrationAlreadyFinalized | AntInvalidAccountData | AntInvalidPda
  | AntAlreadyLatestVersion | AntUnknownSchemaVersion | AntMigrationExpired | RecordStillExists
  | AclEntryAlreadyExists | AclEntryNotFound | AclPageFull | AclConfigNotEmpty | AclPageNotEmpty
  | AclPageNotLast | AclPageUserMismatch | AclPageIndexMismatch | AclPageOutOfBounds
  | AclConfigUserMismatch | AclUnknownRole
  | NotCurrentOwner | NotCurrentController | StillCurrentOwner | StillCurrentController
  | TransferToSelf | InvalidArnsRecord | AssetStillExists | AntArithmeticOverflow
  | OrphanRecordAssetMismatch | AntInvalidAuthority | AlreadyProgramControlled
  | AntAccountMissing | AntAccountExists | AntConstraint | MplCoreFailed | AntPanicked

type_synonym 'a ant_result = "(ant_error, 'a) result"

section \<open>Accounts\<close>

record ant_migration_config =
  mc_authority :: pubkey
  mc_migration_authority :: pubkey
  mc_migration_active :: bool
  mc_bump :: u8
  mc_version :: schema_version

record ant_config =
  an_mint :: pubkey
  an_name :: string
  an_ticker :: string
  an_logo :: string
  an_description :: string
  an_keywords :: "string list"
  an_last_known_owner :: pubkey
  an_bump :: u8
  an_version :: schema_version

record ant_controllers =
  ct_mint :: pubkey
  ct_controllers :: "pubkey list"
  ct_bump :: u8
  ct_version :: schema_version

datatype acl_role = AclOwner | AclController

fun acl_role_u8 :: "acl_role \<Rightarrow> u8" where
  "acl_role_u8 AclOwner = 0"
| "acl_role_u8 AclController = 1"

record acl_entry =
  ae_asset :: pubkey
  ae_role :: u8

record acl_config =
  al_user :: pubkey
  al_page_count :: u64
  al_total_entries :: u64
  al_bump :: u8
  al_version :: schema_version

record acl_page =
  ap_user :: pubkey
  ap_page_idx :: u64
  ap_entries :: "acl_entry list"
  ap_bump :: u8
  ap_version :: schema_version

record ant_record =
  at_mint :: pubkey
  at_undername :: string
  at_target :: string
  at_target_protocol :: u8
  at_ttl_seconds :: u32
  at_priority :: "u32 option"
  at_owner :: "pubkey option"
  at_last_reconciled_owner :: pubkey
  at_bump :: u8
  at_version :: schema_version

record ant_record_metadata =
  md_mint :: pubkey
  md_undername_hash :: name_hash
  md_display_name :: "string option"
  md_record_logo :: "string option"
  md_record_description :: "string option"
  md_record_keywords :: "string list option"
  md_bump :: u8
  md_version :: schema_version

text \<open>\<open>AclPage::position_of\<close>.\<close>

fun position_of :: "pubkey \<Rightarrow> u8 \<Rightarrow> acl_entry list \<Rightarrow> nat option" where
  "position_of asset role [] = None"
| "position_of asset role (e # es) =
     (if ae_asset e = asset \<and> ae_role e = role then Some 0 else map_option Suc (position_of asset role es))"

section \<open>Environment and state\<close>

datatype ant_pda =
    AntConfigPda pubkey
  | AntControllersPda pubkey
  | AntRecordPda pubkey name_hash
  | AntRecordMetaPda pubkey name_hash
  | AntMigrationConfigPda
  | AntAuthorityPda pubkey
  | AclConfigPda pubkey
  | AclPagePda pubkey u64
  | AntForeign pubkey

text \<open>
  A request to Metaplex Core: the six-account instructions by their data, and \<open>transferV1\<close>.
\<close>

datatype mpl_call =
    MplTransfer pubkey pubkey pubkey \<comment> \<open>asset, payer and owner, new owner\<close>
  | MplUpdate pubkey pubkey pubkey "u8 list" \<comment> \<open>asset, payer, authority, instruction data\<close>

record ant_env = "ant_pda env" +
  ant_sha256 :: "string \<Rightarrow> name_hash"
  ant_unicode_lowercase :: "string \<Rightarrow> string" \<comment> \<open>\<open>str::to_lowercase\<close> of a string that is not all ASCII\<close>
  ant_assets :: "pubkey \<rightharpoonup> raw_account"
  ant_arns_records :: "name_hash \<rightharpoonup> arns_record"
  ant_upgrade_authority :: "pubkey option"
  mpl_accepts :: "mpl_call list \<Rightarrow> mpl_call \<Rightarrow> bool"

record ant_state =
  ant_configs :: "pubkey \<rightharpoonup> ant_config"
  ant_controller_lists :: "pubkey \<rightharpoonup> ant_controllers"
  ant_records :: "pubkey \<times> name_hash \<rightharpoonup> ant_record"
  ant_metadata :: "pubkey \<times> name_hash \<rightharpoonup> ant_record_metadata"
  acl_configs :: "pubkey \<rightharpoonup> acl_config"
  acl_pages :: "pubkey \<times> u64 \<rightharpoonup> acl_page"
  ant_migration_acc :: "ant_migration_config option"
  mpl_log :: "mpl_call list"

definition ant_lowercase :: "ant_env \<Rightarrow> string \<Rightarrow> string" where
  "ant_lowercase env t =
     (if list_all (\<lambda>c. (of_char c :: nat) < 128) t then map ascii_lowercase t
      else ant_unicode_lowercase env t)"

definition hash_undername :: "ant_env \<Rightarrow> string \<Rightarrow> name_hash" where
  "hash_undername env undername = ant_sha256 env (ant_lowercase env undername)"

definition mpl_invoke :: "ant_env \<Rightarrow> mpl_call \<Rightarrow> ant_state \<Rightarrow> ant_state ant_result" where
  "mpl_invoke env call s =
     require (mpl_accepts env (mpl_log s) call) MplCoreFailed (Inr (s\<lparr>mpl_log := mpl_log s @ [call]\<rparr>))"

section \<open>Validators\<close>

definition base64url :: "char \<Rightarrow> bool" where
  "base64url b \<longleftrightarrow> is_ascii_alphanumeric b \<or> b = CHR ''-'' \<or> b = CHR ''_''"

definition is_valid_undername :: "string \<Rightarrow> bool" where
  "is_valid_undername name =
     (if name = [] \<or> length name > ANT_MAX_UNDERNAME_LENGTH then False
      else if name = ''@'' then True
      else if \<not> is_ascii_alphanumeric (name ! 0) then False
      else list_all base64url name)"

definition is_valid_ant_arweave_id :: "string \<Rightarrow> bool" where
  "is_valid_ant_arweave_id i \<longleftrightarrow> length i = ARWEAVE_TX_ID_LENGTH \<and> list_all base64url i"

definition is_valid_ipfs_cid :: "string \<Rightarrow> bool" where
  "is_valid_ipfs_cid cid =
     (if length cid < 10 \<or> length cid > MAX_TARGET_LENGTH then False
      else if length cid = CIDV0_LENGTH \<and> take 2 cid = ''Qm'' then list_all is_ascii_alphanumeric (drop 2 cid)
      else if cid ! 0 \<notin> set ''bBzfuk'' then False
      else list_all is_ascii_alphanumeric (drop 1 cid))"

definition validate_target :: "string \<Rightarrow> u8 \<Rightarrow> bool" where
  "validate_target target protocol =
     (if target = [] \<or> length target > MAX_TARGET_LENGTH then False
      else if protocol = PROTOCOL_ARWEAVE then is_valid_ant_arweave_id target
      else if protocol = PROTOCOL_IPFS then is_valid_ipfs_cid target
      else False)"

definition is_valid_keyword :: "string \<Rightarrow> bool" where
  "is_valid_keyword kw \<longleftrightarrow> kw \<noteq> [] \<and> length kw \<le> MAX_KEYWORD_LENGTH
     \<and> list_all (\<lambda>b. base64url b \<or> b = CHR ''#'' \<or> b = CHR ''@'') kw"

text \<open>The nested loop over the keywords: each is valid and differs from every later one.\<close>

fun keywords_ok :: "string list \<Rightarrow> bool" where
  "keywords_ok [] = True"
| "keywords_ok (kw # others) =
     (if \<not> is_valid_keyword kw then False
      else if list_ex (\<lambda>other. kw = other) others then False
      else keywords_ok others)"

definition validate_keywords :: "string list \<Rightarrow> bool" where
  "validate_keywords keywords = (if length keywords > MAX_KEYWORDS then False else keywords_ok keywords)"

definition is_valid_ttl :: "u32 \<Rightarrow> bool" where
  "is_valid_ttl ttl \<longleftrightarrow> ttl \<ge> MIN_TTL_SECONDS \<and> ttl \<le> MAX_TTL_SECONDS"

definition is_valid_priority_for_undername :: "string \<Rightarrow> u32 option \<Rightarrow> bool" where
  "is_valid_priority_for_undername undername priority =
     (if undername = ''@'' then priority = None \<or> priority = Some 0 else True)"

text \<open>The owner and the update authority of an asset, at fixed offsets of its data.\<close>

definition read_asset_owner_data :: "u8 list \<Rightarrow> pubkey ant_result" where
  "read_asset_owner_data data =
     require (length data \<ge> 33) InvalidAsset (
     require (data ! 0 = 1) InvalidAsset (
     Inr (of_nat (le_nat_at data 1 32))))"

definition read_mpl_core_update_authority :: "u8 list \<Rightarrow> pubkey option ant_result" where
  "read_mpl_core_update_authority data =
     require (length data \<ge> 34) InvalidAsset (
     require (data ! 0 = 1) InvalidAsset (
     if data ! 33 = 1 then
       require (length data \<ge> 66) InvalidAsset (Inr (Some (of_nat (le_nat_at data 34 32))))
     else Inr None))"

text \<open>
  The asset account of a handler: it belongs to Metaplex Core, and its data names the holder. An
  account that does not exist has no data and another owner.
\<close>

definition core_asset :: "ant_env \<Rightarrow> pubkey \<Rightarrow> (u8 list \<Rightarrow> 'a ant_result) \<Rightarrow> 'a ant_result" where
  "core_asset env asset k =
     (case ant_assets env asset of
        None \<Rightarrow> Inl InvalidAsset
      | Some a \<Rightarrow> require (ra_owner a = MPL_CORE_PROGRAM_ID) InvalidAsset (k (ra_data a)))"

definition asset_holder :: "ant_env \<Rightarrow> pubkey \<Rightarrow> pubkey option" where
  "asset_holder env asset =
     (case core_asset env asset read_asset_owner_data of Inl _ \<Rightarrow> None | Inr o1 \<Rightarrow> Some o1)"

section \<open>Permissions\<close>

text \<open>
  \<open>reconcile_and_check_permission\<close>: a holder that the configuration does not know yet clears the
  controllers; then the holder and the remaining controllers may act.
\<close>

definition reconcile_ownership ::
  "ant_config \<Rightarrow> ant_controllers \<Rightarrow> pubkey \<Rightarrow> ant_config \<times> ant_controllers" where
  "reconcile_ownership cfg ctl current_nft_owner =
     (if an_last_known_owner cfg \<noteq> current_nft_owner
      then (cfg\<lparr>an_last_known_owner := current_nft_owner\<rparr>, ctl\<lparr>ct_controllers := []\<rparr>)
      else (cfg, ctl))"

definition reconcile_and_check_permission ::
  "ant_config \<Rightarrow> ant_controllers \<Rightarrow> pubkey \<Rightarrow> pubkey \<Rightarrow> ant_config \<times> ant_controllers \<times> bool" where
  "reconcile_and_check_permission cfg ctl current_nft_owner caller =
     (let (cfg1, ctl1) = reconcile_ownership cfg ctl current_nft_owner
      in (cfg1, ctl1, caller = current_nft_owner \<or> caller \<in> set (ct_controllers ctl1)))"

end
