(* ===== verification/Ant_Records.thy ===== *)
theory Ant_Records
  imports Ant_State
begin

text \<open>
  One ANT (\<open>lib.rs\<close>): its initialisation, its records and their metadata, its own metadata, the
  reconciliation after a transfer outside the program, and the closing of its accounts. A record
  sits at the hash of its undername in lower case.
\<close>

named_theorems ant_handlers "instruction handlers of ario-ant, unfolded"
named_theorems ant_accounts_defs "account contexts of ario-ant, unfolded"

section \<open>Accounts and permissions of an instruction\<close>

text \<open>The asset, the configuration and the controllers of one ANT.\<close>

definition AntAccounts ::
  "ant_env \<Rightarrow> pubkey \<Rightarrow> ant_state \<Rightarrow> (u8 list \<Rightarrow> ant_config \<Rightarrow> ant_controllers \<Rightarrow> 'a ant_result) \<Rightarrow> 'a ant_result" where
  [ant_accounts_defs]: "AntAccounts env asset s k =
     core_asset env asset (\<lambda>asset_data.
     ok_or (ant_configs s asset) AntAccountMissing (\<lambda>cfg.
     ok_or (ant_controller_lists s asset) AntAccountMissing (\<lambda>ctl.
     k asset_data cfg ctl)))"

text \<open>Reading the holder and reconciling; the continuation learns whether the caller may act.\<close>

definition permitted ::
  "u8 list \<Rightarrow> ant_config \<Rightarrow> ant_controllers \<Rightarrow> pubkey
     \<Rightarrow> (ant_config \<Rightarrow> ant_controllers \<Rightarrow> bool \<Rightarrow> 'a ant_result) \<Rightarrow> 'a ant_result" where
  [ant_accounts_defs]: "permitted asset_data cfg ctl caller k =
     and_then (read_asset_owner_data asset_data) (\<lambda>nft_owner.
     case reconcile_and_check_permission cfg ctl nft_owner caller of (cfg1, ctl1, ok) \<Rightarrow> k cfg1 ctl1 ok)"

definition save_ant :: "pubkey \<Rightarrow> ant_config \<Rightarrow> ant_controllers \<Rightarrow> ant_state \<Rightarrow> ant_state" where
  "save_ant asset cfg ctl s =
     s\<lparr>ant_configs := (ant_configs s)(asset \<mapsto> cfg),
       ant_controller_lists := (ant_controller_lists s)(asset \<mapsto> ctl)\<rparr>"

text \<open>A record passed by its address must sit at the hash of its own undername.\<close>

definition existing_record ::
  "ant_env \<Rightarrow> pubkey \<Rightarrow> name_hash \<Rightarrow> ant_state \<Rightarrow> (ant_record \<Rightarrow> 'a ant_result) \<Rightarrow> 'a ant_result" where
  [ant_accounts_defs]: "existing_record env asset h s k =
     ok_or (ant_records s (asset, h)) AntAccountMissing (\<lambda>r.
     require (h = hash_undername env (at_undername r)) AntConstraint (k r))"

text \<open>The caller holds the asset.\<close>

definition holder_only :: "u8 list \<Rightarrow> pubkey \<Rightarrow> 'a ant_result \<Rightarrow> 'a ant_result" where
  [ant_accounts_defs]: "holder_only asset_data caller k =
     and_then (read_asset_owner_data asset_data) (\<lambda>nft_owner.
     require (caller = nft_owner) NotNftHolder k)"

section \<open>Initialisation\<close>

record initialize_ant_params =
  ia_name :: string
  ia_ticker :: "string option"
  ia_target :: string
  ia_target_protocol :: "u8 option"
  ia_logo :: string
  ia_description :: string
  ia_keywords :: "string list"

definition DEFAULT_LOGO :: string where
  "DEFAULT_LOGO = ''AnYvLJTWcG9lr2Ll5MwYWZR2o5uTE39WbpYB0zCxwKM''"

definition initialize_ant ::
  "ant_env \<Rightarrow> pubkey \<Rightarrow> pubkey \<Rightarrow> initialize_ant_params \<Rightarrow> ant_state \<Rightarrow> ant_state ant_result" where
  [ant_handlers]: "initialize_ant env asset owner params s =
     core_asset env asset (\<lambda>asset_data.
     let root = (asset, hash_undername env ''@'') in
     require (ant_configs s asset = None) AntAccountExists (
     require (ant_controller_lists s asset = None) AntAccountExists (
     require (ant_records s root = None) AntAccountExists (
     and_then (read_asset_owner_data asset_data) (\<lambda>nft_owner.
     require (owner = nft_owner) NotNftHolder (
     require (ia_name params \<noteq> []) AntNameEmpty (
     require (length (ia_name params) \<le> ANT_MAX_NAME_LENGTH) AntNameTooLong (
     require (case ia_ticker params of None \<Rightarrow> True
              | Some ticker \<Rightarrow> ticker \<noteq> [] \<and> length ticker \<le> MAX_TICKER_LENGTH) TickerTooLong (
     let target_protocol = (case ia_target_protocol params of None \<Rightarrow> PROTOCOL_ARWEAVE | Some p \<Rightarrow> p) in
     require (validate_target (ia_target params) target_protocol) InvalidTarget (
     require (ia_logo params \<noteq> [] \<longrightarrow> is_valid_ant_arweave_id (ia_logo params)) InvalidLogo (
     require (ia_description params \<noteq> [] \<longrightarrow> length (ia_description params) \<le> MAX_DESCRIPTION_LENGTH)
       DescriptionTooLong (
     require (ia_keywords params \<noteq> [] \<longrightarrow> validate_keywords (ia_keywords params)) InvalidKeyword (
     Inr (save_ant asset
       \<lparr>an_mint = asset, an_name = ia_name params,
        an_ticker = (case ia_ticker params of None \<Rightarrow> ''ANT'' | Some ticker \<Rightarrow> ticker),
        an_logo = (if ia_logo params = [] then DEFAULT_LOGO else ia_logo params),
        an_description = ia_description params, an_keywords = ia_keywords params,
        an_last_known_owner = owner, an_bump = pda_bump env (AntConfigPda asset), an_version = V1_0_0\<rparr>
       \<lparr>ct_mint = asset, ct_controllers = [owner], ct_bump = pda_bump env (AntControllersPda asset),
        ct_version = V1_0_0\<rparr>
       (s\<lparr>ant_records := (ant_records s)(root \<mapsto>
            \<lparr>at_mint = asset, at_undername = ''@'', at_target = ia_target params,
             at_target_protocol = target_protocol, at_ttl_seconds = DEFAULT_TTL_SECONDS,
             at_priority = Some 0, at_owner = None, at_last_reconciled_owner = owner,
             at_bump = pda_bump env (AntRecordPda asset (snd root)), at_version = V1_0_0\<rparr>)\<rparr>)))))))))))))))"

section \<open>Records\<close>

record set_record_params =
  sr_undername :: string
  sr_target :: string
  sr_target_protocol :: u8
  sr_ttl_seconds :: u32
  sr_priority :: "u32 option"
  sr_record_owner :: "pubkey option"

text \<open>A fresh account of \<open>init_if_needed\<close> is zeroed.\<close>

definition zeroed_record :: ant_record where
  "zeroed_record = \<lparr>at_mint = 0, at_undername = [], at_target = [], at_target_protocol = 0,
     at_ttl_seconds = 0, at_priority = None, at_owner = None, at_last_reconciled_owner = 0, at_bump = 0,
     at_version = SchemaVersion 0 0 0\<rparr>"

definition load_record :: "ant_state \<Rightarrow> pubkey \<times> name_hash \<Rightarrow> ant_record" where
  "load_record s k = (case ant_records s k of None \<Rightarrow> zeroed_record | Some r \<Rightarrow> r)"

text \<open>A delegate named before the asset changed hands is dropped.\<close>

definition refresh_record :: "ant_config \<Rightarrow> ant_record \<Rightarrow> ant_record" where
  "refresh_record cfg r =
     (if at_last_reconciled_owner r \<noteq> an_last_known_owner cfg
      then r\<lparr>at_owner := None, at_last_reconciled_owner := an_last_known_owner cfg\<rparr> else r)"

definition claim_record ::
  "ant_env \<Rightarrow> pubkey \<Rightarrow> pubkey \<Rightarrow> name_hash \<Rightarrow> string \<Rightarrow> ant_config \<Rightarrow> bool \<Rightarrow> ant_record \<Rightarrow> ant_record ant_result" where
  "claim_record env asset caller h undername cfg is_owner_or_controller r =
     (let is_new = (at_undername r = []); r1 = (if \<not> is_new then refresh_record cfg r else r) in
      if is_new then
        require is_owner_or_controller OnlyOwnerOrControllerCanCreate (
        Inr (r1\<lparr>at_mint := asset, at_undername := undername,
                at_last_reconciled_owner := an_last_known_owner cfg,
                at_bump := pda_bump env (AntRecordPda asset h), at_version := V1_0_0\<rparr>))
      else
        require (is_owner_or_controller \<or> at_owner r1 = Some caller) UnauthorizedRecordAccess (Inr r1))"

definition prioritise_record ::
  "string \<Rightarrow> u32 option \<Rightarrow> bool \<Rightarrow> ant_record \<Rightarrow> ant_record ant_result" where
  "prioritise_record undername priority is_owner_or_controller r =
     (if undername = ''@'' then
        require (is_valid_priority_for_undername ''@'' priority) CannotChangePriorityOfRoot
          (Inr (r\<lparr>at_priority := Some 0\<rparr>))
      else if priority \<noteq> None then
        require is_owner_or_controller PriorityRequiresOwnerOrController (Inr (r\<lparr>at_priority := priority\<rparr>))
      else Inr r)"

definition set_record ::
  "ant_env \<Rightarrow> pubkey \<Rightarrow> pubkey \<Rightarrow> set_record_params \<Rightarrow> ant_state \<Rightarrow> ant_state ant_result" where
  [ant_handlers]: "set_record env asset caller params s =
     AntAccounts env asset s (\<lambda>asset_data cfg ctl.
     let h = hash_undername env (sr_undername params);
         undername = ant_lowercase env (sr_undername params) in
     require (is_valid_undername undername) InvalidUndername (
     require (validate_target (sr_target params) (sr_target_protocol params)) InvalidTarget (
     require (is_valid_ttl (sr_ttl_seconds params)) InvalidTtl (
     permitted asset_data cfg ctl caller (\<lambda>cfg1 ctl1 is_owner_or_controller.
     and_then (claim_record env asset caller h undername cfg1 is_owner_or_controller (load_record s (asset, h))) (\<lambda>r1.
     and_then (prioritise_record undername (sr_priority params) is_owner_or_controller r1) (\<lambda>r2.
     let r3 = (if is_owner_or_controller then r2\<lparr>at_owner := sr_record_owner params\<rparr> else r2) in
     Inr (save_ant asset cfg1 ctl1 (s\<lparr>ant_records := (ant_records s)((asset, h) \<mapsto>
       r3\<lparr>at_target := sr_target params, at_target_protocol := sr_target_protocol params,
          at_ttl_seconds := sr_ttl_seconds params\<rparr>)\<rparr>)))))))))"

text \<open>The record and, where the transaction names it, its metadata are closed.\<close>

definition remove_record ::
  "ant_env \<Rightarrow> pubkey \<Rightarrow> pubkey \<Rightarrow> name_hash \<Rightarrow> bool \<Rightarrow> ant_state \<Rightarrow> ant_state ant_result" where
  [ant_handlers]: "remove_record env asset caller h with_metadata s =
     AntAccounts env asset s (\<lambda>asset_data cfg ctl.
     existing_record env asset h s (\<lambda>r.
     require (with_metadata \<longrightarrow> ant_metadata s (asset, h) \<noteq> None) AntAccountMissing (
     require (at_undername r \<noteq> ''@'') CannotRemoveRootRecord (
     permitted asset_data cfg ctl caller (\<lambda>cfg1 ctl1 ok.
     require ok AntUnauthorized (
     Inr (save_ant asset cfg1 ctl1 (s\<lparr>ant_records := (ant_records s)((asset, h) := None),
       ant_metadata := (if with_metadata then (ant_metadata s)((asset, h) := None) else ant_metadata s)\<rparr>))))))))"

definition transfer_record ::
  "ant_env \<Rightarrow> pubkey \<Rightarrow> pubkey \<Rightarrow> name_hash \<Rightarrow> pubkey \<Rightarrow> ant_state \<Rightarrow> ant_state ant_result" where
  [ant_handlers]: "transfer_record env asset caller h new_owner s =
     AntAccounts env asset s (\<lambda>asset_data cfg ctl.
     existing_record env asset h s (\<lambda>r.
     permitted asset_data cfg ctl caller (\<lambda>cfg1 ctl1 is_owner_or_controller.
     let r1 = refresh_record cfg1 r in
     and_then
       (if is_owner_or_controller then
          require (at_owner r1 \<noteq> Some new_owner) RecordTransferToSelf (Inr ())
        else
          ok_or (at_owner r1) RecordHasNoOwner (\<lambda>o1.
          require (o1 = caller) UnauthorizedRecordAccess (
          require (o1 \<noteq> new_owner) RecordTransferToSelf (Inr ()))))
       (\<lambda>_. Inr (save_ant asset cfg1 ctl1 (s\<lparr>ant_records := (ant_records s)((asset, h) \<mapsto>
              r1\<lparr>at_owner := Some new_owner\<rparr>)\<rparr>))))))"

section \<open>Metadata of the ANT\<close>

text \<open>What the five setters do once their argument is valid.\<close>

definition manage_metadata ::
  "(ant_config \<Rightarrow> ant_config) \<Rightarrow> pubkey \<Rightarrow> pubkey \<Rightarrow> u8 list \<Rightarrow> ant_config \<Rightarrow> ant_controllers
     \<Rightarrow> ant_state \<Rightarrow> ant_state ant_result" where
  [ant_accounts_defs]: "manage_metadata f asset caller asset_data cfg ctl s =
     permitted asset_data cfg ctl caller (\<lambda>cfg1 ctl1 ok.
     require ok AntUnauthorized (Inr (save_ant asset (f cfg1) ctl1 s)))"

definition set_name :: "ant_env \<Rightarrow> pubkey \<Rightarrow> pubkey \<Rightarrow> string \<Rightarrow> ant_state \<Rightarrow> ant_state ant_result" where
  [ant_handlers]: "set_name env asset caller name s =
     AntAccounts env asset s (\<lambda>asset_data cfg ctl.
     require (name \<noteq> []) AntNameEmpty (
     require (length name \<le> ANT_MAX_NAME_LENGTH) AntNameTooLong (
     manage_metadata (\<lambda>c. c\<lparr>an_name := name\<rparr>) asset caller asset_data cfg ctl s)))"

definition set_ticker :: "ant_env \<Rightarrow> pubkey \<Rightarrow> pubkey \<Rightarrow> string \<Rightarrow> ant_state \<Rightarrow> ant_state ant_result" where
  [ant_handlers]: "set_ticker env asset caller ticker s =
     AntAccounts env asset s (\<lambda>asset_data cfg ctl.
     require (ticker \<noteq> []) TickerEmpty (
     require (length ticker \<le> MAX_TICKER_LENGTH) TickerTooLong (
     manage_metadata (\<lambda>c. c\<lparr>an_ticker := ticker\<rparr>) asset caller asset_data cfg ctl s)))"

definition set_description :: "ant_env \<Rightarrow> pubkey \<Rightarrow> pubkey \<Rightarrow> string \<Rightarrow> ant_state \<Rightarrow> ant_state ant_result" where
  [ant_handlers]: "set_description env asset caller description s =
     AntAccounts env asset s (\<lambda>asset_data cfg ctl.
     require (length description \<le> MAX_DESCRIPTION_LENGTH) DescriptionTooLong (
     manage_metadata (\<lambda>c. c\<lparr>an_description := description\<rparr>) asset caller asset_data cfg ctl s))"

definition set_keywords :: "ant_env \<Rightarrow> pubkey \<Rightarrow> pubkey \<Rightarrow> string list \<Rightarrow> ant_state \<Rightarrow> ant_state ant_result" where
  [ant_handlers]: "set_keywords env asset caller keywords s =
     AntAccounts env asset s (\<lambda>asset_data cfg ctl.
     require (validate_keywords keywords) InvalidKeyword (
     manage_metadata (\<lambda>c. c\<lparr>an_keywords := keywords\<rparr>) asset caller asset_data cfg ctl s))"

definition set_logo :: "ant_env \<Rightarrow> pubkey \<Rightarrow> pubkey \<Rightarrow> string \<Rightarrow> ant_state \<Rightarrow> ant_state ant_result" where
  [ant_handlers]: "set_logo env asset caller logo s =
     AntAccounts env asset s (\<lambda>asset_data cfg ctl.
     require (is_valid_ant_arweave_id logo) InvalidLogo (
     manage_metadata (\<lambda>c. c\<lparr>an_logo := logo\<rparr>) asset caller asset_data cfg ctl s))"

section \<open>Reconciliation\<close>

definition reconcile :: "ant_env \<Rightarrow> pubkey \<Rightarrow> ant_state \<Rightarrow> ant_state ant_result" where
  [ant_handlers]: "reconcile env asset s =
     AntAccounts env asset s (\<lambda>asset_data cfg ctl.
     and_then (read_asset_owner_data asset_data) (\<lambda>nft_owner.
     case reconcile_ownership cfg ctl nft_owner of (cfg1, ctl1) \<Rightarrow> Inr (save_ant asset cfg1 ctl1 s)))"

section \<open>Metadata of a record\<close>

record set_record_metadata_params =
  sm_undername :: string
  sm_display_name :: "string option"
  sm_record_logo :: "string option"
  sm_record_description :: "string option"
  sm_record_keywords :: "string list option"

definition set_record_metadata ::
  "ant_env \<Rightarrow> pubkey \<Rightarrow> pubkey \<Rightarrow> set_record_metadata_params \<Rightarrow> ant_state \<Rightarrow> ant_state ant_result" where
  [ant_handlers]: "set_record_metadata env asset caller params s =
     AntAccounts env asset s (\<lambda>asset_data cfg ctl.
     let h = hash_undername env (sm_undername params);
         undername = ant_lowercase env (sm_undername params) in
     ok_or (ant_records s (asset, h)) AntAccountMissing (\<lambda>r.
     require (is_valid_undername undername) InvalidUndername (
     require (pred_option (\<lambda>dn. length dn \<le> ANT_MAX_NAME_LENGTH) (sm_display_name params)) AntNameTooLong (
     require (pred_option is_valid_ant_arweave_id (sm_record_logo params)) InvalidLogo (
     require (pred_option (\<lambda>d. length d \<le> MAX_DESCRIPTION_LENGTH) (sm_record_description params)) DescriptionTooLong (
     require (pred_option validate_keywords (sm_record_keywords params)) InvalidKeyword (
     permitted asset_data cfg ctl caller (\<lambda>cfg1 ctl1 is_owner_or_controller.
     require (at_undername r \<noteq> []) RecordNotFound (
     let record_owner_valid = (at_last_reconciled_owner r = an_last_known_owner cfg1) in
     require (is_owner_or_controller \<or> record_owner_valid \<and> at_owner r = Some caller) UnauthorizedRecordAccess (
     Inr (save_ant asset cfg1 ctl1 (s\<lparr>ant_metadata := (ant_metadata s)((asset, h) \<mapsto>
       \<lparr>md_mint = asset, md_undername_hash = hash_undername env undername,
        md_display_name = sm_display_name params, md_record_logo = sm_record_logo params,
        md_record_description = sm_record_description params, md_record_keywords = sm_record_keywords params,
        md_bump = pda_bump env (AntRecordMetaPda asset h), md_version = V1_0_0\<rparr>)\<rparr>))))))))))))"

definition remove_record_metadata ::
  "ant_env \<Rightarrow> pubkey \<Rightarrow> pubkey \<Rightarrow> string \<Rightarrow> ant_state \<Rightarrow> ant_state ant_result" where
  [ant_handlers]: "remove_record_metadata env asset caller undername s =
     AntAccounts env asset s (\<lambda>asset_data cfg ctl.
     let h = hash_undername env undername in
     ok_or (ant_metadata s (asset, h)) AntAccountMissing (\<lambda>_.
     require (is_valid_undername (ant_lowercase env undername)) InvalidUndername (
     permitted asset_data cfg ctl caller (\<lambda>cfg1 ctl1 ok.
     require ok AntUnauthorized (
     Inr (save_ant asset cfg1 ctl1 (s\<lparr>ant_metadata := (ant_metadata s)((asset, h) := None)\<rparr>)))))))"

text \<open>Anyone may close the metadata of a record that is gone.\<close>

definition close_orphaned_record_metadata ::
  "ant_env \<Rightarrow> pubkey \<Rightarrow> string \<Rightarrow> ant_state \<Rightarrow> ant_state ant_result" where
  [ant_handlers]: "close_orphaned_record_metadata env asset undername s =
     core_asset env asset (\<lambda>_.
     let lower = ant_lowercase env undername; h = hash_undername env lower in
     ok_or (ant_metadata s (asset, h)) AntAccountMissing (\<lambda>_.
     require (is_valid_undername lower) InvalidUndername (
     require (ant_records s (asset, h) = None) RecordStillExists (
     Inr (s\<lparr>ant_metadata := (ant_metadata s)((asset, h) := None)\<rparr>)))))"

section \<open>Closing accounts\<close>

definition close_ant_record ::
  "ant_env \<Rightarrow> pubkey \<Rightarrow> pubkey \<Rightarrow> string \<Rightarrow> ant_state \<Rightarrow> ant_state ant_result" where
  [ant_handlers]: "close_ant_record env asset caller undername s =
     core_asset env asset (\<lambda>asset_data.
     let k = (asset, hash_undername env (ant_lowercase env undername)) in
     ok_or (ant_records s k) AntAccountMissing (\<lambda>_.
     holder_only asset_data caller (Inr (s\<lparr>ant_records := (ant_records s)(k := None)\<rparr>))))"

definition close_ant_record_metadata_for_owner ::
  "ant_env \<Rightarrow> pubkey \<Rightarrow> pubkey \<Rightarrow> string \<Rightarrow> ant_state \<Rightarrow> ant_state ant_result" where
  [ant_handlers]: "close_ant_record_metadata_for_owner env asset caller undername s =
     core_asset env asset (\<lambda>asset_data.
     let k = (asset, hash_undername env (ant_lowercase env undername)) in
     ok_or (ant_metadata s k) AntAccountMissing (\<lambda>_.
     holder_only asset_data caller (Inr (s\<lparr>ant_metadata := (ant_metadata s)(k := None)\<rparr>))))"

definition close_ant_controllers ::
  "ant_env \<Rightarrow> pubkey \<Rightarrow> pubkey \<Rightarrow> ant_state \<Rightarrow> ant_state ant_result" where
  [ant_handlers]: "close_ant_controllers env asset caller s =
     core_asset env asset (\<lambda>asset_data.
     ok_or (ant_controller_lists s asset) AntAccountMissing (\<lambda>_.
     holder_only asset_data caller
       (Inr (s\<lparr>ant_controller_lists := (ant_controller_lists s)(asset := None)\<rparr>))))"

definition close_ant_config ::
  "ant_env \<Rightarrow> pubkey \<Rightarrow> pubkey \<Rightarrow> ant_state \<Rightarrow> ant_state ant_result" where
  [ant_handlers]: "close_ant_config env asset caller s =
     core_asset env asset (\<lambda>asset_data.
     ok_or (ant_configs s asset) AntAccountMissing (\<lambda>_.
     holder_only asset_data caller (Inr (s\<lparr>ant_configs := (ant_configs s)(asset := None)\<rparr>))))"

end
