(* ===== verification/Ant_Acl.thy ===== *)
theory Ant_Acl
  imports Ant_Records
begin

text \<open>
  The paginated access list of \<open>ario-ant\<close> (\<open>acl.rs\<close>): a head and pages per wallet, and the
  instructions of \<open>lib.rs\<close> that keep it in step with an ANT: adding and removing a controller, and
  the transfer. Resizing a page moves rent only and is left out.
\<close>

section \<open>Pages\<close>

text \<open>\<open>Vec::swap_remove\<close>: the last element takes the place of the removed one.\<close>

definition swap_remove :: "nat \<Rightarrow> 'a list \<Rightarrow> 'a list" where
  "swap_remove i xs = butlast (xs[i := last xs])"

definition page_push_unique :: "acl_page \<Rightarrow> pubkey \<Rightarrow> u8 \<Rightarrow> acl_page ant_result" where
  "page_push_unique page asset role =
     require (position_of asset role (ap_entries page) = None) AclEntryAlreadyExists (
     require (length (ap_entries page) < MAX_ACL_PAGE_ENTRIES) AclPageFull (
     Inr (page\<lparr>ap_entries := ap_entries page @ [\<lparr>ae_asset = asset, ae_role = role\<rparr>]\<rparr>)))"

definition page_swap_remove :: "acl_page \<Rightarrow> pubkey \<Rightarrow> u8 \<Rightarrow> acl_page ant_result" where
  "page_swap_remove page asset role =
     ok_or (position_of asset role (ap_entries page)) AclEntryNotFound (\<lambda>pos.
     Inr (page\<lparr>ap_entries := swap_remove pos (ap_entries page)\<rparr>))"

definition assert_page_belongs :: "acl_config \<Rightarrow> acl_page \<Rightarrow> 'a ant_result \<Rightarrow> 'a ant_result" where
  [ant_accounts_defs]: "assert_page_belongs cfg page k =
     require (ap_user page = al_user cfg) AclPageUserMismatch (
     require (ap_page_idx page < al_page_count cfg) AclPageOutOfBounds k)"

text \<open>
  The head at a wallet's address, and the page at the address that the head's wallet and the page's
  own index derive.
\<close>

definition acl_accounts ::
  "pubkey \<Rightarrow> u64 \<Rightarrow> ant_state \<Rightarrow> (acl_config \<Rightarrow> acl_page \<Rightarrow> 'a ant_result) \<Rightarrow> 'a ant_result" where
  [ant_accounts_defs]: "acl_accounts user idx s k =
     ok_or (acl_configs s user) AntAccountMissing (\<lambda>cfg.
     ok_or (acl_pages s (al_user cfg, idx)) AntAccountMissing (\<lambda>page.
     require (ap_page_idx page = idx) AntConstraint (k cfg page)))"

text \<open>Writing an entry, or taking one out: the page, and the head's count.\<close>

definition add_entry ::
  "pubkey \<Rightarrow> acl_config \<Rightarrow> acl_page \<Rightarrow> pubkey \<Rightarrow> acl_role \<Rightarrow> ant_state \<Rightarrow> ant_state ant_result" where
  [ant_accounts_defs]: "add_entry user cfg page asset role s =
     and_then (page_push_unique page asset (acl_role_u8 role)) (\<lambda>page1.
     Inr (s\<lparr>acl_pages := (acl_pages s)((al_user cfg, ap_page_idx page) \<mapsto> page1),
            acl_configs := (acl_configs s)(user \<mapsto>
              cfg\<lparr>al_total_entries := saturating_add (al_total_entries cfg) 1\<rparr>)\<rparr>))"

definition remove_entry ::
  "pubkey \<Rightarrow> acl_config \<Rightarrow> acl_page \<Rightarrow> pubkey \<Rightarrow> acl_role \<Rightarrow> ant_state \<Rightarrow> ant_state ant_result" where
  [ant_accounts_defs]: "remove_entry user cfg page asset role s =
     and_then (page_swap_remove page asset (acl_role_u8 role)) (\<lambda>page1.
     Inr (s\<lparr>acl_pages := (acl_pages s)((al_user cfg, ap_page_idx page) \<mapsto> page1),
            acl_configs := (acl_configs s)(user \<mapsto>
              cfg\<lparr>al_total_entries := saturating_sub (al_total_entries cfg) 1\<rparr>)\<rparr>))"

section \<open>Heads and pages\<close>

definition register_acl_config :: "ant_env \<Rightarrow> pubkey \<Rightarrow> ant_state \<Rightarrow> ant_state ant_result" where
  [ant_handlers]: "register_acl_config env user s =
     require (acl_configs s user = None) AntAccountExists (
     Inr (s\<lparr>acl_configs := (acl_configs s)(user \<mapsto>
       \<lparr>al_user = user, al_page_count = 0, al_total_entries = 0, al_bump = pda_bump env (AclConfigPda user),
        al_version = V1_0_0\<rparr>)\<rparr>))"

definition close_acl_config :: "pubkey \<Rightarrow> ant_state \<Rightarrow> ant_state ant_result" where
  [ant_handlers]: "close_acl_config user s =
     ok_or (acl_configs s user) AntAccountMissing (\<lambda>cfg.
     require (al_user cfg = user) AntConstraint (
     require (al_page_count cfg = 0) AclConfigNotEmpty (
     Inr (s\<lparr>acl_configs := (acl_configs s)(user := None)\<rparr>))))"

definition add_acl_page :: "ant_env \<Rightarrow> pubkey \<Rightarrow> ant_state \<Rightarrow> ant_state ant_result" where
  [ant_handlers]: "add_acl_page env user s =
     ok_or (acl_configs s user) AntAccountMissing (\<lambda>cfg.
     require (al_user cfg = user) AntConstraint (
     let k = (al_user cfg, al_page_count cfg) in
     require (acl_pages s k = None) AntAccountExists (
     ok_or (checked_add (al_page_count cfg) 1) AntPanicked (\<lambda>page_count.
     Inr (s\<lparr>acl_pages := (acl_pages s)(k \<mapsto>
              \<lparr>ap_user = al_user cfg, ap_page_idx = al_page_count cfg, ap_entries = [],
               ap_bump = pda_bump env (AclPagePda (al_user cfg) (al_page_count cfg)), ap_version = V1_0_0\<rparr>),
            acl_configs := (acl_configs s)(user \<mapsto> cfg\<lparr>al_page_count := page_count\<rparr>)\<rparr>)))))"

definition close_acl_page :: "pubkey \<Rightarrow> u64 \<Rightarrow> ant_state \<Rightarrow> ant_state ant_result" where
  [ant_handlers]: "close_acl_page user idx s =
     acl_accounts user idx s (\<lambda>cfg page.
     require (al_user cfg = user) AntConstraint (
     require (ap_user page = al_user cfg) AclPageUserMismatch (
     require (al_page_count cfg > 0 \<and> ap_page_idx page = al_page_count cfg - 1) AclPageNotLast (
     require (ap_entries page = []) AclPageNotEmpty (
     Inr (s\<lparr>acl_pages := (acl_pages s)((al_user cfg, idx) := None),
            acl_configs := (acl_configs s)(user \<mapsto> cfg\<lparr>al_page_count := al_page_count cfg - 1\<rparr>)\<rparr>))))))"

section \<open>Healing instructions\<close>

text \<open>Anyone may bring a wallet's list in agreement with who holds and who controls an ANT.\<close>

definition record_acl_owner :: "ant_env \<Rightarrow> pubkey \<Rightarrow> pubkey \<Rightarrow> u64 \<Rightarrow> ant_state \<Rightarrow> ant_state ant_result" where
  [ant_handlers]: "record_acl_owner env asset user idx s =
     ok_or (ant_configs s asset) AntAccountMissing (\<lambda>_.
     acl_accounts user idx s (\<lambda>cfg page.
     require (al_user cfg = user) AntConstraint (
     and_then (core_asset env asset read_asset_owner_data) (\<lambda>nft_owner.
     require (nft_owner = al_user cfg) NotCurrentOwner (
     assert_page_belongs cfg page (add_entry user cfg page asset AclOwner s))))))"

definition remove_acl_owner :: "ant_env \<Rightarrow> pubkey \<Rightarrow> pubkey \<Rightarrow> u64 \<Rightarrow> ant_state \<Rightarrow> ant_state ant_result" where
  [ant_handlers]: "remove_acl_owner env asset user idx s =
     ok_or (ant_configs s asset) AntAccountMissing (\<lambda>_.
     acl_accounts user idx s (\<lambda>cfg page.
     require (al_user cfg = user) AntConstraint (
     and_then (core_asset env asset read_asset_owner_data) (\<lambda>nft_owner.
     require (nft_owner \<noteq> al_user cfg) StillCurrentOwner (
     assert_page_belongs cfg page (remove_entry user cfg page asset AclOwner s))))))"

definition record_acl_controller :: "ant_env \<Rightarrow> pubkey \<Rightarrow> pubkey \<Rightarrow> u64 \<Rightarrow> ant_state \<Rightarrow> ant_state ant_result" where
  [ant_handlers]: "record_acl_controller env asset user idx s =
     core_asset env asset (\<lambda>_.
     ok_or (ant_controller_lists s asset) AntAccountMissing (\<lambda>ctl.
     acl_accounts user idx s (\<lambda>cfg page.
     require (al_user cfg = user) AntConstraint (
     require (al_user cfg \<in> set (ct_controllers ctl)) NotCurrentController (
     assert_page_belongs cfg page (add_entry user cfg page asset AclController s))))))"

definition remove_acl_controller :: "ant_env \<Rightarrow> pubkey \<Rightarrow> pubkey \<Rightarrow> u64 \<Rightarrow> ant_state \<Rightarrow> ant_state ant_result" where
  [ant_handlers]: "remove_acl_controller env asset user idx s =
     core_asset env asset (\<lambda>_.
     ok_or (ant_controller_lists s asset) AntAccountMissing (\<lambda>ctl.
     acl_accounts user idx s (\<lambda>cfg page.
     require (al_user cfg = user) AntConstraint (
     require (al_user cfg \<notin> set (ct_controllers ctl)) StillCurrentController (
     assert_page_belongs cfg page (remove_entry user cfg page asset AclController s))))))"

section \<open>Controllers\<close>

definition add_controller ::
  "ant_env \<Rightarrow> pubkey \<Rightarrow> pubkey \<Rightarrow> pubkey \<Rightarrow> u64 \<Rightarrow> ant_state \<Rightarrow> ant_state ant_result" where
  [ant_handlers]: "add_controller env asset caller controller idx s =
     AntAccounts env asset s (\<lambda>asset_data cfg ctl.
     acl_accounts controller idx s (\<lambda>acl_cfg page.
     permitted asset_data cfg ctl caller (\<lambda>cfg1 ctl1 ok.
     require ok AntUnauthorized (
     require (controller \<notin> set (ct_controllers ctl1)) ControllerAlreadyExists (
     require (length (ct_controllers ctl1) < MAX_CONTROLLERS) MaxControllersReached (
     require (al_user acl_cfg = controller) AclConfigUserMismatch (
     assert_page_belongs acl_cfg page (
     add_entry controller acl_cfg page asset AclController
       (save_ant asset cfg1 (ctl1\<lparr>ct_controllers := ct_controllers ctl1 @ [controller]\<rparr>) s)))))))))"

text \<open>\<open>Vec::remove\<close> at the first position of the controller.\<close>

definition remove_controller ::
  "ant_env \<Rightarrow> pubkey \<Rightarrow> pubkey \<Rightarrow> pubkey \<Rightarrow> u64 \<Rightarrow> ant_state \<Rightarrow> ant_state ant_result" where
  [ant_handlers]: "remove_controller env asset caller controller idx s =
     AntAccounts env asset s (\<lambda>asset_data cfg ctl.
     acl_accounts controller idx s (\<lambda>acl_cfg page.
     permitted asset_data cfg ctl caller (\<lambda>cfg1 ctl1 ok.
     require ok AntUnauthorized (
     require (controller \<in> set (ct_controllers ctl1)) ControllerNotFound (
     require (al_user acl_cfg = controller) AclConfigUserMismatch (
     assert_page_belongs acl_cfg page (
     remove_entry controller acl_cfg page asset AclController
       (save_ant asset cfg1 (ctl1\<lparr>ct_controllers := remove1 controller (ct_controllers ctl1)\<rparr>) s))))))))"

section \<open>Transfer\<close>

definition transfer_ant ::
  "ant_env \<Rightarrow> pubkey \<Rightarrow> pubkey \<Rightarrow> pubkey \<Rightarrow> u64 \<Rightarrow> u64 \<Rightarrow> ant_state \<Rightarrow> ant_state ant_result" where
  [ant_handlers]: "transfer_ant env asset caller new_owner new_idx old_idx s =
     AntAccounts env asset s (\<lambda>asset_data cfg ctl.
     acl_accounts new_owner new_idx s (\<lambda>new_cfg new_page.
     acl_accounts caller old_idx s (\<lambda>old_cfg old_page.
     and_then (read_asset_owner_data asset_data) (\<lambda>old_owner.
     require (caller = old_owner) NotNftHolder (
     require (new_owner \<noteq> old_owner) TransferToSelf (
     require (al_user new_cfg = new_owner) AclConfigUserMismatch (
     require (al_user old_cfg = caller) AclConfigUserMismatch (
     assert_page_belongs new_cfg new_page (
     assert_page_belongs old_cfg old_page (
     and_then (mpl_invoke env (MplTransfer asset caller new_owner) s) (\<lambda>s1.
     let s2 = save_ant asset (cfg\<lparr>an_last_known_owner := new_owner\<rparr>) (ctl\<lparr>ct_controllers := []\<rparr>) s1 in
     and_then (add_entry new_owner new_cfg new_page asset AclOwner s2) (\<lambda>s3.
     remove_entry caller old_cfg old_page asset AclOwner s3))))))))))))"

end
