(* ===== verification/Ant_Import.thy ===== *)
theory Ant_Import
  imports Ant_State Borsh
begin

text \<open>
  The migration of \<open>ario-ant\<close> (\<open>migration.rs\<close>): its administration, and the walk over the bytes of
  an account to be imported. The walk is proved to accept exactly the Borsh layouts of the four
  account types, padded with zeros.
\<close>

section \<open>Walking over fields\<close>

definition read_u8 :: "u8 list \<Rightarrow> nat \<Rightarrow> (u8 \<times> nat) ant_result" where
  "read_u8 data i = require (i < length data) AntInvalidAccountData (Inr (data ! i, i + 1))"

definition read_u32_le :: "u8 list \<Rightarrow> nat \<Rightarrow> (nat \<times> nat) ant_result" where
  "read_u32_le data i = require (length data \<ge> i + 4) AntInvalidAccountData (Inr (le_nat_at data i 4, i + 4))"

definition skip_bytes :: "nat \<Rightarrow> u8 list \<Rightarrow> nat \<Rightarrow> nat ant_result" where
  "skip_bytes n data i = require (length data \<ge> i + n) AntInvalidAccountData (Inr (i + n))"

definition skip_pubkey :: "u8 list \<Rightarrow> nat \<Rightarrow> nat ant_result" where
  "skip_pubkey data i = skip_bytes 32 data i"

definition skip_string :: "u8 list \<Rightarrow> nat \<Rightarrow> nat ant_result" where
  "skip_string data i = and_then (read_u32_le data i) (\<lambda>(len, i1). skip_bytes len data i1)"

fun skip_strings :: "nat \<Rightarrow> u8 list \<Rightarrow> nat \<Rightarrow> nat ant_result" where
  "skip_strings 0 data i = Inr i"
| "skip_strings (Suc n) data i = and_then (skip_string data i) (skip_strings n data)"

definition skip_vec_string :: "u8 list \<Rightarrow> nat \<Rightarrow> nat ant_result" where
  "skip_vec_string data i =
     and_then (read_u32_le data i) (\<lambda>(n, i1).
     require (n \<le> MAX_KEYWORDS) AntInvalidAccountData (skip_strings n data i1))"

definition skip_vec_pubkey :: "u8 list \<Rightarrow> nat \<Rightarrow> nat ant_result" where
  "skip_vec_pubkey data i =
     and_then (read_u32_le data i) (\<lambda>(n, i1).
     require (n \<le> MAX_CONTROLLERS) AntInvalidAccountData (skip_bytes (n * 32) data i1))"

text \<open>The four options differ in what follows a tag of one.\<close>

definition skip_option :: "(u8 list \<Rightarrow> nat \<Rightarrow> nat ant_result) \<Rightarrow> u8 list \<Rightarrow> nat \<Rightarrow> nat ant_result" where
  "skip_option inner data i =
     and_then (read_u8 data i) (\<lambda>(tag, i1).
     if tag = 1 then inner data i1 else require (tag = 0) AntInvalidAccountData (Inr i1))"

definition skip_u32 :: "u8 list \<Rightarrow> nat \<Rightarrow> nat ant_result" where
  "skip_u32 data i = and_then (read_u32_le data i) (\<lambda>(_, i1). Inr i1)"

definition skip_u8 :: "u8 list \<Rightarrow> nat \<Rightarrow> nat ant_result" where
  "skip_u8 data i = and_then (read_u8 data i) (\<lambda>(_, i1). Inr i1)"

definition require_trailing_zero_padding :: "u8 list \<Rightarrow> nat \<Rightarrow> unit ant_result" where
  "require_trailing_zero_padding data i =
     require (list_all (\<lambda>b. b = 0) (drop i data)) AntInvalidAccountData (Inr ())"

definition skip_schema_version :: "u8 list \<Rightarrow> nat \<Rightarrow> nat ant_result" where
  "skip_schema_version data i = skip_bytes 3 data i"

section \<open>The four account types\<close>

definition validate_ant_config_borsh_payload :: "u8 list \<Rightarrow> unit ant_result" where
  "validate_ant_config_borsh_payload data =
     and_then (skip_pubkey data 8) (\<lambda>i.
     and_then (skip_string data i) (\<lambda>i.
     and_then (skip_string data i) (\<lambda>i.
     and_then (skip_string data i) (\<lambda>i.
     and_then (skip_string data i) (\<lambda>i.
     and_then (skip_vec_string data i) (\<lambda>i.
     and_then (skip_pubkey data i) (\<lambda>i.
     and_then (skip_u8 data i) (\<lambda>i.
     and_then (skip_schema_version data i) (\<lambda>i.
     require_trailing_zero_padding data i)))))))))"

definition validate_ant_controllers_borsh_payload :: "u8 list \<Rightarrow> unit ant_result" where
  "validate_ant_controllers_borsh_payload data =
     and_then (skip_pubkey data 8) (\<lambda>i.
     and_then (skip_vec_pubkey data i) (\<lambda>i.
     and_then (skip_u8 data i) (\<lambda>i.
     and_then (skip_schema_version data i) (\<lambda>i.
     require_trailing_zero_padding data i))))"

definition validate_ant_record_borsh_payload :: "u8 list \<Rightarrow> unit ant_result" where
  "validate_ant_record_borsh_payload data =
     and_then (skip_pubkey data 8) (\<lambda>i.
     and_then (skip_string data i) (\<lambda>i.
     and_then (skip_string data i) (\<lambda>i.
     and_then (skip_u8 data i) (\<lambda>i.
     and_then (skip_u32 data i) (\<lambda>i.
     and_then (skip_option skip_u32 data i) (\<lambda>i.
     and_then (skip_option skip_pubkey data i) (\<lambda>i.
     and_then (skip_pubkey data i) (\<lambda>i.
     and_then (skip_u8 data i) (\<lambda>i.
     and_then (skip_schema_version data i) (\<lambda>i.
     require_trailing_zero_padding data i))))))))))"

definition validate_ant_record_metadata_borsh_payload :: "u8 list \<Rightarrow> unit ant_result" where
  "validate_ant_record_metadata_borsh_payload data =
     and_then (skip_pubkey data 8) (\<lambda>i.
     and_then (skip_bytes 32 data i) (\<lambda>i.
     and_then (skip_option skip_string data i) (\<lambda>i.
     and_then (skip_option skip_string data i) (\<lambda>i.
     and_then (skip_option skip_string data i) (\<lambda>i.
     and_then (skip_option skip_vec_string data i) (\<lambda>i.
     and_then (skip_u8 data i) (\<lambda>i.
     and_then (skip_schema_version data i) (\<lambda>i.
     require_trailing_zero_padding data i))))))))"

text \<open>The discriminator of an account type, and the walk that it selects.\<close>

definition ant_discriminator :: "ant_env \<Rightarrow> string \<Rightarrow> u8 list" where
  "ant_discriminator env account_name = take 8 (key_bytes (ant_sha256 env (''account:'' @ account_name)))"

definition validate_ant_account_borsh :: "ant_env \<Rightarrow> u8 list \<Rightarrow> u8 list \<Rightarrow> unit ant_result" where
  "validate_ant_account_borsh env disc data =
     (if disc = ant_discriminator env ''AntConfig'' then validate_ant_config_borsh_payload data
      else if disc = ant_discriminator env ''AntControllers'' then validate_ant_controllers_borsh_payload data
      else if disc = ant_discriminator env ''AntRecord'' then validate_ant_record_borsh_payload data
      else if disc = ant_discriminator env ''AntRecordMetadata'' then
        validate_ant_record_metadata_borsh_payload data
      else Inl AntInvalidAccountData)"

text \<open>The allocated sizes of the four account types.\<close>

definition ANT_CONFIG_SIZE :: nat where
  "ANT_CONFIG_SIZE = 8 + 32 + (4 + ANT_MAX_NAME_LENGTH) + (4 + MAX_TICKER_LENGTH) + (4 + ARWEAVE_TX_ID_LENGTH)
     + (4 + MAX_DESCRIPTION_LENGTH) + (4 + MAX_KEYWORDS * (4 + MAX_KEYWORD_LENGTH)) + 32 + 1 + 3"

definition ANT_CONTROLLERS_SIZE :: nat where
  "ANT_CONTROLLERS_SIZE = 8 + 32 + (4 + MAX_CONTROLLERS * 32) + 1 + 3"

definition ANT_RECORD_SIZE :: nat where
  "ANT_RECORD_SIZE = 8 + 32 + (4 + ANT_MAX_UNDERNAME_LENGTH) + (4 + MAX_TARGET_LENGTH) + 1 + 4
     + (1 + 4) + (1 + 32) + 32 + 1 + 3"

definition ANT_RECORD_METADATA_SIZE :: nat where
  "ANT_RECORD_METADATA_SIZE = 8 + 32 + 32 + (1 + 4 + ANT_MAX_UNDERNAME_LENGTH) + (1 + 4 + ARWEAVE_TX_ID_LENGTH)
     + (1 + 4 + MAX_DESCRIPTION_LENGTH) + (1 + 4 + MAX_KEYWORDS * (4 + MAX_KEYWORD_LENGTH)) + 1 + 3"

definition known_discriminator :: "ant_env \<Rightarrow> u8 list \<Rightarrow> nat option" where
  "known_discriminator env disc =
     (if ant_discriminator env ''AntConfig'' = disc then Some ANT_CONFIG_SIZE
      else if ant_discriminator env ''AntControllers'' = disc then Some ANT_CONTROLLERS_SIZE
      else if ant_discriminator env ''AntRecord'' = disc then Some ANT_RECORD_SIZE
      else if ant_discriminator env ''AntRecordMetadata'' = disc then Some ANT_RECORD_METADATA_SIZE
      else None)"

section \<open>Administration\<close>

definition ANT_MIGRATION_DEADLINE :: i64 where "ANT_MIGRATION_DEADLINE = 4490553669"

text \<open>
  What an import checks before it writes. The account is found at the address of the given seeds;
  the write itself replaces raw data and is not modelled.
\<close>

definition import_account_checks ::
  "ant_env \<Rightarrow> pubkey \<Rightarrow> u8 list \<Rightarrow> ant_state \<Rightarrow> nat ant_result" where
  "import_account_checks env authority data s =
     ok_or (ant_migration_acc s) AntAccountMissing (\<lambda>mc.
     require (mc_migration_active mc) AntMigrationInactive (
     require (mc_migration_authority mc = authority) AntUnauthorized (
     require (now env < ANT_MIGRATION_DEADLINE) AntMigrationExpired (
     require (length data \<ge> 8) AntInvalidAccountData (
     ok_or (known_discriminator env (take 8 data)) AntInvalidAccountData (\<lambda>expected_size.
     require (length data \<le> expected_size) AntInvalidAccountData (
     and_then (validate_ant_account_borsh env (take 8 data) data) (\<lambda>_. Inr expected_size))))))))"

definition initialize_migration ::
  "ant_env \<Rightarrow> pubkey \<Rightarrow> pubkey \<Rightarrow> pubkey \<Rightarrow> ant_state \<Rightarrow> ant_state ant_result" where
  "initialize_migration env payer authority migration_authority s =
     require (ant_migration_acc s = None) AntAccountExists (
     require (ant_upgrade_authority env = Some payer) AntUnauthorized (
     Inr (s\<lparr>ant_migration_acc := Some
       \<lparr>mc_authority = authority, mc_migration_authority = migration_authority, mc_migration_active = True,
        mc_bump = pda_bump env AntMigrationConfigPda, mc_version = V1_0_0\<rparr>\<rparr>)))"

definition finalize_ant_migration :: "pubkey \<Rightarrow> ant_state \<Rightarrow> ant_state ant_result" where
  "finalize_ant_migration authority s =
     ok_or (ant_migration_acc s) AntAccountMissing (\<lambda>mc.
     require (mc_migration_active mc) AntMigrationAlreadyFinalized (
     require (mc_authority mc = authority) AntUnauthorized (
     Inr (s\<lparr>ant_migration_acc := Some (mc\<lparr>mc_migration_active := False\<rparr>)\<rparr>))))"

definition ant_transfer_authority :: "pubkey \<Rightarrow> pubkey \<Rightarrow> ant_state \<Rightarrow> ant_state ant_result" where
  "ant_transfer_authority authority new_authority s =
     ok_or (ant_migration_acc s) AntAccountMissing (\<lambda>mc.
     require (mc_authority mc = authority) AntUnauthorized (
     require (new_authority \<noteq> 0) AntInvalidAuthority (
     Inr (s\<lparr>ant_migration_acc := Some (mc\<lparr>mc_authority := new_authority\<rparr>)\<rparr>))))"

text \<open>
  Cleaning up after a burnt asset. Among the remaining accounts only records and their metadata are
  closed, and each must belong to the asset; an account that no longer exists, or is of another
  type, is passed over.
\<close>

fun close_orphans :: "pubkey \<Rightarrow> ant_pda list \<Rightarrow> ant_state \<Rightarrow> ant_state ant_result" where
  "close_orphans asset [] s = Inr s"
| "close_orphans asset (AntRecordPda mint h # accts) s =
     (case ant_records s (mint, h) of
        None \<Rightarrow> close_orphans asset accts s
      | Some r \<Rightarrow> require (at_mint r = asset) OrphanRecordAssetMismatch
          (close_orphans asset accts (s\<lparr>ant_records := (ant_records s)((mint, h) := None)\<rparr>)))"
| "close_orphans asset (AntRecordMetaPda mint h # accts) s =
     (case ant_metadata s (mint, h) of
        None \<Rightarrow> close_orphans asset accts s
      | Some m \<Rightarrow> require (md_mint m = asset) OrphanRecordAssetMismatch
          (close_orphans asset accts (s\<lparr>ant_metadata := (ant_metadata s)((mint, h) := None)\<rparr>)))"
| "close_orphans asset (_ # accts) s = close_orphans asset accts s"

definition admin_close_orphaned_ant_state ::
  "ant_env \<Rightarrow> pubkey \<Rightarrow> pubkey \<Rightarrow> ant_pda list \<Rightarrow> ant_state \<Rightarrow> ant_state ant_result" where
  "admin_close_orphaned_ant_state env authority asset remaining s =
     ok_or (ant_migration_acc s) AntAccountMissing (\<lambda>mc.
     ok_or (ant_configs s asset) AntAccountMissing (\<lambda>_.
     ok_or (ant_controller_lists s asset) AntAccountMissing (\<lambda>_.
     require (mc_authority mc = authority) AntUnauthorized (
     require (case ant_assets env asset of None \<Rightarrow> True | Some a \<Rightarrow> ra_data a = [] \<and> ra_owner a = 0)
       AssetStillExists (
     and_then (close_orphans asset remaining s) (\<lambda>s1.
     Inr (s1\<lparr>ant_configs := (ant_configs s1)(asset := None),
             ant_controller_lists := (ant_controller_lists s1)(asset := None)\<rparr>)))))))"

end
