(* ===== verification/Ant_Attributes.thy ===== *)
theory Ant_Attributes
  imports Ant_Import Ant_Records
begin

text \<open>
  The traits of an ANT (\<open>mpl_core_cpi.rs\<close> and the handlers of \<open>lib.rs\<close> over it): the list of
  attributes that mirrors a name record, its bytes in the instruction to Metaplex Core, and the scan
  of the asset's data that fetches the one trait to be kept.
\<close>

section \<open>Attributes\<close>

record attribute_kv =
  kv_key :: string
  kv_value :: string

definition TRAIT_KEY_ARNS_NAME :: string where "TRAIT_KEY_ARNS_NAME = ''ArNS Name''"
definition TRAIT_KEY_TYPE :: string where "TRAIT_KEY_TYPE = ''Type''"
definition TRAIT_KEY_UNDERNAME_LIMIT :: string where "TRAIT_KEY_UNDERNAME_LIMIT = ''Undername Limit''"
definition TRAIT_KEY_ANT_PROGRAM :: string where "TRAIT_KEY_ANT_PROGRAM = ''ANT Program''"
definition PLUGIN_VARIANT_ATTRIBUTES :: u8 where "PLUGIN_VARIANT_ATTRIBUTES = 6"

fun purchase_type_str :: "purchase_type \<Rightarrow> string" where
  "purchase_type_str Lease = ''lease''"
| "purchase_type_str Permabuy = ''permabuy''"

text \<open>\<open>u16::to_string\<close>.\<close>

definition digit :: "nat \<Rightarrow> char" where "digit d = char_of (48 + d)"

fun decimal :: "nat \<Rightarrow> string" where
  "decimal n = (if n < 10 then [digit n] else decimal (n div 10) @ [digit (n mod 10)])"

declare decimal.simps [simp del]

definition build_attribute_list :: "arns_record \<Rightarrow> string option \<Rightarrow> attribute_kv list" where
  "build_attribute_list r existing_ant_program =
     [\<lparr>kv_key = TRAIT_KEY_ARNS_NAME, kv_value = ar_name r\<rparr>,
      \<lparr>kv_key = TRAIT_KEY_TYPE, kv_value = purchase_type_str (ar_purchase_type r)\<rparr>,
      \<lparr>kv_key = TRAIT_KEY_UNDERNAME_LIMIT, kv_value = decimal (unat (ar_undername_limit r))\<rparr>]
     @ (case existing_ant_program of None \<Rightarrow> []
        | Some program \<Rightarrow> [\<lparr>kv_key = TRAIT_KEY_ANT_PROGRAM, kv_value = program\<rparr>])"

definition attribute_bytes :: "attribute_kv \<Rightarrow> u8 list" where
  "attribute_bytes a = borsh_string (kv_key a) @ borsh_string (kv_value a)"

definition encode_update_attributes_ix_data :: "attribute_kv list \<Rightarrow> u8 list" where
  "encode_update_attributes_ix_data attributes =
     [6, PLUGIN_VARIANT_ATTRIBUTES] @ borsh_vec attribute_bytes attributes"

definition encode_revoke_attributes_authority_ix_data :: "u8 list" where
  "encode_revoke_attributes_authority_ix_data = [10, PLUGIN_VARIANT_ATTRIBUTES]"

definition encode_update_v1_set_ua_ix_data :: "pubkey \<Rightarrow> u8 list" where
  "encode_update_v1_set_ua_ix_data new_ua = [15, 0, 0, 1, 1] @ key_bytes new_ua"

section \<open>The scan for a trait\<close>

text \<open>\<open>str::from_utf8\<close>: the well-formed byte sequences.\<close>

definition utf8_tail :: "u8 \<Rightarrow> bool" where "utf8_tail b \<longleftrightarrow> 0x80 \<le> b \<and> b \<le> 0xBF"

definition utf8_second :: "u8 \<Rightarrow> u8 \<Rightarrow> bool" where
  "utf8_second a b \<longleftrightarrow>
     (if a = 0xE0 then 0xA0 \<le> b \<and> b \<le> 0xBF
      else if a = 0xED then 0x80 \<le> b \<and> b \<le> 0x9F
      else if a = 0xF0 then 0x90 \<le> b \<and> b \<le> 0xBF
      else if a = 0xF4 then 0x80 \<le> b \<and> b \<le> 0x8F
      else utf8_tail b)"

fun utf8_valid :: "u8 list \<Rightarrow> bool" where
  "utf8_valid [] = True"
| "utf8_valid (a # bs) =
     (if a < 0x80 then utf8_valid bs
      else if 0xC2 \<le> a \<and> a \<le> 0xDF then
        (case bs of b # cs \<Rightarrow> utf8_tail b \<and> utf8_valid cs | _ \<Rightarrow> False)
      else if 0xE0 \<le> a \<and> a \<le> 0xEF then
        (case bs of b # c # cs \<Rightarrow> utf8_second a b \<and> utf8_tail c \<and> utf8_valid cs | _ \<Rightarrow> False)
      else if 0xF0 \<le> a \<and> a \<le> 0xF4 then
        (case bs of b # c # d # cs \<Rightarrow> utf8_second a b \<and> utf8_tail c \<and> utf8_tail d \<and> utf8_valid cs | _ \<Rightarrow> False)
      else False)"

text \<open>
  \<open>try_parse_attributes_at\<close>: \<open>None\<close> if the bytes are no list of attributes; else the last value of
  the wanted key, if the list has it. \<open>attribute_text\<close> reads a length within a cap and its bytes.
\<close>

definition attribute_text :: "nat \<Rightarrow> u8 list \<Rightarrow> nat \<Rightarrow> (u8 list \<times> nat) option" where
  "attribute_text cap data p =
     (if p + 4 > length data then None
      else let len = le_nat_at data p 4; p1 = p + 4
           in if len > cap \<or> p1 + len > length data then None
              else Some (take len (drop p1 data), p1 + len))"

fun parse_entries :: "u8 list \<Rightarrow> u8 list \<Rightarrow> nat \<Rightarrow> nat \<Rightarrow> string option \<Rightarrow> string option option" where
  "parse_entries data want_key 0 p found = Some found"
| "parse_entries data want_key (Suc n) p found =
     (case attribute_text 256 data p of
        None \<Rightarrow> None
      | Some (k, p1) \<Rightarrow> (case attribute_text 1024 data p1 of
          None \<Rightarrow> None
        | Some (v, p2) \<Rightarrow>
            if k = want_key then
              (if utf8_valid v then parse_entries data want_key n p2 (Some (map (\<lambda>b. char_of (unat b)) v)) else None)
            else parse_entries data want_key n p2 found))"

definition try_parse_attributes_at :: "u8 list \<Rightarrow> nat \<Rightarrow> u8 list \<Rightarrow> string option option" where
  "try_parse_attributes_at data p want_key =
     (if p + 4 > length data then None
      else let count = le_nat_at data p 4
           in if count > 64 then None else parse_entries data want_key count (p + 4) None)"

text \<open>The positions that the scan visits, in order; the first that parses decides.\<close>

fun scan_positions :: "u8 list \<Rightarrow> u8 list \<Rightarrow> nat list \<Rightarrow> string option" where
  "scan_positions data key [] = None"
| "scan_positions data key (i # is) =
     (if data ! i = PLUGIN_VARIANT_ATTRIBUTES then
        (case try_parse_attributes_at data (i + 1) key of
           Some found \<Rightarrow> found
         | None \<Rightarrow> scan_positions data key is)
      else scan_positions data key is)"

definition read_existing_attribute :: "u8 list \<Rightarrow> string \<Rightarrow> string option" where
  "read_existing_attribute asset_data key =
     scan_positions asset_data (text_bytes key) [1..<length asset_data - 4]"

section \<open>Handlers\<close>

definition update_attributes_plugin ::
  "ant_env \<Rightarrow> pubkey \<Rightarrow> pubkey \<Rightarrow> pubkey \<Rightarrow> attribute_kv list \<Rightarrow> ant_state \<Rightarrow> ant_state ant_result" where
  [ant_accounts_defs]: "update_attributes_plugin env asset payer authority attributes s =
     mpl_invoke env (MplUpdate asset payer authority (encode_update_attributes_ix_data attributes)) s"

definition ant_authority :: "ant_env \<Rightarrow> pubkey \<Rightarrow> pubkey" where
  "ant_authority env asset = pda_key env (AntAuthorityPda asset)"

definition sync_attributes ::
  "ant_env \<Rightarrow> pubkey \<Rightarrow> pubkey \<Rightarrow> name_hash \<Rightarrow> string \<Rightarrow> ant_state \<Rightarrow> ant_state ant_result" where
  [ant_handlers]: "sync_attributes env asset payer record_hash name s =
     core_asset env asset (\<lambda>asset_data.
     and_then (read_mpl_core_update_authority asset_data) (\<lambda>current_ua.
     let program_controlled = (current_ua = Some (ant_authority env asset)) in
     and_then (if program_controlled then Inr () else holder_only asset_data payer (Inr ())) (\<lambda>_.
     let existing_program = read_existing_attribute asset_data TRAIT_KEY_ANT_PROGRAM in
     require (record_hash = ant_sha256 env (ant_lowercase env name)) InvalidArnsRecord (
     ok_or (ant_arns_records env record_hash) InvalidArnsRecord (\<lambda>r.
     require (ar_ant r = asset) InvalidArnsRecord (
     update_attributes_plugin env asset payer
       (if program_controlled then ant_authority env asset else payer)
       (build_attribute_list r existing_program) s))))))"

definition clear_attributes ::
  "ant_env \<Rightarrow> pubkey \<Rightarrow> pubkey \<Rightarrow> pubkey \<Rightarrow> ant_state \<Rightarrow> ant_state ant_result" where
  [ant_handlers]: "clear_attributes env asset payer authority s =
     core_asset env asset (\<lambda>asset_data.
     holder_only asset_data authority (
     and_then (read_mpl_core_update_authority asset_data) (\<lambda>current_ua.
     let program_controlled = (current_ua = Some (ant_authority env asset));
         attributes = (case read_existing_attribute asset_data TRAIT_KEY_ANT_PROGRAM of
                         None \<Rightarrow> []
                       | Some program \<Rightarrow> [\<lparr>kv_key = TRAIT_KEY_ANT_PROGRAM, kv_value = program\<rparr>]) in
     update_attributes_plugin env asset payer
       (if program_controlled then ant_authority env asset else authority) attributes s)))"

definition adopt_authority ::
  "ant_env \<Rightarrow> pubkey \<Rightarrow> pubkey \<Rightarrow> pubkey \<Rightarrow> ant_state \<Rightarrow> ant_state ant_result" where
  [ant_handlers]: "adopt_authority env asset payer owner s =
     core_asset env asset (\<lambda>asset_data.
     holder_only asset_data owner (
     and_then (read_mpl_core_update_authority asset_data) (\<lambda>current_ua.
     require (current_ua \<noteq> Some (ant_authority env asset)) AlreadyProgramControlled (
     and_then (mpl_invoke env (MplUpdate asset payer owner encode_revoke_attributes_authority_ix_data) s) (\<lambda>s1.
     mpl_invoke env (MplUpdate asset payer owner (encode_update_v1_set_ua_ix_data (ant_authority env asset))) s1)))))"

end
