(* ===== verification/Ant_System.thy ===== *)
theory Ant_System
  imports Ant_Acl Ant_Attributes Machine
begin

text \<open>
  The instructions of \<open>ario-ant\<close> and their dispatch (\<open>lib.rs\<close>) as a step function. Every
  instruction comes with the wallet that signs it. Left out are the import of raw accounts and the
  schema migrations.
\<close>

text \<open>Instructions that a holder, a controller or a delegate gives for one ANT.\<close>

datatype ant_record_op =
    SetRecordOp set_record_params
  | RemoveRecordOp name_hash bool
  | TransferRecordOp name_hash pubkey
  | SetNameOp string
  | SetTickerOp string
  | SetDescriptionOp string
  | SetKeywordsOp "string list"
  | SetLogoOp string
  | SetRecordMetadataOp set_record_metadata_params
  | RemoveRecordMetadataOp string
  | AddControllerOp pubkey u64
  | RemoveControllerOp pubkey u64

definition ant_record_step ::
  "ant_env \<Rightarrow> pubkey \<Rightarrow> pubkey \<Rightarrow> ant_record_op \<Rightarrow> ant_state \<Rightarrow> ant_state ant_result" where
  "ant_record_step env asset caller op s = (case op of
     SetRecordOp params \<Rightarrow> set_record env asset caller params s
   | RemoveRecordOp h with_metadata \<Rightarrow> remove_record env asset caller h with_metadata s
   | TransferRecordOp h new_owner \<Rightarrow> transfer_record env asset caller h new_owner s
   | SetNameOp name \<Rightarrow> set_name env asset caller name s
   | SetTickerOp ticker \<Rightarrow> set_ticker env asset caller ticker s
   | SetDescriptionOp description \<Rightarrow> set_description env asset caller description s
   | SetKeywordsOp keywords \<Rightarrow> set_keywords env asset caller keywords s
   | SetLogoOp logo \<Rightarrow> set_logo env asset caller logo s
   | SetRecordMetadataOp params \<Rightarrow> set_record_metadata env asset caller params s
   | RemoveRecordMetadataOp undername \<Rightarrow> remove_record_metadata env asset caller undername s
   | AddControllerOp controller idx \<Rightarrow> add_controller env asset caller controller idx s
   | RemoveControllerOp controller idx \<Rightarrow> remove_controller env asset caller controller idx s)"

text \<open>Instructions of the holder alone.\<close>

datatype ant_holder_op =
    InitializeAntOp initialize_ant_params
  | TransferAntOp pubkey u64 u64
  | CloseAntRecordOp string
  | CloseAntRecordMetadataOp string
  | CloseAntControllersOp
  | CloseAntConfigOp
  | ClearAttributesOp pubkey
  | AdoptAuthorityOp pubkey

definition ant_holder_step ::
  "ant_env \<Rightarrow> pubkey \<Rightarrow> pubkey \<Rightarrow> ant_holder_op \<Rightarrow> ant_state \<Rightarrow> ant_state ant_result" where
  "ant_holder_step env asset caller op s = (case op of
     InitializeAntOp params \<Rightarrow> initialize_ant env asset caller params s
   | TransferAntOp new_owner new_idx old_idx \<Rightarrow> transfer_ant env asset caller new_owner new_idx old_idx s
   | CloseAntRecordOp undername \<Rightarrow> close_ant_record env asset caller undername s
   | CloseAntRecordMetadataOp undername \<Rightarrow> close_ant_record_metadata_for_owner env asset caller undername s
   | CloseAntControllersOp \<Rightarrow> close_ant_controllers env asset caller s
   | CloseAntConfigOp \<Rightarrow> close_ant_config env asset caller s
   | ClearAttributesOp payer \<Rightarrow> clear_attributes env asset payer caller s
   | AdoptAuthorityOp payer \<Rightarrow> adopt_authority env asset payer caller s)"

text \<open>Instructions of anyone.\<close>

datatype ant_public_op =
    ReconcileOp pubkey
  | CloseOrphanedRecordMetadataOp pubkey string
  | SyncAttributesOp pubkey name_hash string
  | RegisterAclConfigOp pubkey
  | AddAclPageOp pubkey
  | CloseAclPageOp pubkey u64
  | CloseAclConfigOp pubkey
  | RecordAclOwnerOp pubkey pubkey u64
  | RemoveAclOwnerOp pubkey pubkey u64
  | RecordAclControllerOp pubkey pubkey u64
  | RemoveAclControllerOp pubkey pubkey u64

definition ant_public_step :: "ant_env \<Rightarrow> pubkey \<Rightarrow> ant_public_op \<Rightarrow> ant_state \<Rightarrow> ant_state ant_result" where
  "ant_public_step env caller op s = (case op of
     ReconcileOp asset \<Rightarrow> reconcile env asset s
   | CloseOrphanedRecordMetadataOp asset undername \<Rightarrow> close_orphaned_record_metadata env asset undername s
   | SyncAttributesOp asset record_hash name \<Rightarrow> sync_attributes env asset caller record_hash name s
   | RegisterAclConfigOp user \<Rightarrow> register_acl_config env user s
   | AddAclPageOp user \<Rightarrow> add_acl_page env user s
   | CloseAclPageOp user idx \<Rightarrow> close_acl_page user idx s
   | CloseAclConfigOp user \<Rightarrow> close_acl_config user s
   | RecordAclOwnerOp asset user idx \<Rightarrow> record_acl_owner env asset user idx s
   | RemoveAclOwnerOp asset user idx \<Rightarrow> remove_acl_owner env asset user idx s
   | RecordAclControllerOp asset user idx \<Rightarrow> record_acl_controller env asset user idx s
   | RemoveAclControllerOp asset user idx \<Rightarrow> remove_acl_controller env asset user idx s)"

datatype ant_admin_op =
    InitializeMigrationOp pubkey pubkey
  | AntFinalizeMigrationOp
  | AntTransferAuthorityOp pubkey
  | AdminCloseOrphanedAntStateOp pubkey "ant_pda list"

definition ant_admin_step :: "ant_env \<Rightarrow> pubkey \<Rightarrow> ant_admin_op \<Rightarrow> ant_state \<Rightarrow> ant_state ant_result" where
  "ant_admin_step env caller op s = (case op of
     InitializeMigrationOp authority migration_authority \<Rightarrow>
       initialize_migration env caller authority migration_authority s
   | AntFinalizeMigrationOp \<Rightarrow> finalize_ant_migration caller s
   | AntTransferAuthorityOp new_authority \<Rightarrow> ant_transfer_authority caller new_authority s
   | AdminCloseOrphanedAntStateOp asset remaining \<Rightarrow>
       admin_close_orphaned_ant_state env caller asset remaining s)"

text \<open>An instruction with its signer and, where it is about one ANT, the asset.\<close>

datatype ant_op =
    AntRecordOp pubkey pubkey ant_record_op
  | AntHolderOp pubkey pubkey ant_holder_op
  | AntPublicOp pubkey ant_public_op
  | AntAdminOp pubkey ant_admin_op

definition ant_step :: "ant_env \<Rightarrow> ant_op \<Rightarrow> ant_state \<Rightarrow> ant_state ant_result" where
  "ant_step env op s = (case op of
     AntRecordOp asset caller o1 \<Rightarrow> ant_record_step env asset caller o1 s
   | AntHolderOp asset caller o2 \<Rightarrow> ant_holder_step env asset caller o2 s
   | AntPublicOp caller o3 \<Rightarrow> ant_public_step env caller o3 s
   | AntAdminOp caller o4 \<Rightarrow> ant_admin_step env caller o4 s)"

end
