(* ===== verification/Ant_Access.thy ===== *)
theory Ant_Access
  imports Ant_System
begin

text \<open>
  Who may change an ANT. The holder may, and the controllers while the configuration knows the
  holder; a record's delegate may change that record while the wallet that named it holds the ANT;
  anyone may have the controllers of a former holder cleared. Every instruction is proved to stay
  within this.
\<close>

section \<open>Roles\<close>

definition controls :: "ant_env \<Rightarrow> ant_state \<Rightarrow> pubkey \<Rightarrow> pubkey \<Rightarrow> bool" where
  "controls env s asset u \<longleftrightarrow> asset_holder env asset = Some u
   \<or> (\<exists>cfg ctl. ant_configs s asset = Some cfg \<and> ant_controller_lists s asset = Some ctl
        \<and> asset_holder env asset = Some (an_last_known_owner cfg) \<and> u \<in> set (ct_controllers ctl))"

definition delegate :: "ant_env \<Rightarrow> ant_state \<Rightarrow> pubkey \<Rightarrow> name_hash \<Rightarrow> pubkey \<Rightarrow> bool" where
  "delegate env s asset h u \<longleftrightarrow> (\<exists>r. ant_records s (asset, h) = Some r \<and> at_owner r = Some u
     \<and> asset_holder env asset = Some (at_last_reconciled_owner r))"

text \<open>The accounts of one ANT.\<close>

definition ant_part :: "pubkey \<Rightarrow> ant_state \<Rightarrow> ant_config option \<times> ant_controllers option
    \<times> (name_hash \<Rightarrow> ant_record option) \<times> (name_hash \<Rightarrow> ant_record_metadata option)" where
  "ant_part m s = (ant_configs s m, ant_controller_lists s m, \<lambda>h. ant_records s (m, h), \<lambda>h. ant_metadata s (m, h))"

lemma ant_part_eq: "ant_part m s' = ant_part m s \<longleftrightarrow> ant_configs s' m = ant_configs s m
   \<and> ant_controller_lists s' m = ant_controller_lists s m
   \<and> (\<forall>h. ant_records s' (m, h) = ant_records s (m, h)) \<and> (\<forall>h. ant_metadata s' (m, h) = ant_metadata s (m, h))"
  by (auto simp: ant_part_def fun_eq_iff)

text \<open>Configuration and controllers after a reconciliation with the holder, and nothing else.\<close>

definition reconciled :: "ant_env \<Rightarrow> pubkey \<Rightarrow> ant_state \<Rightarrow> ant_state \<Rightarrow> bool" where
  "reconciled env m s s' \<longleftrightarrow> (\<exists>cfg ctl cfg1 ctl1 o1. ant_configs s m = Some cfg
     \<and> ant_controller_lists s m = Some ctl \<and> asset_holder env m = Some o1
     \<and> reconcile_ownership cfg ctl o1 = (cfg1, ctl1)
     \<and> ant_configs s' m = Some cfg1 \<and> ant_controller_lists s' m = Some ctl1)"

text \<open>
  What a delegate may do to a record: point it elsewhere, or pass it on. The root record gets its
  fixed priority back.
\<close>

definition delegate_edit :: "ant_env \<Rightarrow> name_hash \<Rightarrow> ant_record \<Rightarrow> ant_record \<Rightarrow> bool" where
  "delegate_edit env h r r' \<longleftrightarrow> at_mint r' = at_mint r \<and> at_undername r' = at_undername r
     \<and> (at_priority r' = at_priority r \<or> h = ant_sha256 env ''@'' \<and> at_priority r' = Some 0)
     \<and> at_last_reconciled_owner r' = at_last_reconciled_owner r
     \<and> at_bump r' = at_bump r \<and> at_version r' = at_version r"

definition delegate_change :: "ant_env \<Rightarrow> pubkey \<Rightarrow> name_hash \<Rightarrow> ant_state \<Rightarrow> ant_state \<Rightarrow> bool" where
  "delegate_change env m h s s' \<longleftrightarrow> reconciled env m s s'
     \<and> (\<forall>h'. h' \<noteq> h \<longrightarrow> ant_records s' (m, h') = ant_records s (m, h') \<and> ant_metadata s' (m, h') = ant_metadata s (m, h'))
     \<and> (\<exists>r r'. ant_records s (m, h) = Some r \<and> ant_records s' (m, h) = Some r' \<and> delegate_edit env h r r')"

text \<open>The asset is gone, and the administrator cleans up.\<close>

definition burnt :: "ant_env \<Rightarrow> ant_state \<Rightarrow> pubkey \<Rightarrow> pubkey \<Rightarrow> bool" where
  "burnt env s m u \<longleftrightarrow> asset_holder env m = None
     \<and> (\<exists>mc. ant_migration_acc s = Some mc \<and> mc_authority mc = u)"

text \<open>Metadata of records that are gone may be closed.\<close>

definition orphans_closed :: "pubkey \<Rightarrow> ant_state \<Rightarrow> ant_state \<Rightarrow> bool" where
  "orphans_closed m s s' \<longleftrightarrow> ant_configs s' m = ant_configs s m
     \<and> ant_controller_lists s' m = ant_controller_lists s m
     \<and> (\<forall>h. ant_records s' (m, h) = ant_records s (m, h))
     \<and> (\<forall>h. ant_metadata s' (m, h) = ant_metadata s (m, h)
           \<or> ant_records s (m, h) = None \<and> ant_metadata s' (m, h) = None)"

definition permitted_change :: "ant_env \<Rightarrow> pubkey \<Rightarrow> pubkey \<Rightarrow> ant_state \<Rightarrow> ant_state \<Rightarrow> bool" where
  "permitted_change env u m s s' \<longleftrightarrow>
     ant_part m s' = ant_part m s
   \<or> controls env s m u
   \<or> (\<exists>h. delegate env s m h u \<and> delegate_change env m h s s')
   \<or> (reconciled env m s s' \<and> (\<forall>h. ant_records s' (m, h) = ant_records s (m, h) \<and> ant_metadata s' (m, h) = ant_metadata s (m, h)))
   \<or> orphans_closed m s s'
   \<or> burnt env s m u"

fun ant_signer :: "ant_op \<Rightarrow> pubkey" where
  "ant_signer (AntRecordOp _ caller _) = caller"
| "ant_signer (AntHolderOp _ caller _) = caller"
| "ant_signer (AntPublicOp caller _) = caller"
| "ant_signer (AntAdminOp caller _) = caller"

section \<open>Reading handlers\<close>

lemma core_asset_iff:
  "core_asset env asset k = Inr x \<longleftrightarrow>
     (\<exists>a. ant_assets env asset = Some a \<and> ra_owner a = MPL_CORE_PROGRAM_ID \<and> k (ra_data a) = Inr x)"
  by (auto simp: core_asset_def require_iff split: option.splits)

lemma asset_holderI:
  "ant_assets env m = Some a \<Longrightarrow> ra_owner a = MPL_CORE_PROGRAM_ID \<Longrightarrow> read_asset_owner_data (ra_data a) = Inr o1 \<Longrightarrow>
     asset_holder env m = Some o1"
  by (simp add: asset_holder_def core_asset_def)

lemma asset_holder_iff:
  "asset_holder env m = Some o1 \<longleftrightarrow> (\<exists>a. ant_assets env m = Some a \<and> ra_owner a = MPL_CORE_PROGRAM_ID
     \<and> read_asset_owner_data (ra_data a) = Inr o1)"
  by (auto simp: asset_holder_def core_asset_def require_def split: option.splits sum.splits if_splits)

text \<open>A handler over one ANT that checks the permission of its caller.\<close>

lemma AntAccounts_iff:
  "AntAccounts env m s k = Inr x \<longleftrightarrow>
     (\<exists>a cfg ctl. ant_assets env m = Some a \<and> ra_owner a = MPL_CORE_PROGRAM_ID \<and> ant_configs s m = Some cfg
       \<and> ant_controller_lists s m = Some ctl \<and> k (ra_data a) cfg ctl = Inr x)"
  by (auto simp: AntAccounts_def core_asset_iff ok_or_iff)

lemma permitted_iff:
  "permitted d cfg ctl u k = Inr x \<longleftrightarrow>
     (\<exists>o1 cfg1 ctl1. read_asset_owner_data d = Inr o1 \<and> reconcile_ownership cfg ctl o1 = (cfg1, ctl1)
       \<and> k cfg1 ctl1 (u = o1 \<or> u \<in> set (ct_controllers ctl1)) = Inr x)"
  by (auto simp: permitted_def and_then_iff reconcile_and_check_permission_def case_prod_unfold prod_eq_iff Let_def)

lemma holder_only_iff:
  "holder_only d u k = Inr x \<longleftrightarrow> read_asset_owner_data d = Inr u \<and> k = Inr x"
  by (auto simp: holder_only_def and_then_iff require_iff)

lemma existing_record_iff:
  "existing_record env m h s k = Inr x \<longleftrightarrow>
     (\<exists>r. ant_records s (m, h) = Some r \<and> h = hash_undername env (at_undername r) \<and> k r = Inr x)"
  by (auto simp: existing_record_def ok_or_iff require_iff)

lemma mpl_invoke_iff:
  "mpl_invoke env call s = Inr s' \<longleftrightarrow> mpl_accepts env (mpl_log s) call \<and> s' = s\<lparr>mpl_log := mpl_log s @ [call]\<rparr>"
  by (auto simp: mpl_invoke_def require_iff)

lemma acl_accounts_iff:
  "acl_accounts u i s k = Inr x \<longleftrightarrow>
     (\<exists>cfg page. acl_configs s u = Some cfg \<and> acl_pages s (al_user cfg, i) = Some page \<and> ap_page_idx page = i
       \<and> k cfg page = Inr x)"
  by (auto simp: acl_accounts_def ok_or_iff require_iff)

lemmas ant_run_iff = require_iff ok_or_iff and_then_iff core_asset_iff AntAccounts_iff permitted_iff
  holder_only_iff existing_record_iff mpl_invoke_iff acl_accounts_iff

lemma controls_permitted:
  assumes "ant_assets env m = Some a" "ra_owner a = MPL_CORE_PROGRAM_ID" "read_asset_owner_data (ra_data a) = Inr o1"
    and "ant_configs s m = Some cfg" "ant_controller_lists s m = Some ctl"
    and "reconcile_ownership cfg ctl o1 = (cfg1, ctl1)" and "u = o1 \<or> u \<in> set (ct_controllers ctl1)"
  shows "controls env s m u"
  using assms asset_holderI [OF assms(1-3)]
  by (auto simp: controls_def reconcile_ownership_def split: if_splits)

lemma save_ant_simps [simp]:
  "ant_configs (save_ant m c l s) = (ant_configs s)(m \<mapsto> c)"
  "ant_controller_lists (save_ant m c l s) = (ant_controller_lists s)(m \<mapsto> l)"
  "ant_records (save_ant m c l s) = ant_records s" "ant_metadata (save_ant m c l s) = ant_metadata s"
  "acl_configs (save_ant m c l s) = acl_configs s" "acl_pages (save_ant m c l s) = acl_pages s"
  "mpl_log (save_ant m c l s) = mpl_log s" "ant_migration_acc (save_ant m c l s) = ant_migration_acc s"
  by (simp_all add: save_ant_def)

section \<open>Every instruction stays within the roles\<close>

text \<open>An instruction over one ANT leaves the others alone.\<close>

definition others_kept :: "pubkey \<Rightarrow> ant_state \<Rightarrow> ant_state \<Rightarrow> bool" where
  "others_kept m s s' \<longleftrightarrow> (\<forall>m'. m' \<noteq> m \<longrightarrow> ant_part m' s' = ant_part m' s)"

lemma others_keptI:
  assumes "others_kept m s s'" and "permitted_change env u m s s'"
  shows "permitted_change env u m' s s'"
  using assms by (cases "m' = m") (auto simp: others_kept_def permitted_change_def)

lemma others_kept_iff:
  "others_kept m s s' \<longleftrightarrow> (\<forall>m'. m' \<noteq> m \<longrightarrow> ant_configs s' m' = ant_configs s m'
     \<and> ant_controller_lists s' m' = ant_controller_lists s m'
     \<and> (\<forall>h. ant_records s' (m', h) = ant_records s (m', h)) \<and> (\<forall>h. ant_metadata s' (m', h) = ant_metadata s (m', h)))"
  by (auto simp: others_kept_def ant_part_eq)

lemma entry_keeps:
  "add_entry u cfg page a role s = Inr s' \<Longrightarrow> ant_part m s' = ant_part m s"
  "remove_entry u cfg page a role s = Inr s' \<Longrightarrow> ant_part m s' = ant_part m s"
  by (auto simp: add_entry_def remove_entry_def ant_run_iff ant_part_eq)

lemma reconcile_holder:
  "reconcile_ownership cfg ctl o1 = (cfg1, ctl1) \<Longrightarrow> an_last_known_owner cfg1 = o1"
  by (auto simp: reconcile_ownership_def split: if_splits)

text \<open>Anyone's reconciliation leaves a configuration that knows the present holder.\<close>

lemma reconciled_holder:
  "reconcile env m s = Inr s' \<Longrightarrow> \<exists>c. ant_configs s' m = Some c \<and> asset_holder env m = Some (an_last_known_owner c)"
  by (auto simp: reconcile_def ant_run_iff asset_holder_iff reconcile_ownership_def split: if_splits)

text \<open>A caller who passed as a delegate was named by the present holder.\<close>

lemma refreshed_owner:
  "at_owner (refresh_record cfg r) = Some u \<longleftrightarrow>
     at_owner r = Some u \<and> at_last_reconciled_owner r = an_last_known_owner cfg"
  by (simp add: refresh_record_def)

lemma refreshed_id: "at_last_reconciled_owner r = an_last_known_owner cfg \<Longrightarrow> refresh_record cfg r = r"
  by (simp add: refresh_record_def)

lemma delegateI:
  assumes "ant_assets env m = Some a" "ra_owner a = MPL_CORE_PROGRAM_ID" "read_asset_owner_data (ra_data a) = Inr o1"
    and "reconcile_ownership cfg ctl o1 = (cfg1, ctl1)" and "ant_records s (m, h) = Some r"
    and "at_owner r = Some u" and "at_last_reconciled_owner r = an_last_known_owner cfg1"
  shows "delegate env s m h u"
  using assms asset_holderI [OF assms(1-3)] reconcile_holder [OF assms(4)] by (auto simp: delegate_def)

lemma reconciledI:
  assumes "ant_assets env m = Some a" "ra_owner a = MPL_CORE_PROGRAM_ID" "read_asset_owner_data (ra_data a) = Inr o1"
    and "ant_configs s m = Some cfg" "ant_controller_lists s m = Some ctl"
    and "reconcile_ownership cfg ctl o1 = (cfg1, ctl1)"
    and "ant_configs s' m = Some cfg1" "ant_controller_lists s' m = Some ctl1"
  shows "reconciled env m s s'"
  unfolding reconciled_def using assms asset_holderI [OF assms(1-3)] by blast

lemma claim_delegate:
  assumes "claim_record env m u h undername cfg False (load_record s (m, h)) = Inr r1"
  obtains r where "ant_records s (m, h) = Some r" "at_owner r = Some u"
    "at_last_reconciled_owner r = an_last_known_owner cfg" "r1 = r"
  using assms
  by (cases "ant_records s (m, h)")
    (auto simp: claim_record_def load_record_def zeroed_record_def Let_def require_iff refreshed_owner refreshed_id
      split: if_splits)

lemma prioritise_delegate:
  assumes "prioritise_record undername p False r = Inr r2"
  shows "r2 = r \<or> undername = ''@'' \<and> r2 = r\<lparr>at_priority := Some 0\<rparr>"
  using assms by (auto simp: prioritise_record_def require_iff split: if_splits)

lemma set_record_permitted:
  assumes "set_record env m u params s = Inr s'"
  shows "others_kept m s s' \<and> permitted_change env u m s s'"
proof -
  obtain a cfg ctl o1 cfg1 ctl1 r1 r2 where acc: "ant_assets env m = Some a" "ra_owner a = MPL_CORE_PROGRAM_ID"
      "read_asset_owner_data (ra_data a) = Inr o1" "ant_configs s m = Some cfg" "ant_controller_lists s m = Some ctl"
      "reconcile_ownership cfg ctl o1 = (cfg1, ctl1)"
    and claim: "claim_record env m u (hash_undername env (sr_undername params))
        (ant_lowercase env (sr_undername params)) cfg1 (u = o1 \<or> u \<in> set (ct_controllers ctl1))
        (load_record s (m, hash_undername env (sr_undername params))) = Inr r1"
    and prio: "prioritise_record (ant_lowercase env (sr_undername params)) (sr_priority params)
        (u = o1 \<or> u \<in> set (ct_controllers ctl1)) r1 = Inr r2"
    and s': "s' = save_ant m cfg1 ctl1 (s\<lparr>ant_records := (ant_records s)((m, hash_undername env (sr_undername params)) \<mapsto>
       (if u = o1 \<or> u \<in> set (ct_controllers ctl1) then r2\<lparr>at_owner := sr_record_owner params\<rparr> else r2)
       \<lparr>at_target := sr_target params, at_target_protocol := sr_target_protocol params,
          at_ttl_seconds := sr_ttl_seconds params\<rparr>)\<rparr>)"
    using assms unfolding set_record_def Let_def ant_run_iff by (elim exE conjE) blast
  let ?h = "hash_undername env (sr_undername params)"
  have "others_kept m s s'" by (simp add: others_kept_iff s')
  moreover have "permitted_change env u m s s'"
  proof (cases "u = o1 \<or> u \<in> set (ct_controllers ctl1)")
    case True
    then show ?thesis using controls_permitted [OF acc] by (simp add: permitted_change_def)
  next
    case False
    then obtain r where r: "ant_records s (m, ?h) = Some r" "at_owner r = Some u"
      "at_last_reconciled_owner r = an_last_known_owner cfg1" "r1 = r"
      using claim by (auto elim: claim_delegate)
    have r2: "r2 = r \<or> ant_lowercase env (sr_undername params) = ''@'' \<and> r2 = r\<lparr>at_priority := Some 0\<rparr>"
      using prioritise_delegate prio False r(4) by auto
    have "delegate env s m ?h u" by (rule delegateI [OF acc(1-3,6) r(1-3)])
    moreover have "delegate_change env m ?h s s'"
      unfolding delegate_change_def
    proof (intro conjI)
      show "reconciled env m s s'" by (rule reconciledI [OF acc]) (simp_all add: s')
      show "\<exists>r r'. ant_records s (m, ?h) = Some r \<and> ant_records s' (m, ?h) = Some r' \<and> delegate_edit env ?h r r'"
        using r(1) r2 False by (auto simp: s' delegate_edit_def hash_undername_def)
    qed (simp add: s')
    ultimately show ?thesis by (auto simp: permitted_change_def)
  qed
  ultimately show ?thesis by blast
qed

lemma transfer_record_permitted:
  assumes "transfer_record env m u h new_owner s = Inr s'"
  shows "others_kept m s s' \<and> permitted_change env u m s s'"
proof -
  obtain a cfg ctl o1 cfg1 ctl1 r where acc: "ant_assets env m = Some a" "ra_owner a = MPL_CORE_PROGRAM_ID"
      "read_asset_owner_data (ra_data a) = Inr o1" "ant_configs s m = Some cfg" "ant_controller_lists s m = Some ctl"
      "reconcile_ownership cfg ctl o1 = (cfg1, ctl1)"
    and r: "ant_records s (m, h) = Some r"
    and may: "(u = o1 \<or> u \<in> set (ct_controllers ctl1)) \<or> at_owner (refresh_record cfg1 r) = Some u"
    and s': "s' = save_ant m cfg1 ctl1 (s\<lparr>ant_records := (ant_records s)((m, h) \<mapsto>
              (refresh_record cfg1 r)\<lparr>at_owner := Some new_owner\<rparr>)\<rparr>)"
    using assms unfolding transfer_record_def Let_def ant_run_iff
    by (elim exE conjE) (auto simp: ant_run_iff split: if_splits)
  have "others_kept m s s'" by (simp add: others_kept_iff s')
  moreover have "permitted_change env u m s s'"
  proof (cases "u = o1 \<or> u \<in> set (ct_controllers ctl1)")
    case True
    then show ?thesis using controls_permitted [OF acc] by (simp add: permitted_change_def)
  next
    case False
    with may have o: "at_owner r = Some u" "at_last_reconciled_owner r = an_last_known_owner cfg1"
      by (auto simp: refreshed_owner)
    have "delegate env s m h u" by (rule delegateI [OF acc(1-3,6) r o])
    moreover have "delegate_change env m h s s'"
      unfolding delegate_change_def
    proof (intro conjI)
      show "reconciled env m s s'" by (rule reconciledI [OF acc]) (simp_all add: s')
      show "\<exists>r r'. ant_records s (m, h) = Some r \<and> ant_records s' (m, h) = Some r' \<and> delegate_edit env h r r'"
        using r o(2) by (auto simp: s' delegate_edit_def refreshed_id)
    qed (simp add: s')
    ultimately show ?thesis by (auto simp: permitted_change_def)
  qed
  ultimately show ?thesis by blast
qed

lemma set_record_metadata_permitted:
  assumes "set_record_metadata env m u params s = Inr s'"
  shows "others_kept m s s' \<and> permitted_change env u m s s'"
proof -
  let ?h = "hash_undername env (sm_undername params)"
  obtain a cfg ctl o1 cfg1 ctl1 r md where acc: "ant_assets env m = Some a" "ra_owner a = MPL_CORE_PROGRAM_ID"
      "read_asset_owner_data (ra_data a) = Inr o1" "ant_configs s m = Some cfg" "ant_controller_lists s m = Some ctl"
      "reconcile_ownership cfg ctl o1 = (cfg1, ctl1)"
    and r: "ant_records s (m, ?h) = Some r"
    and may: "(u = o1 \<or> u \<in> set (ct_controllers ctl1))
        \<or> at_last_reconciled_owner r = an_last_known_owner cfg1 \<and> at_owner r = Some u"
    and s': "s' = save_ant m cfg1 ctl1 (s\<lparr>ant_metadata := (ant_metadata s)((m, ?h) \<mapsto> md)\<rparr>)"
    using assms unfolding set_record_metadata_def Let_def ant_run_iff by (elim exE conjE) blast
  have "others_kept m s s'" by (simp add: others_kept_iff s')
  moreover have "permitted_change env u m s s'"
  proof (cases "u = o1 \<or> u \<in> set (ct_controllers ctl1)")
    case True
    then show ?thesis using controls_permitted [OF acc] by (simp add: permitted_change_def)
  next
    case False
    with may have o: "at_owner r = Some u" "at_last_reconciled_owner r = an_last_known_owner cfg1" by auto
    have "delegate env s m ?h u" by (rule delegateI [OF acc(1-3,6) r o])
    moreover have "delegate_change env m ?h s s'"
      unfolding delegate_change_def
    proof (intro conjI)
      show "reconciled env m s s'" by (rule reconciledI [OF acc]) (simp_all add: s')
      show "\<exists>r r'. ant_records s (m, ?h) = Some r \<and> ant_records s' (m, ?h) = Some r' \<and> delegate_edit env ?h r r'"
        using r by (auto simp: s' delegate_edit_def)
    qed (simp add: s')
    ultimately show ?thesis by (auto simp: permitted_change_def)
  qed
  ultimately show ?thesis by blast
qed

lemma controlled_change: "controls env s m u \<Longrightarrow> others_kept m s s' \<Longrightarrow> others_kept m s s' \<and> permitted_change env u m s s'"
  by (simp add: permitted_change_def)

lemma holder_controls:
  "ant_assets env m = Some a \<Longrightarrow> ra_owner a = MPL_CORE_PROGRAM_ID \<Longrightarrow> read_asset_owner_data (ra_data a) = Inr u \<Longrightarrow>
     controls env s m u"
  using asset_holderI [of env m a u] by (simp add: controls_def)

lemma others_kept_entry:
  "add_entry w cfg page a role s1 = Inr s' \<Longrightarrow> others_kept m s s1 \<Longrightarrow> others_kept m s s'"
  "remove_entry w cfg page a role s1 = Inr s' \<Longrightarrow> others_kept m s s1 \<Longrightarrow> others_kept m s s'"
  by (simp_all add: others_kept_def entry_keeps)

lemma others_kept_save [simp]:
  "others_kept m s (save_ant m c l s)"
  "others_kept m s (save_ant m c l (s\<lparr>ant_metadata := (ant_metadata s)((m, h) := x)\<rparr>))"
  "others_kept m s (save_ant m c l (s\<lparr>ant_records := (ant_records s)((m, h) := y)\<rparr>))"
  "others_kept m s (save_ant m c l (s\<lparr>ant_records := (ant_records s)((m, h) := y),
     ant_metadata := (ant_metadata s)((m, h) := x)\<rparr>))"
  "others_kept m s (save_ant m c l (s\<lparr>mpl_log := log\<rparr>))"
  by (simp_all add: others_kept_iff)

lemma manage_permitted:
  assumes "\<exists>a cfg ctl. ant_assets env m = Some a \<and> ra_owner a = MPL_CORE_PROGRAM_ID \<and> ant_configs s m = Some cfg
      \<and> ant_controller_lists s m = Some ctl \<and> manage_metadata f m u (ra_data a) cfg ctl s = Inr s'"
  shows "others_kept m s s' \<and> permitted_change env u m s s'"
  using assms unfolding manage_metadata_def permitted_iff require_iff
  by (elim exE conjE) (rule controlled_change, rule controls_permitted; (assumption | auto))

lemma record_step_permitted:
  assumes "ant_record_step env m u op s = Inr s'"
  shows "others_kept m s s' \<and> permitted_change env u m s s'"
proof (cases op)
  case (SetRecordOp params)
  with assms show ?thesis by (simp add: ant_record_step_def set_record_permitted)
next
  case (RemoveRecordOp h with_metadata)
  with assms have "remove_record env m u h with_metadata s = Inr s'" by (simp add: ant_record_step_def)
  then show ?thesis
    unfolding remove_record_def ant_run_iff
    by (elim exE conjE) (rule controlled_change, rule controls_permitted; (assumption | auto simp: others_kept_iff))
next
  case (TransferRecordOp h new_owner)
  with assms show ?thesis by (simp add: ant_record_step_def transfer_record_permitted)
next
  case (SetNameOp name)
  with assms show ?thesis
    by (intro manage_permitted) (auto simp: ant_record_step_def set_name_def AntAccounts_iff require_iff)
next
  case (SetTickerOp ticker)
  with assms show ?thesis
    by (intro manage_permitted) (auto simp: ant_record_step_def set_ticker_def AntAccounts_iff require_iff)
next
  case (SetDescriptionOp description)
  with assms show ?thesis
    by (intro manage_permitted) (auto simp: ant_record_step_def set_description_def AntAccounts_iff require_iff)
next
  case (SetKeywordsOp kws)
  with assms show ?thesis
    by (intro manage_permitted) (auto simp: ant_record_step_def set_keywords_def AntAccounts_iff require_iff)
next
  case (SetLogoOp logo)
  with assms show ?thesis
    by (intro manage_permitted) (auto simp: ant_record_step_def set_logo_def AntAccounts_iff require_iff)
next
  case (SetRecordMetadataOp params)
  with assms show ?thesis by (simp add: ant_record_step_def set_record_metadata_permitted)
next
  case (RemoveRecordMetadataOp undername)
  with assms have "remove_record_metadata env m u undername s = Inr s'" by (simp add: ant_record_step_def)
  then show ?thesis
    unfolding remove_record_metadata_def Let_def ant_run_iff
    by (elim exE conjE) (rule controlled_change, rule controls_permitted; (assumption | auto simp: others_kept_iff))
next
  case (AddControllerOp controller idx)
  with assms have "add_controller env m u controller idx s = Inr s'" by (simp add: ant_record_step_def)
  then show ?thesis
    unfolding add_controller_def assert_page_belongs_def ant_run_iff
    by (elim exE conjE) (rule controlled_change, rule controls_permitted; (assumption | erule others_kept_entry, simp))
next
  case (RemoveControllerOp controller idx)
  with assms have "remove_controller env m u controller idx s = Inr s'" by (simp add: ant_record_step_def)
  then show ?thesis
    unfolding remove_controller_def assert_page_belongs_def ant_run_iff
    by (elim exE conjE) (rule controlled_change, rule controls_permitted; (assumption | erule others_kept_entry, simp))
qed

lemma holder_step_permitted:
  assumes "ant_holder_step env m u op s = Inr s'"
  shows "controls env s m u \<and> others_kept m s s'"
proof (cases op)
  case (InitializeAntOp params)
  with assms have "initialize_ant env m u params s = Inr s'" by (simp add: ant_holder_step_def)
  then show ?thesis
    unfolding initialize_ant_def Let_def ant_run_iff
    by (elim exE conjE) (auto simp: others_kept_iff intro: holder_controls)
next
  case (TransferAntOp new_owner new_idx old_idx)
  with assms have "transfer_ant env m u new_owner new_idx old_idx s = Inr s'" by (simp add: ant_holder_step_def)
  then show ?thesis
    unfolding transfer_ant_def Let_def assert_page_belongs_def ant_run_iff
    by (elim exE conjE) (auto intro: holder_controls elim!: others_kept_entry)
next
  case (ClearAttributesOp payer)
  with assms have "clear_attributes env m payer u s = Inr s'" by (simp add: ant_holder_step_def)
  then show ?thesis
    unfolding clear_attributes_def Let_def update_attributes_plugin_def ant_run_iff
    by (elim exE conjE) (auto simp: others_kept_iff intro: holder_controls)
next
  case (AdoptAuthorityOp payer)
  with assms have "adopt_authority env m payer u s = Inr s'" by (simp add: ant_holder_step_def)
  then show ?thesis
    unfolding adopt_authority_def ant_run_iff
    by (elim exE conjE) (auto simp: others_kept_iff intro: holder_controls)
qed (use assms in \<open>auto simp: ant_holder_step_def close_ant_record_def close_ant_record_metadata_for_owner_def
      close_ant_controllers_def close_ant_config_def Let_def ant_run_iff others_kept_iff intro: holder_controls\<close>)

text \<open>Instructions of anyone leave every ANT alone, but for the two repairs.\<close>

lemma public_step_permitted:
  assumes "ant_public_step env u op s = Inr s'"
  shows "permitted_change env u m s s'"
proof (cases op)
  case (ReconcileOp asset)
  with assms obtain a cfg ctl o1 cfg1 ctl1 where acc: "ant_assets env asset = Some a" "ra_owner a = MPL_CORE_PROGRAM_ID"
      "read_asset_owner_data (ra_data a) = Inr o1" "ant_configs s asset = Some cfg" "ant_controller_lists s asset = Some ctl"
      "reconcile_ownership cfg ctl o1 = (cfg1, ctl1)" and s': "s' = save_ant asset cfg1 ctl1 s"
    by (auto simp: ant_public_step_def reconcile_def ant_run_iff case_prod_unfold prod_eq_iff)
  have "reconciled env asset s s'" by (rule reconciledI [OF acc]) (simp_all add: s')
  then have "permitted_change env u asset s s'" by (simp add: permitted_change_def s')
  then show ?thesis using others_keptI [of asset s s'] by (simp add: s')
next
  case (CloseOrphanedRecordMetadataOp asset undername)
  with assms have "orphans_closed m s s'"
    by (auto simp: ant_public_step_def close_orphaned_record_metadata_def Let_def ant_run_iff orphans_closed_def
        split: if_splits)
  then show ?thesis by (simp add: permitted_change_def)
next
  case (SyncAttributesOp asset h name)
  with assms have "ant_part m s' = ant_part m s"
    by (auto simp: ant_public_step_def sync_attributes_def Let_def update_attributes_plugin_def ant_run_iff ant_part_def)
  then show ?thesis by (simp add: permitted_change_def)
next
  case (RecordAclOwnerOp asset user idx)
  with assms have "ant_part m s' = ant_part m s"
    by (auto simp: ant_public_step_def record_acl_owner_def assert_page_belongs_def ant_run_iff dest: entry_keeps)
  then show ?thesis by (simp add: permitted_change_def)
next
  case (RemoveAclOwnerOp asset user idx)
  with assms have "ant_part m s' = ant_part m s"
    by (auto simp: ant_public_step_def remove_acl_owner_def assert_page_belongs_def ant_run_iff dest: entry_keeps)
  then show ?thesis by (simp add: permitted_change_def)
next
  case (RecordAclControllerOp asset user idx)
  with assms have "ant_part m s' = ant_part m s"
    by (auto simp: ant_public_step_def record_acl_controller_def assert_page_belongs_def ant_run_iff dest: entry_keeps)
  then show ?thesis by (simp add: permitted_change_def)
next
  case (RemoveAclControllerOp asset user idx)
  with assms have "ant_part m s' = ant_part m s"
    by (auto simp: ant_public_step_def remove_acl_controller_def assert_page_belongs_def ant_run_iff dest: entry_keeps)
  then show ?thesis by (simp add: permitted_change_def)
qed (use assms in \<open>auto simp: ant_public_step_def register_acl_config_def add_acl_page_def close_acl_page_def
      close_acl_config_def Let_def ant_run_iff permitted_change_def ant_part_def\<close>)

text \<open>The cleanup touches the records of the burnt asset only if records know their mint.\<close>

definition mints_ok :: "ant_state \<Rightarrow> bool" where
  "mints_ok s \<longleftrightarrow> (\<forall>m h r. ant_records s (m, h) = Some r \<longrightarrow> at_mint r = m)
     \<and> (\<forall>m h d. ant_metadata s (m, h) = Some d \<longrightarrow> md_mint d = m)"

lemma close_orphans_kept:
  "close_orphans m accts s = Inr s' \<Longrightarrow> mints_ok s \<Longrightarrow>
     others_kept m s s' \<and> ant_configs s' = ant_configs s \<and> ant_controller_lists s' = ant_controller_lists s"
proof (induction m accts s rule: close_orphans.induct)
  case (2 m mint h accts s)
  then show ?case
    by (cases "ant_records s (mint, h)") (auto simp: require_iff mints_ok_def others_kept_iff)
next
  case (3 m mint h accts s)
  then show ?case
    by (cases "ant_metadata s (mint, h)") (auto simp: require_iff mints_ok_def others_kept_iff)
qed (auto simp: others_kept_def)

lemma admin_step_permitted:
  assumes "ant_admin_step env u op s = Inr s'" and "mints_ok s"
  shows "permitted_change env u m s s'"
proof (cases op)
  case (AdminCloseOrphanedAntStateOp asset remaining)
  with assms(1) obtain mc s1 where mc: "ant_migration_acc s = Some mc" "mc_authority mc = u"
    and gone: "case ant_assets env asset of None \<Rightarrow> True | Some a \<Rightarrow> ra_data a = [] \<and> ra_owner a = 0"
    and close: "close_orphans asset remaining s = Inr s1"
    and s': "s' = s1\<lparr>ant_configs := (ant_configs s1)(asset := None),
               ant_controller_lists := (ant_controller_lists s1)(asset := None)\<rparr>"
    by (auto simp: ant_admin_step_def admin_close_orphaned_ant_state_def ant_run_iff)
  have "asset_holder env asset = None"
    using gone by (auto simp: asset_holder_def core_asset_def read_asset_owner_data_def require_def
        split: option.splits sum.splits)
  then have "permitted_change env u asset s s'" using mc by (auto simp: permitted_change_def burnt_def)
  moreover have "others_kept asset s s'"
    using close_orphans_kept [OF close assms(2)] by (auto simp: others_kept_iff s')
  ultimately show ?thesis using others_keptI by blast
qed (use assms in \<open>auto simp: ant_admin_step_def initialize_migration_def finalize_ant_migration_def
      ant_transfer_authority_def ant_run_iff permitted_change_def ant_part_def\<close>)

lemma ant_step_permitted:
  assumes "ant_step env op s = Inr s'" and "mints_ok s"
  shows "permitted_change env (ant_signer op) m s s'"
proof (cases op)
  case (AntRecordOp asset caller o1)
  then show ?thesis using assms(1) record_step_permitted others_keptI by (fastforce simp: ant_step_def)
next
  case (AntHolderOp asset caller o2)
  then have "permitted_change env caller asset s s' \<and> others_kept asset s s'"
    using assms(1) holder_step_permitted by (fastforce simp: ant_step_def permitted_change_def)
  then show ?thesis using AntHolderOp others_keptI [of asset s s' env caller m] by simp
next
  case (AntPublicOp caller o3)
  then show ?thesis using assms(1) public_step_permitted by (simp add: ant_step_def)
next
  case (AntAdminOp caller o4)
  then show ?thesis using assms admin_step_permitted by (simp add: ant_step_def)
qed

end
