(* ===== verification/Ant_Codec.thy ===== *)
theory Ant_Codec
  imports Ant_Import
begin

text \<open>
  The layouts of the \<open>ario-ant\<close> accounts, field by field as \<open>state.rs\<close> declares them, and the proof
  that the walk of the import accepts exactly these layouts.
\<close>

section \<open>Layouts\<close>

definition borsh_ant_config :: "ant_config \<Rightarrow> u8 list" where
  "borsh_ant_config c = key_bytes (an_mint c) @ borsh_string (an_name c) @ borsh_string (an_ticker c)
     @ borsh_string (an_logo c) @ borsh_string (an_description c)
     @ borsh_vec borsh_string (an_keywords c) @ key_bytes (an_last_known_owner c)
     @ [an_bump c] @ version_bytes (an_version c)"

definition borsh_ant_controllers :: "ant_controllers \<Rightarrow> u8 list" where
  "borsh_ant_controllers c = key_bytes (ct_mint c) @ borsh_vec key_bytes (ct_controllers c)
     @ [ct_bump c] @ version_bytes (ct_version c)"

definition borsh_ant_record :: "ant_record \<Rightarrow> u8 list" where
  "borsh_ant_record r = key_bytes (at_mint r) @ borsh_string (at_undername r) @ borsh_string (at_target r)
     @ [at_target_protocol r] @ borsh_u32 (at_ttl_seconds r) @ borsh_option borsh_u32 (at_priority r)
     @ borsh_option key_bytes (at_owner r) @ key_bytes (at_last_reconciled_owner r)
     @ [at_bump r] @ version_bytes (at_version r)"

definition borsh_ant_metadata :: "ant_record_metadata \<Rightarrow> u8 list" where
  "borsh_ant_metadata m = key_bytes (md_mint m) @ key_bytes (md_undername_hash m)
     @ borsh_option borsh_string (md_display_name m) @ borsh_option borsh_string (md_record_logo m)
     @ borsh_option borsh_string (md_record_description m)
     @ borsh_option (borsh_vec borsh_string) (md_record_keywords m)
     @ [md_bump m] @ version_bytes (md_version m)"

text \<open>A length is a \<open>u32\<close>.\<close>

definition len_ok :: "'a list \<Rightarrow> bool" where "len_ok xs \<longleftrightarrow> length xs < 2 ^ 32"

definition keywords_fit :: "string list \<Rightarrow> bool" where
  "keywords_fit ks \<longleftrightarrow> length ks \<le> MAX_KEYWORDS \<and> list_all len_ok ks"

section \<open>The steps of the walk are fields\<close>

lemma skip_bytes_iff:
  "0 < n \<Longrightarrow> skip_bytes n data i = Inr j \<longleftrightarrow> (\<exists>bs. length bs = n \<and> holds_at data i bs \<and> j = i + n)"
  using holds_at_exists [of i n data] by (auto simp: skip_bytes_def require_iff)

interpretation bpubkey: borsh_field skip_pubkey key_bytes "\<lambda>_. True"
proof
  fix data i j
  have "(\<exists>bs. length bs = 32 \<and> holds_at data i bs) \<longleftrightarrow> (\<exists>k. holds_at data i (key_bytes k))"
    by (metis key_bytes_of_nat length_key_bytes)
  then show "skip_pubkey data i = Inr j \<longleftrightarrow>
      (\<exists>x. True \<and> holds_at data i (key_bytes x) \<and> j = i + length (key_bytes x))"
    by (auto simp: skip_pubkey_def skip_bytes_iff)
qed

lemma version_type_bytes:
  "(\<exists>bs. length bs = 3 \<and> holds_at data i bs) \<longleftrightarrow> (\<exists>v. holds_at data i (version_bytes v))"
  by (metis version_bytes_surj length_version_bytes)

interpretation bversion: borsh_field skip_schema_version version_bytes "\<lambda>_. True"
  using version_type_bytes by unfold_locales (auto simp: skip_schema_version_def skip_bytes_iff)

lemma one_byte: "(\<exists>b. holds_at data i [b]) \<longleftrightarrow> i < length data"
  using holds_at_exists [of i 1 data] by (auto simp: length_Suc_conv Suc_le_eq)

interpretation bu8: borsh_field skip_u8 "\<lambda>b. [b]" "\<lambda>_. True"
  using one_byte by unfold_locales (auto simp: skip_u8_def read_u8_def and_then_iff require_iff)

lemma read_u32_iff:
  "read_u32_le data i = Inr (n, j) \<longleftrightarrow> n < 2 ^ 32 \<and> holds_at data i (le_bytes 4 n) \<and> j = i + 4"
proof -
  have "i + 4 \<le> length data \<longleftrightarrow> (\<exists>bs. length bs = 4 \<and> holds_at data i bs)"
    using holds_at_exists [of i 4 data] by auto
  moreover have "(length bs = 4 \<and> holds_at data i bs \<and> n = le_nat_at data i 4) \<longleftrightarrow>
      (n < 2 ^ 32 \<and> bs = le_bytes 4 n \<and> holds_at data i bs)" for bs
  proof
    assume l: "length bs = 4 \<and> holds_at data i bs \<and> n = le_nat_at data i 4"
    then have "n = le_nat bs" using holds_at_le_nat [of bs i data] by simp
    then show "n < 2 ^ 32 \<and> bs = le_bytes 4 n \<and> holds_at data i bs"
      using le_nat_less [of bs] le_bytes_le_nat [of bs] l by simp
  next
    assume r: "n < 2 ^ 32 \<and> bs = le_bytes 4 n \<and> holds_at data i bs"
    then show "length bs = 4 \<and> holds_at data i bs \<and> n = le_nat_at data i 4"
      using holds_at_len [of n i data] by auto
  qed
  ultimately have "i + 4 \<le> length data \<and> n = le_nat_at data i 4
      \<longleftrightarrow> (\<exists>bs. n < 2 ^ 32 \<and> bs = le_bytes 4 n \<and> holds_at data i bs)"
    by (metis (no_types, lifting))
  then show ?thesis by (auto simp: read_u32_le_def require_iff)
qed

interpretation bu32: borsh_field skip_u32 borsh_u32 "\<lambda>_. True"
proof
  fix data i j
  have "(\<exists>n. n < 2 ^ 32 \<and> holds_at data i (le_bytes 4 n)) \<longleftrightarrow> (\<exists>w. holds_at data i (borsh_u32 w))"
  proof
    assume "\<exists>n. n < 2 ^ 32 \<and> holds_at data i (le_bytes 4 n)"
    then obtain n where "n < 2 ^ 32" "holds_at data i (le_bytes 4 n)" by blast
    then have "holds_at data i (borsh_u32 (of_nat n))"
      by (simp add: borsh_u32_def unsigned_of_nat take_bit_nat_eq_self)
    then show "\<exists>w. holds_at data i (borsh_u32 w)" by blast
  next
    assume "\<exists>w. holds_at data i (borsh_u32 w)"
    then obtain w :: u32 where "holds_at data i (le_bytes 4 (unat w))" by (auto simp: borsh_u32_def)
    then show "\<exists>n. n < 2 ^ 32 \<and> holds_at data i (le_bytes 4 n)" using unsigned_less [of w] by auto
  qed
  then show "skip_u32 data i = Inr j \<longleftrightarrow> (\<exists>x. True \<and> holds_at data i (borsh_u32 x) \<and> j = i + length (borsh_u32 x))"
    by (auto simp: skip_u32_def and_then_iff read_u32_iff)
qed

text \<open>A length and then as many elements.\<close>

lemma prefixed_iff:
  assumes body: "\<And>n. i + 4 \<le> length data \<Longrightarrow> f n (i + 4) = Inr j \<longleftrightarrow> (\<exists>xs. length xs = n \<and> P xs)"
  shows "and_then (read_u32_le data i) (\<lambda>(n, i1). f n i1) = Inr j \<longleftrightarrow>
           (\<exists>xs. len_ok xs \<and> holds_at data i (le_bytes 4 (length xs)) \<and> P xs)"
proof -
  have bound: "i + 4 \<le> length data" if "holds_at data i (le_bytes 4 n)" for n
    using holds_at_length [OF that] by (cases "le_bytes 4 n = []") (auto simp flip: length_0_conv)
  have "and_then (read_u32_le data i) (\<lambda>(n, i1). f n i1) = Inr j \<longleftrightarrow>
      (\<exists>n. n < 2 ^ 32 \<and> holds_at data i (le_bytes 4 n) \<and> f n (i + 4) = Inr j)"
    by (simp add: and_then_iff read_u32_iff)
  also have "\<dots> \<longleftrightarrow> (\<exists>n. n < 2 ^ 32 \<and> holds_at data i (le_bytes 4 n) \<and> (\<exists>xs. length xs = n \<and> P xs))"
    using body bound by blast
  also have "\<dots> \<longleftrightarrow> (\<exists>xs. len_ok xs \<and> holds_at data i (le_bytes 4 (length xs)) \<and> P xs)"
    unfolding len_ok_def by blast
  finally show ?thesis .
qed

lemma text_at: "(\<exists>bs. length bs = n \<and> holds_at data i bs) \<longleftrightarrow> (\<exists>t. length t = n \<and> holds_at data i (text_bytes t))"
  by (metis length_text_bytes text_bytes_surj)

lemma skip_text:
  assumes "i \<le> length data"
  shows "skip_bytes n data i = Inr j \<longleftrightarrow> (\<exists>t. length t = n \<and> holds_at data i (text_bytes t) \<and> j = i + length t)"
proof (cases "n = 0")
  case True
  then show ?thesis using assms by (auto simp: skip_bytes_def require_iff text_bytes_def)
next
  case False
  then have "skip_bytes n data i = Inr j \<longleftrightarrow> (\<exists>bs. length bs = n \<and> holds_at data i bs) \<and> j = i + n"
    using skip_bytes_iff [of n data i j] by blast
  then show ?thesis unfolding text_at by blast
qed

interpretation bstring: borsh_field skip_string borsh_string len_ok
proof
  fix data i j
  have "skip_string data i = Inr j \<longleftrightarrow> (\<exists>t. len_ok t \<and> holds_at data i (le_bytes 4 (length t))
      \<and> holds_at data (i + 4) (text_bytes t) \<and> j = i + 4 + length t)"
    unfolding skip_string_def by (rule prefixed_iff) (rule skip_text)
  then show "skip_string data i = Inr j \<longleftrightarrow>
      (\<exists>x. len_ok x \<and> holds_at data i (borsh_string x) \<and> j = i + length (borsh_string x))"
    by (simp add: borsh_string_def holds_at_append add.assoc)
qed

lemma skip_strings_many: "skip_strings n data i = skip_many skip_string n data i"
  by (induction n arbitrary: i) (simp_all add: and_then_def split: sum.split)

interpretation bkeywords: borsh_field skip_vec_string "borsh_vec borsh_string" keywords_fit
proof
  fix data i j
  have "require (n \<le> MAX_KEYWORDS) AntInvalidAccountData (skip_strings n data (i + 4)) = Inr j \<longleftrightarrow>
      (\<exists>xs. length xs = n \<and> keywords_fit xs \<and> holds_at data (i + 4) (concat (map borsh_string xs))
        \<and> j = i + 4 + length (concat (map borsh_string xs)))" for n
    unfolding require_iff skip_strings_many bstring.skip_many_iff keywords_fit_def by blast
  then have "skip_vec_string data i = Inr j \<longleftrightarrow> (\<exists>xs. len_ok xs \<and> holds_at data i (le_bytes 4 (length xs))
      \<and> keywords_fit xs \<and> holds_at data (i + 4) (concat (map borsh_string xs))
      \<and> j = i + 4 + length (concat (map borsh_string xs)))"
    unfolding skip_vec_string_def by (rule prefixed_iff)
  then show "skip_vec_string data i = Inr j \<longleftrightarrow> (\<exists>x. keywords_fit x
      \<and> holds_at data i (borsh_vec borsh_string x) \<and> j = i + length (borsh_vec borsh_string x))"
    by (auto simp: borsh_vec_def holds_at_append keywords_fit_def MAX_KEYWORDS_def len_ok_def add.assoc)
qed

lemma skip_keys_many:
  "0 < n \<or> i \<le> length data \<Longrightarrow> skip_bytes (n * 32) data i = Inr j \<longleftrightarrow> skip_many skip_pubkey n data i = Inr j"
proof (induction n arbitrary: i)
  case (Suc n)
  have "skip_many skip_pubkey (Suc n) data i = Inr j \<longleftrightarrow>
      i + 32 \<le> length data \<and> skip_many skip_pubkey n data (i + 32) = Inr j"
    by (auto simp: skip_pubkey_def skip_bytes_def and_then_iff require_iff)
  moreover have "skip_bytes (Suc n * 32) data i = Inr j \<longleftrightarrow>
      i + 32 \<le> length data \<and> skip_bytes (n * 32) data (i + 32) = Inr j"
    by (auto simp: skip_bytes_def require_iff)
  ultimately show ?case using Suc.IH [of "i + 32"] by blast
qed (auto simp: skip_bytes_def require_iff)

interpretation bcontrollers: borsh_field skip_vec_pubkey "borsh_vec key_bytes"
  "\<lambda>ks. length ks \<le> MAX_CONTROLLERS"
proof
  fix data i j
  have "require (n \<le> MAX_CONTROLLERS) AntInvalidAccountData (skip_bytes (n * 32) data (i + 4)) = Inr j \<longleftrightarrow>
      (\<exists>xs. length xs = n \<and> length xs \<le> MAX_CONTROLLERS \<and> holds_at data (i + 4) (concat (map key_bytes xs))
        \<and> j = i + 4 + length (concat (map key_bytes xs)))" if "i + 4 \<le> length data" for n
    unfolding require_iff skip_keys_many [OF disjI2 [OF that]] bpubkey.skip_many_iff list_all_iff by blast
  then have "skip_vec_pubkey data i = Inr j \<longleftrightarrow> (\<exists>xs. len_ok xs \<and> holds_at data i (le_bytes 4 (length xs))
      \<and> length xs \<le> MAX_CONTROLLERS \<and> holds_at data (i + 4) (concat (map key_bytes xs))
      \<and> j = i + 4 + length (concat (map key_bytes xs)))"
    unfolding skip_vec_pubkey_def by (rule prefixed_iff)
  then show "skip_vec_pubkey data i = Inr j \<longleftrightarrow> (\<exists>x. length x \<le> MAX_CONTROLLERS
      \<and> holds_at data i (borsh_vec key_bytes x) \<and> j = i + length (borsh_vec key_bytes x))"
    by (auto simp: borsh_vec_def holds_at_append MAX_CONTROLLERS_def len_ok_def add.assoc)
qed

text \<open>The option of a field is a field.\<close>

lemma read_u8_iff: "read_u8 data i = Inr (b, j) \<longleftrightarrow> holds_at data i [b] \<and> j = i + 1"
  using one_byte [where data = data and i = i]
  by (auto simp: read_u8_def require_iff dest: holds_at_nth)

lemma skip_option_field:
  assumes "borsh_field inner enc fits"
  shows "borsh_field (skip_option inner) (borsh_option enc) (pred_option fits)"
proof
  fix data i j
  have "skip_option inner data i = Inr j \<longleftrightarrow>
      holds_at data i [0] \<and> j = i + 1
    \<or> (\<exists>x. fits x \<and> holds_at data i [1] \<and> holds_at data (i + 1) (enc x) \<and> j = i + 1 + length (enc x))"
  proof -
    have "skip_option inner data i = Inr j \<longleftrightarrow>
        (\<exists>b. holds_at data i [b] \<and> (b = 1 \<and> inner data (i + 1) = Inr j \<or> b = 0 \<and> j = i + 1))"
    proof -
      have "(if b = 1 then inner data k else require (b = 0) AntInvalidAccountData (Inr k)) = Inr j \<longleftrightarrow>
          b = 1 \<and> inner data k = Inr j \<or> b = 0 \<and> j = k" for b :: u8 and k
        by (cases "b = 1") (auto simp: require_iff)
      then show ?thesis by (simp add: skip_option_def and_then_iff read_u8_iff)
    qed
    then show ?thesis unfolding borsh_field.skip_iff [OF assms] by blast
  qed
  also have "\<dots> \<longleftrightarrow> (holds_at data i [0] \<and> j = i + 1)
      \<or> (\<exists>x. fits x \<and> holds_at data i ([1] @ enc x) \<and> j = i + length ([1] @ enc x))"
    unfolding holds_at_append by (simp add: add.assoc)
  also have "\<dots> \<longleftrightarrow> (\<exists>x. pred_option fits x \<and> holds_at data i (borsh_option enc x)
      \<and> j = i + length (borsh_option enc x))"
    by (simp add: split_option_ex)
  finally show "skip_option inner data i = Inr j \<longleftrightarrow> (\<exists>x. pred_option fits x
      \<and> holds_at data i (borsh_option enc x) \<and> j = i + length (borsh_option enc x))" .
qed

interpretation bopt_u32: borsh_field "skip_option skip_u32" "borsh_option borsh_u32" "pred_option (\<lambda>_. True)"
  by (rule skip_option_field) unfold_locales

interpretation bopt_pubkey: borsh_field "skip_option skip_pubkey" "borsh_option key_bytes" "pred_option (\<lambda>_. True)"
  by (rule skip_option_field) unfold_locales

interpretation bopt_string: borsh_field "skip_option skip_string" "borsh_option borsh_string" "pred_option len_ok"
  by (rule skip_option_field) unfold_locales

interpretation bopt_keywords: borsh_field "skip_option skip_vec_string" "borsh_option (borsh_vec borsh_string)"
    "pred_option keywords_fit"
  by (rule skip_option_field) unfold_locales

section \<open>The walk accepts exactly the layouts\<close>

text \<open>A layout after the discriminator, padded with zeros.\<close>

definition laid_out :: "u8 list \<Rightarrow> u8 list \<Rightarrow> bool" where
  "laid_out data bs \<longleftrightarrow> (\<exists>disc n. length disc = 8 \<and> data = disc @ bs @ replicate n 0)"

lemma laid_outI:
  assumes "bs \<noteq> []" and "holds_at data 8 bs" and "list_all (\<lambda>b. b = 0) (drop (8 + length bs) data)"
  shows "laid_out data bs"
proof -
  have len: "8 \<le> length data" using holds_at_length [OF assms(2,1)] by simp
  obtain rest where rest: "drop 8 data = bs @ rest" using assms(2) by (auto simp: prefix_def)
  then have "rest = drop (8 + length bs) data" by (metis add.commute append_eq_conv_conj drop_drop)
  then have "rest = replicate (length rest) 0"
    using assms(3) by (auto simp: list_all_iff intro!: replicate_eqI)
  moreover have "data = take 8 data @ bs @ rest" using rest by (metis append_take_drop_id)
  ultimately show ?thesis unfolding laid_out_def using len by (metis length_take min_absorb2)
qed

lemma laid_out_iff:
  assumes "bs \<noteq> []"
  shows "laid_out data bs \<longleftrightarrow> holds_at data 8 bs \<and> list_all (\<lambda>b. b = 0) (drop (8 + length bs) data)"
proof
  assume "laid_out data bs"
  then obtain disc n where "length disc = 8" "data = disc @ bs @ replicate n 0" by (auto simp: laid_out_def)
  then show "holds_at data 8 bs \<and> list_all (\<lambda>b. b = 0) (drop (8 + length bs) data)"
    by (auto simp: list_all_iff)
qed (use assms laid_outI in blast)

lemmas walk_iff = bpubkey.then_iff bstring.then_iff bkeywords.then_iff bcontrollers.then_iff bu8.then_iff
  bu32.then_iff bversion.then_iff bopt_u32.then_iff bopt_pubkey.then_iff bopt_string.then_iff
  bopt_keywords.then_iff

lemma padding_iff: "require_trailing_zero_padding data i = Inr u \<longleftrightarrow> list_all (\<lambda>b. b = 0) (drop i data)"
  by (simp add: require_trailing_zero_padding_def require_iff)

lemma hash_field: "skip_bytes 32 = skip_pubkey"
  by (simp add: fun_eq_iff skip_pubkey_def)

definition record_fits :: "ant_record \<Rightarrow> bool" where
  "record_fits r \<longleftrightarrow> len_ok (at_undername r) \<and> len_ok (at_target r)"

definition config_fits :: "ant_config \<Rightarrow> bool" where
  "config_fits c \<longleftrightarrow> len_ok (an_name c) \<and> len_ok (an_ticker c) \<and> len_ok (an_logo c)
     \<and> len_ok (an_description c) \<and> keywords_fit (an_keywords c)"

definition metadata_fits :: "ant_record_metadata \<Rightarrow> bool" where
  "metadata_fits m \<longleftrightarrow> pred_option len_ok (md_display_name m) \<and> pred_option len_ok (md_record_logo m)
     \<and> pred_option len_ok (md_record_description m) \<and> pred_option keywords_fit (md_record_keywords m)"

lemma key_bytes_nonempty [simp]: "key_bytes k \<noteq> []"
  by (metis length_key_bytes list.size(3) zero_neq_numeral)

lemmas walk_layout = walk_iff padding_iff holds_at_append length_append add.assoc simp_thms
  option.pred_True conj_assoc

lemma walk_record: "validate_ant_record_borsh_payload data = Inr () \<longleftrightarrow>
  (\<exists>m u t p ttl pr ow l b v. holds_at data 8 (borsh_ant_record
        \<lparr>at_mint = m, at_undername = u, at_target = t, at_target_protocol = p, at_ttl_seconds = ttl,
         at_priority = pr, at_owner = ow, at_last_reconciled_owner = l, at_bump = b, at_version = v\<rparr>)
   \<and> list_all (\<lambda>b. b = 0) (drop (8 + length (borsh_ant_record
        \<lparr>at_mint = m, at_undername = u, at_target = t, at_target_protocol = p, at_ttl_seconds = ttl,
         at_priority = pr, at_owner = ow, at_last_reconciled_owner = l, at_bump = b, at_version = v\<rparr>)) data)
   \<and> len_ok u \<and> len_ok t)" (is "?l \<longleftrightarrow> ?r")
proof
  assume ?l
  then show ?r
    unfolding validate_ant_record_borsh_payload_def borsh_ant_record_def ant_record.simps walk_layout
    by (elim exE conjE) (intro exI conjI; assumption)
next
  assume ?r
  then show ?l
    unfolding validate_ant_record_borsh_payload_def borsh_ant_record_def ant_record.simps walk_layout
    by (elim exE conjE) (intro exI conjI, (assumption)+)
qed

lemma walk_config: "validate_ant_config_borsh_payload data = Inr () \<longleftrightarrow>
  (\<exists>m n t l d ks lko b v. holds_at data 8 (borsh_ant_config
        \<lparr>an_mint = m, an_name = n, an_ticker = t, an_logo = l, an_description = d, an_keywords = ks,
         an_last_known_owner = lko, an_bump = b, an_version = v\<rparr>)
   \<and> list_all (\<lambda>b. b = 0) (drop (8 + length (borsh_ant_config
        \<lparr>an_mint = m, an_name = n, an_ticker = t, an_logo = l, an_description = d, an_keywords = ks,
         an_last_known_owner = lko, an_bump = b, an_version = v\<rparr>)) data)
   \<and> len_ok n \<and> len_ok t \<and> len_ok l \<and> len_ok d \<and> keywords_fit ks)" (is "?l \<longleftrightarrow> ?r")
proof
  assume ?l
  then show ?r
    unfolding validate_ant_config_borsh_payload_def borsh_ant_config_def ant_config.simps walk_layout
    by (elim exE conjE) (intro exI conjI; assumption)
next
  assume ?r
  then show ?l
    unfolding validate_ant_config_borsh_payload_def borsh_ant_config_def ant_config.simps walk_layout
    by (elim exE conjE) (intro exI conjI, (assumption)+)
qed

lemma walk_controllers: "validate_ant_controllers_borsh_payload data = Inr () \<longleftrightarrow>
  (\<exists>m ks b v. holds_at data 8 (borsh_ant_controllers
        \<lparr>ct_mint = m, ct_controllers = ks, ct_bump = b, ct_version = v\<rparr>)
   \<and> list_all (\<lambda>b. b = 0) (drop (8 + length (borsh_ant_controllers
        \<lparr>ct_mint = m, ct_controllers = ks, ct_bump = b, ct_version = v\<rparr>)) data)
   \<and> length ks \<le> MAX_CONTROLLERS)" (is "?l \<longleftrightarrow> ?r")
proof
  assume ?l
  then show ?r
    unfolding validate_ant_controllers_borsh_payload_def borsh_ant_controllers_def ant_controllers.simps walk_layout
    by (elim exE conjE) (intro exI conjI; assumption)
next
  assume ?r
  then show ?l
    unfolding validate_ant_controllers_borsh_payload_def borsh_ant_controllers_def ant_controllers.simps walk_layout
    by (elim exE conjE) (intro exI conjI, (assumption)+)
qed

lemma walk_metadata: "validate_ant_record_metadata_borsh_payload data = Inr () \<longleftrightarrow>
  (\<exists>m h dn rl rd rk b v. holds_at data 8 (borsh_ant_metadata
        \<lparr>md_mint = m, md_undername_hash = h, md_display_name = dn, md_record_logo = rl,
         md_record_description = rd, md_record_keywords = rk, md_bump = b, md_version = v\<rparr>)
   \<and> list_all (\<lambda>b. b = 0) (drop (8 + length (borsh_ant_metadata
        \<lparr>md_mint = m, md_undername_hash = h, md_display_name = dn, md_record_logo = rl,
         md_record_description = rd, md_record_keywords = rk, md_bump = b, md_version = v\<rparr>)) data)
   \<and> pred_option len_ok dn \<and> pred_option len_ok rl \<and> pred_option len_ok rd \<and> pred_option keywords_fit rk)"
  (is "?l \<longleftrightarrow> ?r")
proof
  assume ?l
  then show ?r
    unfolding validate_ant_record_metadata_borsh_payload_def borsh_ant_metadata_def ant_record_metadata.simps
      hash_field walk_layout
    by (elim exE conjE) (intro exI conjI; assumption)
next
  assume ?r
  then show ?l
    unfolding validate_ant_record_metadata_borsh_payload_def borsh_ant_metadata_def ant_record_metadata.simps
      hash_field walk_layout
    by (elim exE conjE) (intro exI conjI, (assumption)+)
qed

lemma layout_nonempty:
  "borsh_ant_config c \<noteq> []" "borsh_ant_controllers l \<noteq> []" "borsh_ant_record r \<noteq> []" "borsh_ant_metadata m \<noteq> []"
  by (simp_all add: borsh_ant_config_def borsh_ant_controllers_def borsh_ant_record_def borsh_ant_metadata_def)

lemmas laid_out_layout = laid_out_iff [OF layout_nonempty(1)] laid_out_iff [OF layout_nonempty(2)]
  laid_out_iff [OF layout_nonempty(3)] laid_out_iff [OF layout_nonempty(4)]

lemma ex_ant_record: "(\<exists>r. P r) \<longleftrightarrow> (\<exists>m u t p ttl pr ow l b v. P
     \<lparr>at_mint = m, at_undername = u, at_target = t, at_target_protocol = p, at_ttl_seconds = ttl,
      at_priority = pr, at_owner = ow, at_last_reconciled_owner = l, at_bump = b, at_version = v\<rparr>)"
  by (auto, metis ant_record.cases)

lemma ex_ant_config: "(\<exists>r. P r) \<longleftrightarrow> (\<exists>m n t l d ks lko b v. P
     \<lparr>an_mint = m, an_name = n, an_ticker = t, an_logo = l, an_description = d, an_keywords = ks,
      an_last_known_owner = lko, an_bump = b, an_version = v\<rparr>)"
  by (auto, metis ant_config.cases)

lemma ex_ant_controllers: "(\<exists>r. P r) \<longleftrightarrow> (\<exists>m ks b v. P
     \<lparr>ct_mint = m, ct_controllers = ks, ct_bump = b, ct_version = v\<rparr>)"
  by (auto, metis ant_controllers.cases)

lemma ex_ant_record_metadata: "(\<exists>r. P r) \<longleftrightarrow> (\<exists>m h dn rl rd rk b v. P
     \<lparr>md_mint = m, md_undername_hash = h, md_display_name = dn, md_record_logo = rl,
      md_record_description = rd, md_record_keywords = rk, md_bump = b, md_version = v\<rparr>)"
  by (auto, metis ant_record_metadata.cases)

lemma validate_record_iff:
  "validate_ant_record_borsh_payload data = Inr () \<longleftrightarrow> (\<exists>r. record_fits r \<and> laid_out data (borsh_ant_record r))"
  unfolding walk_record laid_out_layout record_fits_def ex_ant_record ant_record.simps
  by (intro iff_exI) blast

lemma validate_config_iff:
  "validate_ant_config_borsh_payload data = Inr () \<longleftrightarrow> (\<exists>c. config_fits c \<and> laid_out data (borsh_ant_config c))"
  unfolding walk_config laid_out_layout config_fits_def ex_ant_config ant_config.simps
  by (intro iff_exI) blast

lemma validate_controllers_iff:
  "validate_ant_controllers_borsh_payload data = Inr () \<longleftrightarrow>
     (\<exists>l. length (ct_controllers l) \<le> MAX_CONTROLLERS \<and> laid_out data (borsh_ant_controllers l))"
  unfolding walk_controllers laid_out_layout ex_ant_controllers ant_controllers.simps
  by (intro iff_exI) blast

lemma validate_metadata_iff:
  "validate_ant_record_metadata_borsh_payload data = Inr () \<longleftrightarrow>
     (\<exists>m. metadata_fits m \<and> laid_out data (borsh_ant_metadata m))"
  unfolding walk_metadata laid_out_layout metadata_fits_def ex_ant_record_metadata ant_record_metadata.simps
  by (intro iff_exI) blast

section \<open>Sizes\<close>

lemma sizes: "ANT_CONFIG_SIZE = 452" "ANT_CONTROLLERS_SIZE = 176" "ANT_RECORD_SIZE = 316" "ANT_RECORD_METADATA_SIZE = 436"
  by (simp_all add: ANT_CONFIG_SIZE_def ANT_CONTROLLERS_SIZE_def ANT_RECORD_SIZE_def ANT_RECORD_METADATA_SIZE_def
      ant_lengths)

lemma length_keywords:
  assumes "length ks \<le> MAX_KEYWORDS" and "list_all (\<lambda>k. length k \<le> MAX_KEYWORD_LENGTH) ks"
  shows "length (borsh_vec borsh_string ks) \<le> 4 + 3 * 36"
proof -
  have "length (concat (map borsh_string ks)) \<le> length ks * 36"
    using assms(2) by (induction ks) (simp_all add: MAX_KEYWORD_LENGTH_def)
  also have "\<dots> \<le> 3 * 36" using assms(1) by (simp add: MAX_KEYWORDS_def)
  finally show ?thesis by (simp add: borsh_vec_def)
qed

lemma length_keys: "length (borsh_vec key_bytes ks) = 4 + 32 * length ks"
  by (simp add: borsh_vec_def length_concat comp_def sum_list_triv)

section \<open>Stored bytes\<close>

text \<open>An account's data: its discriminator, its layout, zeros up to the allocated size.\<close>

definition stored :: "u8 list \<Rightarrow> u8 list \<Rightarrow> nat \<Rightarrow> u8 list" where
  "stored disc bs sz = disc @ bs @ replicate (sz - 8 - length bs) 0"

lemma stored_laid_out: "length disc = 8 \<Longrightarrow> laid_out (stored disc bs sz) bs"
  by (auto simp: laid_out_def stored_def)

lemma length_stored: "length disc = 8 \<Longrightarrow> 8 + length bs \<le> sz \<Longrightarrow> length (stored disc bs sz) = sz"
  by (simp add: stored_def)

end
