(* ===== verification/Ant_Invariant.thy ===== *)
theory Ant_Invariant
  imports Ant_Access Ant_Codec
begin

text \<open>
  The invariant of \<open>ario-ant\<close>. Every account knows its ANT, sits at its address and holds valid,
  bounded fields, so that it fits the space allocated for it; no ANT has more than four controllers
  or one twice; the access list of a wallet has pages exactly below its page count, no entry twice
  on a page, and counts its entries exactly.
\<close>

section \<open>Accounts of an ANT\<close>

definition lower :: "string \<Rightarrow> bool" where "lower t \<longleftrightarrow> list_all (\<lambda>c. \<not> is_ascii_uppercase c) t"

definition ant_config_ok :: "pubkey \<Rightarrow> ant_config \<Rightarrow> bool" where
  "ant_config_ok m c \<longleftrightarrow> an_mint c = m \<and> an_name c \<noteq> [] \<and> length (an_name c) \<le> ANT_MAX_NAME_LENGTH
     \<and> an_ticker c \<noteq> [] \<and> length (an_ticker c) \<le> MAX_TICKER_LENGTH \<and> is_valid_ant_arweave_id (an_logo c)
     \<and> length (an_description c) \<le> MAX_DESCRIPTION_LENGTH \<and> validate_keywords (an_keywords c)"

definition controllers_ok :: "pubkey \<Rightarrow> ant_controllers \<Rightarrow> bool" where
  "controllers_ok m l \<longleftrightarrow> ct_mint l = m \<and> length (ct_controllers l) \<le> MAX_CONTROLLERS \<and> distinct (ct_controllers l)"

definition ant_record_ok :: "(string \<Rightarrow> name_hash) \<Rightarrow> pubkey \<Rightarrow> name_hash \<Rightarrow> ant_record \<Rightarrow> bool" where
  "ant_record_ok H m h r \<longleftrightarrow> at_mint r = m \<and> h = H (at_undername r) \<and> is_valid_undername (at_undername r)
     \<and> lower (at_undername r) \<and> validate_target (at_target r) (at_target_protocol r)
     \<and> is_valid_ttl (at_ttl_seconds r) \<and> (at_undername r = ''@'' \<longrightarrow> at_priority r = Some 0)"

definition ant_metadata_ok :: "pubkey \<Rightarrow> ant_record_metadata \<Rightarrow> bool" where
  "ant_metadata_ok m d \<longleftrightarrow> md_mint d = m
     \<and> pred_option (\<lambda>dn. length dn \<le> ANT_MAX_NAME_LENGTH) (md_display_name d)
     \<and> pred_option is_valid_ant_arweave_id (md_record_logo d)
     \<and> pred_option (\<lambda>t. length t \<le> MAX_DESCRIPTION_LENGTH) (md_record_description d)
     \<and> pred_option validate_keywords (md_record_keywords d)"

definition ants_ok :: "(string \<Rightarrow> name_hash) \<Rightarrow> ant_state \<Rightarrow> bool" where
  "ants_ok H s \<longleftrightarrow> (\<forall>m c. ant_configs s m = Some c \<longrightarrow> ant_config_ok m c)
     \<and> (\<forall>m l. ant_controller_lists s m = Some l \<longrightarrow> controllers_ok m l)
     \<and> (\<forall>m h r. ant_records s (m, h) = Some r \<longrightarrow> ant_record_ok H m h r)
     \<and> (\<forall>m h d. ant_metadata s (m, h) = Some d \<longrightarrow> ant_metadata_ok m d)"

lemma ants_ok_mints: "ants_ok H s \<Longrightarrow> mints_ok s"
  by (auto simp: ants_ok_def mints_ok_def ant_record_ok_def ant_metadata_ok_def)

lemma ants_okD:
  assumes "ants_ok H s"
  shows "ant_configs s m = Some c \<Longrightarrow> ant_config_ok m c"
    and "ant_controller_lists s m = Some l \<Longrightarrow> controllers_ok m l"
    and "ant_records s (m, h) = Some r \<Longrightarrow> ant_record_ok H m h r"
    and "ant_metadata s (m, h) = Some d \<Longrightarrow> ant_metadata_ok m d"
  using assms unfolding ants_ok_def by blast+

lemma ants_ok_frame:
  "ants_ok H s \<Longrightarrow> ant_configs s' = ant_configs s \<Longrightarrow> ant_controller_lists s' = ant_controller_lists s \<Longrightarrow>
     ant_records s' = ant_records s \<Longrightarrow> ant_metadata s' = ant_metadata s \<Longrightarrow> ants_ok H s'"
  by (simp add: ants_ok_def)

lemma ants_ok_save:
  "ants_ok H s \<Longrightarrow> ant_config_ok m c \<Longrightarrow> controllers_ok m l \<Longrightarrow> ants_ok H (save_ant m c l s)"
  by (auto simp: ants_ok_def)

lemma ants_ok_record:
  "ants_ok H s \<Longrightarrow> ant_record_ok H m h r \<Longrightarrow> ants_ok H (s\<lparr>ant_records := (ant_records s)((m, h) \<mapsto> r)\<rparr>)"
  by (auto simp: ants_ok_def)

lemma ants_ok_metadata:
  "ants_ok H s \<Longrightarrow> ant_metadata_ok m d \<Longrightarrow> ants_ok H (s\<lparr>ant_metadata := (ant_metadata s)((m, h) \<mapsto> d)\<rparr>)"
  by (auto simp: ants_ok_def)

lemma ants_ok_closed:
  "ants_ok H s \<Longrightarrow> ants_ok H (s\<lparr>ant_records := (ant_records s)(k := None)\<rparr>)"
  "ants_ok H s \<Longrightarrow> ants_ok H (s\<lparr>ant_metadata := (ant_metadata s)(k := None)\<rparr>)"
  "ants_ok H s \<Longrightarrow> ants_ok H (s\<lparr>ant_configs := (ant_configs s)(m := None)\<rparr>)"
  "ants_ok H s \<Longrightarrow> ants_ok H (s\<lparr>ant_controller_lists := (ant_controller_lists s)(m := None)\<rparr>)"
  by (auto simp: ants_ok_def split: if_splits)

lemma reconcile_keeps:
  assumes "reconcile_ownership cfg ctl o1 = (cfg1, ctl1)"
  shows "ant_config_ok m cfg \<Longrightarrow> ant_config_ok m cfg1" "controllers_ok m ctl \<Longrightarrow> controllers_ok m ctl1"
  using assms
  by (auto simp: reconcile_ownership_def ant_config_ok_def controllers_ok_def split: if_splits)

section \<open>Access lists\<close>

definition entry_total :: "ant_state \<Rightarrow> pubkey \<Rightarrow> int" where
  "entry_total s u = msum (\<lambda>k p. if fst k = u then int (length (ap_entries p)) else 0) (acl_pages s)"

definition page_ok :: "pubkey \<times> u64 \<Rightarrow> acl_page \<Rightarrow> bool" where
  "page_ok k p \<longleftrightarrow> ap_user p = fst k \<and> ap_page_idx p = snd k
     \<and> length (ap_entries p) \<le> MAX_ACL_PAGE_ENTRIES \<and> distinct (ap_entries p)"

definition head_ok :: "ant_state \<Rightarrow> pubkey \<Rightarrow> acl_config \<Rightarrow> bool" where
  "head_ok s u c \<longleftrightarrow> al_user c = u \<and> uint (al_total_entries c) = entry_total s u
     \<and> (\<forall>i. acl_pages s (u, i) \<noteq> None \<longleftrightarrow> i < al_page_count c)"

definition acl_ok :: "ant_state \<Rightarrow> bool" where
  "acl_ok s \<longleftrightarrow> finite (dom (acl_pages s))
     \<and> (\<forall>u c. acl_configs s u = Some c \<longrightarrow> head_ok s u c)
     \<and> (\<forall>k p. acl_pages s k = Some p \<longrightarrow> page_ok k p \<and> acl_configs s (fst k) \<noteq> None)"

lemma acl_ok_frame:
  "acl_ok s \<Longrightarrow> acl_configs s' = acl_configs s \<Longrightarrow> acl_pages s' = acl_pages s \<Longrightarrow> acl_ok s'"
  by (simp add: acl_ok_def head_ok_def entry_total_def)

lemma position_of_None: "position_of a role es = None \<longleftrightarrow> \<lparr>ae_asset = a, ae_role = role\<rparr> \<notin> set es"
proof (induction es)
  case (Cons e es)
  then show ?case by (cases e) auto
qed simp

lemma position_of_Some: "position_of a role es = Some i \<Longrightarrow> i < length es"
  by (induction es arbitrary: i) (auto split: if_splits)

lemma length_swap_remove [simp]: "length (swap_remove i xs) = length xs - 1"
  by (simp add: swap_remove_def)

lemma distinct_swap_remove:
  assumes "distinct xs" and "i < length xs"
  shows "distinct (swap_remove i xs)"
proof -
  obtain ys z where xs: "xs = ys @ [z]" using assms(2) by (cases xs rule: rev_cases) auto
  show ?thesis
  proof (cases "i < length ys")
    case True
    have "distinct (ys[i := z])" using assms(1) by (intro distinct_list_update) (auto simp: xs)
    then show ?thesis using True by (simp add: swap_remove_def xs list_update_append)
  next
    case False
    then have "i = length ys" using assms(2) by (simp add: xs)
    then show ?thesis using assms(1) by (simp add: swap_remove_def xs list_update_append)
  qed
qed

text \<open>Replacing one page of a wallet, and its head by the difference in entries.\<close>

lemma acl_ok_page:
  assumes ok: "acl_ok s" and c: "acl_configs s u = Some c" and p: "acl_pages s (u, i) = Some p"
    and p': "page_ok (u, i) p'" and c': "al_user c' = u" "al_page_count c' = al_page_count c"
    and t: "uint (al_total_entries c') = uint (al_total_entries c) - int (length (ap_entries p)) + int (length (ap_entries p'))"
    and s': "acl_pages s' = (acl_pages s)((u, i) \<mapsto> p')" "acl_configs s' = (acl_configs s)(u \<mapsto> c')"
  shows "acl_ok s'"
proof -
  have fin: "finite (dom (acl_pages s))" using ok by (simp add: acl_ok_def)
  have tot: "entry_total s' v = entry_total s v
      - (if v = u then int (length (ap_entries p)) else 0) + (if v = u then int (length (ap_entries p')) else 0)" for v
    unfolding entry_total_def s'(1) msum_upd [OF fin] using p by simp
  have head: "head_ok s v d \<longrightarrow> (if v = u then head_ok s' u c' else head_ok s' v d)"
    if "acl_configs s v = Some d" for v d
    using that c c' t p tot [of v] by (auto simp: head_ok_def s')
  show ?thesis
    using ok fin head p' c unfolding acl_ok_def s'
    by (auto split: if_splits)
qed

definition acl_room :: "ant_state \<Rightarrow> bool" where
  "acl_room s \<longleftrightarrow> (\<forall>u. entry_total s u < 2 ^ 64 - 1)"

lemma add_entry_acl:
  assumes ok: "acl_ok s" and room: "acl_room s" and c: "acl_configs s u = Some c"
    and p: "acl_pages s (al_user c, i) = Some p"
    and run: "add_entry u c p a role s = Inr s'"
  shows "acl_ok s'"
proof -
  have head: "head_ok s u c" and u: "al_user c = u" using ok c by (auto simp: acl_ok_def head_ok_def)
  have page: "page_ok (u, i) p" using ok p u by (auto simp: acl_ok_def)
  have total: "uint (al_total_entries c) < 2 ^ 64 - 1" using head room by (simp add: head_ok_def acl_room_def)
  let ?p = "p\<lparr>ap_entries := ap_entries p @ [\<lparr>ae_asset = a, ae_role = acl_role_u8 role\<rparr>]\<rparr>"
  let ?c = "c\<lparr>al_total_entries := saturating_add (al_total_entries c) 1\<rparr>"
  have "ap_page_idx p = i" using page by (simp add: page_ok_def)
  with run u have s': "acl_pages s' = (acl_pages s)((u, i) \<mapsto> ?p)" "acl_configs s' = (acl_configs s)(u \<mapsto> ?c)"
    and new: "position_of a (acl_role_u8 role) (ap_entries p) = None" "length (ap_entries p) < MAX_ACL_PAGE_ENTRIES"
    by (auto simp: add_entry_def page_push_unique_def ant_run_iff)
  show ?thesis
  proof (rule acl_ok_page [OF ok c p [unfolded u] _ _ _ _ s'])
    show "page_ok (u, i) ?p" using page new by (simp add: page_ok_def position_of_None)
  qed (use u total in \<open>simp_all add: uint_saturating_add\<close>)
qed

lemma length_le_total:
  assumes "acl_ok s" and "acl_pages s (u, i) = Some p"
  shows "int (length (ap_entries p)) \<le> entry_total s u"
  using lookup_le_msum [where f = "\<lambda>k p. if fst k = u then int (length (ap_entries p)) else 0"
      and m = "acl_pages s" and k = "(u, i)" and v = p] assms
  by (auto simp: entry_total_def acl_ok_def split: if_splits)

lemma remove_entry_acl:
  assumes ok: "acl_ok s" and c: "acl_configs s u = Some c"
    and p: "acl_pages s (al_user c, i) = Some p"
    and run: "remove_entry u c p a role s = Inr s'"
  shows "acl_ok s'"
proof -
  have head: "head_ok s u c" and u: "al_user c = u" using ok c by (auto simp: acl_ok_def head_ok_def)
  have page: "page_ok (u, i) p" using ok p u by (auto simp: acl_ok_def)
  obtain pos where pos: "position_of a (acl_role_u8 role) (ap_entries p) = Some pos"
    using run by (auto simp: remove_entry_def page_swap_remove_def ant_run_iff)
  note pos_less = position_of_Some [OF pos]
  have total: "1 \<le> uint (al_total_entries c)"
    using length_le_total [OF ok p [unfolded u]] head pos_less by (simp add: head_ok_def)
  let ?p = "p\<lparr>ap_entries := swap_remove pos (ap_entries p)\<rparr>"
  let ?c = "c\<lparr>al_total_entries := saturating_sub (al_total_entries c) 1\<rparr>"
  have "ap_page_idx p = i" using page by (simp add: page_ok_def)
  with run u pos have s': "acl_pages s' = (acl_pages s)((u, i) \<mapsto> ?p)" "acl_configs s' = (acl_configs s)(u \<mapsto> ?c)"
    by (auto simp: remove_entry_def page_swap_remove_def ant_run_iff)
  show ?thesis
  proof (rule acl_ok_page [OF ok c p [unfolded u] _ _ _ _ s'])
    show "page_ok (u, i) ?p" using page pos_less distinct_swap_remove [of "ap_entries p" pos]
      by (auto simp: page_ok_def)
  qed (use u total pos_less in \<open>simp_all add: uint_saturating_sub of_nat_diff Suc_le_eq\<close>)
qed


section \<open>Heads and pages of a list\<close>

lemma acl_okD:
  assumes "acl_ok s"
  shows "finite (dom (acl_pages s))"
    and "acl_configs s u = Some c \<Longrightarrow> head_ok s u c"
    and "acl_pages s (u, i) = Some p \<Longrightarrow> page_ok (u, i) p \<and> acl_configs s u \<noteq> None"
  using assms by (auto simp: acl_ok_def)

lemma no_pages_total: "(\<And>i. acl_pages s (u, i) = None) \<Longrightarrow> entry_total s u = 0"
  unfolding entry_total_def msum_def by (rule sum.neutral) auto

lemma register_acl_config_acl:
  assumes ok: "acl_ok s" and run: "register_acl_config env u s = Inr s'"
  shows "acl_ok s'"
proof -
  from run have fresh: "acl_configs s u = None"
    and pages: "acl_pages s' = acl_pages s"
    and heads: "acl_configs s' = (acl_configs s)(u \<mapsto> \<lparr>al_user = u, al_page_count = 0, al_total_entries = 0,
       al_bump = pda_bump env (AclConfigPda u), al_version = V1_0_0\<rparr>)"
    by (auto simp: register_acl_config_def require_iff)
  have none: "acl_pages s (u, i) = None" for i using acl_okD(3) [OF ok, of u i] fresh by fastforce
  show ?thesis
    using ok no_pages_total [of s u, OF none] none
    by (auto simp: acl_ok_def head_ok_def entry_total_def pages heads)
qed

lemma close_acl_config_acl:
  assumes ok: "acl_ok s" and run: "close_acl_config u s = Inr s'"
  shows "acl_ok s'"
proof -
  from run obtain c where c: "acl_configs s u = Some c" "al_page_count c = 0"
    and s': "s' = s\<lparr>acl_configs := (acl_configs s)(u := None)\<rparr>"
    by (auto simp: close_acl_config_def ant_run_iff)
  have none: "acl_pages s (u, i) = None" for i
    using acl_okD(2) [OF ok c(1)] c(2) by (simp add: head_ok_def)
  have "fst k \<noteq> u" if "acl_pages s k = Some p" for k p using none [of "snd k"] that by (cases k) auto
  then show ?thesis using ok by (auto simp: acl_ok_def head_ok_def entry_total_def s')
qed

lemma add_acl_page_acl:
  assumes ok: "acl_ok s" and run: "add_acl_page env u s = Inr s'"
  shows "acl_ok s'"
proof -
  from run obtain c n where c: "acl_configs s u = Some c" "al_user c = u"
    and free: "acl_pages s (u, al_page_count c) = None" and n: "checked_add (al_page_count c) 1 = Some n"
    and s': "s' = s\<lparr>acl_pages := (acl_pages s)((u, al_page_count c) \<mapsto>
              \<lparr>ap_user = u, ap_page_idx = al_page_count c, ap_entries = [],
               ap_bump = pda_bump env (AclPagePda u (al_page_count c)), ap_version = V1_0_0\<rparr>),
            acl_configs := (acl_configs s)(u \<mapsto> c\<lparr>al_page_count := n\<rparr>)\<rparr>"
    by (auto simp: add_acl_page_def Let_def ant_run_iff)
  have less: "i < n \<longleftrightarrow> i < al_page_count c \<or> i = al_page_count c" for i
    using checked_addD [OF n] by (auto simp: word_less_def word_uint_eq_iff)
  have tot: "entry_total s' v = entry_total s v" for v
    using acl_okD(1) [OF ok] free by (simp add: entry_total_def s' msum_upd)
  show ?thesis
    using ok c less tot unfolding acl_ok_def head_ok_def
    by (auto simp: s' page_ok_def head_ok_def)
qed

lemma close_acl_page_acl:
  assumes ok: "acl_ok s" and run: "close_acl_page u idx s = Inr s'"
  shows "acl_ok s'"
proof -
  from run obtain c p where c: "acl_configs s u = Some c" "al_user c = u" and p: "acl_pages s (u, idx) = Some p"
      "ap_page_idx p = idx" "ap_entries p = []" and last: "al_page_count c > 0" "idx = al_page_count c - 1"
    and s': "s' = s\<lparr>acl_pages := (acl_pages s)((u, idx) := None),
            acl_configs := (acl_configs s)(u \<mapsto> c\<lparr>al_page_count := al_page_count c - 1\<rparr>)\<rparr>"
    by (auto simp: close_acl_page_def ant_run_iff)
  have less: "i < al_page_count c - 1 \<longleftrightarrow> i < al_page_count c \<and> i \<noteq> idx" for i
    using last uint_sub_exact [of 1 "al_page_count c"]
    by (auto simp: word_less_def word_le_def word_uint_eq_iff [of i])
  have tot: "entry_total s' v = entry_total s v" for v
    using acl_okD(1) [OF ok] p by (simp add: entry_total_def s' msum_del)
  show ?thesis
    using ok c less tot unfolding acl_ok_def head_ok_def
    by (auto simp: s' head_ok_def)
qed


section \<open>Every instruction keeps the invariant\<close>

text \<open>
  What the runtime gives: the hash, and that \<open>to_lowercase\<close> leaves no upper-case ASCII letter; no
  wallet has \<open>2^64\<close> entries; and a record found at the hash of an undername is the one of that
  undername, since SHA-256 has no known collision.
\<close>

definition ant_runtime :: "(string \<Rightarrow> name_hash) \<Rightarrow> ant_env \<Rightarrow> ant_op \<Rightarrow> ant_state \<Rightarrow> bool" where
  "ant_runtime H env op s \<longleftrightarrow> ant_sha256 env = H \<and> (\<forall>t. lower (ant_unicode_lowercase env t)) \<and> acl_room s
     \<and> (case op of
          AntRecordOp m _ (SetRecordOp params) \<Rightarrow>
            pred_option (\<lambda>r. at_undername r = ant_lowercase env (sr_undername params))
              (ant_records s (m, hash_undername env (sr_undername params)))
        | _ \<Rightarrow> True)"

definition ant_inv :: "(string \<Rightarrow> name_hash) \<Rightarrow> ant_state \<Rightarrow> bool" where
  "ant_inv H s \<longleftrightarrow> ants_ok H s \<and> acl_ok s"

lemma lower_lowercase: "(\<And>t. lower (ant_unicode_lowercase env t)) \<Longrightarrow> lower (ant_lowercase env t)"
  by (simp add: ant_lowercase_def lower_def list_all_iff)

lemma acl_room_frame: "acl_room s \<Longrightarrow> acl_pages s' = acl_pages s \<Longrightarrow> acl_room s'"
  by (simp add: acl_room_def entry_total_def)

lemma ant_inv_frame:
  assumes "ant_inv H s" and "ants_ok H s'" and "acl_configs s' = acl_configs s" "acl_pages s' = acl_pages s"
  shows "ant_inv H s'"
  using assms acl_ok_frame by (auto simp: ant_inv_def)

text \<open>A handler over one ANT runs with its reconciled configuration and controllers.\<close>

lemma reconciled_ok:
  assumes "ants_ok H s" "ant_configs s m = Some cfg" "ant_controller_lists s m = Some ctl"
    and "reconcile_ownership cfg ctl o1 = (cfg1, ctl1)"
  shows "ant_config_ok m cfg1" "controllers_ok m ctl1"
  using ants_okD(1,2) [OF assms(1)] assms(2,3) reconcile_keeps [OF assms(4)] by blast+

lemma refresh_record_ok: "ant_record_ok H m h r \<Longrightarrow> ant_record_ok H m h (refresh_record cfg r)"
  by (simp add: ant_record_ok_def refresh_record_def)

lemma claimed_record:
  assumes claim: "claim_record env m u h n cfg ok (load_record s (m, h)) = Inr r1"
    and known: "\<And>r. ant_records s (m, h) = Some r \<Longrightarrow> ant_record_ok H m h r \<and> at_undername r = n"
  shows "at_mint r1 = m \<and> at_undername r1 = n"
proof (cases "ant_records s (m, h)")
  case None
  then show ?thesis
    using claim by (auto simp: claim_record_def load_record_def zeroed_record_def Let_def require_iff)
next
  case (Some r)
  have "at_mint r = m" "at_undername r = n" "n \<noteq> []"
    using known [OF Some] by (auto simp: ant_record_ok_def is_valid_undername_def)
  then show ?thesis
    using claim Some by (auto simp: claim_record_def load_record_def refresh_record_def Let_def require_iff)
qed

lemma prioritised:
  assumes "prioritise_record n p ok r = Inr r2"
  shows "at_mint r2 = at_mint r \<and> at_undername r2 = at_undername r \<and> (n = ''@'' \<longrightarrow> at_priority r2 = Some 0)"
  using assms by (auto simp: prioritise_record_def require_iff split: if_splits)

lemma set_record_ok:
  assumes ok: "ants_ok H s" and rt: "ant_runtime H env (AntRecordOp m u (SetRecordOp params)) s"
    and run: "set_record env m u params s = Inr s'"
  shows "ants_ok H s'"
proof -
  let ?n = "ant_lowercase env (sr_undername params)" and ?h = "hash_undername env (sr_undername params)"
  obtain a cfg ctl o1 cfg1 ctl1 r1 r2 where acc: "ant_configs s m = Some cfg" "ant_controller_lists s m = Some ctl"
      "reconcile_ownership cfg ctl o1 = (cfg1, ctl1)"
    and valid: "is_valid_undername ?n" "validate_target (sr_target params) (sr_target_protocol params)"
      "is_valid_ttl (sr_ttl_seconds params)"
    and claim: "claim_record env m u ?h ?n cfg1 (u = o1 \<or> u \<in> set (ct_controllers ctl1)) (load_record s (m, ?h)) = Inr r1"
    and prio: "prioritise_record ?n (sr_priority params) (u = o1 \<or> u \<in> set (ct_controllers ctl1)) r1 = Inr r2"
    and s': "s' = save_ant m cfg1 ctl1 (s\<lparr>ant_records := (ant_records s)((m, ?h) \<mapsto>
       (if u = o1 \<or> u \<in> set (ct_controllers ctl1) then r2\<lparr>at_owner := sr_record_owner params\<rparr> else r2)
       \<lparr>at_target := sr_target params, at_target_protocol := sr_target_protocol params,
          at_ttl_seconds := sr_ttl_seconds params\<rparr>)\<rparr>)"
    using run unfolding set_record_def Let_def ant_run_iff by (elim exE conjE) blast
  have "ant_record_ok H m ?h r \<and> at_undername r = ?n" if "ant_records s (m, ?h) = Some r" for r
    using ants_okD(3) [OF ok that] rt that by (simp add: ant_runtime_def)
  then have "at_mint r2 = m" "at_undername r2 = ?n" "?n = ''@'' \<longrightarrow> at_priority r2 = Some 0"
    using claimed_record [OF claim] prioritised [OF prio] by auto
  moreover have "?h = H ?n" "lower ?n" using rt lower_lowercase by (auto simp: ant_runtime_def hash_undername_def)
  ultimately have "ant_record_ok H m ?h ((if u = o1 \<or> u \<in> set (ct_controllers ctl1)
      then r2\<lparr>at_owner := sr_record_owner params\<rparr> else r2)
       \<lparr>at_target := sr_target params, at_target_protocol := sr_target_protocol params,
          at_ttl_seconds := sr_ttl_seconds params\<rparr>)"
    using valid by (simp add: ant_record_ok_def)
  then show ?thesis
    unfolding s' using ok reconciled_ok [OF ok acc] by (intro ants_ok_save ants_ok_record)
qed


lemma transfer_record_ok:
  assumes ok: "ants_ok H s" and run: "transfer_record env m u h new_owner s = Inr s'"
  shows "ants_ok H s'"
proof -
  obtain cfg ctl o1 cfg1 ctl1 r where acc: "ant_configs s m = Some cfg" "ant_controller_lists s m = Some ctl"
      "reconcile_ownership cfg ctl o1 = (cfg1, ctl1)" and r: "ant_records s (m, h) = Some r"
    and s': "s' = save_ant m cfg1 ctl1 (s\<lparr>ant_records := (ant_records s)((m, h) \<mapsto>
              (refresh_record cfg1 r)\<lparr>at_owner := Some new_owner\<rparr>)\<rparr>)"
    using run unfolding transfer_record_def Let_def ant_run_iff by (elim exE conjE) (auto simp: ant_run_iff split: if_splits)
  have "ant_record_ok H m h ((refresh_record cfg1 r)\<lparr>at_owner := Some new_owner\<rparr>)"
    using refresh_record_ok [OF ants_okD(3) [OF ok r]] by (simp add: ant_record_ok_def)
  then show ?thesis
    unfolding s' using ok reconciled_ok [OF ok acc] by (intro ants_ok_save ants_ok_record)
qed

lemma remove_record_ok:
  assumes ok: "ants_ok H s" and run: "remove_record env m u h with_metadata s = Inr s'"
  shows "ants_ok H s'"
proof -
  obtain cfg ctl o1 cfg1 ctl1 where acc: "ant_configs s m = Some cfg" "ant_controller_lists s m = Some ctl"
      "reconcile_ownership cfg ctl o1 = (cfg1, ctl1)"
    and s': "s' = save_ant m cfg1 ctl1 (s\<lparr>ant_records := (ant_records s)((m, h) := None),
       ant_metadata := (if with_metadata then (ant_metadata s)((m, h) := None) else ant_metadata s)\<rparr>)"
    using run unfolding remove_record_def ant_run_iff by (elim exE conjE) blast
  have "ants_ok H (s\<lparr>ant_records := (ant_records s)((m, h) := None),
       ant_metadata := (if with_metadata then (ant_metadata s)((m, h) := None) else ant_metadata s)\<rparr>)"
    using ok by (auto simp: ants_ok_def split: if_splits)
  then show ?thesis unfolding s' using reconciled_ok [OF ok acc] by (intro ants_ok_save)
qed

lemma set_record_metadata_ok:
  assumes ok: "ants_ok H s" and run: "set_record_metadata env m u params s = Inr s'"
  shows "ants_ok H s'"
proof -
  let ?h = "hash_undername env (sm_undername params)"
  let ?md = "\<lparr>md_mint = m, md_undername_hash = hash_undername env (ant_lowercase env (sm_undername params)),
        md_display_name = sm_display_name params, md_record_logo = sm_record_logo params,
        md_record_description = sm_record_description params, md_record_keywords = sm_record_keywords params,
        md_bump = pda_bump env (AntRecordMetaPda m ?h), md_version = V1_0_0\<rparr>"
  obtain cfg ctl o1 cfg1 ctl1 where acc: "ant_configs s m = Some cfg" "ant_controller_lists s m = Some ctl"
      "reconcile_ownership cfg ctl o1 = (cfg1, ctl1)" and md: "ant_metadata_ok m ?md"
    and s': "s' = save_ant m cfg1 ctl1 (s\<lparr>ant_metadata := (ant_metadata s)((m, ?h) \<mapsto> ?md)\<rparr>)"
    using run unfolding set_record_metadata_def Let_def ant_run_iff
    by (elim exE conjE) (simp add: ant_metadata_ok_def)
  then show ?thesis unfolding s' using ok reconciled_ok [OF ok acc] by (intro ants_ok_save ants_ok_metadata)
qed

lemma remove_record_metadata_ok:
  assumes ok: "ants_ok H s" and run: "remove_record_metadata env m u undername s = Inr s'"
  shows "ants_ok H s'"
proof -
  obtain cfg ctl o1 cfg1 ctl1 where acc: "ant_configs s m = Some cfg" "ant_controller_lists s m = Some ctl"
      "reconcile_ownership cfg ctl o1 = (cfg1, ctl1)"
    and s': "s' = save_ant m cfg1 ctl1 (s\<lparr>ant_metadata := (ant_metadata s)((m, hash_undername env undername) := None)\<rparr>)"
    using run unfolding remove_record_metadata_def Let_def ant_run_iff by (elim exE conjE) blast
  then show ?thesis unfolding s' using ok reconciled_ok [OF ok acc] by (intro ants_ok_save ants_ok_closed)
qed

text \<open>The five setters change one valid field.\<close>

lemma manage_metadata_ok:
  assumes ok: "ants_ok H s" and acc: "ant_configs s m = Some cfg" "ant_controller_lists s m = Some ctl"
    and f: "\<And>c. ant_config_ok m c \<Longrightarrow> ant_config_ok m (f c)"
    and run: "manage_metadata f m u d cfg ctl s = Inr s'"
  shows "ants_ok H s' \<and> acl_configs s' = acl_configs s \<and> acl_pages s' = acl_pages s"
proof -
  obtain o1 cfg1 ctl1 where rec: "reconcile_ownership cfg ctl o1 = (cfg1, ctl1)"
    and s': "s' = save_ant m (f cfg1) ctl1 s"
    using run unfolding manage_metadata_def ant_run_iff by (elim exE conjE) blast
  then show ?thesis using ok f reconciled_ok [OF ok acc rec] by (simp add: ants_ok_save)
qed

lemmas config_setters = set_name_def set_ticker_def set_description_def set_keywords_def set_logo_def

lemma config_setters_ok:
  assumes "ants_ok H s"
    and "set_name env m u name s = Inr s' \<or> set_ticker env m u ticker s = Inr s'
      \<or> set_description env m u description s = Inr s' \<or> set_keywords env m u kws s = Inr s'
      \<or> set_logo env m u logo s = Inr s'"
  shows "ants_ok H s' \<and> acl_configs s' = acl_configs s \<and> acl_pages s' = acl_pages s"
  using assms(2) unfolding config_setters AntAccounts_iff require_iff
  by (elim disjE exE conjE) (erule manage_metadata_ok [OF assms(1), rotated 3]; simp add: ant_config_ok_def)+

text \<open>Controllers and the access list move together.\<close>

lemma acl_entry_run:
  assumes ok: "acl_ok s" and room: "acl_room s" and c: "acl_configs s u = Some c"
    and p: "acl_pages s (al_user c, i) = Some p"
    and run: "add_entry u c p a role s = Inr s' \<or> remove_entry u c p a role s = Inr s'"
  shows "acl_ok s' \<and> ant_configs s' = ant_configs s \<and> ant_controller_lists s' = ant_controller_lists s
     \<and> ant_records s' = ant_records s \<and> ant_metadata s' = ant_metadata s"
proof
  show "acl_ok s'" using run add_entry_acl [OF ok room c p] remove_entry_acl [OF ok c p] by blast
qed (use run in \<open>auto simp: add_entry_def remove_entry_def and_then_iff\<close>)

lemma entry_inv:
  assumes s1: "ants_ok H s1" "acl_configs s1 = acl_configs s" "acl_pages s1 = acl_pages s"
    and s: "ant_inv H s" "acl_room s"
    and c: "acl_configs s u = Some c" and p: "acl_pages s (al_user c, i) = Some p"
    and run: "add_entry u c p a role s1 = Inr s' \<or> remove_entry u c p a role s1 = Inr s'"
  shows "ant_inv H s'"
proof -
  have "acl_ok s1" "acl_room s1" using s s1 acl_ok_frame acl_room_frame by (auto simp: ant_inv_def)
  moreover have "acl_configs s1 u = Some c" "acl_pages s1 (al_user c, i) = Some p" using c p s1 by simp_all
  ultimately show ?thesis
    using acl_entry_run [OF _ _ _ _ run] ants_ok_frame [OF s1(1), of s'] by (simp add: ant_inv_def)
qed

lemma add_controller_inv:
  assumes inv: "ant_inv H s" "acl_room s" and run: "add_controller env m u w i s = Inr s'"
  shows "ant_inv H s'"
proof -
  obtain cfg ctl o1 cfg1 ctl1 c p where acc: "ant_configs s m = Some cfg" "ant_controller_lists s m = Some ctl"
      "reconcile_ownership cfg ctl o1 = (cfg1, ctl1)"
    and new: "w \<notin> set (ct_controllers ctl1)" "length (ct_controllers ctl1) < MAX_CONTROLLERS"
    and acl: "acl_configs s w = Some c" "acl_pages s (al_user c, i) = Some p"
    and entry: "add_entry w c p m AclController
       (save_ant m cfg1 (ctl1\<lparr>ct_controllers := ct_controllers ctl1 @ [w]\<rparr>) s) = Inr s'"
    using run unfolding add_controller_def assert_page_belongs_def ant_run_iff by (elim exE conjE) blast
  have ok: "ants_ok H s" using inv by (simp add: ant_inv_def)
  then have "ants_ok H (save_ant m cfg1 (ctl1\<lparr>ct_controllers := ct_controllers ctl1 @ [w]\<rparr>) s)"
    using new reconciled_ok [OF ok acc] by (intro ants_ok_save) (simp_all add: controllers_ok_def)
  then show ?thesis by (rule entry_inv [OF _ _ _ inv acl disjI1 [OF entry]]) simp_all
qed

lemma remove_controller_inv:
  assumes inv: "ant_inv H s" "acl_room s" and run: "remove_controller env m u w i s = Inr s'"
  shows "ant_inv H s'"
proof -
  obtain cfg ctl o1 cfg1 ctl1 c p where acc: "ant_configs s m = Some cfg" "ant_controller_lists s m = Some ctl"
      "reconcile_ownership cfg ctl o1 = (cfg1, ctl1)"
    and acl: "acl_configs s w = Some c" "acl_pages s (al_user c, i) = Some p"
    and entry: "remove_entry w c p m AclController
       (save_ant m cfg1 (ctl1\<lparr>ct_controllers := remove1 w (ct_controllers ctl1)\<rparr>) s) = Inr s'"
    using run unfolding remove_controller_def assert_page_belongs_def ant_run_iff by (elim exE conjE) blast
  have ok: "ants_ok H s" using inv by (simp add: ant_inv_def)
  then have "ants_ok H (save_ant m cfg1 (ctl1\<lparr>ct_controllers := remove1 w (ct_controllers ctl1)\<rparr>) s)"
    using reconciled_ok [OF ok acc] length_remove1 [of w "ct_controllers ctl1"]
    by (intro ants_ok_save) (auto simp: controllers_ok_def split: if_splits)
  then show ?thesis by (rule entry_inv [OF _ _ _ inv acl disjI2 [OF entry]]) simp_all
qed


text \<open>A transfer enters the ANT in the new wallet's list and takes it out of the old one's.\<close>

lemma transfer_ant_inv:
  assumes inv: "ant_inv H s" "acl_room s" and run: "transfer_ant env m u w i j s = Inr s'"
  shows "ant_inv H s'"
proof -
  obtain cfg ctl c p d q s3 where acc: "ant_configs s m = Some cfg" "ant_controller_lists s m = Some ctl"
    and acl: "acl_configs s w = Some c" "acl_pages s (al_user c, i) = Some p"
      "acl_configs s u = Some d" "acl_pages s (al_user d, j) = Some q"
    and users: "w \<noteq> u" "al_user c = w" "al_user d = u" "ap_page_idx p = i"
    and enter: "add_entry w c p m AclOwner (save_ant m (cfg\<lparr>an_last_known_owner := w\<rparr>)
       (ctl\<lparr>ct_controllers := []\<rparr>) (s\<lparr>mpl_log := mpl_log s @ [MplTransfer m u w]\<rparr>)) = Inr s3"
    and leave: "remove_entry u d q m AclOwner s3 = Inr s'"
    using run unfolding transfer_ant_def assert_page_belongs_def Let_def ant_run_iff
    by (elim exE conjE) (rule that; (assumption | simp))
  let ?s2 = "save_ant m (cfg\<lparr>an_last_known_owner := w\<rparr>) (ctl\<lparr>ct_controllers := []\<rparr>)
    (s\<lparr>mpl_log := mpl_log s @ [MplTransfer m u w]\<rparr>)"
  have "ants_ok H ?s2"
    using inv(1) ants_okD(1,2) [of H s] acc ants_ok_frame [of H s "s\<lparr>mpl_log := mpl_log s @ [MplTransfer m u w]\<rparr>"]
    by (intro ants_ok_save) (auto simp: ant_inv_def ant_config_ok_def controllers_ok_def)
  then have s3: "ant_inv H s3" by (rule entry_inv [OF _ _ _ inv acl(1,2) disjI1 [OF enter]]) simp_all
  have "acl_configs s3 u = Some d" "acl_pages s3 (al_user d, j) = Some q"
    using enter users acl by (auto simp: add_entry_def and_then_iff)
  then have "acl_ok s'" using remove_entry_acl [OF _ _ _ leave] s3 by (simp add: ant_inv_def)
  moreover have "ants_ok H s'"
    by (rule ants_ok_frame [of H s3]) (use leave s3 in \<open>auto simp: ant_inv_def remove_entry_def and_then_iff\<close>)
  ultimately show ?thesis by (simp add: ant_inv_def)
qed

lemma ant_record_step_inv:
  assumes inv: "ant_inv H s" and rt: "ant_runtime H env (AntRecordOp m u op) s"
    and run: "ant_record_step env m u op s = Inr s'"
  shows "ant_inv H s'"
proof -
  have ok: "ants_ok H s" and room: "acl_room s" using inv rt by (auto simp: ant_inv_def ant_runtime_def)
  have frame: "acl_configs s' = acl_configs s \<and> acl_pages s' = acl_pages s \<Longrightarrow> ants_ok H s' \<Longrightarrow> ?thesis"
    using ant_inv_frame [OF inv] by blast
  show ?thesis
  proof (cases op)
    case (SetRecordOp params)
    with run have "set_record env m u params s = Inr s'" by (simp add: ant_record_step_def)
    then show ?thesis
      using set_record_ok [OF ok rt [unfolded SetRecordOp]] frame
      by (auto simp: set_record_def Let_def ant_run_iff)
  next
    case (RemoveRecordOp h with_metadata)
    with run have "remove_record env m u h with_metadata s = Inr s'" by (simp add: ant_record_step_def)
    then show ?thesis using remove_record_ok [OF ok] frame by (auto simp: remove_record_def ant_run_iff)
  next
    case (TransferRecordOp h new_owner)
    with run have t: "transfer_record env m u h new_owner s = Inr s'" by (simp add: ant_record_step_def)
    then have "acl_configs s' = acl_configs s \<and> acl_pages s' = acl_pages s"
      unfolding transfer_record_def Let_def ant_run_iff by (elim exE conjE) auto
    then show ?thesis using transfer_record_ok [OF ok t] frame by blast
  next
    case (SetRecordMetadataOp params)
    with run have "set_record_metadata env m u params s = Inr s'" by (simp add: ant_record_step_def)
    then show ?thesis
      using set_record_metadata_ok [OF ok] frame by (auto simp: set_record_metadata_def Let_def ant_run_iff)
  next
    case (RemoveRecordMetadataOp undername)
    with run have "remove_record_metadata env m u undername s = Inr s'" by (simp add: ant_record_step_def)
    then show ?thesis
      using remove_record_metadata_ok [OF ok] frame by (auto simp: remove_record_metadata_def Let_def ant_run_iff)
  next
    case (AddControllerOp w i)
    with run show ?thesis using add_controller_inv [OF inv room] by (simp add: ant_record_step_def)
  next
    case (RemoveControllerOp w i)
    with run show ?thesis using remove_controller_inv [OF inv room] by (simp add: ant_record_step_def)
  qed ((use run in \<open>simp add: ant_record_step_def\<close>, use frame config_setters_ok [OF ok] in blast)+)
qed


lemma validate_keywords_Nil [simp]: "validate_keywords []"
  by (simp add: validate_keywords_def)

lemma optional_checks:
  "(xs \<noteq> [] \<longrightarrow> length xs \<le> n) = (length xs \<le> n)" "(ks \<noteq> [] \<longrightarrow> validate_keywords ks) = validate_keywords ks"
  by auto

lemma valid_default_logo: "is_valid_ant_arweave_id DEFAULT_LOGO"
  by (simp add: is_valid_ant_arweave_id_def DEFAULT_LOGO_def ARWEAVE_TX_ID_LENGTH_def base64url_def
      is_ascii_alphanumeric_def)

lemma initialize_ant_ok:
  assumes ok: "ants_ok (ant_sha256 env) s" and run: "initialize_ant env m u params s = Inr s'"
  shows "ants_ok (ant_sha256 env) s' \<and> acl_configs s' = acl_configs s \<and> acl_pages s' = acl_pages s"
proof -
  have h: "hash_undername env ''@'' = ant_sha256 env ''@''"
    by (simp add: hash_undername_def ant_lowercase_def ascii_lowercase_def is_ascii_uppercase_def)
  have at: "is_valid_undername ''@''" "lower ''@''"
    by (simp_all add: is_valid_undername_def ANT_MAX_UNDERNAME_LENGTH_def lower_def is_ascii_uppercase_def)
  have ttl: "is_valid_ttl DEFAULT_TTL_SECONDS"
    by (simp add: is_valid_ttl_def DEFAULT_TTL_SECONDS_def MIN_TTL_SECONDS_def MAX_TTL_SECONDS_def)
  obtain cfg ctl r where s': "save_ant m cfg ctl (s\<lparr>ant_records := (ant_records s)((m, hash_undername env ''@'') \<mapsto> r)\<rparr>) = s'"
    and cfg: "ant_config_ok m cfg" and ctl: "controllers_ok m ctl"
    and r: "ant_record_ok (ant_sha256 env) m (hash_undername env ''@'') r"
    using run unfolding initialize_ant_def Let_def ant_run_iff sum.inject
    by (elim exE conjE) (rule that, assumption, simp_all add: ant_config_ok_def controllers_ok_def ant_record_ok_def h at ttl optional_checks
        valid_default_logo MAX_CONTROLLERS_def MAX_TICKER_LENGTH_def split: option.splits if_splits)
  show ?thesis unfolding s' [symmetric] using ok cfg ctl r by (simp add: ants_ok_save ants_ok_record)
qed

lemma ant_holder_step_inv:
  assumes inv: "ant_inv H s" and rt: "ant_runtime H env (AntHolderOp m u op) s"
    and run: "ant_holder_step env m u op s = Inr s'"
  shows "ant_inv H s'"
proof -
  have ok: "ants_ok H s" and room: "acl_room s" using inv rt by (auto simp: ant_inv_def ant_runtime_def)
  have frame: "acl_configs s' = acl_configs s \<and> acl_pages s' = acl_pages s \<Longrightarrow> ants_ok H s' \<Longrightarrow> ?thesis"
    using ant_inv_frame [OF inv] by blast
  show ?thesis
  proof (cases op)
    case (InitializeAntOp params)
    with run have "initialize_ant env m u params s = Inr s'" by (simp add: ant_holder_step_def)
    then show ?thesis using initialize_ant_ok [of env s] ok rt frame by (auto simp: ant_runtime_def)
  next
    case (TransferAntOp w i j)
    with run show ?thesis using transfer_ant_inv [OF inv room] by (simp add: ant_holder_step_def)
  next
    case (ClearAttributesOp payer)
    with run have "clear_attributes env m payer u s = Inr s'" by (simp add: ant_holder_step_def)
    then show ?thesis
      using frame ants_ok_frame [OF ok, of s']
      by (auto simp: clear_attributes_def update_attributes_plugin_def Let_def ant_run_iff)
  next
    case (AdoptAuthorityOp payer)
    with run have "adopt_authority env m payer u s = Inr s'" by (simp add: ant_holder_step_def)
    then show ?thesis using frame ants_ok_frame [OF ok, of s'] by (auto simp: adopt_authority_def ant_run_iff)
  qed (use run frame ants_ok_closed [OF ok] in \<open>auto simp: ant_holder_step_def close_ant_record_def
        close_ant_record_metadata_for_owner_def close_ant_controllers_def close_ant_config_def Let_def ant_run_iff\<close>)
qed

lemma acl_step_inv:
  assumes inv: "ant_inv H s" "acl_room s" and acc: "acl_accounts u i s k = Inr s'"
    and k: "\<And>c p. k c p = Inr s' \<Longrightarrow> \<exists>a role. add_entry u c p a role s = Inr s' \<or> remove_entry u c p a role s = Inr s'"
  shows "ant_inv H s'"
proof -
  from acc obtain c p where acl: "acl_configs s u = Some c" "acl_pages s (al_user c, i) = Some p" and run: "k c p = Inr s'"
    by (auto simp: acl_accounts_iff)
  show ?thesis using k [OF run] entry_inv [OF _ refl refl inv acl] inv(1) by (auto simp: ant_inv_def)
qed

lemma ant_public_step_inv:
  assumes inv: "ant_inv H s" and rt: "ant_runtime H env (AntPublicOp u op) s"
    and run: "ant_public_step env u op s = Inr s'"
  shows "ant_inv H s'"
proof -
  have ok: "ants_ok H s" and acl: "acl_ok s" and room: "acl_room s"
    using inv rt by (auto simp: ant_inv_def ant_runtime_def)
  have frame: "acl_configs s' = acl_configs s \<and> acl_pages s' = acl_pages s \<Longrightarrow> ants_ok H s' \<Longrightarrow> ?thesis"
    using ant_inv_frame [OF inv] by blast
  have heads: "ant_configs s' = ant_configs s \<and> ant_controller_lists s' = ant_controller_lists s
     \<and> ant_records s' = ant_records s \<and> ant_metadata s' = ant_metadata s \<Longrightarrow> acl_ok s' \<Longrightarrow> ?thesis"
    using ants_ok_frame [OF ok, of s'] by (simp add: ant_inv_def)
  note step = acl_step_inv [OF inv room]
  show ?thesis
  proof (cases op)
    case (ReconcileOp m)
    with run obtain cfg ctl o1 cfg1 ctl1 where acc: "ant_configs s m = Some cfg" "ant_controller_lists s m = Some ctl"
        "reconcile_ownership cfg ctl o1 = (cfg1, ctl1)" and s': "s' = save_ant m cfg1 ctl1 s"
      by (auto simp: ant_public_step_def reconcile_def ant_run_iff case_prod_unfold prod_eq_iff)
    then show ?thesis using frame reconciled_ok [OF ok acc] ants_ok_save [OF ok] by simp
  next
    case (CloseOrphanedRecordMetadataOp m n)
    with run have "close_orphaned_record_metadata env m n s = Inr s'" by (simp add: ant_public_step_def)
    then show ?thesis
      using frame ants_ok_closed(2) [OF ok] by (auto simp: close_orphaned_record_metadata_def Let_def ant_run_iff)
  next
    case (SyncAttributesOp m h n)
    with run have "sync_attributes env m u h n s = Inr s'" by (simp add: ant_public_step_def)
    then show ?thesis
      using frame ants_ok_frame [OF ok, of s']
      by (auto simp: sync_attributes_def update_attributes_plugin_def Let_def ant_run_iff)
  next
    case (RegisterAclConfigOp v)
    with run have "register_acl_config env v s = Inr s'" by (simp add: ant_public_step_def)
    then show ?thesis using heads register_acl_config_acl [OF acl] by (auto simp: register_acl_config_def require_iff)
  next
    case (AddAclPageOp v)
    with run have "add_acl_page env v s = Inr s'" by (simp add: ant_public_step_def)
    then show ?thesis using heads add_acl_page_acl [OF acl] by (auto simp: add_acl_page_def Let_def ant_run_iff)
  next
    case (CloseAclPageOp v i)
    with run have "close_acl_page v i s = Inr s'" by (simp add: ant_public_step_def)
    then show ?thesis using heads close_acl_page_acl [OF acl] by (auto simp: close_acl_page_def ant_run_iff)
  next
    case (CloseAclConfigOp v)
    with run have "close_acl_config v s = Inr s'" by (simp add: ant_public_step_def)
    then show ?thesis using heads close_acl_config_acl [OF acl] by (auto simp: close_acl_config_def ant_run_iff)
  next
    case (RecordAclOwnerOp m v i)
    with run have "record_acl_owner env m v i s = Inr s'" by (simp add: ant_public_step_def)
    then show ?thesis unfolding record_acl_owner_def ok_or_iff
      by (elim exE conjE) (erule step, simp add: require_iff and_then_iff assert_page_belongs_def, blast)
  next
    case (RemoveAclOwnerOp m v i)
    with run have "remove_acl_owner env m v i s = Inr s'" by (simp add: ant_public_step_def)
    then show ?thesis unfolding remove_acl_owner_def ok_or_iff
      by (elim exE conjE) (erule step, simp add: require_iff and_then_iff assert_page_belongs_def, blast)
  next
    case (RecordAclControllerOp m v i)
    with run have "record_acl_controller env m v i s = Inr s'" by (simp add: ant_public_step_def)
    then show ?thesis unfolding record_acl_controller_def core_asset_iff ok_or_iff
      by (elim exE conjE) (erule step, simp add: require_iff and_then_iff assert_page_belongs_def, blast)
  next
    case (RemoveAclControllerOp m v i)
    with run have "remove_acl_controller env m v i s = Inr s'" by (simp add: ant_public_step_def)
    then show ?thesis unfolding remove_acl_controller_def core_asset_iff ok_or_iff
      by (elim exE conjE) (erule step, simp add: require_iff and_then_iff assert_page_belongs_def, blast)
  qed
qed

lemma close_orphans_ok:
  "close_orphans m accts s = Inr s' \<Longrightarrow> ants_ok H s \<Longrightarrow>
     ants_ok H s' \<and> acl_configs s' = acl_configs s \<and> acl_pages s' = acl_pages s"
proof (induction m accts s rule: close_orphans.induct)
  case (2 m mint h accts s)
  then show ?case by (cases "ant_records s (mint, h)") (auto simp: require_iff ants_ok_closed)
next
  case (3 m mint h accts s)
  then show ?case by (cases "ant_metadata s (mint, h)") (auto simp: require_iff ants_ok_closed)
qed auto

lemma ant_admin_step_inv:
  assumes inv: "ant_inv H s" and run: "ant_admin_step env u op s = Inr s'"
  shows "ant_inv H s'"
proof (cases op)
  case (AdminCloseOrphanedAntStateOp m remaining)
  with run obtain s1 where close: "close_orphans m remaining s = Inr s1"
    and s': "s' = s1\<lparr>ant_configs := (ant_configs s1)(m := None),
               ant_controller_lists := (ant_controller_lists s1)(m := None)\<rparr>"
    by (auto simp: ant_admin_step_def admin_close_orphaned_ant_state_def ant_run_iff)
  have s1: "ants_ok H s1" "acl_configs s1 = acl_configs s" "acl_pages s1 = acl_pages s"
    using close_orphans_ok [OF close, of H] inv by (simp_all add: ant_inv_def)
  then show ?thesis by (intro ant_inv_frame [OF inv]) (auto simp: s' ants_ok_def split: if_splits)
qed (use run ants_ok_frame [of H s s'] ant_inv_frame [OF inv] inv in \<open>auto simp: ant_admin_step_def
      initialize_migration_def finalize_ant_migration_def ant_transfer_authority_def ant_run_iff ant_inv_def\<close>)

lemma ant_step_inv:
  assumes "ant_inv H s" and "ant_runtime H env op s" and "ant_step env op s = Inr s'"
  shows "ant_inv H s'"
proof (cases op)
  case (AntRecordOp m u o1)
  then show ?thesis using assms by (auto simp: ant_step_def intro: ant_record_step_inv)
next
  case (AntHolderOp m u o2)
  then show ?thesis using assms by (auto simp: ant_step_def intro: ant_holder_step_inv)
next
  case (AntPublicOp u o3)
  then show ?thesis using assms by (auto simp: ant_step_def intro: ant_public_step_inv)
next
  case (AntAdminOp u o4)
  then show ?thesis using assms by (auto simp: ant_step_def intro: ant_admin_step_inv)
qed

interpretation ant: machine_invariant now "ant_runtime H" ant_step "\<lambda>_. ant_inv H"
  for H :: "string \<Rightarrow> name_hash"
  by unfold_locales (auto intro: ant_step_inv)

abbreviation ant_exec :: "(ant_env \<times> ant_op) list \<Rightarrow> ant_state \<Rightarrow> ant_state" where
  "ant_exec txs s \<equiv> exec ant_step txs s"

abbreviation ant_trace :: "(string \<Rightarrow> name_hash) \<Rightarrow> i64 \<Rightarrow> (ant_env \<times> ant_op) list \<Rightarrow> ant_state \<Rightarrow> bool" where
  "ant_trace H t txs s \<equiv> admissible_trace now (ant_runtime H) ant_step t txs s"

end
