(* ===== verification/Ant_Sizes.thy ===== *)
theory Ant_Sizes
  imports Ant_Invariant Ant_Codec
begin

text \<open>
  Well-formed accounts of \<open>ario-ant\<close> fit the space that is allocated for them, and the bytes they
  are stored as pass the walk of the import.
\<close>

lemma keywords_ok_lengths: "keywords_ok ks \<Longrightarrow> list_all (\<lambda>k. length k \<le> MAX_KEYWORD_LENGTH) ks"
  by (induction ks) (simp_all add: is_valid_keyword_def split: if_splits)

lemma validate_keywords_lengths:
  assumes "validate_keywords ks"
  shows "length ks \<le> MAX_KEYWORDS" "list_all (\<lambda>k. length k \<le> MAX_KEYWORD_LENGTH) ks"
  using assms keywords_ok_lengths by (auto simp: validate_keywords_def split: if_splits)

lemma valid_lengths:
  "is_valid_ant_arweave_id t \<Longrightarrow> length t = 43"
  "is_valid_undername t \<Longrightarrow> length t \<le> 61"
  "validate_target t p \<Longrightarrow> length t \<le> 128"
  by (simp_all add: is_valid_ant_arweave_id_def is_valid_undername_def validate_target_def ant_lengths split: if_splits)

lemma keywords_sizes:
  assumes "validate_keywords ks"
  shows "length (borsh_vec borsh_string ks) \<le> 112" "keywords_fit ks"
proof -
  note lens = validate_keywords_lengths [OF assms]
  show "length (borsh_vec borsh_string ks) \<le> 112" using length_keywords [OF lens] by simp
  show "keywords_fit ks"
    using lens by (auto simp: keywords_fit_def len_ok_def list_all_iff MAX_KEYWORD_LENGTH_def)
qed

section \<open>Each account type\<close>

lemma config_sizes:
  assumes "ant_config_ok m c"
  shows "8 + length (borsh_ant_config c) \<le> ANT_CONFIG_SIZE \<and> config_fits c"
  using assms keywords_sizes [of "an_keywords c"] valid_lengths(1) [of "an_logo c"] unfolding sizes
  by (simp add: ant_config_ok_def borsh_ant_config_def config_fits_def len_ok_def ant_lengths)

lemma controllers_sizes:
  assumes "controllers_ok m l"
  shows "8 + length (borsh_ant_controllers l) \<le> ANT_CONTROLLERS_SIZE"
  using assms unfolding sizes
  by (simp add: controllers_ok_def borsh_ant_controllers_def length_keys MAX_CONTROLLERS_def)

lemma record_sizes:
  assumes "ant_record_ok H m h r"
  shows "8 + length (borsh_ant_record r) \<le> ANT_RECORD_SIZE \<and> record_fits r"
  using assms valid_lengths(2) [of "at_undername r"] valid_lengths(3) [of "at_target r" "at_target_protocol r"]
  unfolding sizes
  by (auto simp: ant_record_ok_def borsh_ant_record_def record_fits_def len_ok_def length_borsh_option
      split: option.split)

lemma option_length:
  assumes "pred_option (\<lambda>x. length (enc x) \<le> n) o1"
  shows "length (borsh_option enc o1) \<le> 1 + n"
  using assms by (cases o1) simp_all

lemma metadata_sizes:
  assumes "ant_metadata_ok m d"
  shows "8 + length (borsh_ant_metadata d) \<le> ANT_RECORD_METADATA_SIZE \<and> metadata_fits d"
proof -
  have ok: "pred_option (\<lambda>t. length (borsh_string t) \<le> 65) (md_display_name d)"
    "pred_option (\<lambda>t. length (borsh_string t) \<le> 47) (md_record_logo d)"
    "pred_option (\<lambda>t. length (borsh_string t) \<le> 132) (md_record_description d)"
    "pred_option (\<lambda>ks. length (borsh_vec borsh_string ks) \<le> 112) (md_record_keywords d)"
    using assms valid_lengths(1) keywords_sizes(1)
    by (auto simp: ant_metadata_ok_def ant_lengths elim!: option.pred_mono_strong)
  have "metadata_fits d"
    using assms valid_lengths(1) keywords_sizes(2)
    by (auto simp: ant_metadata_ok_def metadata_fits_def len_ok_def ant_lengths elim!: option.pred_mono_strong)
  then show ?thesis
    using ok [THEN option_length] unfolding sizes by (simp add: borsh_ant_metadata_def)
qed

end
