(* ===== verification/Core_Codec.thy ===== *)
theory Core_Codec
  imports Core_Records Ant_Sizes
begin

text \<open>
  The readers of \<open>ario-core\<close> against the layouts of the accounts they read: the raw walk over an
  \<open>AntRecord\<close>, an \<open>AntConfig\<close> or an \<open>ArnsRecord\<close> returns the fields that the owning program wrote.
\<close>

section \<open>Records of ario-ant\<close>

lemma laid_out_holds: "laid_out data bs \<Longrightarrow> holds_at data 8 bs"
  by (auto simp: laid_out_def)

lemma core_skip_string:
  assumes "holds_at data i (borsh_string t)" and "len_ok t"
  shows "skip_borsh_string data i = Inr (i + 4 + length t)"
proof -
  have "holds_at data i (le_bytes 4 (length t))" using assms(1) by (simp add: borsh_string_def holds_at_append)
  moreover have "i + (4 + length t) \<le> length data"
    using holds_at_length [OF assms(1)] length_borsh_string [of t] by (cases "borsh_string t") auto
  ultimately show ?thesis
    using holds_at_len [of "length t" i data] assms(2) by (simp add: skip_borsh_string_def require_def len_ok_def)
qed

lemma core_skip_strings:
  assumes "holds_at data i (concat (map borsh_string ts))" and "list_all len_ok ts"
  shows "skip_borsh_strings data (length ts) i = Inr (i + length (concat (map borsh_string ts)))"
  using assms
proof (induction ts arbitrary: i)
  case (Cons t ts)
  then have "holds_at data i (borsh_string t)" "holds_at data (i + (4 + length t)) (concat (map borsh_string ts))"
    by (simp_all add: holds_at_append)
  then show ?case
    using Cons.IH [of "i + (4 + length t)"] Cons.prems(2) core_skip_string [of t i data] by (simp add: add.assoc)
qed simp

lemma read_option_key:
  assumes "holds_at data i (borsh_option key_bytes k)"
  shows "i < length data"
    and "(if data ! i = 0 then Inr (None, 1)
          else require (length data \<ge> i + 1 + 32) CoreInvalidAccountState
                 (Inr (Some (key_at data (i + 1)), 33)))
         = Inr (k, length (borsh_option key_bytes k))"
proof -
  show "i < length data" using holds_at_length [OF assms] by (cases k) auto
  show "(if data ! i = 0 then Inr (None, 1)
          else require (length data \<ge> i + 1 + 32) CoreInvalidAccountState
                 (Inr (Some (key_at data (i + 1)), 33)))
         = Inr (k, length (borsh_option key_bytes k))"
  proof (cases k)
    case None
    then show ?thesis using holds_at_nth(2) [of 0 i data] assms by simp
  next
    case (Some o1)
    then have "holds_at data i ([1] @ key_bytes o1)" using assms by simp
    then have tag: "holds_at data i [1]" and key: "holds_at data (i + 1) (key_bytes o1)"
      unfolding holds_at_append by auto
    then show ?thesis
      using Some holds_at_nth(2) [OF tag] holds_at_key [OF key] holds_at_length [OF key]
      by (simp add: require_def)
  qed
qed

lemma option_u32_size:
  assumes "holds_at data i (borsh_option borsh_u32 p)"
  shows "i < length data" and "(if data ! i = 0 then 1 else 5) = length (borsh_option borsh_u32 p)"
proof -
  show "i < length data" using holds_at_length [OF assms] by (cases p) auto
  have "holds_at data i [if p = None then 0 else 1]"
  proof (cases p)
    case (Some x)
    then have "holds_at data i ([1] @ borsh_u32 x)" using assms by simp
    then show ?thesis using Some unfolding holds_at_append by simp
  qed (use assms in simp)
  then show "(if data ! i = 0 then 1 else 5) = length (borsh_option borsh_u32 p)"
    using holds_at_nth(2) [of "if p = None then 0 else 1" i data] by (cases p) simp_all
qed

lemma parse_ant_record_steps:
  assumes "skip_borsh_string data 40 = Inr a" and "skip_borsh_string data a = Inr b" and "b + 5 < length data"
    and "(if data ! (b + 5) = 0 then 1 else 5) = n" and "b + 5 + n < length data"
    and "(if data ! (b + 5 + n) = 0 then Inr (None, 1)
          else require (length data \<ge> b + 5 + n + 1 + 32) CoreInvalidAccountState
                 (Inr (Some (key_at data (b + 5 + n + 1)), 33))) = Inr (d, m)"
    and "b + 5 + n + m + 32 \<le> length data"
  shows "parse_ant_record data = Inr (d, key_at data (b + 5 + n + m))"
proof -
  have 40: "(8 :: nat) + 32 = 40" by simp
  show ?thesis
    unfolding parse_ant_record_def Let_def 40 assms(1) and_then_simps assms(2) assms(4) assms(6) prod.case
    using assms(3,5,7) by (simp add: require_def)
qed

lemma parse_ant_record_laid_out:
  assumes "laid_out data (borsh_ant_record r)" and "record_fits r"
  shows "parse_ant_record data = Inr (at_owner r, at_last_reconciled_owner r)"
proof -
  let ?u = "at_undername r" and ?t = "at_target r" and ?p = "at_priority r" and ?o = "at_owner r"
  let ?po = "40 + (4 + length ?u) + (4 + length ?t) + 5"
  let ?oo = "?po + length (borsh_option borsh_u32 ?p)"
  let ?lo = "?oo + length (borsh_option key_bytes ?o)"
  have at: "holds_at data 40 (borsh_string ?u)" "holds_at data (40 + (4 + length ?u)) (borsh_string ?t)"
    "holds_at data ?po (borsh_option borsh_u32 ?p)" "holds_at data ?oo (borsh_option key_bytes ?o)"
    "holds_at data ?lo (key_bytes (at_last_reconciled_owner r))"
    using laid_out_holds [OF assms(1)] unfolding borsh_ant_record_def holds_at_append
    by (simp_all add: add.assoc add.commute add.left_commute)
  have fits: "len_ok ?u" "len_ok ?t" using assms(2) by (simp_all add: record_fits_def)
  have "parse_ant_record data = Inr (?o, key_at data ?lo)"
  proof (rule parse_ant_record_steps)
    show "skip_borsh_string data 40 = Inr (40 + (4 + length ?u))"
      using core_skip_string [OF at(1) fits(1)] by simp
    show "skip_borsh_string data (40 + (4 + length ?u)) = Inr (40 + (4 + length ?u) + (4 + length ?t))"
      using core_skip_string [OF at(2) fits(2)] by (simp add: add.assoc)
  qed (use option_u32_size [OF at(3)] read_option_key [OF at(4)] holds_at_length [OF at(5)] in \<open>simp_all add: add.assoc\<close>)
  then show ?thesis using holds_at_key [OF at(5)] by simp
qed

lemma config_owner_laid_out:
  assumes "laid_out data (borsh_ant_config c)" and "config_fits c"
  obtains i j where "skip_borsh_strings data 4 40 = Inr i" "i + 4 \<le> length data"
    "skip_borsh_strings data (le_nat_at data i 4) (i + 4) = Inr j" "j + 32 \<le> length data"
    "key_at data j = an_last_known_owner c"
proof -
  let ?ts = "[an_name c, an_ticker c, an_logo c, an_description c]" and ?ks = "an_keywords c"
  let ?i = "40 + length (concat (map borsh_string ?ts))"
  let ?j = "?i + 4 + length (concat (map borsh_string ?ks))"
  have at: "holds_at data 40 (concat (map borsh_string ?ts))" "holds_at data ?i (le_bytes 4 (length ?ks))"
    "holds_at data (?i + 4) (concat (map borsh_string ?ks))" "holds_at data ?j (key_bytes (an_last_known_owner c))"
    using laid_out_holds [OF assms(1)] unfolding borsh_ant_config_def borsh_vec_def holds_at_append
    by (simp_all add: holds_at_append add.assoc add.commute add.left_commute)
  have fits: "list_all len_ok ?ts" "list_all len_ok ?ks" "length ?ks < 2 ^ 32"
    using assms(2) by (auto simp: config_fits_def keywords_fit_def MAX_KEYWORDS_def)
  show ?thesis
  proof
    show "skip_borsh_strings data 4 40 = Inr ?i"
      using core_skip_strings [OF at(1) fits(1)] by (simp add: numeral_eq_Suc)
  qed (use core_skip_strings [OF at(3) fits(2)] holds_at_len [OF at(2) fits(3)] holds_at_key [OF at(4)]
      holds_at_length [OF at(2)] holds_at_length [OF at(4)] in simp_all)
qed

section \<open>The owner of a name\<close>

text \<open>An account of \<open>ario-ant\<close> at its address, with its discriminator and layout.\<close>

definition shows_account :: "core_env \<Rightarrow> account_view \<Rightarrow> pubkey \<Rightarrow> string \<Rightarrow> u8 list \<Rightarrow> nat \<Rightarrow> bool" where
  "shows_account env info k account_name bs sz \<longleftrightarrow> av_owner info = ARIO_ANT_ID \<and> av_key info = k
     \<and> av_data info = stored (discriminator env account_name) bs sz"

lemma length_discriminator [simp]: "length (discriminator env n) = 8"
  by (simp add: discriminator_def)

lemma shown_data:
  assumes "shows_account env info k n bs sz"
  shows "av_owner info = ARIO_ANT_ID" "av_key info = k" "av_data info \<noteq> []" "8 \<le> length (av_data info)"
    "take 8 (av_data info) = discriminator env n" "laid_out (av_data info) bs"
  using assms length_discriminator [of env n]
  by (auto simp: shows_account_def stored_def laid_out_def simp del: length_discriminator)

text \<open>\<open>ario-core\<close> takes the delegate that \<open>ario-ant\<close> would still honour, or else the known holder.\<close>

lemma last_known_owner_shown:
  assumes "shows_account env info (ant_config_address env ARIO_ANT_ID m) ''AntConfig'' (borsh_ant_config c) sz"
    and "config_fits c"
  shows "read_ant_config_last_known_owner env info m ARIO_ANT_ID = Inr (an_last_known_owner c)"
proof -
  note data = shown_data [OF assms(1)]
  obtain i j where "skip_borsh_strings (av_data info) 4 40 = Inr i" "i + 4 \<le> length (av_data info)"
    "skip_borsh_strings (av_data info) (le_nat_at (av_data info) i 4) (i + 4) = Inr j"
    "j + 32 \<le> length (av_data info)" "key_at (av_data info) j = an_last_known_owner c"
    using config_owner_laid_out [OF data(6) assms(2)] by blast
  then show ?thesis
    using data by (simp add: read_ant_config_last_known_owner_def Let_def require_def)
qed

lemma record_owner_shown:
  assumes "shows_account env rinfo (ant_record_address env ARIO_ANT_ID m n) ''AntRecord'' (borsh_ant_record r) sz"
    and "shows_account env cinfo (ant_config_address env ARIO_ANT_ID m) ''AntConfig'' (borsh_ant_config c) sz'"
    and "record_fits r" "config_fits c"
  shows "read_ant_record_owner env rinfo cinfo m n ARIO_ANT_ID
    = Inr (case at_owner (refresh_record c r) of None \<Rightarrow> an_last_known_owner c | Some d \<Rightarrow> d)"
  using shown_data [OF assms(1)] last_known_owner_shown [OF assms(2,4)]
    parse_ant_record_laid_out [OF shown_data(6) [OF assms(1)] assms(3)]
  by (auto simp: read_ant_record_owner_def require_def Let_def effective_owner_def refresh_record_def)

section \<open>Records of ario-arns\<close>

fun purchase_type_u8 :: "purchase_type \<Rightarrow> u8" where
  "purchase_type_u8 Lease = 0"
| "purchase_type_u8 Permabuy = 1"

definition borsh_arns_record :: "arns_record \<Rightarrow> u8 list" where
  "borsh_arns_record r = key_bytes (ar_name_hash r) @ key_bytes (ar_owner r) @ key_bytes (ar_ant r)
     @ [purchase_type_u8 (ar_purchase_type r)] @ le_bytes_i64 (ar_start_timestamp r)
     @ borsh_option le_bytes_i64 (ar_end_timestamp r) @ borsh_u16 (ar_undername_limit r)
     @ le_bytes64 (ar_purchase_price r) @ [ar_bump r] @ borsh_string (ar_name r) @ version_bytes (ar_version r)"

lemma read_i64:
  assumes "holds_at data i (le_bytes_i64 t)" and "i64_ok t"
  shows "as_i64 (of_nat (le_nat_at data i 8)) = t"
proof -
  have "le_nat_at data i 8 = unat (word_of_int t :: u64)"
    using holds_at_le_nat [OF assms(1)] by (simp add: le_bytes_i64_def)
  then show ?thesis
    using assms(2) by (simp add: i64_ok_def sint_sbintrunc' signed_take_bit_int_eq_self)
qed

lemma arns_record_fields:
  assumes "laid_out data (borsh_arns_record r)"
  shows "104 < length data" "data ! 104 = purchase_type_u8 (ar_purchase_type r)" "key_at data 72 = ar_ant r"
    "holds_at data 113 (borsh_option le_bytes_i64 (ar_end_timestamp r))" "122 \<le> length data"
proof -
  have at: "holds_at data 72 (key_bytes (ar_ant r))" "holds_at data 104 [purchase_type_u8 (ar_purchase_type r)]"
    "holds_at data 113 (borsh_option le_bytes_i64 (ar_end_timestamp r))"
    using laid_out_holds [OF assms] unfolding borsh_arns_record_def holds_at_append by simp_all
  show "104 < length data" "data ! 104 = purchase_type_u8 (ar_purchase_type r)"
    using holds_at_nth [OF at(2)] by auto
  show "key_at data 72 = ar_ant r" using holds_at_key [OF at(1)] .
  show "holds_at data 113 (borsh_option le_bytes_i64 (ar_end_timestamp r))" by (rule at(3))
  show "122 \<le> length data"
    using assms by (auto simp: laid_out_def borsh_arns_record_def length_borsh_option)
qed

lemma verify_active_laid_out:
  assumes data: "laid_out (av_data info) (borsh_arns_record r)" and ok: "pred_option i64_ok (ar_end_timestamp r)"
  shows "verify_arns_record_active info t =
    (if is_active r t \<or> is_in_grace_period r t LEASE_GRACE_PERIOD then Inr () else Inl ArnsRecordNotFound)"
proof (cases "ar_purchase_type r")
  case Lease
  note fields = arns_record_fields [OF data]
  show ?thesis
  proof (cases "ar_end_timestamp r")
    case None
    then have "av_data info ! 113 = 0" using holds_at_nth(2) [of 0 113 "av_data info"] fields(4) by simp
    then show ?thesis using fields(1,2) Lease None by (simp add: verify_arns_record_active_def is_active_def)
  next
    case (Some e)
    then have "holds_at (av_data info) 113 ([1] @ le_bytes_i64 e)" using fields(4) by simp
    then have tag: "holds_at (av_data info) 113 [1]" and e: "holds_at (av_data info) 114 (le_bytes_i64 e)"
      unfolding holds_at_append by auto
    have "as_i64 (of_nat (le_nat_at (av_data info) 114 8)) = e" using read_i64 [OF e] ok Some by simp
    moreover have "- (2 ^ 63) \<le> e" "e < 2 ^ 63" using ok Some by (simp_all add: i64_ok_def)
    ultimately show ?thesis
      using fields(1,2,5) holds_at_nth(2) [OF tag] Lease Some
      by (auto simp: verify_arns_record_active_def is_active_def is_in_grace_period_def require_def Let_def
          checked_add_i64_def clamp_i64_def LEASE_GRACE_PERIOD_def i64_ok_def)
  qed
next
  case Permabuy
  then show ?thesis
    using arns_record_fields(2) [OF data] by (simp add: verify_arns_record_active_def is_active_def)
qed

end
