(* ===== verification/Ant_Traits.thy ===== *)
theory Ant_Traits
  imports Ant_Access
begin

text \<open>
  The scan that keeps the \<open>ANT Program\<close> trait over a synchronisation: what it returns when the
  attributes plugin is the first position that parses, and what a run of zeros in front of it does.
\<close>

section \<open>The value of a trait\<close>

text \<open>The last entry of a key counts, as in the source's loop.\<close>

fun trait_value :: "string \<Rightarrow> attribute_kv list \<Rightarrow> string option \<Rightarrow> string option" where
  "trait_value key [] found = found"
| "trait_value key (a # as) found = trait_value key as (if kv_key a = key then Some (kv_value a) else found)"

definition kv_fits :: "attribute_kv \<Rightarrow> bool" where
  "kv_fits a \<longleftrightarrow> length (kv_key a) \<le> 256 \<and> length (kv_value a) \<le> 1024 \<and> utf8_valid (text_bytes (kv_value a))"

lemma text_of_bytes [simp]: "map (\<lambda>b. char_of (unat b)) (text_bytes t) = t"
  by (induction t) (simp_all add: text_bytes_def)

lemma text_bytes_eq [simp]: "text_bytes t = map (of_char :: char \<Rightarrow> u8) u \<longleftrightarrow> t = u"
  using text_bytes_inject [of t u] by (simp only: text_bytes_def)

lemma attribute_text_holds:
  assumes "holds_at data p (borsh_string t)" and "length t \<le> cap" and "cap < 2 ^ 32"
  shows "attribute_text cap data p = Some (text_bytes t, p + 4 + length t)"
proof -
  have at: "holds_at data p (le_bytes 4 (length t))" "holds_at data (p + 4) (text_bytes t)"
    using assms(1) by (simp_all add: borsh_string_def holds_at_append)
  have "p + 4 \<le> length data" using holds_at_length [OF at(1)] by (simp flip: length_0_conv)
  moreover have "p + 4 + length t \<le> length data"
    using holds_at_length [OF assms(1)] by (simp flip: length_0_conv)
  moreover have "take (length t) (drop (p + 4) data) = text_bytes t"
    using at(2) by (simp add: holds_at_take)
  ultimately show ?thesis
    using holds_at_len [OF at(1)] assms(2,3) by (simp add: attribute_text_def Let_def)
qed

lemma parse_entries_holds:
  assumes "holds_at data p (concat (map attribute_bytes as))" and "list_all kv_fits as"
  shows "parse_entries data (text_bytes key) (length as) p found = Some (trait_value key as found)"
  using assms
proof (induction as arbitrary: p found)
  case (Cons a as)
  let ?q = "p + 4 + length (kv_key a)"
  have at: "holds_at data p (borsh_string (kv_key a))" "holds_at data ?q (borsh_string (kv_value a))"
    "holds_at data (?q + 4 + length (kv_value a)) (concat (map attribute_bytes as))"
    using Cons.prems(1) attribute_bytes_def [of a] by (simp_all add: holds_at_append add.assoc)
  have fits: "length (kv_key a) \<le> 256" "length (kv_value a) \<le> 1024" "utf8_valid (text_bytes (kv_value a))"
    using Cons.prems(2) by (simp_all add: kv_fits_def)
  have "attribute_text 256 data p = Some (text_bytes (kv_key a), ?q)"
    "attribute_text 1024 data ?q = Some (text_bytes (kv_value a), ?q + 4 + length (kv_value a))"
    using attribute_text_holds [OF at(1) fits(1)] attribute_text_holds [OF at(2) fits(2)] by simp_all
  then show ?case using Cons.IH [OF at(3)] Cons.prems(2) fits(3) by auto
qed simp

lemma try_parse_holds:
  assumes "holds_at data p (borsh_vec attribute_bytes as)" and "list_all kv_fits as" and "length as \<le> 64"
  shows "try_parse_attributes_at data p (text_bytes key) = Some (trait_value key as None)"
proof -
  have at: "holds_at data p (le_bytes 4 (length as))" "holds_at data (p + 4) (concat (map attribute_bytes as))"
    using assms(1) by (simp_all add: borsh_vec_def holds_at_append)
  have "p + 4 \<le> length data" using holds_at_length [OF at(1)] by (simp flip: length_0_conv)
  then show ?thesis
    using holds_at_len [OF at(1)] parse_entries_holds [OF at(2) assms(2)] assms(3)
    by (simp add: try_parse_attributes_at_def Let_def)
qed

section \<open>The scan\<close>

text \<open>No earlier position looks like a list of attributes.\<close>

definition plain_before :: "u8 list \<Rightarrow> nat \<Rightarrow> string \<Rightarrow> bool" where
  "plain_before data i key \<longleftrightarrow> (\<forall>j. 1 \<le> j \<and> j < i \<and> data ! j = PLUGIN_VARIANT_ATTRIBUTES \<longrightarrow>
     try_parse_attributes_at data (j + 1) (text_bytes key) = None)"

lemma scan_skips:
  "(\<And>j. j \<in> set is \<Longrightarrow> data ! j = PLUGIN_VARIANT_ATTRIBUTES \<Longrightarrow> try_parse_attributes_at data (j + 1) key = None) \<Longrightarrow>
     scan_positions data key (is @ js) = scan_positions data key js"
  by (induction "is") auto

lemma read_existing_at:
  assumes "1 \<le> i" and "i + 4 < length data" and "data ! i = PLUGIN_VARIANT_ATTRIBUTES"
    and "plain_before data i key" and "try_parse_attributes_at data (i + 1) (text_bytes key) = Some found"
  shows "read_existing_attribute data key = found"
proof -
  have "[1..<length data - 4] = [1..<i] @ [i..<length data - 4]"
    using upt_add_eq_append [of 1 i "length data - 4 - i"] assms(1,2) by simp
  also have "[i..<length data - 4] = i # [Suc i..<length data - 4]" using assms(2) by (simp add: upt_conv_Cons)
  finally have "read_existing_attribute data key = scan_positions data (text_bytes key) (i # [Suc i..<length data - 4])"
    using assms(4) unfolding read_existing_attribute_def plain_before_def by (simp only:) (rule scan_skips, auto)
  then show ?thesis using assms(3,5) by simp
qed

text \<open>The data of an asset: something, the plugin's variant byte, its list, something.\<close>

definition plugin_data :: "u8 list \<Rightarrow> attribute_kv list \<Rightarrow> u8 list \<Rightarrow> u8 list" where
  "plugin_data pre as post = pre @ PLUGIN_VARIANT_ATTRIBUTES # borsh_vec attribute_bytes as @ post"

lemma read_existing_plugin:
  assumes "pre \<noteq> []" and "list_all kv_fits as" and "length as \<le> 64"
    and "plain_before (plugin_data pre as post) (length pre) key"
  shows "read_existing_attribute (plugin_data pre as post) key = trait_value key as None"
proof (rule read_existing_at [OF _ _ _ assms(4)])
  show "1 \<le> length pre" using assms(1) by (cases pre) auto
  have "holds_at (plugin_data pre as post) (length pre + 1) (borsh_vec attribute_bytes as)"
    by (simp add: plugin_data_def)
  from try_parse_holds [OF this assms(2,3)]
  show "try_parse_attributes_at (plugin_data pre as post) (length pre + 1) (text_bytes key) = Some (trait_value key as None)" .
qed (simp_all add: plugin_data_def borsh_vec_def nth_append)

lemma zero_len: "le_bytes 4 0 = [0, 0, 0, 0]"
  by code_simp

text \<open>A variant byte and four zeros read as an empty list, and end the scan.\<close>

lemma read_existing_decoy:
  assumes "pre \<noteq> []" and "PLUGIN_VARIANT_ATTRIBUTES \<notin> set pre"
  shows "read_existing_attribute (pre @ [PLUGIN_VARIANT_ATTRIBUTES, 0, 0, 0, 0] @ rest) key = None"
    (is "read_existing_attribute ?data key = None")
proof (rule read_existing_at)
  show "1 \<le> length pre" using assms(1) by (cases pre) auto
  show "plain_before ?data (length pre) key"
    unfolding plain_before_def
  proof (intro allI impI)
    fix j
    assume j: "1 \<le> j \<and> j < length pre \<and> ?data ! j = PLUGIN_VARIANT_ATTRIBUTES"
    then have "pre ! j = PLUGIN_VARIANT_ATTRIBUTES" "j < length pre" by (auto simp: nth_append)
    then have "PLUGIN_VARIANT_ATTRIBUTES \<in> set pre" by (metis nth_mem)
    with assms(2) show "try_parse_attributes_at ?data (j + 1) (text_bytes key) = None" by blast
  qed
  have zeros: "borsh_vec attribute_bytes [] = [0, 0, 0, 0]" by (simp add: borsh_vec_def zero_len)
  have "drop (length pre + 1) ?data = borsh_vec attribute_bytes [] @ rest" by (simp add: zeros)
  then have "holds_at ?data (length pre + 1) (borsh_vec attribute_bytes [])" by (metis prefixI)
  from try_parse_holds [OF this, of key]
  show "try_parse_attributes_at ?data (length pre + 1) (text_bytes key) = Some None" by simp
qed (simp_all add: nth_append)

section \<open>What a synchronisation writes\<close>

lemmas trait_keys = TRAIT_KEY_ARNS_NAME_def TRAIT_KEY_TYPE_def TRAIT_KEY_UNDERNAME_LIMIT_def TRAIT_KEY_ANT_PROGRAM_def

lemma built_traits:
  "trait_value TRAIT_KEY_ANT_PROGRAM (build_attribute_list r p) None = p"
  "trait_value TRAIT_KEY_ARNS_NAME (build_attribute_list r p) None = Some (ar_name r)"
  "trait_value TRAIT_KEY_TYPE (build_attribute_list r p) None = Some (purchase_type_str (ar_purchase_type r))"
  "trait_value TRAIT_KEY_UNDERNAME_LIMIT (build_attribute_list r p) None = Some (decimal (unat (ar_undername_limit r)))"
  by (simp_all add: build_attribute_list_def trait_keys split: option.split)

lemma sync_attributes_writes:
  assumes "sync_attributes env m payer h name s = Inr s'" and "ant_assets env m = Some a"
  obtains r auth where "ant_arns_records env h = Some r" "ar_ant r = m" "h = ant_sha256 env (ant_lowercase env name)"
    "mpl_log s' = mpl_log s @ [MplUpdate m payer auth (encode_update_attributes_ix_data
       (build_attribute_list r (read_existing_attribute (ra_data a) TRAIT_KEY_ANT_PROGRAM)))]"
  using assms unfolding sync_attributes_def update_attributes_plugin_def Let_def ant_run_iff by auto

end
