(* ===== verification/Ant_Fixtures.thy ===== *)
theory Ant_Fixtures
  imports Ant_Sizes Ant_Traits Arns_Fixtures
begin

text \<open>
  One ANT beside the names of \<open>Arns_Fixtures\<close>: the asset 40, held by wallet 10 and controlled by 30,
  with a root record and an undername ``docs'' that wallet 50 looks after. The asset's plugin
  carries the trait that a synchronisation keeps; asset 41 has a run of zeros in front of it.
\<close>

definition asset_head :: "u8 list" where
  "asset_head = 1 # le_bytes 32 10 @ [1] @ le_bytes 32 7"

definition program_trait :: attribute_kv where
  "program_trait = \<lparr>kv_key = TRAIT_KEY_ANT_PROGRAM, kv_value = ''ant''\<rparr>"

definition demo_assets :: "pubkey \<rightharpoonup> raw_account" where
  "demo_assets =
     [40 \<mapsto> \<lparr>ra_owner = MPL_CORE_PROGRAM_ID, ra_data = plugin_data asset_head [program_trait] []\<rparr>,
      41 \<mapsto> \<lparr>ra_owner = MPL_CORE_PROGRAM_ID,
             ra_data = asset_head @ [PLUGIN_VARIANT_ATTRIBUTES, 0, 0, 0, 0]
                         @ plugin_data [] [program_trait] []\<rparr>]"

definition ant_demo_env :: "i64 \<Rightarrow> ant_env" where
  "ant_demo_env t = \<lparr>now = t, pda_bump = (\<lambda>_. 255), pda_key = (\<lambda>_. 7),
     token_accounts = Map.empty, spl_accepts = (\<lambda>_ _. True), ant_sha256 = length_hash,
     ant_unicode_lowercase = map ascii_lowercase, ant_assets = demo_assets,
     ant_arns_records = [7 \<mapsto> ardrive_record, 6 \<mapsto> ardrive_record\<lparr>ar_name := ''static'', ar_ant := 41\<rparr>],
     ant_upgrade_authority = Some 4, mpl_accepts = (\<lambda>_ _. True)\<rparr>"

lemma ant_demo_env_simps [simp]:
  "now (ant_demo_env t) = t" "pda_bump (ant_demo_env t) = (\<lambda>_. 255)" "pda_key (ant_demo_env t) = (\<lambda>_. 7)"
  "ant_sha256 (ant_demo_env t) = length_hash" "ant_assets (ant_demo_env t) = demo_assets"
  "ant_unicode_lowercase (ant_demo_env t) = map ascii_lowercase" "mpl_accepts (ant_demo_env t) = (\<lambda>_ _. True)"
  "ant_arns_records (ant_demo_env t) = [7 \<mapsto> ardrive_record, 6 \<mapsto> ardrive_record\<lparr>ar_name := ''static'', ar_ant := 41\<rparr>]"
  by (simp_all add: ant_demo_env_def)

definition demo_target :: string where
  "demo_target = ''AnYvLJTWcG9lr2Ll5MwYWZR2o5uTE39WbpYB0zCxwKM''"

definition demo_ant_config :: ant_config where
  "demo_ant_config = \<lparr>an_mint = 40, an_name = ''Ardrive'', an_ticker = ''ANT'', an_logo = DEFAULT_LOGO,
     an_description = ''drive'', an_keywords = [''files''], an_last_known_owner = 10, an_bump = 255,
     an_version = V1_0_0\<rparr>"

definition demo_controllers :: "pubkey list \<Rightarrow> ant_controllers" where
  "demo_controllers cs = \<lparr>ct_mint = 40, ct_controllers = cs, ct_bump = 255, ct_version = V1_0_0\<rparr>"

definition demo_root :: ant_record where
  "demo_root = \<lparr>at_mint = 40, at_undername = ''@'', at_target = demo_target, at_target_protocol = 0,
     at_ttl_seconds = 900, at_priority = Some 0, at_owner = None, at_last_reconciled_owner = 10,
     at_bump = 255, at_version = V1_0_0\<rparr>"

definition demo_docs :: ant_record where
  "demo_docs = demo_root\<lparr>at_undername := ''docs'', at_priority := None, at_owner := Some 50\<rparr>"

definition demo_head :: "pubkey \<Rightarrow> u64 \<Rightarrow> acl_config" where
  "demo_head u n = \<lparr>al_user = u, al_page_count = 1, al_total_entries = n, al_bump = 255, al_version = V1_0_0\<rparr>"

definition demo_page :: "pubkey \<Rightarrow> acl_entry list \<Rightarrow> acl_page" where
  "demo_page u es = \<lparr>ap_user = u, ap_page_idx = 0, ap_entries = es, ap_bump = 255, ap_version = V1_0_0\<rparr>"

definition demo_ants :: ant_state where
  "demo_ants = \<lparr>ant_configs = [40 \<mapsto> demo_ant_config], ant_controller_lists = [40 \<mapsto> demo_controllers [10, 30]],
     ant_records = [(40, 1) \<mapsto> demo_root, (40, 4) \<mapsto> demo_docs], ant_metadata = Map.empty,
     acl_configs = [10 \<mapsto> demo_head 10 1, 30 \<mapsto> demo_head 30 1],
     acl_pages = [(10, 0) \<mapsto> demo_page 10 [\<lparr>ae_asset = 40, ae_role = 0\<rparr>],
                  (30, 0) \<mapsto> demo_page 30 [\<lparr>ae_asset = 40, ae_role = 1\<rparr>]],
     ant_migration_acc = None, mpl_log = []\<rparr>"

section \<open>The asset\<close>

lemma demo_asset_simps:
  "demo_assets 40 = Some \<lparr>ra_owner = MPL_CORE_PROGRAM_ID, ra_data = plugin_data asset_head [program_trait] []\<rparr>"
  "demo_assets 41 = Some \<lparr>ra_owner = MPL_CORE_PROGRAM_ID, ra_data = asset_head
      @ [PLUGIN_VARIANT_ATTRIBUTES, 0, 0, 0, 0] @ plugin_data [] [program_trait] []\<rparr>"
  by (simp_all add: demo_assets_def)

lemma asset_head_nonempty [simp]: "asset_head \<noteq> []" "length asset_head = 66"
  by (simp_all add: asset_head_def)

lemma asset_head_plain: "PLUGIN_VARIANT_ATTRIBUTES \<notin> set asset_head"
  by code_simp

lemma asset_head_reads:
  "read_asset_owner_data (asset_head @ rest) = Inr 10"
  "read_mpl_core_update_authority (asset_head @ rest) = Inr (Some 7)"
  by (simp_all add: read_asset_owner_data_def read_mpl_core_update_authority_def asset_head_def require_def
      le_nat_at_def le_nat_le_bytes nth_append)

lemma demo_asset_data: "ra_data (the (demo_assets 40)) = asset_head @ PLUGIN_VARIANT_ATTRIBUTES # borsh_vec attribute_bytes [program_trait]"
  by (simp add: demo_asset_simps plugin_data_def)

lemma demo_holder [simp]: "asset_holder (ant_demo_env t) 40 = Some 10"
  using asset_head_reads(1) by (simp add: asset_holder_iff demo_asset_simps plugin_data_def)

lemma demo_plain: "plain_before (plugin_data asset_head as rest) (length asset_head) key"
proof -
  have "\<not> plugin_data asset_head as rest ! j = PLUGIN_VARIANT_ATTRIBUTES" if "j < length asset_head" for j
  proof -
    have "plugin_data asset_head as rest ! j = asset_head ! j" using that by (simp add: plugin_data_def nth_append)
    then show ?thesis using asset_head_plain nth_mem [OF that] by metis
  qed
  then show ?thesis by (auto simp: plain_before_def)
qed

lemma demo_trait_fits: "list_all kv_fits [program_trait]"
  by (simp add: kv_fits_def program_trait_def TRAIT_KEY_ANT_PROGRAM_def text_bytes_def)

section \<open>The invariant\<close>

lemma demo_ant_config_ok: "ant_config_ok 40 demo_ant_config"
  by (simp add: ant_config_ok_def demo_ant_config_def valid_default_logo ant_lengths validate_keywords_def
      is_valid_keyword_def base64url_def is_ascii_alphanumeric_def)

lemma demo_target_valid: "validate_target demo_target 0"
  using valid_default_logo
  by (simp add: validate_target_def demo_target_def DEFAULT_LOGO_def PROTOCOL_ARWEAVE_def MAX_TARGET_LENGTH_def)

lemma demo_records_ok: "ant_record_ok length_hash 40 1 demo_root" "ant_record_ok length_hash 40 4 demo_docs"
  by (simp_all add: ant_record_ok_def demo_root_def demo_docs_def demo_target_valid length_hash_def
      is_valid_undername_def lower_def is_valid_ttl_def ANT_MAX_UNDERNAME_LENGTH_def MIN_TTL_SECONDS_def
      MAX_TTL_SECONDS_def base64url_def is_ascii_alphanumeric_def is_ascii_uppercase_def)

lemma demo_ants_inv: "ant_inv length_hash demo_ants"
proof -
  have "ants_ok length_hash demo_ants"
    using demo_ant_config_ok demo_records_ok
    by (auto simp: ants_ok_def demo_ants_def controllers_ok_def demo_controllers_def MAX_CONTROLLERS_def split: if_splits)
  moreover have "entry_total demo_ants u = (if u = 10 then 1 else 0) + (if u = 30 then 1 else 0)" for u
    by (simp add: entry_total_def demo_ants_def msum_def demo_page_def)
  then have "acl_ok demo_ants"
    by (auto simp: acl_ok_def head_ok_def page_ok_def demo_ants_def demo_head_def demo_page_def
        MAX_ACL_PAGE_ENTRIES_def word_less_1 split: if_splits)
  ultimately show ?thesis by (simp add: ant_inv_def)
qed

end
