(* ===== verification/Core_Fixtures.thy ===== *)
theory Core_Fixtures
  imports Core_Safety Core_Codec Ant_Fixtures
begin

text \<open>
  A small deployment of \<open>ario-core\<close> beside those of \<open>Arns_Fixtures\<close> and \<open>Ant_Fixtures\<close>: nothing is
  locked yet, and wallet 10, who leased ``ardrive'' and holds its ANT, opens a vault and takes the
  name as primary name. The accounts of the other two programs are shown as the bytes they store.
\<close>

definition demo_address :: "u8 list list \<Rightarrow> pubkey \<Rightarrow> pubkey" where
  "demo_address seeds prog = of_nat (100 + 10 * length seeds + length (hd seeds))"

definition demo_disc :: "string \<Rightarrow> u8 list" where
  "demo_disc n = take 8 (key_bytes (length_hash (''account:'' @ n)))"

definition demo_foreign :: "pubkey \<rightharpoonup> raw_account" where
  "demo_foreign =
     [131 \<mapsto> \<lparr>ra_owner = 5, ra_data = demo_disc ''ArnsRecord'' @ borsh_arns_record ardrive_record\<rparr>,
      123 \<mapsto> \<lparr>ra_owner = 5, ra_data = demo_disc ''DemandFactor'' @ le_bytes 8 1500000\<rparr>,
      140 \<mapsto> \<lparr>ra_owner = ARIO_ANT_ID,
              ra_data = stored (demo_disc ''AntRecord'') (borsh_ant_record demo_root) ANT_RECORD_SIZE\<rparr>,
      130 \<mapsto> \<lparr>ra_owner = ARIO_ANT_ID,
              ra_data = stored (demo_disc ''AntConfig'') (borsh_ant_config demo_ant_config) ANT_CONFIG_SIZE\<rparr>]"

definition core_demo_env :: "i64 \<Rightarrow> core_env" where
  "core_demo_env t = \<lparr>now = t, pda_bump = (\<lambda>_. 255),
     pda_key = (\<lambda>p. case p of VaultPda _ _ \<Rightarrow> 7 | _ \<Rightarrow> 9),
     token_accounts = token_accounts (demo_env t), spl_accepts = demo_accepts, core_sha256 = length_hash,
     core_unicode_lowercase = (\<lambda>n. n), find_program_address = demo_address, core_accounts = demo_foreign,
     core_upgrade_authority = Some 4, associated_token = (\<lambda>_ _. 11), spl_closes = (\<lambda>_ _ _. True)\<rparr>"

lemma core_demo_env_simps [simp]:
  "now (core_demo_env t) = t" "pda_bump (core_demo_env t) = (\<lambda>_. 255)"
  "pda_key (core_demo_env t) (VaultPda a b) = 7"
  "token_accounts (core_demo_env t) = token_accounts (demo_env t)"
  "core_sha256 (core_demo_env t) = length_hash" "find_program_address (core_demo_env t) = demo_address"
  "core_accounts (core_demo_env t) = demo_foreign" "spl_closes (core_demo_env t) = (\<lambda>_ _ _. True)"
  "spl_accepts (core_gar_view (core_demo_env t)) = demo_accepts"
  by (simp_all add: core_demo_env_def core_gar_view_def)

definition core_demo_config :: "u64 \<Rightarrow> ario_config" where
  "core_demo_config locked = \<lparr>cc_authority = 4, cc_mint = 3, cc_arns_program = 5, cc_treasury = 2,
     cc_total_supply = 1000000000000000, cc_protocol_balance = 0,
     cc_circulating_supply = 1000000000000000 - locked, cc_locked_supply = locked,
     cc_min_vault_duration = DEFAULT_MIN_VAULT_DURATION, cc_max_vault_duration = DEFAULT_MAX_VAULT_DURATION,
     cc_primary_name_request_expiry = DEFAULT_PRIMARY_NAME_REQUEST_EXPIRY, cc_migration_active = False,
     cc_migration_authority = 4, cc_bump = 255, cc_gar_program = 6, cc_version = V1_0_0\<rparr>"

definition core_genesis :: core_state where
  "core_genesis = \<lparr>core_config_acc = Some (core_demo_config 0), core_balances = Map.empty,
     vault_counters = Map.empty, vaults = Map.empty, name_requests = Map.empty, primary_names = Map.empty,
     reverse_names = Map.empty, closed_token_accounts = [], core_gar = demo_state\<rparr>"

lemma core_genesis_inv: "core_inv length_hash 2000 core_genesis"
  by (simp add: core_inv_def vaults_ok_def names_linked_def requests_ok_def core_genesis_def core_demo_config_def
      supply_tracked_def locked_total_def durations_ok_def core_durations)

section \<open>A vault\<close>

definition demo_vault :: vault where
  "demo_vault = \<lparr>va_owner = 10, va_vault_id = 0, va_amount = 200000000, va_start_timestamp = 2000,
     va_end_timestamp = 2000 + DEFAULT_MIN_VAULT_DURATION, va_controller = None, va_revocable = False,
     va_bump = 255, va_version = V1_0_0\<rparr>"

definition core_vaulted :: core_state where
  "core_vaulted = core_genesis\<lparr>core_config_acc := Some (core_demo_config 200000000),
     vault_counters := [10 \<mapsto> \<lparr>vc_owner = 10, vc_next_id = 1, vc_bump = 255, vc_version = V1_0_0\<rparr>],
     vaults := [(10, 0) \<mapsto> demo_vault], core_gar := demo_state\<lparr>cpi_log := [demo_deposit 200000000]\<rparr>\<rparr>"

definition open_op :: core_op where
  "open_op = VaultOp (CreateVaultOp 10 11 1 200000000 DEFAULT_MIN_VAULT_DURATION)"

definition release_op :: core_op where
  "release_op = VaultOp (ReleaseVaultOp (10, 0) 10 11 1)"

lemma core_deposit_run:
  "core_transfer (core_demo_env t) 11 1 10 200000000 core_genesis
   = Inr (core_genesis\<lparr>core_gar := demo_state\<lparr>cpi_log := [demo_deposit 200000000]\<rparr>\<rparr>)"
  by (simp add: core_transfer_def token_transfer_def core_genesis_def demo_accepts_def token_flow_def
      transfer_flow_def Let_def demo_deposit_def demo_state_def)

lemma open_run: "core_step (core_demo_env 2000) open_op core_genesis = Inr core_vaulted"
proof -
  have acc: "core_config_acc core_genesis = Some (core_demo_config 0)" "vault_counters core_genesis = Map.empty"
    "vaults core_genesis = Map.empty"
    by (simp_all add: core_genesis_def)
  have conf: "cc_mint (core_demo_config n) = 3" "cc_min_vault_duration (core_demo_config n) = DEFAULT_MIN_VAULT_DURATION"
    "cc_max_vault_duration (core_demo_config n) = DEFAULT_MAX_VAULT_DURATION" for n
    by (simp_all add: core_demo_config_def)
  have lock: "lock_supply 200000000 (core_demo_config 0) = Inr (core_demo_config 200000000)"
    by (simp add: lock_supply_def core_demo_config_def checked_add_def checked_sub_def)
  have "open_vault (core_demo_env 2000) 10 200000000 DEFAULT_MIN_VAULT_DURATION None False (core_demo_config 0)
      (core_genesis\<lparr>core_gar := demo_state\<lparr>cpi_log := [demo_deposit 200000000]\<rparr>\<rparr>) = Inr core_vaulted"
    by (simp add: open_vault_def lock load_vault_counter_def core_genesis_def core_vaulted_def demo_vault_def
        checked_add_def checked_add_i64_def i64_ok_def DEFAULT_MIN_VAULT_DURATION_def Let_def)
  then show ?thesis
    by (simp add: open_op_def core_step_def vault_step_def create_vault_def core_accounts_defs check_lock_def
        acc conf load_vault_counter_def core_deposit_run core_durations MIN_VAULT_SIZE_def Let_def)
qed

lemma early_release_fails:
  "t < 2000 + DEFAULT_MIN_VAULT_DURATION \<Longrightarrow> core_step (core_demo_env t) release_op core_vaulted = Inl VaultLocked"
  by (simp add: release_op_def core_step_def vault_step_def release_vault_def core_accounts_defs core_vaulted_def
      core_genesis_def core_demo_config_def demo_vault_def is_unlocked_def)

definition vault_txs :: "(core_env \<times> core_op) list" where
  "vault_txs = [(core_demo_env 2000, open_op), (core_demo_env 3000, release_op)]"

lemma vault_txs_exec: "core_exec vault_txs core_genesis = core_vaulted"
  by (simp add: vault_txs_def open_run early_release_fails DEFAULT_MIN_VAULT_DURATION_def)

lemma vault_txs_trace: "core_trace length_hash 2000 vault_txs core_genesis"
  by (simp add: vault_txs_def core_runtime_def requester_def open_op_def release_op_def)

section \<open>The name\<close>

lemma demo_disc_eq: "discriminator (core_demo_env t) n = demo_disc n" "length (demo_disc n) = 8"
  by (simp_all add: discriminator_def demo_disc_def)

lemma demo_record_laid_out: "laid_out (demo_disc ''ArnsRecord'' @ borsh_arns_record ardrive_record) (borsh_arns_record ardrive_record)"
  unfolding laid_out_def by (intro exI [of _ "demo_disc ''ArnsRecord''"] exI [of _ 0]) (simp add: demo_disc_eq)

lemma ardrive_lowercase:
  "core_lowercase (core_demo_env t) ''ardrive'' = ''ardrive''"
  "split_primary_name ''ardrive'' = (''ardrive'', None)"
  by (simp_all add: core_lowercase_def ascii_lowercase_def is_ascii_uppercase_def split_primary_name_def)

lemma ardrive_names:
  "base_name_of (core_demo_env t) ''ardrive'' = ''ardrive''" "undername_of (core_demo_env t) ''ardrive'' = ''@''"
  by (simp_all add: base_name_of_def undername_of_def ardrive_lowercase)

lemma ardrive_valid_primary: "validate_primary_name_format ''ardrive'' = Inr ()"
  by (simp add: validate_primary_name_format_def ardrive_lowercase is_valid_name_segment_def
      is_ascii_alphanumeric_def MAX_PRIMARY_NAME_LENGTH_def MAX_BASE_NAME_LENGTH_def require_def)

lemma demo_addresses:
  "arns_record_address (core_demo_env t) p n = 131" "demand_factor_address (core_demo_env t) p = 123"
  "ant_record_address (core_demo_env t) p m n = 140" "ant_config_address (core_demo_env t) p m = 130"
  by (simp_all add: arns_record_address_def demand_factor_address_def ant_record_address_def
      ant_config_address_def demo_address_def text_bytes_def)

definition name_accounts :: "core_pda list" where
  "name_accounts = map core_pda.ForeignAccount [131, 123, 140, 130]"

lemma demo_views:
  "account_at (core_demo_env t) 131 = \<lparr>av_key = 131, av_owner = 5, av_data = demo_disc ''ArnsRecord'' @ borsh_arns_record ardrive_record\<rparr>"
  "account_at (core_demo_env t) 123 = \<lparr>av_key = 123, av_owner = 5, av_data = demo_disc ''DemandFactor'' @ le_bytes 8 1500000\<rparr>"
  "account_at (core_demo_env t) 140 = \<lparr>av_key = 140, av_owner = ARIO_ANT_ID,
     av_data = stored (demo_disc ''AntRecord'') (borsh_ant_record demo_root) ANT_RECORD_SIZE\<rparr>"
  "account_at (core_demo_env t) 130 = \<lparr>av_key = 130, av_owner = ARIO_ANT_ID,
     av_data = stored (demo_disc ''AntConfig'') (borsh_ant_config demo_ant_config) ANT_CONFIG_SIZE\<rparr>"
  by (simp_all add: account_at_def demo_foreign_def)

lemma nth_views:
  "nth_view (core_demo_env t) name_accounts 0 = account_at (core_demo_env t) 131"
  "nth_view (core_demo_env t) name_accounts 1 = account_at (core_demo_env t) 123"
  "nth_view (core_demo_env t) name_accounts 2 = account_at (core_demo_env t) 140"
  "nth_view (core_demo_env t) name_accounts 3 = account_at (core_demo_env t) 130"
  by (simp_all add: nth_view_def view_of_def address_of_def name_accounts_def)

lemma demo_shown:
  "shows_account (core_demo_env t) (account_at (core_demo_env t) 140) 140 ''AntRecord'' (borsh_ant_record demo_root) ANT_RECORD_SIZE"
  "shows_account (core_demo_env t) (account_at (core_demo_env t) 130) 130 ''AntConfig'' (borsh_ant_config demo_ant_config) ANT_CONFIG_SIZE"
  by (simp_all add: shows_account_def demo_views demo_disc_eq)

lemma demo_owner_read:
  "read_ant_record_owner (core_demo_env t) (account_at (core_demo_env t) 140) (account_at (core_demo_env t) 130) 40 ''@'' ARIO_ANT_ID = Inr 10"
proof -
  have "record_fits demo_root" "config_fits demo_ant_config"
    using record_sizes [OF demo_records_ok(1)] config_sizes [OF demo_ant_config_ok] by auto
  from record_owner_shown [of "core_demo_env t" _ 40 "''@''", unfolded demo_addresses, OF demo_shown this]
  show ?thesis by (simp add: refresh_record_def demo_root_def demo_ant_config_def)
qed

lemma demo_record_reads:
  "verify_arns_record_active (account_at (core_demo_env 3000) 131) 3000 = Inr ()"
  "read_arns_record_ant (core_demo_env t) (account_at (core_demo_env t) 131) = Inr 40"
  "primary_name_base_fee (account_at (core_demo_env t) 131) = Inr PRIMARY_NAME_REQUEST_BASE_FEE_LEASE"
proof -
  note fields = arns_record_fields [OF demo_record_laid_out]
  let ?data = "demo_disc ''ArnsRecord'' @ borsh_arns_record ardrive_record"
  have r: "ar_purchase_type ardrive_record = Lease" "ar_ant ardrive_record = 40"
    "ar_end_timestamp ardrive_record = Some (2000 + 2 * ONE_YEAR_SECONDS)"
    by (simp_all add: ardrive_record_def)
  show "verify_arns_record_active (account_at (core_demo_env 3000) 131) 3000 = Inr ()"
    using verify_active_laid_out [of "account_at (core_demo_env 3000) 131" ardrive_record 3000] demo_record_laid_out
    by (simp add: demo_views r is_active_def ONE_YEAR_SECONDS_def i64_ok_def)
  have len: "105 \<le> length ?data" "104 \<le> length ?data" using fields(1) by simp_all
  have "take 8 ?data = demo_disc ''ArnsRecord''" using demo_disc_eq(2) [of "''ArnsRecord''"] by simp
  then show "read_arns_record_ant (core_demo_env t) (account_at (core_demo_env t) 131) = Inr 40"
    using len fields(3) by (simp add: read_arns_record_ant_def Let_def require_def demo_views demo_disc_eq(1) r)
  show "primary_name_base_fee (account_at (core_demo_env t) 131) = Inr PRIMARY_NAME_REQUEST_BASE_FEE_LEASE"
    using fields(1,2)
    by (simp add: primary_name_base_fee_def read_arns_purchase_type_def Let_def require_def demo_views r)
qed

definition ardrive_primary :: primary_name where
  "ardrive_primary = \<lparr>pn_owner = 10, pn_name = ''ardrive'', pn_set_at = 3000, pn_bump = 255, pn_version = V1_0_0\<rparr>"

definition ardrive_reverse :: primary_name_reverse where
  "ardrive_reverse = \<lparr>rv_name = ''ardrive'', rv_owner = 10, rv_bump = 255, rv_version = V1_0_0\<rparr>"

definition core_named :: core_state where
  "core_named = core_genesis\<lparr>primary_names := [10 \<mapsto> ardrive_primary], reverse_names := [7 \<mapsto> ardrive_reverse],
     core_gar := demo_state\<lparr>cpi_log := [\<lparr>tr_from = 11, tr_to = 2, tr_authority = 10, tr_amount = 300000\<rparr>]\<rparr>\<rparr>"

definition set_op :: core_op where
  "set_op = PrimaryNameOp (RequestAndSetPrimaryNameOp 10 11 2 name_accounts ''ardrive'' 7 ARIO_ANT_ID)"

lemma demo_demand: "read_demand_factor (core_demo_env t) (account_at (core_demo_env t) 123) 5 = Inr 1500000"
proof -
  have data: "av_data (account_at (core_demo_env t) 123) = demo_disc ''DemandFactor'' @ le_bytes 8 1500000"
    by (simp add: demo_views)
  have "le_nat_at (demo_disc ''DemandFactor'' @ le_bytes 8 1500000) 8 8 = 1500000"
    using demo_disc_eq(2) [of "''DemandFactor''"] by (simp add: le_nat_at_def le_nat_le_bytes)
  then show ?thesis
    using demo_disc_eq(2) [of "''DemandFactor''"]
    by (simp add: read_demand_factor_def data require_def demo_disc_eq(1) demo_addresses) (simp add: demo_views)
qed

lemma demo_exists: "validate_arns_record_exists (core_demo_env 3000) (account_at (core_demo_env 3000) 131) 5 n 3000 = Inr ()"
proof -
  have data: "av_data (account_at (core_demo_env 3000) 131) = demo_disc ''ArnsRecord'' @ borsh_arns_record ardrive_record"
    by (simp add: demo_views)
  have "demo_disc ''ArnsRecord'' \<noteq> []" using demo_disc_eq(2) [of "''ArnsRecord''"] by auto
  then show ?thesis
    using demo_disc_eq(2) [of "''ArnsRecord''"] demo_record_reads(1)
    by (simp add: validate_arns_record_exists_def data require_def demo_disc_eq(1) demo_addresses)
      (simp add: demo_views)
qed

lemma demo_fee: "primary_name_fee PRIMARY_NAME_REQUEST_BASE_FEE_LEASE 1500000 = Inr 300000"
  by (simp add: primary_name_fee_def PRIMARY_NAME_REQUEST_BASE_FEE_LEASE_def checked_mul_def checked_div_def
      u64_try_from_def)

lemma demo_fee_paid:
  "core_transfer (core_demo_env t) 11 2 10 300000 core_genesis = Inr (core_genesis\<lparr>core_gar := demo_state\<lparr>
     cpi_log := [\<lparr>tr_from = 11, tr_to = 2, tr_authority = 10, tr_amount = 300000\<rparr>]\<rparr>\<rparr>)"
  by (simp add: core_transfer_def token_transfer_def core_genesis_def demo_accepts_def token_flow_def
      transfer_flow_def Let_def demo_state_def)

lemma set_run: "core_step (core_demo_env 3000) set_op core_genesis = Inr core_named"
proof -
  have acc: "core_config_acc core_genesis = Some (core_demo_config 0)" by (simp add: core_genesis_def)
  have conf: "cc_mint (core_demo_config n) = 3" "cc_arns_program (core_demo_config n) = 5"
    "cc_treasury (core_demo_config n) = 2" for n
    by (simp_all add: core_demo_config_def)
  have h: "length_hash ''ardrive'' = 7" by (simp add: length_hash_def)
  have set: "set_primary_name (core_demo_env 3000) 10 ''ardrive'' 7 (core_genesis\<lparr>core_gar := g\<rparr>)
      = Inr (core_named\<lparr>core_gar := g\<rparr>)" for g
    by (simp add: set_primary_name_def core_genesis_def core_named_def ardrive_primary_def ardrive_reverse_def)
  have remaining: "length name_accounts = 4" "name_accounts \<noteq> []" by (simp_all add: name_accounts_def)
  show ?thesis
    by (simp add: set_op_def core_step_def primary_name_step_def request_and_set_primary_name_def acc core_accounts_defs
        conf ardrive_valid_primary h ardrive_lowercase(1) remaining nth_views [unfolded One_nat_def] ardrive_names demo_exists
        demo_record_reads(2,3) demo_owner_read quote_primary_name_def demo_demand demo_fee pay_from_wallet_def
        demo_fee_paid set)
      (simp add: core_named_def)
qed

lemma core_named_inv: "core_inv length_hash 3000 core_named"
  using core_step_keeps [of length_hash "core_demo_env 3000" core_genesis set_op core_named]
    core_inv_later [OF core_genesis_inv, of 3000] set_run
  by (simp add: core_runtime_def set_op_def requester_def)

end
