(* ===== verification/Core_Properties.thy ===== *)
theory Core_Properties
  imports Core_Fixtures
begin

text \<open>
  The properties of \<open>ario-core\<close>: the supply and the vaults over every history, primary names and
  their fee, and the agreement with \<open>ario-ant\<close> and \<open>ario-arns\<close> on the accounts it reads as bytes.
\<close>

section \<open>Supply and vaults\<close>

text \<open>
  C2: the locked supply is exact. After any sequence of transactions the configuration counts as
  locked exactly the sum of the recorded amounts of all vaults, and circulating, locked and protocol
  supply add up to the total supply: no path of creating, extending, increasing, revoking or
  releasing loses or counts a token twice.
\<close>

theorem locked_supply_always_exact:
  assumes "core_inv H t s" and "core_trace H t txs s" and "core_config_acc (core_exec txs s) = Some c"
  shows "uint (cc_locked_supply c) = (\<Sum>k \<in> dom (vaults (core_exec txs s)). uint (va_amount (the (vaults (core_exec txs s) k))))
    \<and> uint (cc_circulating_supply c) + uint (cc_locked_supply c) + uint (cc_protocol_balance c) = uint (cc_total_supply c)"
  using vaults_ok_config [OF _ assms(3), of "end_time now t txs"] core.inv_exec [OF assms(1,2)]
  by (auto simp: core_inv_def supply_tracked_def locked_total_def msum_def)

theorem locked_supply_always_exact_witness:
  "uint (cc_locked_supply (core_demo_config 200000000)) = 200000000
    \<and> (\<Sum>k \<in> dom (vaults core_vaulted). uint (va_amount (the (vaults core_vaulted k)))) = 200000000"
proof -
  have "core_config_acc (core_exec vault_txs core_genesis) = Some (core_demo_config 200000000)"
    by (simp add: vault_txs_exec core_vaulted_def)
  from locked_supply_always_exact [OF core_genesis_inv vault_txs_trace this]
  show ?thesis by (simp add: vault_txs_exec core_demo_config_def)
qed

text \<open>
  C7: vaulted tokens stay locked. Whatever transactions run, in any order and from whomever, as long
  as the clock has not reached the end of a vault, the vault is still there with the same owner and
  controller, at least its amount and at least its end. The one exception is a revocation of a
  revocable vault that is signed by the very wallet the vault records as its controller; attempts of
  anyone else to revoke it may be among the transactions.
\<close>

theorem vaulted_tokens_stay_locked:
  assumes v: "vaults s k = Some v" and clock: "admissible_trace now (\<lambda>_ _ _. True) core_step t txs s"
    and none: "\<And>e op. (e, op) \<in> set txs \<Longrightarrow> \<not> controller_revokes k v op"
    and early: "end_time now t txs < va_end_timestamp v"
  shows "\<exists>v'. vaults (core_exec txs s) k = Some v' \<and> va_owner v' = va_owner v \<and> va_controller v' = va_controller v
    \<and> va_amount v \<le> va_amount v' \<and> va_end_timestamp v \<le> va_end_timestamp v'"
proof -
  have "still_locked k v t s" using v by (simp add: still_locked_def)
  moreover have "admissible_trace now (\<lambda>_ op _. \<not> controller_revokes k v op) core_step t txs s"
    by (rule admissible_restrict [OF clock none])
  ultimately have "still_locked k v (end_time now t txs) (core_exec txs s)" by (rule lock.inv_exec)
  then show ?thesis using early by (auto simp: still_locked_def vault_grown_def)
qed

theorem vaulted_tokens_stay_locked_witness:
  "\<exists>v'. vaults (core_exec [(core_demo_env 3000, release_op), (core_demo_env 4000, VaultOp (RevokeVaultOp (10, 0) 66 11 1))]
        (core_vaulted\<lparr>vaults := [(10, 0) \<mapsto> demo_vault\<lparr>va_controller := Some 12, va_revocable := True\<rparr>]\<rparr>)) (10, 0) = Some v'
     \<and> 200000000 \<le> va_amount v'"
proof -
  let ?v = "demo_vault\<lparr>va_controller := Some 12, va_revocable := True\<rparr>"
  let ?s = "core_vaulted\<lparr>vaults := [(10, 0) \<mapsto> ?v]\<rparr>"
  let ?txs = "[(core_demo_env 3000, release_op), (core_demo_env 4000, VaultOp (RevokeVaultOp (10, 0) 66 11 1))]"
  have v: "vaults ?s (10, 0) = Some ?v" by simp
  have clock: "admissible_trace now (\<lambda>_ _ _. True) core_step 2000 ?txs ?s" by simp
  have none: "\<not> controller_revokes (10, 0) ?v op" if "(e, op) \<in> set ?txs" for e op
    using that by (auto simp: controller_revokes_def release_op_def)
  have early: "end_time now 2000 ?txs < va_end_timestamp ?v"
    by (simp add: demo_vault_def DEFAULT_MIN_VAULT_DURATION_def)
  obtain v' where kept: "vaults (core_exec ?txs ?s) (10, 0) = Some v'" "va_amount ?v \<le> va_amount v'"
    using vaulted_tokens_stay_locked [OF v clock _ early] none by metis
  show ?thesis
    by (rule exI [of _ v'], rule conjI, rule kept(1)) (use kept(2) in \<open>simp add: demo_vault_def\<close>)
qed

text \<open>
  C33: a release pays whatever account it is given. If a release succeeds, it succeeds just as well
  with any other token account of the mint that the vault's address owns: the vault is closed and
  the counters move by the vault's recorded amount all the same, but what is paid out is the balance
  of the account that was named, however little that is.
\<close>

theorem release_pays_the_named_account:
  assumes run: "release_vault env vid owner owner_ta vault_ta s = Inr s'"
    and c: "core_config_acc s = Some c" and v: "vaults s vid = Some v"
    and other: "token_accounts env other = Some ta" "ta_owner ta = pda_key env (VaultPda (fst vid) (snd vid))"
      "ta_mint ta = cc_mint c"
    and paid: "core_transfer env other owner_ta (ta_owner ta) (ta_amount ta) s = Inr s1"
    and closed: "core_close_account env other (ta_owner ta) s1 = Inr s2"
  shows "\<exists>s''. release_vault env vid owner owner_ta other s = Inr s''
    \<and> vaults s'' = vaults s' \<and> core_config_acc s'' = core_config_acc s' \<and> core_gar s'' = core_gar s1"
proof -
  obtain c1 where old: "vid = (va_owner v, va_vault_id v)" "owner = va_owner v" "is_unlocked v (now env)"
      "own_token_account env c owner_ta owner (Inr ()) = Inr ()" "unlock_supply (va_amount v) c = Inr c1"
      "vaults s' = (vaults s)(vid := None)" "core_config_acc s' = Some c1"
    using run c v by (auto simp: release_vault_def vault_run_iff empty_vault_def Let_def)
  have frame: "vaults s2 = vaults s" "core_gar s2 = core_gar s1"
    using paid closed by (auto simp: core_transfer_iff core_close_account_iff)
  let ?s'' = "s2\<lparr>core_config_acc := Some c1, vaults := (vaults s2)(vid := None)\<rparr>"
  have "release_vault env vid owner owner_ta other s = Inr ?s''"
    using old other paid closed c v
    by (auto simp: release_vault_def empty_vault_def Let_def require_iff ok_or_iff and_then_iff
        vault_token_account_iff existing_vault_iff own_token_account_iff)
  then show ?thesis using frame old(6,7) by (intro exI [of _ ?s'']) simp
qed

text \<open>A second account of the vault's address, with five units in it.\<close>

definition release_env :: core_env where
  "release_env = (core_demo_env (2000 + DEFAULT_MIN_VAULT_DURATION))\<lparr>token_accounts :=
     [1 \<mapsto> \<lparr>ta_owner = 7, ta_mint = 3, ta_amount = 200000000\<rparr>,
      11 \<mapsto> \<lparr>ta_owner = 10, ta_mint = 3, ta_amount = 0\<rparr>, 31 \<mapsto> \<lparr>ta_owner = 7, ta_mint = 3, ta_amount = 5\<rparr>]\<rparr>"

definition swept :: "pubkey \<Rightarrow> u64 \<Rightarrow> core_state" where
  "swept account amount = core_vaulted\<lparr>core_gar := demo_state\<lparr>cpi_log := [demo_deposit 200000000,
     \<lparr>tr_from = account, tr_to = 11, tr_authority = 7, tr_amount = amount\<rparr>]\<rparr>\<rparr>"

lemma release_env_simps [simp]:
  "now release_env = 2000 + DEFAULT_MIN_VAULT_DURATION" "pda_key release_env (VaultPda a b) = 7"
  "token_accounts release_env 1 = Some \<lparr>ta_owner = 7, ta_mint = 3, ta_amount = 200000000\<rparr>"
  "token_accounts release_env 11 = Some \<lparr>ta_owner = 10, ta_mint = 3, ta_amount = 0\<rparr>"
  "token_accounts release_env 31 = Some \<lparr>ta_owner = 7, ta_mint = 3, ta_amount = 5\<rparr>"
  "spl_accepts (core_gar_view release_env) = demo_accepts" "spl_closes release_env = (\<lambda>_ _ _. True)"
  by (simp_all add: release_env_def core_demo_env_def core_gar_view_def)

lemma swept_runs:
  "core_transfer release_env 1 11 7 200000000 core_vaulted = Inr (swept 1 200000000)"
  "core_transfer release_env 31 11 7 5 core_vaulted = Inr (swept 31 5)"
  by (simp_all add: core_transfer_def token_transfer_def core_vaulted_def swept_def demo_accepts_def token_flow_def
      transfer_flow_def Let_def demo_deposit_def demo_state_def)

lemma demo_release_runs:
  "\<exists>s'. release_vault release_env (10, 0) 10 11 1 core_vaulted = Inr s' \<and> vaults s' = Map.empty"
proof -
  have acc: "core_config_acc core_vaulted = Some (core_demo_config 200000000)" "vaults core_vaulted = [(10, 0) \<mapsto> demo_vault]"
    by (simp_all add: core_vaulted_def)
  have fin: "va_owner demo_vault = 10" "va_vault_id demo_vault = 0" "va_amount demo_vault = 200000000"
    "is_unlocked demo_vault (2000 + DEFAULT_MIN_VAULT_DURATION)" "cc_mint (core_demo_config n) = 3" for n
    by (simp_all add: demo_vault_def is_unlocked_def core_demo_config_def)
  have unlock: "unlock_supply 200000000 (core_demo_config 200000000) = Inr (core_demo_config 0)"
    by (simp add: unlock_supply_def core_demo_config_def checked_add_def checked_sub_def)
  show ?thesis
    by (simp add: release_vault_def core_accounts_defs acc fin empty_vault_def swept_runs core_close_account_def
        unlock require_def) (simp add: swept_def acc)
qed

theorem release_pays_the_named_account_witness:
  "\<exists>s''. release_vault release_env (10, 0) 10 11 31 core_vaulted = Inr s'' \<and> vaults s'' = Map.empty
    \<and> core_gar s'' = core_gar (swept 31 5)"
proof -
  obtain s' where run: "release_vault release_env (10, 0) 10 11 1 core_vaulted = Inr s'" "vaults s' = Map.empty"
    using demo_release_runs by blast
  have "core_config_acc core_vaulted = Some (core_demo_config 200000000)" "vaults core_vaulted (10, 0) = Some demo_vault"
    by (simp_all add: core_vaulted_def)
  from release_pays_the_named_account [OF run(1) this release_env_simps(5), of "swept 31 5"] run(2)
  show ?thesis by (auto simp: core_demo_config_def swept_runs core_close_account_def require_def)
qed

section \<open>Primary names\<close>

text \<open>
  C12: wallets and primary names match one to one. After any sequence of transactions every wallet's
  name has a reverse account, found at the name's hash, that names this wallet; every reverse account
  belongs to such a wallet; and no two wallets share a name.
\<close>

theorem primary_names_always_one_to_one:
  assumes "core_inv H t s" and "core_trace H t txs s"
  shows "(\<forall>k p. primary_names (core_exec txs s) k = Some p \<longrightarrow> pn_owner p = k
        \<and> (\<exists>r. reverse_names (core_exec txs s) (H (pn_name p)) = Some r \<and> rv_owner r = k \<and> rv_name r = pn_name p))
    \<and> (\<forall>h r. reverse_names (core_exec txs s) h = Some r \<longrightarrow> h = H (rv_name r)
        \<and> (\<exists>p. primary_names (core_exec txs s) (rv_owner r) = Some p \<and> pn_name p = rv_name r))
    \<and> (\<forall>j k p q. primary_names (core_exec txs s) j = Some p \<and> primary_names (core_exec txs s) k = Some q
        \<and> pn_name p = pn_name q \<longrightarrow> j = k)"
proof -
  have linked: "names_linked H (core_exec txs s)" using core.inv_exec [OF assms] by (simp add: core_inv_def)
  have "j = k" if p: "primary_names (core_exec txs s) j = Some p" and q: "primary_names (core_exec txs s) k = Some q"
    and n: "pn_name p = pn_name q" for j k p q
    using names_linked_forward [OF linked p] names_linked_forward [OF linked q] n by (metis option.inject)
  then show ?thesis using linked unfolding names_linked_def by blast
qed

text \<open>The name is set, and a stranger fails to remove it.\<close>

definition name_txs :: "(core_env \<times> core_op) list" where
  "name_txs = [(core_demo_env 3000, set_op), (core_demo_env 4000, PrimaryNameOp (RemovePrimaryNameOp 20 7))]"

lemma name_txs_exec: "core_exec name_txs core_genesis = core_named"
  by (simp add: name_txs_def set_run)
    (simp add: core_step_def primary_name_step_def remove_primary_name_def core_named_def core_genesis_def)

lemma name_txs_trace: "core_trace length_hash 2000 name_txs core_genesis"
  by (simp add: name_txs_def core_runtime_def requester_def set_op_def)

theorem primary_names_always_one_to_one_witness:
  "\<exists>r. reverse_names core_named (length_hash ''ardrive'') = Some r \<and> rv_owner r = 10"
proof -
  have p: "primary_names core_named 10 = Some ardrive_primary" by (simp add: core_named_def)
  note linked = primary_names_always_one_to_one [OF core_genesis_inv name_txs_trace, unfolded name_txs_exec]
  have "\<exists>r. reverse_names core_named (length_hash (pn_name ardrive_primary)) = Some r \<and> rv_owner r = 10
      \<and> rv_name r = pn_name ardrive_primary"
    using linked [THEN conjunct1, rule_format, OF p] by (rule conjunct2)
  then show ?thesis by (auto simp: ardrive_primary_def)
qed

text \<open>
  C8: primary names change by consent only. When a transaction changes a wallet's primary name,
  either the new name was agreed: the wallet asked for it, itself or by a request not yet expired,
  and the signer controls the name, that is, the record of the name is live and the ANT it points at
  names the signer as effective owner of the undername; or the name was removed, by the wallet or by
  the controller of the base name.
\<close>

theorem primary_name_changes_by_consent:
  assumes "core_step env op s = Inr s'" and "primary_names s' k \<noteq> primary_names s k"
  shows "(\<exists>c p. core_config_acc s = Some c \<and> primary_names s' k = Some p \<and> pn_owner p = k \<and> agreed env op s c k (pn_name p))
    \<or> primary_names s' k = None \<and> name_withdrawn env op s k"
  by (rule core_effect_names [OF core_step_effect [OF assms(1)] assms(2)])

theorem primary_name_changes_by_consent_witness:
  "\<exists>c. agreed (core_demo_env 3000) set_op core_genesis c 10 ''ardrive''"
proof -
  have "primary_names core_named 10 = Some ardrive_primary" "primary_names core_genesis 10 = None"
    by (simp_all add: core_named_def core_genesis_def)
  then show ?thesis
    using primary_name_changes_by_consent [OF set_run, of 10] by (auto simp: ardrive_primary_def)
qed

text \<open>
  C25: no primary name without its fee. Whichever of the four instructions asks for a name, if it
  succeeds the treasury has received exactly the fee: the base fee of the name's record, by lease or
  permanent purchase, times the demand factor that \<open>ario-arns\<close> publishes, over a million, whether it
  was paid from a wallet or from a funding plan.
\<close>

theorem primary_name_fee_reaches_treasury:
  assumes "core_step env op s = Inr s'" and "name_asked op = Some name"
  shows "\<exists>c ts. core_config_acc s = Some c \<and> cpi_log (core_gar s') = cpi_log (core_gar s) @ ts
    \<and> (\<forall>t \<in> set ts. tr_to t = cc_treasury c)
    \<and> sum_list (map (\<lambda>t. uint (tr_amount t)) ts) = name_fee env (cc_arns_program c) name"
  using name_asked_fee [OF assms] unfolding fee_collected_def paid_into_def by auto

theorem primary_name_fee_reaches_treasury_witness:
  "\<exists>ts. cpi_log (core_gar core_named) = ts \<and> sum_list (map (\<lambda>t. uint (tr_amount t)) ts) = 300000
    \<and> name_fee (core_demo_env 3000) 5 ''ardrive'' = 300000"
proof -
  have "name_asked set_op = Some ''ardrive''" by (simp add: name_asked_def set_op_def)
  from primary_name_fee_reaches_treasury [OF set_run this]
  show ?thesis by (auto simp: core_named_def core_genesis_def core_demo_config_def demo_state_def)
qed

section \<open>Agreement with the programs it reads\<close>

text \<open>
  C9: whom \<open>ario-core\<close> takes for the owner of an undername. The offset walk of \<open>ario-core\<close> over the
  bytes that \<open>ario-ant\<close> writes always succeeds. It ends in the owner that the configuration of the
  ANT last knew, or in the delegate whom that owner named on the record; a delegate named by anyone
  else is never returned. Where the last known owner is the present holder of the asset, and so
  right after a \<open>reconcile\<close> of \<open>ario-ant\<close>, which asks for no permission, that wallet is the delegate
  whom \<open>ario-ant\<close> would let edit the record, and if there is none the holder. Between a transfer
  made directly at MPL Core and the next reconciliation the two may differ: the walk then answers as
  for the former holder, the window that \<open>primary_name.rs\<close> documents.
\<close>

theorem core_owner_agrees_with_ant:
  assumes inv: "ant_inv H s" and r: "ant_records s (m, h) = Some r" and c: "ant_configs s m = Some c"
    and shown: "shows_account env rinfo (ant_record_address env ARIO_ANT_ID m n) ''AntRecord'' (borsh_ant_record r) ANT_RECORD_SIZE"
      "shows_account env cinfo (ant_config_address env ARIO_ANT_ID m) ''AntConfig'' (borsh_ant_config c) ANT_CONFIG_SIZE"
  shows "\<exists>u. read_ant_record_owner env rinfo cinfo m n ARIO_ANT_ID = Inr u
    \<and> u = (if at_last_reconciled_owner r = an_last_known_owner c
           then case at_owner r of Some d \<Rightarrow> d | None \<Rightarrow> an_last_known_owner c else an_last_known_owner c)
    \<and> (asset_holder aenv m = Some (an_last_known_owner c) \<or> (\<exists>s0. reconcile aenv m s0 = Inr s) \<longrightarrow>
         delegate aenv s m h u \<or> asset_holder aenv m = Some u \<and> (\<forall>d. \<not> delegate aenv s m h d))"
proof -
  have "record_fits r" "config_fits c"
    using inv r c ants_okD(1,3) record_sizes config_sizes unfolding ant_inv_def by blast+
  note walk = record_owner_shown [OF shown this]
  let ?known = "asset_holder aenv m = Some (an_last_known_owner c)"
  have known: "?known \<or> (\<exists>s0. reconcile aenv m s0 = Inr s) \<longleftrightarrow> ?known"
    using reconciled_holder [of aenv m _ s] c by auto
  show ?thesis unfolding walk known
    using r by (auto simp: delegate_def refresh_record_def split: option.split)
qed

theorem core_owner_agrees_with_ant_witness:
  "read_ant_record_owner (core_demo_env 3000) (account_at (core_demo_env 3000) 140)
     (account_at (core_demo_env 3000) 130) 40 ''@'' ARIO_ANT_ID = Inr 10"
proof -
  have acc: "ant_records demo_ants (40, 1) = Some demo_root" "ant_configs demo_ants 40 = Some demo_ant_config"
    "asset_holder (ant_demo_env 3000) 40 = Some (an_last_known_owner demo_ant_config)"
    by (simp_all add: demo_ants_def demo_ant_config_def)
  have "\<not> delegate (ant_demo_env 3000) demo_ants 40 1 d" for d
    by (simp add: delegate_def acc demo_root_def)
  then show ?thesis
    using core_owner_agrees_with_ant [OF demo_ants_inv acc(1,2), of "core_demo_env 3000" _ "''@''",
        unfolded demo_addresses, OF demo_shown, of "ant_demo_env 3000"] acc(3) by auto
qed

text \<open>
  C28: \<open>ario-core\<close> and \<open>ario-arns\<close> agree on which names are live. Over the bytes of a name record, the
  check of \<open>ario-core\<close> accepts exactly the records that \<open>ario-arns\<close> itself counts as active or within
  the grace period; a permanent purchase is always accepted.
\<close>

theorem core_liveness_agrees_with_arns:
  assumes "laid_out (av_data info) (borsh_arns_record r)" and "pred_option i64_ok (ar_end_timestamp r)"
  shows "verify_arns_record_active info t = Inr () \<longleftrightarrow> is_active r t \<or> is_in_grace_period r t GRACE_PERIOD_SECONDS"
  using verify_active_laid_out [OF assms, of t]
  by (simp add: LEASE_GRACE_PERIOD_def GRACE_PERIOD_SECONDS_def)

theorem core_liveness_agrees_with_arns_witness:
  "verify_arns_record_active (account_at (core_demo_env 0) 131) 3000 = Inr ()
    \<and> verify_arns_record_active (account_at (core_demo_env 0) 131) 1000000000 \<noteq> Inr ()"
proof -
  have "laid_out (av_data (account_at (core_demo_env 0) 131)) (borsh_arns_record ardrive_record)"
    using demo_record_laid_out by (simp add: demo_views)
  moreover have "pred_option i64_ok (ar_end_timestamp ardrive_record)"
    by (simp add: ardrive_record_def i64_ok_def ONE_YEAR_SECONDS_def)
  ultimately show ?thesis
    using core_liveness_agrees_with_arns [of "account_at (core_demo_env 0) 131" ardrive_record 3000]
      core_liveness_agrees_with_arns [of "account_at (core_demo_env 0) 131" ardrive_record 1000000000]
    by (simp add: ardrive_record_def is_active_def is_in_grace_period_def clamp_i64_def ONE_YEAR_SECONDS_def
        GRACE_PERIOD_SECONDS_def)
qed

end
