(* ===== verification/Ant_Properties.thy ===== *)
theory Ant_Properties
  imports Ant_Fixtures
begin

text \<open>
  The properties of \<open>ario-ant\<close>: who may change an ANT, that its accounts stay well formed and fit
  their space, the access lists over every history, the walk over imported accounts, and the traits
  of an asset.
\<close>

section \<open>A short history\<close>

text \<open>The holder removes controller 30, and a stranger tries to rename the ANT.\<close>

definition removed_ants :: ant_state where
  "removed_ants = demo_ants\<lparr>ant_controller_lists := [40 \<mapsto> demo_controllers [10]],
     acl_configs := [10 \<mapsto> demo_head 10 1, 30 \<mapsto> demo_head 30 0],
     acl_pages := [(10, 0) \<mapsto> demo_page 10 [\<lparr>ae_asset = 40, ae_role = 0\<rparr>], (30, 0) \<mapsto> demo_page 30 []]\<rparr>"

definition ant_txs :: "(ant_env \<times> ant_op) list" where
  "ant_txs = [(ant_demo_env 2000, AntRecordOp 40 10 (RemoveControllerOp 30 0)),
     (ant_demo_env 2500, AntRecordOp 40 99 (SetNameOp ''mine''))]"

lemma demo_ants_simps:
  "ant_configs demo_ants = [40 \<mapsto> demo_ant_config]" "ant_controller_lists demo_ants = [40 \<mapsto> demo_controllers [10, 30]]"
  "ant_records demo_ants = [(40, 1) \<mapsto> demo_root, (40, 4) \<mapsto> demo_docs]" "ant_metadata demo_ants = Map.empty"
  "acl_configs demo_ants = [10 \<mapsto> demo_head 10 1, 30 \<mapsto> demo_head 30 1]"
  "acl_pages demo_ants = [(10, 0) \<mapsto> demo_page 10 [\<lparr>ae_asset = 40, ae_role = 0\<rparr>],
                  (30, 0) \<mapsto> demo_page 30 [\<lparr>ae_asset = 40, ae_role = 1\<rparr>]]"
  "mpl_log demo_ants = []"
  by (simp_all add: demo_ants_def)

lemma demo_ant_simps:
  "an_last_known_owner demo_ant_config = 10" "ct_controllers (demo_controllers cs) = cs"
  "al_user (demo_head u n) = u" "al_page_count (demo_head u n) = 1" "al_total_entries (demo_head u n) = n"
  "ap_user (demo_page u es) = u" "ap_page_idx (demo_page u es) = 0" "ap_entries (demo_page u es) = es"
  by (simp_all add: demo_ant_config_def demo_controllers_def demo_head_def demo_page_def)

lemma demo_asset: "core_asset (ant_demo_env t) 40 k = k (plugin_data asset_head [program_trait] [])"
  by (simp add: core_asset_def demo_asset_simps require_def)

lemma demo_asset_owner: "read_asset_owner_data (plugin_data asset_head as rest) = Inr 10"
  by (simp add: plugin_data_def asset_head_reads)

lemma demo_reconcile:
  "reconcile_and_check_permission demo_ant_config (demo_controllers cs) 10 u
     = (demo_ant_config, demo_controllers cs, u = 10 \<or> u \<in> set cs)"
  by (simp add: reconcile_and_check_permission_def reconcile_ownership_def demo_ant_simps)

lemma remove_run: "ant_step (ant_demo_env 2000) (AntRecordOp 40 10 (RemoveControllerOp 30 0)) demo_ants = Inr removed_ants"
proof -
  have "remove_entry 30 (demo_head 30 1) (demo_page 30 [\<lparr>ae_asset = 40, ae_role = 1\<rparr>]) 40 AclController
      (save_ant 40 demo_ant_config (demo_controllers [10]) demo_ants) = Inr removed_ants"
    by (simp add: remove_entry_def page_swap_remove_def ok_or_def swap_remove_def removed_ants_def demo_ants_def
        demo_page_def demo_head_def saturating_sub_def save_ant_def fun_upd_twist)
  moreover have "(demo_controllers cs)\<lparr>ct_controllers := ds\<rparr> = demo_controllers ds" for cs ds
    by (simp add: demo_controllers_def)
  ultimately show ?thesis
    by (simp add: ant_step_def ant_record_step_def remove_controller_def AntAccounts_def acl_accounts_def permitted_def
        assert_page_belongs_def demo_ants_simps demo_asset demo_asset_owner demo_reconcile demo_ant_simps require_def ok_or_def)
qed

lemma rename_fails: "ant_step (ant_demo_env 2500) (AntRecordOp 40 99 (SetNameOp ''mine'')) removed_ants = Inl AntUnauthorized"
proof -
  have "ant_configs removed_ants = [40 \<mapsto> demo_ant_config]" "ant_controller_lists removed_ants = [40 \<mapsto> demo_controllers [10]]"
    by (simp_all add: removed_ants_def demo_ants_simps)
  then show ?thesis
    by (simp add: ant_step_def ant_record_step_def set_name_def ant_accounts_defs
        demo_asset demo_asset_owner demo_reconcile demo_ant_simps require_def ok_or_def ANT_MAX_NAME_LENGTH_def)
qed

lemma ant_txs_exec: "ant_exec ant_txs demo_ants = removed_ants"
  by (simp add: ant_txs_def remove_run rename_fails)

lemma demo_room: "acl_room demo_ants" "acl_room removed_ants"
  by (simp_all add: acl_room_def entry_total_def msum_def removed_ants_def demo_ants_def demo_page_def)

lemma lower_map: "lower (map ascii_lowercase t)"
  by (simp add: lower_def list_all_iff)

lemma ant_txs_trace: "ant_trace length_hash 2000 ant_txs demo_ants"
  by (simp add: ant_txs_def remove_run rename_fails ant_runtime_def demo_room lower_map)

section \<open>Authority\<close>

text \<open>
  C3: an ANT changes with authority only. Whatever instruction succeeds, for every ANT it either
  left the accounts alone, or its signer holds the asset or is a controller whom the present holder
  kept; or the signer is the delegate of one record, named while the present holder held the asset,
  and repointed or passed on this record and nothing else; or it only dropped the controllers of a
  former holder, or metadata of records that are gone; or the asset is burnt and the administrator
  cleans up. Wallets of a former holder can do nothing, even before anyone reconciles.
\<close>

theorem ant_is_changed_only_with_authority:
  assumes "ant_inv H s" and "ant_step env op s = Inr s'"
  shows "ant_part m s' = ant_part m s
    \<or> controls env s m (ant_signer op)
    \<or> (\<exists>h. delegate env s m h (ant_signer op) \<and> delegate_change env m h s s')
    \<or> reconciled env m s s' \<and> (\<forall>h. ant_records s' (m, h) = ant_records s (m, h) \<and> ant_metadata s' (m, h) = ant_metadata s (m, h))
    \<or> orphans_closed m s s'
    \<or> burnt env s m (ant_signer op)"
  using ant_step_permitted [OF assms(2) ants_ok_mints, of H m] assms(1)
  unfolding permitted_change_def ant_inv_def by blast

text \<open>Removing a controller changed the ANT, so the signer had a right to it.\<close>

theorem ant_is_changed_only_with_authority_witness: "controls (ant_demo_env 2000) demo_ants 40 10"
proof -
  have "ant_part 40 removed_ants \<noteq> ant_part 40 demo_ants" "\<not> orphans_closed 40 demo_ants removed_ants"
    by (simp_all add: ant_part_eq orphans_closed_def removed_ants_def demo_ants_def demo_controllers_def)
  moreover have "\<not> reconciled (ant_demo_env 2000) 40 demo_ants removed_ants"
    by (auto simp: reconciled_def reconcile_ownership_def removed_ants_def demo_ants_def demo_ant_simps demo_controllers_def
        split: if_splits)
  moreover have "\<not> burnt (ant_demo_env 2000) demo_ants 40 10" by (simp add: burnt_def demo_ants_def)
  moreover have "\<not> delegate (ant_demo_env 2000) demo_ants 40 h 10" for h
    by (auto simp: delegate_def demo_ants_simps demo_root_def demo_docs_def split: if_splits)
  ultimately show ?thesis
    using ant_is_changed_only_with_authority [OF demo_ants_inv remove_run, of 40] by auto
qed

section \<open>Every history\<close>

text \<open>
  C27: the accounts of an ANT always fit. After any sequence of transactions the stored form of every
  configuration, controller list, record and record metadata is no longer than the space its account
  was allocated with, no ANT has more than four controllers or one of them twice, and every record
  sits at the hash of its own undername; so no instruction can fail half-way or corrupt an account
  for want of space.
\<close>

theorem ant_accounts_always_fit:
  assumes "ant_inv H s" and "ant_trace H t txs s"
  shows "(\<forall>m c. ant_configs (ant_exec txs s) m = Some c \<longrightarrow> 8 + length (borsh_ant_config c) \<le> ANT_CONFIG_SIZE)
    \<and> (\<forall>m l. ant_controller_lists (ant_exec txs s) m = Some l \<longrightarrow> 8 + length (borsh_ant_controllers l) \<le> ANT_CONTROLLERS_SIZE
        \<and> length (ct_controllers l) \<le> 4 \<and> distinct (ct_controllers l))
    \<and> (\<forall>m h r. ant_records (ant_exec txs s) (m, h) = Some r \<longrightarrow> 8 + length (borsh_ant_record r) \<le> ANT_RECORD_SIZE
        \<and> h = H (at_undername r))
    \<and> (\<forall>m h d. ant_metadata (ant_exec txs s) (m, h) = Some d \<longrightarrow> 8 + length (borsh_ant_metadata d) \<le> ANT_RECORD_METADATA_SIZE)"
proof -
  have ok: "ants_ok H (ant_exec txs s)" using ant.inv_exec [OF assms] by (simp add: ant_inv_def)
  note fields = ants_okD [OF ok]
  show ?thesis
    using config_sizes [OF fields(1)] controllers_sizes [OF fields(2)] fields(2) record_sizes [OF fields(3)] fields(3)
      metadata_sizes [OF fields(4)]
    by (auto simp: controllers_ok_def ant_record_ok_def MAX_CONTROLLERS_def)
qed

theorem ant_accounts_always_fit_witness:
  "8 + length (borsh_ant_config demo_ant_config) \<le> ANT_CONFIG_SIZE \<and> length_hash (at_undername demo_docs) = 4"
proof -
  have c: "ant_configs removed_ants 40 = Some demo_ant_config" and r: "ant_records removed_ants (40, 4) = Some demo_docs"
    by (simp_all add: removed_ants_def demo_ants_simps)
  note fit = ant_accounts_always_fit [OF demo_ants_inv ant_txs_trace, unfolded ant_txs_exec]
  have "8 + length (borsh_ant_config demo_ant_config) \<le> ANT_CONFIG_SIZE"
    by (rule fit [THEN conjunct1, rule_format, OF c])
  moreover have "4 = length_hash (at_undername demo_docs)"
    by (rule fit [THEN conjunct2, THEN conjunct2, THEN conjunct1, rule_format, OF r, THEN conjunct2])
  ultimately show ?thesis by simp
qed

text \<open>
  C13: access lists are always consistent. After any sequence of transactions the head of every
  wallet's list counts exactly the entries on its pages, its pages are exactly those below its page
  count, each page belongs to its wallet and position, holds at most 256 entries and none of them
  twice. The saturating counters of the source therefore never saturate.
\<close>

theorem acl_always_consistent:
  assumes "ant_inv H s" and "ant_trace H t txs s"
  shows "(\<forall>u c. acl_configs (ant_exec txs s) u = Some c \<longrightarrow>
        uint (al_total_entries c) = (\<Sum>k \<in> dom (acl_pages (ant_exec txs s)).
          if fst k = u then int (length (ap_entries (the (acl_pages (ant_exec txs s) k)))) else 0)
        \<and> (\<forall>i. acl_pages (ant_exec txs s) (u, i) \<noteq> None \<longleftrightarrow> i < al_page_count c))
    \<and> (\<forall>u i p. acl_pages (ant_exec txs s) (u, i) = Some p \<longrightarrow> ap_user p = u \<and> ap_page_idx p = i
        \<and> length (ap_entries p) \<le> 256 \<and> distinct (ap_entries p) \<and> acl_configs (ant_exec txs s) u \<noteq> None)"
proof -
  have ok: "acl_ok (ant_exec txs s)" using ant.inv_exec [OF assms] by (simp add: ant_inv_def)
  then have "page_ok (u, i) p \<and> acl_configs (ant_exec txs s) u \<noteq> None"
    if "acl_pages (ant_exec txs s) (u, i) = Some p" for u i p
    using that unfolding acl_ok_def by fastforce
  moreover have "head_ok (ant_exec txs s) u c" if "acl_configs (ant_exec txs s) u = Some c" for u c
    using ok that by (simp add: acl_ok_def)
  ultimately show ?thesis by (simp add: page_ok_def head_ok_def entry_total_def msum_def MAX_ACL_PAGE_ENTRIES_def)
qed

theorem acl_always_consistent_witness:
  "uint (al_total_entries (demo_head 10 1)) = (\<Sum>k \<in> dom (acl_pages removed_ants).
      if fst k = 10 then int (length (ap_entries (the (acl_pages removed_ants k)))) else 0)"
proof -
  have c: "acl_configs removed_ants 10 = Some (demo_head 10 1)" by (simp add: removed_ants_def)
  note acl = acl_always_consistent [OF demo_ants_inv ant_txs_trace, unfolded ant_txs_exec]
  show ?thesis by (rule acl [THEN conjunct1, rule_format, OF c, THEN conjunct1])
qed

section \<open>Imported accounts\<close>

text \<open>The first string of an account, at a fixed offset, is determined by its bytes.\<close>

lemma string_at_inject:
  assumes "holds_at data i (borsh_string t)" "holds_at data i (borsh_string u)" and "len_ok t" "len_ok u"
  shows "t = u"
proof -
  have same: "length t = length u"
    using assms holds_at_len [of "length t" i data] holds_at_len [of "length u" i data]
    by (simp add: borsh_string_def holds_at_append len_ok_def)
  have "text_bytes t = text_bytes u"
    using assms(1,2) same by (auto simp: borsh_string_def holds_at_append holds_at_take)
  then show ?thesis by simp
qed

lemma laid_out_first_string:
  "laid_out data (borsh_ant_config c) \<Longrightarrow> holds_at data 40 (borsh_string (an_name c))"
  "laid_out data (borsh_ant_record r) \<Longrightarrow> holds_at data 40 (borsh_string (at_undername r))"
  by (auto simp: laid_out_iff borsh_ant_config_def borsh_ant_record_def holds_at_append)

definition byte_ff :: string where "byte_ff = [CHR 0xFF]"

lemma byte_ff_simps [simp]: "len_ok byte_ff" "\<not> utf8_valid (text_bytes byte_ff)"
  by (simp_all add: byte_ff_def len_ok_def text_bytes_def)

lemma byte_ff_config:
  "config_fits (demo_ant_config\<lparr>an_name := byte_ff\<rparr>)" "record_fits (demo_root\<lparr>at_undername := byte_ff\<rparr>)"
  by (simp_all add: config_fits_def record_fits_def demo_ant_config_def demo_root_def keywords_fit_def len_ok_def
      byte_ff_def DEFAULT_LOGO_def MAX_KEYWORDS_def demo_target_def)

text \<open>
  C16: what the walk over an imported account accepts. Each of the four validators, a byte-by-byte
  walk with its own cursor, accepts some data if and only if the data is eight bytes, the fields of an
  account of this type in their order with lengths that fit a \<open>u32\<close> and lists within their limits, and
  zeros to the end. So every serialised account padded with zeros is accepted, and nothing truncated,
  shifted or followed by other bytes is. But the strings may be any bytes: the walk does not look for
  UTF-8, so it accepts a configuration and a record that no account with a UTF-8 name serialises to,
  and that the deserialisation it replaces would refuse.
\<close>

theorem import_walk_accepts_layouts_over_any_bytes:
  "(validate_ant_config_borsh_payload data = Inr () \<longleftrightarrow> (\<exists>c. config_fits c \<and> laid_out data (borsh_ant_config c)))
   \<and> (validate_ant_controllers_borsh_payload data = Inr () \<longleftrightarrow>
        (\<exists>l. length (ct_controllers l) \<le> MAX_CONTROLLERS \<and> laid_out data (borsh_ant_controllers l)))
   \<and> (validate_ant_record_borsh_payload data = Inr () \<longleftrightarrow> (\<exists>r. record_fits r \<and> laid_out data (borsh_ant_record r)))
   \<and> (validate_ant_record_metadata_borsh_payload data = Inr () \<longleftrightarrow>
        (\<exists>m. metadata_fits m \<and> laid_out data (borsh_ant_metadata m)))
   \<and> (\<exists>raw. validate_ant_config_borsh_payload raw = Inr ()
        \<and> \<not> (\<exists>c. config_fits c \<and> utf8_valid (text_bytes (an_name c)) \<and> laid_out raw (borsh_ant_config c)))
   \<and> (\<exists>raw. validate_ant_record_borsh_payload raw = Inr ()
        \<and> \<not> (\<exists>r. record_fits r \<and> utf8_valid (text_bytes (at_undername r)) \<and> laid_out raw (borsh_ant_record r)))"
proof (intro conjI validate_config_iff validate_controllers_iff validate_record_iff validate_metadata_iff)
  let ?c = "demo_ant_config\<lparr>an_name := byte_ff\<rparr>"
  let ?raw = "stored (replicate 8 0) (borsh_ant_config ?c) 0"
  have raw: "laid_out ?raw (borsh_ant_config ?c)" by (rule stored_laid_out) simp
  have "an_name c = byte_ff" if "config_fits c" "laid_out ?raw (borsh_ant_config c)" for c
    using string_at_inject [OF laid_out_first_string(1) [OF that(2)] laid_out_first_string(1) [OF raw]] that(1)
    by (simp add: config_fits_def)
  then show "\<exists>raw. validate_ant_config_borsh_payload raw = Inr ()
      \<and> \<not> (\<exists>c. config_fits c \<and> utf8_valid (text_bytes (an_name c)) \<and> laid_out raw (borsh_ant_config c))"
    using raw byte_ff_config(1) by (intro exI [of _ ?raw]) (auto simp: validate_config_iff)
next
  let ?r = "demo_root\<lparr>at_undername := byte_ff\<rparr>"
  let ?raw = "stored (replicate 8 0) (borsh_ant_record ?r) 0"
  have raw: "laid_out ?raw (borsh_ant_record ?r)" by (rule stored_laid_out) simp
  have "at_undername r = byte_ff" if "record_fits r" "laid_out ?raw (borsh_ant_record r)" for r
    using string_at_inject [OF laid_out_first_string(2) [OF that(2)] laid_out_first_string(2) [OF raw]] that(1)
    by (simp add: record_fits_def)
  then show "\<exists>raw. validate_ant_record_borsh_payload raw = Inr ()
      \<and> \<not> (\<exists>r. record_fits r \<and> utf8_valid (text_bytes (at_undername r)) \<and> laid_out raw (borsh_ant_record r))"
    using raw byte_ff_config(2) by (intro exI [of _ ?raw]) (auto simp: validate_record_iff)
qed

section \<open>Traits\<close>

text \<open>
  C29: a synchronisation keeps the ANT program. If the attributes plugin of the asset is the first
  place of its data that reads as a list of attributes, then what the synchronisation writes carries
  the name, the type and the limit of the name's record and the same \<open>ANT Program\<close> trait as before,
  or none if there was none; read back from the asset, the trait is found again.
\<close>

theorem ant_program_survives_sync:
  assumes run: "sync_attributes env m payer h name s = Inr s'"
    and asset: "ant_assets env m = Some a" "ra_data a = plugin_data pre as rest"
    and plugin: "pre \<noteq> []" "list_all kv_fits as" "length as \<le> 64"
      "plain_before (plugin_data pre as rest) (length pre) TRAIT_KEY_ANT_PROGRAM"
  shows "\<exists>auth bs r. mpl_log s' = mpl_log s @ [MplUpdate m payer auth (encode_update_attributes_ix_data bs)]
    \<and> ant_arns_records env h = Some r \<and> ar_ant r = m \<and> trait_value TRAIT_KEY_ARNS_NAME bs None = Some (ar_name r)
    \<and> trait_value TRAIT_KEY_TYPE bs None = Some (purchase_type_str (ar_purchase_type r))
    \<and> trait_value TRAIT_KEY_ANT_PROGRAM bs None = trait_value TRAIT_KEY_ANT_PROGRAM as None
    \<and> read_existing_attribute (ra_data a) TRAIT_KEY_ANT_PROGRAM = trait_value TRAIT_KEY_ANT_PROGRAM bs None"
proof -
  have read: "read_existing_attribute (ra_data a) TRAIT_KEY_ANT_PROGRAM = trait_value TRAIT_KEY_ANT_PROGRAM as None"
    unfolding asset(2) by (rule read_existing_plugin [OF plugin])
  obtain r auth where "ant_arns_records env h = Some r" "ar_ant r = m"
    "mpl_log s' = mpl_log s @ [MplUpdate m payer auth (encode_update_attributes_ix_data
       (build_attribute_list r (trait_value TRAIT_KEY_ANT_PROGRAM as None)))]"
    using sync_attributes_writes [OF run asset(1)] unfolding read by blast
  then show ?thesis
    by (intro exI [of _ auth] exI [of _ r]
        exI [of _ "build_attribute_list r (trait_value TRAIT_KEY_ANT_PROGRAM as None)"]) (simp add: built_traits read)
qed

lemma sync_run:
  "m = 40 \<and> name = ''ardrive'' \<and> h = 7 \<or> m = 41 \<and> name = ''static'' \<and> h = 6 \<Longrightarrow>
     \<exists>s'. sync_attributes (ant_demo_env t) m 99 h name demo_ants = Inr s'"
  using asset_head_reads(2)
  by (auto simp: sync_attributes_def core_asset_def demo_asset_simps plugin_data_def require_def ant_authority_def
      ant_lowercase_def ascii_lowercase_def is_ascii_uppercase_def length_hash_def ok_or_def ardrive_record_def
      update_attributes_plugin_def mpl_invoke_def Let_def)

theorem ant_program_survives_sync_witness:
  "\<exists>s' auth bs. sync_attributes (ant_demo_env 2000) 40 99 7 ''ardrive'' demo_ants = Inr s'
    \<and> mpl_log s' = [MplUpdate 40 99 auth (encode_update_attributes_ix_data bs)]
    \<and> trait_value TRAIT_KEY_ANT_PROGRAM bs None = Some ''ant''"
proof -
  obtain s' where run: "sync_attributes (ant_demo_env 2000) 40 99 7 ''ardrive'' demo_ants = Inr s'"
    using sync_run by blast
  have kept: "trait_value TRAIT_KEY_ANT_PROGRAM [program_trait] None = Some ''ant''" by (simp add: program_trait_def)
  have asset: "ant_assets (ant_demo_env 2000) 40 = Some \<lparr>ra_owner = MPL_CORE_PROGRAM_ID,
      ra_data = plugin_data asset_head [program_trait] []\<rparr>" by (simp add: demo_asset_simps)
  have len: "length [program_trait] \<le> 64" by simp
  from ant_program_survives_sync [OF run asset raw_account.simps(2) asset_head_nonempty(1) demo_trait_fits len demo_plain]
  obtain auth bs where "mpl_log s' = mpl_log demo_ants @ [MplUpdate 40 99 auth (encode_update_attributes_ix_data bs)]"
    "trait_value TRAIT_KEY_ANT_PROGRAM bs None = Some ''ant''" unfolding kept by blast
  then show ?thesis using run by (auto simp: demo_ants_simps)
qed

text \<open>
  C34: a run of zeros in front of the plugin erases the trait. If the first byte of the data that equals the
  plugin's variant is followed by four zeros, as a sequence number of six would be, the scan takes
  them for an empty list and stops, and the synchronisation writes a list without the \<open>ANT Program\<close>
  trait, whatever the plugin that follows holds: the program that manages the ANT is forgotten.
\<close>

theorem decoy_erases_ant_program:
  assumes run: "sync_attributes env m payer h name s = Inr s'"
    and asset: "ant_assets env m = Some a" "ra_data a = pre @ [PLUGIN_VARIANT_ATTRIBUTES, 0, 0, 0, 0] @ rest"
    and pre: "pre \<noteq> []" "PLUGIN_VARIANT_ATTRIBUTES \<notin> set pre"
  shows "\<exists>auth bs. mpl_log s' = mpl_log s @ [MplUpdate m payer auth (encode_update_attributes_ix_data bs)]
    \<and> trait_value TRAIT_KEY_ANT_PROGRAM bs None = None"
proof -
  have read: "read_existing_attribute (ra_data a) TRAIT_KEY_ANT_PROGRAM = None"
    unfolding asset(2) by (rule read_existing_decoy [OF pre])
  obtain r auth where "mpl_log s' = mpl_log s
      @ [MplUpdate m payer auth (encode_update_attributes_ix_data (build_attribute_list r None))]"
    using sync_attributes_writes [OF run asset(1)] unfolding read by blast
  then show ?thesis by (intro exI [of _ auth] exI [of _ "build_attribute_list r None"]) (simp add: built_traits)
qed

text \<open>Asset 41 holds the same plugin as asset 40, behind such a run.\<close>

theorem decoy_erases_ant_program_witness:
  "\<exists>s' auth bs. sync_attributes (ant_demo_env 2000) 41 99 6 ''static'' demo_ants = Inr s'
    \<and> mpl_log s' = [MplUpdate 41 99 auth (encode_update_attributes_ix_data bs)]
    \<and> trait_value TRAIT_KEY_ANT_PROGRAM bs None = None"
proof -
  obtain s' where run: "sync_attributes (ant_demo_env 2000) 41 99 6 ''static'' demo_ants = Inr s'"
    using sync_run by blast
  note decoy = decoy_erases_ant_program [OF run _ _ asset_head_nonempty(1) asset_head_plain]
  have "ant_assets (ant_demo_env 2000) 41 = Some \<lparr>ra_owner = MPL_CORE_PROGRAM_ID, ra_data = asset_head
      @ [PLUGIN_VARIANT_ATTRIBUTES, 0, 0, 0, 0] @ plugin_data [] [program_trait] []\<rparr>"
    by (simp add: demo_asset_simps)
  from decoy [OF this raw_account.simps(2)] obtain auth bs where
    "mpl_log s' = mpl_log demo_ants @ [MplUpdate 41 99 auth (encode_update_attributes_ix_data bs)]"
    "trait_value TRAIT_KEY_ANT_PROGRAM bs None = None" by blast
  then show ?thesis using run by (auto simp: demo_ants_simps)
qed

end
