(* ===== verification/Spec2Isabelle.thy ===== *)
theory Spec2Isabelle
  imports Gar_Properties Gar_Epoch_Properties Gar_Stake_Properties Arns_Rollover Arns_Properties Core_Properties Ant_Properties
begin

text \<open>
  A verification library for the AR.IO network contracts: four Solana programs under
  \<open>src/programs\<close>, modelled handler by handler, with the theorems that make them correct.

  The programs and how they interact. \<open>ario-gar\<close> is the gateway registry: operators join with a
  stake, delegators add to it, epochs select observers, count failures and distribute rewards; all
  stake lies in one token account, the pool. \<open>ario-arns\<close> sells names as leases or for good, returns
  them through auctions, and prices them by a demand factor; a buyer may pay from stake, by a
  cross-program call into \<open>ario-gar\<close>. \<open>ario-core\<close> keeps the supply counters, time-locked vaults and
  primary names; it reads the accounts of \<open>ario-arns\<close> and \<open>ario-ant\<close> as raw bytes, pays into the same
  treasury, also from stake, and releases treasury tokens during a distribution. \<open>ario-ant\<close> keeps
  what a name resolves to: an ANT is a Metaplex Core asset with records, controllers and metadata,
  and a paginated list per wallet of the ANTs it holds or controls.

  How a program is modelled. Every account struct is a record, every account a field of the
  program's state: a map from the seeds of its address to the record. Every instruction is one
  function from an environment, the accounts and arguments of the transaction and the state to an
  error or the new state, with the checks of the account context and of the handler in the order of
  the source. What the repository only calls is a parameter: the environment record holds the clock,
  addresses and bumps of derived accounts, other programs' accounts, the answers of the Token program
  and of Metaplex Core, SHA-256 and the Unicode tables. Transfers and Metaplex requests are logged in
  the state. Machine integers are words of their width; timestamps are \<open>i64\<close> values written as \<open>int\<close>
  with the range checked where the source checks it. Each program's \<open>*_step\<close> function dispatches its
  instructions as \<open>lib.rs\<close> does, and \<open>Machine\<close> runs sequences of transactions in which a failed one
  leaves the state as it was.

  Shared theories. \<open>Prelude\<close>: results, \<open>require!\<close>, checked and saturating arithmetic, sums over
  maps. \<open>Runtime\<close>: environment, token accounts, transfers. \<open>Bytes\<close> and \<open>Borsh\<close>: little-endian
  integers and the layout of account data, with the locale \<open>borsh_field\<close> for a parser that accepts
  exactly the bytes of a field. \<open>Machine\<close>: the locale \<open>machine_invariant\<close>, interpreted by every
  program on its step function.

  \<open>ario-gar\<close>. \<open>Gar_State\<close> has the accounts and pure functions of \<open>state/mod.rs\<close>; \<open>Gar_Stake\<close>,
  \<open>Gar_Delegate\<close>, \<open>Gar_Gateway\<close>, \<open>Gar_Payment\<close>, \<open>Gar_Epoch\<close>, \<open>Gar_Observation\<close>, \<open>Gar_Distribution\<close>
  and \<open>Gar_Admin\<close> have the handlers of the files of \<open>instructions/\<close>; \<open>Gar_System\<close> the dispatch.
  \<open>Gar_Ledger\<close> states the abstract contract, a double-entry book of the pool, and the theories
  \<open>Gar_Conserve_*\<close> prove for each instruction which entries it posts; \<open>Gar_Registry\<close> the bijection of
  slots and gateways; \<open>Gar_Lifecycle\<close> the phases of an epoch; \<open>Gar_Roulette\<close>, \<open>Gar_Prescription\<close> and
  \<open>Gar_Tally\<close> the selection of observers; \<open>Gar_Rewards\<close> and \<open>Gar_Fees\<close> the arithmetic; \<open>Gar_Frame\<close>
  what instructions leave alone; \<open>Gar_Vaults\<close> which of them may touch a withdrawal vault;
  \<open>Gar_Settings\<close> what becomes of the epoch settings. The properties are in \<open>Gar_Properties\<close>, \<open>Gar_Epoch_Properties\<close> and
  \<open>Gar_Stake_Properties\<close>.

  \<open>ario-arns\<close>. \<open>Arns_State\<close>, \<open>Arns_Pricing\<close>, \<open>Arns_Demand\<close>, \<open>Arns_Names\<close>, \<open>Arns_Manage\<close>,
  \<open>Arns_From_Stake\<close> and \<open>Arns_System\<close> model it. \<open>Arns_Registry\<close> shows the swap-remove table to be an
  index (locale \<open>name_index\<close>); \<open>Arns_Lifecycle\<close> has the abstract state machine of one name, which
  every instruction refines; \<open>Arns_Invariant\<close>, \<open>Arns_Safety\<close> and \<open>Arns_Payments\<close> the invariant, the
  rights of a holder and the payments; \<open>Arns_Rollover\<close> and \<open>Arns_Catchup\<close> the fast-forward of the
  demand factor against the loop that rolls one period at a time. Properties: \<open>Arns_Properties\<close>.

  \<open>ario-core\<close>. \<open>Core_State\<close>, \<open>Core_Vault\<close>, \<open>Core_Records\<close> (the readers of foreign accounts),
  \<open>Core_Names\<close>, \<open>Core_Admin\<close> and \<open>Core_System\<close> model it. \<open>Core_Effects\<close> condenses every instruction to
  one case of an inductive relation, over which \<open>Core_Invariant\<close> proves the supply, the vaults and the
  primary names, and \<open>Core_Safety\<close> locks, consent and fees. \<open>Core_Codec\<close> proves the raw readers
  against the layouts that \<open>ario-ant\<close> and \<open>ario-arns\<close> write. Properties: \<open>Core_Properties\<close>.

  \<open>ario-ant\<close>. \<open>Ant_State\<close>, \<open>Ant_Records\<close>, \<open>Ant_Acl\<close>, \<open>Ant_Import\<close>, \<open>Ant_Attributes\<close> and \<open>Ant_System\<close>
  model \<open>lib.rs\<close>, \<open>acl.rs\<close>, \<open>migration.rs\<close> and \<open>mpl_core_cpi.rs\<close>. \<open>Ant_Access\<close> proves who may change
  what; \<open>Ant_Codec\<close> the import's walk against the layouts; \<open>Ant_Invariant\<close> and \<open>Ant_Sizes\<close> the
  accounts, the access lists and the allocated sizes; \<open>Ant_Traits\<close> the scan for an attribute.
  Properties: \<open>Ant_Properties\<close>. The theories \<open>*_Fixtures\<close> hold a small concrete deployment of each
  program, on which the properties are applied.

  Bounds and side conditions. No model uses fuel: loops recurse on lists, counts or a measure. The
  cycle search of the demand factor ends within 53 steps and the walk to the first boundary within
  510 turns, for every factor in its bounds, so no period gap is too long; clocks are assumed below
  \<open>2 ^ 62\<close> there. Histories of \<open>ario-gar\<close> assume a Token program that keeps the pool's balance in a
  \<open>u64\<close> and moves it only by the pool's authority. Histories of \<open>ario-core\<close> assume that a supply
  reported at the end of the migration reports what the vaults lock, and that the zero key signs
  nothing. Histories of \<open>ario-ant\<close> assume that no wallet has \<open>2 ^ 64\<close> entries, and that a record
  found at the hash of an undername is the record of that undername, since SHA-256 has no known
  collision. Each is instantiated by the fixtures. Strings are lists of bytes: the model does not ask
  that they be UTF-8, which the code's \<open>String\<close> always is, and the validators of imported accounts do
  not ask it either. A history of \<open>ario-gar\<close> runs over one epoch settings account; closing it and
  initialising another is not one of its instructions.

  Not modelled. Of \<open>ario-gar\<close>: the migration, \<open>close_epoch_settings\<close> and
  \<open>create_gateway_registry\<close>, which close and allocate accounts; of the administrative repairs,
  \<open>admin_repair_settings\<close>, \<open>admin_reconcile_delegated_stake\<close> and \<open>admin_resync_supply_counters\<close>
  overwrite counters and are kept out of the histories. Of all programs: schema migrations and the
  raw write of imported accounts, which rewrite bytes of layouts that the model does not keep; rent,
  account allocation and resizing; events and log messages. \<open>ario-ant-escrow\<close> rests on signature
  verification that is not part of the repository. Clients, scripts, test utilities and tests are not
  part of the programs.
\<close>

end
